(* ===== verification/Go_Prelude.thy ===== *)
theory Go_Prelude
  imports Main "HOL-Library.Sublist" "HOL-Library.List_Lexorder" "HOL-Library.Char_ord"
begin

text \<open>
  Shared vocabulary of the development: the fragments of the Go language and of its standard
  library that the modelled packages use (byte strings and package \<^verbatim>\<open>strings\<close>,
  \<^verbatim>\<open>strconv.Atoi\<close>, maps, instants and durations), the collections of rewrite rules the
  component proofs share, and generic lemmas on lists, options and maps.

  Conventions.
  \<^item> A Go \<^verbatim>\<open>string\<close> is a byte string: type \<^typ>\<open>string\<close>, one \<^typ>\<open>char\<close> per byte
    (UTF-8 for text).
  \<^item> A Go map is a partial function \<open>'k \<rightharpoonup> 'v\<close>; where a function ranges over a map, the map
    is an association list with distinct keys whose order stands for Go's unspecified iteration
    order.
  \<^item> An instant is a number of nanoseconds (type \<open>int\<close>), a duration is a difference of
    instants; a function that reads the clock takes the instant as an argument.
  \<^item> Go's \<^verbatim>\<open>int\<close> and \<^verbatim>\<open>int64\<close> are unbounded integers except where a bound of the type
    decides the result (\<^verbatim>\<open>strconv.Atoi\<close>).
\<close>

named_theorems model_defs "definitions of small operations, unfolded by component proofs"
named_theorems frame_simps "what an operation leaves unchanged"
named_theorems inv_intros "operations that preserve an invariant"

type_synonym instant = int
type_synonym duration = int
type_synonym string_map = "string \<rightharpoonup> string"

subsection \<open>Durations\<close>

definition Millisecond :: duration where "Millisecond = 1000000"
definition Second :: duration where "Second = 1000 * Millisecond"
definition Minute :: duration where "Minute = 60 * Second"
definition Hour :: duration where "Hour = 60 * Minute"

lemmas duration_defs = Millisecond_def Second_def Minute_def Hour_def

subsection \<open>Package strings\<close>

abbreviation HasPrefix :: "string \<Rightarrow> string \<Rightarrow> bool" where
  "HasPrefix s p \<equiv> prefix p s"

abbreviation HasSuffix :: "string \<Rightarrow> string \<Rightarrow> bool" where
  "HasSuffix s p \<equiv> suffix p s"

abbreviation Contains :: "string \<Rightarrow> string \<Rightarrow> bool" where
  "Contains s p \<equiv> sublist p s"

definition TrimPrefix :: "string \<Rightarrow> string \<Rightarrow> string" where
  "TrimPrefix s p = (if HasPrefix s p then drop (length p) s else s)"

text \<open>\<^verbatim>\<open>strings.IndexByte\<close>: the index of the first occurrence (\<open>None\<close> for \<open>-1\<close>).\<close>

fun IndexByte :: "string \<Rightarrow> char \<Rightarrow> nat option" where
  "IndexByte [] c = None"
| "IndexByte (x # xs) c = (if x = c then Some 0 else map_option Suc (IndexByte xs c))"

text \<open>\<^verbatim>\<open>strings.IndexAny\<close> for a set of ASCII characters.\<close>

fun IndexAny :: "string \<Rightarrow> string \<Rightarrow> nat option" where
  "IndexAny [] cs = None"
| "IndexAny (x # xs) cs = (if x \<in> set cs then Some 0 else map_option Suc (IndexAny xs cs))"

abbreviation ContainsAny :: "string \<Rightarrow> string \<Rightarrow> bool" where
  "ContainsAny s cs \<equiv> IndexAny s cs \<noteq> None"

text \<open>\<^verbatim>\<open>strings.Split\<close> at a one-byte separator: at least one part, the separators removed.\<close>

fun SplitOn :: "char \<Rightarrow> string \<Rightarrow> string list" where
  "SplitOn c [] = [[]]"
| "SplitOn c (x # xs) =
     (if x = c then [] # SplitOn c xs
      else (case SplitOn c xs of [] \<Rightarrow> [[x]] | p # ps \<Rightarrow> (x # p) # ps))"

text \<open>\<^verbatim>\<open>strings.SplitN\<close> with a positive limit on the number of parts.\<close>

fun SplitN :: "nat \<Rightarrow> char \<Rightarrow> string \<Rightarrow> string list" where
  "SplitN n c [] = [[]]"
| "SplitN n c (x # xs) =
     (if n \<le> 1 then [x # xs]
      else if x = c then [] # SplitN (n - 1) c xs
      else (case SplitN n c xs of [] \<Rightarrow> [[x]] | p # ps \<Rightarrow> (x # p) # ps))"

text \<open>\<^verbatim>\<open>strings.Join\<close>.\<close>

fun Join :: "string list \<Rightarrow> string \<Rightarrow> string" where
  "Join [] sep = []"
| "Join [p] sep = p"
| "Join (p # ps) sep = p @ sep @ Join ps sep"

text \<open>
  The white space of \<^verbatim>\<open>unicode.IsSpace\<close>, as UTF-8 byte strings: the six ASCII characters,
  U+0085, U+00A0, U+1680, U+2000 to U+200A, U+2028, U+2029, U+202F, U+205F and U+3000.
\<close>

definition space_encodings :: "string list" where
  "space_encodings =
     [[CHR 0x09], [CHR 0x0A], [CHR 0x0B], [CHR 0x0C], [CHR 0x0D], [CHR 0x20],
      [CHR 0xC2, CHR 0x85], [CHR 0xC2, CHR 0xA0], [CHR 0xE1, CHR 0x9A, CHR 0x80],
      [CHR 0xE2, CHR 0x80, CHR 0x80], [CHR 0xE2, CHR 0x80, CHR 0x81],
      [CHR 0xE2, CHR 0x80, CHR 0x82], [CHR 0xE2, CHR 0x80, CHR 0x83],
      [CHR 0xE2, CHR 0x80, CHR 0x84], [CHR 0xE2, CHR 0x80, CHR 0x85],
      [CHR 0xE2, CHR 0x80, CHR 0x86], [CHR 0xE2, CHR 0x80, CHR 0x87],
      [CHR 0xE2, CHR 0x80, CHR 0x88], [CHR 0xE2, CHR 0x80, CHR 0x89],
      [CHR 0xE2, CHR 0x80, CHR 0x8A], [CHR 0xE2, CHR 0x80, CHR 0xA8],
      [CHR 0xE2, CHR 0x80, CHR 0xA9], [CHR 0xE2, CHR 0x80, CHR 0xAF],
      [CHR 0xE2, CHR 0x81, CHR 0x9F], [CHR 0xE3, CHR 0x80, CHR 0x80]]"

text \<open>One leading character of white space, by its length in bytes (0 for none).\<close>

definition space_width :: "string list \<Rightarrow> string \<Rightarrow> nat" where
  "space_width encs s = (case find (\<lambda>e. prefix e s) encs of None \<Rightarrow> 0 | Some e \<Rightarrow> length e)"

function trim_left :: "string list \<Rightarrow> string \<Rightarrow> string" where
  "trim_left encs s =
     (if s = [] \<or> space_width encs s = 0 then s
      else trim_left encs (drop (space_width encs s) s))"
  by pat_completeness auto
termination
  by (relation "measure (\<lambda>(encs, s). length s)") auto

declare trim_left.simps [simp del]

definition TrimSpace :: "string \<Rightarrow> string" where
  "TrimSpace s =
     rev (trim_left (map rev space_encodings) (rev (trim_left space_encodings s)))"

text \<open>\<^verbatim>\<open>strings.ToUpper\<close> and \<^verbatim>\<open>strings.ToLower\<close> on ASCII text.\<close>

definition upper_char :: "char \<Rightarrow> char" where
  "upper_char c = (if 97 \<le> (of_char c :: nat) \<and> (of_char c :: nat) \<le> 122
                   then char_of ((of_char c :: nat) - 32) else c)"

definition lower_char :: "char \<Rightarrow> char" where
  "lower_char c = (if 65 \<le> (of_char c :: nat) \<and> (of_char c :: nat) \<le> 90
                   then char_of ((of_char c :: nat) + 32) else c)"

definition ToUpper :: "string \<Rightarrow> string" where
  "ToUpper s = map upper_char s"

definition ToLower :: "string \<Rightarrow> string" where
  "ToLower s = map lower_char s"

subsection \<open>Package strconv\<close>

definition digit_val :: "char \<Rightarrow> int option" where
  "digit_val c = (if 48 \<le> (of_char c :: nat) \<and> (of_char c :: nat) \<le> 57
                  then Some (int (of_char c) - 48) else None)"

fun digits_val :: "int \<Rightarrow> string \<Rightarrow> int option" where
  "digits_val acc [] = Some acc"
| "digits_val acc (c # cs) =
     (case digit_val c of None \<Rightarrow> None | Some d \<Rightarrow> digits_val (acc * 10 + d) cs)"

text \<open>
  The value \<^verbatim>\<open>strconv.Atoi\<close> returns when its error is ignored: 0 on a syntax error, the
  nearest \<^verbatim>\<open>int64\<close> on a range error.
\<close>

definition Atoi :: "string \<Rightarrow> int" where
  "Atoi s =
     (let neg = (case s of c # _ \<Rightarrow> c = CHR ''-'' | [] \<Rightarrow> False);
          body = (case s of c # cs \<Rightarrow> if c = CHR ''-'' \<or> c = CHR ''+'' then cs else s | [] \<Rightarrow> s)
      in if body = [] then 0
         else (case digits_val 0 body of
                 None \<Rightarrow> 0
               | Some n \<Rightarrow> if neg then max (- (2 ^ 63)) (- n) else min (2 ^ 63 - 1) n))"

text \<open>\<^verbatim>\<open>strconv.FormatInt\<close> and the \<^verbatim>\<open>%d\<close> verb of package fmt, in base ten.\<close>

fun nat_digits :: "nat \<Rightarrow> string" where
  "nat_digits n = (if n < 10 then [char_of (48 + n)]
                   else nat_digits (n div 10) @ [char_of (48 + n mod 10)])"

declare nat_digits.simps [simp del]

definition FormatInt :: "int \<Rightarrow> string" where
  "FormatInt i = (if i < 0 then CHR ''-'' # nat_digits (nat (- i)) else nat_digits (nat i))"

text \<open>
  \<^verbatim>\<open>strconv.Quote\<close>, the \<^verbatim>\<open>%q\<close> verb: the escapes of ASCII text; bytes of printable characters
  beyond ASCII stay as they are.
\<close>

definition hex_digit :: "nat \<Rightarrow> char" where
  "hex_digit n = char_of (if n < 10 then 48 + n else 87 + n)"

definition quote_char :: "char \<Rightarrow> string" where
  "quote_char c =
     (let n = (of_char c :: nat)
      in if n = 34 \<or> n = 92 then [CHR 0x5C, c]
         else if n \<in> {7, 8, 9, 10, 11, 12, 13}
         then [CHR 0x5C, [CHR ''a'', CHR ''b'', CHR ''t'', CHR ''n'', CHR ''v'', CHR ''f'', CHR ''r''] ! (n - 7)]
         else if n < 32 \<or> n = 127
         then [CHR 0x5C, CHR ''x'', hex_digit (n div 16), hex_digit (n mod 16)]
         else [c])"

definition quote :: "string \<Rightarrow> string" where
  "quote s = [CHR 0x22] @ concat (map quote_char s) @ [CHR 0x22]"

subsection \<open>Lemmas on strings\<close>

lemma IndexByte_Some_nth:
  "IndexByte s c = Some i \<Longrightarrow> i < length s \<and> s ! i = c \<and> c \<notin> set (take i s)"
proof (induction s arbitrary: i)
  case (Cons x xs)
  then show ?case by (cases i) (auto split: if_splits)
qed simp

lemma IndexByte_None_iff [simp]: "IndexByte s c = None \<longleftrightarrow> c \<notin> set s"
  by (induction s) auto

lemma IndexByte_append_first: "c \<notin> set p \<Longrightarrow> IndexByte (p @ c # q) c = Some (length p)"
  by (induction p) auto

lemma SplitOn_not_Nil [simp]: "SplitOn c s \<noteq> []"
  by (cases s) (auto split: list.splits)

lemma SplitOn_no_sep: "c \<notin> set s \<Longrightarrow> SplitOn c s = [s]"
  by (induction s) auto

lemma SplitOn_append_sep: "c \<notin> set p \<Longrightarrow> SplitOn c (p @ c # q) = p # SplitOn c q"
  by (induction p) auto

lemma SplitOn_Join:
  "\<forall>p \<in> set (p0 # ps). c \<notin> set p \<Longrightarrow> SplitOn c (Join (p0 # ps) [c]) = p0 # ps"
  by (induction ps arbitrary: p0) (auto simp: SplitOn_no_sep SplitOn_append_sep)

lemma Join_Cons_append: "ps \<noteq> [] \<Longrightarrow> Join (p # ps) sep = p @ sep @ Join ps sep"
  by (cases ps) auto

lemma TrimPrefix_append [simp]: "TrimPrefix (p @ s) p = s"
  by (simp add: TrimPrefix_def)

subsection \<open>Decimal numbers differ as texts\<close>

lemma of_char_char_of_small: "n < 256 \<Longrightarrow> (of_char (char_of n :: char) :: nat) = n"
  by simp

lemma digit_char_inj:
  assumes "a < 10" "b < 10" "(char_of (48 + a :: nat) :: char) = char_of (48 + b)"
  shows "a = b"
proof -
  from assms(3) have "(of_char (char_of (48 + a :: nat) :: char) :: nat) = of_char (char_of (48 + b :: nat) :: char)"
    by simp
  then show ?thesis using assms(1,2) by (simp only: of_char_char_of_small)
qed

lemma nat_digits_not_Nil [simp]: "nat_digits n \<noteq> []"
  by (subst nat_digits.simps) simp

lemma nat_digits_inj: "nat_digits a = nat_digits b \<Longrightarrow> a = b"
proof (induction a arbitrary: b rule: nat_digits.induct)
  case (1 a)
  consider "a < 10" "b < 10" | "a < 10" "\<not> b < 10" | "\<not> a < 10" "b < 10" | "\<not> a < 10" "\<not> b < 10"
    by blast
  then show ?case
  proof cases
    case 1
    with \<open>nat_digits a = nat_digits b\<close> show ?thesis
      using digit_char_inj by (simp add: nat_digits.simps [of a] nat_digits.simps [of b])
  next
    case 4
    then have e: "nat_digits (a div 10) @ [char_of (48 + a mod 10)] =
        nat_digits (b div 10) @ [char_of (48 + b mod 10)]"
      using \<open>nat_digits a = nat_digits b\<close> by (simp add: nat_digits.simps [of a] nat_digits.simps [of b])
    then have "a div 10 = b div 10" using "1.IH" 4 by simp
    moreover have "a mod 10 = b mod 10" using e digit_char_inj [of "a mod 10" "b mod 10"] by simp
    ultimately show ?thesis by (metis div_mult_mod_eq)
  qed (use \<open>nat_digits a = nat_digits b\<close> in
      \<open>auto simp: nat_digits.simps [of a] nat_digits.simps [of b] Cons_eq_append_conv append_eq_Cons_conv\<close>)
qed

lemma nat_digits_no_minus: "CHR ''-'' \<notin> set (nat_digits n)"
proof (induction n rule: nat_digits.induct)
  case (1 n)
  have "\<And>k. k < 10 \<Longrightarrow> CHR ''-'' \<noteq> char_of (48 + k :: nat)"
  proof
    fix k :: nat assume "k < 10" "CHR ''-'' = char_of (48 + k)"
    then have "(of_char (CHR ''-'') :: nat) = of_char (char_of (48 + k :: nat) :: char)" by simp
    also have "\<dots> = 48 + k" using \<open>k < 10\<close> by (simp only: of_char_char_of_small)
    finally show False by simp
  qed
  then show ?case using 1 by (subst nat_digits.simps) auto
qed

lemma FormatInt_inj: "FormatInt a = FormatInt b \<longleftrightarrow> a = b"
proof
  assume e: "FormatInt a = FormatInt b"
  have "(a < 0) = (b < 0)"
    using e nat_digits_no_minus [of "nat a"] nat_digits_no_minus [of "nat b"]
    unfolding FormatInt_def by (metis list.set_intros(1))
  with e show "a = b" by (auto simp: FormatInt_def dest!: nat_digits_inj split: if_splits)
qed simp

subsection \<open>Lemmas on lists, options and maps\<close>

lemma find_Some_split:
  "find P xs = Some x \<longleftrightarrow> (\<exists>us vs. xs = us @ x # vs \<and> P x \<and> (\<forall>u \<in> set us. \<not> P u))"
proof
  assume "find P xs = Some x"
  then show "\<exists>us vs. xs = us @ x # vs \<and> P x \<and> (\<forall>u \<in> set us. \<not> P u)"
  proof (induction xs)
    case (Cons y ys)
    show ?case
    proof (cases "P y")
      case True
      with Cons.prems have "y # ys = [] @ x # ys \<and> P x" by simp
      then show ?thesis by fastforce
    next
      case False
      with Cons obtain us vs where "ys = us @ x # vs" "P x" "\<forall>u \<in> set us. \<not> P u" by auto
      with False have "y # ys = (y # us) @ x # vs \<and> P x \<and> (\<forall>u \<in> set (y # us). \<not> P u)" by simp
      then show ?thesis by blast
    qed
  qed simp
next
  assume "\<exists>us vs. xs = us @ x # vs \<and> P x \<and> (\<forall>u \<in> set us. \<not> P u)"
  then obtain us vs where "xs = us @ x # vs" "P x" "\<forall>u \<in> set us. \<not> P u" by blast
  then show "find P xs = Some x" by (induction us arbitrary: xs) auto
qed

lemma find_None_all: "find P xs = None \<longleftrightarrow> (\<forall>x \<in> set xs. \<not> P x)"
  by (induction xs) auto

lemma map_le_upd_new: "m k = None \<Longrightarrow> m \<subseteq>\<^sub>m m(k \<mapsto> v)"
  by (auto simp: map_le_def)

subsection \<open>Relations that operations keep\<close>

text \<open>
  A relation between the state before and after, that allows no step and two steps in sequence: then
  it holds for an operation when it holds for its parts. The rules follow the constructs of the
  operations, one for each; their side conditions know how the branch was reached.
\<close>

locale kept =
  fixes R :: "'st \<Rightarrow> 'st \<Rightarrow> bool"
  assumes kept_refl: "R s s"
    and kept_trans: "R s s1 \<Longrightarrow> R s1 s2 \<Longrightarrow> R s s2"
begin

lemma kept_step: "R s s1 \<Longrightarrow> R s1 (fst (f s1)) \<Longrightarrow> R s (fst (f s1))"
  by (rule kept_trans)

lemma kept_pair: "R s s1 \<Longrightarrow> R s (fst (s1, x))"
  by simp

lemma kept_let: "(\<And>y. y = x \<Longrightarrow> R s (fst (f y))) \<Longrightarrow> R s (fst (Let x f))"
  by simp

lemma kept_if: "(b \<Longrightarrow> R s (fst x)) \<Longrightarrow> (\<not> b \<Longrightarrow> R s (fst y)) \<Longrightarrow> R s (fst (if b then x else y))"
  by simp

lemma kept_prod:
  assumes "R s (fst p)" "\<And>s1 x. p = (s1, x) \<Longrightarrow> R s s1 \<Longrightarrow> R s (fst (f s1 x))"
  shows "R s (fst (case p of (s1, x) \<Rightarrow> f s1 x))"
  using assms by (cases p) simp

lemma kept_sum:
  assumes "R s (fst p)" "\<And>s1 e. p = (s1, Inl e) \<Longrightarrow> R s s1 \<Longrightarrow> R s (fst (f s1 e))"
    and "\<And>s1 x. p = (s1, Inr x) \<Longrightarrow> R s s1 \<Longrightarrow> R s (fst (g s1 x))"
  shows "R s (fst (case p of (s1, Inl e) \<Rightarrow> f s1 e | (s1, Inr x) \<Rightarrow> g s1 x))"
  using assms by (cases p) (auto split: sum.split)

lemma kept_option:
  assumes "R s (fst p)" "\<And>s1. p = (s1, None) \<Longrightarrow> R s s1 \<Longrightarrow> R s (fst (f s1))"
    and "\<And>s1 x. p = (s1, Some x) \<Longrightarrow> R s s1 \<Longrightarrow> R s (fst (g s1 x))"
  shows "R s (fst (case p of (s1, None) \<Rightarrow> f s1 | (s1, Some x) \<Rightarrow> g s1 x))"
  using assms by (cases p) (auto split: option.split)

lemma kept_choice:
  assumes "x = None \<Longrightarrow> R s (fst a)" "\<And>y. x = Some y \<Longrightarrow> R s (fst (g y))"
  shows "R s (fst (case x of None \<Rightarrow> a | Some y \<Rightarrow> g y))"
  using assms by (cases x) auto

text \<open>The same where only the state is the result.\<close>

lemma kept_sum_state:
  assumes "R s (fst p)" "\<And>s1 e. p = (s1, Inl e) \<Longrightarrow> R s s1 \<Longrightarrow> R s (f s1 e)"
    and "\<And>s1 x. p = (s1, Inr x) \<Longrightarrow> R s s1 \<Longrightarrow> R s (g s1 x)"
  shows "R s (case p of (s1, Inl e) \<Rightarrow> f s1 e | (s1, Inr x) \<Rightarrow> g s1 x)"
  using assms by (cases p) (auto split: sum.split)

lemma kept_option_state:
  assumes "R s (fst p)" "\<And>s1. p = (s1, None) \<Longrightarrow> R s s1 \<Longrightarrow> R s (f s1)"
    and "\<And>s1 x. p = (s1, Some x) \<Longrightarrow> R s s1 \<Longrightarrow> R s (g s1 x)"
  shows "R s (case p of (s1, None) \<Rightarrow> f s1 | (s1, Some x) \<Rightarrow> g s1 x)"
  using assms by (cases p) (auto split: option.split)

lemma kept_choice_state:
  assumes "x = None \<Longrightarrow> R s a" "\<And>y. x = Some y \<Longrightarrow> R s (g y)"
  shows "R s (case x of None \<Rightarrow> a | Some y \<Rightarrow> g y)"
  using assms by (cases x) auto

lemma kept_fold: "(\<And>x s. R s (f x s)) \<Longrightarrow> R s (fold f xs s)"
proof (induction xs arbitrary: s)
  case (Cons x xs)
  then show ?case using kept_trans [of s "f x s"] by simp
qed (simp add: kept_refl)

lemmas kept_rules = kept_pair kept_let kept_sum kept_option kept_choice kept_if

end

end
