(* ===== verification/Bot_Model.thy ===== *)
theory Bot_Model
  imports Go_Prelude
begin

text \<open>
  The shared data of the program: \<^verbatim>\<open>internal/model\<close> (messages and their content blocks, user
  input, commands, dialog snapshots, users, notification preferences), the localisation fallback
  of \<^verbatim>\<open>internal/locale\<close>, and the error values of \<^verbatim>\<open>internal/errs\<close> together with the error
  chains that packages \<^verbatim>\<open>errors\<close> and \<^verbatim>\<open>fmt\<close> build over them. A record keeps the fields that
  the modelled operations read or write.
\<close>

subsection \<open>Messages (internal/model/message.go, file.go)\<close>

datatype text_style = StylePlain | StyleHeader | StyleSubheader | StyleCode | StyleQuote

record file_ref =
  fr_ID :: string
  fr_Name :: string
  fr_MIMEType :: string
  fr_Size :: int
  fr_FileType :: string

record option_item =
  opt_Label :: string
  opt_Labels :: string_map
  opt_Value :: string

datatype content_block =
    TextBlock string text_style
  | OptionsBlock string "option_item list"
  | LinkBlock string string
  | ImageBlock string
  | MentionBlock string string
  | FileBlock file_ref string

record message =
  Blocks :: "content_block list"

definition mk_option :: "string \<Rightarrow> string \<Rightarrow> option_item" where
  "mk_option label value = \<lparr>opt_Label = label, opt_Labels = Map.empty, opt_Value = value\<rparr>"

definition empty_message :: message where
  "empty_message = \<lparr>Blocks = []\<rparr>"

definition IsEmpty :: "message \<Rightarrow> bool" where
  "IsEmpty m \<longleftrightarrow> length (Blocks m) = 0"

definition NewTextMessage :: "string \<Rightarrow> message" where
  "NewTextMessage txt = \<lparr>Blocks = [TextBlock txt StylePlain]\<rparr>"

definition NewStyledTextMessage :: "string \<Rightarrow> text_style \<Rightarrow> message" where
  "NewStyledTextMessage txt style = \<lparr>Blocks = [TextBlock txt style]\<rparr>"

definition NewOptionsMessage :: "string \<Rightarrow> option_item list \<Rightarrow> message" where
  "NewOptionsMessage prompt options = \<lparr>Blocks = [OptionsBlock prompt options]\<rparr>"

definition NewLinkMessage :: "string \<Rightarrow> string \<Rightarrow> message" where
  "NewLinkMessage url label = \<lparr>Blocks = [LinkBlock url label]\<rparr>"

definition NewImageMessage :: "string \<Rightarrow> message" where
  "NewImageMessage url = \<lparr>Blocks = [ImageBlock url]\<rparr>"

definition NewFileMessage :: "file_ref \<Rightarrow> string \<Rightarrow> message" where
  "NewFileMessage ref caption = \<lparr>Blocks = [FileBlock ref caption]\<rparr>"

fun is_OptionsBlock :: "content_block \<Rightarrow> bool" where
  "is_OptionsBlock (OptionsBlock _ _) = True"
| "is_OptionsBlock _ = False"

fun is_MentionBlock :: "content_block \<Rightarrow> bool" where
  "is_MentionBlock (MentionBlock _ _) = True"
| "is_MentionBlock _ = False"

subsection \<open>User input (internal/model/input.go)\<close>

datatype user_input =
    TextInput string
  | CallbackInput string string int
  | FileInput string "file_ref list"

fun TextValue :: "user_input \<Rightarrow> string" where
  "TextValue (TextInput txt) = txt"
| "TextValue (CallbackInput data _ _) = data"
| "TextValue (FileInput caption _) = caption"

definition IsCommand :: "user_input \<Rightarrow> bool" where
  "IsCommand i \<longleftrightarrow> HasPrefix (TextValue i) ''/''"

definition parseCommandName :: "string \<Rightarrow> string" where
  "parseCommandName txt =
     (if \<not> HasPrefix txt ''/'' then ''''
      else let name = TrimPrefix txt ''/''
           in case IndexAny name '' @'' of Some idx \<Rightarrow> take idx name | None \<Rightarrow> name)"

definition CommandName :: "user_input \<Rightarrow> string" where
  "CommandName i = parseCommandName (TextValue i)"

fun is_CallbackInput :: "user_input \<Rightarrow> bool" where
  "is_CallbackInput (CallbackInput _ _ _) = True"
| "is_CallbackInput _ = False"

fun is_FileInput :: "user_input \<Rightarrow> bool" where
  "is_FileInput (FileInput _ _) = True"
| "is_FileInput _ = False"

subsection \<open>Commands, dialogs, roles (internal/model/command.go, roleRequirements.go)\<close>

type_synonym user_id = int
type_synonym channel_type = string
type_synonym option_map = string_map

definition option_get :: "option_map \<Rightarrow> string \<Rightarrow> string" where
  "option_get m k = (case m k of None \<Rightarrow> '''' | Some v \<Rightarrow> v)"

record command_request =
  cr_UserID :: user_id
  cr_ChannelType :: channel_type
  cr_ChatID :: string
  cr_ChatGroupID :: string
  cr_PluginID :: string
  cr_CommandName :: string
  cr_Params :: option_map
  cr_Locale :: string
  cr_Files :: "file_ref list"

record command_candidate =
  cc_PluginID :: string
  cc_CommandName :: string
  cc_FQName :: string
  cc_Descriptions :: "(string \<times> string) list"
  cc_Description :: string

record dialog_snapshot =
  snap_Params :: option_map
  snap_PageState :: "string \<rightharpoonup> int"

record dialog_state =
  ds_History :: "dialog_snapshot list"
  ds_NavigationToken :: string
  ds_UserID :: user_id
  ds_ChatID :: string
  ds_PluginID :: string
  ds_CommandName :: string
  ds_Params :: option_map
  ds_PageState :: "string \<rightharpoonup> int"
  ds_CreatedAt :: int

record role_requirements =
  rr_SystemRole :: string
  rr_GlobalRoles :: "string list"
  rr_PluginID :: string
  rr_PluginRole :: string
  rr_ScopeEntityID :: "int option"

subsection \<open>Users and notifications (internal/model/user.go, channelAccount.go, notification.go)\<close>

record channel_account =
  ca_ID :: int
  ca_ChannelType :: channel_type
  ca_ChannelUserID :: string
  ca_GlobalUserID :: user_id
  ca_Username :: string

record global_user =
  gu_ID :: user_id
  gu_PrimaryChannel :: channel_type
  gu_Locale :: string
  gu_Role :: string
  gu_Accounts :: "channel_account list"

definition PlatformUserID :: "global_user \<Rightarrow> string" where
  "PlatformUserID u =
     (case find (\<lambda>acc. ca_ChannelType acc = gu_PrimaryChannel u) (gu_Accounts u) of
        None \<Rightarrow> '''' | Some acc \<Rightarrow> ca_ChannelUserID acc)"

definition PriorityLow :: int where "PriorityLow = 0"
definition PriorityNormal :: int where "PriorityNormal = 1"
definition PriorityHigh :: int where "PriorityHigh = 2"
definition PriorityCritical :: int where "PriorityCritical = 3"

lemmas priority_defs = PriorityLow_def PriorityNormal_def PriorityHigh_def PriorityCritical_def

record notification_prefs =
  np_GlobalUserID :: user_id
  np_ChannelPriority :: "channel_type list"
  np_MuteMentions :: bool
  np_WorkHoursStart :: "int option"
  np_WorkHoursEnd :: "int option"
  np_Timezone :: string

record send_options =
  so_Silent :: bool
  so_StripMentions :: bool

definition StripMentionBlocks :: "message \<Rightarrow> message" where
  "StripMentionBlocks msg = \<lparr>Blocks = filter (\<lambda>b. \<not> is_MentionBlock b) (Blocks msg)\<rparr>"

subsection \<open>Locale fallback (internal/locale/locale.go)\<close>

text \<open>
  \<^verbatim>\<open>ResolveText\<close>: exact match, then the language before the first hyphen, then the default
  locale, then the first value of the map's iteration. The map is an association list; its order
  is the iteration order of the last loop.
\<close>

definition ResolveText :: "string \<Rightarrow> (string \<times> string) list \<Rightarrow> string \<Rightarrow> string" where
  "ResolveText deflt texts loc =
     (if length texts = 0 then ''''
      else case map_of texts loc of
        Some txt \<Rightarrow> txt
      | None \<Rightarrow>
          (case (case IndexByte loc (CHR ''-'') of
                   Some idx \<Rightarrow> if idx > 0 then map_of texts (take idx loc) else None
                 | None \<Rightarrow> None) of
             Some txt \<Rightarrow> txt
           | None \<Rightarrow>
               (case map_of texts deflt of
                  Some txt \<Rightarrow> txt
                | None \<Rightarrow> (case texts of (_, txt) # _ \<Rightarrow> txt | [] \<Rightarrow> ''''))))"

subsection \<open>Translations and the environment (internal/i18n/i18n.go)\<close>

text \<open>
  The message catalogue is package go-i18n: a parameter. \<open>None\<close> is the bundle before \<^verbatim>\<open>Init\<close>;
  a catalogue gives for a locale, a key and the template arguments the localised text, or \<open>None\<close>
  where \<^verbatim>\<open>Localize\<close> fails. \<^verbatim>\<open>Get\<close> then returns the key itself.
\<close>

type_synonym catalogue = "(string \<Rightarrow> string \<Rightarrow> string list \<Rightarrow> string option) option"

definition i18n_Get :: "catalogue \<Rightarrow> string \<Rightarrow> string \<Rightarrow> string list \<Rightarrow> string" where
  "i18n_Get bundle key loc args =
     (case bundle of
        None \<Rightarrow> key
      | Some localize \<Rightarrow> (case localize loc key args of None \<Rightarrow> key | Some msg \<Rightarrow> msg))"

text \<open>
  What every component reads and none writes: the catalogue, the default locale of
  \<^verbatim>\<open>locale.Default\<close>, and the outcomes of the random generator (\<open>env_token n\<close> is the hexadecimal
  token the \<open>n\<close>-th call of \<^verbatim>\<open>newNavigationToken\<close> draws).
\<close>

record env =
  env_bundle :: catalogue
  env_default_locale :: string
  env_token :: "nat \<Rightarrow> string"

abbreviation tr :: "env \<Rightarrow> string \<Rightarrow> string \<Rightarrow> string" where
  "tr E key loc \<equiv> i18n_Get (env_bundle E) key loc []"

subsection \<open>Errors (internal/errs/errors.go, packages errors and fmt)\<close>

datatype severity = SeverityUser | SeveritySilent | SeverityInternal

datatype error_code =
    ErrUserNotFound | ErrChatNotFound | ErrProjectNotFound | ErrPermissionDenied_code
  | ErrInvalidInput | ErrStateExpired | ErrCommandNotFound_code | ErrInternal | ErrChannelError

fun code_text :: "error_code \<Rightarrow> string" where
  "code_text ErrUserNotFound = ''USER_NOT_FOUND''"
| "code_text ErrChatNotFound = ''CHAT_NOT_FOUND''"
| "code_text ErrProjectNotFound = ''PROJECT_NOT_FOUND''"
| "code_text ErrPermissionDenied_code = ''PERMISSION_DENIED''"
| "code_text ErrInvalidInput = ''INVALID_INPUT''"
| "code_text ErrStateExpired = ''STATE_EXPIRED''"
| "code_text ErrCommandNotFound_code = ''COMMAND_NOT_FOUND''"
| "code_text ErrInternal = ''INTERNAL_ERROR''"
| "code_text ErrChannelError = ''CHANNEL_ERROR''"

fun severity_text :: "severity \<Rightarrow> string" where
  "severity_text SeverityUser = ''USER''"
| "severity_text SeveritySilent = ''SILENT''"
| "severity_text SeverityInternal = ''INTERNAL''"

text \<open>A completed command, carried by the error of a failed dispatch (channel/manager.go).\<close>

record completed_command =
  cmd_userID :: user_id
  cmd_channelType :: channel_type
  cmd_chatID :: string
  cmd_chatGroupID :: string
  cmd_pluginID :: string
  cmd_commandName :: string
  cmd_params :: option_map
  cmd_locale :: string
  cmd_files :: "file_ref list"

text \<open>
  The error values of the modelled packages. \<open>Sentinel\<close> are the package-level variables compared
  by identity, \<open>Plain\<close> an error with a text and nothing to unwrap, \<open>NetErr\<close> one that implements
  \<^verbatim>\<open>net.Error\<close>, \<open>Wrap pre e post\<close> what \<^verbatim>\<open>fmt.Errorf\<close> builds with one \<^verbatim>\<open>%w\<close> verb,
  \<open>Joined\<close> the result of \<^verbatim>\<open>errors.Join\<close>.
\<close>

datatype sentinel =
    ErrCommandNotFound | ErrNoActiveDialog | ErrNoAdapter | ErrMessageOperationUnsupported
  | ErrPermissionDenied | ContextCanceled

fun sentinel_text :: "sentinel \<Rightarrow> string" where
  "sentinel_text ErrCommandNotFound = ''command not found''"
| "sentinel_text ErrNoActiveDialog = ''no active dialog''"
| "sentinel_text ErrNoAdapter = ''no adapter registered for channel type''"
| "sentinel_text ErrMessageOperationUnsupported =
     ''message operation is not supported by this channel''"
| "sentinel_text ErrPermissionDenied = ''permission denied''"
| "sentinel_text ContextCanceled = ''context canceled''"

datatype go_error =
    Sentinel sentinel
  | Plain string
  | NetErr string
  | Wrap string go_error string
  | AppError error_code severity string "go_error option"
  | CompletedCommandError completed_command go_error
  | Joined "go_error list"

fun error_text :: "go_error \<Rightarrow> string" where
  "error_text (Sentinel s) = sentinel_text s"
| "error_text (Plain t) = t"
| "error_text (NetErr t) = t"
| "error_text (Wrap pre e post) = pre @ error_text e @ post"
| "error_text (AppError c s m None) = ''['' @ code_text c @ ''] '' @ m"
| "error_text (AppError c s m (Some e)) = ''['' @ code_text c @ ''] '' @ m @ '': '' @ error_text e"
| "error_text (CompletedCommandError cmd e) = error_text e"
| "error_text (Joined es) = Join (map error_text es) [CHR 0x0A]"

text \<open>\<^verbatim>\<open>errors.Is\<close> with a sentinel as the target.\<close>

fun errors_Is :: "go_error \<Rightarrow> sentinel \<Rightarrow> bool" where
  "errors_Is (Sentinel s) t = (s = t)"
| "errors_Is (Plain _) t = False"
| "errors_Is (NetErr _) t = False"
| "errors_Is (Wrap _ e _) t = errors_Is e t"
| "errors_Is (AppError _ _ _ None) t = False"
| "errors_Is (AppError _ _ _ (Some e)) t = errors_Is e t"
| "errors_Is (CompletedCommandError _ e) t = errors_Is e t"
| "errors_Is (Joined es) t = list_ex (\<lambda>e. errors_Is e t) es"

text \<open>The first element of an option list that is present: the order of a traversal.\<close>

fun first_some :: "'a option list \<Rightarrow> 'a option" where
  "first_some [] = None"
| "first_some (None # xs) = first_some xs"
| "first_some (Some x # xs) = Some x"

text \<open>\<^verbatim>\<open>errors.As\<close> to \<^verbatim>\<open>*errs.AppError\<close>: severity, code and message of the first one.\<close>

fun errors_As_App :: "go_error \<Rightarrow> (error_code \<times> severity \<times> string) option" where
  "errors_As_App (Sentinel _) = None"
| "errors_As_App (Plain _) = None"
| "errors_As_App (NetErr _) = None"
| "errors_As_App (Wrap _ e _) = errors_As_App e"
| "errors_As_App (AppError c s m _) = Some (c, s, m)"
| "errors_As_App (CompletedCommandError _ e) = errors_As_App e"
| "errors_As_App (Joined es) = first_some (map errors_As_App es)"

text \<open>\<^verbatim>\<open>errors.As\<close> to \<^verbatim>\<open>*completedCommandError\<close>.\<close>

fun errors_As_Completed :: "go_error \<Rightarrow> completed_command option" where
  "errors_As_Completed (Sentinel _) = None"
| "errors_As_Completed (Plain _) = None"
| "errors_As_Completed (NetErr _) = None"
| "errors_As_Completed (Wrap _ e _) = errors_As_Completed e"
| "errors_As_Completed (AppError _ _ _ None) = None"
| "errors_As_Completed (AppError _ _ _ (Some e)) = errors_As_Completed e"
| "errors_As_Completed (CompletedCommandError cmd _) = Some cmd"
| "errors_As_Completed (Joined es) = first_some (map errors_As_Completed es)"

text \<open>\<^verbatim>\<open>errors.As\<close> to \<^verbatim>\<open>net.Error\<close>.\<close>

fun errors_As_Net :: "go_error \<Rightarrow> bool" where
  "errors_As_Net (Sentinel _) = False"
| "errors_As_Net (Plain _) = False"
| "errors_As_Net (NetErr _) = True"
| "errors_As_Net (Wrap _ e _) = errors_As_Net e"
| "errors_As_Net (AppError _ _ _ None) = False"
| "errors_As_Net (AppError _ _ _ (Some e)) = errors_As_Net e"
| "errors_As_Net (CompletedCommandError _ e) = errors_As_Net e"
| "errors_As_Net (Joined es) = list_ex errors_As_Net es"

definition NewUserError :: "error_code \<Rightarrow> string \<Rightarrow> go_error list \<Rightarrow> go_error" where
  "NewUserError code msg cause =
     AppError code SeverityUser msg (case cause of [] \<Rightarrow> None | e # _ \<Rightarrow> Some e)"

definition NewSilentError :: "error_code \<Rightarrow> string \<Rightarrow> go_error list \<Rightarrow> go_error" where
  "NewSilentError code msg cause =
     AppError code SeveritySilent msg (case cause of [] \<Rightarrow> None | e # _ \<Rightarrow> Some e)"

definition NewInternalError :: "string \<Rightarrow> go_error list \<Rightarrow> go_error" where
  "NewInternalError msg cause =
     AppError ErrInternal SeverityInternal msg (case cause of [] \<Rightarrow> None | e # _ \<Rightarrow> Some e)"

subsection \<open>Lemmas\<close>

lemma option_get_upd [simp]:
  "option_get (m(k \<mapsto> v)) k' = (if k' = k then v else option_get m k')"
  by (simp add: option_get_def)

lemma StripMentionBlocks_idem [simp]:
  "StripMentionBlocks (StripMentionBlocks m) = StripMentionBlocks m"
  by (simp add: StripMentionBlocks_def)

lemma ResolveText_exact: "map_of texts loc = Some t \<Longrightarrow> ResolveText d texts loc = t"
  by (cases texts) (auto simp: ResolveText_def)

end
