(* ===== verification/Dialog_DSL.thy ===== *)
theory Dialog_DSL
  imports Bot_Model "HOL-Library.AList"
begin

text \<open>
  The command DSL of \<^verbatim>\<open>internal/state\<close>: command definitions as trees of steps and branches and
  their flattening to the active steps (\<^verbatim>\<open>dsl.go\<close>), and the fluent builders that native plugins
  use to write such trees (\<^verbatim>\<open>dsl_builder.go\<close>), including the page providers of paginated
  options.

  Closures stored in a definition (message builders, validators, conditions, page providers) are
  HOL functions of the step context. A Go slice that the code compares with \<^verbatim>\<open>nil\<close> is a list
  option, \<open>None\<close> standing for \<^verbatim>\<open>nil\<close>.
\<close>

subsection \<open>Definitions (dsl.go, context.go)\<close>

record step_context =
  ctx_UserID :: user_id
  ctx_Locale :: string
  ctx_Params :: option_map
  ctx_Page :: int

record options_page =
  op_Options :: "option_item list"
  op_HasMore :: bool
  op_Error :: string

record pagination_config =
  pc_Prompt :: string
  pc_Prompts :: "(string \<times> string) list"
  pc_PromptProvider :: "(step_context \<Rightarrow> string) option"
  pc_PageSize :: int
  pc_PageProvider :: "step_context \<Rightarrow> int \<Rightarrow> options_page"

record step_node =
  ParamName :: string
  MessageBuilder :: "step_context \<Rightarrow> message"
  Validate :: "(user_input \<Rightarrow> bool) option"
  ValidateWithContext :: "(step_context \<Rightarrow> user_input \<Rightarrow> bool) option"
  Condition :: "(option_map \<Rightarrow> bool) option"
  ConditionWithContext :: "(step_context \<Rightarrow> bool) option"
  Pagination :: "pagination_config option"

record case_predicate =
  Predicate :: "(option_map \<Rightarrow> bool) option"
  PredicateWithContext :: "(step_context \<Rightarrow> bool) option"

datatype command_node =
    StepNode step_node
  | BranchNode string "(string \<times> command_node list option) list" "command_node list option"
  | ConditionalBranchNode "(case_predicate \<times> command_node list option) list"
      "command_node list option"

record command_definition =
  cd_Name :: string
  cd_Descriptions :: "(string \<times> string) list"
  cd_Description :: string
  cd_Requirements :: "role_requirements option"
  cd_Nodes :: "command_node list"
  cd_PreservesDialog :: bool
  cd_AllowBack :: bool

text \<open>The visibility test of one step, the first switch of \<^verbatim>\<open>flattenNodes\<close>.\<close>

definition step_visible :: "step_node \<Rightarrow> step_context \<Rightarrow> bool" where
  "step_visible n ctx =
     (case ConditionWithContext n of
        Some c \<Rightarrow> c ctx
      | None \<Rightarrow> (case Condition n of None \<Rightarrow> True | Some c \<Rightarrow> c (ctx_Params ctx)))"

definition branch_choice ::
    "step_context \<Rightarrow> string \<Rightarrow> (string \<times> 'n list option) list \<Rightarrow> 'n list option \<Rightarrow> 'n list option"
  where
  "branch_choice ctx onParam cases deflt =
     (case ctx_Params ctx onParam of
        Some value \<Rightarrow> (case map_of cases value of Some caseNodes \<Rightarrow> caseNodes | None \<Rightarrow> deflt)
      | None \<Rightarrow> deflt)"

definition case_matches :: "step_context \<Rightarrow> case_predicate \<Rightarrow> bool" where
  "case_matches ctx c =
     (case PredicateWithContext c of
        Some p \<Rightarrow> p ctx
      | None \<Rightarrow> (case Predicate c of Some p \<Rightarrow> p (ctx_Params ctx) | None \<Rightarrow> False))"

text \<open>
  The loop over the cases stops at the first match, and a match whose node list is \<^verbatim>\<open>nil\<close>
  selects the default, as does no match.
\<close>

definition cond_choice ::
    "step_context \<Rightarrow> (case_predicate \<times> 'n list option) list \<Rightarrow> 'n list option \<Rightarrow> 'n list option"
  where
  "cond_choice ctx cases deflt =
     (case find (\<lambda>(c, ns). case_matches ctx c) cases of
        Some (c, Some ns) \<Rightarrow> Some ns
      | _ \<Rightarrow> deflt)"

lemma branch_choice_cases:
  assumes "branch_choice ctx p cases d = Some ns"
  obtains v where "(v, Some ns) \<in> set cases" | "d = Some ns"
  using assms by (auto simp: branch_choice_def split: option.splits dest: map_of_SomeD)

lemma find_Some_in: "find P xs = Some x \<Longrightarrow> x \<in> set xs"
  by (auto simp: find_Some_iff)

lemma cond_choice_cases:
  assumes "cond_choice ctx cases d = Some ns"
  obtains c where "(c, Some ns) \<in> set cases" | "d = Some ns"
  using assms by (auto simp: cond_choice_def split: option.splits dest!: find_Some_in)

text \<open>
  A size that counts the nodes below a list of nodes: the measure of \<^verbatim>\<open>flattenNodes\<close>'s recursion.
\<close>

abbreviation nodes_size :: "command_node list \<Rightarrow> nat" where
  "nodes_size \<equiv> size_list size"

lemma size_case_le:
  "(v, Some ns) \<in> set cs \<Longrightarrow>
     nodes_size ns < size_list (\<lambda>p. Suc (size_option nodes_size (snd p))) cs"
proof (induction cs)
  case (Cons c cs)
  then show ?case by (cases "c = (v, Some ns)") auto
qed simp

lemma size_prod_snd: "size_prod (\<lambda>_. 0) g = (\<lambda>p. Suc (g (snd p)))"
  by (auto simp: fun_eq_iff)

lemma branch_choice_size:
  "branch_choice ctx p cases d = Some ns \<Longrightarrow> nodes_size ns < size (BranchNode p cases d)"
  by (erule branch_choice_cases) (auto simp: size_prod_snd dest!: size_case_le)

lemma cond_choice_size:
  "cond_choice ctx cases d = Some ns \<Longrightarrow> nodes_size ns < size (ConditionalBranchNode cases d)"
  by (erule cond_choice_cases) (auto simp: size_prod_snd dest!: size_case_le)

function flattenNodes :: "command_node list \<Rightarrow> step_context \<Rightarrow> step_node list" where
  "flattenNodes [] ctx = []"
| "flattenNodes (StepNode n # nodes) ctx =
     (if step_visible n ctx then [n] else []) @ flattenNodes nodes ctx"
| "flattenNodes (BranchNode p cs d # nodes) ctx =
     (case branch_choice ctx p cs d of None \<Rightarrow> [] | Some branch \<Rightarrow> flattenNodes branch ctx)
     @ flattenNodes nodes ctx"
| "flattenNodes (ConditionalBranchNode cs d # nodes) ctx =
     (case cond_choice ctx cs d of None \<Rightarrow> [] | Some matched \<Rightarrow> flattenNodes matched ctx)
     @ flattenNodes nodes ctx"
  by pat_completeness auto
termination
  by (relation "measure (\<lambda>(nodes, ctx). nodes_size nodes)")
    (auto dest!: branch_choice_size cond_choice_size)

definition ResolveActiveSteps :: "command_definition \<Rightarrow> step_context \<Rightarrow> step_node list" where
  "ResolveActiveSteps cd ctx = flattenNodes (cd_Nodes cd) ctx"

definition CurrentStep :: "command_definition \<Rightarrow> step_context \<Rightarrow> step_node option" where
  "CurrentStep cd ctx =
     find (\<lambda>s. ctx_Params ctx (ParamName s) = None) (ResolveActiveSteps cd ctx)"

definition IsComplete :: "command_definition \<Rightarrow> step_context \<Rightarrow> bool" where
  "IsComplete cd ctx \<longleftrightarrow> CurrentStep cd ctx = None"

subsection \<open>Option and prompt builders (dsl_builder.go)\<close>

record options_builder =
  ob_optionBuilders :: "(step_context \<Rightarrow> option_item) list"
  ob_dynamicProvider :: "(step_context \<Rightarrow> option_item list) option"

definition new_options_builder :: options_builder where
  "new_options_builder = \<lparr>ob_optionBuilders = [], ob_dynamicProvider = None\<rparr>"

definition OB_Add :: "string \<Rightarrow> string \<Rightarrow> options_builder \<Rightarrow> options_builder" where
  "OB_Add label value o1 =
     o1\<lparr>ob_optionBuilders := ob_optionBuilders o1 @ [\<lambda>_. mk_option label value]\<rparr>"

definition OB_LocalizedOption :: "env \<Rightarrow> string \<Rightarrow> string \<Rightarrow> options_builder \<Rightarrow> options_builder" where
  "OB_LocalizedOption E key value o1 =
     o1\<lparr>ob_optionBuilders := ob_optionBuilders o1 @
         [\<lambda>ctx. mk_option (i18n_Get (env_bundle E) key (ctx_Locale ctx) [value]) value]\<rparr>"

text \<open>The provider of \<^verbatim>\<open>From\<close> takes no context; it is called anew for each resolution.\<close>

definition OB_From :: "(unit \<Rightarrow> option_item list) \<Rightarrow> options_builder \<Rightarrow> options_builder" where
  "OB_From provider o1 = o1\<lparr>ob_dynamicProvider := Some (\<lambda>_. provider ())\<rparr>"

definition OB_FromContext ::
    "(step_context \<Rightarrow> option_item list) \<Rightarrow> options_builder \<Rightarrow> options_builder" where
  "OB_FromContext provider o1 = o1\<lparr>ob_dynamicProvider := Some provider\<rparr>"

definition OB_resolve :: "options_builder \<Rightarrow> step_context \<Rightarrow> option_item list" where
  "OB_resolve o1 ctx =
     (case ob_dynamicProvider o1 of
        Some p \<Rightarrow> p ctx
      | None \<Rightarrow> map (\<lambda>b. b ctx) (ob_optionBuilders o1))"

record prompt_builder =
  pb_blockFactories :: "(step_context \<Rightarrow> content_block) list"
  pb_paginationCfg :: "pagination_config option"

definition new_prompt_builder :: prompt_builder where
  "new_prompt_builder = \<lparr>pb_blockFactories = [], pb_paginationCfg = None\<rparr>"

definition add_factory :: "(step_context \<Rightarrow> content_block) \<Rightarrow> prompt_builder \<Rightarrow> prompt_builder" where
  "add_factory f p = p\<lparr>pb_blockFactories := pb_blockFactories p @ [f]\<rparr>"

definition PB_Text :: "string \<Rightarrow> text_style \<Rightarrow> prompt_builder \<Rightarrow> prompt_builder" where
  "PB_Text txt style = add_factory (\<lambda>_. TextBlock txt style)"

definition PB_LocalizedText :: "env \<Rightarrow> string \<Rightarrow> text_style \<Rightarrow> prompt_builder \<Rightarrow> prompt_builder" where
  "PB_LocalizedText E key style = add_factory (\<lambda>ctx. TextBlock (tr E key (ctx_Locale ctx)) style)"

definition PB_TextFromContext ::
    "(step_context \<Rightarrow> string) \<Rightarrow> text_style \<Rightarrow> prompt_builder \<Rightarrow> prompt_builder" where
  "PB_TextFromContext provider style = add_factory (\<lambda>ctx. TextBlock (provider ctx) style)"

definition PB_Options ::
    "string \<Rightarrow> (options_builder \<Rightarrow> options_builder) \<Rightarrow> prompt_builder \<Rightarrow> prompt_builder" where
  "PB_Options prompt configure =
     add_factory (\<lambda>ctx. OptionsBlock prompt (OB_resolve (configure new_options_builder) ctx))"

definition PB_LocalizedOptions ::
    "env \<Rightarrow> string \<Rightarrow> (options_builder \<Rightarrow> options_builder) \<Rightarrow> prompt_builder \<Rightarrow> prompt_builder" where
  "PB_LocalizedOptions E promptKey configure =
     add_factory (\<lambda>ctx. OptionsBlock (tr E promptKey (ctx_Locale ctx))
                          (OB_resolve (configure new_options_builder) ctx))"

definition PB_Link :: "string \<Rightarrow> string \<Rightarrow> prompt_builder \<Rightarrow> prompt_builder" where
  "PB_Link url label = add_factory (\<lambda>_. LinkBlock url label)"

definition PB_Image :: "string \<Rightarrow> prompt_builder \<Rightarrow> prompt_builder" where
  "PB_Image url = add_factory (\<lambda>_. ImageBlock url)"

text \<open>
  The page provider that \<^verbatim>\<open>PaginatedOptions\<close> and \<^verbatim>\<open>LocalizedPaginatedOptions\<close> build over the
  list of all options. The slice expression \<^verbatim>\<open>all[start:end]\<close> is in range for a page that is not
  negative and a positive page size; pages of reachable dialogs are never negative.
\<close>

definition slice_page :: "int \<Rightarrow> option_item list \<Rightarrow> int \<Rightarrow> options_page" where
  "slice_page pageSize all page =
     (let start = page * pageSize;
          len = int (length all)
      in if start \<ge> len then \<lparr>op_Options = [], op_HasMore = False, op_Error = ''''\<rparr>
         else let end1 = start + pageSize;
                  end2 = (if end1 > len then len else end1)
              in \<lparr>op_Options = take (nat end2 - nat start) (drop (nat start) all),
                  op_HasMore = end2 < len, op_Error = ''''\<rparr>)"

definition PB_PaginatedOptions ::
    "string \<Rightarrow> int \<Rightarrow> (step_context \<Rightarrow> option_item list) \<Rightarrow> prompt_builder \<Rightarrow> prompt_builder" where
  "PB_PaginatedOptions prompt pageSize provider p =
     p\<lparr>pb_paginationCfg := Some
        \<lparr>pc_Prompt = prompt, pc_Prompts = [], pc_PromptProvider = None, pc_PageSize = pageSize,
         pc_PageProvider = (\<lambda>ctx page. slice_page pageSize (provider ctx) page)\<rparr>\<rparr>"

definition PB_LocalizedPaginatedOptions ::
    "env \<Rightarrow> string \<Rightarrow> int \<Rightarrow> (step_context \<Rightarrow> option_item list) \<Rightarrow> prompt_builder \<Rightarrow> prompt_builder"
  where
  "PB_LocalizedPaginatedOptions E promptKey pageSize provider p =
     p\<lparr>pb_paginationCfg := Some
        \<lparr>pc_Prompt = '''', pc_Prompts = [],
         pc_PromptProvider = Some (\<lambda>ctx. tr E promptKey (ctx_Locale ctx)),
         pc_PageSize = pageSize,
         pc_PageProvider = (\<lambda>ctx page. slice_page pageSize (provider ctx) page)\<rparr>\<rparr>"

definition PB_PaginatedOptionsWithProvider ::
    "string \<Rightarrow> int \<Rightarrow> (step_context \<Rightarrow> int \<Rightarrow> options_page) \<Rightarrow> prompt_builder \<Rightarrow> prompt_builder" where
  "PB_PaginatedOptionsWithProvider prompt pageSize provider p =
     p\<lparr>pb_paginationCfg := Some
        \<lparr>pc_Prompt = prompt, pc_Prompts = [], pc_PromptProvider = None, pc_PageSize = pageSize,
         pc_PageProvider = provider\<rparr>\<rparr>"

definition PB_LocalizedPaginatedOptionsWithProvider ::
    "env \<Rightarrow> string \<Rightarrow> int \<Rightarrow> (step_context \<Rightarrow> int \<Rightarrow> options_page) \<Rightarrow> prompt_builder \<Rightarrow> prompt_builder"
  where
  "PB_LocalizedPaginatedOptionsWithProvider E promptKey pageSize provider p =
     p\<lparr>pb_paginationCfg := Some
        \<lparr>pc_Prompt = '''', pc_Prompts = [],
         pc_PromptProvider = Some (\<lambda>ctx. tr E promptKey (ctx_Locale ctx)),
         pc_PageSize = pageSize, pc_PageProvider = provider\<rparr>\<rparr>"

subsection \<open>Step, branch and command builders (dsl_builder.go)\<close>

record step_builder =
  sb_paramName :: string
  sb_validateFn :: "(user_input \<Rightarrow> bool) option"
  sb_condition :: "(option_map \<Rightarrow> bool) option"
  sb_blockFactories :: "(step_context \<Rightarrow> content_block) list"
  sb_paginationCfg :: "pagination_config option"

definition new_step_builder :: "string \<Rightarrow> step_builder" where
  "new_step_builder paramName =
     \<lparr>sb_paramName = paramName, sb_validateFn = None, sb_condition = None,
      sb_blockFactories = [], sb_paginationCfg = None\<rparr>"

definition SB_Validate :: "(user_input \<Rightarrow> bool) \<Rightarrow> step_builder \<Rightarrow> step_builder" where
  "SB_Validate fn s = s\<lparr>sb_validateFn := Some fn\<rparr>"

definition SB_VisibleWhen :: "(option_map \<Rightarrow> bool) \<Rightarrow> step_builder \<Rightarrow> step_builder" where
  "SB_VisibleWhen fn s = s\<lparr>sb_condition := Some fn\<rparr>"

definition SB_Prompt :: "(prompt_builder \<Rightarrow> prompt_builder) \<Rightarrow> step_builder \<Rightarrow> step_builder" where
  "SB_Prompt configure s =
     (let pb = configure new_prompt_builder
      in s\<lparr>sb_blockFactories := pb_blockFactories pb, sb_paginationCfg := pb_paginationCfg pb\<rparr>)"

fun is_blank_text :: "content_block \<Rightarrow> bool" where
  "is_blank_text (TextBlock txt _) = (txt = '''')"
| "is_blank_text _ = False"

definition SB_build :: "step_builder \<Rightarrow> step_node" where
  "SB_build s =
     \<lparr>ParamName = sb_paramName s,
      MessageBuilder =
        (if length (sb_blockFactories s) > 0
         then (\<lambda>ctx. \<lparr>Blocks = filter (\<lambda>b. \<not> is_blank_text b)
                                  (map (\<lambda>f. f ctx) (sb_blockFactories s))\<rparr>)
         else (\<lambda>_. empty_message)),
      Validate = sb_validateFn s, ValidateWithContext = None,
      Condition = sb_condition s, ConditionWithContext = None,
      Pagination = sb_paginationCfg s\<rparr>"

text \<open>\<^verbatim>\<open>NodeListBuilder\<close> is the slice it accumulates; it starts as \<^verbatim>\<open>nil\<close>.\<close>

type_synonym node_list_builder = "command_node list option"

definition append_node :: "command_node \<Rightarrow> node_list_builder \<Rightarrow> node_list_builder" where
  "append_node n nodes = Some ((case nodes of None \<Rightarrow> [] | Some ns \<Rightarrow> ns) @ [n])"

record branch_builder =
  bb_onParam :: string
  bb_cases :: "(string \<times> command_node list option) list"
  bb_defaultNodes :: "command_node list option"

definition new_branch_builder :: "string \<Rightarrow> branch_builder" where
  "new_branch_builder onParam = \<lparr>bb_onParam = onParam, bb_cases = [], bb_defaultNodes = None\<rparr>"

definition BB_Case ::
    "string \<Rightarrow> (node_list_builder \<Rightarrow> node_list_builder) \<Rightarrow> branch_builder \<Rightarrow> branch_builder" where
  "BB_Case value configure b = b\<lparr>bb_cases := AList.update value (configure None) (bb_cases b)\<rparr>"

definition BB_Default ::
    "(node_list_builder \<Rightarrow> node_list_builder) \<Rightarrow> branch_builder \<Rightarrow> branch_builder" where
  "BB_Default configure b = b\<lparr>bb_defaultNodes := configure None\<rparr>"

definition BB_build :: "branch_builder \<Rightarrow> command_node" where
  "BB_build b = BranchNode (bb_onParam b) (bb_cases b) (bb_defaultNodes b)"

record conditional_branch_builder =
  cb_cases :: "(case_predicate \<times> command_node list option) list"
  cb_defaultNodes :: "command_node list option"

definition new_conditional_branch_builder :: conditional_branch_builder where
  "new_conditional_branch_builder = \<lparr>cb_cases = [], cb_defaultNodes = None\<rparr>"

definition CB_Case ::
    "(option_map \<Rightarrow> bool) \<Rightarrow> (node_list_builder \<Rightarrow> node_list_builder) \<Rightarrow>
     conditional_branch_builder \<Rightarrow> conditional_branch_builder" where
  "CB_Case predicate configure c =
     c\<lparr>cb_cases := cb_cases c @
        [(\<lparr>Predicate = Some predicate, PredicateWithContext = None\<rparr>, configure None)]\<rparr>"

definition CB_Default ::
    "(node_list_builder \<Rightarrow> node_list_builder) \<Rightarrow> conditional_branch_builder \<Rightarrow>
     conditional_branch_builder" where
  "CB_Default configure c = c\<lparr>cb_defaultNodes := configure None\<rparr>"

definition CB_build :: "conditional_branch_builder \<Rightarrow> command_node" where
  "CB_build c = ConditionalBranchNode (cb_cases c) (cb_defaultNodes c)"

definition NLB_Step ::
    "string \<Rightarrow> (step_builder \<Rightarrow> step_builder) \<Rightarrow> node_list_builder \<Rightarrow> node_list_builder" where
  "NLB_Step paramName configure =
     append_node (StepNode (SB_build (configure (new_step_builder paramName))))"

definition NLB_Branch ::
    "string \<Rightarrow> (branch_builder \<Rightarrow> branch_builder) \<Rightarrow> node_list_builder \<Rightarrow> node_list_builder" where
  "NLB_Branch onParam configure = append_node (BB_build (configure (new_branch_builder onParam)))"

definition NLB_ConditionalBranch ::
    "(conditional_branch_builder \<Rightarrow> conditional_branch_builder) \<Rightarrow> node_list_builder \<Rightarrow>
     node_list_builder" where
  "NLB_ConditionalBranch configure =
     append_node (CB_build (configure new_conditional_branch_builder))"

record command_builder =
  cmdb_name :: string
  cmdb_description :: string
  cmdb_descriptions :: "(string \<times> string) list"
  cmdb_requirements :: "role_requirements option"
  cmdb_nodes :: "command_node list"
  cmdb_preservesDialog :: bool

definition NewCommand :: "string \<Rightarrow> command_builder" where
  "NewCommand name =
     \<lparr>cmdb_name = name, cmdb_description = '''', cmdb_descriptions = [],
      cmdb_requirements = None, cmdb_nodes = [], cmdb_preservesDialog = False\<rparr>"

definition CMDB_Description :: "string \<Rightarrow> command_builder \<Rightarrow> command_builder" where
  "CMDB_Description d b = b\<lparr>cmdb_description := d\<rparr>"

definition CMDB_LocalizedDescription ::
    "(string \<times> string) list \<Rightarrow> command_builder \<Rightarrow> command_builder" where
  "CMDB_LocalizedDescription ds b = b\<lparr>cmdb_descriptions := ds\<rparr>"

definition CMDB_PreservesDialog :: "command_builder \<Rightarrow> command_builder" where
  "CMDB_PreservesDialog b = b\<lparr>cmdb_preservesDialog := True\<rparr>"

definition CMDB_RequireRole :: "string \<Rightarrow> string list \<Rightarrow> command_builder \<Rightarrow> command_builder" where
  "CMDB_RequireRole systemRole globalRoles b =
     b\<lparr>cmdb_requirements := Some
        \<lparr>rr_SystemRole = systemRole, rr_GlobalRoles = globalRoles, rr_PluginID = '''',
         rr_PluginRole = '''', rr_ScopeEntityID = None\<rparr>\<rparr>"

definition CMDB_Step ::
    "string \<Rightarrow> (step_builder \<Rightarrow> step_builder) \<Rightarrow> command_builder \<Rightarrow> command_builder" where
  "CMDB_Step paramName configure b =
     b\<lparr>cmdb_nodes := cmdb_nodes b @ [StepNode (SB_build (configure (new_step_builder paramName)))]\<rparr>"

definition CMDB_Branch ::
    "string \<Rightarrow> (branch_builder \<Rightarrow> branch_builder) \<Rightarrow> command_builder \<Rightarrow> command_builder" where
  "CMDB_Branch onParam configure b =
     b\<lparr>cmdb_nodes := cmdb_nodes b @ [BB_build (configure (new_branch_builder onParam))]\<rparr>"

definition CMDB_ConditionalBranch ::
    "(conditional_branch_builder \<Rightarrow> conditional_branch_builder) \<Rightarrow> command_builder \<Rightarrow>
     command_builder" where
  "CMDB_ConditionalBranch configure b =
     b\<lparr>cmdb_nodes := cmdb_nodes b @ [CB_build (configure new_conditional_branch_builder)]\<rparr>"

definition CMDB_Build :: "command_builder \<Rightarrow> command_definition" where
  "CMDB_Build b =
     \<lparr>cd_Name = cmdb_name b, cd_Descriptions = cmdb_descriptions b,
      cd_Description = cmdb_description b, cd_Requirements = cmdb_requirements b,
      cd_Nodes = cmdb_nodes b, cd_PreservesDialog = cmdb_preservesDialog b,
      cd_AllowBack = False\<rparr>"

subsection \<open>Lemmas on flattening\<close>

lemma flattenNodes_append: "flattenNodes (xs @ ys) ctx = flattenNodes xs ctx @ flattenNodes ys ctx"
proof (induction xs)
  case (Cons x xs)
  then show ?case by (cases x) simp_all
qed simp

lemma CurrentStep_None_iff:
  "CurrentStep cd ctx = None \<longleftrightarrow>
     (\<forall>s \<in> set (ResolveActiveSteps cd ctx). ctx_Params ctx (ParamName s) \<noteq> None)"
  by (simp add: CurrentStep_def find_None_all)

lemma CurrentStep_unanswered:
  "CurrentStep cd ctx = Some s \<Longrightarrow>
     s \<in> set (ResolveActiveSteps cd ctx) \<and> ctx_Params ctx (ParamName s) = None"
  unfolding CurrentStep_def find_Some_split by fastforce

text \<open>
  The steps a flattening can produce are the step nodes written somewhere in the tree.
\<close>

inductive step_of :: "command_node list \<Rightarrow> step_node \<Rightarrow> bool" where
  here: "StepNode s \<in> set nodes \<Longrightarrow> step_of nodes s"
| branch_case: "\<lbrakk>BranchNode p cs d \<in> set nodes; (v, Some ns) \<in> set cs; step_of ns s\<rbrakk> \<Longrightarrow> step_of nodes s"
| branch_default: "\<lbrakk>BranchNode p cs (Some ns) \<in> set nodes; step_of ns s\<rbrakk> \<Longrightarrow> step_of nodes s"
| cond_case: "\<lbrakk>ConditionalBranchNode ccs d \<in> set nodes; (c, Some ns) \<in> set ccs; step_of ns s\<rbrakk>
    \<Longrightarrow> step_of nodes s"
| cond_default: "\<lbrakk>ConditionalBranchNode ccs (Some ns) \<in> set nodes; step_of ns s\<rbrakk> \<Longrightarrow> step_of nodes s"

lemma step_of_mono: "step_of nodes s \<Longrightarrow> set nodes \<subseteq> set nodes' \<Longrightarrow> step_of nodes' s"
  by (erule step_of.cases; blast intro: step_of.intros)

lemma step_of_Cons: "step_of nodes s \<Longrightarrow> step_of (n # nodes) s"
  by (erule step_of_mono) auto

lemma flattenNodes_step_of:
  "s \<in> set (flattenNodes nodes ctx) \<Longrightarrow> step_of nodes s \<and> step_visible s ctx"
proof (induction nodes ctx rule: flattenNodes.induct)
  case (2 n nodes ctx)
  then show ?case by (auto split: if_splits intro: step_of.here step_of_Cons)
next
  case (3 p cs d nodes ctx)
  show ?case
  proof (cases "s \<in> set (flattenNodes nodes ctx)")
    case True
    with 3 show ?thesis by (auto elim: step_of_mono)
  next
    case False
    with 3 obtain ns where ns: "branch_choice ctx p cs d = Some ns" "s \<in> set (flattenNodes ns ctx)"
      by (cases "branch_choice ctx p cs d") auto
    with 3 have "step_of ns s" "step_visible s ctx" by auto
    then show ?thesis using ns(1)
      by (auto elim!: branch_choice_cases intro: step_of.branch_case step_of.branch_default)
  qed
next
  case (4 cs d nodes ctx)
  show ?case
  proof (cases "s \<in> set (flattenNodes nodes ctx)")
    case True
    with 4 show ?thesis by (auto elim: step_of_mono)
  next
    case False
    with 4 obtain ns where ns: "cond_choice ctx cs d = Some ns" "s \<in> set (flattenNodes ns ctx)"
      by (cases "cond_choice ctx cs d") auto
    with 4 have "step_of ns s" "step_visible s ctx" by auto
    then show ?thesis using ns(1)
      by (auto elim!: cond_choice_cases intro: step_of.cond_case step_of.cond_default)
  qed
qed simp

subsection \<open>Lemmas on pages\<close>

lemma slice_page_nat:
  "slice_page (int n) all (int p) =
     (if length all \<le> p * n then \<lparr>op_Options = [], op_HasMore = False, op_Error = []\<rparr>
      else \<lparr>op_Options = take n (drop (p * n) all), op_HasMore = p * n + n < length all,
            op_Error = []\<rparr>)"
proof -
  define q where "q = p * n"
  have e: "int p * int n = int q" "p * n = q" by (simp_all add: q_def)
  have c: "int (length all) \<le> int q \<longleftrightarrow> length all \<le> q"
    "int (length all) < int q + int n \<longleftrightarrow> length all < q + n"
    "int q + int n < int (length all) \<longleftrightarrow> q + n < length all"
    "nat (int q + int n) = q + n"
    by linarith+
  show ?thesis
    unfolding slice_page_def Let_def e c
    by (cases "length all \<le> q"; cases "length all < q + n"; simp add: c)
qed

lemma slice_page_Options:
  "op_Options (slice_page (int n) all (int p)) = take n (drop (p * n) all)"
  by (simp add: slice_page_nat)

lemma slice_page_HasMore:
  "n > 0 \<Longrightarrow> op_HasMore (slice_page (int n) all (int p)) \<longleftrightarrow> Suc p * n < length all"
  by (simp add: slice_page_nat add.commute)

lemma slice_page_Error [simp]: "op_Error (slice_page n all p) = ''''"
  by (simp add: slice_page_def Let_def)

lemma concat_pages:
  "concat (map (\<lambda>p. op_Options (slice_page (int n) all (int p))) [0..<k]) = take (k * n) all"
proof (induction k)
  case (Suc k)
  have "take (k * n) all @ take n (drop (k * n) all) = take (k * n + n) all"
    by (simp add: take_add)
  with Suc show ?case by (simp add: slice_page_Options add.commute)
qed simp

end
