(* ===== verification/Dialog_Handler.thy ===== *)
theory Dialog_Handler
  imports Dialog_DSL
begin

text \<open>
  The handler of one dialog: \<^verbatim>\<open>internal/state/dsl_handler.go\<close> (creating, restoring, persisting
  and advancing the state of a dialog, and the message of its current step, with pagination) and
  \<^verbatim>\<open>internal/state/navigation.go\<close> (the back button, its one-time token and the history it
  rewinds).

  The state object that Go mutates and returns is passed and returned explicitly. Tokens come
  from \<^verbatim>\<open>crypto/rand\<close>: the \<open>n\<close>-th call of \<^verbatim>\<open>newNavigationToken\<close> draws \<open>env_token E n\<close>, and every
  function that may call it takes and returns the number of calls made so far. The handler is
  the command definition it wraps, the only field of \<^verbatim>\<open>DslStateHandler\<close>.
\<close>

subsection \<open>State and outcomes (dsl_handler.go, handler.go)\<close>

record dsl_state =
  dst_History :: "dialog_snapshot list"
  dst_NavigationToken :: string
  dst_Command :: command_definition
  dst_Params :: option_map
  dst_PageState :: "string \<rightharpoonup> int"

record step_outcome =
  out_Message :: message
  out_CommandName :: string
  out_IsComplete :: bool
  out_IsCancelled :: bool
  out_Params :: option_map

definition PageNext :: string where "PageNext = ''__page_next''"
definition PagePrev :: string where "PagePrev = ''__page_prev''"
definition dialogBackPrefix :: string where "dialogBackPrefix = ''__dialog_back:''"

definition resolveLocalizedPrompt ::
    "env \<Rightarrow> (string \<times> string) list \<Rightarrow> string \<Rightarrow> string \<Rightarrow> string" where
  "resolveLocalizedPrompt E texts fallback loc =
     (case map_of texts loc of
        Some txt \<Rightarrow> txt
      | None \<Rightarrow>
          (case (case IndexByte loc (CHR ''-'') of
                   Some idx \<Rightarrow> if idx > 0 then map_of texts (take idx loc) else None
                 | None \<Rightarrow> None) of
             Some txt \<Rightarrow> txt
           | None \<Rightarrow> (case map_of texts (env_default_locale E) of
                        Some txt \<Rightarrow> txt
                      | None \<Rightarrow> fallback)))"

definition DslState_IsComplete :: "dsl_state \<Rightarrow> bool" where
  "DslState_IsComplete s =
     IsComplete (dst_Command s)
       \<lparr>ctx_UserID = 0, ctx_Locale = '''', ctx_Params = dst_Params s, ctx_Page = 0\<rparr>"

definition FinalParams :: "dsl_state \<Rightarrow> option_map" where
  "FinalParams s = dst_Params s"

definition newNavigationToken :: "env \<Rightarrow> nat \<Rightarrow> string \<times> nat" where
  "newNavigationToken E n = (env_token E n, Suc n)"

definition restoredNavigationToken :: "env \<Rightarrow> string \<Rightarrow> nat \<Rightarrow> string \<times> nat" where
  "restoredNavigationToken E token n =
     (if token = '''' then newNavigationToken E n else (token, n))"

definition CreateNewState :: "env \<Rightarrow> command_definition \<Rightarrow> nat \<Rightarrow> dsl_state \<times> nat" where
  "CreateNewState E cmd n =
     (let (token, n') = newNavigationToken E n
      in (\<lparr>dst_History = [], dst_NavigationToken = token, dst_Command = cmd,
           dst_Params = Map.empty, dst_PageState = Map.empty\<rparr>, n'))"

definition RestoreState ::
    "env \<Rightarrow> command_definition \<Rightarrow> dialog_state \<Rightarrow> nat \<Rightarrow> dsl_state \<times> nat" where
  "RestoreState E cmd ds n =
     (let (token, n') = restoredNavigationToken E (ds_NavigationToken ds) n
      in (\<lparr>dst_History = ds_History ds, dst_NavigationToken = token, dst_Command = cmd,
           dst_Params = ds_Params ds, dst_PageState = ds_PageState ds\<rparr>, n'))"

definition PersistState :: "command_definition \<Rightarrow> dsl_state \<Rightarrow> dialog_state" where
  "PersistState cmd s =
     \<lparr>ds_History = dst_History s, ds_NavigationToken = dst_NavigationToken s, ds_UserID = 0,
      ds_ChatID = '''', ds_PluginID = '''', ds_CommandName = cd_Name cmd,
      ds_Params = dst_Params s, ds_PageState = dst_PageState s, ds_CreatedAt = 0\<rparr>"

subsection \<open>Messages of a step (dsl_handler.go, navigation.go)\<close>

definition page_of :: "(string \<rightharpoonup> int) \<Rightarrow> string \<Rightarrow> int" where
  "page_of ps p = (case ps p of None \<Rightarrow> 0 | Some n \<Rightarrow> n)"

definition appendMessageText :: "message \<Rightarrow> string \<Rightarrow> message" where
  "appendMessageText msg txt =
     (if txt = '''' then msg else \<lparr>Blocks = Blocks msg @ [TextBlock txt StylePlain]\<rparr>)"

text \<open>The Russian text of \<^verbatim>\<open>paginationErrorText\<close>, in UTF-8.\<close>

definition load_options_failed_ru :: string where
  "load_options_failed_ru =
     [CHR 0xD0, CHR 0x9D, CHR 0xD0, CHR 0xB5, CHR 0x20, CHR 0xD1, CHR 0x83, CHR 0xD0, CHR 0xB4,
      CHR 0xD0, CHR 0xB0, CHR 0xD0, CHR 0xBB, CHR 0xD0, CHR 0xBE, CHR 0xD1, CHR 0x81, CHR 0xD1,
      CHR 0x8C, CHR 0x20, CHR 0xD0, CHR 0xB7, CHR 0xD0, CHR 0xB0, CHR 0xD0, CHR 0xB3, CHR 0xD1,
      CHR 0x80, CHR 0xD1, CHR 0x83, CHR 0xD0, CHR 0xB7, CHR 0xD0, CHR 0xB8, CHR 0xD1, CHR 0x82,
      CHR 0xD1, CHR 0x8C, CHR 0x20, CHR 0xD0, CHR 0xB2, CHR 0xD0, CHR 0xB0, CHR 0xD1, CHR 0x80,
      CHR 0xD0, CHR 0xB8, CHR 0xD0, CHR 0xB0, CHR 0xD0, CHR 0xBD, CHR 0xD1, CHR 0x82, CHR 0xD1,
      CHR 0x8B, CHR 0x2E, CHR 0x20, CHR 0xD0, CHR 0x9F, CHR 0xD0, CHR 0xBE, CHR 0xD0, CHR 0xBF,
      CHR 0xD1, CHR 0x80, CHR 0xD0, CHR 0xBE, CHR 0xD0, CHR 0xB1, CHR 0xD1, CHR 0x83, CHR 0xD0,
      CHR 0xB9, CHR 0xD1, CHR 0x82, CHR 0xD0, CHR 0xB5, CHR 0x20, CHR 0xD0, CHR 0xB5, CHR 0xD1,
      CHR 0x89, CHR 0xD1, CHR 0x91, CHR 0x20, CHR 0xD1, CHR 0x80, CHR 0xD0, CHR 0xB0, CHR 0xD0,
      CHR 0xB7, CHR 0x2E]"

definition paginationErrorText :: "string \<Rightarrow> string \<Rightarrow> string" where
  "paginationErrorText loc errText =
     (if errText \<noteq> '''' then errText
      else if HasPrefix loc ''ru'' then load_options_failed_ru
      else ''Failed to load options. Please try again.'')"

definition applyPagination ::
    "env \<Rightarrow> message \<Rightarrow> step_node \<Rightarrow> pagination_config \<Rightarrow> dsl_state \<Rightarrow> step_context \<Rightarrow> message" where
  "applyPagination E msg step config s baseCtx =
     (let currentPage = page_of (dst_PageState s) (ParamName step);
          pageCtx = \<lparr>ctx_UserID = ctx_UserID baseCtx, ctx_Locale = ctx_Locale baseCtx,
                     ctx_Params = dst_Params s, ctx_Page = currentPage\<rparr>;
          result = pc_PageProvider config pageCtx currentPage
      in if op_Error result \<noteq> ''''
         then appendMessageText msg (paginationErrorText (ctx_Locale baseCtx) (op_Error result))
         else let navOptions =
                    (if currentPage > 0
                     then [mk_option (tr E ''pagination.previous'' (ctx_Locale baseCtx)) PagePrev]
                     else []) @
                    (if op_HasMore result
                     then [mk_option (tr E ''pagination.next'' (ctx_Locale baseCtx)) PageNext]
                     else []);
                  allOptions = op_Options result @ navOptions;
                  prompt = (case pc_PromptProvider config of
                              Some provider \<Rightarrow> provider baseCtx
                            | None \<Rightarrow>
                                if length (pc_Prompts config) > 0
                                then resolveLocalizedPrompt E (pc_Prompts config)
                                       (pc_Prompt config) (ctx_Locale baseCtx)
                                else pc_Prompt config)
              in \<lparr>Blocks = Blocks msg @ [OptionsBlock prompt allOptions]\<rparr>)"

text \<open>
  \<^verbatim>\<open>appendBackButton\<close> walks the blocks from the last one; here over the reversed list. The
  result is \<open>None\<close> where the loop finds no options block.
\<close>

definition extend_options :: "option_item \<Rightarrow> option_item list \<Rightarrow> option_item list" where
  "extend_options opt opts = (if length opts \<ge> 10 then opt # opts else opts @ [opt])"

fun extend_last_options :: "option_item \<Rightarrow> content_block list \<Rightarrow> content_block list option" where
  "extend_last_options opt [] = None"
| "extend_last_options opt (OptionsBlock prompt opts # rest) =
     Some (OptionsBlock prompt (extend_options opt opts) # rest)"
| "extend_last_options opt (b # rest) = map_option ((#) b) (extend_last_options opt rest)"

definition appendBackButton :: "message \<Rightarrow> option_item \<Rightarrow> message" where
  "appendBackButton msg opt =
     (case extend_last_options opt (rev (Blocks msg)) of
        Some bs \<Rightarrow> msg\<lparr>Blocks := rev bs\<rparr>
      | None \<Rightarrow> msg\<lparr>Blocks := Blocks msg @ [OptionsBlock '''' [opt]]\<rparr>)"

abbreviation handler_ctx :: "user_id \<Rightarrow> dsl_state \<Rightarrow> string \<Rightarrow> step_context" where
  "handler_ctx userID s loc \<equiv>
     \<lparr>ctx_UserID = userID, ctx_Locale = loc, ctx_Params = dst_Params s, ctx_Page = 0\<rparr>"

definition BuildStepMessage ::
    "env \<Rightarrow> command_definition \<Rightarrow> user_id \<Rightarrow> dsl_state \<Rightarrow> string \<Rightarrow> message" where
  "BuildStepMessage E cmd userID s loc =
     (let stepCtx = handler_ctx userID s loc
      in case CurrentStep cmd stepCtx of
           None \<Rightarrow> empty_message
         | Some step \<Rightarrow>
             let message = MessageBuilder step stepCtx;
                 message = (case Pagination step of
                              None \<Rightarrow> message
                            | Some config \<Rightarrow> applyPagination E message step config s stepCtx)
             in if cd_AllowBack cmd
                then appendBackButton message
                       (mk_option (tr E ''dialog.back'' loc)
                          (dialogBackPrefix @ dst_NavigationToken s))
                else message)"

subsection \<open>Input (dsl_handler.go, navigation.go)\<close>

text \<open>The two tests on callback data that precede the answer.\<close>

definition is_back_press :: "user_input \<Rightarrow> bool" where
  "is_back_press input \<longleftrightarrow> is_CallbackInput input \<and> HasPrefix (TextValue input) dialogBackPrefix"

definition is_page_press :: "step_node \<Rightarrow> user_input \<Rightarrow> string \<Rightarrow> bool" where
  "is_page_press step input v \<longleftrightarrow>
     Pagination step \<noteq> None \<and> is_CallbackInput input \<and> TextValue input = v"

definition navigateBack ::
    "env \<Rightarrow> command_definition \<Rightarrow> user_id \<Rightarrow> dsl_state \<Rightarrow> string \<Rightarrow> string \<Rightarrow> nat \<Rightarrow>
     (dsl_state \<times> step_outcome) \<times> nat" where
  "navigateBack E cmd userID s value loc n =
     (let outcome = \<lparr>out_Message = empty_message, out_CommandName = cd_Name cmd,
                     out_IsComplete = False, out_IsCancelled = False, out_Params = Map.empty\<rparr>
      in if \<not> cd_AllowBack cmd \<or> value \<noteq> dialogBackPrefix @ dst_NavigationToken s
         then ((s, outcome\<lparr>out_Message := BuildStepMessage E cmd userID s loc\<rparr>), n)
         else if length (dst_History s) = 0
         then ((s, outcome\<lparr>out_IsCancelled := True\<rparr>), n)
         else let lst = last (dst_History s);
                  (token, n') = newNavigationToken E n;
                  s' = s\<lparr>dst_Params := snap_Params lst, dst_PageState := snap_PageState lst,
                         dst_History := butlast (dst_History s), dst_NavigationToken := token\<rparr>
              in ((s', outcome\<lparr>out_Message := BuildStepMessage E cmd userID s' loc\<rparr>), n'))"

definition isValid :: "step_node \<Rightarrow> step_context \<Rightarrow> user_input \<Rightarrow> bool" where
  "isValid step stepCtx input =
     (case ValidateWithContext step of
        Some v \<Rightarrow> v stepCtx input
      | None \<Rightarrow> (case Validate step of Some v \<Rightarrow> v input | None \<Rightarrow> True))"

definition recordAnswer ::
    "env \<Rightarrow> command_definition \<Rightarrow> step_node \<Rightarrow> user_input \<Rightarrow> dsl_state \<Rightarrow> nat \<Rightarrow> dsl_state \<times> nat" where
  "recordAnswer E cmd step input s n =
     (let (s1, n1) =
            (if cd_AllowBack cmd
             then let (token, n') = newNavigationToken E n
                  in (s\<lparr>dst_History := dst_History s @
                          [\<lparr>snap_Params = dst_Params s, snap_PageState = dst_PageState s\<rparr>],
                        dst_NavigationToken := token\<rparr>, n')
             else (s, n))
      in (s1\<lparr>dst_Params := (dst_Params s1)(ParamName step \<mapsto> TextValue input)\<rparr>, n1))"

definition ProcessInput ::
    "env \<Rightarrow> command_definition \<Rightarrow> user_id \<Rightarrow> dsl_state \<Rightarrow> user_input \<Rightarrow> string \<Rightarrow> nat \<Rightarrow>
     (dsl_state \<times> step_outcome) \<times> nat" where
  "ProcessInput E cmd userID s input loc n =
     (let stepCtx = handler_ctx userID s loc;
          mkOut = (\<lambda>msg. \<lparr>out_Message = msg, out_CommandName = cd_Name cmd,
                           out_IsComplete = False, out_IsCancelled = False,
                           out_Params = Map.empty\<rparr>)
      in if is_back_press input
         then navigateBack E cmd userID s (TextValue input) loc n
         else case CurrentStep cmd stepCtx of
           None \<Rightarrow>
             ((s, (mkOut empty_message)\<lparr>out_IsComplete := True, out_Params := FinalParams s\<rparr>), n)
         | Some step \<Rightarrow>
             if is_page_press step input PageNext
             then let cur = page_of (dst_PageState s) (ParamName step);
                      s' = s\<lparr>dst_PageState := (dst_PageState s)(ParamName step \<mapsto> cur + 1)\<rparr>
                  in ((s', mkOut (BuildStepMessage E cmd userID s' loc)), n)
             else if is_page_press step input PagePrev
             then let cur = page_of (dst_PageState s) (ParamName step);
                      s' = (if cur > 0
                            then s\<lparr>dst_PageState := (dst_PageState s)(ParamName step \<mapsto> cur - 1)\<rparr>
                            else s)
                  in ((s', mkOut (BuildStepMessage E cmd userID s' loc)), n)
             else
               let (s', n') = (if isValid step stepCtx input
                               then recordAnswer E cmd step input s n else (s, n));
                   msg = BuildStepMessage E cmd userID s' loc;
                   complete = IsComplete cmd (handler_ctx userID s' loc);
                   outcome = (mkOut msg)\<lparr>out_IsComplete := complete\<rparr>
               in ((s', if complete then outcome\<lparr>out_Params := FinalParams s'\<rparr> else outcome), n'))"

subsection \<open>The transitions of a dialog\<close>

text \<open>
  An abstract view of \<^verbatim>\<open>ProcessInput\<close>: the ways one input can change the state of a dialog. The
  second component counts the tokens drawn.
\<close>

abbreviation snapshot_of :: "dsl_state \<Rightarrow> dialog_snapshot" where
  "snapshot_of s \<equiv> \<lparr>snap_Params = dst_Params s, snap_PageState = dst_PageState s\<rparr>"

inductive dialog_step ::
    "env \<Rightarrow> command_definition \<Rightarrow> user_id \<Rightarrow> string \<Rightarrow> dsl_state \<times> nat \<Rightarrow> user_input \<Rightarrow>
     dsl_state \<times> nat \<Rightarrow> bool"
  for E cmd userID loc where
  stale_back: "\<lbrakk>is_back_press i;
      \<not> cd_AllowBack cmd \<or> TextValue i \<noteq> dialogBackPrefix @ dst_NavigationToken s\<rbrakk>
    \<Longrightarrow> dialog_step E cmd userID loc (s, n) i (s, n)"
| cancel: "\<lbrakk>is_back_press i; cd_AllowBack cmd;
      TextValue i = dialogBackPrefix @ dst_NavigationToken s; dst_History s = []\<rbrakk>
    \<Longrightarrow> dialog_step E cmd userID loc (s, n) i (s, n)"
| rewind: "\<lbrakk>is_back_press i; cd_AllowBack cmd;
      TextValue i = dialogBackPrefix @ dst_NavigationToken s; dst_History s = h @ [sn]\<rbrakk>
    \<Longrightarrow> dialog_step E cmd userID loc (s, n) i
          (s\<lparr>dst_Params := snap_Params sn, dst_PageState := snap_PageState sn,
             dst_History := h, dst_NavigationToken := env_token E n\<rparr>, Suc n)"
| finished: "\<lbrakk>\<not> is_back_press i; CurrentStep cmd (handler_ctx userID s loc) = None\<rbrakk>
    \<Longrightarrow> dialog_step E cmd userID loc (s, n) i (s, n)"
| next_page: "\<lbrakk>\<not> is_back_press i; CurrentStep cmd (handler_ctx userID s loc) = Some step;
      is_page_press step i PageNext\<rbrakk>
    \<Longrightarrow> dialog_step E cmd userID loc (s, n) i
          (s\<lparr>dst_PageState := (dst_PageState s)
               (ParamName step \<mapsto> page_of (dst_PageState s) (ParamName step) + 1)\<rparr>, n)"
| prev_page: "\<lbrakk>\<not> is_back_press i; CurrentStep cmd (handler_ctx userID s loc) = Some step;
      is_page_press step i PagePrev; page_of (dst_PageState s) (ParamName step) > 0\<rbrakk>
    \<Longrightarrow> dialog_step E cmd userID loc (s, n) i
          (s\<lparr>dst_PageState := (dst_PageState s)
               (ParamName step \<mapsto> page_of (dst_PageState s) (ParamName step) - 1)\<rparr>, n)"
| first_page: "\<lbrakk>\<not> is_back_press i; CurrentStep cmd (handler_ctx userID s loc) = Some step;
      is_page_press step i PagePrev; \<not> page_of (dst_PageState s) (ParamName step) > 0\<rbrakk>
    \<Longrightarrow> dialog_step E cmd userID loc (s, n) i (s, n)"
| reject: "\<lbrakk>\<not> is_back_press i; CurrentStep cmd (handler_ctx userID s loc) = Some step;
      \<not> is_page_press step i PageNext; \<not> is_page_press step i PagePrev;
      \<not> isValid step (handler_ctx userID s loc) i\<rbrakk>
    \<Longrightarrow> dialog_step E cmd userID loc (s, n) i (s, n)"
| answer: "\<lbrakk>\<not> is_back_press i; CurrentStep cmd (handler_ctx userID s loc) = Some step;
      \<not> is_page_press step i PageNext; \<not> is_page_press step i PagePrev;
      isValid step (handler_ctx userID s loc) i; \<not> cd_AllowBack cmd\<rbrakk>
    \<Longrightarrow> dialog_step E cmd userID loc (s, n) i
          (s\<lparr>dst_Params := (dst_Params s)(ParamName step \<mapsto> TextValue i)\<rparr>, n)"
| answer_back: "\<lbrakk>\<not> is_back_press i; CurrentStep cmd (handler_ctx userID s loc) = Some step;
      \<not> is_page_press step i PageNext; \<not> is_page_press step i PagePrev;
      isValid step (handler_ctx userID s loc) i; cd_AllowBack cmd\<rbrakk>
    \<Longrightarrow> dialog_step E cmd userID loc (s, n) i
          (s\<lparr>dst_History := dst_History s @ [snapshot_of s],
             dst_NavigationToken := env_token E n,
             dst_Params := (dst_Params s)(ParamName step \<mapsto> TextValue i)\<rparr>, Suc n)"

inductive_cases dialog_stepE: "dialog_step E cmd userID loc c i c'"

lemma PageNext_not_PagePrev [simp]: "PageNext \<noteq> PagePrev" "PagePrev \<noteq> PageNext"
  by (simp_all add: PageNext_def PagePrev_def)

lemma page_presses_not_back [simp]:
  "\<not> HasPrefix PageNext dialogBackPrefix" "\<not> HasPrefix PagePrev dialogBackPrefix"
  by (simp_all add: PageNext_def PagePrev_def dialogBackPrefix_def)

lemma navigateBack_step:
  assumes "navigateBack E cmd userID s (TextValue i) loc n = ((s', out), n')" "is_back_press i"
  shows "dialog_step E cmd userID loc (s, n) i (s', n')"
proof (cases "\<not> cd_AllowBack cmd \<or> TextValue i \<noteq> dialogBackPrefix @ dst_NavigationToken s")
  case True
  with assms show ?thesis by (auto simp: navigateBack_def intro: stale_back)
next
  case False
  show ?thesis
  proof (cases "dst_History s" rule: rev_cases)
    case Nil
    with False assms show ?thesis by (auto simp: navigateBack_def intro: cancel)
  next
    case (snoc h sn)
    with False assms show ?thesis
      using rewind [of i cmd s h sn E userID loc n]
      by (auto simp: navigateBack_def newNavigationToken_def Let_def)
  qed
qed

text \<open>\<^verbatim>\<open>ProcessInput\<close> on each of its branches.\<close>

abbreviation plain_outcome :: "command_definition \<Rightarrow> message \<Rightarrow> step_outcome" where
  "plain_outcome cmd msg \<equiv>
     \<lparr>out_Message = msg, out_CommandName = cd_Name cmd, out_IsComplete = False,
      out_IsCancelled = False, out_Params = Map.empty\<rparr>"

lemma ProcessInput_back:
  "is_back_press i \<Longrightarrow>
     ProcessInput E cmd userID s i loc n = navigateBack E cmd userID s (TextValue i) loc n"
  by (simp add: ProcessInput_def)

lemma ProcessInput_finished:
  "\<lbrakk>\<not> is_back_press i; CurrentStep cmd (handler_ctx userID s loc) = None\<rbrakk> \<Longrightarrow>
     ProcessInput E cmd userID s i loc n =
       ((s, (plain_outcome cmd empty_message)
              \<lparr>out_IsComplete := True, out_Params := dst_Params s\<rparr>), n)"
  by (simp add: ProcessInput_def FinalParams_def Let_def)

lemma page_press_not_back:
  "is_page_press step i PageNext \<Longrightarrow> \<not> is_back_press i"
  "is_page_press step i PagePrev \<Longrightarrow> \<not> is_back_press i"
  "is_page_press step i PagePrev \<Longrightarrow> \<not> is_page_press step i PageNext"
  by (auto simp: is_page_press_def is_back_press_def)

lemma ProcessInput_next_page:
  "\<lbrakk>CurrentStep cmd (handler_ctx userID s loc) = Some step; is_page_press step i PageNext;
    s' = s\<lparr>dst_PageState := (dst_PageState s)
            (ParamName step \<mapsto> page_of (dst_PageState s) (ParamName step) + 1)\<rparr>\<rbrakk> \<Longrightarrow>
     ProcessInput E cmd userID s i loc n =
       ((s', plain_outcome cmd (BuildStepMessage E cmd userID s' loc)), n)"
  by (simp add: ProcessInput_def Let_def page_press_not_back)

lemma ProcessInput_prev_page:
  "\<lbrakk>CurrentStep cmd (handler_ctx userID s loc) = Some step; is_page_press step i PagePrev;
    s' = (if page_of (dst_PageState s) (ParamName step) > 0
          then s\<lparr>dst_PageState := (dst_PageState s)
                  (ParamName step \<mapsto> page_of (dst_PageState s) (ParamName step) - 1)\<rparr>
          else s)\<rbrakk> \<Longrightarrow>
     ProcessInput E cmd userID s i loc n =
       ((s', plain_outcome cmd (BuildStepMessage E cmd userID s' loc)), n)"
  by (simp add: ProcessInput_def Let_def page_press_not_back)

text \<open>The outcome after an answer was recorded or rejected.\<close>

definition answer_outcome ::
    "env \<Rightarrow> command_definition \<Rightarrow> user_id \<Rightarrow> dsl_state \<Rightarrow> string \<Rightarrow> step_outcome" where
  "answer_outcome E cmd userID s loc =
     (let complete = IsComplete cmd (handler_ctx userID s loc)
      in (plain_outcome cmd (BuildStepMessage E cmd userID s loc))
           \<lparr>out_IsComplete := complete,
            out_Params := (if complete then dst_Params s else Map.empty)\<rparr>)"

lemma ProcessInput_reject:
  "\<lbrakk>\<not> is_back_press i; CurrentStep cmd (handler_ctx userID s loc) = Some step;
    \<not> is_page_press step i PageNext; \<not> is_page_press step i PagePrev;
    \<not> isValid step (handler_ctx userID s loc) i\<rbrakk> \<Longrightarrow>
     ProcessInput E cmd userID s i loc n = ((s, answer_outcome E cmd userID s loc), n)"
  by (simp add: ProcessInput_def Let_def answer_outcome_def FinalParams_def)

lemma ProcessInput_answer:
  "\<lbrakk>\<not> is_back_press i; CurrentStep cmd (handler_ctx userID s loc) = Some step;
    \<not> is_page_press step i PageNext; \<not> is_page_press step i PagePrev;
    isValid step (handler_ctx userID s loc) i;
    recordAnswer E cmd step i s n = (s', n')\<rbrakk> \<Longrightarrow>
     ProcessInput E cmd userID s i loc n = ((s', answer_outcome E cmd userID s' loc), n')"
  by (simp add: ProcessInput_def Let_def answer_outcome_def FinalParams_def)

lemmas ProcessInput_branches =
  ProcessInput_finished ProcessInput_next_page ProcessInput_prev_page ProcessInput_reject

text \<open>The handler implements the transition relation.\<close>

lemma ProcessInput_step:
  assumes P: "ProcessInput E cmd userID s i loc n = ((s', out), n')"
  shows "dialog_step E cmd userID loc (s, n) i (s', n')"
proof (cases "is_back_press i")
  case True
  with P show ?thesis by (intro navigateBack_step) (auto simp: ProcessInput_back)
next
  case nb: False
  show ?thesis
  proof (cases "CurrentStep cmd (handler_ctx userID s loc)")
    case None
    with P nb show ?thesis by (auto simp: ProcessInput_finished intro: finished)
  next
    case cs: (Some step)
    consider (nxt) "is_page_press step i PageNext" | (prv) "is_page_press step i PagePrev"
      | (bad) "\<not> is_page_press step i PageNext" "\<not> is_page_press step i PagePrev"
          "\<not> isValid step (handler_ctx userID s loc) i"
      | (ok) "\<not> is_page_press step i PageNext" "\<not> is_page_press step i PagePrev"
          "isValid step (handler_ctx userID s loc) i"
      by blast
    then show ?thesis
    proof cases
      case nxt
      with P cs next_page [OF nb cs nxt] show ?thesis by (simp add: ProcessInput_next_page)
    next
      case prv
      with P cs prev_page [OF nb cs prv] first_page [OF nb cs prv] show ?thesis
        by (auto simp: ProcessInput_prev_page split: if_splits)
    next
      case bad
      with P cs nb reject [OF nb cs bad] show ?thesis by (simp add: ProcessInput_reject)
    next
      case ok
      obtain s1 n1 where r: "recordAnswer E cmd step i s n = (s1, n1)" by fastforce
      with P ok cs nb have "s' = s1" "n' = n1" by (auto simp: ProcessInput_answer)
      with r answer [OF nb cs ok] answer_back [OF nb cs ok] show ?thesis
        by (auto simp: recordAnswer_def newNavigationToken_def split: if_splits)
    qed
  qed
qed

subsection \<open>Invariants of a running dialog\<close>

definition pages_ok :: "(string \<rightharpoonup> int) \<Rightarrow> bool" where
  "pages_ok ps \<longleftrightarrow> (\<forall>p. page_of ps p \<ge> 0)"

text \<open>One answer: a step of the command got a value for its parameter, which had none.\<close>

definition one_answer :: "command_definition \<Rightarrow> option_map \<Rightarrow> option_map \<Rightarrow> bool" where
  "one_answer cmd m m' \<longleftrightarrow>
     (\<exists>st v. step_of (cd_Nodes cmd) st \<and> m (ParamName st) = None \<and> m' = m(ParamName st \<mapsto> v))"

definition trail :: "dsl_state \<Rightarrow> option_map list" where
  "trail s = map snap_Params (dst_History s) @ [dst_Params s]"

definition trail_ok :: "command_definition \<Rightarrow> option_map list \<Rightarrow> bool" where
  "trail_ok cmd ms \<longleftrightarrow> hd ms = Map.empty \<and> successively (one_answer cmd) ms"

definition dialog_inv :: "command_definition \<Rightarrow> dsl_state \<Rightarrow> bool" where
  "dialog_inv cmd s \<longleftrightarrow>
     (if cd_AllowBack cmd then trail_ok cmd (trail s) else dst_History s = []) \<and>
     pages_ok (dst_PageState s) \<and> (\<forall>sn \<in> set (dst_History s). pages_ok (snap_PageState sn))"

inductive dialog_reachable :: "env \<Rightarrow> command_definition \<Rightarrow> dsl_state \<times> nat \<Rightarrow> bool"
  for E cmd where
  start: "CreateNewState E cmd n = c \<Longrightarrow> dialog_reachable E cmd c"
| input: "\<lbrakk>dialog_reachable E cmd (s, n); ProcessInput E cmd userID s i loc n = ((s', out), n')\<rbrakk>
    \<Longrightarrow> dialog_reachable E cmd (s', n')"
| persisted: "\<lbrakk>dialog_reachable E cmd (s, n); RestoreState E cmd (PersistState cmd s) n = c\<rbrakk>
    \<Longrightarrow> dialog_reachable E cmd c"

lemma RestoreState_PersistState:
  "dst_Command s = cmd \<Longrightarrow>
     RestoreState E cmd (PersistState cmd s) n =
       (if dst_NavigationToken s = '''' then (s\<lparr>dst_NavigationToken := env_token E n\<rparr>, Suc n)
        else (s, n))"
  by (cases s) (simp add: RestoreState_def PersistState_def restoredNavigationToken_def
      newNavigationToken_def)

lemma dialog_step_Command [frame_simps]:
  "dialog_step E cmd userID loc c i c' \<Longrightarrow> dst_Command (fst c') = dst_Command (fst c)"
  by (erule dialog_stepE) auto

lemma dialog_reachable_Command: "dialog_reachable E cmd c \<Longrightarrow> dst_Command (fst c) = cmd"
proof (induction rule: dialog_reachable.induct)
  case (input s n userID i loc s' out n')
  then show ?case using dialog_step_Command [OF ProcessInput_step] by fastforce
qed (auto simp: CreateNewState_def newNavigationToken_def RestoreState_PersistState split: if_splits)

lemma trail_simps [simp]:
  "trail (s\<lparr>dst_PageState := ps\<rparr>) = trail s"
  "trail (s\<lparr>dst_NavigationToken := t\<rparr>) = trail s"
  by (simp_all add: trail_def)

lemma trail_ok_snoc:
  "trail_ok cmd (ms @ [m]) \<Longrightarrow> one_answer cmd m m' \<Longrightarrow> trail_ok cmd (ms @ [m, m'])"
  using successively_append_iff [of "one_answer cmd" "ms @ [m]" "[m']"]
  by (cases ms) (auto simp: trail_ok_def)

lemma trail_ok_butlast:
  "trail_ok cmd (ms @ [m, m']) \<Longrightarrow> trail_ok cmd (ms @ [m])"
  using successively_append_iff [of "one_answer cmd" "ms @ [m]" "[m']"]
  by (cases ms) (auto simp: trail_ok_def)

lemma pages_ok_upd: "pages_ok ps \<Longrightarrow> k \<ge> 0 \<Longrightarrow> pages_ok (ps(p \<mapsto> k))"
  by (simp add: pages_ok_def page_of_def)

lemma CurrentStep_one_answer:
  assumes "CurrentStep cmd ctx = Some step"
  shows "one_answer cmd (ctx_Params ctx) ((ctx_Params ctx)(ParamName step \<mapsto> v))"
  using CurrentStep_unanswered [OF assms] flattenNodes_step_of
  unfolding one_answer_def ResolveActiveSteps_def by blast

lemma dialog_inv_step [inv_intros]:
  assumes "dialog_step E cmd userID loc c i c'" "dialog_inv cmd (fst c)"
  shows "dialog_inv cmd (fst c')"
  using assms
proof cases
  case (rewind s h sn n)
  with assms(2) show ?thesis
    using trail_ok_butlast [of cmd "map snap_Params h" "snap_Params sn" "dst_Params s"]
    by (simp add: dialog_inv_def trail_def)
next
  case (next_page s step n)
  with assms(2) show ?thesis
    by (simp add: dialog_inv_def) (metis add_nonneg_nonneg pages_ok_def pages_ok_upd zero_le_one)
next
  case (prev_page s step n)
  with assms(2) show ?thesis
    by (simp add: dialog_inv_def pages_ok_upd)
next
  case (answer_back s step n)
  with assms(2) CurrentStep_one_answer [OF answer_back(4)] show ?thesis
    by (simp add: dialog_inv_def trail_def) (metis append.assoc append_Cons append_Nil trail_ok_snoc)
qed (auto simp: dialog_inv_def trail_def)

lemma dialog_reachable_inv: "dialog_reachable E cmd c \<Longrightarrow> dialog_inv cmd (fst c)"
proof (induction rule: dialog_reachable.induct)
  case (start n c)
  then show ?case
    by (auto simp: CreateNewState_def newNavigationToken_def dialog_inv_def trail_def trail_ok_def
        pages_ok_def page_of_def)
next
  case (input s n userID i loc s' out n')
  then show ?case using dialog_inv_step [OF ProcessInput_step] by fastforce
next
  case (persisted s n c)
  then show ?case using dialog_reachable_Command [OF persisted(1)]
    by (auto simp: RestoreState_PersistState dialog_inv_def split: if_splits)
qed

text \<open>The number of answers a valid trail has recorded.\<close>

lemma trail_ok_card:
  "trail_ok cmd (ms @ [m]) \<Longrightarrow> finite (dom m) \<and> card (dom m) = length ms"
proof (induction ms arbitrary: m rule: rev_induct)
  case Nil
  then show ?case by (simp add: trail_ok_def)
next
  case (snoc m0 ms)
  have "trail_ok cmd (ms @ [m0])" using snoc.prems by (simp add: trail_ok_butlast)
  then have "finite (dom m0)" "card (dom m0) = length ms" using snoc.IH by auto
  moreover have "one_answer cmd m0 m"
    using snoc.prems by (simp add: trail_ok_def successively_append_iff)
  ultimately show ?case unfolding one_answer_def by (force simp: card_insert_if simp del: fun_upd_apply)
qed

lemma trail_ok_dom:
  "trail_ok cmd (ms @ [m]) \<Longrightarrow> dom m \<subseteq> ParamName ` {st. step_of (cd_Nodes cmd) st}"
proof (induction ms arbitrary: m rule: rev_induct)
  case Nil
  then show ?case by (simp add: trail_ok_def)
next
  case (snoc m0 ms)
  have "trail_ok cmd (ms @ [m0])" using snoc.prems by (simp add: trail_ok_butlast)
  then have "dom m0 \<subseteq> ParamName ` {st. step_of (cd_Nodes cmd) st}" by (rule snoc.IH)
  moreover have "one_answer cmd m0 m"
    using snoc.prems by (simp add: trail_ok_def successively_append_iff)
  then obtain st v where "step_of (cd_Nodes cmd) st" "m = m0(ParamName st \<mapsto> v)"
    by (auto simp: one_answer_def)
  then have "dom m = insert (ParamName st) (dom m0)" by (simp del: fun_upd_apply)
  ultimately show ?case using \<open>step_of (cd_Nodes cmd) st\<close> by blast
qed

subsection \<open>Navigation tokens\<close>

lemma dialog_step_token:
  assumes "dialog_step E cmd userID loc (s, n) i (s', n')" "dst_NavigationToken s \<in> env_token E ` {..<n}"
  shows "dst_NavigationToken s' \<in> env_token E ` {..<n'}"
  using assms by (cases rule: dialog_step.cases) auto

lemma dialog_reachable_token:
  "dialog_reachable E cmd (s, n) \<Longrightarrow> dst_NavigationToken s \<in> env_token E ` {..<n}"
proof (induction "(s, n)" arbitrary: s n rule: dialog_reachable.induct)
  case (start n0)
  then show ?case by (auto simp: CreateNewState_def newNavigationToken_def)
next
  case (input s n userID i loc s' out n')
  then show ?case using dialog_step_token [OF ProcessInput_step] by blast
next
  case (persisted s0 n0)
  have "dst_Command s0 = cmd" using dialog_reachable_Command [OF persisted(1)] by simp
  with persisted show ?case by (auto simp: RestoreState_PersistState split: if_splits)
qed

abbreviation back_press :: "dsl_state \<Rightarrow> user_input" where
  "back_press s \<equiv> CallbackInput (dialogBackPrefix @ dst_NavigationToken s) '''' 0"

lemma is_back_press_callback [simp]: "is_back_press (CallbackInput (dialogBackPrefix @ t) l m)"
  by (simp add: is_back_press_def)

lemma ProcessInput_rewind:
  assumes "cd_AllowBack cmd" "dst_History s = h @ [sn]"
    "s' = s\<lparr>dst_Params := snap_Params sn, dst_PageState := snap_PageState sn, dst_History := h,
            dst_NavigationToken := env_token E n\<rparr>"
  shows "ProcessInput E cmd userID s (CallbackInput (dialogBackPrefix @ dst_NavigationToken s) l m) loc n =
    ((s', plain_outcome cmd (BuildStepMessage E cmd userID s' loc)), Suc n)"
  using assms by (simp add: ProcessInput_back navigateBack_def newNavigationToken_def Let_def)

lemma ProcessInput_stale_back:
  assumes "is_back_press i"
    "\<not> cd_AllowBack cmd \<or> TextValue i \<noteq> dialogBackPrefix @ dst_NavigationToken s"
  shows "ProcessInput E cmd userID s i loc n =
    ((s, plain_outcome cmd (BuildStepMessage E cmd userID s loc)), n)"
  using assms by (auto simp: ProcessInput_back navigateBack_def)

text \<open>Pressing the current back button \<open>k\<close> times.\<close>

fun press_backs ::
    "env \<Rightarrow> command_definition \<Rightarrow> user_id \<Rightarrow> string \<Rightarrow> nat \<Rightarrow> dsl_state \<times> nat \<Rightarrow> dsl_state \<times> nat" where
  "press_backs E cmd userID loc 0 c = c"
| "press_backs E cmd userID loc (Suc k) (s, n) =
     (let ((s', out), n') = ProcessInput E cmd userID s (back_press s) loc n
      in press_backs E cmd userID loc k (s', n'))"

lemma press_backs_rewinds:
  assumes "cd_AllowBack cmd" "trail_ok cmd (trail s)" "length (dst_History s) = k"
    "press_backs E cmd userID loc k (s, n) = (s', n')"
  shows "dst_History s' = [] \<and> dst_Params s' = Map.empty"
  using assms
proof (induction k arbitrary: s n)
  case 0
  then show ?case by (simp add: trail_def trail_ok_def)
next
  case (Suc k)
  then obtain h sn where h: "dst_History s = h @ [sn]" by (cases "dst_History s" rule: rev_cases) auto
  define s1 where "s1 = s\<lparr>dst_Params := snap_Params sn, dst_PageState := snap_PageState sn,
    dst_History := h, dst_NavigationToken := env_token E n\<rparr>"
  have "press_backs E cmd userID loc k (s1, Suc n) = (s', n')"
    using Suc.prems ProcessInput_rewind [OF Suc.prems(1) h s1_def] by simp
  moreover have "trail_ok cmd (trail s1)"
    using Suc.prems(2) trail_ok_butlast [of cmd "map snap_Params h" "snap_Params sn"]
    by (simp add: trail_def h s1_def)
  moreover have "length (dst_History s1) = k" using Suc.prems(3) h by (simp add: s1_def)
  ultimately show ?case using Suc.IH Suc.prems(1) by blast
qed

subsection \<open>Properties\<close>

text \<open>
  C3. Answering a step and then pressing the back button that the answer's message carries
  restores the answers, the page positions and the history the dialog had before the answer; the
  dialog is neither completed nor cancelled by it, a fresh token is drawn, and the message
  shown is that of the restored step.
\<close>
theorem answer_then_back:
  assumes "cd_AllowBack cmd" "\<not> is_back_press i"
    "CurrentStep cmd (handler_ctx userID s loc) = Some step"
    "\<not> is_page_press step i PageNext" "\<not> is_page_press step i PagePrev"
    "isValid step (handler_ctx userID s loc) i"
    "ProcessInput E cmd userID s i loc n = ((s1, out1), n1)"
    "ProcessInput E cmd userID s1 (back_press s1) loc n1 = ((s2, out2), n2)"
  shows "dst_Params s1 = (dst_Params s)(ParamName step \<mapsto> TextValue i) \<and>
    dst_Params s2 = dst_Params s \<and> dst_PageState s2 = dst_PageState s \<and>
    dst_History s2 = dst_History s \<and> dst_NavigationToken s2 = env_token E n1 \<and>
    \<not> out_IsComplete out2 \<and> \<not> out_IsCancelled out2 \<and>
    out_Message out2 = BuildStepMessage E cmd userID s2 loc"
proof -
  obtain sr nr where r: "recordAnswer E cmd step i s n = (sr, nr)" by fastforce
  with assms ProcessInput_answer have [simp]: "s1 = sr" by fastforce
  have sr: "dst_History sr = dst_History s @ [snapshot_of s]"
    "dst_Params sr = (dst_Params s)(ParamName step \<mapsto> TextValue i)"
    using r assms(1) by (auto simp: recordAnswer_def newNavigationToken_def)
  with assms(8) ProcessInput_rewind [OF assms(1) sr(1) refl] show ?thesis by auto
qed

text \<open>A command with two text steps and a back button, on which the hypotheses are exhibited.\<close>

definition demo_step :: "string \<Rightarrow> step_node" where
  "demo_step p = SB_build (SB_Prompt (PB_Text ''?'' StylePlain) (new_step_builder p))"

definition demo_cmd :: command_definition where
  "demo_cmd = \<lparr>cd_Name = ''tasks'', cd_Descriptions = [], cd_Description = '''',
     cd_Requirements = None, cd_Nodes = [StepNode (demo_step ''a''), StepNode (demo_step ''b'')],
     cd_PreservesDialog = False, cd_AllowBack = True\<rparr>"

definition demo_env :: env where
  "demo_env = \<lparr>env_bundle = None, env_default_locale = ''en'', env_token = (\<lambda>n. replicate n (CHR ''x''))\<rparr>"

definition demo_state :: dsl_state where
  "demo_state = fst (CreateNewState demo_env demo_cmd 0)"

lemma demo_simps [simp]:
  "cd_AllowBack demo_cmd" "cd_Nodes demo_cmd = [StepNode (demo_step ''a''), StepNode (demo_step ''b'')]"
  "ParamName (demo_step p) = p" "Pagination (demo_step p) = None"
  "isValid (demo_step p) ctx i" "step_visible (demo_step p) ctx"
  by (simp_all add: demo_cmd_def demo_step_def SB_build_def SB_Prompt_def new_step_builder_def
      PB_Text_def add_factory_def new_prompt_builder_def isValid_def step_visible_def)

lemma demo_CurrentStep [simp]:
  "CurrentStep demo_cmd ctx =
     (if ctx_Params ctx ''a'' = None then Some (demo_step ''a'')
      else if ctx_Params ctx ''b'' = None then Some (demo_step ''b'') else None)"
  by (simp add: CurrentStep_def ResolveActiveSteps_def)

lemma demo_state_simps [simp]:
  "dst_Params demo_state = Map.empty" "dst_History demo_state = []"
  "dst_NavigationToken demo_state = ''''"
  by (simp_all add: demo_state_def CreateNewState_def newNavigationToken_def demo_env_def)

theorem answer_then_back_witness:
  "\<exists>s1 out1 n1 s2 out2 n2.
     ProcessInput demo_env demo_cmd 1 demo_state (TextInput ''x'') ''en'' 1 = ((s1, out1), n1) \<and>
     ProcessInput demo_env demo_cmd 1 s1 (back_press s1) ''en'' n1 = ((s2, out2), n2) \<and>
     dst_Params s1 = [''a'' \<mapsto> ''x''] \<and> dst_Params s2 = Map.empty \<and> \<not> out_IsCancelled out2"
proof -
  obtain s1 out1 n1 where p1:
    "ProcessInput demo_env demo_cmd 1 demo_state (TextInput ''x'') ''en'' 1 = ((s1, out1), n1)"
    by (metis prod.exhaust)
  obtain s2 out2 n2 where p2:
    "ProcessInput demo_env demo_cmd 1 s1 (back_press s1) ''en'' n1 = ((s2, out2), n2)"
    by (metis prod.exhaust)
  have "dst_Params s1 = [''a'' \<mapsto> ''x''] \<and> dst_Params s2 = Map.empty \<and> \<not> out_IsCancelled out2"
    using answer_then_back [OF _ _ _ _ _ _ p1 p2, of "demo_step ''a''"]
    by (simp add: is_back_press_def is_page_press_def)
  with p1 p2 show ?thesis by blast
qed

text \<open>
  A back button whose token is not the dialog's current one, or any back button of a command
  that does not allow going back, changes nothing: not the answers, not the pages, not the
  history and not the token; the same step is shown again and nothing is completed or cancelled.
\<close>
theorem stale_back_button_ignored:
  "is_back_press i \<Longrightarrow>
   \<not> cd_AllowBack cmd \<or> TextValue i \<noteq> dialogBackPrefix @ dst_NavigationToken s \<Longrightarrow>
   ProcessInput E cmd userID s i loc n =
     ((s, \<lparr>out_Message = BuildStepMessage E cmd userID s loc, out_CommandName = cd_Name cmd,
           out_IsComplete = False, out_IsCancelled = False, out_Params = Map.empty\<rparr>), n)"
  by (rule ProcessInput_stale_back)

theorem stale_back_button_ignored_witness:
  "fst (fst (ProcessInput demo_env demo_cmd 1 demo_state
     (CallbackInput (dialogBackPrefix @ ''stale'') '''' 0) ''en'' 1)) = demo_state"
  using stale_back_button_ignored [of "CallbackInput (dialogBackPrefix @ ''stale'') '''' 0" demo_cmd
      demo_state demo_env 1 "''en''" 1]
  by simp

text \<open>
  C4. The back button of a step works once: if the generator's tokens are distinct, then in every
  reachable dialog a second press of a button that already rewound the dialog leaves the dialog
  as the first press left it.
\<close>
theorem back_button_works_once:
  assumes "inj (env_token E)" "dialog_reachable E cmd (s, n)" "cd_AllowBack cmd"
    "dst_History s \<noteq> []"
    "ProcessInput E cmd userID s (back_press s) loc n = ((s1, out1), n1)"
    "ProcessInput E cmd userID' s1 (back_press s) loc' n1 = ((s2, out2), n2)"
  shows "length (dst_History s1) = length (dst_History s) - 1 \<and> s2 = s1 \<and>
    \<not> out_IsComplete out2 \<and> \<not> out_IsCancelled out2"
proof -
  obtain h sn where h: "dst_History s = h @ [sn]"
    using assms(4) by (cases "dst_History s" rule: rev_cases) auto
  from dialog_reachable_token [OF assms(2)] obtain k where k: "k < n" "dst_NavigationToken s = env_token E k"
    by auto
  note rw = ProcessInput_rewind [OF assms(3) h refl]
  from assms(5) rw have s1: "dst_NavigationToken s1 = env_token E n" "dst_History s1 = h" by auto
  with k assms(1) have "dst_NavigationToken s1 \<noteq> dst_NavigationToken s" by (auto dest: injD)
  with assms(6) s1 h show ?thesis
    using ProcessInput_stale_back [of "back_press s" cmd s1 E userID' loc' n1] by auto
qed

lemma demo_reachable: "dialog_reachable demo_env demo_cmd (demo_state, 1)"
  by (rule dialog_reachable.start [of _ _ 0])
    (simp add: demo_state_def CreateNewState_def newNavigationToken_def)

theorem back_button_works_once_witness:
  "\<exists>s n s1 out1 n1 s2 out2 n2. dst_Params s = [''a'' \<mapsto> ''x''] \<and> dialog_reachable demo_env demo_cmd (s, n) \<and>
     ProcessInput demo_env demo_cmd 1 s (back_press s) ''en'' n = ((s1, out1), n1) \<and>
     ProcessInput demo_env demo_cmd 1 s1 (back_press s) ''en'' n1 = ((s2, out2), n2) \<and> s2 = s1"
proof -
  obtain s out n where p:
    "ProcessInput demo_env demo_cmd 1 demo_state (TextInput ''x'') ''en'' 1 = ((s, out), n)"
    by (metis prod.exhaust)
  then have s: "dst_Params s = [''a'' \<mapsto> ''x'']" "dst_History s \<noteq> []"
    by (auto simp: ProcessInput_def is_back_press_def is_page_press_def recordAnswer_def
        newNavigationToken_def Let_def split: if_splits)
  have r: "dialog_reachable demo_env demo_cmd (s, n)"
    by (rule dialog_reachable.input [OF demo_reachable p])
  obtain s1 out1 n1 where p1: "ProcessInput demo_env demo_cmd 1 s (back_press s) ''en'' n = ((s1, out1), n1)"
    by (metis prod.exhaust)
  obtain s2 out2 n2 where p2: "ProcessInput demo_env demo_cmd 1 s1 (back_press s) ''en'' n1 = ((s2, out2), n2)"
    by (metis prod.exhaust)
  have "inj (env_token demo_env)" by (rule injI) (metis demo_env_def env.select_convs(3) length_replicate)
  then have "s2 = s1" using back_button_works_once [OF _ r _ s(2) p1 p2] by simp
  with s r p1 p2 show ?thesis by blast
qed

text \<open>
  C5. In every dialog reachable by creating, advancing and persisting it: no page position, of
  the current state or of a snapshot, is negative; without a back button there is no history; with
  one, the snapshots and the current answers form a chain that starts with no answers and in
  which each element adds one answer, to a parameter of a step of the command that had none. The
  history therefore has exactly as many entries as there are answers.
\<close>
theorem reachable_dialog_invariant:
  assumes "dialog_reachable E cmd (s, n)"
  shows "(\<forall>p. page_of (dst_PageState s) p \<ge> 0) \<and>
    (\<forall>sn \<in> set (dst_History s). \<forall>p. page_of (snap_PageState sn) p \<ge> 0) \<and>
    (\<not> cd_AllowBack cmd \<longrightarrow> dst_History s = []) \<and>
    (cd_AllowBack cmd \<longrightarrow>
       hd (trail s) = Map.empty \<and> successively (one_answer cmd) (trail s) \<and>
       finite (dom (dst_Params s)) \<and> length (dst_History s) = card (dom (dst_Params s)) \<and>
       dom (dst_Params s) \<subseteq> ParamName ` {st. step_of (cd_Nodes cmd) st})"
proof -
  have inv: "dialog_inv cmd s" using dialog_reachable_inv [OF assms] by simp
  show ?thesis
  proof (cases "cd_AllowBack cmd")
    case True
    with inv have "trail_ok cmd (map snap_Params (dst_History s) @ [dst_Params s])"
      by (simp add: dialog_inv_def trail_def)
    from trail_ok_card [OF this] trail_ok_dom [OF this] this True inv show ?thesis
      by (simp add: dialog_inv_def pages_ok_def trail_ok_def trail_def)
  next
    case False
    with inv show ?thesis by (simp add: dialog_inv_def pages_ok_def)
  qed
qed

theorem reachable_dialog_invariant_witness:
  "dialog_reachable demo_env demo_cmd (demo_state, 1) \<and> card (dom (dst_Params demo_state)) = 0"
  using demo_reachable reachable_dialog_invariant [OF demo_reachable] by simp

text \<open>
  C6. Back is total: in every reachable dialog of a command with a back button, pressing the
  current button as many times as there are answers leads to the first step with no answers and
  no history, and the next press cancels the dialog without completing it.
\<close>
theorem backs_lead_to_cancel:
  assumes "cd_AllowBack cmd" "dialog_reachable E cmd (s, n)"
    "press_backs E cmd userID loc (card (dom (dst_Params s))) (s, n) = (s1, n1)"
    "ProcessInput E cmd userID s1 (back_press s1) loc n1 = ((s2, out), n2)"
  shows "dst_Params s1 = Map.empty \<and> dst_History s1 = [] \<and> out_IsCancelled out \<and> \<not> out_IsComplete out"
proof -
  have t: "trail_ok cmd (trail s)"
    using dialog_reachable_inv [OF assms(2)] assms(1) by (simp add: dialog_inv_def)
  then have "length (dst_History s) = card (dom (dst_Params s))"
    using trail_ok_card by (fastforce simp: trail_def)
  with press_backs_rewinds [OF assms(1) t _ assms(3)]
  have "dst_History s1 = []" "dst_Params s1 = Map.empty" by auto
  with assms(1,4) show ?thesis by (auto simp: ProcessInput_back navigateBack_def)
qed

theorem backs_lead_to_cancel_witness:
  "\<exists>s2 out n2. ProcessInput demo_env demo_cmd 1 demo_state (back_press demo_state) ''en'' 1 = ((s2, out), n2) \<and>
     out_IsCancelled out"
proof -
  obtain s2 out n2 where
    p: "ProcessInput demo_env demo_cmd 1 demo_state (back_press demo_state) ''en'' 1 = ((s2, out), n2)"
    by (metis prod.exhaust)
  with backs_lead_to_cancel [OF _ demo_reachable _ p] show ?thesis by simp
qed

lemma extend_last_options_first:
  "\<not> list_ex is_OptionsBlock us \<Longrightarrow>
     extend_last_options opt (us @ OptionsBlock p os # vs) =
       Some (us @ OptionsBlock p (extend_options opt os) # vs)"
proof (induction us)
  case (Cons u us)
  then show ?case by (cases u) auto
qed simp

lemma extend_last_options_None_iff:
  "extend_last_options opt bs = None \<longleftrightarrow> \<not> list_ex is_OptionsBlock bs"
  by (induction opt bs rule: extend_last_options.induct) auto

text \<open>
  The back button extends the last options block of a message and nothing else: every other
  block, and every option of that block in its order, is kept; the button is the first option
  when the block already has ten or more and the last one otherwise. A message without options
  gets a block of its own with the one button.
\<close>
theorem back_button_placement:
  "(\<not> list_ex is_OptionsBlock (Blocks msg) \<longrightarrow>
      Blocks (appendBackButton msg opt) = Blocks msg @ [OptionsBlock '''' [opt]]) \<and>
   (\<forall>us p os vs. Blocks msg = us @ OptionsBlock p os # vs \<and> \<not> list_ex is_OptionsBlock vs \<longrightarrow>
      Blocks (appendBackButton msg opt) =
        us @ OptionsBlock p (if length os \<ge> 10 then opt # os else os @ [opt]) # vs)"
proof (intro conjI impI allI; (elim conjE)?)
  assume "\<not> list_ex is_OptionsBlock (Blocks msg)"
  then have "extend_last_options opt (rev (Blocks msg)) = None"
    by (simp add: extend_last_options_None_iff list_ex_iff)
  then show "Blocks (appendBackButton msg opt) = Blocks msg @ [OptionsBlock '''' [opt]]"
    by (simp add: appendBackButton_def)
next
  fix us p os vs
  assume m: "Blocks msg = us @ OptionsBlock p os # vs" "\<not> list_ex is_OptionsBlock vs"
  then have "extend_last_options opt (rev (Blocks msg)) =
      Some (rev vs @ OptionsBlock p (extend_options opt os) # rev us)"
    using extend_last_options_first [of "rev vs" opt p os "rev us"] by (simp add: list_ex_iff)
  then show "Blocks (appendBackButton msg opt) =
      us @ OptionsBlock p (if length os \<ge> 10 then opt # os else os @ [opt]) # vs"
    by (simp add: appendBackButton_def extend_options_def)
qed

theorem back_button_placement_witness:
  "Blocks (appendBackButton \<lparr>Blocks = [OptionsBlock ''p'' [mk_option ''l'' ''v''], ImageBlock ''u'']\<rparr>
     (mk_option ''Back'' ''b'')) =
   [OptionsBlock ''p'' [mk_option ''l'' ''v'', mk_option ''Back'' ''b''], ImageBlock ''u'']"
  using conjunct2 [OF back_button_placement, rule_format, of _ "[]" "''p''" "[mk_option ''l'' ''v'']"
      "[ImageBlock ''u'']"]
  by simp

lemma outcome_is_exact:
  assumes "ProcessInput E cmd userID s i loc n = ((s', out), n')" "\<not> is_back_press i"
  shows "\<not> out_IsCancelled out \<and> out_CommandName out = cd_Name cmd \<and>
    (out_IsComplete out \<longleftrightarrow>
      (\<forall>st \<in> set (ResolveActiveSteps cmd (handler_ctx userID s' loc)).
         dst_Params s' (ParamName st) \<noteq> None)) \<and>
    (out_IsComplete out \<longrightarrow> out_Params out = dst_Params s' \<and> out_Message out = empty_message)"
proof -
  have "out = answer_outcome E cmd userID s' loc"
  proof (cases "CurrentStep cmd (handler_ctx userID s loc)")
    case None
    with assms show ?thesis
      by (auto simp: ProcessInput_finished answer_outcome_def IsComplete_def BuildStepMessage_def)
  next
    case cs: (Some step)
    have nc: "\<And>ps. IsComplete cmd (handler_ctx userID (s\<lparr>dst_PageState := ps\<rparr>) loc) = False"
      using cs by (simp add: IsComplete_def)
    show ?thesis
    proof (cases "is_page_press step i PageNext \<or> is_page_press step i PagePrev")
      case True
      with assms cs nc nc [of "dst_PageState s"] show ?thesis
        by (elim disjE)
          (auto simp: ProcessInput_next_page ProcessInput_prev_page answer_outcome_def split: if_splits)
    next
      case False
      with assms cs show ?thesis
        by (cases "isValid step (handler_ctx userID s loc) i"; cases "recordAnswer E cmd step i s n")
          (auto simp: ProcessInput_reject ProcessInput_answer)
    qed
  qed
  moreover have "IsComplete cmd (handler_ctx userID s' loc) \<Longrightarrow>
      BuildStepMessage E cmd userID s' loc = empty_message"
    by (simp add: IsComplete_def BuildStepMessage_def)
  ultimately show ?thesis
    by (simp add: answer_outcome_def Let_def IsComplete_def CurrentStep_None_iff)
qed

text \<open>
  A completed input reports exactly the answers of the dialog, every step that is active
  under those answers has one, and no further step is offered; an input that neither completes
  nor cancels leaves some active step unanswered, so that the dialog always goes on. (A back
  press never completes a dialog.)
\<close>
theorem completion_is_exact:
  assumes "ProcessInput E cmd userID s i loc n = ((s', out), n')" "\<not> is_back_press i"
  shows "\<not> out_IsCancelled out \<and> out_CommandName out = cd_Name cmd \<and>
    (out_IsComplete out \<longleftrightarrow>
      (\<forall>st \<in> set (ResolveActiveSteps cmd (handler_ctx userID s' loc)).
         dst_Params s' (ParamName st) \<noteq> None)) \<and>
    (out_IsComplete out \<longrightarrow> out_Params out = dst_Params s' \<and> out_Message out = empty_message)"
  using assms by (rule outcome_is_exact)

theorem completion_is_exact_witness:
  "\<exists>s' out n'. ProcessInput demo_env demo_cmd 1 (demo_state\<lparr>dst_Params := [''a'' \<mapsto> ''x'']\<rparr>)
       (TextInput ''y'') ''en'' 1 = ((s', out), n') \<and> \<not> out_IsCancelled out"
proof -
  obtain s' out n' where p: "ProcessInput demo_env demo_cmd 1 (demo_state\<lparr>dst_Params := [''a'' \<mapsto> ''x'']\<rparr>)
       (TextInput ''y'') ''en'' 1 = ((s', out), n')" by (metis prod.exhaust)
  with completion_is_exact [OF p] show ?thesis by (simp add: is_back_press_def)
qed

text \<open>
  A paginated step (\<^verbatim>\<open>PaginatedOptions\<close> with a positive page size) shows every option on
  exactly one page and in order: page \<open>p\<close> shows the options from \<open>p * size\<close> on, at most
  \<open>size\<close> of them, followed by the previous-page button exactly when \<open>p > 0\<close> and the next-page
  button exactly when options remain, and the pages up to the first one without a next-page button
  together are the whole list.
\<close>
theorem pages_partition_options:
  assumes "sz > 0"
    "Pagination step = pb_paginationCfg (PB_PaginatedOptions prompt (int sz) provider pb)"
    "Pagination step = Some config" "dst_PageState s (ParamName step) = Some (int p)"
    "all = provider \<lparr>ctx_UserID = ctx_UserID ctx, ctx_Locale = ctx_Locale ctx,
                      ctx_Params = dst_Params s, ctx_Page = int p\<rparr>"
  shows "applyPagination E msg step config s ctx =
      \<lparr>Blocks = Blocks msg @ [OptionsBlock prompt
         (take sz (drop (p * sz) all) @
          (if p > 0 then [mk_option (tr E ''pagination.previous'' (ctx_Locale ctx)) PagePrev] else []) @
          (if Suc p * sz < length all
           then [mk_option (tr E ''pagination.next'' (ctx_Locale ctx)) PageNext] else []))]\<rparr> \<and>
    (\<not> Suc p * sz < length all \<longrightarrow>
      concat (map (\<lambda>q. take sz (drop (q * sz) all)) [0..<Suc p]) = all)"
proof (intro conjI impI)
  have c: "config = \<lparr>pc_Prompt = prompt, pc_Prompts = [], pc_PromptProvider = None,
      pc_PageSize = int sz, pc_PageProvider = (\<lambda>ctx page. slice_page (int sz) (provider ctx) page)\<rparr>"
    using assms(2,3) by (simp add: PB_PaginatedOptions_def)
  show "applyPagination E msg step config s ctx =
      \<lparr>Blocks = Blocks msg @ [OptionsBlock prompt
         (take sz (drop (p * sz) all) @
          (if p > 0 then [mk_option (tr E ''pagination.previous'' (ctx_Locale ctx)) PagePrev] else []) @
          (if Suc p * sz < length all
           then [mk_option (tr E ''pagination.next'' (ctx_Locale ctx)) PageNext] else []))]\<rparr>"
    unfolding applyPagination_def Let_def c page_of_def assms(4) option.case
    using assms(1) by (simp add: slice_page_Options slice_page_HasMore assms(5))
next
  assume "\<not> Suc p * sz < length all"
  then show "concat (map (\<lambda>q. take sz (drop (q * sz) all)) [0..<Suc p]) = all"
    using concat_pages [of sz all "Suc p"] by (simp add: slice_page_Options)
qed


theorem pages_partition_options_witness:
  "applyPagination demo_env empty_message
     ((demo_step ''a'')\<lparr>Pagination := pb_paginationCfg (PB_PaginatedOptions ''p'' 1
        (\<lambda>_. [mk_option ''l'' ''v'', mk_option ''m'' ''w'']) new_prompt_builder)\<rparr>)
     (the (pb_paginationCfg (PB_PaginatedOptions ''p'' 1
        (\<lambda>_. [mk_option ''l'' ''v'', mk_option ''m'' ''w'']) new_prompt_builder)))
     (demo_state\<lparr>dst_PageState := [''a'' \<mapsto> 1]\<rparr>) (handler_ctx 1 demo_state ''en'') =
   \<lparr>Blocks = [OptionsBlock ''p''
      [mk_option ''m'' ''w'', mk_option (tr demo_env ''pagination.previous'' ''en'') PagePrev]]\<rparr>"
  using pages_partition_options [of 1
      "(demo_step ''a'')\<lparr>Pagination := pb_paginationCfg (PB_PaginatedOptions ''p'' 1
        (\<lambda>_. [mk_option ''l'' ''v'', mk_option ''m'' ''w'']) new_prompt_builder)\<rparr>" "''p''"
      "\<lambda>_. [mk_option ''l'' ''v'', mk_option ''m'' ''w'']" new_prompt_builder _
      "demo_state\<lparr>dst_PageState := [''a'' \<mapsto> 1]\<rparr>" 1 "[mk_option ''l'' ''v'', mk_option ''m'' ''w'']"
      "handler_ctx 1 demo_state ''en''" demo_env empty_message]
  by (simp add: PB_PaginatedOptions_def empty_message_def)

end
