(* ===== verification/Dialog_Storage.thy ===== *)
theory Dialog_Storage
  imports Bot_Model
begin

text \<open>
  Where dialogs live between two inputs: the interface \<^verbatim>\<open>DialogStorage\<close>
  (\<^verbatim>\<open>internal/state/storage/storage.go\<close>) as a record of operations and a locale with the laws its
  clients use, the JSON form of a \<^verbatim>\<open>DialogState\<close> given by its field tags
  (\<^verbatim>\<open>internal/model/command.go\<close>), and \<^verbatim>\<open>RedisStorage\<close> (\<^verbatim>\<open>redis.go\<close>) over a Redis client.

  The client is third-party code: a record of operations, whose laws (locale \<open>redis_client\<close>) are
  the documented behaviour of \<^verbatim>\<open>SET key value EX\<close>, \<^verbatim>\<open>GET\<close> and \<^verbatim>\<open>DEL\<close>. A value is the JSON
  document rather than its text; strings are valid UTF-8, which the JSON encoder keeps.
\<close>

subsection \<open>The interface (storage.go)\<close>

record 's storage_ops =
  st_Save :: "'s \<Rightarrow> user_id \<Rightarrow> dialog_state \<Rightarrow> 's \<times> go_error option"
  st_Load :: "'s \<Rightarrow> user_id \<Rightarrow> 's \<times> (go_error + dialog_state option)"
  st_Delete :: "'s \<Rightarrow> user_id \<Rightarrow> 's \<times> go_error option"

text \<open>
  The contract: \<open>content s u\<close> is the dialog the store holds for user \<open>u\<close>. Every operation may
  fail, at any time; the laws say what a success means, and that loading changes no dialog.
\<close>

locale dialog_storage =
  fixes S :: "'s storage_ops" and content :: "'s \<Rightarrow> user_id \<Rightarrow> dialog_state option"
  assumes save_ok: "st_Save S s u ds = (s', None) \<Longrightarrow> content s' = (content s)(u := Some ds)"
    and load_ok: "st_Load S s u = (s', Inr r) \<Longrightarrow> r = content s u"
    and load_keeps: "st_Load S s u = (s', res) \<Longrightarrow> content s' = content s"
    and delete_ok: "st_Delete S s u = (s', None) \<Longrightarrow> content s' = (content s)(u := None)"
    and save_frame: "st_Save S s u ds = (s', e) \<Longrightarrow> v \<noteq> u \<Longrightarrow> content s' v = content s v"
    and delete_frame: "st_Delete S s u = (s', e) \<Longrightarrow> v \<noteq> u \<Longrightarrow> content s' v = content s v"

subsection \<open>JSON documents of dialogs (model/command.go)\<close>

text \<open>
  The shapes the encoder produces for the field types of \<^verbatim>\<open>DialogState\<close>. An object built from
  a Go map is a map, since its members are sorted by key whatever the map's order.
\<close>

datatype json =
    JString string
  | JNumber int
  | JArray "json list"
  | JObject "(string \<times> json) list"
  | JStringMap "string \<rightharpoonup> string"
  | JNumberMap "string \<rightharpoonup> int"

text \<open>A field with the \<^verbatim>\<open>omitempty\<close> option is left out when its value is the empty one.\<close>

definition omitempty :: "bool \<Rightarrow> string \<Rightarrow> json \<Rightarrow> (string \<times> json) list" where
  "omitempty isEmpty name v = (if isEmpty then [] else [(name, v)])"

definition map_is_empty :: "(string \<rightharpoonup> 'v) \<Rightarrow> bool" where
  "map_is_empty m \<longleftrightarrow> dom m = {}"

lemma map_is_empty_iff [simp]: "map_is_empty m \<longleftrightarrow> m = Map.empty"
  by (simp add: map_is_empty_def)

definition marshal_snapshot :: "dialog_snapshot \<Rightarrow> json" where
  "marshal_snapshot sn =
     JObject (omitempty (map_is_empty (snap_Params sn)) ''params'' (JStringMap (snap_Params sn)) @
              omitempty (map_is_empty (snap_PageState sn)) ''page_state''
                (JNumberMap (snap_PageState sn)))"

definition marshal_DialogState :: "dialog_state \<Rightarrow> json" where
  "marshal_DialogState ds =
     JObject (omitempty (ds_History ds = []) ''history'' (JArray (map marshal_snapshot (ds_History ds))) @
              omitempty (ds_NavigationToken ds = '''') ''navigation_token''
                (JString (ds_NavigationToken ds)) @
              [(''user_id'', JNumber (ds_UserID ds)), (''chat_id'', JString (ds_ChatID ds))] @
              omitempty (ds_PluginID ds = '''') ''plugin_id'' (JString (ds_PluginID ds)) @
              [(''command_name'', JString (ds_CommandName ds))] @
              omitempty (map_is_empty (ds_Params ds)) ''params'' (JStringMap (ds_Params ds)) @
              omitempty (map_is_empty (ds_PageState ds)) ''page_state'' (JNumberMap (ds_PageState ds)) @
              [(''created_at'', JNumber (ds_CreatedAt ds))])"

text \<open>
  Decoding one field: the zero value when the member is missing, \<open>None\<close> (an error) when it has
  another shape.
\<close>

definition field_string :: "(string \<times> json) list \<Rightarrow> string \<Rightarrow> string option" where
  "field_string fs k =
     (case map_of fs k of None \<Rightarrow> Some '''' | Some (JString v) \<Rightarrow> Some v | Some _ \<Rightarrow> None)"

definition field_int :: "(string \<times> json) list \<Rightarrow> string \<Rightarrow> int option" where
  "field_int fs k = (case map_of fs k of None \<Rightarrow> Some 0 | Some (JNumber v) \<Rightarrow> Some v | Some _ \<Rightarrow> None)"

definition field_strings :: "(string \<times> json) list \<Rightarrow> string \<Rightarrow> (string \<rightharpoonup> string) option" where
  "field_strings fs k =
     (case map_of fs k of None \<Rightarrow> Some Map.empty | Some (JStringMap m) \<Rightarrow> Some m | Some _ \<Rightarrow> None)"

definition field_ints :: "(string \<times> json) list \<Rightarrow> string \<Rightarrow> (string \<rightharpoonup> int) option" where
  "field_ints fs k =
     (case map_of fs k of None \<Rightarrow> Some Map.empty | Some (JNumberMap m) \<Rightarrow> Some m | Some _ \<Rightarrow> None)"

fun unmarshal_snapshot :: "json \<Rightarrow> dialog_snapshot option" where
  "unmarshal_snapshot (JObject fs) =
     (case (field_strings fs ''params'', field_ints fs ''page_state'') of
        (Some p, Some ps) \<Rightarrow> Some \<lparr>snap_Params = p, snap_PageState = ps\<rparr>
      | _ \<Rightarrow> None)"
| "unmarshal_snapshot _ = None"

definition field_history :: "(string \<times> json) list \<Rightarrow> dialog_snapshot list option" where
  "field_history fs =
     (case map_of fs ''history'' of
        None \<Rightarrow> Some []
      | Some (JArray js) \<Rightarrow> those (map unmarshal_snapshot js)
      | Some _ \<Rightarrow> None)"

fun unmarshal_DialogState :: "json \<Rightarrow> dialog_state option" where
  "unmarshal_DialogState (JObject fs) =
     (case (field_history fs, field_string fs ''navigation_token'', field_int fs ''user_id'',
            field_string fs ''chat_id'', field_string fs ''plugin_id'') of
        (Some h, Some tok, Some uid, Some chat, Some pid) \<Rightarrow>
          (case (field_string fs ''command_name'', field_strings fs ''params'',
                 field_ints fs ''page_state'', field_int fs ''created_at'') of
             (Some cmd, Some ps, Some pg, Some ca) \<Rightarrow>
               Some \<lparr>ds_History = h, ds_NavigationToken = tok, ds_UserID = uid, ds_ChatID = chat,
                     ds_PluginID = pid, ds_CommandName = cmd, ds_Params = ps, ds_PageState = pg,
                     ds_CreatedAt = ca\<rparr>
           | _ \<Rightarrow> None)
      | _ \<Rightarrow> None)"
| "unmarshal_DialogState _ = None"

lemma map_of_omitempty:
  "map_of (omitempty b k v @ fs) k' = (if k' = k \<and> \<not> b then Some v else map_of fs k')"
  "(m ++ map_of (omitempty b k v)) k' = (if k' = k \<and> \<not> b then Some v else m k')"
  by (simp_all add: omitempty_def map_add_def)

lemma unmarshal_snapshot_marshal: "unmarshal_snapshot (marshal_snapshot sn) = Some sn"
  by (cases sn) (auto simp: marshal_snapshot_def field_strings_def field_ints_def omitempty_def)

lemma those_unmarshal_snapshots: "those (map (unmarshal_snapshot \<circ> marshal_snapshot) h) = Some h"
  by (induction h) (simp_all add: unmarshal_snapshot_marshal)

lemma unmarshal_marshal_DialogState:
  "unmarshal_DialogState (marshal_DialogState ds) = Some ds"
proof -
  define fs where "fs = (case marshal_DialogState ds of JObject fs \<Rightarrow> fs | _ \<Rightarrow> [])"
  have fs: "marshal_DialogState ds = JObject fs" by (simp add: fs_def marshal_DialogState_def)
  note defs = fs_def marshal_DialogState_def map_of_omitempty
  have "field_history fs = Some (ds_History ds)"
    by (simp add: defs field_history_def those_unmarshal_snapshots)
  moreover have "field_string fs ''navigation_token'' = Some (ds_NavigationToken ds)"
    "field_string fs ''chat_id'' = Some (ds_ChatID ds)"
    "field_string fs ''plugin_id'' = Some (ds_PluginID ds)"
    "field_string fs ''command_name'' = Some (ds_CommandName ds)"
    by (simp_all add: defs field_string_def)
  moreover have "field_int fs ''user_id'' = Some (ds_UserID ds)"
    "field_int fs ''created_at'' = Some (ds_CreatedAt ds)"
    by (simp_all add: defs field_int_def)
  moreover have "field_strings fs ''params'' = Some (ds_Params ds)"
    "field_ints fs ''page_state'' = Some (ds_PageState ds)"
    by (simp_all add: defs field_strings_def field_ints_def)
  ultimately show ?thesis by (simp add: fs)
qed

subsection \<open>RedisStorage (redis.go)\<close>

text \<open>\<open>rc_Get\<close> answers \<open>Inr None\<close> for \<^verbatim>\<open>redis.Nil\<close>.\<close>

record 'r redis_ops =
  rc_Set :: "'r \<Rightarrow> string \<Rightarrow> json \<Rightarrow> duration \<Rightarrow> 'r \<times> go_error option"
  rc_Get :: "'r \<Rightarrow> string \<Rightarrow> 'r \<times> (go_error + json option)"
  rc_Del :: "'r \<Rightarrow> string \<Rightarrow> 'r \<times> go_error option"

text \<open>
  A \<^verbatim>\<open>RedisStorage\<close>: the connection's state, the lifetime of an entry and, when metrics are set,
  the observations (operation and result) in order.
\<close>

record 'r redis_storage =
  rs_client :: 'r
  rs_ttl :: duration
  rs_metrics :: "(string \<times> string) list option"

definition dialogKeyPrefix :: string where "dialogKeyPrefix = ''dialog:state:''"
definition defaultTTL :: duration where "defaultTTL = 30 * Minute"

definition WithTTL :: "duration \<Rightarrow> 'r redis_storage \<Rightarrow> 'r redis_storage" where
  "WithTTL ttl r = r\<lparr>rs_ttl := ttl\<rparr>"

definition NewRedisStorage ::
    "'r \<Rightarrow> ('r redis_storage \<Rightarrow> 'r redis_storage) list \<Rightarrow> 'r redis_storage" where
  "NewRedisStorage client opts =
     fold (\<lambda>opt rs. opt rs) opts \<lparr>rs_client = client, rs_ttl = defaultTTL, rs_metrics = None\<rparr>"

definition redis_key :: "user_id \<Rightarrow> string" where
  "redis_key userID = dialogKeyPrefix @ FormatInt userID"

definition redis_observe :: "string \<Rightarrow> string \<Rightarrow> 'r redis_storage \<Rightarrow> 'r redis_storage" where
  "redis_observe op result r =
     (case rs_metrics r of None \<Rightarrow> r | Some ms \<Rightarrow> r\<lparr>rs_metrics := Some (ms @ [(op, result)])\<rparr>)"

text \<open>\<^verbatim>\<open>json.Marshal\<close> never fails on a \<^verbatim>\<open>DialogState\<close>: it has no unsupported field type.\<close>

definition redis_Save ::
    "'r redis_ops \<Rightarrow> 'r redis_storage \<Rightarrow> user_id \<Rightarrow> dialog_state \<Rightarrow>
     'r redis_storage \<times> go_error option" where
  "redis_Save C r userID st =
     (let data = marshal_DialogState st
      in case rc_Set C (rs_client r) (redis_key userID) data (rs_ttl r) of
           (c, Some err) \<Rightarrow> (redis_observe ''save'' ''redis_error'' (r\<lparr>rs_client := c\<rparr>), Some err)
         | (c, None) \<Rightarrow> (redis_observe ''save'' ''ok'' (r\<lparr>rs_client := c\<rparr>), None))"

definition redis_Load ::
    "'r redis_ops \<Rightarrow> 'r redis_storage \<Rightarrow> user_id \<Rightarrow>
     'r redis_storage \<times> (go_error + dialog_state option)" where
  "redis_Load C r userID =
     (case rc_Get C (rs_client r) (redis_key userID) of
        (c, Inr None) \<Rightarrow> (redis_observe ''load'' ''miss'' (r\<lparr>rs_client := c\<rparr>), Inr None)
      | (c, Inl err) \<Rightarrow> (redis_observe ''load'' ''redis_error'' (r\<lparr>rs_client := c\<rparr>),
                         Inl (Wrap ''loading dialog state: '' err ''''))
      | (c, Inr (Some data)) \<Rightarrow>
          (case unmarshal_DialogState data of
             None \<Rightarrow> (redis_observe ''load'' ''unmarshal_error'' (r\<lparr>rs_client := c\<rparr>),
                      Inl (Wrap ''unmarshaling dialog state: '' (Plain ''json'') ''''))
           | Some st \<Rightarrow> (redis_observe ''load'' ''ok'' (r\<lparr>rs_client := c\<rparr>), Inr (Some st))))"

definition redis_Delete ::
    "'r redis_ops \<Rightarrow> 'r redis_storage \<Rightarrow> user_id \<Rightarrow> 'r redis_storage \<times> go_error option" where
  "redis_Delete C r userID =
     (case rc_Del C (rs_client r) (redis_key userID) of
        (c, Some err) \<Rightarrow> (redis_observe ''delete'' ''redis_error'' (r\<lparr>rs_client := c\<rparr>), Some err)
      | (c, None) \<Rightarrow> (redis_observe ''delete'' ''ok'' (r\<lparr>rs_client := c\<rparr>), None))"

definition redis_storage_ops :: "'r redis_ops \<Rightarrow> 'r redis_storage storage_ops" where
  "redis_storage_ops C =
     \<lparr>st_Save = redis_Save C, st_Load = redis_Load C, st_Delete = redis_Delete C\<rparr>"

subsection \<open>Redis keys\<close>

lemma redis_key_inj: "redis_key u = redis_key v \<longleftrightarrow> u = v"
  by (simp add: redis_key_def FormatInt_inj)

subsection \<open>The Redis client and its laws\<close>

locale redis_client =
  fixes C :: "'r redis_ops" and live :: "'r \<Rightarrow> string \<Rightarrow> json option"
  assumes set_ok: "rc_Set C r k v ttl = (r', None) \<Longrightarrow> live r' = (live r)(k := Some v)"
    and get_ok: "rc_Get C r k = (r', Inr x) \<Longrightarrow> x = live r k"
    and get_keeps: "rc_Get C r k = (r', res) \<Longrightarrow> live r' = live r"
    and del_ok: "rc_Del C r k = (r', None) \<Longrightarrow> live r' = (live r)(k := None)"
    and set_frame: "rc_Set C r k v ttl = (r', e) \<Longrightarrow> k' \<noteq> k \<Longrightarrow> live r' k' = live r k'"
    and del_frame: "rc_Del C r k = (r', e) \<Longrightarrow> k' \<noteq> k \<Longrightarrow> live r' k' = live r k'"

text \<open>The dialogs a Redis storage holds.\<close>

definition redis_content ::
    "('r \<Rightarrow> string \<Rightarrow> json option) \<Rightarrow> 'r redis_storage \<Rightarrow> user_id \<Rightarrow> dialog_state option" where
  "redis_content live r u =
     (case live (rs_client r) (redis_key u) of None \<Rightarrow> None | Some j \<Rightarrow> unmarshal_DialogState j)"

lemma redis_observe_client [simp]: "rs_client (redis_observe op res r) = rs_client r"
  by (simp add: redis_observe_def split: option.splits)

lemma redis_content_observe [simp]:
  "redis_content live (redis_observe op res r) = redis_content live r"
  by (simp add: redis_content_def fun_eq_iff)

lemma redis_content_client [simp]:
  "redis_content live (r\<lparr>rs_client := c\<rparr>) u =
     (case live c (redis_key u) of None \<Rightarrow> None | Some j \<Rightarrow> unmarshal_DialogState j)"
  by (simp add: redis_content_def)

sublocale redis_client \<subseteq> stored: dialog_storage "redis_storage_ops C" "redis_content live"
proof
  fix r r' :: "'r redis_storage" and u v ds e res x
  show "redis_content live r' = (redis_content live r)(u := Some ds)"
    if "st_Save (redis_storage_ops C) r u ds = (r', None)"
    using that
    by (auto simp: redis_storage_ops_def redis_Save_def fun_eq_iff redis_key_inj redis_content_def
        unmarshal_marshal_DialogState dest!: set_ok split: prod.splits option.splits)
  show "x = redis_content live r u" if "st_Load (redis_storage_ops C) r u = (r', Inr x)"
    using that
    by (auto simp: redis_storage_ops_def redis_Load_def redis_content_def dest!: get_ok
        split: prod.splits sum.splits option.splits)
  show "redis_content live r' = redis_content live r"
    if "st_Load (redis_storage_ops C) r u = (r', res)"
    using that
    by (auto simp: redis_storage_ops_def redis_Load_def redis_content_def fun_eq_iff dest!: get_keeps
        split: prod.splits sum.splits option.splits)
  show "redis_content live r' = (redis_content live r)(u := None)"
    if "st_Delete (redis_storage_ops C) r u = (r', None)"
    using that
    by (auto simp: redis_storage_ops_def redis_Delete_def fun_eq_iff redis_key_inj redis_content_def
        dest!: del_ok split: prod.splits option.splits)
  show "redis_content live r' v = redis_content live r v"
    if "st_Save (redis_storage_ops C) r u ds = (r', e)" "v \<noteq> u"
    using that
    by (auto simp: redis_storage_ops_def redis_Save_def redis_key_inj redis_content_def
        dest!: set_frame [where k' = "redis_key v"] split: prod.splits option.splits)
  show "redis_content live r' v = redis_content live r v"
    if "st_Delete (redis_storage_ops C) r u = (r', e)" "v \<noteq> u"
    using that
    by (auto simp: redis_storage_ops_def redis_Delete_def redis_key_inj redis_content_def
        dest!: del_frame [where k' = "redis_key v"] split: prod.splits option.splits)
qed

text \<open>
  The laws of the store, for use outside the locale.
\<close>

context redis_client
begin

lemma storage_laws: "dialog_storage (redis_storage_ops C) (redis_content live)"
  by (rule stored.dialog_storage_axioms)

end

text \<open>
  A server with a clock, expiring entries and a script of faults, on which the laws hold. Time
  passes between the operations (\<open>mem_tick\<close>).
\<close>

record mem_redis =
  mr_now :: instant
  mr_data :: "string \<rightharpoonup> json \<times> instant option"
  mr_faults :: "go_error option list"

definition mem_fault :: "mem_redis \<Rightarrow> go_error option \<times> mem_redis" where
  "mem_fault r = (case mr_faults r of [] \<Rightarrow> (None, r) | f # fs \<Rightarrow> (f, r\<lparr>mr_faults := fs\<rparr>))"

definition mem_live :: "mem_redis \<Rightarrow> string \<Rightarrow> json option" where
  "mem_live r k =
     (case mr_data r k of
        None \<Rightarrow> None
      | Some (v, None) \<Rightarrow> Some v
      | Some (v, Some expiry) \<Rightarrow> if mr_now r < expiry then Some v else None)"

definition mem_ops :: "mem_redis redis_ops" where
  "mem_ops =
     \<lparr>rc_Set = (\<lambda>r k v ttl. case mem_fault r of
          (Some e, r') \<Rightarrow> (r', Some e)
        | (None, r') \<Rightarrow> (r'\<lparr>mr_data := (mr_data r')
            (k \<mapsto> (v, if ttl > 0 then Some (mr_now r + ttl) else None))\<rparr>, None)),
      rc_Get = (\<lambda>r k. case mem_fault r of
          (Some e, r') \<Rightarrow> (r', Inl e) | (None, r') \<Rightarrow> (r', Inr (mem_live r k))),
      rc_Del = (\<lambda>r k. case mem_fault r of
          (Some e, r') \<Rightarrow> (r', Some e)
        | (None, r') \<Rightarrow> (r'\<lparr>mr_data := (mr_data r')(k := None)\<rparr>, None))\<rparr>"

definition mem_tick :: "duration \<Rightarrow> mem_redis \<Rightarrow> mem_redis" where
  "mem_tick d r = r\<lparr>mr_now := mr_now r + d\<rparr>"

lemma mem_fault_frame:
  "mem_fault r = (f, r') \<Longrightarrow> mr_data r' = mr_data r \<and> mr_now r' = mr_now r"
  by (auto simp: mem_fault_def split: list.splits)

lemma mem_live_frame:
  "mr_data r' = mr_data r \<Longrightarrow> mr_now r' = mr_now r \<Longrightarrow> mem_live r' = mem_live r"
  by (rule ext) (auto simp: mem_live_def split: option.splits)

lemma mem_fault_live: "mem_fault r = (f, r') \<Longrightarrow> mem_live r' = mem_live r"
  by (rule mem_live_frame) (auto dest: mem_fault_frame)

lemma mem_live_store:
  "mem_live (r\<lparr>mr_data := (mr_data r)(k \<mapsto> (v, if ttl > 0 then Some (mr_now r + ttl) else None))\<rparr>) =
     (mem_live r)(k \<mapsto> v)"
  by (rule ext) (auto simp: mem_live_def split: option.splits)

lemma mem_live_remove: "mem_live (r\<lparr>mr_data := (mr_data r)(k := None)\<rparr>) = (mem_live r)(k := None)"
  by (rule ext) (auto simp: mem_live_def split: option.splits)

lemma mem_Set_cases:
  assumes "rc_Set mem_ops r k v ttl = (r', e)"
  shows "(e = None \<and> mem_live r' = (mem_live r)(k \<mapsto> v)) \<or> (e \<noteq> None \<and> mem_live r' = mem_live r)"
proof -
  obtain f r1 where f: "mem_fault r = (f, r1)" by fastforce
  have "mr_now r = mr_now r1" "mem_live r1 = mem_live r"
    using f mem_fault_frame mem_fault_live by auto
  with f assms show ?thesis
    using mem_live_store [of r1 k v ttl] by (cases f) (auto simp: mem_ops_def)
qed

lemma mem_Del_cases:
  assumes "rc_Del mem_ops r k = (r', e)"
  shows "(e = None \<and> mem_live r' = (mem_live r)(k := None)) \<or> (e \<noteq> None \<and> mem_live r' = mem_live r)"
proof -
  obtain f r1 where f: "mem_fault r = (f, r1)" by fastforce
  then have "mem_live r1 = mem_live r" by (rule mem_fault_live)
  with f assms show ?thesis
    using mem_live_remove [of r1 k] by (cases f) (auto simp: mem_ops_def)
qed

lemma mem_Get_cases:
  assumes "rc_Get mem_ops r k = (r', res)"
  shows "mem_live r' = mem_live r \<and> (\<forall>x. res = Inr x \<longrightarrow> x = mem_live r k)"
proof -
  obtain f r1 where f: "mem_fault r = (f, r1)" by fastforce
  then have "mem_live r1 = mem_live r" by (rule mem_fault_live)
  with f assms show ?thesis by (cases f) (auto simp: mem_ops_def)
qed

interpretation mem: redis_client mem_ops mem_live
  by unfold_locales (auto dest!: mem_Set_cases mem_Del_cases mem_Get_cases)

text \<open>
  \<^verbatim>\<open>RedisStorage\<close> keeps a dialog unchanged: what \<^verbatim>\<open>Load\<close> returns after a successful \<^verbatim>\<open>Save\<close>
  is the state that was saved, with every field restored from its JSON form although empty fields
  are left out of it, unless the client reports an error; and the dialogs of other users are
  those of before.
\<close>
theorem redis_save_load:
  assumes "redis_client C live"
    "redis_Save C r u ds = (r1, None)" "redis_Load C r1 u = (r2, Inr x)"
  shows "x = Some ds \<and> (\<forall>v. v \<noteq> u \<longrightarrow> redis_content live r2 v = redis_content live r v)"
proof -
  note laws = redis_client.storage_laws [OF assms(1)]
  have c: "redis_content live r1 = (redis_content live r)(u := Some ds)"
    using assms(2) dialog_storage.save_ok [OF laws, of r u ds r1] by (simp add: redis_storage_ops_def)
  moreover have "x = redis_content live r1 u" "redis_content live r2 = redis_content live r1"
    using assms(3) dialog_storage.load_ok [OF laws, of r1 u r2 x]
      dialog_storage.load_keeps [OF laws, of r1 u r2 "Inr x"]
    by (simp_all add: redis_storage_ops_def)
  ultimately show ?thesis by simp
qed

definition demo_redis :: "mem_redis redis_storage" where
  "demo_redis = NewRedisStorage \<lparr>mr_now = 0, mr_data = Map.empty, mr_faults = []\<rparr> []"

definition demo_dialog :: dialog_state where
  "demo_dialog = \<lparr>ds_History = [], ds_NavigationToken = ''t'', ds_UserID = 0,
     ds_ChatID = ''c'', ds_PluginID = '''', ds_CommandName = ''tasks'', ds_Params = Map.empty,
     ds_PageState = [''p'' \<mapsto> 2], ds_CreatedAt = 0\<rparr>"

theorem redis_save_load_witness:
  "\<exists>r1 r2. redis_Save mem_ops demo_redis 7 demo_dialog = (r1, None) \<and>
     redis_Load mem_ops r1 7 = (r2, Inr (Some demo_dialog))"
proof -
  obtain r1 where s: "redis_Save mem_ops demo_redis 7 demo_dialog = (r1, None)"
    and f: "mr_faults (rs_client r1) = []"
    by (auto simp: redis_Save_def mem_ops_def mem_fault_def demo_redis_def NewRedisStorage_def
        redis_observe_def)
  have "redis_content mem_live r1 7 = Some demo_dialog"
    using s mem.stored.save_ok [of demo_redis 7 demo_dialog r1] by (simp add: redis_storage_ops_def)
  then obtain r2 x where l: "redis_Load mem_ops r1 7 = (r2, Inr x)"
    using f by (auto simp: redis_Load_def mem_ops_def mem_fault_def redis_content_def
        split: option.splits)
  have "x = Some demo_dialog" using redis_save_load [OF mem.redis_client_axioms s l] by blast
  with s l show ?thesis by blast
qed

end
