(* ===== verification/Dialog_Manager.thy ===== *)
theory Dialog_Manager
  imports Dialog_Handler Dialog_Storage
begin

text \<open>
  The dialogs of all users: \<^verbatim>\<open>internal/state/manager.go\<close> (the registered commands and handlers,
  starting, advancing, cancelling, relocating and showing the dialog a user has) over the
  interface of \<open>Dialog_Storage\<close>, and \<^verbatim>\<open>internal/channel/state_adapter.go\<close>, the view of it that
  the channel manager has.

  The manager's state is a record: the store, the two maps, the number of navigation tokens
  drawn so far and, when metrics are set, the counted transitions in order. A method returns the
  new state with its result; an error is the left summand.
\<close>

subsection \<open>State and registration (manager.go)\<close>

record 's manager =
  m_storage :: 's
  m_commands :: "string \<rightharpoonup> command_definition"
  m_handlers :: "string \<rightharpoonup> command_definition"
  m_rng :: nat
  m_metrics :: "(string \<times> string \<times> string) list option"

definition NewManager :: "'s \<Rightarrow> 's manager" where
  "NewManager store =
     \<lparr>m_storage = store, m_commands = Map.empty, m_handlers = Map.empty, m_rng = 0, m_metrics = None\<rparr>"

definition fqKey :: "string \<Rightarrow> string \<Rightarrow> string" where
  "fqKey pluginID name = pluginID @ ''.'' @ name"

definition RegisterCommand :: "string \<Rightarrow> command_definition \<Rightarrow> 's manager \<Rightarrow> 's manager" where
  "RegisterCommand pluginID cd m =
     (let key = fqKey pluginID (cd_Name cd)
      in m\<lparr>m_commands := (m_commands m)(key \<mapsto> cd), m_handlers := (m_handlers m)(key \<mapsto> cd)\<rparr>)"

definition UnregisterCommand :: "string \<Rightarrow> string \<Rightarrow> 's manager \<Rightarrow> 's manager" where
  "UnregisterCommand pluginID name m =
     (let key = fqKey pluginID name
      in m\<lparr>m_commands := (m_commands m)(key := None), m_handlers := (m_handlers m)(key := None)\<rparr>)"

text \<open>The loop deletes, from both maps, every key of \<^verbatim>\<open>commands\<close> with the prefix.\<close>

definition UnregisterAllCommands :: "string \<Rightarrow> 's manager \<Rightarrow> 's manager" where
  "UnregisterAllCommands pluginID m =
     (let pre = pluginID @ ''.'';
          doomed = (\<lambda>key. m_commands m key \<noteq> None \<and> HasPrefix key pre)
      in m\<lparr>m_commands := (\<lambda>key. if doomed key then None else m_commands m key),
           m_handlers := (\<lambda>key. if doomed key then None else m_handlers m key)\<rparr>)"

definition RegisterHandler :: "string \<Rightarrow> command_definition \<Rightarrow> 's manager \<Rightarrow> 's manager" where
  "RegisterHandler name h m = m\<lparr>m_handlers := (m_handlers m)(name \<mapsto> h)\<rparr>"

abbreviation no_context :: step_context where
  "no_context \<equiv> \<lparr>ctx_UserID = 0, ctx_Locale = '''', ctx_Params = Map.empty, ctx_Page = 0\<rparr>"

definition IsCommandImmediate :: "'s manager \<Rightarrow> string \<Rightarrow> string \<Rightarrow> bool" where
  "IsCommandImmediate m pluginID commandName =
     (case m_commands m (fqKey pluginID commandName) of
        None \<Rightarrow> False | Some cd \<Rightarrow> IsComplete cd no_context)"

definition IsPreservesDialog :: "'s manager \<Rightarrow> string \<Rightarrow> string \<Rightarrow> bool" where
  "IsPreservesDialog m pluginID commandName =
     (case m_commands m (fqKey pluginID commandName) of
        None \<Rightarrow> False | Some cd \<Rightarrow> cd_PreservesDialog cd)"

definition incDialogTransition :: "string \<Rightarrow> string \<Rightarrow> string \<Rightarrow> 's manager \<Rightarrow> 's manager" where
  "incDialogTransition pluginID commandName event m =
     (case m_metrics m of
        None \<Rightarrow> m
      | Some ts \<Rightarrow> m\<lparr>m_metrics := Some (ts @ [(pluginID, commandName, event)])\<rparr>)"

subsection \<open>Dialogs (manager.go)\<close>

abbreviation command_not_found :: "string \<Rightarrow> go_error" where
  "command_not_found key \<equiv> Wrap '''' (Sentinel ErrCommandNotFound) ('': '' @ key)"

definition StartCommand ::
    "env \<Rightarrow> 's storage_ops \<Rightarrow> user_id \<Rightarrow> string \<Rightarrow> string \<Rightarrow> string \<Rightarrow> string \<Rightarrow> 's manager \<Rightarrow>
     's manager \<times> (go_error + message)" where
  "StartCommand E S userID chatID pluginID commandName loc m =
     (let key = fqKey pluginID commandName
      in case m_handlers m key of
           None \<Rightarrow> (m, Inl (command_not_found key))
         | Some handler \<Rightarrow>
             let (st, n) = CreateNewState E handler (m_rng m);
                 m1 = m\<lparr>m_rng := n\<rparr>;
                 msg = BuildStepMessage E handler userID st loc;
                 ds = (PersistState handler st)\<lparr>ds_ChatID := chatID, ds_PluginID := pluginID\<rparr>
             in case st_Save S (m_storage m1) userID ds of
                  (s, Some err) \<Rightarrow> (m1\<lparr>m_storage := s\<rparr>, Inl (Wrap ''saving state: '' err ''''))
                | (s, None) \<Rightarrow>
                    (incDialogTransition pluginID commandName ''started'' (m1\<lparr>m_storage := s\<rparr>),
                     Inr msg))"

definition CancelCommand ::
    "'s storage_ops \<Rightarrow> user_id \<Rightarrow> 's manager \<Rightarrow> 's manager \<times> go_error option" where
  "CancelCommand S userID m =
     (case st_Load S (m_storage m) userID of
        (s, Inl err) \<Rightarrow> (m\<lparr>m_storage := s\<rparr>, Some err)
      | (s, Inr ds) \<Rightarrow>
          (case st_Delete S s userID of
             (s', Some err) \<Rightarrow> (m\<lparr>m_storage := s'\<rparr>, Some err)
           | (s', None) \<Rightarrow>
               (case ds of
                  None \<Rightarrow> (m\<lparr>m_storage := s'\<rparr>, None)
                | Some d \<Rightarrow> (incDialogTransition (ds_PluginID d) (ds_CommandName d) ''cancelled''
                               (m\<lparr>m_storage := s'\<rparr>), None))))"

text \<open>
  \<^verbatim>\<open>Manager.ProcessInput\<close> ends in a call of itself when the dialog was cancelled. \<open>process_once\<close>
  is its body: a result, or the input of that call.
\<close>

datatype 'r round = Done 'r | Again user_input

type_synonym input_result = "go_error + message \<times> command_request option"

definition process_once ::
    "env \<Rightarrow> 's storage_ops \<Rightarrow> user_id \<Rightarrow> string \<Rightarrow> user_input \<Rightarrow> string \<Rightarrow> 's manager \<Rightarrow>
     's manager \<times> input_result round" where
  "process_once E S userID chatID input loc m =
     (case st_Load S (m_storage m) userID of
        (s, Inl err) \<Rightarrow> (m\<lparr>m_storage := s\<rparr>, Done (Inl (Wrap ''loading state: '' err '''')))
      | (s, Inr None) \<Rightarrow> (m\<lparr>m_storage := s\<rparr>, Done (Inl (Sentinel ErrNoActiveDialog)))
      | (s, Inr (Some ds)) \<Rightarrow>
          let m1 = m\<lparr>m_storage := s\<rparr>;
              key = fqKey (ds_PluginID ds) (ds_CommandName ds)
          in if ds_ChatID ds \<noteq> '''' \<and> ds_ChatID ds \<noteq> chatID
             then (m1, Done (Inr (empty_message, None)))
             else case m_handlers m1 key of
               None \<Rightarrow> (m1, Done (Inl (command_not_found key)))
             | Some handler \<Rightarrow>
                 let (st, n) = RestoreState E handler ds (m_rng m1);
                     ((st', outcome), n') = ProcessInput E handler userID st input loc n;
                     m2 = m1\<lparr>m_rng := n'\<rparr>
                 in if out_IsCancelled outcome
                    then case CancelCommand S userID m2 of
                        (m3, Some err) \<Rightarrow> (m3, Done (Inl err))
                      | (m3, None) \<Rightarrow>
                          (case StartCommand E S userID chatID ''core'' ''plugins'' loc m3 of
                             (m4, Inl err) \<Rightarrow> (m4, Done (Inl err))
                           | (m4, Inr _) \<Rightarrow> (m4, Again (CallbackInput (ds_PluginID ds) '''' 0)))
                    else let msg = BuildStepMessage E handler userID st' loc
                    in if out_IsComplete outcome
                       then case st_Delete S (m_storage m2) userID of
                           (s', Some err) \<Rightarrow>
                             (m2\<lparr>m_storage := s'\<rparr>, Done (Inl (Wrap ''deleting state: '' err '''')))
                         | (s', None) \<Rightarrow>
                             (incDialogTransition (ds_PluginID ds) (ds_CommandName ds) ''completed''
                                (m2\<lparr>m_storage := s'\<rparr>),
                              Done (Inr (msg, Some
                                \<lparr>cr_UserID = userID, cr_ChannelType = '''', cr_ChatID = '''',
                                 cr_ChatGroupID = '''', cr_PluginID = ds_PluginID ds,
                                 cr_CommandName = out_CommandName outcome,
                                 cr_Params = out_Params outcome, cr_Locale = loc, cr_Files = []\<rparr>)))
                       else let persisted = (PersistState handler st')
                                  \<lparr>ds_ChatID := ds_ChatID ds, ds_PluginID := ds_PluginID ds\<rparr>
                       in case st_Save S (m_storage m2) userID persisted of
                           (s', Some err) \<Rightarrow>
                             (m2\<lparr>m_storage := s'\<rparr>, Done (Inl (Wrap ''saving state: '' err '''')))
                         | (s', None) \<Rightarrow>
                             (incDialogTransition (ds_PluginID ds) (ds_CommandName ds) ''continued''
                                (m2\<lparr>m_storage := s'\<rparr>),
                              Done (Inr (msg, None))))"

text \<open>The recursion; a call that never returned would be \<open>None\<close>.\<close>

partial_function (option) Manager_ProcessInput ::
    "env \<Rightarrow> 's storage_ops \<Rightarrow> user_id \<Rightarrow> string \<Rightarrow> user_input \<Rightarrow> string \<Rightarrow> 's manager \<Rightarrow>
     ('s manager \<times> input_result) option" where
  "Manager_ProcessInput E S userID chatID input loc m =
     (case process_once E S userID chatID input loc m of
        (m', Done r) \<Rightarrow> Some (m', r)
      | (m', Again input') \<Rightarrow> Manager_ProcessInput E S userID chatID input' loc m')"

definition HasActiveDialog :: "'s storage_ops \<Rightarrow> user_id \<Rightarrow> 's manager \<Rightarrow> 's manager \<times> bool" where
  "HasActiveDialog S userID m =
     (case st_Load S (m_storage m) userID of
        (s, Inr (Some _)) \<Rightarrow> (m\<lparr>m_storage := s\<rparr>, True)
      | (s, _) \<Rightarrow> (m\<lparr>m_storage := s\<rparr>, False))"

definition RelocateDialog ::
    "'s storage_ops \<Rightarrow> user_id \<Rightarrow> string \<Rightarrow> 's manager \<Rightarrow> 's manager \<times> go_error option" where
  "RelocateDialog S userID chatID m =
     (case st_Load S (m_storage m) userID of
        (s, Inl err) \<Rightarrow> (m\<lparr>m_storage := s\<rparr>, Some (Wrap ''loading state: '' err ''''))
      | (s, Inr None) \<Rightarrow> (m\<lparr>m_storage := s\<rparr>, None)
      | (s, Inr (Some ds)) \<Rightarrow>
          (case st_Save S s userID (ds\<lparr>ds_ChatID := chatID\<rparr>) of
             (s', e) \<Rightarrow> (m\<lparr>m_storage := s'\<rparr>, e)))"

definition GetCurrentStepMessage ::
    "env \<Rightarrow> 's storage_ops \<Rightarrow> user_id \<Rightarrow> string \<Rightarrow> 's manager \<Rightarrow>
     's manager \<times> (go_error + message option \<times> string)" where
  "GetCurrentStepMessage E S userID loc m =
     (case st_Load S (m_storage m) userID of
        (s, Inl err) \<Rightarrow> (m\<lparr>m_storage := s\<rparr>, Inl (Wrap ''loading state: '' err ''''))
      | (s, Inr None) \<Rightarrow> (m\<lparr>m_storage := s\<rparr>, Inr (None, ''''))
      | (s, Inr (Some ds)) \<Rightarrow>
          let m1 = m\<lparr>m_storage := s\<rparr>;
              key = fqKey (ds_PluginID ds) (ds_CommandName ds)
          in case m_handlers m1 key of
               None \<Rightarrow> (m1, Inl (command_not_found key))
             | Some handler \<Rightarrow>
                 let (st, n) = RestoreState E handler ds (m_rng m1)
                 in (m1\<lparr>m_rng := n\<rparr>,
                     Inr (Some (BuildStepMessage E handler userID st loc), ds_CommandName ds)))"

subsection \<open>The adapter of the channel manager (channel/state_adapter.go)\<close>

record state_result =
  sr_PluginID :: string
  sr_Message :: message
  sr_CommandName :: string
  sr_IsComplete :: bool
  sr_Params :: option_map

definition SMA_StartCommand ::
    "env \<Rightarrow> 's storage_ops \<Rightarrow> user_id \<Rightarrow> string \<Rightarrow> string \<Rightarrow> string \<Rightarrow> string \<Rightarrow> 's manager \<Rightarrow>
     's manager \<times> (go_error + state_result)" where
  "SMA_StartCommand E S userID chatID pluginID commandName loc m =
     (if IsCommandImmediate m pluginID commandName
      then let m1 = (if \<not> IsPreservesDialog m pluginID commandName
                     then fst (CancelCommand S userID m) else m)
           in (m1, Inr \<lparr>sr_PluginID = pluginID, sr_Message = empty_message,
                        sr_CommandName = commandName, sr_IsComplete = True,
                        sr_Params = Map.empty\<rparr>)
      else case StartCommand E S userID chatID pluginID commandName loc m of
          (m1, Inl err) \<Rightarrow> (m1, Inl err)
        | (m1, Inr msg) \<Rightarrow>
            (m1, Inr \<lparr>sr_PluginID = pluginID, sr_Message = msg, sr_CommandName = commandName,
                      sr_IsComplete = False, sr_Params = Map.empty\<rparr>))"

definition SMA_ProcessInput ::
    "env \<Rightarrow> 's storage_ops \<Rightarrow> user_id \<Rightarrow> string \<Rightarrow> user_input \<Rightarrow> string \<Rightarrow> 's manager \<Rightarrow>
     ('s manager \<times> (go_error + state_result)) option" where
  "SMA_ProcessInput E S userID chatID input loc m =
     (case Manager_ProcessInput E S userID chatID input loc m of
        None \<Rightarrow> None
      | Some (m1, Inl err) \<Rightarrow> Some (m1, Inl err)
      | Some (m1, Inr (msg, cmdReq)) \<Rightarrow>
          Some (m1, Inr (case cmdReq of
              None \<Rightarrow> \<lparr>sr_PluginID = '''', sr_Message = msg, sr_CommandName = '''',
                       sr_IsComplete = False, sr_Params = Map.empty\<rparr>
            | Some r \<Rightarrow> \<lparr>sr_PluginID = cr_PluginID r, sr_Message = msg,
                         sr_CommandName = cr_CommandName r, sr_IsComplete = True,
                         sr_Params = cr_Params r\<rparr>)))"

subsection \<open>The branches of one round\<close>

text \<open>The round reaches the handler: the dialog is found, in this chat, and its command known.\<close>

definition round_runs ::
    "env \<Rightarrow> 's storage_ops \<Rightarrow> user_id \<Rightarrow> string \<Rightarrow> user_input \<Rightarrow> string \<Rightarrow> 's manager \<Rightarrow> 's \<Rightarrow>
     dialog_state \<Rightarrow> command_definition \<Rightarrow> dsl_state \<Rightarrow> nat \<Rightarrow> dsl_state \<Rightarrow> step_outcome \<Rightarrow> nat \<Rightarrow> bool"
  where
  "round_runs E S u chat i loc m s ds h st n st' out n' \<longleftrightarrow>
     st_Load S (m_storage m) u = (s, Inr (Some ds)) \<and>
     (ds_ChatID ds = [] \<or> ds_ChatID ds = chat) \<and>
     m_handlers m (fqKey (ds_PluginID ds) (ds_CommandName ds)) = Some h \<and>
     RestoreState E h ds (m_rng m) = (st, n) \<and> ProcessInput E h u st i loc n = ((st', out), n')"

lemma process_once_cases [consumes 1, case_names load_error no_dialog other_chat no_handler run]:
  assumes "process_once E S u chat i loc m = (m', r)"
  obtains
    s err where "st_Load S (m_storage m) u = (s, Inl err)" "m' = m\<lparr>m_storage := s\<rparr>"
      "r = Done (Inl (Wrap ''loading state: '' err ''''))"
  | s where "st_Load S (m_storage m) u = (s, Inr None)" "m' = m\<lparr>m_storage := s\<rparr>"
      "r = Done (Inl (Sentinel ErrNoActiveDialog))"
  | s ds where "st_Load S (m_storage m) u = (s, Inr (Some ds))"
      "ds_ChatID ds \<noteq> ''''" "ds_ChatID ds \<noteq> chat" "m' = m\<lparr>m_storage := s\<rparr>"
      "r = Done (Inr (empty_message, None))"
  | s ds where "st_Load S (m_storage m) u = (s, Inr (Some ds))"
      "ds_ChatID ds = '''' \<or> ds_ChatID ds = chat"
      "m_handlers m (fqKey (ds_PluginID ds) (ds_CommandName ds)) = None" "m' = m\<lparr>m_storage := s\<rparr>"
      "r = Done (Inl (command_not_found (fqKey (ds_PluginID ds) (ds_CommandName ds))))"
  | s ds h st n st' out n' where "round_runs E S u chat i loc m s ds h st n st' out n'"
proof -
  obtain s res where l: "st_Load S (m_storage m) u = (s, res)" by fastforce
  show ?thesis
  proof (cases res)
    case (Inl err)
    with l assms show ?thesis by (auto simp: process_once_def intro: that(1))
  next
    case (Inr o1)
    show ?thesis
    proof (cases o1)
      case None
      with l Inr assms show ?thesis by (auto simp: process_once_def intro: that(2))
    next
      case (Some ds)
      note ld = l [unfolded Inr Some]
      show ?thesis
      proof (cases "ds_ChatID ds \<noteq> '''' \<and> ds_ChatID ds \<noteq> chat")
        case True
        with ld assms show ?thesis by (auto simp: process_once_def intro: that(3))
      next
        case False
        show ?thesis
        proof (cases "m_handlers m (fqKey (ds_PluginID ds) (ds_CommandName ds))")
          case None
          with ld assms False show ?thesis by (auto simp: process_once_def Let_def intro: that(4))
        next
          case (Some h)
          then show ?thesis using that(5) ld False unfolding round_runs_def by (metis prod.exhaust)
        qed
      qed
    qed
  qed
qed

text \<open>What a round does once the handler has run, by the three kinds of outcome.\<close>

lemma process_once_cancelled:
  assumes "round_runs E S u chat i loc m s ds h st n st' out n'" "out_IsCancelled out"
  shows "process_once E S u chat i loc m =
       (case CancelCommand S u (m\<lparr>m_storage := s, m_rng := n'\<rparr>) of
          (m3, Some err) \<Rightarrow> (m3, Done (Inl err))
        | (m3, None) \<Rightarrow>
            (case StartCommand E S u chat ''core'' ''plugins'' loc m3 of
               (m4, Inl err) \<Rightarrow> (m4, Done (Inl err))
             | (m4, Inr _) \<Rightarrow> (m4, Again (CallbackInput (ds_PluginID ds) '''' 0))))"
  using assms by (auto simp: round_runs_def process_once_def Let_def)

lemma process_once_completed:
  assumes "round_runs E S u chat i loc m s ds h st n st' out n'" "\<not> out_IsCancelled out"
    "out_IsComplete out"
  shows "process_once E S u chat i loc m =
       (case st_Delete S s u of
          (s', Some err) \<Rightarrow> (m\<lparr>m_rng := n', m_storage := s'\<rparr>, Done (Inl (Wrap ''deleting state: '' err '''')))
        | (s', None) \<Rightarrow>
            (incDialogTransition (ds_PluginID ds) (ds_CommandName ds) ''completed''
               (m\<lparr>m_rng := n', m_storage := s'\<rparr>),
             Done (Inr (BuildStepMessage E h u st' loc, Some
               \<lparr>cr_UserID = u, cr_ChannelType = '''', cr_ChatID = '''', cr_ChatGroupID = '''',
                cr_PluginID = ds_PluginID ds, cr_CommandName = out_CommandName out,
                cr_Params = out_Params out, cr_Locale = loc, cr_Files = []\<rparr>))))"
  using assms by (auto simp: round_runs_def process_once_def Let_def split: prod.splits option.splits)

lemma process_once_continued:
  assumes "round_runs E S u chat i loc m s ds h st n st' out n'" "\<not> out_IsCancelled out"
    "\<not> out_IsComplete out"
  shows "process_once E S u chat i loc m =
       (case st_Save S s u ((PersistState h st')\<lparr>ds_ChatID := ds_ChatID ds, ds_PluginID := ds_PluginID ds\<rparr>) of
          (s', Some err) \<Rightarrow> (m\<lparr>m_rng := n', m_storage := s'\<rparr>, Done (Inl (Wrap ''saving state: '' err '''')))
        | (s', None) \<Rightarrow>
            (incDialogTransition (ds_PluginID ds) (ds_CommandName ds) ''continued''
               (m\<lparr>m_rng := n', m_storage := s'\<rparr>),
             Done (Inr (BuildStepMessage E h u st' loc, None))))"
  using assms by (auto simp: round_runs_def process_once_def Let_def split: prod.splits option.splits)

lemma incDialogTransition_frame [simp, frame_simps]:
  "m_storage (incDialogTransition p c e m) = m_storage m"
  "m_commands (incDialogTransition p c e m) = m_commands m"
  "m_handlers (incDialogTransition p c e m) = m_handlers m"
  "m_rng (incDialogTransition p c e m) = m_rng m"
  by (simp_all add: incDialogTransition_def split: option.splits)

lemma ProcessInput_cancelled_back_press:
  "ProcessInput E h u st i loc n = ((st', out), n') \<Longrightarrow> out_IsCancelled out \<Longrightarrow> is_back_press i"
  by (auto simp: ProcessInput_def Let_def split: if_splits option.splits prod.splits)

lemma ProcessInput_back_not_complete:
  "ProcessInput E h u st i loc n = ((st', out), n') \<Longrightarrow> is_back_press i \<Longrightarrow> \<not> out_IsComplete out"
  by (auto simp: ProcessInput_back navigateBack_def Let_def split: if_splits prod.splits)

subsection \<open>Dialogs over any storage that keeps the contract\<close>

context dialog_storage
begin

abbreviation (input) dialogs :: "'s manager \<Rightarrow> user_id \<Rightarrow> dialog_state option" where
  "dialogs m \<equiv> content (m_storage m)"

lemma StartCommand_stores:
  assumes "StartCommand E S u chat p c loc m = (m', Inr msg)"
  obtains h where "m_handlers m (fqKey p c) = Some h" "m_handlers m' = m_handlers m"
    "m_rng m' = Suc (m_rng m)"
    "dialogs m' = (dialogs m)(u \<mapsto> \<lparr>ds_History = [], ds_NavigationToken = env_token E (m_rng m),
       ds_UserID = 0, ds_ChatID = chat, ds_PluginID = p, ds_CommandName = cd_Name h,
       ds_Params = Map.empty, ds_PageState = Map.empty, ds_CreatedAt = 0\<rparr>)"
  using assms
  by (auto simp: StartCommand_def CreateNewState_def newNavigationToken_def PersistState_def Let_def
      dest!: save_ok split: option.splits prod.splits)

lemma StartCommand_frame:
  assumes "StartCommand E S u chat p c loc m = (m', r)" "v \<noteq> u"
  shows "dialogs m' v = dialogs m v"
  using assms
  by (auto simp: StartCommand_def Let_def dest!: save_frame [of _ u _ _ _ v] split: option.splits prod.splits)

lemma CancelCommand_deletes:
  assumes "CancelCommand S u m = (m', None)"
  shows "dialogs m' = (dialogs m)(u := None)" "m_handlers m' = m_handlers m" "m_rng m' = m_rng m"
  using assms
  by (auto simp: CancelCommand_def dest!: delete_ok load_keeps split: option.splits prod.splits sum.splits)

lemma CancelCommand_frame:
  assumes "CancelCommand S u m = (m', e)" "v \<noteq> u"
  shows "dialogs m' v = dialogs m v"
  using assms
  by (auto simp: CancelCommand_def dest!: delete_frame [of _ u _ _ v] load_keeps
      split: option.splits prod.splits sum.splits)

text \<open>A round that asks for another one was a back press that left the menu of plugins open.\<close>

lemma process_once_Again:
  assumes "process_once E S u chat i loc m = (m', Again i')"
  obtains ds ds' where "is_back_press i" "dialogs m u = Some ds"
    "i' = CallbackInput (ds_PluginID ds) '''' 0"
    "dialogs m' u = Some ds'" "ds_PluginID ds' = ''core''"
  using assms
proof (cases rule: process_once_cases)
  case (run s ds h st n st' out n')
  note rr = run [unfolded round_runs_def]
  have c: "out_IsCancelled out"
    using assms process_once_completed [OF run] process_once_continued [OF run]
    by (cases "out_IsCancelled out"; cases "out_IsComplete out")
      (auto split: prod.splits option.splits)
  obtain m3 where m3: "CancelCommand S u (m\<lparr>m_storage := s, m_rng := n'\<rparr>) = (m3, None)"
    and st: "\<exists>msg. StartCommand E S u chat ''core'' ''plugins'' loc m3 = (m', Inr msg)"
    and i': "i' = CallbackInput (ds_PluginID ds) '''' 0"
    using assms process_once_cancelled [OF run c] by (auto split: prod.splits option.splits sum.splits)
  from st obtain msg where "StartCommand E S u chat ''core'' ''plugins'' loc m3 = (m', Inr msg)" by blast
  then obtain ds' where "dialogs m' u = Some ds'" "ds_PluginID ds' = ''core''"
    by (elim StartCommand_stores) auto
  moreover have "dialogs m u = Some ds" using rr load_ok by metis
  moreover have "is_back_press i" using rr c ProcessInput_cancelled_back_press by blast
  ultimately show ?thesis using that i' by blast
qed auto

lemma core_not_back_press [simp]: "\<not> is_back_press (CallbackInput ''core'' l mid)"
  by (simp add: is_back_press_def dialogBackPrefix_def)

lemma process_once_not_Again:
  "\<not> is_back_press i \<Longrightarrow> \<exists>m' r. process_once E S u chat i loc m = (m', Done r)"
  by (metis process_once_Again round.exhaust surj_pair)

text \<open>Three rounds at most: the second one runs in the menu, whose plugin is not a back button.\<close>

lemma Manager_ProcessInput_returns:
  "\<exists>m' r. Manager_ProcessInput E S u chat i loc m = Some (m', r)"
proof (cases "process_once E S u chat i loc m")
  case (Pair m1 r1)
  note first = Manager_ProcessInput.simps [of E S u chat i loc m, unfolded Pair]
  show ?thesis
  proof (cases r1)
    case (Done r)
    with first show ?thesis by simp
  next
    case (Again i1)
    then obtain ds1 where ds1: "dialogs m1 u = Some ds1" "ds_PluginID ds1 = ''core''"
      using process_once_Again Pair by metis
    obtain m2 r2 where p2: "process_once E S u chat i1 loc m1 = (m2, r2)" by fastforce
    note second = Manager_ProcessInput.simps [of E S u chat i1 loc m1, unfolded p2]
    show ?thesis
    proof (cases r2)
      case (Done r)
      with first second Again show ?thesis by simp
    next
      case again2: (Again i2)
      then have "i2 = CallbackInput ''core'' '''' 0"
        using process_once_Again p2 ds1 by (metis option.inject)
      then obtain m3 r3 where "process_once E S u chat i2 loc m2 = (m3, Done r3)"
        using process_once_not_Again core_not_back_press by metis
      with first second Again again2 show ?thesis
        by (simp add: Manager_ProcessInput.simps [of E S u chat i2 loc m2])
    qed
  qed
qed

lemma process_once_frame:
  assumes "process_once E S u chat i loc m = (m', r)" "v \<noteq> u"
  shows "dialogs m' v = dialogs m v"
  using assms(1)
proof (cases rule: process_once_cases)
  case (run s ds h st n st' out n')
  have l: "content s = content (m_storage m)" using run load_keeps by (auto simp: round_runs_def)
  consider (can) "out_IsCancelled out" | (com) "\<not> out_IsCancelled out" "out_IsComplete out"
    | (con) "\<not> out_IsCancelled out" "\<not> out_IsComplete out" by blast
  then show ?thesis
  proof cases
    case can
    with assms process_once_cancelled [OF run can] l show ?thesis
      by (auto dest!: CancelCommand_frame [OF _ assms(2)] StartCommand_frame [OF _ assms(2)]
          split: prod.splits option.splits sum.splits)
  next
    case com
    with assms process_once_completed [OF run com] l show ?thesis
      by (auto dest!: delete_frame [OF _ assms(2)] split: prod.splits option.splits)
  next
    case con
    with assms process_once_continued [OF run con] l show ?thesis
      by (auto dest!: save_frame [OF _ assms(2)] split: prod.splits option.splits)
  qed
qed (auto dest: load_keeps)

end

subsection \<open>Properties\<close>

text \<open>
  C7. An input always gets an answer: over any storage that keeps its contract,
  \<^verbatim>\<open>Manager.ProcessInput\<close> returns, although it calls itself when a dialog is cancelled, and
  whatever the plugin is called (even if its identifier looks like a back button).
\<close>
theorem manager_process_input_returns:
  assumes "dialog_storage S content"
  shows "\<exists>m' r. Manager_ProcessInput E S u chat i loc m = Some (m', r)"
  by (rule dialog_storage.Manager_ProcessInput_returns [OF assms])

definition demo_manager :: "mem_redis redis_storage manager" where
  "demo_manager = RegisterCommand ''p'' demo_cmd (NewManager demo_redis)"

abbreviation demo_ops :: "mem_redis redis_storage storage_ops" where
  "demo_ops \<equiv> redis_storage_ops mem_ops"

theorem manager_process_input_returns_witness:
  "\<exists>m' r. Manager_ProcessInput demo_env demo_ops 1 ''chat'' (TextInput ''x'') ''en'' demo_manager = Some (m', r)"
  by (rule manager_process_input_returns [OF mem.storage_laws])

text \<open>
  C8. Dialogs of different users are independent: processing an input of one user leaves the
  stored dialog of every other user as it was, whether the input succeeds or fails.
\<close>
theorem manager_users_isolated:
  assumes "dialog_storage S content" "v \<noteq> u"
    "Manager_ProcessInput E S u chat i loc m = Some (m', r)"
  shows "content (m_storage m') v = content (m_storage m) v"
proof -
  have "S = S \<longrightarrow> u = u \<longrightarrow> content (m_storage (fst (m', r))) v = content (m_storage m) v"
  proof (rule Manager_ProcessInput.raw_induct [OF _ assms(3), where P = "\<lambda>E S' u' chat i loc m y.
        S' = S \<longrightarrow> u' = u \<longrightarrow> content (m_storage (fst y)) v = content (m_storage m) v"],
      intro impI, goal_cases)
    case (1 f E S' u' chat i loc m y)
    obtain m1 r1 where p: "process_once E S u chat i loc m = (m1, r1)" by fastforce
    with dialog_storage.process_once_frame [OF assms(1) p assms(2)] 1 show ?case
      by (cases r1) auto
  qed
  then show ?thesis by simp
qed

theorem manager_users_isolated_witness:
  "\<exists>m' r. Manager_ProcessInput demo_env demo_ops 1 [] (TextInput []) [] demo_manager = Some (m', r) \<and>
     redis_content mem_live (m_storage m') 2 = redis_content mem_live (m_storage demo_manager) 2"
proof -
  obtain m' r where p:
    "Manager_ProcessInput demo_env demo_ops 1 [] (TextInput []) [] demo_manager = Some (m', r)"
    using dialog_storage.Manager_ProcessInput_returns [OF mem.storage_laws] by blast
  with manager_users_isolated [OF mem.storage_laws _ p, of 2] show ?thesis by simp
qed

text \<open>
  A dialog answers only in its own chat: an input of the user from another chat neither
  advances nor cancels it; the reply is empty (or the store's error) and every stored dialog is
  unchanged.
\<close>
theorem other_chat_leaves_dialog:
  assumes "dialog_storage S content" "content (m_storage m) u = Some ds"
    "ds_ChatID ds \<noteq> ''''" "ds_ChatID ds \<noteq> chat"
  shows "\<exists>m'. content (m_storage m') = content (m_storage m) \<and>
    (Manager_ProcessInput E S u chat i loc m = Some (m', Inr (empty_message, None)) \<or>
     (\<exists>err. Manager_ProcessInput E S u chat i loc m = Some (m', Inl err)))"
proof -
  obtain s res where l: "st_Load S (m_storage m) u = (s, res)" by fastforce
  have k: "content s = content (m_storage m)" by (rule dialog_storage.load_keeps [OF assms(1) l])
  show ?thesis
  proof (cases res)
    case (Inl err)
    then have "Manager_ProcessInput E S u chat i loc m =
        Some (m\<lparr>m_storage := s\<rparr>, Inl (Wrap ''loading state: '' err ''''))"
      using l by (simp add: Manager_ProcessInput.simps process_once_def)
    with k show ?thesis by (intro exI [of _ "m\<lparr>m_storage := s\<rparr>"]) simp
  next
    case (Inr x)
    then have "x = Some ds" using dialog_storage.load_ok [OF assms(1)] l assms(2) by metis
    then have "Manager_ProcessInput E S u chat i loc m = Some (m\<lparr>m_storage := s\<rparr>, Inr (empty_message, None))"
      using l Inr assms(3,4) by (simp add: Manager_ProcessInput.simps process_once_def)
    with k show ?thesis by (intro exI [of _ "m\<lparr>m_storage := s\<rparr>"]) simp
  qed
qed

text \<open>
  A command request is complete: when an input that is no back press yields a request, the
  request names the plugin and command of the dialog the user had, its parameters are answers that
  leave no active step of the command open, and the dialog is gone from the store while all
  others are kept.
\<close>
theorem completed_request_is_complete:
  assumes "dialog_storage S content" "content (m_storage m) u = Some ds"
    "m_handlers m (fqKey (ds_PluginID ds) (ds_CommandName ds)) = Some h" "\<not> is_back_press i"
    "Manager_ProcessInput E S u chat i loc m = Some (m', Inr (msg, Some req))"
  shows "cr_UserID req = u \<and> cr_PluginID req = ds_PluginID ds \<and> cr_CommandName req = cd_Name h \<and>
    (\<forall>step \<in> set (ResolveActiveSteps h \<lparr>ctx_UserID = u, ctx_Locale = loc, ctx_Params = cr_Params req,
        ctx_Page = 0\<rparr>). cr_Params req (ParamName step) \<noteq> None) \<and>
    content (m_storage m') = (content (m_storage m))(u := None) \<and> msg = empty_message"
proof -
  obtain m1 r1 where p: "process_once E S u chat i loc m = (m1, Done r1)"
    using dialog_storage.process_once_not_Again [OF assms(1,4)] by metis
  with assms(5) have r1: "m1 = m'" "r1 = Inr (msg, Some req)"
    by (simp_all add: Manager_ProcessInput.simps [of E S u chat i])
  from p show ?thesis
  proof (cases rule: process_once_cases)
    case (run s ds' h' st n st' out n')
    note rr = run [unfolded round_runs_def]
    have ds: "ds' = ds" "h' = h" and k: "content s = content (m_storage m)"
      using rr assms(2,3) dialog_storage.load_ok [OF assms(1)] dialog_storage.load_keeps [OF assms(1)]
      by (metis option.inject)+
    have pin: "ProcessInput E h u st i loc n = ((st', out), n')" using rr ds by simp
    have nc: "\<not> out_IsCancelled out" using ProcessInput_cancelled_back_press [OF pin] assms(4) by blast
    have c: "out_IsComplete out"
      using process_once_continued [OF run nc] p r1
      by (cases "out_IsComplete out") (auto split: prod.splits option.splits)
    note ex = outcome_is_exact [OF pin assms(4)]
    have "CurrentStep h (handler_ctx u st' loc) = None" using ex c by (simp add: CurrentStep_None_iff)
    then have b: "BuildStepMessage E h u st' loc = empty_message" by (simp add: BuildStepMessage_def)
    show ?thesis
      using process_once_completed [OF run nc c] p r1 ex c k ds b
      by (auto dest!: dialog_storage.delete_ok [OF assms(1)] split: prod.splits option.splits)
  qed (use r1 in auto)
qed

text \<open>A manager in which user 1 has just started the command in one chat.\<close>

definition demo_one_step :: command_definition where
  "demo_one_step = demo_cmd\<lparr>cd_Nodes := [StepNode (demo_step ''a'')]\<rparr>"

definition demo_started :: "mem_redis redis_storage manager" where
  "demo_started = fst (StartCommand demo_env demo_ops 1 ''chat'' ''p'' ''tasks'' ''en''
     (RegisterCommand ''p'' demo_one_step (NewManager demo_redis)))"

lemma demo_handlers: "m_handlers demo_started (fqKey ''p'' ''tasks'') = Some demo_one_step"
  by (simp add: demo_started_def StartCommand_def RegisterCommand_def NewManager_def demo_one_step_def
      demo_cmd_def fqKey_def CreateNewState_def newNavigationToken_def redis_storage_ops_def
      redis_Save_def mem_ops_def mem_fault_def demo_redis_def NewRedisStorage_def Let_def)

lemma demo_started_ok:
  "\<exists>msg. StartCommand demo_env demo_ops 1 ''chat'' ''p'' ''tasks'' ''en''
     (RegisterCommand ''p'' demo_one_step (NewManager demo_redis)) = (demo_started, Inr msg)"
  unfolding demo_started_def
  by (simp add: StartCommand_def RegisterCommand_def NewManager_def demo_one_step_def
      demo_cmd_def fqKey_def CreateNewState_def newNavigationToken_def redis_storage_ops_def
      redis_Save_def mem_ops_def mem_fault_def demo_redis_def NewRedisStorage_def Let_def)

lemma demo_started_dialog:
  "redis_content mem_live (m_storage demo_started) 1 =
     Some \<lparr>ds_History = [], ds_NavigationToken = '''', ds_UserID = 0, ds_ChatID = ''chat'',
       ds_PluginID = ''p'', ds_CommandName = ''tasks'', ds_Params = Map.empty,
       ds_PageState = Map.empty, ds_CreatedAt = 0\<rparr>"
proof -
  obtain msg where "StartCommand demo_env demo_ops 1 ''chat'' ''p'' ''tasks'' ''en''
     (RegisterCommand ''p'' demo_one_step (NewManager demo_redis)) = (demo_started, Inr msg)"
    using demo_started_ok by blast
  then show ?thesis
    by (elim mem.stored.StartCommand_stores)
      (auto simp: RegisterCommand_def NewManager_def demo_one_step_def demo_cmd_def fqKey_def
        demo_env_def Let_def)
qed

theorem other_chat_leaves_dialog_witness:
  "\<exists>m'. redis_content mem_live (m_storage m') = redis_content mem_live (m_storage demo_started) \<and>
    (Manager_ProcessInput demo_env demo_ops 1 ''other'' (TextInput ''x'') ''en'' demo_started =
       Some (m', Inr (empty_message, None)) \<or>
     (\<exists>err. Manager_ProcessInput demo_env demo_ops 1 ''other'' (TextInput ''x'') ''en'' demo_started =
       Some (m', Inl err)))"
  using other_chat_leaves_dialog [OF mem.storage_laws demo_started_dialog, of "''other''"] by simp

text \<open>A store that never fails, to evaluate a round on.\<close>

lemma demo_one_step_CurrentStep [simp]:
  "CurrentStep demo_one_step ctx = (if ctx_Params ctx ''a'' = None then Some (demo_step ''a'') else None)"
  by (simp add: CurrentStep_def ResolveActiveSteps_def demo_one_step_def)

lemma demo_no_faults:
  "mr_faults (rs_client (m_storage demo_started)) = []" "rs_metrics (m_storage demo_started) = None"
  by (simp_all add: demo_started_def StartCommand_def RegisterCommand_def NewManager_def demo_one_step_def
      demo_cmd_def fqKey_def CreateNewState_def newNavigationToken_def redis_storage_ops_def
      redis_Save_def mem_ops_def mem_fault_def demo_redis_def NewRedisStorage_def Let_def
      redis_observe_def)

lemma demo_load:
  "st_Load demo_ops (m_storage demo_started) 1 =
     (m_storage demo_started, Inr (redis_content mem_live (m_storage demo_started) 1))"
  using demo_no_faults demo_started_dialog
  by (auto simp: redis_storage_ops_def redis_Load_def mem_ops_def mem_fault_def redis_content_def
      redis_observe_def split: option.splits)

theorem completed_request_is_complete_witness:
  "\<exists>m' msg req. Manager_ProcessInput demo_env demo_ops 1 ''chat'' (TextInput ''x'') ''en'' demo_started =
       Some (m', Inr (msg, Some req)) \<and> cr_PluginID req = ''p'' \<and>
     redis_content mem_live (m_storage m') 1 = None"
proof -
  obtain ds where ds: "redis_content mem_live (m_storage demo_started) 1 = Some ds" "ds_PluginID ds = ''p''"
    "ds_CommandName ds = ''tasks''" "ds_ChatID ds = ''chat''" "ds_Params ds = Map.empty"
    using demo_started_dialog by simp
  obtain st n where st: "RestoreState demo_env demo_one_step ds (m_rng demo_started) = (st, n)" by fastforce
  then have ps: "dst_Params st = Map.empty" using ds by (auto simp: RestoreState_def split: prod.splits)
  obtain st' out n' where pin:
    "ProcessInput demo_env demo_one_step 1 st (TextInput ''x'') ''en'' n = ((st', out), n')"
    by (metis prod.exhaust)
  have out: "\<not> out_IsCancelled out" "out_IsComplete out"
    using pin ps
    by (auto simp: ProcessInput_def is_back_press_def is_page_press_def recordAnswer_def Let_def
        newNavigationToken_def IsComplete_def split: if_splits)
  have run: "round_runs demo_env demo_ops 1 ''chat'' (TextInput ''x'') ''en'' demo_started
      (m_storage demo_started) ds demo_one_step st n st' out n'"
    using demo_load ds st pin demo_handlers by (simp add: round_runs_def)
  obtain s' where "st_Delete demo_ops (m_storage demo_started) 1 = (s', None)"
    using demo_no_faults by (auto simp: redis_storage_ops_def redis_Delete_def mem_ops_def mem_fault_def)
  then obtain m' msg req where p:
    "Manager_ProcessInput demo_env demo_ops 1 ''chat'' (TextInput ''x'') ''en'' demo_started =
       Some (m', Inr (msg, Some req))"
    using process_once_completed [OF run out] by (simp add: Manager_ProcessInput.simps)
  have "cr_PluginID req = ''p'' \<and> redis_content mem_live (m_storage m') 1 = None"
    using completed_request_is_complete [OF mem.storage_laws demo_started_dialog _ _ p] demo_handlers
    by (simp add: is_back_press_def)
  with p show ?thesis by blast
qed

subsection \<open>Registration\<close>

lemma fqKey_inj:
  assumes "CHR ''.'' \<notin> set p" "CHR ''.'' \<notin> set q"
  shows "fqKey p a = fqKey q b \<longleftrightarrow> p = q \<and> a = b"
proof
  assume "fqKey p a = fqKey q b"
  then have "SplitN 2 (CHR ''.'') (p @ CHR ''.'' # a) = SplitN 2 (CHR ''.'') (q @ CHR ''.'' # b)"
    by (simp add: fqKey_def)
  moreover have "CHR ''.'' \<notin> set x \<Longrightarrow> SplitN 2 (CHR ''.'') (x @ CHR ''.'' # y) = [x, y]" for x y :: string
    by (induction x) (cases y; auto)+
  ultimately show "p = q \<and> a = b" using assms by simp
qed simp

lemma fqKey_prefix:
  assumes "CHR ''.'' \<notin> set p" "CHR ''.'' \<notin> set q"
  shows "HasPrefix (fqKey q n) (p @ ''.'') \<longleftrightarrow> p = q"
proof
  assume "HasPrefix (fqKey q n) (p @ ''.'')"
  then obtain r where "fqKey q n = fqKey p r" by (auto simp: fqKey_def prefix_def)
  then show "p = q" using fqKey_inj [OF assms(2,1)] by simp
qed (simp add: fqKey_def)

text \<open>
  Unregistering all commands of a plugin removes them and no others: for plugin identifiers
  without a dot, a command of plugin \<open>q\<close> is still registered, with its handler, exactly if
  \<open>q\<close> is not the plugin removed.
\<close>
theorem unregister_all_removes_exactly:
  assumes "CHR ''.'' \<notin> set p" "CHR ''.'' \<notin> set q"
    "m_handlers m (fqKey q n) = m_commands m (fqKey q n)"
  shows "m_commands (UnregisterAllCommands p m) (fqKey q n) =
      (if q = p then None else m_commands m (fqKey q n)) \<and>
    m_handlers (UnregisterAllCommands p m) (fqKey q n) =
      (if q = p then None else m_handlers m (fqKey q n))"
  using assms fqKey_prefix [OF assms(1,2)] by (auto simp: UnregisterAllCommands_def Let_def)

theorem unregister_all_removes_exactly_witness:
  "m_commands (UnregisterAllCommands ''q'' demo_manager) (fqKey ''p'' ''tasks'') = Some demo_cmd"
  using unregister_all_removes_exactly [of "''q''" "''p''" demo_manager "''tasks''"]
  by (simp add: demo_manager_def RegisterCommand_def NewManager_def fqKey_def demo_cmd_def Let_def)

text \<open>
  With a dot in an identifier this fails: removing plugin \<^verbatim>\<open>a\<close> also removes the commands of
  plugin \<^verbatim>\<open>a.b\<close>, since their keys start with \<^verbatim>\<open>a.\<close> as well.
\<close>

lemma unregister_all_removes_dotted:
  "m_commands (UnregisterAllCommands ''a'' m) (fqKey ''a.b'' n) = None"
  by (simp add: UnregisterAllCommands_def fqKey_def Let_def)

end
