(* ===== verification/Plugin_Registry.thy ===== *)
theory Plugin_Registry
  imports Dialog_DSL "HOL-Library.Multiset"
begin

text \<open>
  The registered plugins and command names: \<^verbatim>\<open>internal/plugin/manager.go\<close>,
  \<^verbatim>\<open>internal/plugin/resolver.go\<close> (from what a user typed to a command, or to the candidates of an
  ambiguous alias) and \<^verbatim>\<open>internal/plugin/focus.go\<close> (the plugin a user used last, for a limited
  time).

  The map of plugins is an association list with distinct keys, whose order is the iteration
  order of Go's loops.
\<close>

subsection \<open>Plugins (plugin.go, manager.go)\<close>

text \<open>\<open>pl_SupportsVisibility\<close> is \<open>None\<close> for a plugin without the optional method.\<close>

record plugin =
  pl_ID :: string
  pl_Name :: string
  pl_Commands :: "command_definition list"
  pl_SupportsVisibility :: "bool option"

type_synonym plugin_manager = "(string \<times> plugin) list"

definition NewPluginManager :: plugin_manager where "NewPluginManager = []"

definition CommandNames :: "plugin \<Rightarrow> string list" where
  "CommandNames p = map cd_Name (pl_Commands p)"

definition Register :: "plugin \<Rightarrow> plugin_manager \<Rightarrow> plugin_manager" where
  "Register p m = AList.update (pl_ID p) p m"

definition Load :: "plugin list \<Rightarrow> plugin_manager \<Rightarrow> plugin_manager" where
  "Load ps m = fold (\<lambda>p. AList.update (pl_ID p) p) ps m"

definition Remove :: "string \<Rightarrow> plugin_manager \<Rightarrow> plugin_manager" where
  "Remove pid m = AList.delete pid m"

definition Get :: "plugin_manager \<Rightarrow> string \<Rightarrow> plugin option" where
  "Get m pid = map_of m pid"

definition GetByCommand :: "plugin_manager \<Rightarrow> string \<Rightarrow> plugin option" where
  "GetByCommand m commandName =
     (case find (\<lambda>(_, p). commandName \<in> set (CommandNames p)) m of
        None \<Rightarrow> None | Some (_, p) \<Rightarrow> Some p)"

definition GetCommandDefinition :: "plugin_manager \<Rightarrow> string \<Rightarrow> command_definition option" where
  "GetCommandDefinition m commandName =
     find (\<lambda>d. cd_Name d = commandName) (concat (map (\<lambda>(_, p). pl_Commands p) m))"

definition GetPluginIDByCommand :: "plugin_manager \<Rightarrow> string \<Rightarrow> string" where
  "GetPluginIDByCommand m commandName =
     (case GetByCommand m commandName of None \<Rightarrow> '''' | Some p \<Rightarrow> pl_ID p)"

record plugin_command =
  pcmd_Name :: string
  pcmd_Descriptions :: "(string \<times> string) list"
  pcmd_Description :: string
  pcmd_Requirements :: "role_requirements option"

record plugin_info =
  pi_ID :: string
  pi_Name :: string
  pi_Commands :: "plugin_command list"
  pi_SupportsVisibility :: bool

definition plugin_info_of :: "plugin \<Rightarrow> plugin_info" where
  "plugin_info_of p =
     \<lparr>pi_ID = pl_ID p, pi_Name = pl_Name p,
      pi_Commands = map (\<lambda>c. \<lparr>pcmd_Name = cd_Name c, pcmd_Descriptions = cd_Descriptions c,
                              pcmd_Description = cd_Description c,
                              pcmd_Requirements = cd_Requirements c\<rparr>) (pl_Commands p),
      pi_SupportsVisibility = (case pl_SupportsVisibility p of None \<Rightarrow> False | Some b \<Rightarrow> b)\<rparr>"

text \<open>
  \<^verbatim>\<open>sort.Slice\<close> leaves the order of plugins with equal names open; the model takes the stable
  one.
\<close>

definition ListUserPlugins :: "plugin_manager \<Rightarrow> string list \<Rightarrow> plugin_info list" where
  "ListUserPlugins m excludeIDs =
     sort_key pi_Name
       (map (\<lambda>(_, p). plugin_info_of p) (filter (\<lambda>(_, p). pl_ID p \<notin> set excludeIDs) m))"

subsection \<open>Resolving a command name (resolver.go)\<close>

type_synonym resolution =
  "string \<times> command_definition option \<times> command_candidate list"

definition alias_matches :: "plugin_manager \<Rightarrow> string \<Rightarrow> (string \<times> command_definition) list" where
  "alias_matches m input =
     concat (map (\<lambda>(_, p). map (\<lambda>d. (pl_ID p, d)) (filter (\<lambda>d. cd_Name d = input) (pl_Commands p))) m)"

definition candidate_of :: "string \<times> command_definition \<Rightarrow> command_candidate" where
  "candidate_of mt =
     \<lparr>cc_PluginID = fst mt, cc_CommandName = cd_Name (snd mt),
      cc_FQName = fst mt @ ''.'' @ cd_Name (snd mt), cc_Descriptions = cd_Descriptions (snd mt),
      cc_Description = cd_Description (snd mt)\<rparr>"

definition ResolveCommand :: "plugin_manager \<Rightarrow> string \<Rightarrow> resolution" where
  "ResolveCommand m input =
     (case (case IndexByte input (CHR ''.'') of
              Some dotIdx \<Rightarrow> if dotIdx > 0 \<and> dotIdx < length input - 1 then Some dotIdx else None
            | None \<Rightarrow> None) of
        Some dotIdx \<Rightarrow>
          let pid = take dotIdx input; cmdName = drop (dotIdx + 1) input
          in (case map_of m pid of
                None \<Rightarrow> ('''', None, [])
              | Some p \<Rightarrow>
                  (case find (\<lambda>d. cd_Name d = cmdName) (pl_Commands p) of
                     Some d \<Rightarrow> (pid, Some d, [])
                   | None \<Rightarrow> ('''', None, [])))
      | None \<Rightarrow>
          (case alias_matches m input of
             [] \<Rightarrow> ('''', None, [])
           | [mt] \<Rightarrow> (fst mt, Some (snd mt), [])
           | matches \<Rightarrow> ('''', None, map candidate_of matches)))"

subsection \<open>The last plugin of a user (focus.go)\<close>

record focus_entry =
  fe_pluginID :: string
  fe_timestamp :: instant

record focus_tracker =
  ft_entries :: "user_id \<rightharpoonup> focus_entry"
  ft_ttl :: duration

definition NewFocusTracker :: "duration \<Rightarrow> focus_tracker" where
  "NewFocusTracker ttl = \<lparr>ft_entries = Map.empty, ft_ttl = ttl\<rparr>"

definition Record :: "user_id \<Rightarrow> string \<Rightarrow> instant \<Rightarrow> focus_tracker \<Rightarrow> focus_tracker" where
  "Record userID pluginID now f =
     f\<lparr>ft_entries := (ft_entries f)(userID \<mapsto> \<lparr>fe_pluginID = pluginID, fe_timestamp = now\<rparr>)\<rparr>"

definition LastPlugin :: "user_id \<Rightarrow> instant \<Rightarrow> focus_tracker \<Rightarrow> focus_tracker \<times> string" where
  "LastPlugin userID now f =
     (case ft_entries f userID of
        None \<Rightarrow> (f, '''')
      | Some entry \<Rightarrow>
          if now - fe_timestamp entry > ft_ttl f
          then (f\<lparr>ft_entries := (ft_entries f)(userID := None)\<rparr>, '''')
          else (f, fe_pluginID entry))"

subsection \<open>The registry invariant\<close>

definition registry_ok :: "plugin_manager \<Rightarrow> bool" where
  "registry_ok m \<longleftrightarrow> distinct (map fst m) \<and> (\<forall>(k, p) \<in> set m. pl_ID p = k)"

lemma update_in_set:
  "(k, p) \<in> set (AList.update k' p' m) \<Longrightarrow> (k = k' \<and> p = p') \<or> (k, p) \<in> set m"
  by (induction m) (auto split: if_splits)

lemma registry_ok_update [inv_intros]: "registry_ok m \<Longrightarrow> registry_ok (AList.update (pl_ID p) p m)"
  by (auto simp: registry_ok_def distinct_update dest!: update_in_set)

lemma registry_ok_Register [inv_intros]: "registry_ok m \<Longrightarrow> registry_ok (Register p m)"
  by (simp add: Register_def registry_ok_update)

lemma registry_ok_Load [inv_intros]: "registry_ok m \<Longrightarrow> registry_ok (Load ps m)"
  by (induction ps arbitrary: m) (simp_all add: Load_def registry_ok_update)

lemma registry_ok_Remove [inv_intros]: "registry_ok m \<Longrightarrow> registry_ok (Remove pid m)"
  using AList.distinct_delete [of m pid]
  by (auto simp: registry_ok_def Remove_def AList.delete_eq)

lemma registry_ok_lookup: "registry_ok m \<Longrightarrow> (k, p) \<in> set m \<Longrightarrow> map_of m (pl_ID p) = Some p"
  unfolding registry_ok_def by (metis (mono_tags, lifting) case_prodD map_of_eq_Some_iff)

lemma alias_matches_iff:
  "mt \<in> set (alias_matches m input) \<longleftrightarrow>
     (\<exists>k p. (k, p) \<in> set m \<and> fst mt = pl_ID p \<and> snd mt \<in> set (pl_Commands p) \<and> cd_Name (snd mt) = input)"
proof (induction m)
  case (Cons kp m)
  obtain k p where kp: "kp = (k, p)" by fastforce
  have "alias_matches (kp # m) input =
      map (\<lambda>d. (pl_ID p, d)) (filter (\<lambda>d. cd_Name d = input) (pl_Commands p)) @ alias_matches m input"
    by (simp add: alias_matches_def kp)
  with Cons kp show ?case by (cases mt) auto
qed (simp add: alias_matches_def)

lemma ResolveCommand_qualified:
  assumes "CHR ''.'' \<notin> set pid" "pid \<noteq> ''''" "name \<noteq> ''''"
  shows "ResolveCommand m (pid @ ''.'' @ name) =
    (case map_of m pid of
       None \<Rightarrow> ('''', None, [])
     | Some p \<Rightarrow> (case find (\<lambda>d. cd_Name d = name) (pl_Commands p) of
                    Some d \<Rightarrow> (pid, Some d, []) | None \<Rightarrow> ('''', None, [])))"
  using assms IndexByte_append_first [OF assms(1), of name] by (simp add: ResolveCommand_def)

lemma ResolveCommand_candidates:
  assumes "ResolveCommand m input = (pid, d, cs)" "c \<in> set cs"
  shows "\<exists>mt \<in> set (alias_matches m input). c = candidate_of mt"
  using assms by (auto simp: ResolveCommand_def Let_def split: option.splits if_splits list.splits)

lemma candidate_resolves:
  assumes "registry_ok m" "input \<noteq> ''''"
    "\<forall>(k, p) \<in> set m. k \<noteq> '''' \<and> CHR ''.'' \<notin> set k"
    "ResolveCommand m input = (pid, d, cs)" "c \<in> set cs"
  shows "pid = '''' \<and> d = None \<and>
    (\<exists>def p. ResolveCommand m (cc_FQName c) = (cc_PluginID c, Some def, []) \<and>
       map_of m (cc_PluginID c) = Some p \<and> def \<in> set (pl_Commands p) \<and> cd_Name def = input)"
proof -
  obtain mt where mt: "mt \<in> set (alias_matches m input)" "c = candidate_of mt"
    using ResolveCommand_candidates [OF assms(4,5)] by blast
  then obtain k p where p: "(k, p) \<in> set m" "fst mt = pl_ID p" "snd mt \<in> set (pl_Commands p)"
    "cd_Name (snd mt) = input" by (auto simp: alias_matches_iff)
  have k: "pl_ID p = k" using assms(1) p(1) by (auto simp: registry_ok_def)
  have id: "k \<noteq> ''''" "CHR ''.'' \<notin> set k" using assms(3) p(1) by auto
  have look: "map_of m k = Some p" using registry_ok_lookup [OF assms(1) p(1)] k by simp
  obtain def where def: "find (\<lambda>d. cd_Name d = input) (pl_Commands p) = Some def"
    using p(3,4) by (cases "find (\<lambda>d. cd_Name d = input) (pl_Commands p)") (auto simp: find_None_all)
  have "ResolveCommand m (k @ ''.'' @ input) = (k, Some def, [])"
    using ResolveCommand_qualified [OF id(2,1) assms(2)] look def by simp
  moreover have "def \<in> set (pl_Commands p)" "cd_Name def = input"
    using def by (auto simp: find_Some_split)
  moreover have "pid = ''''" "d = None"
    using assms(4,5) by (auto simp: ResolveCommand_def Let_def split: option.splits if_splits list.splits)
  ultimately show ?thesis using mt p k look by (auto simp: candidate_of_def)
qed

subsection \<open>Properties\<close>

text \<open>Two plugins that both have a command \<^verbatim>\<open>x\<close>.\<close>

definition demo_command :: "string \<Rightarrow> command_definition" where
  "demo_command name = CMDB_Build (NewCommand name)"

definition demo_plugin :: "string \<Rightarrow> plugin" where
  "demo_plugin pid = \<lparr>pl_ID = pid, pl_Name = pid, pl_Commands = [demo_command ''x''],
     pl_SupportsVisibility = None\<rparr>"

definition demo_registry :: plugin_manager where
  "demo_registry = Load [demo_plugin ''a'', demo_plugin ''b''] NewPluginManager"

lemma demo_registry_eq: "demo_registry = [(''a'', demo_plugin ''a''), (''b'', demo_plugin ''b'')]"
  by (simp add: demo_registry_def Load_def demo_plugin_def NewPluginManager_def)

lemma demo_resolve:
  "ResolveCommand demo_registry ''x'' =
     ('''', None, [candidate_of (''a'', demo_command ''x''), candidate_of (''b'', demo_command ''x'')])"
  by (simp add: ResolveCommand_def alias_matches_def demo_registry_eq demo_plugin_def demo_command_def
      CMDB_Build_def NewCommand_def)

text \<open>
  Resolution does not depend on the order in which Go iterates over the plugins: for two
  orders of the same registry, either both resolve to the same plugin and command, or neither
  does and the candidates are the same up to order.
\<close>
theorem resolution_order_independent:
  assumes "registry_ok m" "registry_ok m'" "set m = set m'"
    "ResolveCommand m input = (pid, d, cs)" "ResolveCommand m' input = (pid', d', cs')"
  shows "pid = pid' \<and> d = d' \<and> set cs = set cs' \<and> length cs = length cs'"
proof -
  have mm: "mset m = mset m'"
    using assms(1-3) by (auto simp: registry_ok_def distinct_map set_eq_iff_mset_eq_distinct)
  have look: "map_of m = map_of m'"
    using assms(1-3) by (metis map_of_inject_set registry_ok_def)
  have "mset (alias_matches m input) = mset (alias_matches m' input)"
    unfolding alias_matches_def mset_concat sum_mset_sum_list [symmetric] mset_map mm ..
  note am = mset_eq_setD [OF this] mset_eq_length [OF this]
  show ?thesis
  proof (cases "alias_matches m input")
    case Nil
    with am have "alias_matches m' input = []" by simp
    with Nil look assms(4,5) show ?thesis
      by (auto simp: ResolveCommand_def Let_def split: option.splits if_splits)
  next
    case (Cons mt ms)
    show ?thesis
    proof (cases ms)
      case Nil
      with Cons am have "alias_matches m' input = [mt]"
        by (metis length_0_conv length_Suc_conv list.set_intros(1) list.simps(15) empty_set singletonD)
      with Cons Nil look assms(4,5) show ?thesis
        by (auto simp: ResolveCommand_def Let_def split: option.splits if_splits)
    next
      case (Cons mt2 ms2)
      note cons = \<open>alias_matches m input = mt # ms\<close> [unfolded Cons]
      with am obtain a b c where abc: "alias_matches m' input = a # b # c"
        by (metis Suc_length_conv length_Cons)
      have "set (map candidate_of (mt # mt2 # ms2)) = set (map candidate_of (a # b # c))"
        "length (mt # mt2 # ms2) = length (a # b # c)"
        using am cons abc by (simp_all only: set_map)
      with cons abc look assms(4,5) show ?thesis
        by (auto simp: ResolveCommand_def Let_def simp del: list.simps(15) split: option.splits if_splits)
    qed
  qed
qed

theorem resolution_order_independent_witness:
  "\<exists>pid d cs pid' d' cs'. ResolveCommand demo_registry ''x'' = (pid, d, cs) \<and>
     ResolveCommand (rev demo_registry) ''x'' = (pid', d', cs') \<and> set cs = set cs' \<and> length cs = 2"
proof -
  obtain pid' d' cs' where r: "ResolveCommand (rev demo_registry) ''x'' = (pid', d', cs')"
    by (metis prod.exhaust)
  have "registry_ok demo_registry" "registry_ok (rev demo_registry)"
    by (auto simp: demo_registry_eq registry_ok_def demo_plugin_def)
  from resolution_order_independent [OF this _ demo_resolve r] r demo_resolve show ?thesis by simp
qed

text \<open>
  A plugin whose identifier has a dot cannot be reached by a qualified name: the text before the
  first dot is taken for the plugin.
\<close>

lemma dotted_plugin_unreachable:
  "map_of m ''a'' = None \<Longrightarrow> ResolveCommand m (''a.b'' @ ''.'' @ name) = ('''', None, [])"
  by (simp add: ResolveCommand_def)

text \<open>
  The focus of a user is the plugin recorded last, for exactly the tracker's lifetime: between
  two records it is reported up to \<open>ttl\<close> after the record and not later, and recording or
  expiring the focus of one user leaves that of the others alone.
\<close>
theorem focus_lifetime:
  "snd (LastPlugin u now (Record u p t f)) = (if now - t > ft_ttl f then '''' else p) \<and>
   (u' \<noteq> u \<longrightarrow> snd (LastPlugin u' now (Record u p t f)) = snd (LastPlugin u' now f)) \<and>
   (u' \<noteq> u \<longrightarrow> snd (LastPlugin u' now (fst (LastPlugin u now f))) = snd (LastPlugin u' now f)) \<and>
   snd (LastPlugin u now (fst (LastPlugin u now f))) = snd (LastPlugin u now f)"
  by (auto simp: LastPlugin_def Record_def split: option.splits)

theorem focus_lifetime_witness:
  "snd (LastPlugin 2 5 (Record 1 ''p'' 0 (Record 2 ''q'' 0 (NewFocusTracker 10)))) = ''q''"
  using focus_lifetime [of 1 5 "''p''" 0 "Record 2 ''q'' 0 (NewFocusTracker 10)" 2]
    focus_lifetime [of 2 5 "''q''" 0 "NewFocusTracker 10" 2]
  by (simp add: NewFocusTracker_def)

end
