(* ===== verification/Channel_Send.thy ===== *)
theory Channel_Send
  imports Complex_Main Bot_Model
begin

text \<open>
  Sending: the adapter interfaces (\<^verbatim>\<open>internal/channel/adapter.go\<close>), the registry of adapters
  (\<^verbatim>\<open>registry.go\<close>), retries with backoff (\<^verbatim>\<open>send.go\<close>), the middleware chain (\<^verbatim>\<open>update.go\<close>) and
  the duplicate filter (\<^verbatim>\<open>dedup/middleware.go\<close>), block rendering (\<^verbatim>\<open>renderer.go\<close>), file references
  (\<^verbatim>\<open>files.go\<close>), and the sender that plugins use (\<^verbatim>\<open>internal/plugin/sender.go\<close>).

  Everything outside the process is the type variable \<open>'w\<close>: an adapter method is a function from
  the world to the world and its result, so that a statement that the world is unchanged says that
  nothing was sent. An optional interface is an option; a type assertion tests it.
\<close>

subsection \<open>Adapters (adapter.go, send.go)\<close>

type_synonym 'w effect = "'w \<Rightarrow> 'w \<times> go_error option"

record 'w silent_sender =
  ss_SendToUserSilent :: "string \<Rightarrow> message \<Rightarrow> bool \<Rightarrow> 'w effect"
  ss_SendToChatSilent :: "string \<Rightarrow> message \<Rightarrow> bool \<Rightarrow> 'w effect"

record 'w adapter =
  ad_Type :: channel_type
  ad_SendToUser :: "string \<Rightarrow> message \<Rightarrow> 'w effect"
  ad_SendToChat :: "string \<Rightarrow> message \<Rightarrow> 'w effect"
  ad_SilentSender :: "'w silent_sender option"
  ad_EditMessage :: "(string \<Rightarrow> string \<Rightarrow> message \<Rightarrow> 'w effect) option"
  ad_SendToChatWithID :: "(string \<Rightarrow> message \<Rightarrow> 'w \<Rightarrow> 'w \<times> (go_error + string)) option"
  ad_DeleteMessage :: "(string \<Rightarrow> string \<Rightarrow> 'w effect) option"

text \<open>
  The call context: waiting out a delay, with the context's error if it is done first; and the
  numbers of \<^verbatim>\<open>rand.Float64\<close>, between 0 and 1, per attempt.
\<close>

record 'w call_context =
  ctx_wait :: "duration \<Rightarrow> 'w effect"
  ctx_rand :: "nat \<Rightarrow> rat"

subsection \<open>Retries (send.go)\<close>

definition maxRetries :: nat where "maxRetries = 3"
definition baseDelay :: duration where "baseDelay = 500 * Millisecond"
definition maxDelay :: duration where "maxDelay = 5 * Second"

text \<open>A Go conversion to an integer type drops the fraction.\<close>

definition trunc_rat :: "rat \<Rightarrow> int" where
  "trunc_rat x = (if x \<ge> 0 then \<lfloor>x\<rfloor> else \<lceil>x\<rceil>)"

definition backoffDelay :: "nat \<Rightarrow> rat \<Rightarrow> duration" where
  "backoffDelay attempt rnd =
     (let delay = baseDelay * 2 ^ attempt;
          delay = (if delay > maxDelay then maxDelay else delay);
          jitter = trunc_rat (of_int delay * (3 / 10) * (rnd * 2 - 1))
      in delay + jitter)"

definition transientPatterns :: "string list" where
  "transientPatterns =
     [''429'', ''too many requests'', ''retry after'', ''connection reset'', ''connection refused'',
      ''eof'', ''timeout'', ''temporary failure'', ''service unavailable'', ''bad gateway'',
      ''gateway timeout'', ''internal server error'']"

definition isTransient :: "go_error \<Rightarrow> bool" where
  "isTransient err \<longleftrightarrow>
     errors_As_Net err \<or>
     list_ex (\<lambda>pat. Contains (ToLower (error_text err)) pat) transientPatterns"

text \<open>
  The loop of \<^verbatim>\<open>withRetry\<close> with \<open>k\<close> attempts left. The second component of the state is what the
  callback \<^verbatim>\<open>onRetry\<close> changes (the metrics).
\<close>

fun retry_loop ::
    "'w call_context \<Rightarrow> 'w effect \<Rightarrow> ('m \<Rightarrow> 'm) \<Rightarrow> nat \<Rightarrow> nat \<Rightarrow> 'w \<times> 'm \<Rightarrow> ('w \<times> 'm) \<times> go_error option"
  where
  "retry_loop C fn onRetry 0 attempt (w, m) = ((w, m), None)"
| "retry_loop C fn onRetry (Suc k) attempt (w, m) =
     (case fn w of
        (w1, None) \<Rightarrow> ((w1, m), None)
      | (w1, Some lastErr) \<Rightarrow>
          if \<not> isTransient lastErr then ((w1, m), Some lastErr)
          else if attempt = maxRetries - 1 then ((w1, m), Some lastErr)
          else let m1 = onRetry m
               in (case ctx_wait C (backoffDelay attempt (ctx_rand C attempt)) w1 of
                     (w2, Some ctxErr) \<Rightarrow> ((w2, m1), Some ctxErr)
                   | (w2, None) \<Rightarrow> retry_loop C fn onRetry k (Suc attempt) (w2, m1)))"

definition withRetry ::
    "'w call_context \<Rightarrow> 'w effect \<Rightarrow> ('m \<Rightarrow> 'm) \<Rightarrow> 'w \<times> 'm \<Rightarrow> ('w \<times> 'm) \<times> go_error option" where
  "withRetry C fn onRetry = retry_loop C fn onRetry maxRetries 0"

subsection \<open>The registry of adapters (registry.go)\<close>

datatype send_metric = SendObserved channel_type string string | SendRetried channel_type string

record 'w adapter_registry =
  ar_adapters :: "channel_type \<rightharpoonup> 'w adapter"
  ar_metrics :: "send_metric list option"

text \<open>The registry's own state during a send: the world and the recorded metrics.\<close>

type_synonym 'w send_state = "'w \<times> send_metric list option"

definition NewAdapterRegistry :: "'w adapter_registry" where
  "NewAdapterRegistry = \<lparr>ar_adapters = Map.empty, ar_metrics = None\<rparr>"

definition AR_Register :: "'w adapter \<Rightarrow> 'w adapter_registry \<Rightarrow> 'w adapter_registry" where
  "AR_Register a r = r\<lparr>ar_adapters := (ar_adapters r)(ad_Type a \<mapsto> a)\<rparr>"

definition AR_Get :: "'w adapter_registry \<Rightarrow> channel_type \<Rightarrow> 'w adapter option" where
  "AR_Get r ch = ar_adapters r ch"

definition IsRegistered :: "'w adapter_registry \<Rightarrow> channel_type \<Rightarrow> bool" where
  "IsRegistered r ch \<longleftrightarrow> ar_adapters r ch \<noteq> None"

definition mustGet :: "'w adapter_registry \<Rightarrow> channel_type \<Rightarrow> go_error + 'w adapter" where
  "mustGet r ch =
     (case AR_Get r ch of
        None \<Rightarrow> Inl (Wrap '''' (Sentinel ErrNoAdapter) ('': '' @ ch)) | Some a \<Rightarrow> Inr a)"

fun classifySendResult :: "go_error option \<Rightarrow> string" where
  "classifySendResult None = ''ok''"
| "classifySendResult (Some err) = (if errors_Is err ErrNoAdapter then ''no_adapter'' else ''error'')"

definition record_metric :: "send_metric \<Rightarrow> send_metric list option \<Rightarrow> send_metric list option" where
  "record_metric x m = map_option (\<lambda>xs. xs @ [x]) m"

definition observeSend ::
    "channel_type \<Rightarrow> string \<Rightarrow> string \<Rightarrow> send_metric list option \<Rightarrow> send_metric list option" where
  "observeSend ch target result = record_metric (SendObserved ch target result)"

definition incSendRetry ::
    "channel_type \<Rightarrow> string \<Rightarrow> send_metric list option \<Rightarrow> send_metric list option" where
  "incSendRetry ch target = record_metric (SendRetried ch target)"

text \<open>The common frame of the four sending methods: find the adapter, retry, observe.\<close>

definition send_via ::
    "'w call_context \<Rightarrow> 'w adapter_registry \<Rightarrow> channel_type \<Rightarrow> string \<Rightarrow> ('w adapter \<Rightarrow> 'w effect) \<Rightarrow>
     'w send_state \<Rightarrow> 'w send_state \<times> go_error option" where
  "send_via C r ch target f st =
     (case mustGet r ch of
        Inl err \<Rightarrow> ((fst st, observeSend ch target (classifySendResult (Some err)) (snd st)), Some err)
      | Inr adapter \<Rightarrow>
          (case withRetry C (f adapter) (incSendRetry ch target) st of
             ((w, m), err) \<Rightarrow> ((w, observeSend ch target (classifySendResult err) m), err)))"

definition SendToChat ::
    "'w call_context \<Rightarrow> 'w adapter_registry \<Rightarrow> channel_type \<Rightarrow> string \<Rightarrow> message \<Rightarrow> 'w send_state \<Rightarrow>
     'w send_state \<times> go_error option" where
  "SendToChat C r ch chatID msg = send_via C r ch ''chat'' (\<lambda>a. ad_SendToChat a chatID msg)"

definition SendToUser ::
    "'w call_context \<Rightarrow> 'w adapter_registry \<Rightarrow> channel_type \<Rightarrow> string \<Rightarrow> message \<Rightarrow> 'w send_state \<Rightarrow>
     'w send_state \<times> go_error option" where
  "SendToUser C r ch platformUserID msg =
     send_via C r ch ''user'' (\<lambda>a. ad_SendToUser a platformUserID msg)"

text \<open>
  The closures of the methods with options strip the message anew on each attempt; stripping is
  idempotent, so each attempt sends the same message.
\<close>

definition SendToChatWithOpts ::
    "'w call_context \<Rightarrow> 'w adapter_registry \<Rightarrow> channel_type \<Rightarrow> string \<Rightarrow> message \<Rightarrow> send_options \<Rightarrow>
     'w send_state \<Rightarrow> 'w send_state \<times> go_error option" where
  "SendToChatWithOpts C r ch chatID msg opts =
     send_via C r ch ''chat'' (\<lambda>a.
       let msg = (if so_StripMentions opts then StripMentionBlocks msg else msg)
       in case (so_Silent opts, ad_SilentSender a) of
            (True, Some ss) \<Rightarrow> ss_SendToChatSilent ss chatID msg True
          | _ \<Rightarrow> ad_SendToChat a chatID msg)"

definition SendToUserWithOpts ::
    "'w call_context \<Rightarrow> 'w adapter_registry \<Rightarrow> channel_type \<Rightarrow> string \<Rightarrow> message \<Rightarrow> send_options \<Rightarrow>
     'w send_state \<Rightarrow> 'w send_state \<times> go_error option" where
  "SendToUserWithOpts C r ch platformUserID msg opts =
     send_via C r ch ''user'' (\<lambda>a.
       let msg = (if so_StripMentions opts then StripMentionBlocks msg else msg)
       in case (so_Silent opts, ad_SilentSender a) of
            (True, Some ss) \<Rightarrow> ss_SendToUserSilent ss platformUserID msg True
          | _ \<Rightarrow> ad_SendToUser a platformUserID msg)"

definition SendToChatGetID ::
    "'w adapter_registry \<Rightarrow> channel_type \<Rightarrow> string \<Rightarrow> message \<Rightarrow> 'w \<Rightarrow> 'w \<times> (go_error + string)" where
  "SendToChatGetID r ch chatID msg w =
     (case mustGet r ch of
        Inl err \<Rightarrow> (w, Inl err)
      | Inr a \<Rightarrow>
          (case ad_SendToChatWithID a of
             Some send \<Rightarrow> send chatID msg w
           | None \<Rightarrow> (case ad_SendToChat a chatID msg w of
                        (w', Some err) \<Rightarrow> (w', Inl err) | (w', None) \<Rightarrow> (w', Inr ''''))))"

definition EditMessageInChat ::
    "'w adapter_registry \<Rightarrow> channel_type \<Rightarrow> string \<Rightarrow> string \<Rightarrow> message \<Rightarrow> 'w effect" where
  "EditMessageInChat r ch chatID messageID msg w =
     (case mustGet r ch of
        Inl err \<Rightarrow> (w, Some err)
      | Inr a \<Rightarrow> (case ad_EditMessage a of
                    None \<Rightarrow> (w, Some (Sentinel ErrMessageOperationUnsupported))
                  | Some edit \<Rightarrow> edit chatID messageID msg w))"

definition DeleteMessageInChat ::
    "'w adapter_registry \<Rightarrow> channel_type \<Rightarrow> string \<Rightarrow> string \<Rightarrow> 'w effect" where
  "DeleteMessageInChat r ch chatID messageID w =
     (case mustGet r ch of
        Inl err \<Rightarrow> (w, Some err)
      | Inr a \<Rightarrow> (case ad_DeleteMessage a of
                    None \<Rightarrow> (w, Some (Sentinel ErrMessageOperationUnsupported))
                  | Some del \<Rightarrow> del chatID messageID w))"

text \<open>\<^verbatim>\<open>sendWithOpts\<close>, with the two platform senders as arguments; its retries are not counted.\<close>

definition sendWithOpts ::
    "'w call_context \<Rightarrow> 'w adapter \<Rightarrow> message \<Rightarrow> send_options \<Rightarrow> (message \<Rightarrow> 'w effect) \<Rightarrow>
     (message \<Rightarrow> 'w effect) \<Rightarrow> 'w send_state \<Rightarrow> 'w send_state \<times> go_error option" where
  "sendWithOpts C a msg opts normalSend silentSend =
     (let msg = (if so_StripMentions opts then StripMentionBlocks msg else msg)
      in withRetry C (if so_Silent opts \<and> ad_SilentSender a \<noteq> None then silentSend msg
                      else normalSend msg) (\<lambda>m. m))"

subsection \<open>Updates, middleware and the duplicate filter (update.go, dedup/middleware.go)\<close>

record update =
  up_ChannelType :: channel_type
  up_PlatformUserID :: string
  up_PlatformUpdateID :: string
  up_Input :: user_input
  up_ChatID :: string
  up_Username :: string

type_synonym 'w update_handler = "update \<Rightarrow> 'w effect"

definition Chain ::
    "'w update_handler \<Rightarrow> ('w update_handler \<Rightarrow> 'w update_handler) list \<Rightarrow> 'w update_handler" where
  "Chain handler mw = foldr (\<lambda>f h. f h) mw handler"

record dedup_config =
  dc_TTL :: duration
  dc_Prefix :: string

definition dedup_normalize :: "dedup_config \<Rightarrow> dedup_config" where
  "dedup_normalize cfg =
     \<lparr>dc_TTL = (if dc_TTL cfg = 0 then 5 * Minute else dc_TTL cfg),
      dc_Prefix = (if dc_Prefix cfg = '''' then ''dedup:'' else dc_Prefix cfg)\<rparr>"

text \<open>
  \<open>setnx\<close> is the client's \<^verbatim>\<open>SET key 1 NX EX\<close>; \<open>count\<close> records a metric in the world (the
  identity when no metrics are set).
\<close>

definition Middleware ::
    "('w \<Rightarrow> string \<Rightarrow> duration \<Rightarrow> 'w \<times> (go_error + bool)) \<Rightarrow> dedup_config \<Rightarrow>
     (channel_type \<Rightarrow> string \<Rightarrow> 'w \<Rightarrow> 'w) \<Rightarrow> 'w update_handler \<Rightarrow> 'w update_handler" where
  "Middleware setnx cfg0 count nxt u w =
     (let cfg = dedup_normalize cfg0
      in if up_PlatformUpdateID u = '''' then nxt u w
         else let key = dc_Prefix cfg @ up_PlatformUpdateID u
              in case setnx w key (dc_TTL cfg) of
                   (w1, Inl err) \<Rightarrow> nxt u (count (up_ChannelType u) ''redis_error'' w1)
                 | (w1, Inr False) \<Rightarrow> (count (up_ChannelType u) ''duplicate'' w1, None)
                 | (w1, Inr True) \<Rightarrow> nxt u (count (up_ChannelType u) ''new'' w1))"

subsection \<open>Rendering and files (renderer.go, files.go, bot_features.go)\<close>

record block_formatter =
  FormatText :: "string \<Rightarrow> text_style \<Rightarrow> string"
  FormatMention :: "string \<Rightarrow> string \<Rightarrow> string"
  FormatLink :: "string \<Rightarrow> string \<Rightarrow> string"
  FormatOptionsPrompt :: "string \<Rightarrow> string"

record render_parts =
  rp_TextParts :: "string list"
  rp_ImageURLs :: "string list"
  rp_Options :: "(string \<times> option_item list) option"
  rp_FileRefs :: "file_ref list"

fun render_block :: "block_formatter \<Rightarrow> content_block \<Rightarrow> render_parts \<Rightarrow> render_parts" where
  "render_block f (TextBlock txt style) ps = ps\<lparr>rp_TextParts := rp_TextParts ps @ [FormatText f txt style]\<rparr>"
| "render_block f (MentionBlock a b) ps = ps\<lparr>rp_TextParts := rp_TextParts ps @ [FormatMention f a b]\<rparr>"
| "render_block f (LinkBlock a b) ps = ps\<lparr>rp_TextParts := rp_TextParts ps @ [FormatLink f a b]\<rparr>"
| "render_block f (ImageBlock url) ps = ps\<lparr>rp_ImageURLs := rp_ImageURLs ps @ [url]\<rparr>"
| "render_block f (OptionsBlock prompt opts) ps =
     (if prompt \<noteq> '''' then ps\<lparr>rp_TextParts := rp_TextParts ps @ [FormatOptionsPrompt f prompt]\<rparr>
      else ps)\<lparr>rp_Options := Some (prompt, opts)\<rparr>"
| "render_block f (FileBlock ref caption) ps =
     (let ps1 = ps\<lparr>rp_FileRefs := rp_FileRefs ps @ [ref]\<rparr>
      in if caption \<noteq> '''' then ps1\<lparr>rp_TextParts := rp_TextParts ps1 @ [FormatText f caption StylePlain]\<rparr>
         else ps1)"

definition RenderBlocks :: "message \<Rightarrow> block_formatter \<Rightarrow> render_parts" where
  "RenderBlocks msg f =
     fold (render_block f) (Blocks msg)
       \<lparr>rp_TextParts = [], rp_ImageURLs = [], rp_Options = None, rp_FileRefs = []\<rparr>"

definition OptionLabel :: "option_item \<Rightarrow> string" where
  "OptionLabel opt = (if opt_Label opt \<noteq> '''' then opt_Label opt else opt_Value opt)"

text \<open>
  \<^verbatim>\<open>OpenFileRef\<close>: the store (\<open>None\<close> for \<^verbatim>\<open>nil\<close>) gives the content and, if it has them, the
  metadata of the file.
\<close>

definition OpenFileRef ::
    "(string \<Rightarrow> 'w \<Rightarrow> 'w \<times> (go_error + 'c \<times> file_ref option)) option \<Rightarrow> file_ref \<Rightarrow> 'w \<Rightarrow>
     'w \<times> (go_error + 'c \<times> file_ref)" where
  "OpenFileRef store ref w =
     (case store of
        None \<Rightarrow> (w, Inl (Plain ''channel: file store is nil''))
      | Some get \<Rightarrow>
          (case get (fr_ID ref) w of
             (w1, Inl err) \<Rightarrow> (w1, Inl err)
           | (w1, Inr (reader, meta)) \<Rightarrow>
               let resolved = (case meta of None \<Rightarrow> ref | Some md \<Rightarrow>
                     ref\<lparr>fr_Name := (if fr_Name ref = '''' then fr_Name md else fr_Name ref),
                         fr_MIMEType := (if fr_MIMEType ref = '''' then fr_MIMEType md else fr_MIMEType ref),
                         fr_Size := (if fr_Size ref = 0 then fr_Size md else fr_Size ref),
                         fr_FileType := (if fr_FileType ref = '''' then fr_FileType md else fr_FileType ref)\<rparr>);
                   resolved = (if fr_Name resolved = '''' then resolved\<lparr>fr_Name := fr_ID ref\<rparr>
                               else resolved)
               in (w1, Inr (reader, resolved))))"

subsection \<open>The sender of plugins (internal/plugin/sender.go)\<close>

type_synonym 'w user_lookup = "user_id \<Rightarrow> 'w \<Rightarrow> 'w \<times> (go_error + global_user option)"

definition resolveUser ::
    "'w user_lookup \<Rightarrow> user_id \<Rightarrow> 'w \<Rightarrow> 'w \<times> (go_error + global_user)" where
  "resolveUser getUser userID w =
     (case getUser userID w of
        (w1, Inl err) \<Rightarrow> (w1, Inl (Wrap (''sender: get user '' @ FormatInt userID @ '': '') err ''''))
      | (w1, Inr None) \<Rightarrow> (w1, Inl (Plain (''sender: user '' @ FormatInt userID @ '' not found'')))
      | (w1, Inr (Some u)) \<Rightarrow> (w1, Inr u))"

definition Sender_SendToUser ::
    "'w call_context \<Rightarrow> 'w adapter_registry \<Rightarrow> 'w user_lookup \<Rightarrow> user_id \<Rightarrow> message \<Rightarrow> 'w send_state \<Rightarrow>
     'w send_state \<times> go_error option" where
  "Sender_SendToUser C r getUser userID msg st =
     (case resolveUser getUser userID (fst st) of
        (w, Inl err) \<Rightarrow> ((w, snd st), Some err)
      | (w, Inr user) \<Rightarrow>
          let platformID = PlatformUserID user
          in if platformID = ''''
             then ((w, snd st), Some (Plain (''sender: user '' @ FormatInt userID @
                     '' has no platform account on channel '' @ gu_PrimaryChannel user)))
             else SendToUser C r (gu_PrimaryChannel user) platformID msg (w, snd st))"

text \<open>The loop over the accounts: it goes on after a failure and collects the errors.\<close>

fun send_accounts ::
    "'w call_context \<Rightarrow> 'w adapter_registry \<Rightarrow> message \<Rightarrow> channel_account list \<Rightarrow> 'w send_state \<Rightarrow>
     'w send_state \<times> go_error list" where
  "send_accounts C r msg [] st = (st, [])"
| "send_accounts C r msg (a # as) st =
     (case SendToUser C r (ca_ChannelType a) (ca_ChannelUserID a) msg st of
        (st1, e) \<Rightarrow>
          (case send_accounts C r msg as st1 of
             (st2, es) \<Rightarrow>
               (st2, (case e of None \<Rightarrow> es | Some err \<Rightarrow> Wrap (ca_ChannelType a @ '': '') err '''' # es))))"

definition SendToAllChannels ::
    "'w call_context \<Rightarrow> 'w adapter_registry \<Rightarrow> 'w user_lookup \<Rightarrow> user_id \<Rightarrow> message \<Rightarrow> 'w send_state \<Rightarrow>
     'w send_state \<times> go_error option" where
  "SendToAllChannels C r getUser userID msg st =
     (case resolveUser getUser userID (fst st) of
        (w, Inl err) \<Rightarrow> ((w, snd st), Some err)
      | (w, Inr user) \<Rightarrow>
          (case send_accounts C r msg (gu_Accounts user) (w, snd st) of
             (st1, errs) \<Rightarrow>
               (st1, if length errs > 0
                     then Some (Wrap (''sender: send to user '' @ FormatInt userID @ '' failed on '' @
                            FormatInt (int (length errs)) @ ''/'' @
                            FormatInt (int (length (gu_Accounts user))) @ '' channels: '')
                            (Joined errs) '''')
                     else None)))"

subsection \<open>Lemmas\<close>

lemma retry_loop_attempts:
  assumes "\<And>x. snd (fst (fn x)) = Suc (snd x)" "\<And>d x. snd (fst (ctx_wait C d x)) = snd x"
    "retry_loop C fn onRetry (Suc k) attempt ((w, n), m) = (((w', n'), m'), e)"
  shows "n < n' \<and> n' \<le> n + Suc k"
  using assms(3)
proof (induction k arbitrary: attempt w n m)
  case 0
  obtain w1 e1 where f: "fn (w, n) = (w1, e1)" by fastforce
  then have n1: "snd w1 = Suc n" using assms(1) [of "(w, n)"] by simp
  from 0 f show ?case
  proof (cases e1)
    case (Some err)
    obtain w2 e2 where c: "ctx_wait C (backoffDelay attempt (ctx_rand C attempt)) w1 = (w2, e2)" by fastforce
    then have "snd w2 = Suc n" using assms(2) n1 by (metis fst_conv)
    with 0 f Some c n1 show ?thesis by (cases w2; cases e2) (auto split: if_splits)
  qed (use n1 in auto)
next
  case (Suc k)
  obtain w1 e1 where f: "fn (w, n) = (w1, e1)" by fastforce
  then have n1: "snd w1 = Suc n" using assms(1) [of "(w, n)"] by simp
  show ?case
  proof (cases e1)
    case None
    with Suc.prems f n1 show ?thesis by auto
  next
    case (Some err)
    obtain wa na e2 where c: "ctx_wait C (backoffDelay attempt (ctx_rand C attempt)) w1 = ((wa, na), e2)"
      by (metis prod.exhaust)
    then have na: "na = Suc n" using assms(2) n1 by (metis fst_conv snd_conv)
    show ?thesis
    proof (cases "isTransient err \<and> attempt \<noteq> maxRetries - 1 \<and> e2 = None")
      case True
      with Suc.prems f Some c have
        "retry_loop C fn onRetry (Suc k) (Suc attempt) ((wa, na), onRetry m) = (((w', n'), m'), e)"
        by (simp del: retry_loop.simps(2) add: retry_loop.simps(2) [of C fn onRetry "Suc k"])
      from Suc.IH [OF this] na show ?thesis by simp
    next
      case False
      with Suc.prems f Some c na n1 show ?thesis
        by (cases e2; cases "isTransient err"; cases "attempt = maxRetries - 1")
          (auto simp del: retry_loop.simps(2) simp add: retry_loop.simps(2) [of C fn onRetry "Suc k"])
    qed
  qed
qed

lemma withRetry_first:
  "withRetry C fn onRetry (w, m) =
     (case fn w of
        (w1, None) \<Rightarrow> ((w1, m), None)
      | (w1, Some err) \<Rightarrow>
          if \<not> isTransient err then ((w1, m), Some err)
          else (case ctx_wait C (backoffDelay 0 (ctx_rand C 0)) w1 of
                  (w2, Some ctxErr) \<Rightarrow> ((w2, onRetry m), Some ctxErr)
                | (w2, None) \<Rightarrow> retry_loop C fn onRetry 2 (Suc 0) (w2, onRetry m)))"
proof -
  have "maxRetries = Suc 2" "0 \<noteq> maxRetries - 1" by (simp_all add: maxRetries_def)
  then show ?thesis
    using retry_loop.simps(2) [of C fn onRetry 2 0 w m] by (simp only: withRetry_def if_False Let_def)
qed

subsection \<open>Properties\<close>

text \<open>
  Sending is attempted once, twice or three times, never more (\<open>n\<close> counts the calls of the
  sender); an error that is not transient, like a success, is returned after the first attempt,
  without waiting and without counting a retry.
\<close>
theorem withRetry_bounded:
  assumes "\<And>x. snd (fst (fn x)) = Suc (snd x)" "\<And>d x. snd (fst (ctx_wait C d x)) = snd x"
    "withRetry C fn onRetry ((w, n), m) = (((w', n'), m'), e)"
  shows "n < n' \<and> n' \<le> n + 3 \<and>
    (\<forall>w1 e1. fn (w, n) = (w1, e1) \<and> (e1 = None \<or> (\<exists>err. e1 = Some err \<and> \<not> isTransient err)) \<longrightarrow>
       ((w', n'), m') = (w1, m) \<and> e = e1)"
proof -
  have "n < n' \<and> n' \<le> n + Suc 2"
    using retry_loop_attempts [OF assms(1,2), of onRetry 2 0 w n m] assms(3)
    by (simp add: withRetry_def maxRetries_def numeral_3_eq_3 numeral_2_eq_2)
  moreover have "((w', n'), m') = (w1, m) \<and> e = e1"
    if "fn (w, n) = (w1, e1)" "e1 = None \<or> (\<exists>err. e1 = Some err \<and> \<not> isTransient err)" for w1 e1
    using that assms(3) by (auto simp: withRetry_first)
  ultimately show ?thesis by simp
qed

text \<open>A sender that always fails with a transient error, and a context that is never done.\<close>

definition demo_ctx :: "('w) call_context" where
  "demo_ctx = \<lparr>ctx_wait = (\<lambda>_ w. (w, None)), ctx_rand = (\<lambda>_. 1 / 2)\<rparr>"

theorem withRetry_bounded_witness:
  "\<exists>n' m' e. withRetry demo_ctx (\<lambda>(u, k). ((u, Suc k), Some (NetErr ''timeout''))) (\<lambda>m. m) (((), 0), ()) =
     ((((), n'), m'), e) \<and> 0 < n' \<and> n' \<le> 3"
proof -
  obtain p e where r0: "withRetry demo_ctx (\<lambda>(u, k). ((u, Suc k), Some (NetErr ''timeout''))) (\<lambda>m. m)
      (((), 0), ()) = (p, e)" by fastforce
  obtain n' m' where "p = (((), n'), m')" by (cases p) auto
  note r = r0 [unfolded this]
  have "0 < n' \<and> n' \<le> 0 + 3"
    using withRetry_bounded [OF _ _ r] by (simp add: demo_ctx_def case_prod_beta)
  with r show ?thesis by auto
qed

text \<open>
  The waiting time of every attempt stays within 30 percent of the exponential backoff
  \<open>500 ms * 2 ^ attempt\<close>, capped at 5 seconds: it is never negative and never above 6.5 seconds.
\<close>
theorem backoffDelay_bounds:
  assumes "0 \<le> rnd" "rnd \<le> 1"
  shows "10 * backoffDelay attempt rnd \<ge> 7 * min (baseDelay * 2 ^ attempt) maxDelay \<and>
    10 * backoffDelay attempt rnd \<le> 13 * min (baseDelay * 2 ^ attempt) maxDelay"
proof -
  define d where "d = min (baseDelay * 2 ^ attempt) maxDelay"
  have d: "0 \<le> d" by (simp add: d_def baseDelay_def maxDelay_def duration_defs)
  define j where "j = of_int d * (3 / 10) * (rnd * 2 - 1)"
  have lim: "\<bar>rnd * 2 - 1\<bar> \<le> 1" using assms by (simp add: abs_le_iff)
  have "\<bar>j\<bar> \<le> of_int d * (3 / 10)"
    unfolding j_def abs_mult using d lim mult_left_mono [OF lim, of "\<bar>of_int d :: rat\<bar> * (3 / 10)"] by simp
  moreover have "\<bar>of_int (trunc_rat j)\<bar> \<le> \<bar>j\<bar>"
    by (simp add: trunc_rat_def)
  ultimately have "\<bar>of_int (trunc_rat j) :: rat\<bar> \<le> of_int d * (3 / 10)" by linarith
  then have "\<bar>of_int (10 * trunc_rat j) :: rat\<bar> \<le> of_int (3 * d)" by (simp add: abs_mult)
  then have t: "\<bar>10 * trunc_rat j\<bar> \<le> 3 * d" by (metis of_int_abs of_int_le_iff)
  have "backoffDelay attempt rnd = d + trunc_rat j"
    unfolding backoffDelay_def Let_def j_def d_def by (simp add: min_def)
  with t show ?thesis unfolding d_def [symmetric] by linarith
qed

theorem backoffDelay_bounds_witness: "10 * backoffDelay 2 0 \<ge> 7 * min (baseDelay * 2 ^ 2) maxDelay"
  using backoffDelay_bounds [of 0 2] by simp

text \<open>
  Each update is handled at most once: if the client's set-if-absent tells the truth about the
  keys it holds, and the key of a first delivery is still held, then a second delivery with the
  same update identifier does not reach the next handler: the world only changes by the lookup and
  the metric, and no error is reported.
\<close>
theorem duplicate_update_skipped:
  assumes "\<And>w k d w' b. setnx w k d = (w', Inr b) \<Longrightarrow> b = (\<not> held w k) \<and> held w' k"
    "up_PlatformUpdateID u \<noteq> ''''"
    "key = dc_Prefix (dedup_normalize cfg) @ up_PlatformUpdateID u"
    "held w key" "setnx w key (dc_TTL (dedup_normalize cfg)) = (w1, Inr b)"
  shows "Middleware setnx cfg count nxt u w = (count (up_ChannelType u) ''duplicate'' w1, None) \<and> held w1 key"
  using assms(1) [OF assms(5)] assms(2-5) by (simp add: Middleware_def Let_def)

theorem duplicate_update_skipped_witness:
  "Middleware (\<lambda>w k d. (insert k w, Inr (k \<notin> w))) \<lparr>dc_TTL = 0, dc_Prefix = ''''\<rparr> (\<lambda>_ _ w. w)
     (\<lambda>u w. (insert ''handled'' w, None))
     \<lparr>up_ChannelType = ''TELEGRAM'', up_PlatformUserID = ''1'', up_PlatformUpdateID = ''7'',
      up_Input = TextInput ''x'', up_ChatID = ''c'', up_Username = ''''\<rparr> {''dedup:7''} = ({''dedup:7''}, None)"
proof -
  define u where "u = \<lparr>up_ChannelType = ''TELEGRAM'', up_PlatformUserID = ''1'', up_PlatformUpdateID = ''7'',
      up_Input = TextInput ''x'', up_ChatID = ''c'', up_Username = ''''\<rparr>"
  have "Middleware (\<lambda>w k d. (insert k w, Inr (k \<notin> w))) \<lparr>dc_TTL = 0, dc_Prefix = ''''\<rparr> (\<lambda>_ _ w. w)
      (\<lambda>u w. (insert ''handled'' w, None)) u {''dedup:7''} =
      ((\<lambda>_ _ w. w) (up_ChannelType u) ''duplicate'' {''dedup:7''}, None) \<and> ''dedup:7'' \<in> {''dedup:7''}"
    by (rule duplicate_update_skipped [where held = "\<lambda>w k. k \<in> w" and b = False])
      (auto simp: u_def dedup_normalize_def)
  then show ?thesis by (simp add: u_def)
qed

lemma render_block_Options:
  "rp_Options (render_block f b ps) =
     (case b of OptionsBlock p os \<Rightarrow> Some (p, os) | _ \<Rightarrow> rp_Options ps)"
  by (cases b) (simp_all add: Let_def)

lemma fold_render_no_options:
  "\<not> list_ex is_OptionsBlock bs \<Longrightarrow> rp_Options (fold (render_block f) bs ps) = rp_Options ps"
proof (induction bs arbitrary: ps)
  case (Cons b bs)
  then show ?case by (cases b) (simp_all add: Let_def)
qed simp

lemma RenderBlocks_last_options:
  "Blocks msg = us @ OptionsBlock p os # vs \<Longrightarrow> \<not> list_ex is_OptionsBlock vs \<Longrightarrow>
     rp_Options (RenderBlocks msg f) = Some (p, os)"
  by (simp add: RenderBlocks_def fold_render_no_options)

lemma RenderBlocks_no_options:
  "\<not> list_ex is_OptionsBlock (Blocks msg) \<Longrightarrow> rp_Options (RenderBlocks msg f) = None"
  by (simp add: RenderBlocks_def fold_render_no_options)

end
