(* ===== verification/Channel_Manager.thy ===== *)
theory Channel_Manager
  imports Dialog_Manager Plugin_Registry Channel_Send
begin

text \<open>
  The channel manager, \<^verbatim>\<open>internal/channel/manager.go\<close>: what happens to an update from a messenger,
  from the user lookup and the blacklist through commands, dialogs, authorization, dispatch to the
  plugin and the plugin menu, to the error reply; with \<^verbatim>\<open>RouteEvent\<close> of
  \<^verbatim>\<open>internal/trigger/router.go\<close> and \<^verbatim>\<open>NewMessengerEvent\<close> of \<^verbatim>\<open>internal/plugin/contract/event.go\<close>.

  The services it calls are fields of \<open>services\<close>: the user service, the optional blacklist and
  chat-group resolver, the authorizer and the plugins' event handlers. A plugin may change the
  dialogs (the core plugin does) and the world. Log output is not modelled.
\<close>

subsection \<open>Events and routing (contract/event.go, trigger/router.go)\<close>

text \<open>The JSON payload of a messenger event carries the fields of the request.\<close>

record messenger_event =
  ev_TriggerName :: string
  ev_PluginID :: string
  ev_Data :: command_request

definition NewMessengerEvent :: "command_request \<Rightarrow> string \<Rightarrow> messenger_event" where
  "NewMessengerEvent req pluginID =
     \<lparr>ev_TriggerName = cr_CommandName req, ev_PluginID = pluginID, ev_Data = req\<lparr>cr_PluginID := ''''\<rparr>\<rparr>"

text \<open>
  The answer of a plugin: an error, no response, or a response with its \<^verbatim>\<open>Error\<close> field.
\<close>

type_synonym ('s, 'w) event_handler =
  "messenger_event \<Rightarrow> 's manager \<times> 'w \<Rightarrow> ('s manager \<times> 'w) \<times> (go_error + string option)"

definition RouteEvent ::
    "(string \<rightharpoonup> ('s, 'w) event_handler) \<Rightarrow> ('s, 'w) event_handler" where
  "RouteEvent handlers ev st =
     (case handlers (ev_PluginID ev) of
        None \<Rightarrow> (st, Inl (Plain (''plugin '' @ quote (ev_PluginID ev) @ '' not found'')))
      | Some h \<Rightarrow> h ev st)"

subsection \<open>State and services\<close>

record ('s, 'w) services =
  sv_FindOrCreateUser :: "channel_type \<Rightarrow> string \<Rightarrow> string \<Rightarrow> 'w \<Rightarrow> 'w \<times> (go_error + global_user)"
  sv_IsBlocked :: "(user_id \<Rightarrow> 'w \<Rightarrow> 'w \<times> (go_error + bool)) option"
  sv_FindChatGroupID :: "(channel_type \<Rightarrow> string \<Rightarrow> 'w \<Rightarrow> 'w \<times> (go_error + int)) option"
  sv_CheckCommand :: "user_id \<Rightarrow> string \<Rightarrow> string \<Rightarrow> role_requirements option \<Rightarrow> 'w \<Rightarrow> 'w \<times> (go_error + bool)"
  sv_plugins :: plugin_manager
  sv_handlers :: "string \<rightharpoonup> ('s, 'w) event_handler"
  sv_adapters :: "'w adapter_registry"
  sv_storage :: "'s storage_ops"
  sv_context :: "'w call_context"
  sv_env :: env

text \<open>
  What the manager changes: the dialogs, the focus tracker (if there is one), the message that
  shows the dialog of a chat, the world, the two kinds of metrics.
\<close>

record ('s, 'w) channel_manager =
  cm_state :: "'s manager"
  cm_focus :: "focus_tracker option"
  cm_lastBotMsgID :: "channel_type \<times> string \<rightharpoonup> string"
  cm_world :: 'w
  cm_sends :: "send_metric list option"
  cm_metrics :: "(channel_type \<times> string \<times> string \<times> string) list option"
  cm_updates :: "(channel_type \<times> string \<times> string) list option"

type_synonym ('s, 'w) cm_op = "('s, 'w) channel_manager \<Rightarrow> ('s, 'w) channel_manager \<times> go_error option"

text \<open>Calls of the adapter registry, on the manager's state.\<close>

definition cm_send :: "('s, 'w) services \<Rightarrow> channel_type \<Rightarrow> string \<Rightarrow> message \<Rightarrow> ('s, 'w) cm_op" where
  "cm_send V ch chatID msg m =
     (case SendToChat (sv_context V) (sv_adapters V) ch chatID msg (cm_world m, cm_sends m) of
        ((w, ms), err) \<Rightarrow> (m\<lparr>cm_world := w, cm_sends := ms\<rparr>, err))"

definition incCommandExecution ::
    "channel_type \<Rightarrow> string \<Rightarrow> string \<Rightarrow> string \<Rightarrow> ('s, 'w) channel_manager \<Rightarrow> ('s, 'w) channel_manager" where
  "incCommandExecution ch pluginID commandName result m =
     m\<lparr>cm_metrics := map_option (\<lambda>xs. xs @ [(ch, pluginID, commandName, result)]) (cm_metrics m)\<rparr>"

fun updateInputType :: "user_input \<Rightarrow> string" where
  "updateInputType (TextInput _) = ''text''"
| "updateInputType (CallbackInput _ _ _) = ''callback''"
| "updateInputType (FileInput _ _) = ''file''"

definition classifyUpdateResult :: "go_error \<Rightarrow> string" where
  "classifyUpdateResult err =
     (case errors_As_App err of
        Some (_, SeverityUser, _) \<Rightarrow> ''user_error''
      | Some (_, SeveritySilent, _) \<Rightarrow> ''silent''
      | Some (_, SeverityInternal, _) \<Rightarrow> ''internal_error''
      | None \<Rightarrow> ''internal_error'')"

fun extractFiles :: "user_input \<Rightarrow> file_ref list" where
  "extractFiles (FileInput _ files) = files"
| "extractFiles _ = []"

definition newCompletedCommand ::
    "user_id \<Rightarrow> channel_type \<Rightarrow> string \<Rightarrow> string \<Rightarrow> string \<Rightarrow> string \<Rightarrow> option_map \<Rightarrow> string \<Rightarrow>
     user_input \<Rightarrow> completed_command" where
  "newCompletedCommand userID ch chatID chatGroupID pluginID commandName params loc input =
     \<lparr>cmd_userID = userID, cmd_channelType = ch, cmd_chatID = chatID, cmd_chatGroupID = chatGroupID,
      cmd_pluginID = pluginID, cmd_commandName = commandName, cmd_params = params,
      cmd_locale = loc, cmd_files = extractFiles input\<rparr>"

subsection \<open>Dialog messages\<close>

definition retireDialogMessage ::
    "('s, 'w) services \<Rightarrow> channel_type \<Rightarrow> string \<Rightarrow> ('s, 'w) channel_manager \<Rightarrow> ('s, 'w) channel_manager" where
  "retireDialogMessage V ch chatID m =
     (case cm_lastBotMsgID m (ch, chatID) of
        None \<Rightarrow> m
      | Some mid \<Rightarrow>
          let m1 = m\<lparr>cm_lastBotMsgID := (cm_lastBotMsgID m)((ch, chatID) := None)\<rparr>
          in case DeleteMessageInChat (sv_adapters V) ch chatID mid (cm_world m1) of
               (w, None) \<Rightarrow> m1\<lparr>cm_world := w\<rparr>
             | (w, Some err) \<Rightarrow>
                 m1\<lparr>cm_world := fst (EditMessageInChat (sv_adapters V) ch chatID mid empty_message w)\<rparr>)"

definition showDialogMessage ::
    "('s, 'w) services \<Rightarrow> channel_type \<Rightarrow> string \<Rightarrow> message \<Rightarrow> bool \<Rightarrow> ('s, 'w) cm_op" where
  "showDialogMessage V ch chatID msg reuse m =
     (if IsEmpty msg then (m, None)
      else let (m1, edited) =
                 (case (reuse, cm_lastBotMsgID m (ch, chatID)) of
                    (True, Some previous) \<Rightarrow>
                      (case EditMessageInChat (sv_adapters V) ch chatID previous msg (cm_world m) of
                         (w, e) \<Rightarrow> (m\<lparr>cm_world := w\<rparr>, e = None))
                  | _ \<Rightarrow> (m, False))
           in if edited then (m1, None)
              else let m2 = retireDialogMessage V ch chatID m1
                   in case SendToChatGetID (sv_adapters V) ch chatID msg (cm_world m2) of
                        (w, Inl err) \<Rightarrow> (m2\<lparr>cm_world := w\<rparr>, Some err)
                      | (w, Inr mid) \<Rightarrow>
                          (if mid \<noteq> ''''
                           then m2\<lparr>cm_world := w,
                                   cm_lastBotMsgID := (cm_lastBotMsgID m2)((ch, chatID) \<mapsto> mid)\<rparr>
                           else m2\<lparr>cm_world := w\<rparr>, None))"

definition sendResultMessage ::
    "('s, 'w) services \<Rightarrow> channel_type \<Rightarrow> string \<Rightarrow> message \<Rightarrow> ('s, 'w) cm_op" where
  "sendResultMessage V ch chatID msg = showDialogMessage V ch chatID msg False"

subsection \<open>Ambiguous commands\<close>

definition disambiguationLabel :: "env \<Rightarrow> command_candidate \<Rightarrow> string \<Rightarrow> string" where
  "disambiguationLabel E c loc =
     (let label = ResolveText (env_default_locale E) (cc_Descriptions c) loc
      in if label \<noteq> '''' then label
         else if cc_Description c \<noteq> '''' then cc_Description c
         else if cc_PluginID c \<noteq> '''' then cc_PluginID c
         else cc_FQName c)"

definition is_focused :: "string \<Rightarrow> command_candidate \<Rightarrow> bool" where
  "is_focused focusPlugin c \<longleftrightarrow> cc_PluginID c = focusPlugin \<and> focusPlugin \<noteq> ''''"

text \<open>
  The order of the sort: focused candidates first, then by qualified name. A sort by this order
  leaves candidates with equal keys in any order; the model takes the stable one.
\<close>



definition candidate_less :: "string \<Rightarrow> command_candidate \<Rightarrow> command_candidate \<Rightarrow> bool" where
  "candidate_less focusPlugin a b =
     (if is_focused focusPlugin a \<noteq> is_focused focusPlugin b then is_focused focusPlugin a
      else cc_FQName a < cc_FQName b)"

fun insert_candidate :: "string \<Rightarrow> command_candidate \<Rightarrow> command_candidate list \<Rightarrow> command_candidate list" where
  "insert_candidate f c [] = [c]"
| "insert_candidate f c (x # xs) =
     (if candidate_less f x c then x # insert_candidate f c xs else c # x # xs)"

definition sort_candidates :: "string \<Rightarrow> command_candidate list \<Rightarrow> command_candidate list" where
  "sort_candidates focusPlugin cs = foldr (insert_candidate focusPlugin) cs []"

text \<open>The arrow before a probable candidate, in UTF-8.\<close>

definition probable_mark :: string where
  "probable_mark = [CHR 0xE2, CHR 0x9F, CHR 0xB6, CHR 0x20]"

definition buildDisambiguationMessage ::
    "env \<Rightarrow> user_id \<Rightarrow> instant \<Rightarrow> command_candidate list \<Rightarrow> string \<Rightarrow> focus_tracker option \<Rightarrow>
     focus_tracker option \<times> message" where
  "buildDisambiguationMessage E userID now candidates loc focus =
     (let (focus', focusPlugin) =
            (case focus of
               None \<Rightarrow> (None, '''')
             | Some f \<Rightarrow> (case LastPlugin userID now f of (f', p) \<Rightarrow> (Some f', p)));
          sorted = sort_candidates focusPlugin candidates;
          options = map (\<lambda>(i, c).
             mk_option ((if is_focused focusPlugin c \<and> i = 0 then probable_mark else '''') @
                        disambiguationLabel E c loc) (''/'' @ cc_FQName c))
             (zip [0..<length sorted] sorted)
      in (focus', \<lparr>Blocks = [TextBlock (tr E ''disambiguate.prompt'' loc) StylePlain,
                            OptionsBlock '''' options]\<rparr>))"

subsection \<open>Dispatch\<close>

definition recordFocus ::
    "user_id \<Rightarrow> string \<Rightarrow> instant \<Rightarrow> ('s, 'w) channel_manager \<Rightarrow> ('s, 'w) channel_manager" where
  "recordFocus userID pluginID now m =
     (if cm_focus m \<noteq> None \<and> pluginID \<noteq> ''''
      then m\<lparr>cm_focus := map_option (Record userID pluginID now) (cm_focus m)\<rparr> else m)"

definition routeCommand :: "('s, 'w) services \<Rightarrow> string \<Rightarrow> command_request \<Rightarrow> ('s, 'w) cm_op" where
  "routeCommand V pluginID req m =
     (case RouteEvent (sv_handlers V) (NewMessengerEvent req pluginID) (cm_state m, cm_world m) of
        ((s, w), res) \<Rightarrow>
          (m\<lparr>cm_state := s, cm_world := w\<rparr>,
           case res of
             Inl err \<Rightarrow> Some err
           | Inr None \<Rightarrow> None
           | Inr (Some msg) \<Rightarrow>
               if msg \<noteq> ''''
               then Some (Plain (''plugin '' @ quote pluginID @ '' command '' @
                                 quote (cr_CommandName req) @ '': '' @ msg))
               else None))"

definition shouldReturnToPluginMenu :: "'s manager \<Rightarrow> completed_command \<Rightarrow> bool" where
  "shouldReturnToPluginMenu st cmd \<longleftrightarrow>
     cmd_pluginID cmd \<noteq> '''' \<and>
     \<not> IsPreservesDialog st (cmd_pluginID cmd) (cmd_commandName cmd) \<and>
     \<not> (cmd_pluginID cmd = ''core'' \<and>
        (cmd_commandName cmd = ''start'' \<or> cmd_commandName cmd = ''plugins'' \<or>
         cmd_commandName cmd = ''resume''))"

text \<open>
  The result is \<open>None\<close> only if \<^verbatim>\<open>ProcessInput\<close> of the dialog manager did not return. The errors are
  logged and dropped.
\<close>

definition tryReturnToPluginMenu ::
    "('s, 'w) services \<Rightarrow> completed_command \<Rightarrow> ('s, 'w) channel_manager \<Rightarrow> ('s, 'w) channel_manager option" where
  "tryReturnToPluginMenu V cmd m =
     (if \<not> shouldReturnToPluginMenu (cm_state m) cmd then Some m
      else case SMA_StartCommand (sv_env V) (sv_storage V) (cmd_userID cmd) (cmd_chatID cmd) ''core''
                  ''plugins'' (cmd_locale cmd) (cm_state m) of
          (s1, Inl err) \<Rightarrow> Some (m\<lparr>cm_state := s1\<rparr>)
        | (s1, Inr _) \<Rightarrow>
            (case SMA_ProcessInput (sv_env V) (sv_storage V) (cmd_userID cmd) (cmd_chatID cmd)
                    (CallbackInput (cmd_pluginID cmd) '''' 0) (cmd_locale cmd) s1 of
               None \<Rightarrow> None
             | Some (s2, Inl err) \<Rightarrow> Some (m\<lparr>cm_state := s2\<rparr>)
             | Some (s2, Inr result) \<Rightarrow>
                 Some (fst (sendResultMessage V (cmd_channelType cmd) (cmd_chatID cmd) (sr_Message result)
                              (m\<lparr>cm_state := s2\<rparr>)))))"

definition request_of :: "completed_command \<Rightarrow> command_request" where
  "request_of cmd =
     \<lparr>cr_UserID = cmd_userID cmd, cr_ChannelType = cmd_channelType cmd, cr_ChatID = cmd_chatID cmd,
      cr_ChatGroupID = cmd_chatGroupID cmd, cr_PluginID = cmd_pluginID cmd,
      cr_CommandName = cmd_commandName cmd, cr_Params = cmd_params cmd,
      cr_Locale = cmd_locale cmd, cr_Files = cmd_files cmd\<rparr>"

definition dispatchCompletedCommand ::
    "('s, 'w) services \<Rightarrow> instant \<Rightarrow> completed_command \<Rightarrow> ('s, 'w) channel_manager \<Rightarrow>
     (('s, 'w) channel_manager \<times> go_error option) option" where
  "dispatchCompletedCommand V now cmd m =
     (let m1 = (if \<not> IsPreservesDialog (cm_state m) (cmd_pluginID cmd) (cmd_commandName cmd)
                then retireDialogMessage V (cmd_channelType cmd) (cmd_chatID cmd) m else m);
          m2 = recordFocus (cmd_userID cmd) (cmd_pluginID cmd) now m1;
          count = incCommandExecution (cmd_channelType cmd) (cmd_pluginID cmd) (cmd_commandName cmd)
      in case routeCommand V (cmd_pluginID cmd) (request_of cmd) m2 of
           (m3, Some err) \<Rightarrow> Some (count ''dispatch_error'' m3, Some (CompletedCommandError cmd err))
         | (m3, None) \<Rightarrow>
             (case tryReturnToPluginMenu V cmd m3 of
                None \<Rightarrow> None
              | Some m4 \<Rightarrow> Some (count ''ok'' m4, None)))"

definition resultPluginID :: "plugin_manager \<Rightarrow> state_result \<Rightarrow> string" where
  "resultPluginID plugins result =
     (if sr_PluginID result \<noteq> '''' then sr_PluginID result
      else GetPluginIDByCommand plugins (sr_CommandName result))"

definition shouldIgnoreInputError :: "go_error \<Rightarrow> user_input \<Rightarrow> bool" where
  "shouldIgnoreInputError err input \<longleftrightarrow> errors_Is err ErrNoActiveDialog \<and> is_FileInput input"

text \<open>
  The common end of \<^verbatim>\<open>handleCommand\<close> and \<^verbatim>\<open>handleInput\<close> for a completed result: show its message
  in place of the dialog's, then dispatch.
\<close>

definition finishResult ::
    "('s, 'w) services \<Rightarrow> instant \<Rightarrow> message \<Rightarrow> completed_command \<Rightarrow> ('s, 'w) channel_manager \<Rightarrow>
     (('s, 'w) channel_manager \<times> go_error option) option" where
  "finishResult V now msg cmd m =
     (let (m1, e) =
            (if \<not> IsEmpty msg
             then cm_send V (cmd_channelType cmd) (cmd_chatID cmd) msg
                    (retireDialogMessage V (cmd_channelType cmd) (cmd_chatID cmd) m)
             else (m, None))
      in case e of
           Some err \<Rightarrow> Some (m1, Some err)
         | None \<Rightarrow> dispatchCompletedCommand V now cmd m1)"

subsection \<open>Commands and input\<close>

definition handleCommand ::
    "('s, 'w) services \<Rightarrow> instant \<Rightarrow> user_id \<Rightarrow> channel_type \<Rightarrow> user_input \<Rightarrow> string \<Rightarrow> string \<Rightarrow> string \<Rightarrow>
     ('s, 'w) channel_manager \<Rightarrow> (('s, 'w) channel_manager \<times> go_error option) option" where
  "handleCommand V now userID ch input chatID chatGroupID loc m =
     (let rawName = CommandName input
      in case ResolveCommand (sv_plugins V) rawName of
           (pluginID, cd, candidates) \<Rightarrow>
             if length candidates > 0
             then let m1 = incCommandExecution ch pluginID rawName ''ambiguous'' m;
                      (focus', msg) = buildDisambiguationMessage (sv_env V) userID now candidates loc
                                        (cm_focus m1)
                  in Some (cm_send V ch chatID msg (m1\<lparr>cm_focus := focus'\<rparr>))
             else (case cd of
               None \<Rightarrow> Some (incCommandExecution ch pluginID rawName ''not_found'' m,
                             Some (NewSilentError ErrCommandNotFound_code rawName []))
             | Some def \<Rightarrow>
                 let commandName = cd_Name def
                 in case sv_CheckCommand V userID pluginID commandName (cd_Requirements def) (cm_world m) of
                      (w, Inl err) \<Rightarrow> Some (m\<lparr>cm_world := w\<rparr>, Some err)
                    | (w, Inr False) \<Rightarrow>
                        Some (cm_send V ch chatID (NewTextMessage (tr (sv_env V) ''error.access_denied'' loc))
                                (incCommandExecution ch pluginID commandName ''denied'' (m\<lparr>cm_world := w\<rparr>)))
                    | (w, Inr True) \<Rightarrow>
                        let m1 = m\<lparr>cm_world := w\<rparr>;
                            m2 = (if \<not> IsPreservesDialog (cm_state m1) pluginID commandName
                                  then m1\<lparr>cm_state := fst (CancelCommand (sv_storage V) userID (cm_state m1))\<rparr>
                                  else m1)
                        in case SMA_StartCommand (sv_env V) (sv_storage V) userID chatID pluginID
                                  commandName loc (cm_state m2) of
                             (s, Inl err) \<Rightarrow> Some (m2\<lparr>cm_state := s\<rparr>, Some err)
                           | (s, Inr result) \<Rightarrow>
                               let m3 = m2\<lparr>cm_state := s\<rparr>
                               in if sr_IsComplete result
                                  then finishResult V now (sr_Message result)
                                         (newCompletedCommand userID ch chatID chatGroupID pluginID
                                            commandName (sr_Params result) loc input) m3
                                  else Some (showDialogMessage V ch chatID (sr_Message result)
                                               (is_CallbackInput input) m3)))"

definition handleInput ::
    "('s, 'w) services \<Rightarrow> instant \<Rightarrow> user_id \<Rightarrow> channel_type \<Rightarrow> user_input \<Rightarrow> string \<Rightarrow> string \<Rightarrow> string \<Rightarrow>
     ('s, 'w) channel_manager \<Rightarrow> (('s, 'w) channel_manager \<times> go_error option) option" where
  "handleInput V now userID ch input chatID chatGroupID loc m =
     (case SMA_ProcessInput (sv_env V) (sv_storage V) userID chatID input loc (cm_state m) of
        None \<Rightarrow> None
      | Some (s, Inl err) \<Rightarrow>
          Some (m\<lparr>cm_state := s\<rparr>, if shouldIgnoreInputError err input then None else Some err)
      | Some (s, Inr result) \<Rightarrow>
          let m1 = m\<lparr>cm_state := s\<rparr>
          in if \<not> sr_IsComplete result
             then Some (showDialogMessage V ch chatID (sr_Message result) (is_CallbackInput input) m1)
             else finishResult V now (sr_Message result)
                    (newCompletedCommand userID ch chatID chatGroupID (resultPluginID (sv_plugins V) result)
                       (sr_CommandName result) (sr_Params result) loc input) m1)"

text \<open>The channel type constant of Mattermost, whose users type commands without a slash.\<close>

definition ChannelMattermost :: channel_type where "ChannelMattermost = ''MATTERMOST''"

definition normalizeInput :: "plugin_manager \<Rightarrow> channel_type \<Rightarrow> user_input \<Rightarrow> user_input" where
  "normalizeInput plugins ch input =
     (if ch \<noteq> ChannelMattermost \<or> IsCommand input then input
      else case input of
        TextInput txt \<Rightarrow>
          let trimmed = TrimSpace txt
          in if trimmed = '''' \<or> ContainsAny trimmed [CHR 0x20, CHR 0x09, CHR 0x0D, CHR 0x0A] then input
             else (case ResolveCommand plugins trimmed of
                     (_, None, []) \<Rightarrow> input
                   | _ \<Rightarrow> TextInput (''/'' @ trimmed))
      | _ \<Rightarrow> input)"

definition processUpdate ::
    "('s, 'w) services \<Rightarrow> instant \<Rightarrow> global_user \<Rightarrow> channel_type \<Rightarrow> user_input \<Rightarrow> string \<Rightarrow> string \<Rightarrow> string \<Rightarrow>
     ('s, 'w) channel_manager \<Rightarrow> (('s, 'w) channel_manager \<times> go_error option) option" where
  "processUpdate V now user ch input0 chatID chatGroupID loc m =
     (let input = normalizeInput (sv_plugins V) ch input0
      in if IsCommand input then handleCommand V now (gu_ID user) ch input chatID chatGroupID loc m
         else handleInput V now (gu_ID user) ch input chatID chatGroupID loc m)"

subsection \<open>Errors and updates\<close>

definition sendErrorReply ::
    "('s, 'w) services \<Rightarrow> channel_type \<Rightarrow> string \<Rightarrow> string \<Rightarrow> ('s, 'w) channel_manager \<Rightarrow> ('s, 'w) channel_manager" where
  "sendErrorReply V ch chatID msg m = fst (cm_send V ch chatID (NewTextMessage msg) m)"

definition tryReturnToPluginMenuFromError ::
    "('s, 'w) services \<Rightarrow> go_error \<Rightarrow> ('s, 'w) channel_manager \<Rightarrow> ('s, 'w) channel_manager option" where
  "tryReturnToPluginMenuFromError V err m =
     (case errors_As_Completed err of None \<Rightarrow> Some m | Some cmd \<Rightarrow> tryReturnToPluginMenu V cmd m)"

definition handleError ::
    "('s, 'w) services \<Rightarrow> channel_type \<Rightarrow> string \<Rightarrow> go_error \<Rightarrow> ('s, 'w) channel_manager \<Rightarrow>
     ('s, 'w) channel_manager option" where
  "handleError V ch chatID err m =
     (let E = sv_env V;
          deflt = env_default_locale E;
          m1 = (case errors_As_App err of
                  Some (_, SeverityUser, msg) \<Rightarrow>
                    sendErrorReply V ch chatID (if msg = '''' then tr E ''error.generic'' deflt else msg) m
                | Some (_, SeveritySilent, _) \<Rightarrow> m
                | Some (_, SeverityInternal, _) \<Rightarrow> sendErrorReply V ch chatID (tr E ''error.internal'' deflt) m
                | None \<Rightarrow> sendErrorReply V ch chatID ''An error occurred. Please try again.'' m)
      in tryReturnToPluginMenuFromError V err m1)"

definition resolveChatGroupID ::
    "('s, 'w) services \<Rightarrow> channel_type \<Rightarrow> string \<Rightarrow> 'w \<Rightarrow> 'w \<times> string" where
  "resolveChatGroupID V ch chatID w =
     (case sv_FindChatGroupID V of
        None \<Rightarrow> (w, '''')
      | Some lookup \<Rightarrow>
          (case lookup ch chatID w of
             (w1, Inl err) \<Rightarrow> (w1, '''')
           | (w1, Inr gid) \<Rightarrow> (w1, if gid = 0 then '''' else ''cg:'' @ FormatInt gid)))"

definition observeUpdate ::
    "update \<Rightarrow> string \<Rightarrow> ('s, 'w) channel_manager \<Rightarrow> ('s, 'w) channel_manager" where
  "observeUpdate u result m =
     m\<lparr>cm_updates := map_option (\<lambda>xs. xs @ [(up_ChannelType u, updateInputType (up_Input u), result)])
        (cm_updates m)\<rparr>"

text \<open>The part of \<^verbatim>\<open>OnUpdate\<close> after the blacklist check.\<close>

definition onAllowedUpdate ::
    "('s, 'w) services \<Rightarrow> instant \<Rightarrow> global_user \<Rightarrow> update \<Rightarrow> ('s, 'w) channel_manager \<Rightarrow>
     (('s, 'w) channel_manager \<times> go_error option) option" where
  "onAllowedUpdate V now user u m =
     (let loc = (if gu_Locale user = '''' then env_default_locale (sv_env V) else gu_Locale user);
          (w, chatGroupID) = resolveChatGroupID V (up_ChannelType u) (up_ChatID u) (cm_world m);
          m1 = m\<lparr>cm_world := w\<rparr>
      in case processUpdate V now user (up_ChannelType u) (up_Input u) (up_ChatID u) chatGroupID loc m1 of
           None \<Rightarrow> None
         | Some (m2, None) \<Rightarrow> Some (observeUpdate u ''ok'' m2, None)
         | Some (m2, Some err) \<Rightarrow>
             (case handleError V (up_ChannelType u) (up_ChatID u) err m2 of
                None \<Rightarrow> None
              | Some m3 \<Rightarrow> Some (observeUpdate u (classifyUpdateResult err) m3, None)))"

definition OnUpdate ::
    "('s, 'w) services \<Rightarrow> instant \<Rightarrow> update \<Rightarrow> ('s, 'w) channel_manager \<Rightarrow>
     (('s, 'w) channel_manager \<times> go_error option) option" where
  "OnUpdate V now u m =
     (case sv_FindOrCreateUser V (up_ChannelType u) (up_PlatformUserID u) (up_Username u) (cm_world m) of
        (w, Inl err) \<Rightarrow> Some (observeUpdate u ''user_lookup_error'' (m\<lparr>cm_world := w\<rparr>), Some err)
      | (w, Inr user) \<Rightarrow>
          let m1 = m\<lparr>cm_world := w\<rparr>
          in case sv_IsBlocked V of
               None \<Rightarrow> onAllowedUpdate V now user u m1
             | Some isBlocked \<Rightarrow>
                 (case isBlocked (gu_ID user) (cm_world m1) of
                    (w', Inr True) \<Rightarrow> Some (observeUpdate u ''blacklisted'' (m1\<lparr>cm_world := w'\<rparr>), None)
                  | (w', _) \<Rightarrow> onAllowedUpdate V now user u (m1\<lparr>cm_world := w'\<rparr>)))"

subsection \<open>Lemmas\<close>

lemma SMA_ProcessInput_returns:
  assumes "dialog_storage S content"
  shows "SMA_ProcessInput E S u chat i loc m \<noteq> None"
proof -
  obtain m' r where "Manager_ProcessInput E S u chat i loc m = Some (m', r)"
    using dialog_storage.Manager_ProcessInput_returns [OF assms] by blast
  then show ?thesis by (auto simp: SMA_ProcessInput_def split: sum.splits)
qed

lemma tryReturnToPluginMenu_returns:
  assumes "dialog_storage (sv_storage V) content"
  shows "tryReturnToPluginMenu V cmd m \<noteq> None"
  unfolding tryReturnToPluginMenu_def
  by (auto simp: SMA_ProcessInput_returns [OF assms] simp del: not_None_eq split: prod.splits sum.splits option.splits)

lemma dispatchCompletedCommand_returns:
  assumes "dialog_storage (sv_storage V) content"
  shows "dispatchCompletedCommand V now cmd m \<noteq> None"
  unfolding dispatchCompletedCommand_def Let_def
  by (simp add: tryReturnToPluginMenu_returns [OF assms] del: not_None_eq split: prod.split option.split)

lemma finishResult_returns:
  assumes "dialog_storage (sv_storage V) content"
  shows "finishResult V now msg cmd m \<noteq> None"
  unfolding finishResult_def
  by (simp add: dispatchCompletedCommand_returns [OF assms] del: not_None_eq split: prod.split option.split)

lemma handleCommand_returns:
  assumes "dialog_storage (sv_storage V) content"
  shows "handleCommand V now u ch i chat gid loc m \<noteq> None"
  unfolding handleCommand_def Let_def
  by (simp add: finishResult_returns [OF assms] del: not_None_eq split: prod.split option.split sum.split bool.split)

lemma handleInput_returns:
  assumes "dialog_storage (sv_storage V) content"
  shows "handleInput V now u ch i chat gid loc m \<noteq> None"
  unfolding handleInput_def Let_def
  by (simp add: SMA_ProcessInput_returns [OF assms] finishResult_returns [OF assms]
      del: not_None_eq split: prod.split option.split sum.split)

lemma handleError_returns:
  assumes "dialog_storage (sv_storage V) content"
  shows "handleError V ch chat err m \<noteq> None"
  unfolding handleError_def tryReturnToPluginMenuFromError_def Let_def
  by (simp add: tryReturnToPluginMenu_returns [OF assms] del: not_None_eq split: option.split)

lemma onAllowedUpdate_returns:
  assumes "dialog_storage (sv_storage V) content"
  shows "onAllowedUpdate V now user u m \<noteq> None"
  unfolding onAllowedUpdate_def processUpdate_def Let_def
  by (simp add: handleCommand_returns [OF assms] handleInput_returns [OF assms]
      handleError_returns [OF assms] del: not_None_eq split: prod.split option.split)

lemma cm_send_frame [simp, frame_simps]:
  "cm_state (fst (cm_send V ch chat msg m)) = cm_state m"
  "cm_focus (fst (cm_send V ch chat msg m)) = cm_focus m"
  "cm_lastBotMsgID (fst (cm_send V ch chat msg m)) = cm_lastBotMsgID m"
  by (simp_all add: cm_send_def split: prod.splits)

lemma incCommandExecution_frame [simp, frame_simps]:
  "cm_state (incCommandExecution ch p c r m) = cm_state m"
  "cm_focus (incCommandExecution ch p c r m) = cm_focus m"
  "cm_lastBotMsgID (incCommandExecution ch p c r m) = cm_lastBotMsgID m"
  "cm_world (incCommandExecution ch p c r m) = cm_world m"
  by (simp_all add: incCommandExecution_def)

lemma candidate_less_trans:
  "\<not> candidate_less f b a \<Longrightarrow> \<not> candidate_less f c b \<Longrightarrow> \<not> candidate_less f c a"
  by (auto simp: candidate_less_def split: if_splits)

lemma candidate_less_asym: "candidate_less f a b \<Longrightarrow> \<not> candidate_less f b a"
  by (auto simp: candidate_less_def split: if_splits)

lemma insert_candidate_mset: "mset (insert_candidate f c cs) = add_mset c (mset cs)"
  by (induction cs) auto

lemma insert_candidate_sorted:
  "sorted_wrt (\<lambda>a b. \<not> candidate_less f b a) cs \<Longrightarrow>
     sorted_wrt (\<lambda>a b. \<not> candidate_less f b a) (insert_candidate f c cs)"
proof (induction cs)
  case (Cons x xs)
  show ?case
  proof (cases "candidate_less f x c")
    case True
    have "set (insert_candidate f c xs) = insert c (set xs)"
      using insert_candidate_mset by (metis set_mset_add_mset_insert set_mset_mset)
    with Cons True show ?thesis by (auto dest: candidate_less_asym)
  next
    case False
    with Cons show ?thesis by (auto dest: candidate_less_trans)
  qed
qed simp

lemma sort_candidates_mset: "mset (sort_candidates f cs) = mset cs"
  by (induction cs) (simp_all add: sort_candidates_def insert_candidate_mset)

lemma sort_candidates_sorted: "sorted_wrt (\<lambda>a b. \<not> candidate_less f b a) (sort_candidates f cs)"
  by (induction cs) (simp_all add: sort_candidates_def insert_candidate_sorted)

lemma map_index_zip: "map (\<lambda>x. g (snd x)) (zip [0..<length ps] ps) = map g ps"
  by (rule nth_equalityI) auto

lemma IndexAny_None_iff: "IndexAny s cs = None \<longleftrightarrow> set s \<inter> set cs = {}"
  by (induction s) auto

lemma CommandName_button:
  "CHR '' '' \<notin> set name \<Longrightarrow> CHR ''@'' \<notin> set name \<Longrightarrow>
     CommandName (CallbackInput (''/'' @ name) l i) = name"
  using IndexAny_None_iff [of name "'' @''"]
  by (auto simp: CommandName_def parseCommandName_def TrimPrefix_def)

subsection \<open>Properties\<close>


text \<open>
  An update of a blacklisted user has no effect but the two lookups: no dialog is advanced or
  cancelled, nothing is sent or dispatched, no message is retired, the focus is kept.
\<close>
theorem blacklisted_user_is_ignored:
  assumes "sv_FindOrCreateUser V (up_ChannelType u) (up_PlatformUserID u) (up_Username u) (cm_world m) =
      (w, Inr user)"
    "sv_IsBlocked V = Some isBlocked" "isBlocked (gu_ID user) w = (w', Inr True)"
  shows "\<exists>m'. OnUpdate V now u m = Some (m', None) \<and> cm_state m' = cm_state m \<and> cm_world m' = w' \<and>
    cm_focus m' = cm_focus m \<and> cm_lastBotMsgID m' = cm_lastBotMsgID m \<and> cm_sends m' = cm_sends m \<and>
    cm_metrics m' = cm_metrics m"
  using assms by (simp add: OnUpdate_def observeUpdate_def)

lemma denied_command_outcome:
  assumes "ResolveCommand (sv_plugins V) (CommandName i) = (pid, Some def, [])"
    "sv_CheckCommand V userID pid (cd_Name def) (cd_Requirements def) (cm_world m) = (w, r)"
    "r = Inr False \<or> r = Inl err"
  shows "\<exists>m' e. handleCommand V now userID ch i chat gid loc m = Some (m', e) \<and>
    cm_state m' = cm_state m \<and> cm_focus m' = cm_focus m \<and> cm_lastBotMsgID m' = cm_lastBotMsgID m \<and>
    (r = Inl err \<longrightarrow> cm_world m' = w \<and> e = Some err) \<and>
    (r = Inr False \<longrightarrow> cm_world m' = fst (fst (SendToChat (sv_context V) (sv_adapters V) ch chat
        (NewTextMessage (tr (sv_env V) ''error.access_denied'' loc)) (w, cm_sends m))))"
  using assms(3)
proof
  assume r: "r = Inr False"
  define m1 where "m1 = incCommandExecution ch pid (cd_Name def) ''denied'' (m\<lparr>cm_world := w\<rparr>)"
  have f: "cm_state m1 = cm_state m" "cm_focus m1 = cm_focus m" "cm_lastBotMsgID m1 = cm_lastBotMsgID m"
    "cm_world m1 = w" "cm_sends m1 = cm_sends m"
    by (simp_all add: m1_def incCommandExecution_def)
  have "handleCommand V now userID ch i chat gid loc m =
      Some (cm_send V ch chat (NewTextMessage (tr (sv_env V) ''error.access_denied'' loc)) m1)"
    using assms(1,2) r by (simp add: handleCommand_def m1_def)
  with r f show ?thesis by (auto simp: cm_send_def split: prod.splits)
next
  assume r: "r = Inl err"
  then have "handleCommand V now userID ch i chat gid loc m = Some (m\<lparr>cm_world := w\<rparr>, Some err)"
    using assms(1,2) by (simp add: handleCommand_def)
  with r show ?thesis by simp
qed

text \<open>
  A command that the authorizer does not allow is neither started nor dispatched, and does
  not cancel the dialog the user has: if the check says no, the only effect is the refusal sent
  to the chat, and if the check fails there is no effect at all and its error is returned.
\<close>
theorem denied_command_has_no_effect:
  assumes "ResolveCommand (sv_plugins V) (CommandName i) = (pid, Some def, [])"
    "sv_CheckCommand V userID pid (cd_Name def) (cd_Requirements def) (cm_world m) = (w, r)"
    "r = Inr False \<or> r = Inl err"
  shows "\<exists>m' e. handleCommand V now userID ch i chat gid loc m = Some (m', e) \<and>
    cm_state m' = cm_state m \<and> cm_focus m' = cm_focus m \<and> cm_lastBotMsgID m' = cm_lastBotMsgID m \<and>
    (r = Inl err \<longrightarrow> cm_world m' = w \<and> e = Some err) \<and>
    (r = Inr False \<longrightarrow> cm_world m' = fst (fst (SendToChat (sv_context V) (sv_adapters V) ch chat
        (NewTextMessage (tr (sv_env V) ''error.access_denied'' loc)) (w, cm_sends m))))"
  by (rule denied_command_outcome [OF assms])

text \<open>
  An ambiguous command offers every candidate once, those of the plugin the user used last
  first and otherwise by qualified name, and the value of each option is the qualified command.
\<close>
theorem disambiguation_offers_all_candidates:
  assumes "buildDisambiguationMessage E userID now cs loc focus = (focus', msg)"
    "f = (case focus of None \<Rightarrow> '''' | Some ft \<Rightarrow> snd (LastPlugin userID now ft))"
  shows "\<exists>ps txt os. mset ps = mset cs \<and> sorted_wrt (\<lambda>a b. \<not> candidate_less f b a) ps \<and>
    Blocks msg = [TextBlock txt StylePlain, OptionsBlock '''' os] \<and>
    map opt_Value os = map (\<lambda>c. ''/'' @ cc_FQName c) ps"
proof -
  define ps where "ps = sort_candidates f cs"
  have "\<exists>txt os. Blocks msg = [TextBlock txt StylePlain, OptionsBlock '''' os] \<and>
      map opt_Value os = map (\<lambda>c. ''/'' @ cc_FQName c) ps"
    using assms
    by (auto simp: buildDisambiguationMessage_def ps_def mk_option_def comp_def case_prod_beta Let_def
        map_index_zip [of "\<lambda>c. CHR ''/'' # cc_FQName c"] split: option.splits prod.splits)
  then show ?thesis
    using sort_candidates_mset [of f cs] sort_candidates_sorted [of f cs] unfolding ps_def by blast
qed

text \<open>
  Choosing an option of the disambiguation message selects that candidate: the button's data
  is read as a command whose name resolves, without ambiguity, to the command of the candidate's
  plugin (for plugin identifiers that are not empty and have no dot, blank or at-sign).
\<close>
theorem disambiguation_choice_resolves:
  assumes "registry_ok plugins" "name \<noteq> ''''"
    "\<forall>(k, p) \<in> set plugins. k \<noteq> '''' \<and> set k \<inter> {CHR ''.'', CHR '' '', CHR ''@''} = {}"
    "set name \<inter> {CHR '' '', CHR ''@''} = {}"
    "ResolveCommand plugins name = (pid, d, cs)" "c \<in> set cs"
  shows "IsCommand (CallbackInput (''/'' @ cc_FQName c) l i) \<and>
    (\<exists>def p. ResolveCommand plugins (CommandName (CallbackInput (''/'' @ cc_FQName c) l i)) =
       (cc_PluginID c, Some def, []) \<and> map_of plugins (cc_PluginID c) = Some p \<and>
       def \<in> set (pl_Commands p) \<and> cd_Name def = name)"
proof -
  obtain def p where d: "ResolveCommand plugins (cc_FQName c) = (cc_PluginID c, Some def, [])"
    "map_of plugins (cc_PluginID c) = Some p" "def \<in> set (pl_Commands p)" "cd_Name def = name"
    using candidate_resolves [OF assms(1,2) _ assms(5,6)] assms(3) by fastforce
  obtain mt where mt: "mt \<in> set (alias_matches plugins name)" "c = candidate_of mt"
    using ResolveCommand_candidates [OF assms(5,6)] by blast
  then have fq: "cc_FQName c = cc_PluginID c @ ''.'' @ name"
    by (auto simp: candidate_of_def alias_matches_iff)
  have "(cc_PluginID c, p) \<in> set plugins" using d(2) by (rule map_of_SomeD)
  then have "set (cc_PluginID c) \<inter> {CHR ''.'', CHR '' '', CHR ''@''} = {}" using assms(3) by blast
  with assms(4) fq have "CommandName (CallbackInput (''/'' @ cc_FQName c) l i) = cc_FQName c"
    by (intro CommandName_button) auto
  with d show ?thesis by (auto simp: IsCommand_def)
qed

text \<open>
  A chat shows one dialog prompt: after a prompt was sent as a new message, the tracked message
  of the chat is the new one if the channel reported its identifier and none otherwise, so that
  the previous prompt, which was deleted or emptied first, is never edited again; prompts of other
  chats stay tracked.
\<close>
theorem one_tracked_prompt_per_chat:
  assumes "showDialogMessage V ch chat msg False m = (m', e)" "\<not> IsEmpty msg"
  shows "(\<exists>w r. SendToChatGetID (sv_adapters V) ch chat msg (cm_world (retireDialogMessage V ch chat m)) = (w, r) \<and>
      cm_world m' = w \<and>
      cm_lastBotMsgID m' (ch, chat) = (case r of Inr mid \<Rightarrow> if mid = '''' then None else Some mid | Inl _ \<Rightarrow> None) \<and>
      e = (case r of Inl err \<Rightarrow> Some err | Inr _ \<Rightarrow> None)) \<and>
    (\<forall>k. k \<noteq> (ch, chat) \<longrightarrow> cm_lastBotMsgID m' k = cm_lastBotMsgID m k) \<and> cm_state m' = cm_state m"
proof -
  define m2 where "m2 = retireDialogMessage V ch chat m"
  have f: "cm_state m2 = cm_state m" "cm_lastBotMsgID m2 = (cm_lastBotMsgID m)((ch, chat) := None)"
    by (auto simp: m2_def retireDialogMessage_def Let_def fun_eq_iff split: option.splits prod.splits)
  obtain w r where s: "SendToChatGetID (sv_adapters V) ch chat msg (cm_world m2) = (w, r)" by fastforce
  with assms f show ?thesis
    by (cases r) (auto simp: showDialogMessage_def Let_def m2_def [symmetric])
qed

subsection \<open>A concrete instance\<close>

text \<open>
  Services on which the hypotheses above are met: one channel, whose world is the list of texts
  sent, the two plugins of \<open>demo_registry\<close>, an authorizer that refuses user 2, and a blacklist with
  user 3.
\<close>

definition demo_adapter :: "string list adapter" where
  "demo_adapter = \<lparr>ad_Type = ''TELEGRAM'', ad_SendToUser = (\<lambda>u msg w. (w @ [u], None)),
     ad_SendToChat = (\<lambda>c msg w. (w @ [c], None)), ad_SilentSender = None, ad_EditMessage = None,
     ad_SendToChatWithID = None, ad_DeleteMessage = None\<rparr>"

definition demo_user :: "string \<Rightarrow> global_user" where
  "demo_user pid = \<lparr>gu_ID = (if pid = ''two'' then 2 else if pid = ''three'' then 3 else 1),
     gu_PrimaryChannel = ''TELEGRAM'', gu_Locale = ''en'', gu_Role = '''', gu_Accounts = []\<rparr>"

definition demo_services :: "(mem_redis redis_storage, string list) services" where
  "demo_services = \<lparr>sv_FindOrCreateUser = (\<lambda>ch pid name w. (w, Inr (demo_user pid))),
     sv_IsBlocked = Some (\<lambda>uid w. (w, Inr (uid = 3))), sv_FindChatGroupID = None,
     sv_CheckCommand = (\<lambda>uid p c rr w. (w, Inr (uid \<noteq> 2))), sv_plugins = demo_registry,
     sv_handlers = Map.empty, sv_adapters = AR_Register demo_adapter NewAdapterRegistry,
     sv_storage = redis_storage_ops mem_ops, sv_context = demo_ctx, sv_env = demo_env\<rparr>"

definition demo_channels :: "(mem_redis redis_storage, string list) channel_manager" where
  "demo_channels = \<lparr>cm_state = demo_manager, cm_focus = None, cm_lastBotMsgID = Map.empty, cm_world = [],
     cm_sends = None, cm_metrics = None, cm_updates = None\<rparr>"

definition demo_update :: "string \<Rightarrow> update" where
  "demo_update pid = \<lparr>up_ChannelType = ''TELEGRAM'', up_PlatformUserID = pid, up_PlatformUpdateID = ''1'',
     up_Input = TextInput ''/a.x'', up_ChatID = ''chat'', up_Username = ''''\<rparr>"


theorem blacklisted_user_is_ignored_witness:
  "\<exists>m'. OnUpdate demo_services 0 (demo_update ''three'') demo_channels = Some (m', None) \<and> cm_world m' = []"
  using blacklisted_user_is_ignored [of demo_services "demo_update ''three''" demo_channels "[]"
      "demo_user ''three''" "\<lambda>uid w. (w, Inr (uid = 3))" "[]" 0]
  by (auto simp: demo_services_def demo_channels_def demo_update_def demo_user_def)

theorem denied_command_has_no_effect_witness:
  "\<exists>m' e. handleCommand demo_services 0 2 ''TELEGRAM'' (TextInput ''/a.x'') ''chat'' '''' ''en'' demo_channels =
     Some (m', e) \<and> cm_state m' = demo_manager"
proof -
  have r: "ResolveCommand (sv_plugins demo_services) (CommandName (TextInput ''/a.x'')) =
      (''a'', Some (demo_command ''x''), [])"
    by (simp add: demo_services_def demo_registry_eq ResolveCommand_def CommandName_def parseCommandName_def
        TrimPrefix_def demo_plugin_def demo_command_def CMDB_Build_def NewCommand_def)
  have c: "sv_CheckCommand demo_services 2 ''a'' (cd_Name (demo_command ''x''))
      (cd_Requirements (demo_command ''x'')) (cm_world demo_channels) = ([], Inr False)"
    by (simp add: demo_services_def demo_channels_def)
  show ?thesis
    using denied_command_has_no_effect [OF r c, of _ 0 "''TELEGRAM''" "''chat''" "''''" "''en''"]
    by (auto simp: demo_channels_def)
qed

theorem disambiguation_offers_all_candidates_witness:
  "\<exists>(ps :: command_candidate list) txt os. length ps = 2 \<and>
     Blocks (snd (buildDisambiguationMessage demo_env 1 0
       [candidate_of (''b'', demo_command ''x''), candidate_of (''a'', demo_command ''x'')] ''en'' None)) =
     [TextBlock txt StylePlain, OptionsBlock '''' os] \<and> map opt_Value os = map (\<lambda>c. ''/'' @ cc_FQName c) ps"
proof -
  define cs where "cs = [candidate_of (''b'', demo_command ''x''), candidate_of (''a'', demo_command ''x'')]"
  obtain f msg where b: "buildDisambiguationMessage demo_env 1 0 cs ''en'' None = (f, msg)" by fastforce
  from disambiguation_offers_all_candidates [OF b refl]
  obtain ps t os where "mset ps = mset cs" "Blocks msg = [TextBlock t StylePlain, OptionsBlock '''' os]"
    "map opt_Value os = map (\<lambda>c. ''/'' @ cc_FQName c) ps" by auto
  moreover from this(1) have "length ps = 2" using mset_eq_length [of ps cs] by (simp add: cs_def)
  ultimately show ?thesis using b unfolding cs_def [symmetric] by (intro exI [of _ ps] exI [of _ t] exI [of _ os]) simp
qed

theorem disambiguation_choice_resolves_witness:
  "\<exists>def. ResolveCommand demo_registry (CommandName (CallbackInput ''/a.x'' '''' 0)) = (''a'', Some def, [])"
  using disambiguation_choice_resolves [OF _ _ _ _ demo_resolve,
      of "candidate_of (''a'', demo_command ''x'')" "''''" 0]
  by (auto simp: registry_ok_def demo_registry_eq demo_plugin_def candidate_of_def demo_command_def
      CMDB_Build_def NewCommand_def)

theorem one_tracked_prompt_per_chat_witness:
  "\<exists>m' e. showDialogMessage demo_services ''TELEGRAM'' ''chat'' (NewTextMessage ''hi'') False
       (demo_channels\<lparr>cm_lastBotMsgID := [(''TELEGRAM'', ''chat'') \<mapsto> ''17'']\<rparr>) = (m', e) \<and>
     cm_state m' = demo_manager"
proof -
  obtain m' e where s: "showDialogMessage demo_services ''TELEGRAM'' ''chat'' (NewTextMessage ''hi'') False
       (demo_channels\<lparr>cm_lastBotMsgID := [(''TELEGRAM'', ''chat'') \<mapsto> ''17'']\<rparr>) = (m', e)" by fastforce
  with one_tracked_prompt_per_chat [OF s] show ?thesis
    by (simp add: IsEmpty_def NewTextMessage_def demo_channels_def)
qed

end
