(* ===== verification/Notification.thy ===== *)
theory Notification
  imports Channel_Send
begin

text \<open>
  Notifications: \<^verbatim>\<open>internal/notification/notify.go\<close> (delivery by priority, work hours, channel
  choice, the worker that sends delayed messages), the store of delayed messages
  (\<^verbatim>\<open>store.go\<close> as an interface and locale, \<^verbatim>\<open>memory_scheduled_store.go\<close> as its implementation),
  the persisted form of messages (\<^verbatim>\<open>message_codec.go\<close>) and the adapter for plugins
  (\<^verbatim>\<open>wasm_adapter.go\<close>).

  A time zone is the function from an instant to the offset of local time, as the tz database
  gives it; \<^verbatim>\<open>time.LoadLocation\<close> is a partial map from names to zones, a parameter, and so is the
  text of an instant in the layout of the notice. The clock is read once per call.
\<close>

subsection \<open>Local time (package time)\<close>

type_synonym zone = "instant \<Rightarrow> duration"

definition Day :: duration where "Day = 24 * Hour"

definition local_time :: "zone \<Rightarrow> instant \<Rightarrow> int" where
  "local_time z t = t + z t"

definition local_hour :: "zone \<Rightarrow> instant \<Rightarrow> int" where
  "local_hour z t = local_time z t div Hour mod 24"

text \<open>
  \<^verbatim>\<open>time.Date\<close>: the instant of a local time, by the offset in force at the guess that the offset at
  that local time read as universal time gives.
\<close>

definition instant_of_local :: "zone \<Rightarrow> int \<Rightarrow> instant" where
  "instant_of_local z l = l - z (l - z l)"

subsection \<open>Scheduled messages (store.go, memory_scheduled_store.go)\<close>

record scheduled_message =
  sm_ID :: int
  sm_UserID :: user_id
  sm_Msg :: message
  sm_Priority :: int
  sm_SendAt :: instant
  sm_CreatedAt :: instant
  sm_Attempts :: int

record 'q sched_ops =
  sq_Enqueue :: "'q \<Rightarrow> scheduled_message \<Rightarrow> 'q \<times> go_error option"
  sq_ClaimDue :: "'q \<Rightarrow> instant \<Rightarrow> int \<Rightarrow> duration \<Rightarrow> 'q \<times> (go_error + scheduled_message list)"
  sq_Complete :: "'q \<Rightarrow> int \<Rightarrow> 'q \<times> go_error option"
  sq_Reschedule :: "'q \<Rightarrow> int \<Rightarrow> instant \<Rightarrow> go_error option \<Rightarrow> 'q \<times> go_error option"

record memory_row =
  row_msg :: scheduled_message
  row_lockedTill :: "instant option"
  row_lastError :: string

record memory_store =
  ms_nextID :: int
  ms_rows :: "memory_row list"

definition NewMemoryScheduledStore :: memory_store where
  "NewMemoryScheduledStore = \<lparr>ms_nextID = 0, ms_rows = []\<rparr>"

definition Enqueue :: "memory_store \<Rightarrow> scheduled_message \<Rightarrow> memory_store" where
  "Enqueue s msg =
     (if sm_ID msg = 0
      then \<lparr>ms_nextID = ms_nextID s + 1,
            ms_rows = ms_rows s @ [\<lparr>row_msg = msg\<lparr>sm_ID := ms_nextID s + 1\<rparr>, row_lockedTill = None,
                                    row_lastError = ''''\<rparr>]\<rparr>
      else s\<lparr>ms_rows := ms_rows s @ [\<lparr>row_msg = msg, row_lockedTill = None, row_lastError = ''''\<rparr>]\<rparr>)"

text \<open>\<open>None\<close> is the zero time, which is before every instant.\<close>

definition locked_at :: "memory_row \<Rightarrow> instant \<Rightarrow> bool" where
  "locked_at row now = (case row_lockedTill row of None \<Rightarrow> False | Some t \<Rightarrow> t > now)"

definition claimable :: "instant \<Rightarrow> memory_row \<Rightarrow> bool" where
  "claimable now row \<longleftrightarrow> \<not> (sm_SendAt (row_msg row) > now \<or> locked_at row now)"

definition claim_row :: "instant \<Rightarrow> memory_row \<Rightarrow> memory_row" where
  "claim_row lockedTill row =
     row\<lparr>row_lockedTill := Some lockedTill,
         row_msg := (row_msg row)\<lparr>sm_Attempts := sm_Attempts (row_msg row) + 1\<rparr>\<rparr>"

text \<open>The loop of \<^verbatim>\<open>ClaimDue\<close>; \<open>n\<close> is how many messages may still be claimed.\<close>

fun claim_rows ::
    "instant \<Rightarrow> instant \<Rightarrow> nat \<Rightarrow> memory_row list \<Rightarrow> memory_row list \<times> scheduled_message list" where
  "claim_rows now lockedTill n [] = ([], [])"
| "claim_rows now lockedTill 0 (row # rows) = (row # rows, [])"
| "claim_rows now lockedTill (Suc n) (row # rows) =
     (if \<not> claimable now row
      then (case claim_rows now lockedTill (Suc n) rows of (rs, ms) \<Rightarrow> (row # rs, ms))
      else (case claim_rows now lockedTill n rows of
              (rs, ms) \<Rightarrow> (claim_row lockedTill row # rs, row_msg (claim_row lockedTill row) # ms)))"

definition ClaimDue ::
    "memory_store \<Rightarrow> instant \<Rightarrow> int \<Rightarrow> duration \<Rightarrow> memory_store \<times> scheduled_message list" where
  "ClaimDue s now limit lease =
     (if limit \<le> 0 then (s, [])
      else case claim_rows now (now + lease) (nat limit) (ms_rows s) of
             (rs, ms) \<Rightarrow> (s\<lparr>ms_rows := rs\<rparr>, ms))"

fun remove_first :: "int \<Rightarrow> memory_row list \<Rightarrow> memory_row list" where
  "remove_first i [] = []"
| "remove_first i (row # rows) = (if sm_ID (row_msg row) = i then rows else row # remove_first i rows)"

definition Complete :: "memory_store \<Rightarrow> int \<Rightarrow> memory_store" where
  "Complete s i = s\<lparr>ms_rows := remove_first i (ms_rows s)\<rparr>"

fun reschedule_first :: "int \<Rightarrow> instant \<Rightarrow> go_error option \<Rightarrow> memory_row list \<Rightarrow> memory_row list" where
  "reschedule_first i sendAt reason [] = []"
| "reschedule_first i sendAt reason (row # rows) =
     (if sm_ID (row_msg row) = i
      then row\<lparr>row_msg := (row_msg row)\<lparr>sm_SendAt := sendAt\<rparr>, row_lockedTill := None,
               row_lastError := (case reason of None \<Rightarrow> row_lastError row | Some e \<Rightarrow> error_text e)\<rparr> # rows
      else row # reschedule_first i sendAt reason rows)"

definition Reschedule :: "memory_store \<Rightarrow> int \<Rightarrow> instant \<Rightarrow> go_error option \<Rightarrow> memory_store" where
  "Reschedule s i sendAt reason = s\<lparr>ms_rows := reschedule_first i sendAt reason (ms_rows s)\<rparr>"

definition Len :: "memory_store \<Rightarrow> int" where "Len s = int (length (ms_rows s))"

definition Snapshot :: "memory_store \<Rightarrow> scheduled_message list" where
  "Snapshot s = map row_msg (ms_rows s)"

definition memory_sched_ops :: "memory_store sched_ops" where
  "memory_sched_ops =
     \<lparr>sq_Enqueue = (\<lambda>s m. (Enqueue s m, None)),
      sq_ClaimDue = (\<lambda>s now limit lease. case ClaimDue s now limit lease of (s', ms) \<Rightarrow> (s', Inr ms)),
      sq_Complete = (\<lambda>s i. (Complete s i, None)),
      sq_Reschedule = (\<lambda>s i t r. (Reschedule s i t r, None))\<rparr>"

definition MarshalChannelPriority :: "channel_type list \<Rightarrow> string" where
  "MarshalChannelPriority channels = Join channels '',''"

definition UnmarshalChannelPriority :: "string \<Rightarrow> channel_type list" where
  "UnmarshalChannelPriority s =
     (if s = '''' then [] else filter (\<lambda>p. p \<noteq> '''') (map TrimSpace (SplitOn (CHR '','') s)))"

subsection \<open>Persisted messages (message_codec.go)\<close>

text \<open>
  The struct whose JSON form is stored; the zero values of the other fields are those of the
  record's default. Encoding and decoding of the struct itself is package encoding/json.
\<close>

record persisted_block =
  pb_Type :: string
  pb_TextField :: string
  pb_Style :: text_style
  pb_UserID :: string
  pb_Username :: string
  pb_FileRef :: file_ref
  pb_Caption :: string
  pb_URL :: string
  pb_Label :: string
  pb_Prompt :: string
  pb_OptionList :: "option_item list"

definition zero_block :: persisted_block where
  "zero_block = \<lparr>pb_Type = '''', pb_TextField = '''', pb_Style = StylePlain, pb_UserID = '''',
     pb_Username = '''', pb_FileRef = \<lparr>fr_ID = '''', fr_Name = '''', fr_MIMEType = '''', fr_Size = 0,
     fr_FileType = ''''\<rparr>, pb_Caption = '''', pb_URL = '''', pb_Label = '''', pb_Prompt = '''',
     pb_OptionList = []\<rparr>"

fun marshal_block :: "content_block \<Rightarrow> persisted_block" where
  "marshal_block (TextBlock t s) = zero_block\<lparr>pb_Type := ''text'', pb_TextField := t, pb_Style := s\<rparr>"
| "marshal_block (OptionsBlock p os) = zero_block\<lparr>pb_Type := ''options'', pb_Prompt := p, pb_OptionList := os\<rparr>"
| "marshal_block (LinkBlock url label) = zero_block\<lparr>pb_Type := ''link'', pb_URL := url, pb_Label := label\<rparr>"
| "marshal_block (ImageBlock url) = zero_block\<lparr>pb_Type := ''image'', pb_URL := url\<rparr>"
| "marshal_block (MentionBlock u n) = zero_block\<lparr>pb_Type := ''mention'', pb_UserID := u, pb_Username := n\<rparr>"
| "marshal_block (FileBlock r c) = zero_block\<lparr>pb_Type := ''file'', pb_FileRef := r, pb_Caption := c\<rparr>"

definition marshalMessage :: "message \<Rightarrow> persisted_block list" where
  "marshalMessage msg = map marshal_block (Blocks msg)"

definition unmarshal_block :: "persisted_block \<Rightarrow> go_error + content_block" where
  "unmarshal_block b =
     (if pb_Type b = ''text'' then Inr (TextBlock (pb_TextField b) (pb_Style b))
      else if pb_Type b = ''options'' then Inr (OptionsBlock (pb_Prompt b) (pb_OptionList b))
      else if pb_Type b = ''link'' then Inr (LinkBlock (pb_URL b) (pb_Label b))
      else if pb_Type b = ''image'' then Inr (ImageBlock (pb_URL b))
      else if pb_Type b = ''mention'' then Inr (MentionBlock (pb_UserID b) (pb_Username b))
      else if pb_Type b = ''file'' then Inr (FileBlock (pb_FileRef b) (pb_Caption b))
      else Inl (Plain (''notification: unknown persisted message block type '' @
                       quote (pb_Type b))))"

fun unmarshal_blocks :: "persisted_block list \<Rightarrow> go_error + content_block list" where
  "unmarshal_blocks [] = Inr []"
| "unmarshal_blocks (b # bs) =
     (case unmarshal_block b of
        Inl e \<Rightarrow> Inl e
      | Inr c \<Rightarrow> (case unmarshal_blocks bs of Inl e \<Rightarrow> Inl e | Inr cs \<Rightarrow> Inr (c # cs)))"

definition unmarshalMessage :: "persisted_block list \<Rightarrow> go_error + message" where
  "unmarshalMessage bs = map_sum id (\<lambda>cs. \<lparr>Blocks = cs\<rparr>) (unmarshal_blocks bs)"

definition toNotifyPriority :: "int \<Rightarrow> int" where
  "toNotifyPriority p = (if p < PriorityLow then PriorityLow
     else if p > PriorityCritical then PriorityCritical else p)"

subsection \<open>Work hours and delivery choices (notify.go)\<close>

text \<open>The zones that \<^verbatim>\<open>LoadLocation\<close> knows, and the text of an instant for the notice.\<close>

record time_env =
  te_zones :: "string \<rightharpoonup> zone"
  te_format :: "string \<Rightarrow> instant \<Rightarrow> string"

definition notificationLocation :: "time_env \<Rightarrow> notification_prefs \<Rightarrow> zone" where
  "notificationLocation T prefs =
     (if np_Timezone prefs \<noteq> ''''
      then (case te_zones T (np_Timezone prefs) of Some z \<Rightarrow> z | None \<Rightarrow> (\<lambda>_. 0))
      else (\<lambda>_. 0))"

definition retryDelay :: "int \<Rightarrow> duration" where
  "retryDelay attempts =
     (if attempts \<le> 1 then Minute else if attempts \<ge> 6 then Hour else (attempts * attempts) * Minute)"

definition nextWorkTimeAt :: "time_env \<Rightarrow> notification_prefs \<Rightarrow> instant \<Rightarrow> instant" where
  "nextWorkTimeAt T prefs now =
     (let loc = notificationLocation T prefs
      in case np_WorkHoursStart prefs of
           None \<Rightarrow> now + 1 * Minute
         | Some h \<Rightarrow>
             let midnight = local_time loc now div Day * Day;
                 start = instant_of_local loc (midnight + h * Hour)
             in if now < start then start else start + 24 * Hour)"

definition isWithinWorkHoursAt :: "time_env \<Rightarrow> notification_prefs \<Rightarrow> instant \<Rightarrow> bool" where
  "isWithinWorkHoursAt T prefs now =
     (case (np_WorkHoursStart prefs, np_WorkHoursEnd prefs) of
        (Some start, Some end1) \<Rightarrow>
          let hour = local_hour (notificationLocation T prefs) now
          in if start \<le> end1 then hour \<ge> start \<and> hour < end1 else hour \<ge> start \<or> hour < end1
      | _ \<Rightarrow> True)"

definition shouldDelayAt :: "time_env \<Rightarrow> int \<Rightarrow> notification_prefs \<Rightarrow> instant \<Rightarrow> bool" where
  "shouldDelayAt T priority prefs now \<longleftrightarrow>
     priority < PriorityCritical \<and> \<not> isWithinWorkHoursAt T prefs now"

definition defaultPrefs :: "user_id \<Rightarrow> channel_type \<Rightarrow> notification_prefs" where
  "defaultPrefs userID primary =
     \<lparr>np_GlobalUserID = userID, np_ChannelPriority = [primary], np_MuteMentions = False,
      np_WorkHoursStart = None, np_WorkHoursEnd = None, np_Timezone = ''UTC''\<rparr>"

definition buildSendOptions :: "notification_prefs \<Rightarrow> int \<Rightarrow> send_options" where
  "buildSendOptions prefs priority =
     \<lparr>so_Silent = False, so_StripMentions = (np_MuteMentions prefs \<and> priority < PriorityCritical)\<rparr>"

definition accountMap :: "channel_account list \<Rightarrow> channel_type \<rightharpoonup> string" where
  "accountMap accs = fold (\<lambda>acc m. m(ca_ChannelType acc \<mapsto> ca_ChannelUserID acc)) accs Map.empty"

definition resolveChannel :: "global_user \<Rightarrow> notification_prefs \<Rightarrow> channel_type \<times> string" where
  "resolveChannel user prefs =
     (let m = accountMap (gu_Accounts user)
      in case find (\<lambda>ch. m ch \<noteq> None) (np_ChannelPriority prefs) of
           Some ch \<Rightarrow> (ch, the (m ch))
         | None \<Rightarrow>
             (case m (gu_PrimaryChannel user) of
                Some pid \<Rightarrow> (gu_PrimaryChannel user, pid)
              | None \<Rightarrow>
                  (case gu_Accounts user of
                     acc # _ \<Rightarrow> (ca_ChannelType acc, ca_ChannelUserID acc)
                   | [] \<Rightarrow> (gu_PrimaryChannel user, ''''))))"

fun mentions :: "string \<Rightarrow> content_block \<Rightarrow> bool" where
  "mentions uid (MentionBlock u _) = (u = uid)"
| "mentions uid _ = False"

definition maybeInjectMention :: "message \<Rightarrow> string \<Rightarrow> notification_prefs \<Rightarrow> int \<Rightarrow> message" where
  "maybeInjectMention msg platformUserID prefs priority =
     (if priority < PriorityHigh then msg
      else if np_MuteMentions prefs \<and> priority < PriorityCritical then msg
      else if list_ex (mentions platformUserID) (Blocks msg) then msg
      else \<lparr>Blocks = MentionBlock platformUserID '''' # Blocks msg\<rparr>)"

text \<open>The label of the menu button and the notice of a delayed message, in UTF-8.\<close>

definition menu_label :: string where
  "menu_label =
     [CHR 0xF0, CHR 0x9F, CHR 0x8F, CHR 0xA0, CHR 0x20, CHR 0xD0, CHR 0x93, CHR 0xD0, CHR 0xBB,
      CHR 0xD0, CHR 0xB0, CHR 0xD0, CHR 0xB2, CHR 0xD0, CHR 0xBD, CHR 0xD0, CHR 0xBE, CHR 0xD0,
      CHR 0xB5, CHR 0x20, CHR 0xD0, CHR 0xBC, CHR 0xD0, CHR 0xB5, CHR 0xD0, CHR 0xBD, CHR 0xD1,
      CHR 0x8E]"

definition delayed_notice :: string where
  "delayed_notice =
     [CHR 0xD0, CHR 0x9E, CHR 0xD1, CHR 0x82, CHR 0xD0, CHR 0xBB, CHR 0xD0, CHR 0xBE, CHR 0xD0,
      CHR 0xB6, CHR 0xD0, CHR 0xB5, CHR 0xD0, CHR 0xBD, CHR 0xD0, CHR 0xBD, CHR 0xD0, CHR 0xBE,
      CHR 0xD0, CHR 0xB5, CHR 0x20, CHR 0xD1, CHR 0x81, CHR 0xD0, CHR 0xBE, CHR 0xD0, CHR 0xBE,
      CHR 0xD0, CHR 0xB1, CHR 0xD1, CHR 0x89, CHR 0xD0, CHR 0xB5, CHR 0xD0, CHR 0xBD, CHR 0xD0,
      CHR 0xB8, CHR 0xD0, CHR 0xB5, CHR 0x2E, CHR 0x20, CHR 0xD0, CHR 0x9E, CHR 0xD1, CHR 0x82,
      CHR 0xD0, CHR 0xBF, CHR 0xD1, CHR 0x80, CHR 0xD0, CHR 0xB0, CHR 0xD0, CHR 0xB2, CHR 0xD0,
      CHR 0xBB, CHR 0xD0, CHR 0xB5, CHR 0xD0, CHR 0xBD, CHR 0xD0, CHR 0xBE, CHR 0x20, CHR 0xD0,
      CHR 0xBF, CHR 0xD0, CHR 0xBE, CHR 0xD0, CHR 0xBB, CHR 0xD1, CHR 0x8C, CHR 0xD0, CHR 0xB7,
      CHR 0xD0, CHR 0xBE, CHR 0xD0, CHR 0xB2, CHR 0xD0, CHR 0xB0, CHR 0xD1, CHR 0x82, CHR 0xD0,
      CHR 0xB5, CHR 0xD0, CHR 0xBB, CHR 0xD0, CHR 0xB5, CHR 0xD0, CHR 0xBC, CHR 0x3A, CHR 0x20]"

definition injectMenuButton :: "string \<Rightarrow> message \<Rightarrow> message" where
  "injectMenuButton menuCommand msg =
     (if menuCommand = '''' \<or> list_ex is_OptionsBlock (Blocks msg) then msg
      else \<lparr>Blocks = Blocks msg @ [OptionsBlock '''' [mk_option menu_label menuCommand]]\<rparr>)"

definition addScheduledNotice ::
    "time_env \<Rightarrow> message \<Rightarrow> instant \<Rightarrow> notification_prefs \<Rightarrow> message" where
  "addScheduledNotice T msg createdAt prefs =
     \<lparr>Blocks = TextBlock (delayed_notice @ te_format T (np_Timezone prefs) createdAt) StyleQuote # Blocks msg\<rparr>"

subsection \<open>Delivery (notify.go)\<close>

record ('q, 'w) notify_api =
  na_adapters :: "'w adapter_registry"
  na_context :: "'w call_context"
  na_users :: "'w user_lookup"
  na_prefs :: "user_id \<Rightarrow> 'w \<Rightarrow> 'w \<times> (go_error + notification_prefs option)"
  na_students :: "string \<Rightarrow> int \<Rightarrow> 'w \<Rightarrow> 'w \<times> (go_error + user_id list)"
  na_teachers :: "(int \<times> int \<times> string \<Rightarrow> 'w \<Rightarrow> 'w \<times> (go_error + user_id)) option"
  na_scheduled :: "'q sched_ops"
  na_workerInterval :: duration
  na_claimLimit :: int
  na_claimLease :: duration
  na_menuCommand :: string
  na_time :: time_env

record ('q, 'w) notify_state =
  ns_queue :: 'q
  ns_world :: 'w
  ns_sends :: "send_metric list option"

type_synonym ('q, 'w) notify_op = "('q, 'w) notify_state \<Rightarrow> ('q, 'w) notify_state \<times> go_error option"

definition notify_send ::
    "('q, 'w) notify_api \<Rightarrow> channel_type \<Rightarrow> string \<Rightarrow> message \<Rightarrow> send_options \<Rightarrow> ('q, 'w) notify_op" where
  "notify_send N ch pid msg opts s =
     (case SendToUserWithOpts (na_context N) (na_adapters N) ch pid msg opts (ns_world s, ns_sends s) of
        ((w, ms), e) \<Rightarrow> (s\<lparr>ns_world := w, ns_sends := ms\<rparr>, e))"

fun send_all_accounts ::
    "('q, 'w) notify_api \<Rightarrow> message \<Rightarrow> int \<Rightarrow> notification_prefs \<Rightarrow> send_options \<Rightarrow> channel_account list \<Rightarrow>
     ('q, 'w) notify_state \<Rightarrow> ('q, 'w) notify_state" where
  "send_all_accounts N msg priority prefs opts [] s = s"
| "send_all_accounts N msg priority prefs opts (acc # accs) s =
     send_all_accounts N msg priority prefs opts accs
       (fst (notify_send N (ca_ChannelType acc) (ca_ChannelUserID acc)
          (maybeInjectMention msg (ca_ChannelUserID acc) prefs priority) opts s))"

definition notify_sendToUser ::
    "('q, 'w) notify_api \<Rightarrow> global_user \<Rightarrow> message \<Rightarrow> int \<Rightarrow> notification_prefs \<Rightarrow> send_options \<Rightarrow>
     ('q, 'w) notify_op" where
  "notify_sendToUser N user msg0 priority prefs opts s =
     (let msg = injectMenuButton (na_menuCommand N) msg0
      in if priority = PriorityCritical
         then (send_all_accounts N msg priority prefs opts (gu_Accounts user) s, None)
         else case resolveChannel user prefs of
                (ch, pid) \<Rightarrow> notify_send N ch pid (maybeInjectMention msg pid prefs priority) opts s)"

definition schedule ::
    "('q, 'w) notify_api \<Rightarrow> instant \<Rightarrow> user_id \<Rightarrow> message \<Rightarrow> int \<Rightarrow> notification_prefs \<Rightarrow> ('q, 'w) notify_op" where
  "schedule N now userID msg priority prefs s =
     (case sq_Enqueue (na_scheduled N) (ns_queue s)
             \<lparr>sm_ID = 0, sm_UserID = userID, sm_Msg = msg, sm_Priority = priority,
              sm_SendAt = nextWorkTimeAt (na_time N) prefs now, sm_CreatedAt = now, sm_Attempts = 0\<rparr> of
        (q, e) \<Rightarrow> (s\<lparr>ns_queue := q\<rparr>, e))"

text \<open>
  \<^verbatim>\<open>fmt.Errorf("user not found: %w", err)\<close>, where \<^verbatim>\<open>err\<close> may be \<^verbatim>\<open>nil\<close>.
\<close>

definition user_not_found :: "go_error option \<Rightarrow> go_error" where
  "user_not_found e = (case e of Some err \<Rightarrow> Wrap ''user not found: '' err ''''
                       | None \<Rightarrow> Plain ''user not found: %!w(<nil>)'')"

text \<open>Looking up the user and the preferences, with the default for a user without any.\<close>

definition lookup_recipient ::
    "('q, 'w) notify_api \<Rightarrow> user_id \<Rightarrow> 'w \<Rightarrow> 'w \<times> (go_error + global_user \<times> notification_prefs)" where
  "lookup_recipient N userID w =
     (case na_users N userID w of
        (w1, Inl err) \<Rightarrow> (w1, Inl (user_not_found (Some err)))
      | (w1, Inr None) \<Rightarrow> (w1, Inl (user_not_found None))
      | (w1, Inr (Some user)) \<Rightarrow>
          (case na_prefs N userID w1 of
             (w2, Inl err) \<Rightarrow> (w2, Inl err)
           | (w2, Inr None) \<Rightarrow> (w2, Inr (user, defaultPrefs userID (gu_PrimaryChannel user)))
           | (w2, Inr (Some prefs)) \<Rightarrow> (w2, Inr (user, prefs))))"

definition deliverUser ::
    "('q, 'w) notify_api \<Rightarrow> instant \<Rightarrow> user_id \<Rightarrow> message \<Rightarrow> int \<Rightarrow> instant option \<Rightarrow> bool \<Rightarrow> ('q, 'w) notify_op" where
  "deliverUser N now userID msg priority scheduledAt allowDelay s =
     (case lookup_recipient N userID (ns_world s) of
        (w, Inl err) \<Rightarrow> (s\<lparr>ns_world := w\<rparr>, Some err)
      | (w, Inr (user, prefs)) \<Rightarrow>
          let s1 = s\<lparr>ns_world := w\<rparr>
          in if allowDelay \<and> shouldDelayAt (na_time N) priority prefs now
             then schedule N now userID msg priority prefs s1
             else let opts = buildSendOptions prefs priority;
                      msg = (case scheduledAt of None \<Rightarrow> msg
                             | Some t0 \<Rightarrow> addScheduledNotice (na_time N) msg t0 prefs)
                  in notify_sendToUser N user msg priority prefs opts s1)"

definition NotifyUser ::
    "('q, 'w) notify_api \<Rightarrow> instant \<Rightarrow> user_id \<Rightarrow> message \<Rightarrow> int \<Rightarrow> ('q, 'w) notify_op" where
  "NotifyUser N now userID msg priority = deliverUser N now userID msg priority None True"

fun notify_each ::
    "('q, 'w) notify_api \<Rightarrow> instant \<Rightarrow> message \<Rightarrow> int \<Rightarrow> user_id list \<Rightarrow> ('q, 'w) notify_state \<Rightarrow>
     ('q, 'w) notify_state \<times> go_error list" where
  "notify_each N now msg priority [] s = (s, [])"
| "notify_each N now msg priority (u # us) s =
     (case NotifyUser N now u msg priority s of
        (s1, e) \<Rightarrow>
          (case notify_each N now msg priority us s1 of
             (s2, es) \<Rightarrow> (s2, (case e of None \<Rightarrow> es
                | Some err \<Rightarrow> Wrap (''user '' @ FormatInt u @ '': '') err '''' # es))))"

definition NotifyUsers ::
    "('q, 'w) notify_api \<Rightarrow> instant \<Rightarrow> user_id list \<Rightarrow> message \<Rightarrow> int \<Rightarrow> ('q, 'w) notify_op" where
  "NotifyUsers N now userIDs msg priority s =
     (case notify_each N now msg priority userIDs s of
        (s1, errs) \<Rightarrow>
          (s1, if length errs > 0
               then Some (Wrap (''notify: direct user broadcast failed on '' @
                      FormatInt (int (length errs)) @ ''/'' @ FormatInt (int (length userIDs)) @ '' users: '')
                      (Joined errs) '''')
               else None))"

definition NotifyChat ::
    "('q, 'w) notify_api \<Rightarrow> channel_type \<Rightarrow> string \<Rightarrow> message \<Rightarrow> int \<Rightarrow> ('q, 'w) notify_op" where
  "NotifyChat N ch chatID msg priority s =
     (case SendToChatWithOpts (na_context N) (na_adapters N) ch chatID msg
             \<lparr>so_Silent = False, so_StripMentions = False\<rparr> (ns_world s, ns_sends s) of
        ((w, ms), e) \<Rightarrow> (s\<lparr>ns_world := w, ns_sends := ms\<rparr>, e))"

definition NotifyStudents ::
    "('q, 'w) notify_api \<Rightarrow> instant \<Rightarrow> string \<Rightarrow> int \<Rightarrow> message \<Rightarrow> int \<Rightarrow> ('q, 'w) notify_op" where
  "NotifyStudents N now scope targetID msg priority s =
     (let tag = scope @ ''/'' @ FormatInt targetID
      in case na_students N scope targetID (ns_world s) of
           (w, Inl err) \<Rightarrow>
             (s\<lparr>ns_world := w\<rparr>, Some (Wrap (''notify: resolve students for '' @ tag @ '': '') err ''''))
         | (w, Inr userIDs) \<Rightarrow>
             (case NotifyUsers N now userIDs msg priority (s\<lparr>ns_world := w\<rparr>) of
                (s1, None) \<Rightarrow> (s1, None)
              | (s1, Some err) \<Rightarrow>
                  (s1, Some (Wrap (''notify: students '' @ tag @ '' broadcast failed: '') err ''''))))"

definition NotifyTeacher ::
    "('q, 'w) notify_api \<Rightarrow> instant \<Rightarrow> int \<times> int \<times> string \<Rightarrow> message \<Rightarrow> int \<Rightarrow> ('q, 'w) notify_op" where
  "NotifyTeacher N now ref msg priority s =
     (case na_teachers N of
        None \<Rightarrow> (s, Some (Plain ''notify: teacher resolver is not configured''))
      | Some resolve \<Rightarrow>
          (case resolve ref (ns_world s) of
             (w, Inl err) \<Rightarrow> (s\<lparr>ns_world := w\<rparr>, Some (Wrap ''notify: resolve teacher recipient: '' err ''''))
           | (w, Inr userID) \<Rightarrow> NotifyUser N now userID msg priority (s\<lparr>ns_world := w\<rparr>)))"

subsection \<open>The worker (notify.go)\<close>

definition rescheduleAfterFailure ::
    "('q, 'w) notify_api \<Rightarrow> instant \<Rightarrow> scheduled_message \<Rightarrow> go_error \<Rightarrow> ('q, 'w) notify_state \<Rightarrow>
     ('q, 'w) notify_state" where
  "rescheduleAfterFailure N now m cause s =
     s\<lparr>ns_queue := fst (sq_Reschedule (na_scheduled N) (ns_queue s) (sm_ID m)
                          (now + retryDelay (sm_Attempts m)) (Some cause))\<rparr>"

definition processScheduled ::
    "('q, 'w) notify_api \<Rightarrow> instant \<Rightarrow> scheduled_message \<Rightarrow> ('q, 'w) notify_state \<Rightarrow> ('q, 'w) notify_state" where
  "processScheduled N now m s =
     (case lookup_recipient N (sm_UserID m) (ns_world s) of
        (w, Inl err) \<Rightarrow> rescheduleAfterFailure N now m err (s\<lparr>ns_world := w\<rparr>)
      | (w, Inr (user, prefs)) \<Rightarrow>
          let s1 = s\<lparr>ns_world := w\<rparr>
          in if shouldDelayAt (na_time N) (sm_Priority m) prefs now
             then s1\<lparr>ns_queue := fst (sq_Reschedule (na_scheduled N) (ns_queue s1) (sm_ID m)
                       (nextWorkTimeAt (na_time N) prefs now) None)\<rparr>
             else let msg = addScheduledNotice (na_time N) (sm_Msg m) (sm_CreatedAt m) prefs;
                      opts = buildSendOptions prefs (sm_Priority m)
                  in case notify_sendToUser N user msg (sm_Priority m) prefs opts s1 of
                       (s2, Some err) \<Rightarrow> rescheduleAfterFailure N now m err s2
                     | (s2, None) \<Rightarrow>
                         s2\<lparr>ns_queue := fst (sq_Complete (na_scheduled N) (ns_queue s2) (sm_ID m))\<rparr>)"

definition process :: "('q, 'w) notify_api \<Rightarrow> instant \<Rightarrow> ('q, 'w) notify_state \<Rightarrow> ('q, 'w) notify_state" where
  "process N now s =
     (case sq_ClaimDue (na_scheduled N) (ns_queue s) now (na_claimLimit N) (na_claimLease N) of
        (q, Inl err) \<Rightarrow> s\<lparr>ns_queue := q\<rparr>
      | (q, Inr messages) \<Rightarrow> fold (processScheduled N now) messages (s\<lparr>ns_queue := q\<rparr>))"

subsection \<open>The adapter for plugins (wasm_adapter.go)\<close>

definition WasmNotifier_NotifyUser ::
    "('q, 'w) notify_api \<Rightarrow> instant \<Rightarrow> int \<Rightarrow> string \<Rightarrow> int \<Rightarrow> ('q, 'w) notify_op" where
  "WasmNotifier_NotifyUser N now userID msgText priority =
     NotifyUser N now userID (NewTextMessage msgText) priority"

definition WasmNotifier_NotifyChat ::
    "('q, 'w) notify_api \<Rightarrow> string \<Rightarrow> string \<Rightarrow> string \<Rightarrow> int \<Rightarrow> ('q, 'w) notify_op" where
  "WasmNotifier_NotifyChat N ch chatID msgText priority =
     NotifyChat N ch chatID (NewTextMessage msgText) priority"

definition WasmNotifier_NotifyUsers ::
    "('q, 'w) notify_api \<Rightarrow> instant \<Rightarrow> int list \<Rightarrow> message \<Rightarrow> int \<Rightarrow> ('q, 'w) notify_op" where
  "WasmNotifier_NotifyUsers N now userIDs msg priority = NotifyUsers N now userIDs msg priority"

definition WasmNotifier_NotifyTeacher ::
    "('q, 'w) notify_api \<Rightarrow> instant \<Rightarrow> int \<times> int \<times> string \<Rightarrow> message \<Rightarrow> int \<Rightarrow> ('q, 'w) notify_op" where
  "WasmNotifier_NotifyTeacher N now ref msg priority = NotifyTeacher N now ref msg priority"

definition WasmNotifier_NotifyStudents ::
    "('q, 'w) notify_api \<Rightarrow> instant \<Rightarrow> string \<Rightarrow> int \<Rightarrow> message \<Rightarrow> int \<Rightarrow> ('q, 'w) notify_op" where
  "WasmNotifier_NotifyStudents N now scope targetID msg priority =
     NotifyStudents N now scope targetID msg priority"

text \<open>The worker at the ticks of its timer, until its context is done.\<close>

definition startWorker ::
    "('q, 'w) notify_api \<Rightarrow> instant list \<Rightarrow> ('q, 'w) notify_state \<Rightarrow> ('q, 'w) notify_state" where
  "startWorker N ticks s = fold (process N) ticks s"

definition NewNotifyAPI ::
    "'w adapter_registry \<Rightarrow> 'w call_context \<Rightarrow> 'w user_lookup \<Rightarrow>
     (user_id \<Rightarrow> 'w \<Rightarrow> 'w \<times> (go_error + notification_prefs option)) \<Rightarrow>
     (string \<Rightarrow> int \<Rightarrow> 'w \<Rightarrow> 'w \<times> (go_error + user_id list)) \<Rightarrow> 'q sched_ops \<Rightarrow> time_env \<Rightarrow>
     ('q, 'w) notify_api" where
  "NewNotifyAPI adapters ctx users prefs students scheduled T =
     \<lparr>na_adapters = adapters, na_context = ctx, na_users = users, na_prefs = prefs,
      na_students = students, na_teachers = None, na_scheduled = scheduled,
      na_workerInterval = Minute, na_claimLimit = 100,
      na_claimLease = 5 * Minute, na_menuCommand = '''', na_time = T\<rparr>"

definition SetTeacherResolver ::
    "(int \<times> int \<times> string \<Rightarrow> 'w \<Rightarrow> 'w \<times> (go_error + user_id)) option \<Rightarrow> ('q, 'w) notify_api \<Rightarrow>
     ('q, 'w) notify_api" where
  "SetTeacherResolver r N = N\<lparr>na_teachers := r\<rparr>"

definition WithMenuCommand :: "string \<Rightarrow> ('q, 'w) notify_api \<Rightarrow> ('q, 'w) notify_api" where
  "WithMenuCommand cmd N = N\<lparr>na_menuCommand := cmd\<rparr>"

subsection \<open>The contract of a store of delayed messages\<close>

text \<open>
  What \<^verbatim>\<open>NotifyAPI\<close> relies on: \<open>content q\<close> gives the message stored under an identifier, \<open>valid q\<close> is
  the store's own invariant. A claim changes no more than the attempts of messages; completing and
  rescheduling touch only the identifier they name, and only a completed message goes away.
\<close>

definition same_message :: "scheduled_message \<Rightarrow> scheduled_message \<Rightarrow> bool" where
  "same_message m m' \<longleftrightarrow> sm_ID m = sm_ID m' \<and> sm_UserID m = sm_UserID m' \<and> sm_Msg m = sm_Msg m' \<and>
     sm_Priority m = sm_Priority m' \<and> sm_CreatedAt m = sm_CreatedAt m'"

lemma same_message_refl [simp]: "same_message m m"
  by (simp add: same_message_def)

lemma same_message_trans [trans]: "same_message a b \<Longrightarrow> same_message b c \<Longrightarrow> same_message a c"
  by (simp add: same_message_def)

definition kept :: "(int \<rightharpoonup> scheduled_message) \<Rightarrow> (int \<rightharpoonup> scheduled_message) \<Rightarrow> int \<Rightarrow> bool" where
  "kept c c' i \<longleftrightarrow> rel_option same_message (c i) (c' i)"

lemma kept_refl [simp]: "kept c c i"
  by (cases "c i") (simp_all add: kept_def)

lemma kept_trans [trans]: "kept a b i \<Longrightarrow> kept b c i \<Longrightarrow> kept a c i"
  by (cases "a i"; cases "b i"; cases "c i") (auto simp: kept_def intro: same_message_trans)

lemma kept_None: "kept a b i \<Longrightarrow> b i = None \<longleftrightarrow> a i = None"
  by (auto simp: kept_def)

locale scheduled_store =
  fixes Q :: "'q sched_ops"
    and valid :: "'q \<Rightarrow> bool"
    and content :: "'q \<Rightarrow> int \<rightharpoonup> scheduled_message"
  assumes enqueue: "valid q \<Longrightarrow> sm_ID m = 0 \<Longrightarrow> sq_Enqueue Q q m = (q', None) \<Longrightarrow>
      valid q' \<and> (\<exists>i. content q i = None \<and> content q' = (content q)(i \<mapsto> m\<lparr>sm_ID := i\<rparr>))"
    and claim_keeps: "valid q \<Longrightarrow> sq_ClaimDue Q q now limit lease = (q', r) \<Longrightarrow>
      valid q' \<and> kept (content q) (content q') i"
    and claim_due: "valid q \<Longrightarrow> sq_ClaimDue Q q now limit lease = (q', Inr ms) \<Longrightarrow>
      distinct (map sm_ID ms) \<and> (\<forall>m \<in> set ms. content q' (sm_ID m) = Some m \<and> sm_SendAt m \<le> now)"
    and complete_only: "valid q \<Longrightarrow> sq_Complete Q q i = (q', e) \<Longrightarrow>
      valid q' \<and> (j \<noteq> i \<longrightarrow> kept (content q) (content q') j) \<and>
      (content q' i = None \<or> kept (content q) (content q') i)"
    and reschedule_keeps: "valid q \<Longrightarrow> sq_Reschedule Q q i t reason = (q', e) \<Longrightarrow>
      valid q' \<and> kept (content q) (content q') j"

text \<open>A store whose \<^verbatim>\<open>Complete\<close> always removes the message.\<close>

locale reliable_scheduled_store = scheduled_store +
  assumes complete_removes: "valid q \<Longrightarrow> content (fst (sq_Complete Q q i)) i = None"

text \<open>
  Whether the worker hands the message to the recipient's adapters without an error, and the
  identifiers of the messages it so delivers in one round.
\<close>

definition delivers :: "('q, 'w) notify_api \<Rightarrow> instant \<Rightarrow> scheduled_message \<Rightarrow> ('q, 'w) notify_state \<Rightarrow> bool" where
  "delivers N now m s =
     (case lookup_recipient N (sm_UserID m) (ns_world s) of
        (w, Inl err) \<Rightarrow> False
      | (w, Inr (user, prefs)) \<Rightarrow>
          \<not> shouldDelayAt (na_time N) (sm_Priority m) prefs now \<and>
          snd (notify_sendToUser N user (addScheduledNotice (na_time N) (sm_Msg m) (sm_CreatedAt m) prefs)
                 (sm_Priority m) prefs (buildSendOptions prefs (sm_Priority m)) (s\<lparr>ns_world := w\<rparr>)) = None)"

fun delivered_in ::
    "('q, 'w) notify_api \<Rightarrow> instant \<Rightarrow> scheduled_message list \<Rightarrow> ('q, 'w) notify_state \<Rightarrow> int set" where
  "delivered_in N now [] s = {}"
| "delivered_in N now (m # ms) s =
     (if delivers N now m s then {sm_ID m} else {}) \<union> delivered_in N now ms (processScheduled N now m s)"

definition delivered_by_process :: "('q, 'w) notify_api \<Rightarrow> instant \<Rightarrow> ('q, 'w) notify_state \<Rightarrow> int set" where
  "delivered_by_process N now s =
     (case sq_ClaimDue (na_scheduled N) (ns_queue s) now (na_claimLimit N) (na_claimLease N) of
        (q, Inl err) \<Rightarrow> {}
      | (q, Inr ms) \<Rightarrow> delivered_in N now ms (s\<lparr>ns_queue := q\<rparr>))"

fun delivered_by_worker :: "('q, 'w) notify_api \<Rightarrow> instant list \<Rightarrow> ('q, 'w) notify_state \<Rightarrow> int set" where
  "delivered_by_worker N [] s = {}"
| "delivered_by_worker N (t # ts) s =
     delivered_by_process N t s \<union> delivered_by_worker N ts (process N t s)"

text \<open>Sending leaves the queue alone.\<close>

lemma notify_send_queue [simp]: "ns_queue (fst (notify_send N ch pid msg opts s)) = ns_queue s"
  by (simp add: notify_send_def split: prod.split)

lemma send_all_accounts_queue [simp]:
  "ns_queue (send_all_accounts N msg priority prefs opts accs s) = ns_queue s"
  by (induction accs arbitrary: s) simp_all

lemma notify_sendToUser_queue [simp]:
  "ns_queue (fst (notify_sendToUser N user msg priority prefs opts s)) = ns_queue s"
  by (simp add: notify_sendToUser_def Let_def split: prod.split)

text \<open>The queue after the worker has handled one message.\<close>

lemma processScheduled_queue:
  "ns_queue (processScheduled N now m s) =
     fst (sq_Complete (na_scheduled N) (ns_queue s) (sm_ID m)) \<and> delivers N now m s \<or>
   (\<exists>t r. ns_queue (processScheduled N now m s) =
     fst (sq_Reschedule (na_scheduled N) (ns_queue s) (sm_ID m) t r)) \<and> \<not> delivers N now m s"
proof (cases "lookup_recipient N (sm_UserID m) (ns_world s)")
  case (Pair w r)
  show ?thesis
  proof (cases r)
    case (Inl err)
    then show ?thesis
      by (auto simp: processScheduled_def delivers_def rescheduleAfterFailure_def Pair)
  next
    case (Inr up)
    obtain user prefs where up: "up = (user, prefs)" by fastforce
    let ?send = "notify_sendToUser N user (addScheduledNotice (na_time N) (sm_Msg m) (sm_CreatedAt m) prefs)
                   (sm_Priority m) prefs (buildSendOptions prefs (sm_Priority m)) (s\<lparr>ns_world := w\<rparr>)"
    have q: "ns_queue (fst ?send) = ns_queue s" by simp
    show ?thesis
      using q
      by (cases ?send)
        (auto simp: processScheduled_def delivers_def rescheduleAfterFailure_def Pair Inr up Let_def
          split: option.split)
  qed
qed


context scheduled_store
begin

lemma processScheduled_keeps:
  assumes "valid (ns_queue s)" and "na_scheduled N = Q"
  shows "valid (ns_queue (processScheduled N now m s))"
    and "i \<noteq> sm_ID m \<or> \<not> delivers N now m s \<Longrightarrow>
         kept (content (ns_queue s)) (content (ns_queue (processScheduled N now m s))) i"
  using processScheduled_queue [of N now m s]
    complete_only [OF assms(1), of "sm_ID m" _ _ i, OF surjective_pairing]
    reschedule_keeps [OF assms(1), of "sm_ID m" _ _ _ _ i, OF surjective_pairing]
  by (auto simp: assms(2))

lemma fold_processScheduled_keeps:
  assumes "valid (ns_queue s)" and "na_scheduled N = Q"
  shows "valid (ns_queue (fold (processScheduled N now) ms s))"
    and "i \<notin> delivered_in N now ms s \<Longrightarrow>
         kept (content (ns_queue s)) (content (ns_queue (fold (processScheduled N now) ms s))) i"
  using assms
proof (induction ms arbitrary: s)
  case (Cons m ms)
  { case 1 then show ?case using Cons.IH(1) by (simp add: processScheduled_keeps(1))
  next
    case 2
    have one: "kept (content (ns_queue s)) (content (ns_queue (processScheduled N now m s))) i"
      using 2 by (intro processScheduled_keeps(2)) (auto split: if_splits)
    have rest: "kept (content (ns_queue (processScheduled N now m s)))
        (content (ns_queue (fold (processScheduled N now) (m # ms) s))) i"
      using 2 Cons.IH(2) by (simp add: processScheduled_keeps(1))
    show ?case using kept_trans [OF one rest] .
  }
qed simp_all

text \<open>A round of the worker loses no message that it does not deliver.\<close>

lemma process_keeps:
  assumes "valid (ns_queue s)" and "na_scheduled N = Q"
  shows "valid (ns_queue (process N now s))"
    and "i \<notin> delivered_by_process N now s \<Longrightarrow>
         kept (content (ns_queue s)) (content (ns_queue (process N now s))) i"
proof -
  obtain q r where claim: "sq_ClaimDue Q (ns_queue s) now (na_claimLimit N) (na_claimLease N) = (q, r)"
    by fastforce
  have q: "valid q" "kept (content (ns_queue s)) (content q) i" for i
    using claim_keeps [OF assms(1) claim] by auto
  show "valid (ns_queue (process N now s))"
    using q(1) fold_processScheduled_keeps(1) [of "s\<lparr>ns_queue := q\<rparr>"] assms(2)
    by (simp add: process_def claim split: sum.split)
  show "kept (content (ns_queue s)) (content (ns_queue (process N now s))) i"
    if "i \<notin> delivered_by_process N now s"
  proof (cases r)
    case (Inl e)
    then show ?thesis using q(2) assms(2) by (simp add: process_def claim)
  next
    case (Inr ms)
    then have "i \<notin> delivered_in N now ms (s\<lparr>ns_queue := q\<rparr>)"
      using that assms(2) by (simp add: delivered_by_process_def claim)
    then have "kept (content q) (content (ns_queue (process N now s))) i"
      using fold_processScheduled_keeps(2) [of "s\<lparr>ns_queue := q\<rparr>"] q(1) assms(2) Inr
      by (simp add: process_def claim)
    with q(2) show ?thesis by (rule kept_trans)
  qed
qed

lemma worker_keeps:
  assumes "valid (ns_queue s)" and "na_scheduled N = Q" and "i \<notin> delivered_by_worker N ticks s"
  shows "kept (content (ns_queue s)) (content (ns_queue (startWorker N ticks s))) i"
  using assms
proof (induction ticks arbitrary: s)
  case (Cons t ts)
  have "kept (content (ns_queue s)) (content (ns_queue (process N t s))) i"
    using Cons.prems by (simp add: process_keeps(2))
  moreover have "kept (content (ns_queue (process N t s))) (content (ns_queue (startWorker N (t # ts) s))) i"
    using Cons.IH [of "process N t s"] Cons.prems by (simp add: startWorker_def process_keeps(1))
  ultimately show ?case by (rule kept_trans)
qed (simp add: startWorker_def)

lemma worker_valid:
  "valid (ns_queue s) \<Longrightarrow> na_scheduled N = Q \<Longrightarrow> valid (ns_queue (startWorker N ticks s))"
  by (induction ticks arbitrary: s) (simp_all add: startWorker_def process_keeps(1))

end

context reliable_scheduled_store
begin

lemma delivered_is_removed:
  assumes "valid (ns_queue s)" and "na_scheduled N = Q" and "delivers N now m s"
  shows "content (ns_queue (processScheduled N now m s)) (sm_ID m) = None"
  using processScheduled_queue [of N now m s] complete_removes [OF assms(1)] assms(2,3) by auto

lemma None_stays_None:
  assumes "valid (ns_queue s)" and "na_scheduled N = Q" and "content (ns_queue s) i = None"
  shows "content (ns_queue (processScheduled N now m s)) i = None"
proof (cases "i = sm_ID m \<and> delivers N now m s")
  case True
  then show ?thesis using delivered_is_removed [OF assms(1,2)] by simp
next
  case False
  then have "kept (content (ns_queue s)) (content (ns_queue (processScheduled N now m s))) i"
    using processScheduled_keeps(2) [OF assms(1,2)] by blast
  with assms(3) show ?thesis by (simp add: kept_None)
qed

lemma fold_None_stays_None:
  "valid (ns_queue s) \<Longrightarrow> na_scheduled N = Q \<Longrightarrow> content (ns_queue s) i = None \<Longrightarrow>
   content (ns_queue (fold (processScheduled N now) ms s)) i = None"
  by (induction ms arbitrary: s) (simp_all add: None_stays_None processScheduled_keeps(1))

lemma fold_delivered_removed:
  "valid (ns_queue s) \<Longrightarrow> na_scheduled N = Q \<Longrightarrow> i \<in> delivered_in N now ms s \<Longrightarrow>
   content (ns_queue (fold (processScheduled N now) ms s)) i = None"
  by (induction ms arbitrary: s)
    (auto simp: delivered_is_removed processScheduled_keeps(1) fold_None_stays_None split: if_splits)

text \<open>What a round leaves is exactly what was pending less what it delivered.\<close>

lemma process_pending:
  assumes "valid (ns_queue s)" and "na_scheduled N = Q"
  shows "dom (content (ns_queue (process N now s))) =
         dom (content (ns_queue s)) - delivered_by_process N now s"
proof -
  obtain q r where claim: "sq_ClaimDue Q (ns_queue s) now (na_claimLimit N) (na_claimLease N) = (q, r)"
    by fastforce
  have "content (ns_queue (process N now s)) i = None" if "i \<in> delivered_by_process N now s" for i
    using that claim_keeps [OF assms(1) claim] fold_delivered_removed [of "s\<lparr>ns_queue := q\<rparr>" N i now] assms(2)
    by (auto simp: delivered_by_process_def process_def claim split: sum.splits)
  moreover have "content (ns_queue (process N now s)) i = None \<longleftrightarrow> content (ns_queue s) i = None"
    if "i \<notin> delivered_by_process N now s" for i
    using kept_None process_keeps(2) [OF assms that] .
  ultimately show ?thesis by (intro set_eqI) (metis Diff_iff domIff)
qed

lemma worker_pending:
  "valid (ns_queue s) \<Longrightarrow> na_scheduled N = Q \<Longrightarrow>
   dom (content (ns_queue (startWorker N ticks s))) =
   dom (content (ns_queue s)) - delivered_by_worker N ticks s"
  by (induction ticks arbitrary: s) (auto simp: startWorker_def process_pending process_keeps(1))

end

subsection \<open>The memory store keeps the contract\<close>

definition row_ids :: "memory_row list \<Rightarrow> int list" where
  "row_ids rows = map (\<lambda>r. sm_ID (row_msg r)) rows"

definition rows_content :: "memory_row list \<Rightarrow> int \<rightharpoonup> scheduled_message" where
  "rows_content rows = map_of (map (\<lambda>r. (sm_ID (row_msg r), row_msg r)) rows)"

text \<open>Identifiers are distinct and were handed out by the counter.\<close>

definition memory_valid :: "memory_store \<Rightarrow> bool" where
  "memory_valid s \<longleftrightarrow> distinct (row_ids (ms_rows s)) \<and> (\<forall>i \<in> set (row_ids (ms_rows s)). 0 < i \<and> i \<le> ms_nextID s) \<and>
     0 \<le> ms_nextID s"

definition memory_content :: "memory_store \<Rightarrow> int \<rightharpoonup> scheduled_message" where
  "memory_content s = rows_content (ms_rows s)"

lemma row_ids_simps [simp]:
  "row_ids [] = []" "row_ids (r # rs) = sm_ID (row_msg r) # row_ids rs" "row_ids (rs @ rs') = row_ids rs @ row_ids rs'"
  by (simp_all add: row_ids_def)

lemma rows_content_simps [simp]:
  "rows_content [] = Map.empty"
  "rows_content (r # rs) = (rows_content rs)(sm_ID (row_msg r) \<mapsto> row_msg r)"
  by (simp_all add: rows_content_def)

lemma rows_content_None [simp]: "rows_content rows i = None \<longleftrightarrow> i \<notin> set (row_ids rows)"
  by (induction rows) auto

lemma rows_content_append_new:
  "sm_ID (row_msg r) \<notin> set (row_ids rows) \<Longrightarrow>
   rows_content (rows @ [r]) = (rows_content rows)(sm_ID (row_msg r) \<mapsto> row_msg r)"
  by (induction rows) (auto intro: fun_upd_twist)

lemma claim_row_fields [simp]:
  "sm_ID (row_msg (claim_row t r)) = sm_ID (row_msg r)" "sm_SendAt (row_msg (claim_row t r)) = sm_SendAt (row_msg r)"
  "row_lockedTill (claim_row t r) = Some t" "same_message (row_msg r) (row_msg (claim_row t r))"
  by (simp_all add: claim_row_def same_message_def)

lemma claim_rows_ids [simp]: "row_ids (fst (claim_rows now t n rows)) = row_ids rows"
  by (induction now t n rows rule: claim_rows.induct) (simp_all add: case_prod_beta)

lemma claim_rows_keeps: "kept (rows_content rows) (rows_content (fst (claim_rows now t n rows))) i"
  by (induction now t n rows rule: claim_rows.induct) (simp_all add: kept_def case_prod_beta option.rel_refl)

text \<open>Every claimed message is that of a row that was due and free, as the store has it afterwards.\<close>

lemma claim_rows_claimed:
  assumes "m \<in> set (snd (claim_rows now t n rows))"
  shows "\<exists>r \<in> set rows. claimable now r \<and> m = row_msg (claim_row t r) \<and>
           claim_row t r \<in> set (fst (claim_rows now t n rows))"
  using assms by (induction now t n rows rule: claim_rows.induct) (auto simp: case_prod_beta split: if_splits)

lemma claim_rows_length: "length (snd (claim_rows now t n rows)) \<le> n"
  by (induction now t n rows rule: claim_rows.induct) (simp_all add: case_prod_beta)

lemma claim_rows_ids_subset: "set (map sm_ID (snd (claim_rows now t n rows))) \<subseteq> set (row_ids rows)"
  by (induction now t n rows rule: claim_rows.induct) (auto simp: case_prod_beta split: if_splits)

lemma claim_rows_distinct:
  "distinct (row_ids rows) \<Longrightarrow> distinct (map sm_ID (snd (claim_rows now t n rows)))"
proof (induction now t n rows rule: claim_rows.induct)
  case (3 now t n row rows)
  have "sm_ID (row_msg row) \<notin> set (map sm_ID (snd (claim_rows now t n rows)))"
    using claim_rows_ids_subset [of now t n rows] "3.prems" by auto
  with 3 show ?case by (simp add: case_prod_beta)
qed simp_all

lemma rows_content_row: "distinct (row_ids rows) \<Longrightarrow> r \<in> set rows \<Longrightarrow> rows_content rows (sm_ID (row_msg r)) = Some (row_msg r)"
  by (induction rows) (auto simp: row_ids_def, metis imageI)

lemma claim_rows_content:
  assumes "distinct (row_ids rows)" and "m \<in> set (snd (claim_rows now t n rows))"
  shows "rows_content (fst (claim_rows now t n rows)) (sm_ID m) = Some m" and "sm_SendAt m \<le> now"
proof -
  obtain r where "claimable now r" "m = row_msg (claim_row t r)"
      "claim_row t r \<in> set (fst (claim_rows now t n rows))"
    using claim_rows_claimed [OF assms(2)] by blast
  then show "rows_content (fst (claim_rows now t n rows)) (sm_ID m) = Some m" and "sm_SendAt m \<le> now"
    using rows_content_row [of "fst (claim_rows now t n rows)" "claim_row t r"] assms(1)
    by (simp_all add: claimable_def)
qed

lemma remove_first_ids [simp]: "row_ids (remove_first i rows) = remove1 i (row_ids rows)"
  by (induction rows) auto

lemma remove_first_content:
  "distinct (row_ids rows) \<Longrightarrow> rows_content (remove_first i rows) = (rows_content rows)(i := None)"
  by (induction rows) (auto simp: fun_eq_iff)

lemma reschedule_first_ids [simp]: "row_ids (reschedule_first i t r rows) = row_ids rows"
  by (induction rows) auto

lemma reschedule_first_keeps: "kept (rows_content rows) (rows_content (reschedule_first i t r rows)) j"
  by (induction rows) (simp_all add: kept_def same_message_def option.rel_refl)

lemma ClaimDue_rows:
  "ClaimDue s now limit lease = (s', ms) \<Longrightarrow>
   ms_nextID s' = ms_nextID s \<and> (ms_rows s', ms) = claim_rows now (now + lease) (nat limit) (ms_rows s)"
  by (cases "ms_rows s") (auto simp: ClaimDue_def split: if_splits prod.splits)

interpretation memq: reliable_scheduled_store memory_sched_ops memory_valid memory_content
proof unfold_locales
  fix q q' :: memory_store and m
  assume valid: "memory_valid q" and "sm_ID m = 0" "sq_Enqueue memory_sched_ops q m = (q', None)"
  moreover have "ms_nextID q + 1 \<notin> set (row_ids (ms_rows q))"
    using valid by (force simp: memory_valid_def)
  ultimately show "memory_valid q' \<and> (\<exists>i. memory_content q i = None \<and> memory_content q' = (memory_content q)(i \<mapsto> m\<lparr>sm_ID := i\<rparr>))"
    by (intro conjI exI [of _ "ms_nextID q + 1"])
      (auto simp: memory_sched_ops_def Enqueue_def memory_valid_def memory_content_def rows_content_append_new, fastforce)
next
  fix q q' :: memory_store and now limit lease r i
  assume "memory_valid q" "sq_ClaimDue memory_sched_ops q now limit lease = (q', r)"
  then show "memory_valid q' \<and> kept (memory_content q) (memory_content q') i"
    using ClaimDue_rows [of q now limit lease] claim_rows_keeps [of "ms_rows q" now "now + lease" "nat limit" i]
      claim_rows_ids [of now "now + lease" "nat limit" "ms_rows q"]
    by (auto simp: memory_sched_ops_def memory_valid_def memory_content_def split: prod.splits
        simp del: claim_rows_ids dest!: arg_cong [of "(_, _)" _ fst])
next
  fix q q' :: memory_store and now limit lease ms
  assume "memory_valid q" "sq_ClaimDue memory_sched_ops q now limit lease = (q', Inr ms)"
  then show "distinct (map sm_ID ms) \<and> (\<forall>m \<in> set ms. memory_content q' (sm_ID m) = Some m \<and> sm_SendAt m \<le> now)"
    using ClaimDue_rows [of q now limit lease] claim_rows_distinct claim_rows_content
    by (auto simp: memory_sched_ops_def memory_valid_def memory_content_def split: prod.splits) (metis fst_conv snd_conv)+
next
  fix q q' :: memory_store and i j e
  assume "memory_valid q" "sq_Complete memory_sched_ops q i = (q', e)"
  then show "memory_valid q' \<and> (j \<noteq> i \<longrightarrow> kept (memory_content q) (memory_content q') j) \<and>
      (memory_content q' i = None \<or> kept (memory_content q) (memory_content q') i)"
    by (auto simp: memory_sched_ops_def Complete_def memory_valid_def memory_content_def kept_def
        remove_first_content option.rel_refl dest: notin_set_remove1 [THEN contrapos_pp])
next
  fix q q' :: memory_store and i t reason e j
  assume "memory_valid q" "sq_Reschedule memory_sched_ops q i t reason = (q', e)"
  then show "memory_valid q' \<and> kept (memory_content q) (memory_content q') j"
    by (auto simp: memory_sched_ops_def Reschedule_def memory_valid_def memory_content_def reschedule_first_keeps)
next
  fix q :: memory_store and i
  assume "memory_valid q"
  then show "memory_content (fst (sq_Complete memory_sched_ops q i)) i = None"
    by (auto simp: memory_sched_ops_def Complete_def memory_valid_def memory_content_def)
qed

text \<open>A claimed row stays locked until its lease ends.\<close>

lemma claim_rows_locks:
  "m \<in> set (snd (claim_rows now t n rows)) \<Longrightarrow>
   \<exists>r \<in> set (fst (claim_rows now t n rows)). sm_ID (row_msg r) = sm_ID m \<and> row_lockedTill r = Some t"
  by (metis claim_rows_claimed claim_row_fields(1,3))

lemma Enqueues_rows: "\<exists>new. ms_rows (fold (\<lambda>m s. Enqueue s m) ms s) = ms_rows s @ new"
proof (induction ms arbitrary: s)
  case (Cons m ms)
  show ?case using Cons.IH [of "Enqueue s m"] by (auto simp: Enqueue_def)
qed simp

lemma Enqueue_valid: "memory_valid s \<Longrightarrow> sm_ID m = 0 \<Longrightarrow> memory_valid (Enqueue s m)"
  using memq.enqueue [of s m "Enqueue s m"] by (simp add: memory_sched_ops_def)

lemma Enqueues_valid:
  "memory_valid s \<Longrightarrow> \<forall>m \<in> set ms. sm_ID m = 0 \<Longrightarrow> memory_valid (fold (\<lambda>m s. Enqueue s m) ms s)"
  by (induction ms arbitrary: s) (simp_all add: Enqueue_valid)

lemma ClaimDue_valid: "memory_valid s \<Longrightarrow> ClaimDue s now limit lease = (s', ms) \<Longrightarrow> memory_valid s'"
  using memq.claim_keeps [of s now limit lease s' "Inr ms"] by (simp add: memory_sched_ops_def)

lemma row_by_id:
  "distinct (row_ids rows) \<Longrightarrow> r \<in> set rows \<Longrightarrow> r' \<in> set rows \<Longrightarrow> sm_ID (row_msg r) = sm_ID (row_msg r') \<Longrightarrow> r = r'"
  by (auto simp: row_ids_def distinct_map dest: inj_onD)

lemma claimed_row:
  assumes "i \<in> sm_ID ` set (snd (ClaimDue s now limit lease))"
  shows "\<exists>r \<in> set (ms_rows s). claimable now r \<and> sm_ID (row_msg r) = i"
proof -
  have "snd (ClaimDue s now limit lease) = snd (claim_rows now (now + lease) (nat limit) (ms_rows s))"
    using ClaimDue_rows [OF surjective_pairing, of s now limit lease] by (metis snd_conv)
  with assms show ?thesis using claim_rows_claimed by fastforce
qed


definition demo_message :: "instant \<Rightarrow> scheduled_message" where
  "demo_message t = \<lparr>sm_ID = 0, sm_UserID = 7, sm_Msg = NewTextMessage ''hi'', sm_Priority = PriorityNormal,
     sm_SendAt = t, sm_CreatedAt = 0, sm_Attempts = 0\<rparr>"

definition demo_queue :: memory_store where
  "demo_queue = Enqueue (Enqueue NewMemoryScheduledStore (demo_message 10)) (demo_message 20)"

lemmas demo_queue_eval = demo_queue_def demo_message_def Enqueue_def NewMemoryScheduledStore_def ClaimDue_def
  claimable_def claim_row_def locked_at_def

lemma demo_queue_valid: "memory_valid demo_queue"
  by (simp add: memory_valid_def demo_queue_eval)



lemma instant_of_local_fixed: "instant_of_local (\<lambda>_. c) l = l - c"
  by (simp add: instant_of_local_def)

text \<open>In whole hours of local time: the hour of the day and the next start of work.\<close>

lemma div_Day: "l div Day = l div Hour div 24"
  by (simp add: Day_def zdiv_zmult2_eq mult.commute [of 24] duration_defs)

lemma Hour_pos: "0 < Hour"
  by (simp add: duration_defs)

lemma less_hours_iff: "l < k * Hour \<longleftrightarrow> l div Hour < k"
proof -
  have l: "l = l div Hour * Hour + l mod Hour" and r: "0 \<le> l mod Hour" "l mod Hour < Hour"
    using Hour_pos by simp_all
  have "l < k * Hour" if "l div Hour < k"
    using mult_right_mono [of "l div Hour + 1" k Hour] that l r unfolding distrib_right by linarith
  moreover have "k * Hour \<le> l" if "k \<le> l div Hour"
    using mult_right_mono [of k "l div Hour" Hour] that l r by linarith
  ultimately show ?thesis by (meson not_le)
qed

lemma hour_of_whole: "(k * Hour) div Hour = k"
  by (simp add: duration_defs)

lemma next_work_hours:
  assumes "notificationLocation T prefs = (\<lambda>_. c)" and "np_WorkHoursStart prefs = Some h"
  shows "nextWorkTimeAt T prefs now + c =
    (let a = (now + c) div Hour in (if a mod 24 < h then a - a mod 24 + h else a - a mod 24 + h + 24)) * Hour"
proof -
  let ?a = "(now + c) div Hour"
  define d where "d = ?a - ?a mod 24"
  have "(now + c) div Day * Day = (?a - ?a mod 24) * Hour"
    by (simp add: div_Day minus_mod_eq_div_mult) (simp add: Day_def)
  then have "nextWorkTimeAt T prefs now =
      (let t = (d + h) * Hour - c in if now < t then t else t + 24 * Hour)"
    by (simp add: nextWorkTimeAt_def assms local_time_def instant_of_local_fixed Let_def d_def distrib_right)
  moreover have "now < (d + h) * Hour - c \<longleftrightarrow> ?a mod 24 < h"
    using less_hours_iff [of "now + c" "d + h"] by (auto simp: d_def)
  ultimately show ?thesis by (simp add: Let_def d_def [symmetric] distrib_right)
qed

definition hour_within :: "int \<Rightarrow> int \<Rightarrow> int \<Rightarrow> bool" where
  "hour_within h e b \<longleftrightarrow> (if h \<le> e then h \<le> b \<and> b < e else h \<le> b \<or> b < e)"

lemma hours_between:
  fixes a b h e :: int
  assumes "0 \<le> h" "h < 24" "0 \<le> e" "e < 24" "h \<noteq> e" "\<not> hour_within h e (a mod 24)" "a \<le> b"
    and b: "b < (if a mod 24 < h then a - a mod 24 + h else a - a mod 24 + h + 24)"
  shows "\<not> hour_within h e (b mod 24)"
proof -
  define p x q y where "p = a div 24" "x = a mod 24" "q = b div 24" "y = b mod 24"
  have a: "a = 24 * p + x" "0 \<le> x" "x < 24" and bq: "b = 24 * q + y" "0 \<le> y" "y < 24"
    by (simp_all add: p_x_q_y_def)
  have k: "24 * q + y < (if x < h then 24 * p + h else 24 * p + h + 24)"
    using b a(1) bq(1) unfolding p_x_q_y_def(2) [symmetric] by (simp split: if_splits)
  have "24 * p < 24 * q + 24" using assms(7) a(2) bq(3) unfolding a(1) bq(1) by linarith
  moreover have "24 * q < 24 * p + 48" using k bq assms(2) by (simp split: if_splits)
  ultimately have "q = p \<or> q = p + 1" by presburger
  then show ?thesis
    using k a bq assms(1-7) unfolding hour_within_def p_x_q_y_def(2,4) [symmetric]
    by (elim disjE) (auto split: if_splits)
qed

text \<open>
  In a zone of fixed offset, with different start and end hours (as \<^verbatim>\<open>validateHoursRange\<close> of the
  settings dialog demands): outside work hours the next work time is the first later instant
  within them, and at most 24 hours away; so a delayed message becomes due exactly when its
  recipient's work hours begin.
\<close>

theorem next_work_time_is_first:
  assumes zone: "notificationLocation T prefs = (\<lambda>_. c)"
    and start: "np_WorkHoursStart prefs = Some h" "0 \<le> h" "h < 24"
    and finish: "np_WorkHoursEnd prefs = Some e" "0 \<le> e" "e < 24" "h \<noteq> e"
    and outside: "\<not> isWithinWorkHoursAt T prefs now"
  shows "now < nextWorkTimeAt T prefs now \<and> nextWorkTimeAt T prefs now \<le> now + 24 * Hour \<and>
         isWithinWorkHoursAt T prefs (nextWorkTimeAt T prefs now) \<and>
         (\<forall>t. now \<le> t \<and> t < nextWorkTimeAt T prefs now \<longrightarrow> \<not> isWithinWorkHoursAt T prefs t)"
proof -
  let ?next = "nextWorkTimeAt T prefs now"
  define a where "a = (now + c) div Hour"
  define k where "k = (if a mod 24 < h then a - a mod 24 + h else a - a mod 24 + h + 24)"
  have next1: "?next + c = k * Hour"
    using next_work_hours [OF zone start(1)] by (simp add: a_def k_def Let_def)
  have within: "isWithinWorkHoursAt T prefs t \<longleftrightarrow> hour_within h e ((t + c) div Hour mod 24)" for t
    by (simp add: isWithinWorkHoursAt_def zone start finish local_hour_def local_time_def hour_within_def Let_def)
  have hour: "now + c < k * Hour" if "a < k" using that by (simp add: less_hours_iff a_def)
  have "a < k" using start finish by (auto simp: k_def)
  have "k \<le> a + 24" using start by (auto simp: k_def)
  have "k * Hour \<le> (a + 24) * Hour" using \<open>k \<le> a + 24\<close> by (simp add: duration_defs)
  moreover have "a * Hour \<le> now + c" using less_hours_iff [of "now + c" a] by (simp add: a_def)
  ultimately have upper: "?next \<le> now + 24 * Hour" using next1 by (simp add: algebra_simps)
  have "isWithinWorkHoursAt T prefs ?next"
  proof -
    have "k = 24 * (a div 24) + h \<or> k = 24 * (a div 24 + 1) + h"
      unfolding k_def by (simp add: minus_mod_eq_mult_div)
    then have "k mod 24 = h" using start by (elim disjE) (simp_all only: mod_mult_self4 mod_pos_pos_trivial)
    then show ?thesis using start finish by (simp add: within next1 hour_of_whole hour_within_def)
  qed
  moreover have "\<not> isWithinWorkHoursAt T prefs t" if "now \<le> t" "t < ?next" for t
  proof -
    define b where "b = (t + c) div Hour"
    have "a \<le> b" using that(1) by (simp add: a_def b_def zdiv_mono1 duration_defs)
    moreover have "b < k" using that(2) next1 less_hours_iff [of "t + c" k] by (simp add: b_def)
    ultimately show ?thesis
      using outside start finish hours_between [of h e a b] unfolding within k_def a_def [symmetric] b_def [symmetric]
      by simp
  qed
  ultimately show ?thesis using hour \<open>a < k\<close> next1 upper by auto
qed

definition demo_time :: time_env where
  "demo_time = \<lparr>te_zones = [''Europe/Moscow'' \<mapsto> (\<lambda>_. 3 * Hour)], te_format = (\<lambda>_ _. '''')\<rparr>"

definition demo_prefs :: notification_prefs where
  "demo_prefs = \<lparr>np_GlobalUserID = 7, np_ChannelPriority = [''discord'', ''telegram''], np_MuteMentions = False,
     np_WorkHoursStart = Some 22, np_WorkHoursEnd = Some 6, np_Timezone = ''Europe/Moscow''\<rparr>"

lemma demo_location: "notificationLocation demo_time demo_prefs = (\<lambda>_. 3 * Hour)"
  by (simp add: notificationLocation_def demo_time_def demo_prefs_def)

text \<open>Work hours across midnight, at 04:00 of universal time (07:00 local time).\<close>

lemma demo_outside: "\<not> isWithinWorkHoursAt demo_time demo_prefs (4 * Hour)"
proof -
  have "local_hour (\<lambda>_. 3 * Hour) (4 * Hour) = 7"
    by (simp add: local_hour_def local_time_def duration_defs)
  then show ?thesis
    unfolding isWithinWorkHoursAt_def demo_location by (simp add: demo_prefs_def)
qed

theorem next_work_time_is_first_witness:
  "4 * Hour < nextWorkTimeAt demo_time demo_prefs (4 * Hour) \<and>
   isWithinWorkHoursAt demo_time demo_prefs (nextWorkTimeAt demo_time demo_prefs (4 * Hour))"
  using next_work_time_is_first [OF demo_location, of 22 6 "4 * Hour"] demo_outside
  by (simp add: demo_prefs_def)

text \<open>
  Messages survive their storage: decoding the encoded form of a message, whatever blocks it
  has, gives the message back.
\<close>

theorem stored_message_roundtrip: "unmarshalMessage (marshalMessage msg) = Inr msg"
proof -
  have "unmarshal_block (marshal_block b) = Inr b" for b
    by (cases b) (simp_all add: unmarshal_block_def zero_block_def)
  then have "unmarshal_blocks (map marshal_block bs) = Inr bs" for bs
    by (induction bs) simp_all
  then show ?thesis by (simp add: unmarshalMessage_def marshalMessage_def)
qed

lemma channel_priority_roundtrip:
  assumes "\<forall>ch \<in> set chs. ch \<noteq> '''' \<and> CHR '','' \<notin> set ch \<and> TrimSpace ch = ch"
  shows "UnmarshalChannelPriority (MarshalChannelPriority chs) = chs"
proof (cases chs)
  case (Cons ch rest)
  then have "Join chs '','' \<noteq> ''''" using assms by (cases rest) auto
  moreover have "SplitOn (CHR '','') (Join chs '','') = chs"
    using SplitOn_Join [of ch rest "CHR '',''"] assms Cons by simp
  moreover have "filter (\<lambda>p. p \<noteq> '''') (map TrimSpace chs) = chs"
    using assms by (induction chs) auto
  ultimately show ?thesis by (simp add: UnmarshalChannelPriority_def MarshalChannelPriority_def)
qed (simp add: UnmarshalChannelPriority_def MarshalChannelPriority_def)

lemma accountMap_cases:
  "fold (\<lambda>acc m. m(ca_ChannelType acc \<mapsto> ca_ChannelUserID acc)) accs m ch = Some pid \<Longrightarrow>
   m ch = Some pid \<or> (\<exists>acc \<in> set accs. ca_ChannelType acc = ch \<and> ca_ChannelUserID acc = pid)"
proof (induction accs arbitrary: m)
  case (Cons acc accs)
  have "(m(ca_ChannelType acc \<mapsto> ca_ChannelUserID acc)) ch = Some pid \<or>
      (\<exists>a \<in> set accs. ca_ChannelType a = ch \<and> ca_ChannelUserID a = pid)"
    using Cons.prems by (intro Cons.IH) simp
  then show ?case by (cases "ca_ChannelType acc = ch") auto
qed simp

lemma accountMap_dom: "accountMap accs ch \<noteq> None \<longleftrightarrow> ch \<in> ca_ChannelType ` set accs"
proof -
  have "(fold (\<lambda>acc m. m(ca_ChannelType acc \<mapsto> ca_ChannelUserID acc)) accs m ch \<noteq> None) =
      (m ch \<noteq> None \<or> ch \<in> ca_ChannelType ` set accs)" for m
    by (induction accs arbitrary: m) auto
  then show ?thesis by (simp add: accountMap_def)
qed

text \<open>
  A notification goes to an account of its recipient, and to the channel the recipient prefers:
  a preferred channel is passed over only for one earlier in the list or when the recipient
  has no account there, and without any preferred account the primary channel is used.
\<close>

theorem resolveChannel_prefers:
  assumes "resolveChannel user prefs = (ch, pid)" and "gu_Accounts user \<noteq> []"
  shows "(\<exists>acc \<in> set (gu_Accounts user). ca_ChannelType acc = ch \<and> ca_ChannelUserID acc = pid) \<and>
    (let has = (\<lambda>c. c \<in> ca_ChannelType ` set (gu_Accounts user))
     in (\<exists>pre post. np_ChannelPriority prefs = pre @ ch # post \<and> list_all (\<lambda>c. \<not> has c) pre) \<or>
        list_all (\<lambda>c. \<not> has c) (np_ChannelPriority prefs) \<and> (ch = gu_PrimaryChannel user \<or> \<not> has (gu_PrimaryChannel user)))"
proof (cases "find (\<lambda>c. accountMap (gu_Accounts user) c \<noteq> None) (np_ChannelPriority prefs)")
  case None
  then have none: "list_all (\<lambda>c. c \<notin> ca_ChannelType ` set (gu_Accounts user)) (np_ChannelPriority prefs)"
    by (simp add: find_None_all accountMap_dom list_all_iff del: not_None_eq)
  obtain acc accs where accs: "gu_Accounts user = acc # accs" using assms(2) by (cases "gu_Accounts user") auto
  show ?thesis
  proof (cases "accountMap (gu_Accounts user) (gu_PrimaryChannel user)")
    case None': None
    then have "gu_PrimaryChannel user \<notin> ca_ChannelType ` set (gu_Accounts user)"
      using accountMap_dom by blast
    with assms(1) None None' none accs show ?thesis by (auto simp: resolveChannel_def Let_def)
  next
    case (Some p)
    then have "ch = gu_PrimaryChannel user" "accountMap (gu_Accounts user) ch = Some pid"
      using assms(1) None by (auto simp: resolveChannel_def Let_def)
    with none show ?thesis using accountMap_cases [of "gu_Accounts user" Map.empty ch pid]
      by (auto simp: accountMap_def)
  qed
next
  case (Some c)
  from Some obtain pre post where pre: "np_ChannelPriority prefs = pre @ c # post"
      "accountMap (gu_Accounts user) c \<noteq> None" "\<forall>c' \<in> set pre. accountMap (gu_Accounts user) c' = None"
    by (auto simp only: find_Some_split not_not)
  have ch: "c = ch" "accountMap (gu_Accounts user) ch = Some pid"
    using assms(1) pre(2) by (auto simp: resolveChannel_def Let_def Some simp del: not_None_eq)
  have "list_all (\<lambda>c'. c' \<notin> ca_ChannelType ` set (gu_Accounts user)) pre"
    using pre(3) by (simp add: list_all_iff accountMap_dom [symmetric] del: not_None_eq)
  moreover have "\<exists>acc \<in> set (gu_Accounts user). ca_ChannelType acc = ch \<and> ca_ChannelUserID acc = pid"
    using accountMap_cases [of "gu_Accounts user" Map.empty ch pid] ch(2) by (simp add: accountMap_def)
  ultimately show ?thesis using pre(1) ch(1) unfolding Let_def by blast
qed

definition demo_user :: global_user where
  "demo_user = \<lparr>gu_ID = 7, gu_PrimaryChannel = ''telegram'', gu_Locale = ''en'', gu_Role = '''',
     gu_Accounts = [\<lparr>ca_ID = 1, ca_ChannelType = ''telegram'', ca_ChannelUserID = ''t7'',
       ca_GlobalUserID = 7, ca_Username = ''''\<rparr>]\<rparr>"

theorem resolveChannel_prefers_witness:
  "resolveChannel demo_user demo_prefs = (''telegram'', ''t7'') \<and>
   (\<exists>acc \<in> set (gu_Accounts demo_user). ca_ChannelType acc = ''telegram'' \<and> ca_ChannelUserID acc = ''t7'')"
proof
  show eq: "resolveChannel demo_user demo_prefs = (''telegram'', ''t7'')" by code_simp
  show "\<exists>acc \<in> set (gu_Accounts demo_user). ca_ChannelType acc = ''telegram'' \<and> ca_ChannelUserID acc = ''t7''"
    using resolveChannel_prefers [OF eq] by (simp add: demo_user_def)
qed

text \<open>A world that records what was sent, with one adapter that always succeeds.\<close>

definition demo_adapter :: "(string \<times> message) list adapter" where
  "demo_adapter = \<lparr>ad_Type = ''telegram'', ad_SendToUser = (\<lambda>u m w. (w @ [(u, m)], None)),
     ad_SendToChat = (\<lambda>u m w. (w @ [(u, m)], None)), ad_SilentSender = None, ad_EditMessage = None,
     ad_SendToChatWithID = None, ad_DeleteMessage = None\<rparr>"

definition demo_api :: "(memory_store, (string \<times> message) list) notify_api" where
  "demo_api = NewNotifyAPI (AR_Register demo_adapter NewAdapterRegistry) demo_ctx
     (\<lambda>_ w. (w, Inr (Some demo_user))) (\<lambda>_ w. (w, Inr (Some demo_prefs))) (\<lambda>_ _ w. (w, Inr [])) memory_sched_ops demo_time"

definition demo_notify_state :: "(memory_store, (string \<times> message) list) notify_state" where
  "demo_notify_state = \<lparr>ns_queue = demo_queue, ns_world = [], ns_sends = None\<rparr>"

lemma demo_api_store: "na_scheduled demo_api = memory_sched_ops"
  by (simp add: demo_api_def NewNotifyAPI_def)


text \<open>
  Outside the recipient's work hours a notification that is not critical sends nothing: the only
  effects are the two lookups and one message in the store, under a new identifier, due at the
  next work time; and no claim before that time returns it.
\<close>

theorem delayed_until_work_hours:
  assumes lookup: "lookup_recipient N userID (ns_world s) = (w, Inr (user, prefs))"
    and delay: "priority < PriorityCritical" "\<not> isWithinWorkHoursAt (na_time N) prefs now"
    and store: "memory_valid (ns_queue s)" "na_scheduled N = memory_sched_ops"
    and notify: "NotifyUser N now userID msg priority s = (s', e)"
  shows "e = None \<and> ns_world s' = w \<and> ns_sends s' = ns_sends s \<and>
    (\<exists>i m. memory_content (ns_queue s) i = None \<and> memory_content (ns_queue s') = (memory_content (ns_queue s))(i \<mapsto> m) \<and>
       sm_UserID m = userID \<and> sm_Msg m = msg \<and> sm_Priority m = priority \<and>
       sm_SendAt m = nextWorkTimeAt (na_time N) prefs now \<and>
       (\<forall>t < nextWorkTimeAt (na_time N) prefs now. \<forall>limit lease.
          i \<notin> sm_ID ` set (snd (ClaimDue (ns_queue s') t limit lease))))"
proof -
  define m0 where "m0 = \<lparr>sm_ID = 0, sm_UserID = userID, sm_Msg = msg, sm_Priority = priority,
      sm_SendAt = nextWorkTimeAt (na_time N) prefs now, sm_CreatedAt = now, sm_Attempts = 0\<rparr>"
  have res: "e = None" "ns_world s' = w" "ns_sends s' = ns_sends s" "ns_queue s' = Enqueue (ns_queue s) m0"
    using notify delay store(2)
    by (auto simp: NotifyUser_def deliverUser_def lookup shouldDelayAt_def schedule_def memory_sched_ops_def
        m0_def Let_def)
  obtain i where i: "memory_content (ns_queue s) i = None"
      "memory_content (ns_queue s') = (memory_content (ns_queue s))(i \<mapsto> m0\<lparr>sm_ID := i\<rparr>)"
    and valid: "memory_valid (ns_queue s')"
    using memq.enqueue [OF store(1), of m0 "ns_queue s'"] res(4) by (auto simp: memory_sched_ops_def m0_def)
  have "i \<notin> sm_ID ` set (snd (ClaimDue (ns_queue s') t limit lease))"
    if t: "t < nextWorkTimeAt (na_time N) prefs now" for t limit lease
  proof
    assume "i \<in> sm_ID ` set (snd (ClaimDue (ns_queue s') t limit lease))"
    then obtain r where "r \<in> set (ms_rows (ns_queue s'))" "claimable t r" "sm_ID (row_msg r) = i"
      using claimed_row by blast
    then have "memory_content (ns_queue s') i = Some (row_msg r)" "sm_SendAt (row_msg r) \<le> t"
      using rows_content_row [of "ms_rows (ns_queue s')" r] valid
      by (auto simp: memory_valid_def memory_content_def claimable_def)
    then have "sm_SendAt m0 \<le> t" using i(2) by (auto dest: sym)
    with t show False by (simp add: m0_def)
  qed
  with i res show ?thesis by (intro conjI exI [of _ i] exI [of _ "m0\<lparr>sm_ID := i\<rparr>"]) (auto simp: m0_def)
qed

theorem delayed_until_work_hours_witness:
  "\<exists>i m. memory_content (ns_queue (fst (NotifyUser demo_api (4 * Hour) 7 (NewTextMessage ''hi'') PriorityHigh demo_notify_state))) i = Some m \<and>
     sm_SendAt m = nextWorkTimeAt demo_time demo_prefs (4 * Hour) \<and> sm_UserID m = 7 \<and>
     i \<notin> sm_ID ` set (snd (ClaimDue (ns_queue (fst (NotifyUser demo_api (4 * Hour) 7 (NewTextMessage ''hi'')
       PriorityHigh demo_notify_state))) 0 100 Minute))"
proof -
  let ?r = "NotifyUser demo_api (4 * Hour) 7 (NewTextMessage ''hi'') PriorityHigh demo_notify_state"
  have lookup: "lookup_recipient demo_api 7 (ns_world demo_notify_state) = ([], Inr (demo_user, demo_prefs))"
    by (simp add: lookup_recipient_def demo_api_def NewNotifyAPI_def demo_notify_state_def)
  have time: "na_time demo_api = demo_time" by (simp add: demo_api_def NewNotifyAPI_def)
  have next1: "0 < nextWorkTimeAt demo_time demo_prefs (4 * Hour)"
    using next_work_hours [OF demo_location, of 22 "4 * Hour"]
    by (simp add: demo_prefs_def duration_defs Let_def split: if_splits)
  obtain i m where "memory_content (ns_queue (fst ?r)) = (memory_content (ns_queue demo_notify_state))(i \<mapsto> m)"
      "sm_UserID m = 7" "sm_SendAt m = nextWorkTimeAt demo_time demo_prefs (4 * Hour)"
      "i \<notin> sm_ID ` set (snd (ClaimDue (ns_queue (fst ?r)) 0 100 Minute))"
    using delayed_until_work_hours [OF lookup, of PriorityHigh "4 * Hour" "NewTextMessage ''hi''" "fst ?r" "snd ?r"]
      demo_outside next1 demo_queue_valid demo_api_store time
    by (auto simp: priority_defs demo_notify_state_def)
  then show ?thesis by (intro exI [of _ i] exI [of _ m]) simp
qed

end
