(* ===== verification/Authz.thy ===== *)
theory Authz
  imports Bot_Model
begin

text \<open>
  Authorization: the cache with expiry (\<^verbatim>\<open>internal/authz/ttlcache.go\<close>), the evaluation of policy
  expressions (\<^verbatim>\<open>evaluator.go\<close>), the decision about a command (\<^verbatim>\<open>authorizer.go\<close>) and the rule schema
  (\<^verbatim>\<open>schema.go\<close>).

  Parameters are the SpiceDB client, the policy store, the attribute providers and the expression
  language: \<open>xl_Compile\<close> is \<^verbatim>\<open>expr.Compile\<close> and \<open>xl_Run\<close> is \<^verbatim>\<open>expr.Run\<close>, whose result is a truth value
  or the name of another type. Loads that the code runs in parallel write different fields; the
  model runs them in the order of the source. A call of a method of a \<^verbatim>\<open>nil\<close> client panics:
  the result \<open>None\<close>.
\<close>

subsection \<open>The cache with expiry (ttlcache.go)\<close>

record ('k, 'v) ttl_cache =
  tc_entries :: "'k \<rightharpoonup> 'v \<times> instant"
  tc_ttl :: duration

definition NewTTLCache :: "duration \<Rightarrow> ('k, 'v) ttl_cache" where
  "NewTTLCache ttl = \<lparr>tc_entries = Map.empty, tc_ttl = ttl\<rparr>"

definition ttl_Get :: "instant \<Rightarrow> 'k \<Rightarrow> ('k, 'v) ttl_cache \<Rightarrow> ('k, 'v) ttl_cache \<times> 'v option" where
  "ttl_Get now key c =
     (case tc_entries c key of
        None \<Rightarrow> (c, None)
      | Some (v, expiresAt) \<Rightarrow>
          if now > expiresAt then (c\<lparr>tc_entries := (tc_entries c)(key := None)\<rparr>, None)
          else (c, Some v))"

definition ttl_Set :: "instant \<Rightarrow> 'k \<Rightarrow> 'v \<Rightarrow> ('k, 'v) ttl_cache \<Rightarrow> ('k, 'v) ttl_cache" where
  "ttl_Set now key v c = c\<lparr>tc_entries := (tc_entries c)(key \<mapsto> (v, now + tc_ttl c))\<rparr>"

definition ttl_Delete :: "'k \<Rightarrow> ('k, 'v) ttl_cache \<Rightarrow> ('k, 'v) ttl_cache" where
  "ttl_Delete key c = c\<lparr>tc_entries := (tc_entries c)(key := None)\<rparr>"

definition ttl_Clear :: "('k, 'v) ttl_cache \<Rightarrow> ('k, 'v) ttl_cache" where
  "ttl_Clear c = c\<lparr>tc_entries := Map.empty\<rparr>"

subsection \<open>Subjects and the expression environment (context.go, evaluator.go)\<close>

text \<open>The values of the \<^verbatim>\<open>user\<close> map; providers may add others.\<close>

datatype 'x attr = AInt int | AString string | AStrings "string list" | AOther 'x

record 'x subject_context =
  sc_UserID :: user_id
  sc_ExternalID :: string
  sc_Roles :: "string list"
  sc_Groups :: "string list"
  sc_PrimaryChannel :: string
  sc_Locale :: string
  sc_Attrs :: "string \<rightharpoonup> 'x attr"

text \<open>
  The SpiceDB client: a permission of a user on an object, with full consistency or not; and the
  objects of a type on which the user has the permission.
\<close>

record 'w spice_client =
  sp_CheckPermission ::
    "bool \<Rightarrow> string \<Rightarrow> string \<Rightarrow> string \<Rightarrow> string \<Rightarrow> 'w \<Rightarrow> 'w \<times> (go_error + bool)"
  sp_LookupResources :: "string \<Rightarrow> string \<Rightarrow> string \<Rightarrow> 'w \<Rightarrow> 'w \<times> (go_error + string list)"

record ('w, 'x) expr_env =
  ev_User :: "string \<rightharpoonup> 'x attr"
  ev_Check :: "string \<Rightarrow> string \<Rightarrow> string \<Rightarrow> 'w \<Rightarrow> 'w \<times> (go_error + bool)"
  ev_IsMember :: "string \<Rightarrow> string \<Rightarrow> 'w \<Rightarrow> 'w \<times> (go_error + bool)"
  ev_HasRole :: "string \<Rightarrow> bool"
  ev_HasAnyRole :: "string list \<Rightarrow> bool"

definition buildUserMap :: "'x subject_context \<Rightarrow> string \<rightharpoonup> 'x attr" where
  "buildUserMap sc =
     [''id'' \<mapsto> AInt (sc_UserID sc), ''external_id'' \<mapsto> AString (sc_ExternalID sc),
      ''groups'' \<mapsto> AStrings (sc_Groups sc), ''roles'' \<mapsto> AStrings (sc_Roles sc),
      ''primary_channel'' \<mapsto> AString (sc_PrimaryChannel sc), ''locale'' \<mapsto> AString (sc_Locale sc)] ++
     sc_Attrs sc"

definition university_types :: "string list" where
  "university_types = [''faculty'', ''department'', ''program'', ''stream'', ''study_group'', ''subgroup'',
     ''nationality_category'', ''student_record'']"

definition checkSpice ::
    "'x subject_context \<Rightarrow> 'w spice_client option \<Rightarrow> string \<Rightarrow> string \<Rightarrow> string \<Rightarrow> 'w \<Rightarrow> 'w \<times> (go_error + bool)" where
  "checkSpice sc client permission objectType0 objectID w =
     (let objectType = (if objectType0 = ''group'' then ''study_group'' else objectType0);
          university = objectType \<in> set university_types;
          subjectID = (if university then sc_ExternalID sc else FormatInt (sc_UserID sc))
      in if university \<and> subjectID = '''' then (w, Inr False)
         else case client of
                None \<Rightarrow> (w, Inl (Plain ''graph authorization is not configured''))
              | Some cl \<Rightarrow>
                  (case sp_CheckPermission cl True objectType objectID permission subjectID w of
                     (w1, Inl err) \<Rightarrow>
                       (w1, Inl (Wrap (''graph check '' @ permission @ '' on '' @ objectType @ '':'' @ objectID @ '': '') err ''''))
                   | (w1, Inr b) \<Rightarrow> (w1, Inr b)))"

definition buildExprEnv :: "'x subject_context \<Rightarrow> 'w spice_client option \<Rightarrow> ('w, 'x) expr_env" where
  "buildExprEnv sc client =
     \<lparr>ev_User = buildUserMap sc,
      ev_Check = checkSpice sc client,
      ev_IsMember = checkSpice sc client ''member'',
      ev_HasRole = (\<lambda>r. r \<in> set (sc_Roles sc)),
      ev_HasAnyRole = (\<lambda>rs. list_ex (\<lambda>r. r \<in> set (sc_Roles sc)) rs)\<rparr>"

record ('p, 'w, 'x) expr_lang =
  xl_Compile :: "string \<Rightarrow> go_error + 'p"
  xl_Run :: "'p \<Rightarrow> ('w, 'x) expr_env \<Rightarrow> 'w \<Rightarrow> 'w \<times> (go_error + (string + bool))"

text \<open>The programs compiled so far and their number, both package variables.\<close>

record 'p compiled_cache =
  cc_exprs :: "string \<rightharpoonup> 'p"
  cc_count :: int

definition maxCompiledExprs :: int where "maxCompiledExprs = 1024"

definition compiled_program ::
    "('p, 'w, 'x) expr_lang \<Rightarrow> string \<Rightarrow> 'p compiled_cache \<Rightarrow> 'p compiled_cache \<times> (go_error + 'p)" where
  "compiled_program L expression cache =
     (case cc_exprs cache expression of
        Some p \<Rightarrow> (cache, Inr p)
      | None \<Rightarrow>
          (case xl_Compile L expression of
             Inl err \<Rightarrow> (cache, Inl (Wrap ''compile expression: '' err ''''))
           | Inr p \<Rightarrow>
               let cache1 = (if cc_count cache \<ge> maxCompiledExprs then \<lparr>cc_exprs = Map.empty, cc_count = 0\<rparr> else cache)
               in (\<lparr>cc_exprs = (cc_exprs cache1)(expression \<mapsto> p), cc_count = cc_count cache1 + 1\<rparr>, Inr p)))"

definition evaluate ::
    "('p, 'w, 'x) expr_lang \<Rightarrow> string \<Rightarrow> ('w, 'x) expr_env \<Rightarrow> 'p compiled_cache \<times> 'w \<Rightarrow>
     ('p compiled_cache \<times> 'w) \<times> (go_error + bool)" where
  "evaluate L expression env st =
     (case compiled_program L expression (fst st) of
        (cache, Inl err) \<Rightarrow> ((cache, snd st), Inl err)
      | (cache, Inr p) \<Rightarrow>
          (case xl_Run L p env (snd st) of
             (w, Inl err) \<Rightarrow> ((cache, w), Inl (Wrap ''run expression: '' err ''''))
           | (w, Inr (Inl ty)) \<Rightarrow> ((cache, w), Inl (Plain (''expression must return bool, got '' @ ty)))
           | (w, Inr (Inr b)) \<Rightarrow> ((cache, w), Inr b)))"

definition EvalWithContext ::
    "('p, 'w, 'x) expr_lang \<Rightarrow> string \<Rightarrow> 'x subject_context \<Rightarrow> 'w spice_client option \<Rightarrow>
     'p compiled_cache \<times> 'w \<Rightarrow> ('p compiled_cache \<times> 'w) \<times> (go_error + bool)" where
  "EvalWithContext L expression sc client = evaluate L expression (buildExprEnv sc client)"

subsection \<open>The authorizer (authorizer.go)\<close>

record policy_value =
  pv_enabled :: bool
  pv_policyExpr :: string
  pv_found :: bool

record 'w authz_store =
  as_GetAllRoleNames :: "user_id \<Rightarrow> 'w \<Rightarrow> 'w \<times> (go_error + string list)"
  as_GetCommandPolicy :: "string \<Rightarrow> string \<Rightarrow> 'w \<Rightarrow> 'w \<times> (go_error + policy_value)"
  as_GetPluginPolicy :: "string \<Rightarrow> 'w \<Rightarrow> 'w \<times> (go_error + string)"
  as_GetExternalID :: "user_id \<Rightarrow> 'w \<Rightarrow> 'w \<times> (go_error + string)"
  as_GetUserChannelAndLocale :: "user_id \<Rightarrow> 'w \<Rightarrow> 'w \<times> (go_error + string \<times> string)"
  as_GetDistinctRoleNames :: "'w \<Rightarrow> 'w \<times> string list"

type_synonym ('w, 'x) attribute_provider =
  "'x subject_context \<Rightarrow> 'w \<Rightarrow> 'w \<times> 'x subject_context \<times> go_error option"

record ('p, 'w, 'x) authorizer =
  az_store :: "'w authz_store"
  az_client :: "'w spice_client option"
  az_providers :: "('w, 'x) attribute_provider list"
  az_lang :: "('p, 'w, 'x) expr_lang"

datatype authz_metric =
    AuthzCheckObserved string string string
  | AuthzCacheCounted string string

record ('p, 'w, 'x) authz_state =
  at_subjectCache :: "(user_id, 'x subject_context) ttl_cache option"
  at_policyCache :: "(string \<times> string, policy_value) ttl_cache option"
  at_compiled :: "'p compiled_cache"
  at_metrics :: "authz_metric list option"
  at_world :: 'w

type_synonym ('p, 'w, 'x, 'r) authz_op =
  "('p, 'w, 'x) authz_state \<Rightarrow> ('p, 'w, 'x) authz_state \<times> (go_error + 'r)"

definition DefaultSubjectCacheTTL :: duration where "DefaultSubjectCacheTTL = 30 * Second"
definition DefaultPolicyCacheTTL :: duration where "DefaultPolicyCacheTTL = 60 * Second"

text \<open>The state of \<^verbatim>\<open>NewAuthorizerWithTTL\<close>: a cache only for a positive lifetime.\<close>

definition NewAuthorizerWithTTL ::
    "duration \<Rightarrow> duration \<Rightarrow> 'p compiled_cache \<Rightarrow> 'w \<Rightarrow> ('p, 'w, 'x) authz_state" where
  "NewAuthorizerWithTTL subjectTTL policyTTL compiled w =
     \<lparr>at_subjectCache = (if subjectTTL > 0 then Some (NewTTLCache subjectTTL) else None),
      at_policyCache = (if policyTTL > 0 then Some (NewTTLCache policyTTL) else None),
      at_compiled = compiled, at_metrics = None, at_world = w\<rparr>"

definition NewAuthorizer :: "'p compiled_cache \<Rightarrow> 'w \<Rightarrow> ('p, 'w, 'x) authz_state" where
  "NewAuthorizer = NewAuthorizerWithTTL DefaultSubjectCacheTTL DefaultPolicyCacheTTL"

definition authz_metric_add :: "authz_metric \<Rightarrow> ('p, 'w, 'x) authz_state \<Rightarrow> ('p, 'w, 'x) authz_state" where
  "authz_metric_add x s = s\<lparr>at_metrics := map_option (\<lambda>xs. xs @ [x]) (at_metrics s)\<rparr>"

definition incAuthzCache :: "string \<Rightarrow> string \<Rightarrow> ('p, 'w, 'x) authz_state \<Rightarrow> ('p, 'w, 'x) authz_state" where
  "incAuthzCache cacheName result = authz_metric_add (AuthzCacheCounted cacheName result)"

definition combinePolicies :: "string \<Rightarrow> string \<Rightarrow> string" where
  "combinePolicies pluginPolicy commandPolicy =
     (if pluginPolicy \<noteq> '''' \<and> commandPolicy \<noteq> '''' then ''('' @ pluginPolicy @ '') && ('' @ commandPolicy @ '')''
      else if pluginPolicy \<noteq> '''' then pluginPolicy
      else if commandPolicy \<noteq> '''' then commandPolicy
      else '''')"

text \<open>A lookup in a cache that may be absent, and what the code does on a hit and on a miss.\<close>

definition policy_cache_get ::
    "instant \<Rightarrow> string \<times> string \<Rightarrow> ('p, 'w, 'x) authz_state \<Rightarrow> ('p, 'w, 'x) authz_state \<times> policy_value option" where
  "policy_cache_get now key s =
     (case at_policyCache s of
        None \<Rightarrow> (s, None)
      | Some c \<Rightarrow> (case ttl_Get now key c of (c', v) \<Rightarrow> (s\<lparr>at_policyCache := Some c'\<rparr>, v)))"

definition policy_cache_set ::
    "instant \<Rightarrow> string \<times> string \<Rightarrow> policy_value \<Rightarrow> ('p, 'w, 'x) authz_state \<Rightarrow> ('p, 'w, 'x) authz_state" where
  "policy_cache_set now key v s = s\<lparr>at_policyCache := map_option (ttl_Set now key v) (at_policyCache s)\<rparr>"

definition getCommandPolicy ::
    "('p, 'w, 'x) authorizer \<Rightarrow> instant \<Rightarrow> string \<Rightarrow> string \<Rightarrow> ('p, 'w, 'x, policy_value) authz_op" where
  "getCommandPolicy A now pluginID commandName s =
     (case policy_cache_get now (pluginID, commandName) s of
        (s1, Some v) \<Rightarrow> (incAuthzCache ''policy'' ''hit'' s1, Inr v)
      | (s1, None) \<Rightarrow>
          let s2 = (if at_policyCache s1 \<noteq> None then incAuthzCache ''policy'' ''miss'' s1 else s1)
          in case as_GetCommandPolicy (az_store A) pluginID commandName (at_world s2) of
               (w, Inl err) \<Rightarrow> (s2\<lparr>at_world := w\<rparr>, Inl err)
             | (w, Inr v) \<Rightarrow> (policy_cache_set now (pluginID, commandName) v (s2\<lparr>at_world := w\<rparr>), Inr v))"

definition getPluginPolicy ::
    "('p, 'w, 'x) authorizer \<Rightarrow> instant \<Rightarrow> string \<Rightarrow> ('p, 'w, 'x, string) authz_op" where
  "getPluginPolicy A now pluginID s =
     (case policy_cache_get now (pluginID, '''') s of
        (s1, Some v) \<Rightarrow> (s1, Inr (pv_policyExpr v))
      | (s1, None) \<Rightarrow>
          (case as_GetPluginPolicy (az_store A) pluginID (at_world s1) of
             (w, Inl err) \<Rightarrow> (s1\<lparr>at_world := w\<rparr>, Inl err)
           | (w, Inr e) \<Rightarrow>
               (policy_cache_set now (pluginID, '''')
                  \<lparr>pv_enabled = True, pv_policyExpr = e, pv_found = (e \<noteq> '''')\<rparr> (s1\<lparr>at_world := w\<rparr>), Inr e)))"

text \<open>A permission check of the authorizer itself; without a client it panics.\<close>

definition checkPermission ::
    "('p, 'w, 'x) authorizer \<Rightarrow> string \<Rightarrow> string \<Rightarrow> string \<Rightarrow> string \<Rightarrow> 'w \<Rightarrow> ('w \<times> (go_error + bool)) option" where
  "checkPermission A objectType objectID permission subject w =
     map_option (\<lambda>cl. sp_CheckPermission cl False objectType objectID permission subject w) (az_client A)"

fun check_global_roles ::
    "('p, 'w, 'x) authorizer \<Rightarrow> string \<Rightarrow> string list \<Rightarrow> 'w \<Rightarrow> ('w \<times> (go_error + bool)) option" where
  "check_global_roles A subject [] w = Some (w, Inr True)"
| "check_global_roles A subject (role # roles) w =
     (case checkPermission A ''global_role'' role ''is_member'' subject w of
        None \<Rightarrow> None
      | Some (w1, Inl err) \<Rightarrow> Some (w1, Inl err)
      | Some (w1, Inr ok) \<Rightarrow> if \<not> ok then Some (w1, Inr False) else check_global_roles A subject roles w1)"

definition check_plugin_role ::
    "('p, 'w, 'x) authorizer \<Rightarrow> string \<Rightarrow> role_requirements \<Rightarrow> 'w \<Rightarrow> ('w \<times> (go_error + bool)) option" where
  "check_plugin_role A subject req w =
     (if rr_PluginID req \<noteq> '''' \<and> rr_PluginRole req \<noteq> ''''
      then (case checkPermission A ''plugin_role'' (rr_PluginRole req) ''is_member'' subject w of
              None \<Rightarrow> None
            | Some (w1, Inl err) \<Rightarrow> Some (w1, Inr False)
            | Some (w1, Inr ok) \<Rightarrow> Some (w1, Inr ok))
      else Some (w, Inr True))"

definition checkRolesSpice ::
    "('p, 'w, 'x) authorizer \<Rightarrow> user_id \<Rightarrow> role_requirements option \<Rightarrow> 'w \<Rightarrow> ('w \<times> (go_error + bool)) option" where
  "checkRolesSpice A userID req0 w =
     (case req0 of
        None \<Rightarrow> Some (w, Inr True)
      | Some req \<Rightarrow>
          if rr_SystemRole req = '''' \<and> rr_GlobalRoles req = [] \<and> rr_PluginID req = '''' then Some (w, Inr True)
          else
            let subject = FormatInt userID;
                rest = (\<lambda>w. case check_global_roles A subject (rr_GlobalRoles req) w of
                          Some (w1, Inr True) \<Rightarrow> check_plugin_role A subject req w1
                        | r \<Rightarrow> r)
            in if rr_SystemRole req \<noteq> ''''
               then (case checkPermission A ''system_role'' (rr_SystemRole req) ''is_member'' subject w of
                       Some (w1, Inr True) \<Rightarrow> rest w1
                     | r \<Rightarrow> r)
               else rest w)"

definition newSubjectContext :: "user_id \<Rightarrow> 'x subject_context" where
  "newSubjectContext userID = \<lparr>sc_UserID = userID, sc_ExternalID = '''', sc_Roles = [], sc_Groups = [],
     sc_PrimaryChannel = '''', sc_Locale = '''', sc_Attrs = Map.empty\<rparr>"

text \<open>An error of a load is logged and leaves its fields as they were.\<close>

definition loadSubjectBase ::
    "('p, 'w, 'x) authorizer \<Rightarrow> 'x subject_context \<Rightarrow> 'w \<Rightarrow> 'w \<times> 'x subject_context" where
  "loadSubjectBase A sc w =
     (let (w1, ext) = as_GetExternalID (az_store A) (sc_UserID sc) w;
          sc1 = (case ext of Inl _ \<Rightarrow> sc | Inr e \<Rightarrow> sc\<lparr>sc_ExternalID := e\<rparr>);
          (w2, roles) = as_GetAllRoleNames (az_store A) (sc_UserID sc) w1;
          sc2 = (case roles of Inl _ \<Rightarrow> sc1 | Inr rs \<Rightarrow> sc1\<lparr>sc_Roles := rs\<rparr>);
          (w3, cl) = as_GetUserChannelAndLocale (az_store A) (sc_UserID sc) w2;
          sc3 = (case cl of Inl _ \<Rightarrow> sc2 | Inr (ch, l) \<Rightarrow> sc2\<lparr>sc_PrimaryChannel := ch, sc_Locale := l\<rparr>)
      in (w3, sc3))"

definition lookupMemberGroups ::
    "('p, 'w, 'x) authorizer \<Rightarrow> user_id \<Rightarrow> 'w \<Rightarrow> 'w \<times> (go_error + string list)" where
  "lookupMemberGroups A userID w =
     (case az_client A of
        None \<Rightarrow> (w, Inr [])
      | Some cl \<Rightarrow> sp_LookupResources cl ''study_group'' ''view_own_data'' (FormatInt userID) w)"

fun load_attributes ::
    "('w, 'x) attribute_provider list \<Rightarrow> 'x subject_context \<Rightarrow> 'w \<Rightarrow> 'w \<times> 'x subject_context" where
  "load_attributes [] sc w = (w, sc)"
| "load_attributes (p # ps) sc w = (case p sc w of (w1, sc1, _) \<Rightarrow> load_attributes ps sc1 w1)"

definition loadSubjectEnrichment ::
    "('p, 'w, 'x) authorizer \<Rightarrow> 'x subject_context \<Rightarrow> 'w \<Rightarrow> 'w \<times> 'x subject_context" where
  "loadSubjectEnrichment A sc w =
     (if sc_ExternalID sc = '''' then (w, sc)
      else case lookupMemberGroups A (sc_UserID sc) w of
             (w1, groups) \<Rightarrow>
               load_attributes (az_providers A) (case groups of Inl _ \<Rightarrow> sc | Inr gs \<Rightarrow> sc\<lparr>sc_Groups := gs\<rparr>) w1)"

definition buildSubjectContext ::
    "('p, 'w, 'x) authorizer \<Rightarrow> instant \<Rightarrow> user_id \<Rightarrow> ('p, 'w, 'x) authz_state \<Rightarrow>
     ('p, 'w, 'x) authz_state \<times> 'x subject_context" where
  "buildSubjectContext A now userID s =
     (case (case at_subjectCache s of
              None \<Rightarrow> (s, None)
            | Some c \<Rightarrow> (case ttl_Get now userID c of (c', v) \<Rightarrow> (s\<lparr>at_subjectCache := Some c'\<rparr>, v))) of
        (s1, Some sc) \<Rightarrow> (incAuthzCache ''subject'' ''hit'' s1, sc)
      | (s1, None) \<Rightarrow>
          let s2 = (if at_subjectCache s1 \<noteq> None then incAuthzCache ''subject'' ''miss'' s1 else s1);
              (w1, sc1) = loadSubjectBase A (newSubjectContext userID) (at_world s2);
              (w2, sc2) = loadSubjectEnrichment A sc1 w1
          in (s2\<lparr>at_world := w2, at_subjectCache := map_option (ttl_Set now userID sc2) (at_subjectCache s2)\<rparr>, sc2))"

definition EvalPolicy ::
    "('p, 'w, 'x) authorizer \<Rightarrow> instant \<Rightarrow> string \<Rightarrow> user_id \<Rightarrow> ('p, 'w, 'x, bool) authz_op" where
  "EvalPolicy A now expression userID s =
     (case buildSubjectContext A now userID s of
        (s1, sc) \<Rightarrow>
          (case evaluate (az_lang A) expression (buildExprEnv sc (az_client A)) (at_compiled s1, at_world s1) of
             ((cache, w), r) \<Rightarrow> (s1\<lparr>at_compiled := cache, at_world := w\<rparr>, r)))"

text \<open>The second half of \<^verbatim>\<open>CheckCommand\<close>, with the label that its metric gets.\<close>

definition check_policies ::
    "('p, 'w, 'x) authorizer \<Rightarrow> instant \<Rightarrow> user_id \<Rightarrow> string \<Rightarrow> string \<Rightarrow> ('p, 'w, 'x) authz_state \<Rightarrow>
     ('p, 'w, 'x) authz_state \<times> string \<times> (go_error + bool)" where
  "check_policies A now userID pluginID commandName s =
     (if pluginID = '''' then (s, ''allow'', Inr True)
      else case getCommandPolicy A now pluginID commandName s of
             (s1, Inl err) \<Rightarrow> (s1, ''error'', Inl err)
           | (s1, Inr v) \<Rightarrow>
               if pv_found v \<and> \<not> pv_enabled v then (s1, ''deny'', Inr False)
               else case getPluginPolicy A now pluginID s1 of
                      (s2, Inl err) \<Rightarrow> (s2, ''error'', Inl err)
                    | (s2, Inr pluginPolicyExpr) \<Rightarrow>
                        let combined = combinePolicies pluginPolicyExpr (pv_policyExpr v)
                        in if combined \<noteq> ''''
                           then (case EvalPolicy A now combined userID s2 of
                                   (s3, Inl evalErr) \<Rightarrow> (s3, ''error'', Inr False)
                                 | (s3, Inr ok) \<Rightarrow> (s3, (if ok then ''allow'' else ''deny''), Inr ok))
                           else (s2, ''allow'', Inr True))"

definition CheckCommand ::
    "('p, 'w, 'x) authorizer \<Rightarrow> instant \<Rightarrow> user_id \<Rightarrow> string \<Rightarrow> string \<Rightarrow> role_requirements option \<Rightarrow>
     ('p, 'w, 'x) authz_state \<Rightarrow> (('p, 'w, 'x) authz_state \<times> (go_error + bool)) option" where
  "CheckCommand A now userID pluginID commandName requirements s =
     (let observe = (\<lambda>(s', label, r). (authz_metric_add (AuthzCheckObserved pluginID commandName label) s', r))
      in case checkRolesSpice A userID requirements (at_world s) of
           None \<Rightarrow> None
         | Some (w, Inl err) \<Rightarrow> Some (observe (s\<lparr>at_world := w\<rparr>, ''error'', Inl err))
         | Some (w, Inr False) \<Rightarrow> Some (observe (s\<lparr>at_world := w\<rparr>, ''deny'', Inr False))
         | Some (w, Inr True) \<Rightarrow> Some (observe (check_policies A now userID pluginID commandName (s\<lparr>at_world := w\<rparr>))))"

definition CheckAccess ::
    "('p, 'w, 'x) authorizer \<Rightarrow> user_id \<Rightarrow> role_requirements option \<Rightarrow> 'w \<Rightarrow> ('w \<times> (go_error + bool)) option" where
  "CheckAccess = checkRolesSpice"

definition CanExecute ::
    "('p, 'w, 'x) authorizer \<Rightarrow> instant \<Rightarrow> string \<Rightarrow> string \<Rightarrow> user_id \<Rightarrow> ('p, 'w, 'x) authz_state \<Rightarrow>
     (('p, 'w, 'x) authz_state \<times> (go_error + bool)) option" where
  "CanExecute A now pluginID commandName userID = CheckCommand A now userID pluginID commandName None"

definition InvalidateUser :: "user_id \<Rightarrow> ('p, 'w, 'x) authz_state \<Rightarrow> ('p, 'w, 'x) authz_state" where
  "InvalidateUser userID s = s\<lparr>at_subjectCache := map_option (ttl_Delete userID) (at_subjectCache s)\<rparr>"

definition InvalidateCommandPolicy :: "string \<Rightarrow> string \<Rightarrow> ('p, 'w, 'x) authz_state \<Rightarrow> ('p, 'w, 'x) authz_state" where
  "InvalidateCommandPolicy pluginID commandName s =
     s\<lparr>at_policyCache := map_option (ttl_Delete (pluginID, commandName)) (at_policyCache s)\<rparr>"

definition InvalidatePluginPolicy :: "string \<Rightarrow> ('p, 'w, 'x) authz_state \<Rightarrow> ('p, 'w, 'x) authz_state" where
  "InvalidatePluginPolicy pluginID s =
     s\<lparr>at_policyCache := map_option (ttl_Delete (pluginID, '''')) (at_policyCache s)\<rparr>"

definition ClearCaches :: "('p, 'w, 'x) authz_state \<Rightarrow> ('p, 'w, 'x) authz_state" where
  "ClearCaches s = s\<lparr>at_subjectCache := map_option ttl_Clear (at_subjectCache s),
     at_policyCache := map_option ttl_Clear (at_policyCache s)\<rparr>"

definition authz_SetMetrics :: "authz_metric list option \<Rightarrow> ('p, 'w, 'x) authz_state \<Rightarrow> ('p, 'w, 'x) authz_state" where
  "authz_SetMetrics m s = s\<lparr>at_metrics := m\<rparr>"

subsection \<open>The rule schema (schema.go)\<close>

record rule_param_option =
  ro_Value :: string
  ro_Label :: string

record rule_param =
  rp_Name :: string
  rp_Label :: string
  rp_Type :: string
  rp_Placeholder :: string
  rp_Options :: "rule_param_option list"
  rp_DependsOn :: string

record rule_condition_type =
  rc_ID :: string
  rc_Label :: string
  rc_Template :: string
  rc_Params :: "rule_param list"

record rule_schema =
  rs_ConditionTypes :: "rule_condition_type list"
  rs_FieldValues :: "string \<rightharpoonup> rule_param_option list"

record 'w schema_contributor =
  sb_ContributeConditions :: "'w \<Rightarrow> 'w \<times> rule_condition_type list"
  sb_ContributeFieldValues :: "'w \<Rightarrow> 'w \<times> (string \<rightharpoonup> rule_param_option list)"

text \<open>The labels, in UTF-8.\<close>

definition has_role_label :: string where
  "has_role_label =
     [CHR 0xD0, CHR 0x98, CHR 0xD0, CHR 0xBC, CHR 0xD0, CHR 0xB5, CHR 0xD0, CHR 0xB5, CHR 0xD1,
      CHR 0x82, CHR 0x20, CHR 0xD1, CHR 0x80, CHR 0xD0, CHR 0xBE, CHR 0xD0, CHR 0xBB, CHR 0xD1,
      CHR 0x8C]"

definition role_label :: string where
  "role_label = [CHR 0xD0, CHR 0xA0, CHR 0xD0, CHR 0xBE, CHR 0xD0, CHR 0xBB, CHR 0xD1, CHR 0x8C]"

definition role_placeholder :: string where
  "role_placeholder =
     [CHR 0xD0, CHR 0xB8, CHR 0xD0, CHR 0xBC, CHR 0xD1, CHR 0x8F, CHR 0x20, CHR 0xD1, CHR 0x80,
      CHR 0xD0, CHR 0xBE, CHR 0xD0, CHR 0xBB, CHR 0xD0, CHR 0xB8, CHR 0x20, CHR 0x28, CHR 0xD0,
      CHR 0xBD, CHR 0xD0, CHR 0xB0, CHR 0xD0, CHR 0xBF, CHR 0xD1, CHR 0x80, CHR 0x2E, CHR 0x20,
      CHR 0x41, CHR 0x44, CHR 0x4D, CHR 0x49, CHR 0x4E, CHR 0x29]"

definition buildRoleType :: "'w authz_store \<Rightarrow> 'w \<Rightarrow> 'w \<times> rule_condition_type" where
  "buildRoleType store w =
     (case as_GetDistinctRoleNames store w of
        (w1, roleOptions) \<Rightarrow>
          (w1, \<lparr>rc_ID = ''role'', rc_Label = has_role_label,
                rc_Template = ''has_role('' @ [CHR 0x22] @ ''{roleName}'' @ [CHR 0x22] @ '')'',
                rc_Params = [\<lparr>rp_Name = ''roleName'', rp_Label = role_label,
                  rp_Type = (if length roleOptions > 0 then ''text_or_select'' else ''text''),
                  rp_Placeholder = role_placeholder,
                  rp_Options = map (\<lambda>name. \<lparr>ro_Value = name, ro_Label = name\<rparr>) roleOptions,
                  rp_DependsOn = []\<rparr>]\<rparr>))"

fun contribute ::
    "'w schema_contributor list \<Rightarrow> rule_condition_type list \<times> (string \<rightharpoonup> rule_param_option list) \<Rightarrow> 'w \<Rightarrow>
     'w \<times> rule_condition_type list \<times> (string \<rightharpoonup> rule_param_option list)" where
  "contribute [] (conds, fvs) w = (w, conds, fvs)"
| "contribute (c # cs) (conds, fvs) w =
     (case sb_ContributeConditions c w of
        (w1, cts) \<Rightarrow>
          (case sb_ContributeFieldValues c w1 of
             (w2, new) \<Rightarrow> contribute cs (conds @ cts, fvs ++ new) w2))"

definition RuleSchema_Build ::
    "'w authz_store \<Rightarrow> 'w schema_contributor list \<Rightarrow> 'w \<Rightarrow> 'w \<times> rule_schema" where
  "RuleSchema_Build store contributors w =
     (case contribute contributors ([], Map.empty) w of
        (w1, conds, fvs) \<Rightarrow>
          (case buildRoleType store w1 of
             (w2, roleType) \<Rightarrow> (w2, \<lparr>rs_ConditionTypes = conds @ [roleType], rs_FieldValues = fvs\<rparr>)))"

subsection \<open>The cache against its history\<close>

text \<open>
  A history lists operations with their instants, the latest first; \<open>live\<close> is the last value set
  for a key and not deleted since, with the instant it was set.
\<close>

datatype ('k, 'v) cache_op = OGet 'k | OSet 'k 'v | ODelete 'k | OClear

fun run_cache :: "duration \<Rightarrow> (instant \<times> ('k, 'v) cache_op) list \<Rightarrow> ('k, 'v) ttl_cache" where
  "run_cache ttl [] = NewTTLCache ttl"
| "run_cache ttl ((t, OGet k) # h) = fst (ttl_Get t k (run_cache ttl h))"
| "run_cache ttl ((t, OSet k v) # h) = ttl_Set t k v (run_cache ttl h)"
| "run_cache ttl ((t, ODelete k) # h) = ttl_Delete k (run_cache ttl h)"
| "run_cache ttl ((t, OClear) # h) = ttl_Clear (run_cache ttl h)"

fun live :: "'k \<Rightarrow> (instant \<times> ('k, 'v) cache_op) list \<Rightarrow> ('v \<times> instant) option" where
  "live k [] = None"
| "live k ((t, OGet k') # h) = live k h"
| "live k ((t, OSet k' v) # h) = (if k' = k then Some (v, t) else live k h)"
| "live k ((t, ODelete k') # h) = (if k' = k then None else live k h)"
| "live k ((t, OClear) # h) = None"

fun times_ordered :: "instant \<Rightarrow> (instant \<times> 'o) list \<Rightarrow> bool" where
  "times_ordered now [] = True"
| "times_ordered now ((t, _) # h) = (t \<le> now \<and> times_ordered t h)"

lemma run_cache_ttl [simp]: "tc_ttl (run_cache ttl h) = ttl"
  by (induction ttl h rule: run_cache.induct)
    (auto simp: NewTTLCache_def ttl_Get_def ttl_Set_def ttl_Delete_def ttl_Clear_def split: option.split)

text \<open>The cache holds the live value, or has dropped it after its time.\<close>

lemma run_cache_entries:
  "times_ordered now h \<Longrightarrow>
   tc_entries (run_cache ttl h) k = map_option (\<lambda>(v, t). (v, t + ttl)) (live k h) \<or>
   tc_entries (run_cache ttl h) k = None \<and> (\<exists>v t. live k h = Some (v, t) \<and> now > t + ttl)"
proof (induction ttl h arbitrary: now rule: run_cache.induct)
  case (2 ttl t k' h)
  then have IH: "tc_entries (run_cache ttl h) k = map_option (\<lambda>(v, t). (v, t + ttl)) (live k h) \<or>
      tc_entries (run_cache ttl h) k = None \<and> (\<exists>v u. live k h = Some (v, u) \<and> t > u + ttl)" and "t \<le> now"
    by auto
  then show ?case by (auto simp: ttl_Get_def split: option.split)
next
  case (3 ttl t k' v h)
  then have "t \<le> now" "times_ordered t h" by auto
  then show ?case using "3.IH" [of t] by (auto simp: ttl_Set_def simp del: map_option_eq_Some)
next
  case (4 ttl t k' h)
  then have "t \<le> now" "times_ordered t h" by auto
  then show ?case using "4.IH" [of t] by (auto simp: ttl_Delete_def simp del: map_option_eq_Some)
qed (auto simp: NewTTLCache_def ttl_Clear_def)

text \<open>
  C14. The cache implements its history: for operations at increasing instants a lookup returns the
  value last set for the key and not deleted or cleared since, unless its lifetime has passed, in
  which case, as without a value, it misses; lookups themselves never change what later lookups find.
\<close>

theorem ttl_cache_refines_history:
  assumes "times_ordered now h"
  shows "snd (ttl_Get now k (run_cache ttl h)) =
    (case live k h of Some (v, t) \<Rightarrow> if now \<le> t + ttl then Some v else None | None \<Rightarrow> None)"
  using run_cache_entries [OF assms, of ttl k] by (cases "live k h") (auto simp: ttl_Get_def)

definition demo_history :: "(instant \<times> (string, int) cache_op) list" where
  "demo_history = [(50, OGet ''b''), (20, OSet ''a'' 2), (10, OSet ''b'' 3), (0, OSet ''a'' 1)]"

theorem ttl_cache_refines_history_witness:
  "snd (ttl_Get 50 ''a'' (run_cache 30 demo_history)) = Some 2 \<and>
   snd (ttl_Get 51 ''a'' (run_cache 30 demo_history)) = None"
  using ttl_cache_refines_history [of 50 demo_history "''a''" 30] ttl_cache_refines_history [of 51 demo_history "''a''" 30]
  by (simp add: demo_history_def)

subsection \<open>Decisions about commands\<close>

text \<open>The objects on which a user needs \<^verbatim>\<open>is_member\<close> to meet the requirements.\<close>

definition required_roles :: "role_requirements \<Rightarrow> (string \<times> string) list" where
  "required_roles req =
     (if rr_SystemRole req \<noteq> '''' then [(''system_role'', rr_SystemRole req)] else []) @
     map (\<lambda>r. (''global_role'', r)) (rr_GlobalRoles req) @
     (if rr_PluginID req \<noteq> '''' \<and> rr_PluginRole req \<noteq> '''' then [(''plugin_role'', rr_PluginRole req)] else [])"

definition granted :: "'w spice_client \<Rightarrow> user_id \<Rightarrow> string \<times> string \<Rightarrow> bool" where
  "granted cl userID role \<longleftrightarrow>
     (\<exists>w w'. sp_CheckPermission cl False (fst role) (snd role) ''is_member'' (FormatInt userID) w = (w', Inr True))"

lemma checkPermission_client: "az_client A = Some cl \<Longrightarrow>
   checkPermission A ty i perm subject w = Some (sp_CheckPermission cl False ty i perm subject w)"
  by (simp add: checkPermission_def)

lemma checkPermission_nil [simp]: "az_client A = None \<Longrightarrow> checkPermission A ty i perm subject w = None"
  by (simp add: checkPermission_def)

lemma global_roles_granted:
  assumes "az_client A = Some cl"
  shows "check_global_roles A (FormatInt u) roles w = Some (w', Inr True) \<Longrightarrow>
         \<forall>r \<in> set roles. granted cl u (''global_role'', r)"
proof (induction roles arbitrary: w)
  case (Cons r roles)
  from Cons.prems obtain w1 where
      "sp_CheckPermission cl False ''global_role'' r ''is_member'' (FormatInt u) w = (w1, Inr True)"
      "check_global_roles A (FormatInt u) roles w1 = Some (w', Inr True)"
    by (auto simp: checkPermission_client [OF assms] split: prod.splits sum.splits if_splits)
  then show ?case using Cons.IH by (auto simp: granted_def)
qed simp

lemma plugin_role_granted:
  assumes "az_client A = Some cl" "check_plugin_role A (FormatInt u) req w = Some (w', Inr True)"
    and "rr_PluginID req \<noteq> ''''" "rr_PluginRole req \<noteq> ''''"
  shows "granted cl u (''plugin_role'', rr_PluginRole req)"
  using assms by (auto simp: check_plugin_role_def checkPermission_client granted_def split: prod.splits sum.splits)

lemma check_global_roles_total: "az_client A = Some cl \<Longrightarrow> check_global_roles A subject roles w \<noteq> None"
  by (induction roles arbitrary: w) (auto simp: checkPermission_client split: prod.split sum.split)

text \<open>The two halves of the check, joined by the success of the first.\<close>

definition then_check ::
    "('w \<times> (go_error + bool)) option \<Rightarrow> ('w \<Rightarrow> ('w \<times> (go_error + bool)) option) \<Rightarrow> ('w \<times> (go_error + bool)) option" where
  "then_check r f = (case r of Some (w, Inr True) \<Rightarrow> f w | _ \<Rightarrow> r)"

lemma case_then_check: "(case r of Some (w, Inr True) \<Rightarrow> f w | r' \<Rightarrow> r') = then_check r f"
  by (auto simp: then_check_def split: option.split sum.split bool.split)

lemma then_check_True:
  "then_check r f = Some (w', Inr True) \<longleftrightarrow> (\<exists>w. r = Some (w, Inr True) \<and> f w = Some (w', Inr True))"
  by (auto simp: then_check_def split: option.splits prod.splits sum.splits bool.splits)

lemma then_check_None: "then_check r f = None \<longleftrightarrow> r = None \<or> (\<exists>w. r = Some (w, Inr True) \<and> f w = None)"
  by (auto simp: then_check_def split: option.splits prod.splits sum.splits bool.splits)

lemma checkRolesSpice_eq:
  "checkRolesSpice A u (Some req) w =
     (if required_roles req = [] then Some (w, Inr True)
      else then_check
        (if rr_SystemRole req \<noteq> '''' then checkPermission A ''system_role'' (rr_SystemRole req) ''is_member'' (FormatInt u) w
         else Some (w, Inr True))
        (\<lambda>w. then_check (check_global_roles A (FormatInt u) (rr_GlobalRoles req) w)
               (check_plugin_role A (FormatInt u) req)))"
proof (cases "rr_SystemRole req = '''' \<and> rr_GlobalRoles req = []")
  case True
  then show ?thesis
    by (simp add: checkRolesSpice_def case_then_check required_roles_def check_plugin_role_def Let_def)
      (simp add: then_check_def check_plugin_role_def)
next
  case False
  then show ?thesis
    by (auto simp: checkRolesSpice_def case_then_check required_roles_def Let_def)
      (simp_all add: then_check_def)
qed

lemma roles_granted:
  assumes "checkRolesSpice A u (Some req) w = Some (w', Inr True)" and "az_client A = Some cl"
  shows "\<forall>role \<in> set (required_roles req). granted cl u role"
proof (cases "required_roles req = []")
  case False
  then obtain w1 w2 where
      sys: "rr_SystemRole req = '''' \<or>
        checkPermission A ''system_role'' (rr_SystemRole req) ''is_member'' (FormatInt u) w = Some (w1, Inr True)"
      and glob: "check_global_roles A (FormatInt u) (rr_GlobalRoles req) w1 = Some (w2, Inr True)"
      and plug: "check_plugin_role A (FormatInt u) req w2 = Some (w', Inr True)"
    using assms(1) by (auto simp: checkRolesSpice_eq then_check_True split: if_splits)
  have "rr_SystemRole req \<noteq> '''' \<Longrightarrow> granted cl u (''system_role'', rr_SystemRole req)"
    using sys assms(2) by (auto simp: checkPermission_client granted_def)
  then show ?thesis
    using global_roles_granted [OF assms(2) glob] plugin_role_granted [OF assms(2) plug]
    by (auto simp: required_roles_def)
qed simp

lemma roles_panic_iff:
  "checkRolesSpice A u (Some req) w = None \<longleftrightarrow> az_client A = None \<and> required_roles req \<noteq> []"
proof (cases "az_client A")
  case None
  then have "check_global_roles A s (r # rs) v = None" for s r rs v by simp
  with None show ?thesis
    by (cases "rr_GlobalRoles req")
      (auto simp: checkRolesSpice_eq then_check_def check_plugin_role_def required_roles_def)
next
  case (Some cl)
  have "check_plugin_role A s req v \<noteq> None" for s v
    by (auto simp: check_plugin_role_def checkPermission_client [OF Some] split: prod.split sum.split)
  with Some show ?thesis
    by (auto simp: checkRolesSpice_eq then_check_None checkPermission_client check_global_roles_total
        simp del: not_None_eq split: if_splits)
qed

lemma CheckCommand_True:
  assumes "CheckCommand A now u p c req s = Some (s', Inr True)"
  obtains w s1 label where "checkRolesSpice A u req (at_world s) = Some (w, Inr True)"
    and "check_policies A now u p c (s\<lparr>at_world := w\<rparr>) = (s1, label, Inr True)"
  using assms by (auto simp: CheckCommand_def Let_def split: option.splits prod.splits sum.splits bool.splits)

lemma checkCommand_no_panic:
  "CheckCommand A now u p c req s = None \<longleftrightarrow>
     az_client A = None \<and> (\<exists>r. req = Some r \<and> required_roles r \<noteq> [])"
proof -
  have "CheckCommand A now u p c req s = None \<longleftrightarrow> checkRolesSpice A u req (at_world s) = None"
    by (auto simp: CheckCommand_def Let_def split: option.splits prod.splits sum.splits bool.splits)
  moreover have "checkRolesSpice A u None (at_world s) \<noteq> None" by (simp add: checkRolesSpice_def)
  ultimately show ?thesis by (cases req) (simp_all add: roles_panic_iff del: not_None_eq)
qed

text \<open>
  C13. A command that the authorizer allows is one whose user was confirmed by SpiceDB to have every
  required role: the system role, all global roles and the plugin role.
\<close>

theorem allowed_command_has_roles:
  assumes "CheckCommand A now u p c (Some req) s = Some (s', Inr True)" and "role \<in> set (required_roles req)"
  shows "\<exists>cl. az_client A = Some cl \<and> granted cl u role"
proof -
  obtain w where ok: "checkRolesSpice A u (Some req) (at_world s) = Some (w, Inr True)"
    using assms(1) by (rule CheckCommand_True)
  obtain cl where "az_client A = Some cl"
    using roles_panic_iff [of A u req "at_world s"] ok assms(2) by (cases "az_client A") auto
  with roles_granted [OF ok] assms(2) show ?thesis by blast
qed

text \<open>
  The check of a command panics just when the requirements name a role and no SpiceDB client is
  configured, a configuration in which the program starts with a warning; every other check,
  with or without errors of its services, returns.
\<close>

theorem checkCommand_panics_iff:
  "CheckCommand A now u p c req s = None \<longleftrightarrow>
     az_client A = None \<and> (\<exists>r. req = Some r \<and> required_roles r \<noteq> [])"
  by (rule checkCommand_no_panic)

text \<open>A service where user 7 is a member of everything, and a language of the constants.\<close>

definition demo_client :: "unit spice_client" where
  "demo_client = \<lparr>sp_CheckPermission = (\<lambda>full ty i perm u w. (w, Inr (u = FormatInt 7))),
     sp_LookupResources = (\<lambda>ty perm u w. (w, Inr []))\<rparr>"

definition demo_store :: "unit authz_store" where
  "demo_store = \<lparr>as_GetAllRoleNames = (\<lambda>u w. (w, Inr [''ADMIN''])),
     as_GetCommandPolicy = (\<lambda>p c w. (w, Inr \<lparr>pv_enabled = (c \<noteq> ''off''), pv_policyExpr = ''role'', pv_found = True\<rparr>)),
     as_GetPluginPolicy = (\<lambda>p w. (w, Inr '''')), as_GetExternalID = (\<lambda>u w. (w, Inr '''')),
     as_GetUserChannelAndLocale = (\<lambda>u w. (w, Inr ('''', ''''))), as_GetDistinctRoleNames = (\<lambda>w. (w, []))\<rparr>"

definition demo_lang :: "(string, unit, unit) expr_lang" where
  "demo_lang = \<lparr>xl_Compile = (\<lambda>e. if e = '''' then Inl (Plain ''empty'') else Inr e),
     xl_Run = (\<lambda>p env w. (w, Inr (Inr (ev_HasRole env ''ADMIN''))))\<rparr>"

definition demo_authorizer :: "(string, unit, unit) authorizer" where
  "demo_authorizer = \<lparr>az_store = demo_store, az_client = Some demo_client, az_providers = [], az_lang = demo_lang\<rparr>"

definition demo_requirements :: role_requirements where
  "demo_requirements = \<lparr>rr_SystemRole = ''ADMIN'', rr_GlobalRoles = [''staff''], rr_PluginID = '''', rr_PluginRole = '''',
     rr_ScopeEntityID = None\<rparr>"

definition demo_authz_state :: "(string, unit, unit) authz_state" where
  "demo_authz_state = NewAuthorizer \<lparr>cc_exprs = Map.empty, cc_count = 0\<rparr> ()"

lemmas demo_authz_eval = demo_authorizer_def demo_store_def demo_client_def demo_lang_def demo_requirements_def
  demo_authz_state_def NewAuthorizer_def NewAuthorizerWithTTL_def

lemma demo_allowed:
  "snd (the (CheckCommand demo_authorizer 0 7 ''p'' ''c'' (Some demo_requirements) demo_authz_state)) = Inr True"
  by (simp add: demo_authz_eval CheckCommand_def checkRolesSpice_def checkPermission_def check_plugin_role_def Let_def
      check_policies_def getCommandPolicy_def getPluginPolicy_def policy_cache_get_def policy_cache_set_def
      DefaultPolicyCacheTTL_def DefaultSubjectCacheTTL_def duration_defs NewTTLCache_def ttl_Get_def ttl_Set_def
      incAuthzCache_def authz_metric_add_def combinePolicies_def EvalPolicy_def buildSubjectContext_def
      loadSubjectBase_def loadSubjectEnrichment_def newSubjectContext_def evaluate_def compiled_program_def
      buildExprEnv_def maxCompiledExprs_def)

theorem allowed_command_has_roles_witness:
  "\<exists>cl. az_client demo_authorizer = Some cl \<and> granted cl 7 (''global_role'', ''staff'')"
proof -
  let ?r = "CheckCommand demo_authorizer 0 7 ''p'' ''c'' (Some demo_requirements) demo_authz_state"
  have "?r \<noteq> None" unfolding checkCommand_no_panic by (simp add: demo_authorizer_def)
  with demo_allowed have "?r = Some (fst (the ?r), Inr True)" by (metis option.collapse prod.collapse)
  then show ?thesis
    by (rule allowed_command_has_roles) (simp add: required_roles_def demo_requirements_def)
qed

subsection \<open>Compiled expressions and graph checks\<close>

text \<open>Cached programs are those of the compiler, and the counter counts them.\<close>

definition compiled_ok :: "('p, 'w, 'x) expr_lang \<Rightarrow> 'p compiled_cache \<Rightarrow> bool" where
  "compiled_ok L cache \<longleftrightarrow> (\<forall>e p. cc_exprs cache e = Some p \<longrightarrow> xl_Compile L e = Inr p) \<and>
     finite (dom (cc_exprs cache)) \<and> cc_count cache = int (card (dom (cc_exprs cache))) \<and>
     cc_count cache \<le> maxCompiledExprs"

lemma compiled_program_result:
  "compiled_ok L cache \<Longrightarrow> snd (compiled_program L e cache) = map_sum (\<lambda>err. Wrap ''compile expression: '' err '''') id (xl_Compile L e)"
  by (auto simp: compiled_program_def compiled_ok_def Let_def split: option.split sum.split)

lemma compiled_program_ok:
  assumes "compiled_ok L cache"
  shows "compiled_ok L (fst (compiled_program L e cache))"
proof (cases "cc_exprs cache e")
  case None
  show ?thesis
  proof (cases "xl_Compile L e")
    case (Inr p)
    let ?base = "if cc_count cache \<ge> maxCompiledExprs then \<lparr>cc_exprs = Map.empty, cc_count = 0\<rparr> else cache"
    have base: "compiled_ok L ?base" "cc_exprs ?base e = None" "cc_count ?base < maxCompiledExprs"
      using assms None by (auto simp: compiled_ok_def maxCompiledExprs_def)
    then have "compiled_ok L \<lparr>cc_exprs = (cc_exprs ?base)(e \<mapsto> p), cc_count = cc_count ?base + 1\<rparr>"
      using Inr by (auto simp: compiled_ok_def domIff)
    then show ?thesis by (simp add: compiled_program_def None Inr Let_def)
  qed (use assms None in \<open>simp add: compiled_program_def\<close>)
qed (use assms in \<open>simp add: compiled_program_def\<close>)

text \<open>What evaluation does with a compiled program.\<close>

definition run_program :: "('p, 'w, 'x) expr_lang \<Rightarrow> 'p \<Rightarrow> ('w, 'x) expr_env \<Rightarrow> 'w \<Rightarrow> 'w \<times> (go_error + bool)" where
  "run_program L p env w = (case xl_Run L p env w of
     (w1, Inl err) \<Rightarrow> (w1, Inl (Wrap ''run expression: '' err ''''))
   | (w1, Inr (Inl ty)) \<Rightarrow> (w1, Inl (Plain (''expression must return bool, got '' @ ty)))
   | (w1, Inr (Inr b)) \<Rightarrow> (w1, Inr b))"

lemma evaluate_result:
  "snd (fst (evaluate L e env (c, w))) =
     (case snd (compiled_program L e c) of Inl err \<Rightarrow> w | Inr p \<Rightarrow> fst (run_program L p env w))"
  "snd (evaluate L e env (c, w)) =
     (case snd (compiled_program L e c) of Inl err \<Rightarrow> Inl err | Inr p \<Rightarrow> snd (run_program L p env w))"
  by (cases "compiled_program L e c"; auto simp: evaluate_def run_program_def split: prod.split sum.split)+

text \<open>
  The cache of compiled expressions is bounded and cannot be observed: it never holds more than
  1024 programs, and evaluating with it gives the same answer and the same effects as evaluating
  without any cached program.
\<close>

theorem compiled_cache_bounded_transparent:
  assumes "compiled_ok L cache"
  shows "compiled_ok L (fst (fst (evaluate L e env (cache, w)))) \<and>
    card (dom (cc_exprs (fst (fst (evaluate L e env (cache, w)))))) \<le> 1024 \<and>
    snd (fst (evaluate L e env (cache, w))) = snd (fst (evaluate L e env (\<lparr>cc_exprs = Map.empty, cc_count = 0\<rparr>, w))) \<and>
    snd (evaluate L e env (cache, w)) = snd (evaluate L e env (\<lparr>cc_exprs = Map.empty, cc_count = 0\<rparr>, w))"
proof -
  let ?empty = "\<lparr>cc_exprs = Map.empty, cc_count = 0\<rparr>"
  have cache': "fst (fst (evaluate L e env (cache, w))) = fst (compiled_program L e cache)"
    by (simp add: evaluate_def split: prod.split sum.split)
  have ok: "compiled_ok L (fst (compiled_program L e cache))" by (rule compiled_program_ok [OF assms])
  have "compiled_ok L ?empty" by (simp add: compiled_ok_def maxCompiledExprs_def)
  then have "snd (compiled_program L e cache) = snd (compiled_program L e ?empty)"
    using assms by (simp add: compiled_program_result)
  then have "snd (fst (evaluate L e env (cache, w))) = snd (fst (evaluate L e env (?empty, w)))"
      "snd (evaluate L e env (cache, w)) = snd (evaluate L e env (?empty, w))"
    by (simp_all add: evaluate_result)
  moreover have "card (dom (cc_exprs (fst (compiled_program L e cache)))) \<le> 1024"
    using ok by (simp add: compiled_ok_def maxCompiledExprs_def)
  ultimately show ?thesis using ok unfolding cache' by blast
qed

theorem compiled_cache_bounded_transparent_witness:
  "compiled_ok demo_lang (fst (fst (evaluate demo_lang ''role'' (buildExprEnv (newSubjectContext 7) None)
     (\<lparr>cc_exprs = [''role'' \<mapsto> ''role''], cc_count = 1\<rparr>, ()))))"
proof -
  have "compiled_ok demo_lang \<lparr>cc_exprs = [''role'' \<mapsto> ''role''], cc_count = 1\<rparr>"
    by (simp add: compiled_ok_def demo_lang_def maxCompiledExprs_def)
  from compiled_cache_bounded_transparent [OF this] show ?thesis by blast
qed

text \<open>
  Checks on the university graph never use the bot's own user ID: on objects of university types,
  the old alias of study groups included, the check of two subjects with the same external ID is the
  same, whatever their user IDs, and for a subject without an external ID it is denied without
  asking the service.
\<close>

theorem university_checks_use_external_id:
  assumes "objectType \<in> set university_types \<or> objectType = ''group''"
  shows "checkSpice (sc\<lparr>sc_UserID := u\<rparr>) client permission objectType i w = checkSpice sc client permission objectType i w \<and>
         checkSpice (sc\<lparr>sc_ExternalID := ''''\<rparr>) client permission objectType i w = (w, Inr False)"
proof -
  have "''study_group'' \<in> set university_types" by (simp add: university_types_def)
  then obtain ty where ty: "(if objectType = ''group'' then ''study_group'' else objectType) = ty"
      "ty \<in> set university_types"
    using assms by (cases "objectType = ''group''") simp_all
  have "sc_ExternalID (sc\<lparr>sc_UserID := u\<rparr>) = sc_ExternalID sc" by simp
  with ty(2) show ?thesis unfolding checkSpice_def Let_def ty(1) by (simp split: option.split)
qed

theorem university_checks_use_external_id_witness:
  "checkSpice (newSubjectContext 7 :: unit subject_context) (Some demo_client) ''member'' ''group'' ''g1'' () = ((), Inr False)"
  using university_checks_use_external_id [of "''group''" 7 "newSubjectContext 7 :: unit subject_context" "Some demo_client"
      "''member''" "''g1''" "()"]
  by (simp add: newSubjectContext_def)

end
