(* ===== verification/Plugin_Host.thy ===== *)
theory Plugin_Host
  imports Bot_Model "HOL-Library.AList" "HOL-Library.Word"
begin

text \<open>
  What plugins may ask of the host (\<^verbatim>\<open>internal/wasm/hostapi\<close>): permissions derived from a plugin's
  requirements (\<^verbatim>\<open>permissions.go\<close>), call limits per execution (\<^verbatim>\<open>ratelimit.go\<close>), the key-value store
  with its quotas (\<^verbatim>\<open>kvstore.go\<close>, \<^verbatim>\<open>host_kv.go\<close>), the policies for HTTP requests
  (\<^verbatim>\<open>http_policy.go\<close>) and calls between plugins (\<^verbatim>\<open>host_plugins.go\<close>).

  Reading and decoding a request from the module's memory is an argument of a host function (its
  error, or the request), and its answer is a value; the memory of a module and the wire format are
  those of the WebAssembly runtime and of msgpack. A Go map that is ranged over is an association
  list.
\<close>

subsection \<open>Permissions (permissions.go)\<close>

record requirement_def =
  rq_Type :: string
  rq_Description :: string
  rq_Name :: string
  rq_Target :: string
  rq_Config :: string

definition requirement_permission :: "requirement_def \<Rightarrow> string list" where
  "requirement_permission r =
     (if rq_Type r = ''database'' then [''sql'']
      else if rq_Type r = ''http'' then [''network'']
      else if rq_Type r = ''kv'' then [''kv'']
      else if rq_Type r = ''notify'' then [''notify'']
      else if rq_Type r = ''events'' then [''events'']
      else if rq_Type r = ''file'' then [''file'']
      else if rq_Type r = ''user_info'' then [''user_info'']
      else if rq_Type r = ''plugin'' then (if rq_Target r \<noteq> '''' then [''plugins:call:'' @ rq_Target r] else [])
      else [])"

definition PermissionsFromRequirements :: "requirement_def list \<Rightarrow> string list" where
  "PermissionsFromRequirements reqs = concat (map requirement_permission reqs)"

type_synonym permission_store = "string \<rightharpoonup> string list"

definition newPermissionStore :: permission_store where
  "newPermissionStore = Map.empty"

text \<open>The set of a plugin's permissions, as the list of its elements.\<close>

definition Grant :: "string \<Rightarrow> string list \<Rightarrow> permission_store \<Rightarrow> permission_store" where
  "Grant pluginID permissions ps = ps(pluginID \<mapsto> remdups permissions)"

definition Revoke :: "string \<Rightarrow> permission_store \<Rightarrow> permission_store" where
  "Revoke pluginID ps = ps(pluginID := None)"

definition permission_denied :: "string \<Rightarrow> go_error" where
  "permission_denied t = Wrap '''' (Plain ''permission denied'') t"

definition CheckPermission :: "permission_store \<Rightarrow> string \<Rightarrow> string \<Rightarrow> go_error option" where
  "CheckPermission ps pluginID requiredPermission =
     (case ps pluginID of
        None \<Rightarrow> Some (permission_denied ('': plugin '' @ quote pluginID @ '' has no registered permissions''))
      | Some perms \<Rightarrow>
          if requiredPermission \<notin> set perms
          then Some (permission_denied ('': plugin '' @ quote pluginID @ '' lacks permission '' @ quote requiredPermission))
          else None)"

definition List_permissions :: "permission_store \<Rightarrow> string \<Rightarrow> string list" where
  "List_permissions ps pluginID = (case ps pluginID of None \<Rightarrow> [] | Some perms \<Rightarrow> perms)"

subsection \<open>Call limits (ratelimit.go)\<close>

definition DefaultRateLimits :: "string \<rightharpoonup> int" where
  "DefaultRateLimits = map_of
     [(''http_request'', 20), (''call_plugin'', 10), (''publish_event'', 50), (''kv_get'', 200), (''kv_set'', 200),
      (''kv_delete'', 100), (''kv_list'', 50), (''sql_open'', 10), (''sql_close'', 10), (''sql_exec'', 100),
      (''sql_query'', 100), (''sql_next'', 5000), (''sql_rows_close'', 100), (''sql_begin'', 20), (''sql_end'', 20),
      (''file_meta'', 50), (''file_read'', 50), (''file_read_into'', 50), (''file_url'', 20), (''file_store'', 10)]"

record rate_limiter =
  rl_counts :: "string \<Rightarrow> int"
  rl_limits :: "string \<rightharpoonup> int"
  rl_pluginID :: string

definition NewRateLimiter :: "string \<Rightarrow> (string \<rightharpoonup> int) option \<Rightarrow> rate_limiter" where
  "NewRateLimiter pluginID limits =
     \<lparr>rl_counts = (\<lambda>_. 0), rl_limits = (case limits of None \<Rightarrow> DefaultRateLimits | Some l \<Rightarrow> l), rl_pluginID = pluginID\<rparr>"

definition Allow :: "string \<Rightarrow> rate_limiter \<Rightarrow> rate_limiter \<times> go_error option" where
  "Allow funcName rl =
     (case rl_limits rl funcName of
        None \<Rightarrow> (rl, None)
      | Some limit \<Rightarrow>
          if rl_counts rl funcName \<ge> limit
          then (rl, Some (Plain (''rate limit exceeded for '' @ funcName @ '': max '' @ FormatInt limit @ '' calls per execution'')))
          else (rl\<lparr>rl_counts := (rl_counts rl)(funcName := rl_counts rl funcName + 1)\<rparr>, None))"

subsection \<open>The key-value store (kvstore.go, runtime/limits.go)\<close>

definition KVMaxKeysPerPlugin :: nat where "KVMaxKeysPerPlugin = 1000"
definition KVMaxValueSize :: int where "KVMaxValueSize = 64 * 1024"
definition KVMaxTotalPerPlugin :: int where "KVMaxTotalPerPlugin = 10 * 1024 * 1024"

text \<open>The expiry is present just when the entry has a lifetime.\<close>

record kv_entry =
  kv_value :: string
  kv_size :: int
  kv_expiresAt :: "instant option"

definition isExpired :: "instant \<Rightarrow> kv_entry \<Rightarrow> bool" where
  "isExpired now e = (case kv_expiresAt e of None \<Rightarrow> False | Some t \<Rightarrow> now > t)"

record plugin_kv =
  pk_entries :: "(string \<times> kv_entry) list"
  pk_totalSize :: int

type_synonym kv_store = "string \<rightharpoonup> plugin_kv"

definition NewKVStore :: kv_store where
  "NewKVStore = Map.empty"

definition empty_kv :: plugin_kv where
  "empty_kv = \<lparr>pk_entries = [], pk_totalSize = 0\<rparr>"

definition getOrCreatePluginKV :: "string \<Rightarrow> kv_store \<Rightarrow> kv_store \<times> plugin_kv" where
  "getOrCreatePluginKV pluginID s =
     (case s pluginID of Some pk \<Rightarrow> (s, pk) | None \<Rightarrow> (s(pluginID \<mapsto> empty_kv), empty_kv))"

definition drop_key :: "string \<Rightarrow> int \<Rightarrow> plugin_kv \<Rightarrow> plugin_kv" where
  "drop_key key sz pk = \<lparr>pk_entries = AList.delete key (pk_entries pk), pk_totalSize = pk_totalSize pk - sz\<rparr>"

definition kv_Get :: "instant \<Rightarrow> string \<Rightarrow> string \<Rightarrow> kv_store \<Rightarrow> kv_store \<times> string option" where
  "kv_Get now pluginID key s =
     (case getOrCreatePluginKV pluginID s of
        (s1, pk) \<Rightarrow>
          (case map_of (pk_entries pk) key of
             None \<Rightarrow> (s1, None)
           | Some e \<Rightarrow>
               if isExpired now e then (s1(pluginID \<mapsto> drop_key key (kv_size e) pk), None)
               else (s1, Some (kv_value e))))"

fun evict_loop :: "instant \<Rightarrow> (string \<times> kv_entry) list \<Rightarrow> plugin_kv \<Rightarrow> plugin_kv" where
  "evict_loop now [] pk = pk"
| "evict_loop now ((key, e) # es) pk =
     evict_loop now es (if isExpired now e then drop_key key (kv_size e) pk else pk)"

definition evictExpiredLocked :: "instant \<Rightarrow> plugin_kv \<Rightarrow> plugin_kv" where
  "evictExpiredLocked now pk = evict_loop now (pk_entries pk) pk"

definition kv_Set :: "instant \<Rightarrow> string \<Rightarrow> string \<Rightarrow> string \<Rightarrow> duration \<Rightarrow> kv_store \<Rightarrow> kv_store \<times> go_error option" where
  "kv_Set now pluginID key val ttl s =
     (if int (length val) > KVMaxValueSize
      then (s, Some (Plain (''value too large: '' @ FormatInt (int (length val)) @ '' bytes (max '' @ FormatInt KVMaxValueSize @ '')'')))
      else case getOrCreatePluginKV pluginID s of
             (s1, pk0) \<Rightarrow>
               let entrySize = int (length key) + int (length val);
                   pk = evictExpiredLocked now pk0;
                   s2 = s1(pluginID \<mapsto> pk);
                   oldSize = (case map_of (pk_entries pk) key of Some old \<Rightarrow> kv_size old | None \<Rightarrow> 0)
               in if oldSize = 0 \<and> length (pk_entries pk) \<ge> KVMaxKeysPerPlugin
                  then (s2, Some (Plain (''too many keys: max '' @ FormatInt (int KVMaxKeysPerPlugin) @ '' per plugin'')))
                  else let newTotal = pk_totalSize pk - oldSize + entrySize
                       in if newTotal > KVMaxTotalPerPlugin
                          then (s2, Some (Plain (''total storage exceeded: would use '' @ FormatInt newTotal @
                                 '' bytes (max '' @ FormatInt KVMaxTotalPerPlugin @ '')'')))
                          else let entry = \<lparr>kv_value = val, kv_size = entrySize,
                                            kv_expiresAt = (if ttl > 0 then Some (now + ttl) else None)\<rparr>
                               in (s2(pluginID \<mapsto> \<lparr>pk_entries = AList.update key entry (pk_entries pk), pk_totalSize = newTotal\<rparr>), None))"

definition kv_Delete :: "string \<Rightarrow> string \<Rightarrow> kv_store \<Rightarrow> kv_store" where
  "kv_Delete pluginID key s =
     (case getOrCreatePluginKV pluginID s of
        (s1, pk) \<Rightarrow>
          (case map_of (pk_entries pk) key of
             None \<Rightarrow> s1 | Some e \<Rightarrow> s1(pluginID \<mapsto> drop_key key (kv_size e) pk)))"

definition kv_List :: "instant \<Rightarrow> string \<Rightarrow> string \<Rightarrow> kv_store \<Rightarrow> kv_store \<times> string list" where
  "kv_List now pluginID prefix1 s =
     (case getOrCreatePluginKV pluginID s of
        (s1, pk) \<Rightarrow>
          (s1, map fst (filter (\<lambda>(k, e). \<not> isExpired now e \<and> \<not> (prefix1 \<noteq> '''' \<and> \<not> HasPrefix k prefix1)) (pk_entries pk))))"

definition DropPlugin :: "string \<Rightarrow> kv_store \<Rightarrow> kv_store" where
  "DropPlugin pluginID s = s(pluginID := None)"

subsection \<open>Host functions of the key-value store (host_kv.go)\<close>

text \<open>
  A \<^verbatim>\<open>time.Duration\<close> is a 64-bit integer: the product of seconds wraps around.
\<close>

definition wrap64 :: "int \<Rightarrow> int" where
  "wrap64 i = (i + 2 ^ 63) mod 2 ^ 64 - 2 ^ 63"

text \<open>
  What a host function answers: an error, a value, or a value that reports a failure.
\<close>

datatype 'r host_answer = HostError go_error | HostAnswer 'r | HostFailed 'r

definition kv_preamble :: "permission_store \<Rightarrow> string \<Rightarrow> go_error + 'req \<Rightarrow> kv_store option \<Rightarrow> go_error + 'req \<times> kv_store" where
  "kv_preamble ps pluginID payload kv =
     (case CheckPermission ps pluginID ''kv'' of
        Some err \<Rightarrow> Inl err
      | None \<Rightarrow>
          (case payload of
             Inl err \<Rightarrow> Inl err
           | Inr req \<Rightarrow> (case kv of None \<Rightarrow> Inl (Plain (''dependency '' @ quote ''KVStore'' @ '' is not available''))
                        | Some s \<Rightarrow> Inr (req, s))))"

text \<open>The store after the call and the answer; without a store it stays absent.\<close>

definition kvGetFunc ::
    "permission_store \<Rightarrow> instant \<Rightarrow> string \<Rightarrow> go_error + string \<Rightarrow> kv_store option \<Rightarrow>
     kv_store option \<times> string option host_answer" where
  "kvGetFunc ps now pluginID payload kv =
     (case kv_preamble ps pluginID payload kv of
        Inl err \<Rightarrow> (kv, HostError err)
      | Inr (key, s) \<Rightarrow> (case kv_Get now pluginID key s of (s', v) \<Rightarrow> (Some s', HostAnswer v)))"

definition kv_ttl :: "int option \<Rightarrow> duration" where
  "kv_ttl ttlSeconds = (case ttlSeconds of Some n \<Rightarrow> if n > 0 then wrap64 (n * Second) else 0 | None \<Rightarrow> 0)"

definition kvSetFunc ::
    "permission_store \<Rightarrow> instant \<Rightarrow> string \<Rightarrow> go_error + string \<times> string \<times> int option \<Rightarrow> kv_store option \<Rightarrow>
     kv_store option \<times> string option host_answer" where
  "kvSetFunc ps now pluginID payload kv =
     (case kv_preamble ps pluginID payload kv of
        Inl err \<Rightarrow> (kv, HostError err)
      | Inr ((key, val, ttlSeconds), s) \<Rightarrow>
          (case kv_Set now pluginID key val (kv_ttl ttlSeconds) s of
             (s', None) \<Rightarrow> (Some s', HostAnswer None)
           | (s', Some err) \<Rightarrow> (Some s', HostFailed (Some (error_text err)))))"

definition kvDeleteFunc ::
    "permission_store \<Rightarrow> string \<Rightarrow> go_error + string \<Rightarrow> kv_store option \<Rightarrow> kv_store option \<times> unit host_answer" where
  "kvDeleteFunc ps pluginID payload kv =
     (case kv_preamble ps pluginID payload kv of
        Inl err \<Rightarrow> (kv, HostError err)
      | Inr (key, s) \<Rightarrow> (Some (kv_Delete pluginID key s), HostAnswer ()))"

definition kvListFunc ::
    "permission_store \<Rightarrow> instant \<Rightarrow> string \<Rightarrow> go_error + string \<Rightarrow> kv_store option \<Rightarrow>
     kv_store option \<times> string list host_answer" where
  "kvListFunc ps now pluginID payload kv =
     (case kv_preamble ps pluginID payload kv of
        Inl err \<Rightarrow> (kv, HostError err)
      | Inr (pre, s) \<Rightarrow> (case kv_List now pluginID pre s of (s', keys) \<Rightarrow> (Some s', HostAnswer keys)))"

subsection \<open>Policies for HTTP requests (http_policy.go)\<close>

definition defaultHTTPRequirementName :: string where "defaultHTTPRequirementName = ''default''"
definition defaultHTTPResponseLimit :: int where "defaultHTTPResponseLimit = 2 ^ 20"

record http_policy =
  hp_Requirement :: string
  hp_AllowedHosts :: "string list"
  hp_AllowedMethods :: "string list"
  hp_MaxRequestBodyBytes :: int
  hp_MaxResponseBodyBytes :: int

record http_policy_config =
  hc_AllowedHosts :: "string list"
  hc_AllowedMethods :: "string list"
  hc_MaxRequestBodyBytes :: int
  hc_MaxResponseBodyBytes :: int

type_synonym http_policies = "string \<rightharpoonup> http_policy"

definition policies_Set :: "string \<Rightarrow> http_policies \<Rightarrow> (string \<rightharpoonup> http_policies) \<Rightarrow> (string \<rightharpoonup> http_policies)" where
  "policies_Set pluginID policies s = (if policies = Map.empty then s(pluginID := None) else s(pluginID \<mapsto> policies))"

definition policies_Delete :: "string \<Rightarrow> (string \<rightharpoonup> http_policies) \<Rightarrow> (string \<rightharpoonup> http_policies)" where
  "policies_Delete pluginID s = s(pluginID := None)"

definition policies_Get :: "string \<Rightarrow> string \<Rightarrow> (string \<rightharpoonup> http_policies) \<Rightarrow> http_policy option" where
  "policies_Get pluginID requirement s = (case s pluginID of None \<Rightarrow> None | Some ps \<Rightarrow> ps requirement)"

definition normalizeHTTPRequestMethod :: "string \<Rightarrow> string" where
  "normalizeHTTPRequestMethod m = (let t = TrimSpace m in if t = '''' then ''GET'' else ToUpper t)"

text \<open>Normalised elements in their order, each once; the map \<^verbatim>\<open>seen\<close> is the result so far.\<close>

definition add_unseen :: "(string \<Rightarrow> string) \<Rightarrow> string list \<Rightarrow> string \<Rightarrow> string list" where
  "add_unseen norm result x = (if norm x = '''' \<or> norm x \<in> set result then result else result @ [norm x])"

definition normalizeAllowedMethods :: "string list \<Rightarrow> string list" where
  "normalizeAllowedMethods methods = foldl (add_unseen normalizeHTTPRequestMethod) [] methods"

definition normalizeAllowedHosts :: "string list \<Rightarrow> string list" where
  "normalizeAllowedHosts hosts = foldl (add_unseen (\<lambda>h. ToLower (TrimSpace h))) [] hosts"

text \<open>The configuration decodes to an error or to the policies configured per requirement.\<close>

fun resolve_policies ::
    "requirement_def list \<Rightarrow> (string \<rightharpoonup> http_policy_config) \<Rightarrow> http_policies \<Rightarrow> go_error + http_policies" where
  "resolve_policies [] cfg policies = Inr policies"
| "resolve_policies (req # reqs) cfg policies =
     (if rq_Type req \<noteq> ''http'' then resolve_policies reqs cfg policies
      else let name = (if rq_Name req = '''' then defaultHTTPRequirementName else rq_Name req);
               policy = \<lparr>hp_Requirement = name, hp_AllowedHosts = [], hp_AllowedMethods = [],
                         hp_MaxRequestBodyBytes = 0, hp_MaxResponseBodyBytes = 0\<rparr>
           in case cfg name of
                None \<Rightarrow> resolve_policies reqs cfg (policies(name \<mapsto> policy))
              | Some raw \<Rightarrow>
                  if hc_MaxRequestBodyBytes raw < 0
                  then Inl (Plain (''http requirement '' @ quote name @ '' has negative max_request_body_bytes''))
                  else if hc_MaxResponseBodyBytes raw < 0
                  then Inl (Plain (''http requirement '' @ quote name @ '' has negative max_response_body_bytes''))
                  else resolve_policies reqs cfg (policies(name \<mapsto>
                         \<lparr>hp_Requirement = name, hp_AllowedHosts = normalizeAllowedHosts (hc_AllowedHosts raw),
                          hp_AllowedMethods = normalizeAllowedMethods (hc_AllowedMethods raw),
                          hp_MaxRequestBodyBytes = hc_MaxRequestBodyBytes raw,
                          hp_MaxResponseBodyBytes = hc_MaxResponseBodyBytes raw\<rparr>)))"

definition ResolveHTTPPolicies ::
    "requirement_def list \<Rightarrow> go_error + (string \<rightharpoonup> http_policy_config) \<Rightarrow> go_error + http_policies" where
  "ResolveHTTPPolicies requirements config =
     (case config of
        Inl err \<Rightarrow> Inl (Wrap ''parse http requirement config: '' err '''')
      | Inr cfg \<Rightarrow> resolve_policies requirements cfg Map.empty)"

definition HTTPPolicy :: "(string \<rightharpoonup> http_policies) \<Rightarrow> string \<Rightarrow> string \<Rightarrow> go_error + http_policy" where
  "HTTPPolicy s pluginID requirement0 =
     (let requirement = (if requirement0 = '''' then defaultHTTPRequirementName else requirement0)
      in case policies_Get pluginID requirement s of
           None \<Rightarrow> Inl (Plain (''plugin '' @ quote pluginID @ '' has no http requirement '' @ quote requirement))
         | Some policy \<Rightarrow> Inr policy)"

definition methodAllowedByPolicy :: "string \<Rightarrow> string list \<Rightarrow> bool" where
  "methodAllowedByPolicy m allowed = list_ex (\<lambda>c. c = ''*'' \<or> c = m) allowed"

definition host_matches :: "string \<Rightarrow> string \<Rightarrow> bool" where
  "host_matches host c \<longleftrightarrow>
     c = host \<or>
     HasPrefix c ''*.'' \<and> host \<noteq> TrimPrefix c ''*.'' \<and> HasSuffix host (TrimPrefix c ''*'')"

definition hostAllowedByPolicy :: "string \<Rightarrow> string list \<Rightarrow> bool" where
  "hostAllowedByPolicy host allowed = list_ex (host_matches host) allowed"

text \<open>\<open>hostname\<close> is the host that \<^verbatim>\<open>url.Parse\<close> finds in the request's address, or its error.\<close>

definition enforceHTTPRequestPolicy :: "http_policy \<Rightarrow> string \<Rightarrow> go_error + string \<Rightarrow> int \<Rightarrow> go_error option" where
  "enforceHTTPRequestPolicy policy method0 hostname requestBodySize =
     (let m = normalizeHTTPRequestMethod method0
      in case hostname of
           Inl err \<Rightarrow> Some (Wrap ''parse request url: '' err '''')
         | Inr h \<Rightarrow>
             let host = ToLower (TrimSpace h)
             in if host = '''' then Some (Plain ''request url has empty host'')
                else if length (hp_AllowedHosts policy) > 0 \<and> \<not> hostAllowedByPolicy host (hp_AllowedHosts policy)
                then Some (Plain (''http requirement '' @ quote (hp_Requirement policy) @ '' does not allow host '' @ quote host))
                else if length (hp_AllowedMethods policy) > 0 \<and> \<not> methodAllowedByPolicy m (hp_AllowedMethods policy)
                then Some (Plain (''http requirement '' @ quote (hp_Requirement policy) @ '' does not allow method '' @ quote m))
                else if hp_MaxRequestBodyBytes policy > 0 \<and> requestBodySize > hp_MaxRequestBodyBytes policy
                then Some (Plain (''http request body exceeds limit of '' @ FormatInt (hp_MaxRequestBodyBytes policy) @ '' bytes''))
                else None)"

definition responseBodyReadLimit :: "http_policy \<Rightarrow> int" where
  "responseBodyReadLimit policy =
     (if hp_MaxResponseBodyBytes policy > 0 then hp_MaxResponseBodyBytes policy else defaultHTTPResponseLimit)"

text \<open>The reader is the whole body or its error; \<^verbatim>\<open>LimitReader\<close> stops after \<open>limit + 1\<close> bytes.\<close>

definition readHTTPResponseBody :: "go_error + string \<Rightarrow> int \<Rightarrow> go_error + string" where
  "readHTTPResponseBody r limit0 =
     (let limit = (if limit0 \<le> 0 then defaultHTTPResponseLimit else limit0)
      in case r of
           Inl err \<Rightarrow> Inl err
         | Inr body \<Rightarrow>
             let data = take (nat (limit + 1)) body
             in if int (length data) > limit
                then Inl (Plain (''http response body exceeds limit of '' @ FormatInt limit @ '' bytes''))
                else Inr data)"

subsection \<open>HTTP requests of plugins (host_http.go)\<close>

text \<open>
  An address as \<^verbatim>\<open>net.IP\<close> has it: four bytes (IPv4, also when written as mapped IPv6), or sixteen
  bytes. The predicates are those of the standard library.
\<close>

datatype net_ip = IP4 "8 word" "8 word" "8 word" "8 word" | IP6 "8 word list"

fun IsLoopback :: "net_ip \<Rightarrow> bool" where
  "IsLoopback (IP4 a b c d) \<longleftrightarrow> a = 127"
| "IsLoopback (IP6 bs) \<longleftrightarrow> bs = replicate 15 0 @ [1]"

fun IsPrivate :: "net_ip \<Rightarrow> bool" where
  "IsPrivate (IP4 a b c d) \<longleftrightarrow> a = 10 \<or> a = 172 \<and> and b 0xf0 = 16 \<or> a = 192 \<and> b = 168"
| "IsPrivate (IP6 bs) \<longleftrightarrow> and (bs ! 0) 0xfe = 0xfc"

fun IsLinkLocalUnicast :: "net_ip \<Rightarrow> bool" where
  "IsLinkLocalUnicast (IP4 a b c d) \<longleftrightarrow> a = 169 \<and> b = 254"
| "IsLinkLocalUnicast (IP6 bs) \<longleftrightarrow> bs ! 0 = 0xfe \<and> and (bs ! 1) 0xc0 = 0x80"

fun IsLinkLocalMulticast :: "net_ip \<Rightarrow> bool" where
  "IsLinkLocalMulticast (IP4 a b c d) \<longleftrightarrow> a = 224 \<and> b = 0 \<and> c = 0"
| "IsLinkLocalMulticast (IP6 bs) \<longleftrightarrow> bs ! 0 = 0xff \<and> and (bs ! 1) 0x0f = 0x02"

text \<open>\<open>hostname\<close> stands for \<^verbatim>\<open>url.Parse\<close> and \<^verbatim>\<open>Hostname\<close>, \<open>parseIP\<close> for \<^verbatim>\<open>net.ParseIP\<close>.\<close>

definition isBlockedHost :: "(string \<Rightarrow> go_error + string) \<Rightarrow> (string \<Rightarrow> net_ip option) \<Rightarrow> string \<Rightarrow> bool" where
  "isBlockedHost hostname parseIP rawURL =
     (case hostname rawURL of
        Inl _ \<Rightarrow> True
      | Inr h \<Rightarrow>
          h = '''' \<or>
          (let lower = ToLower h
           in lower = ''localhost'' \<or> lower = ''metadata.google.internal'' \<or>
              lower = ''169.254.169.254'' \<or> lower = ''metadata'' \<or>
              (case parseIP h of
                 None \<Rightarrow> False
               | Some ip \<Rightarrow> IsLoopback ip \<or> IsPrivate ip \<or> IsLinkLocalUnicast ip \<or> IsLinkLocalMulticast ip)))"

record http_request_payload =
  hr_Requirement :: string
  hr_Method :: string
  hr_URL :: string
  hr_Headers :: "(string \<times> string) list"
  hr_Body :: string

record http_response_payload =
  hx_StatusCode :: int
  hx_Headers :: "(string \<times> string) list"
  hx_Body :: string

text \<open>The request that is sent, and the response whose body is still to be read.\<close>

type_synonym outgoing_request = "string \<times> string \<times> (string \<times> string) list \<times> string"
type_synonym incoming_response = "int \<times> (string \<times> string) list \<times> (go_error + string)"

record http_net =
  hn_hostname :: "string \<Rightarrow> go_error + string"
  hn_parseIP :: "string \<Rightarrow> net_ip option"
  hn_newRequest :: "string \<Rightarrow> string \<Rightarrow> go_error option"

definition empty_policy :: http_policy where
  "empty_policy = \<lparr>hp_Requirement = '''', hp_AllowedHosts = [], hp_AllowedMethods = [], hp_MaxRequestBodyBytes = 0, hp_MaxResponseBodyBytes = 0\<rparr>"

text \<open>
  The checks before a request is sent: the request with the policy that limits its response.
  \<open>policies\<close> is absent when policies are not enforced.
\<close>

definition admit_request ::
    "http_net \<Rightarrow> permission_store \<Rightarrow> (string \<rightharpoonup> http_policies) option \<Rightarrow> bool \<Rightarrow> string \<Rightarrow> http_request_payload \<Rightarrow>
     go_error + outgoing_request \<times> http_policy" where
  "admit_request N ps policies client pluginID p =
     (case CheckPermission ps pluginID ''network'' of
        Some err \<Rightarrow> Inl err
      | None \<Rightarrow>
          if \<not> client then Inl (Plain (''dependency '' @ quote ''HTTP'' @ '' is not available''))
          else let m = normalizeHTTPRequestMethod (hr_Method p);
                   policy = (case policies of
                       None \<Rightarrow> Inr empty_policy
                     | Some s \<Rightarrow>
                         (case HTTPPolicy s pluginID (hr_Requirement p) of
                            Inl err \<Rightarrow> Inl err
                          | Inr pol \<Rightarrow>
                              (case enforceHTTPRequestPolicy pol m (hn_hostname N (hr_URL p)) (int (length (hr_Body p))) of
                                 Some err \<Rightarrow> Inl err | None \<Rightarrow> Inr pol)))
               in case policy of
                    Inl err \<Rightarrow> Inl err
                  | Inr pol \<Rightarrow>
                      if isBlockedHost (hn_hostname N) (hn_parseIP N) (hr_URL p)
                      then Inl (Plain ''requests to internal/private addresses are not allowed'')
                      else (case hn_newRequest N m (hr_URL p) of
                              Some err \<Rightarrow> Inl (Wrap ''create request: '' err '''')
                            | None \<Rightarrow> Inr ((m, hr_URL p, hr_Headers p, hr_Body p), pol)))"

definition httpRequestFunc ::
    "http_net \<Rightarrow> permission_store \<Rightarrow> (string \<rightharpoonup> http_policies) option \<Rightarrow>
     (outgoing_request \<Rightarrow> 'w \<Rightarrow> 'w \<times> (go_error + incoming_response)) option \<Rightarrow> string \<Rightarrow>
     go_error + http_request_payload \<Rightarrow> 'w \<Rightarrow> 'w \<times> http_response_payload host_answer" where
  "httpRequestFunc N ps policies client pluginID payload w =
     (case payload of
        Inl err \<Rightarrow> (w, HostError err)
      | Inr p \<Rightarrow>
          (case admit_request N ps policies (client \<noteq> None) pluginID p of
             Inl err \<Rightarrow> (w, HostError err)
           | Inr (req, pol) \<Rightarrow>
               (case the client req w of
                  (w1, Inl err) \<Rightarrow> (w1, HostError (Wrap ''http request: '' err ''''))
                | (w1, Inr (status, headers, body)) \<Rightarrow>
                    let limit = (if policies \<noteq> None then responseBodyReadLimit pol else defaultHTTPResponseLimit)
                    in case readHTTPResponseBody body limit of
                         Inl err \<Rightarrow> (w1, HostError (Wrap ''http response body: '' err ''''))
                       | Inr b \<Rightarrow> (w1, HostAnswer \<lparr>hx_StatusCode = status, hx_Headers = headers, hx_Body = b\<rparr>))))"

subsection \<open>Calls between plugins (host_plugins.go)\<close>

definition MaxCallDepth :: int where "MaxCallDepth = 5"

text \<open>The part of the context that a call of a plugin reads and passes on.\<close>

record call_info =
  ci_pluginID :: string
  ci_depth :: int
  ci_chain :: "string list"

definition withCallDepth :: "string \<Rightarrow> call_info \<Rightarrow> call_info" where
  "withCallDepth target c = c\<lparr>ci_depth := ci_depth c + 1, ci_chain := ci_chain c @ [target]\<rparr>"

definition checkCallCycle :: "string list \<Rightarrow> string \<Rightarrow> go_error option" where
  "checkCallCycle chain target =
     (if target \<in> set chain
      then Some (Plain (''circular inter-plugin call detected: '' @ Join (chain @ [target]) '' -> ''))
      else None)"

text \<open>
  The checks of \<^verbatim>\<open>callPluginFunc\<close>: the status that is counted and the error, or the context of the
  call. \<open>registered\<close> says that a plugin registry is configured.
\<close>

definition admit_call ::
    "permission_store \<Rightarrow> bool \<Rightarrow> string \<Rightarrow> call_info \<Rightarrow> (string \<times> go_error) + call_info" where
  "admit_call ps registered target c =
     (case CheckPermission ps (ci_pluginID c) (''plugins:call:'' @ target) of
        Some err \<Rightarrow> Inl (''permission_denied'', err)
      | None \<Rightarrow>
          if \<not> registered
          then Inl (''disabled'', Plain (''dependency '' @ quote ''PluginRegistry'' @ '' is not available''))
          else let c1 = (if ci_chain c = [] then c\<lparr>ci_chain := [ci_pluginID c]\<rparr> else c)
               in case checkCallCycle (ci_chain c1) target of
                    Some err \<Rightarrow> Inl (''cycle_blocked'', err)
                  | None \<Rightarrow>
                      if ci_depth c1 \<ge> MaxCallDepth
                      then Inl (''depth_exceeded'', Plain (''inter-plugin call depth exceeded (max '' @ FormatInt MaxCallDepth @ '')''))
                      else Inr (withCallDepth target c1))"

record call_payload =
  cp_Target :: string
  cp_Method :: string
  cp_Params :: string

text \<open>
  The call itself: \<open>call\<close> is the registry's \<^verbatim>\<open>CallPlugin\<close>, whose result says with its error whether
  the deadline of the call had passed; \<open>timeout\<close> is the text of the limit and \<open>write\<close> the outcome of
  \<^verbatim>\<open>writeModMemory\<close> for the result. The counters of
  \<^verbatim>\<open>recordPluginRPCMetric\<close> are appended to \<open>ms\<close>.
\<close>

definition recordPluginRPCMetric ::
    "string \<Rightarrow> string \<Rightarrow> string \<Rightarrow> string \<Rightarrow> (string \<times> string \<times> string \<times> string) list option \<Rightarrow>
     (string \<times> string \<times> string \<times> string) list option" where
  "recordPluginRPCMetric pluginID target method1 status ms = map_option (\<lambda>l. l @ [(pluginID, target, method1, status)]) ms"

definition callPluginFunc ::
    "permission_store \<Rightarrow> (call_info \<Rightarrow> string \<Rightarrow> string \<Rightarrow> string \<Rightarrow> 'w \<Rightarrow> 'w \<times> (go_error \<times> bool + string)) option \<Rightarrow> string \<Rightarrow>
     (string \<Rightarrow> go_error option) \<Rightarrow> go_error + call_payload \<Rightarrow> call_info \<Rightarrow> 'w \<times> (string \<times> string \<times> string \<times> string) list option \<Rightarrow>
     ('w \<times> (string \<times> string \<times> string \<times> string) list option) \<times> string host_answer" where
  "callPluginFunc ps call timeout write payload c st =
     (case payload of
        Inl err \<Rightarrow> (st, HostError err)
      | Inr p \<Rightarrow>
          let count = (\<lambda>status. recordPluginRPCMetric (ci_pluginID c) (cp_Target p) (cp_Method p) status (snd st))
          in case admit_call ps (call \<noteq> None) (cp_Target p) c of
               Inl (status, err) \<Rightarrow> ((fst st, count status), HostError err)
             | Inr c' \<Rightarrow>
                 (case the call c' (cp_Target p) (cp_Method p) (cp_Params p) (fst st) of
                    (w, Inl (err, timedOut)) \<Rightarrow>
                      ((w, count ''error''),
                       HostError (if timedOut
                         then Plain (''call_plugin '' @ quote (cp_Target p) @ ''.'' @ cp_Method p @ '' timed out after '' @ timeout)
                         else Wrap (''call_plugin '' @ quote (cp_Target p) @ ''.'' @ cp_Method p @ '': '') err ''''))
                  | (w, Inr result) \<Rightarrow>
                      (case write result of
                         Some err \<Rightarrow> ((w, count ''error''), HostError err)
                       | None \<Rightarrow> ((w, count ''ok''), HostAnswer result))))"

text \<open>
  Publishing: \<open>validJSON\<close> is \<^verbatim>\<open>json.Valid\<close> of the payload, and the bus publishes for the plugin.
\<close>

definition publishEventFunc ::
    "permission_store \<Rightarrow> (string \<Rightarrow> string \<Rightarrow> string \<Rightarrow> 'w \<Rightarrow> 'w \<times> (go_error \<times> bool) option) option \<Rightarrow> (string \<Rightarrow> bool) \<Rightarrow> string \<Rightarrow>
     string \<Rightarrow> go_error + string \<times> string \<Rightarrow> 'w \<Rightarrow> 'w \<times> unit host_answer" where
  "publishEventFunc ps bus validJSON timeout pluginID payload w =
     (case CheckPermission ps pluginID ''events'' of
        Some err \<Rightarrow> (w, HostError err)
      | None \<Rightarrow>
          (case payload of
             Inl err \<Rightarrow> (w, HostError err)
           | Inr (topic, body) \<Rightarrow>
               if \<not> validJSON body
               then (w, HostError (Plain (''publish event '' @ quote topic @ '': payload must be valid JSON'')))
               else (case bus of
                       None \<Rightarrow> (w, HostError (Plain (''dependency '' @ quote ''EventBus'' @ '' is not available'')))
                     | Some publish \<Rightarrow>
                         (case publish pluginID topic body w of
                            (w1, None) \<Rightarrow> (w1, HostAnswer ())
                          | (w1, Some (err, timedOut)) \<Rightarrow>
                              (w1, HostError (if timedOut
                                 then Plain (''publish_event '' @ quote topic @ '' timed out after '' @ timeout)
                                 else Wrap (''publish event '' @ quote topic @ '': '') err ''''))))))"

text \<open>
  The wrapper of every host function: the limit is counted before the function runs, and a function
  over its limit does not run. A function without an answer (a panic, whose text is \<open>panicText\<close>) is
  answered with an error. The third component is the status that is counted: \<^verbatim>\<open>returnError\<close> sets it
  to error also after \<^verbatim>\<open>rate_limited\<close> was set.
\<close>

fun answer_status :: "'r host_answer \<Rightarrow> string" where
  "answer_status (HostAnswer _) = ''ok''"
| "answer_status (HostError _) = ''error''"
| "answer_status (HostFailed _) = ''error''"

definition registerFunc ::
    "string \<Rightarrow> string \<Rightarrow> ('s \<Rightarrow> 's \<times> 'r host_answer option) \<Rightarrow> rate_limiter option \<Rightarrow> 's \<Rightarrow>
     (rate_limiter option \<times> 's) \<times> string \<times> 'r host_answer" where
  "registerFunc name panicText fn limiter s =
     (let run = (\<lambda>rl. case fn s of
                  (s', None) \<Rightarrow>
                    ((rl, s'), ''error'', HostError (Plain (''host function '' @ quote name @ '' panicked: '' @ panicText)))
                | (s', Some a) \<Rightarrow> ((rl, s'), answer_status a, a))
      in case limiter of
           None \<Rightarrow> run None
         | Some rl \<Rightarrow>
             (case Allow name rl of
                (rl', Some err) \<Rightarrow> ((Some rl', s), ''error'', HostError err)
              | (rl', None) \<Rightarrow> run (Some rl')))"

subsection \<open>The quotas of the key-value store\<close>

definition entries_size :: "(string \<times> kv_entry) list \<Rightarrow> int" where
  "entries_size es = sum_list (map (\<lambda>(k, e). kv_size e) es)"

definition kv_ok :: "plugin_kv \<Rightarrow> bool" where
  "kv_ok pk \<longleftrightarrow> distinct (map fst (pk_entries pk)) \<and> pk_totalSize pk = entries_size (pk_entries pk) \<and>
     (\<forall>(k, e) \<in> set (pk_entries pk). kv_size e = int (length k) + int (length (kv_value e))) \<and>
     length (pk_entries pk) \<le> KVMaxKeysPerPlugin \<and> pk_totalSize pk \<le> KVMaxTotalPerPlugin"

lemma entries_size_simps [simp]:
  "entries_size [] = 0" "entries_size ((k, e) # es) = kv_size e + entries_size es"
  by (simp_all add: entries_size_def)

lemma entries_size_delete:
  "distinct (map fst es) \<Longrightarrow>
   entries_size (AList.delete k es) = entries_size es - (case map_of es k of Some e \<Rightarrow> kv_size e | None \<Rightarrow> 0)"
proof (induction es)
  case (Cons x es)
  obtain k' e where x: "x = (k', e)" by fastforce
  show ?case
  proof (cases "k' = k")
    case True
    with Cons.prems x have "map_of es k = None" by (simp add: map_of_eq_None_iff)
    with Cons x True show ?thesis by simp
  qed (use Cons x in simp)
qed simp

lemma entries_size_update:
  "distinct (map fst es) \<Longrightarrow>
   entries_size (AList.update k e es) = entries_size es - (case map_of es k of Some e \<Rightarrow> kv_size e | None \<Rightarrow> 0) + kv_size e"
proof (induction es)
  case (Cons x es)
  obtain k' e' where x: "x = (k', e')" by fastforce
  with Cons show ?case by (cases "k' = k") auto
qed simp

lemma length_update_le: "length (AList.update k e es) = (if map_of es k = None then Suc (length es) else length es)"
  by (induction es) auto

lemma set_update_subset: "set (AList.update k e es) \<subseteq> insert (k, e) (set es)"
  by (induction es) auto

lemma drop_key_ok:
  assumes "kv_ok pk" "map_of (pk_entries pk) k = Some e"
  shows "kv_ok (drop_key k (kv_size e) pk)"
proof -
  have size_pos: "0 \<le> kv_size e"
    using assms map_of_SomeD by (fastforce simp: kv_ok_def)
  have "length (AList.delete k (pk_entries pk)) \<le> length (pk_entries pk)"
      "set (AList.delete k (pk_entries pk)) \<subseteq> set (pk_entries pk)"
    by (auto simp: AList.delete_eq)
  moreover have "distinct (map fst (AList.delete k (pk_entries pk)))"
    using assms(1) by (simp add: kv_ok_def distinct_delete)
  moreover have "pk_totalSize pk - kv_size e = entries_size (AList.delete k (pk_entries pk))"
    using assms by (simp add: kv_ok_def entries_size_delete)
  ultimately show ?thesis using assms(1) size_pos unfolding kv_ok_def drop_key_def
    by (auto 4 3)
qed

text \<open>Eviction keeps the entries that have not expired.\<close>

lemma evict_loop_ok:
  assumes "kv_ok pk" "distinct (map fst es)" "\<forall>(k, e) \<in> set es. map_of (pk_entries pk) k = Some e"
  shows "kv_ok (evict_loop now es pk) \<and>
    (\<forall>k. map_of (pk_entries (evict_loop now es pk)) k =
       (case map_of es k of Some e \<Rightarrow> if isExpired now e then None else Some e | None \<Rightarrow> map_of (pk_entries pk) k))"
  using assms
proof (induction now es pk rule: evict_loop.induct)
  case (2 now key e es pk)
  let ?pk = "if isExpired now e then drop_key key (kv_size e) pk else pk"
  have key: "map_of (pk_entries pk) key = Some e" "key \<notin> fst ` set es" using "2.prems" by auto
  have ok: "kv_ok ?pk" using "2.prems"(1) drop_key_ok [OF _ key(1)] by simp
  have look: "map_of (pk_entries ?pk) k = (if k = key \<and> isExpired now e then None else map_of (pk_entries pk) k)" for k
    by (simp add: drop_key_def AList.delete_conv)
  have "\<forall>(k, e') \<in> set es. map_of (pk_entries ?pk) k = Some e'"
    using "2.prems"(3) key(2) look by (force simp: image_iff)
  with "2.IH" ok "2.prems"(2) have IH: "kv_ok (evict_loop now es ?pk)"
      "\<And>k. map_of (pk_entries (evict_loop now es ?pk)) k =
        (case map_of es k of Some e \<Rightarrow> if isExpired now e then None else Some e | None \<Rightarrow> map_of (pk_entries ?pk) k)"
    by simp_all
  have "map_of es key = None" using key(2) by (simp only: map_of_eq_None_iff not_False_eq_True)
  then show ?case unfolding evict_loop.simps IH(2) look using IH(1) key(1) by simp
qed simp

lemma evictExpired_ok:
  assumes "kv_ok pk"
  shows "kv_ok (evictExpiredLocked now pk)"
    and "map_of (pk_entries (evictExpiredLocked now pk)) k =
      (case map_of (pk_entries pk) k of Some e \<Rightarrow> if isExpired now e then None else Some e | None \<Rightarrow> None)"
proof -
  have "distinct (map fst (pk_entries pk))" "\<forall>(k, e) \<in> set (pk_entries pk). map_of (pk_entries pk) k = Some e"
    using assms by (auto simp: kv_ok_def)
  then show "kv_ok (evictExpiredLocked now pk)"
    and "map_of (pk_entries (evictExpiredLocked now pk)) k =
      (case map_of (pk_entries pk) k of Some e \<Rightarrow> if isExpired now e then None else Some e | None \<Rightarrow> None)"
    using evict_loop_ok [OF assms, of "pk_entries pk" now] unfolding evictExpiredLocked_def
    by (auto split: option.splits)
qed

definition store_ok :: "kv_store \<Rightarrow> bool" where
  "store_ok s \<longleftrightarrow> (\<forall>p pk. s p = Some pk \<longrightarrow> kv_ok pk)"

lemma empty_kv_ok [simp]: "kv_ok empty_kv"
  by (simp add: kv_ok_def empty_kv_def KVMaxTotalPerPlugin_def)

lemma getOrCreate_ok:
  assumes "store_ok s" "getOrCreatePluginKV p s = (s1, pk)"
  shows "store_ok s1" "kv_ok pk" "s1 p = Some pk" "q \<noteq> p \<Longrightarrow> s1 q = s q"
    "pk = (case s p of Some pk \<Rightarrow> pk | None \<Rightarrow> empty_kv)"
  using assms by (auto simp: getOrCreatePluginKV_def store_ok_def split: option.splits if_splits)

lemma store_ok_upd: "store_ok s \<Longrightarrow> kv_ok pk \<Longrightarrow> store_ok (s(p \<mapsto> pk))"
  by (simp add: store_ok_def)

lemma store_entry_ok:
  assumes "kv_ok pk" "int (length key) + int (length val) = sz"
    and "\<not> (oldSize = 0 \<and> length (pk_entries pk) \<ge> KVMaxKeysPerPlugin)"
    and "oldSize = (case map_of (pk_entries pk) key of Some old \<Rightarrow> kv_size old | None \<Rightarrow> 0)"
    and "pk_totalSize pk - oldSize + sz \<le> KVMaxTotalPerPlugin"
  shows "kv_ok \<lparr>pk_entries = AList.update key \<lparr>kv_value = val, kv_size = sz, kv_expiresAt = x\<rparr> (pk_entries pk),
                pk_totalSize = pk_totalSize pk - oldSize + sz\<rparr>"
proof -
  let ?e = "\<lparr>kv_value = val, kv_size = sz, kv_expiresAt = x\<rparr>"
  have "length (AList.update key ?e (pk_entries pk)) \<le> KVMaxKeysPerPlugin"
    using assms(1,3,4) by (auto simp: length_update_le kv_ok_def split: option.splits)
  moreover have "distinct (map fst (AList.update key ?e (pk_entries pk)))"
    using assms(1) by (simp add: kv_ok_def distinct_update)
  moreover have "\<forall>(k, e) \<in> set (AList.update key ?e (pk_entries pk)). kv_size e = int (length k) + int (length (kv_value e))"
    using assms(1,2) set_update_subset [of key ?e "pk_entries pk"] by (auto simp: kv_ok_def)
  ultimately show ?thesis using assms by (simp add: kv_ok_def entries_size_update)
qed

lemma kv_Set_ok:
  assumes "store_ok s"
  shows "store_ok (fst (kv_Set now p key val ttl s))"
proof -
  obtain s1 pk0 where g: "getOrCreatePluginKV p s = (s1, pk0)" by fastforce
  let ?pk = "evictExpiredLocked now pk0"
  have pk: "kv_ok ?pk" by (rule evictExpired_ok(1) [OF getOrCreate_ok(2) [OF assms g]])
  let ?old = "case map_of (pk_entries ?pk) key of Some old \<Rightarrow> kv_size old | None \<Rightarrow> 0"
  let ?sz = "int (length key) + int (length val)"
  note s1 = getOrCreate_ok(1) [OF assms g]
  have stored: "store_ok (s1(p \<mapsto> \<lparr>pk_entries = AList.update key \<lparr>kv_value = val, kv_size = ?sz, kv_expiresAt = x\<rparr> (pk_entries ?pk),
        pk_totalSize = pk_totalSize ?pk - ?old + ?sz\<rparr>))"
    if "\<not> (?old = 0 \<and> length (pk_entries ?pk) \<ge> KVMaxKeysPerPlugin)" "\<not> pk_totalSize ?pk - ?old + ?sz > KVMaxTotalPerPlugin" for x
    using that by (intro store_ok_upd s1 store_entry_ok pk) auto
  show ?thesis
    unfolding kv_Set_def g Let_def prod.case fun_upd_upd
    using assms store_ok_upd [OF s1 pk] stored by (simp split del: option.split)
qed

inductive reachable_kv :: "kv_store \<Rightarrow> bool" where
  kv_new: "reachable_kv NewKVStore"
| kv_got: "reachable_kv s \<Longrightarrow> reachable_kv (fst (kv_Get now p k s))"
| kv_set: "reachable_kv s \<Longrightarrow> reachable_kv (fst (kv_Set now p k v ttl s))"
| kv_deleted: "reachable_kv s \<Longrightarrow> reachable_kv (kv_Delete p k s)"
| kv_listed: "reachable_kv s \<Longrightarrow> reachable_kv (fst (kv_List now p pre s))"
| kv_dropped: "reachable_kv s \<Longrightarrow> reachable_kv (DropPlugin p s)"

lemma reachable_store_ok: "reachable_kv s \<Longrightarrow> store_ok s"
proof (induction rule: reachable_kv.induct)
  case (kv_got s now p k)
  obtain s1 pk where g: "getOrCreatePluginKV p s = (s1, pk)" by fastforce
  note ok = getOrCreate_ok [OF kv_got.IH g]
  show ?case using ok(1) store_ok_upd [OF ok(1) drop_key_ok [OF ok(2)]]
    by (auto simp: kv_Get_def g split: option.split)
next
  case (kv_deleted s p k)
  obtain s1 pk where g: "getOrCreatePluginKV p s = (s1, pk)" by fastforce
  note ok = getOrCreate_ok [OF kv_deleted.IH g]
  show ?case using ok(1) store_ok_upd [OF ok(1) drop_key_ok [OF ok(2)]]
    by (auto simp: kv_Delete_def g split: option.split)
next
  case (kv_listed s now p pre)
  obtain s1 pk where g: "getOrCreatePluginKV p s = (s1, pk)" by fastforce
  show ?case using getOrCreate_ok(1) [OF kv_listed.IH g] by (simp add: kv_List_def g)
qed (auto simp: kv_Set_ok, auto simp: store_ok_def NewKVStore_def DropPlugin_def)

text \<open>
  Quotas of the key-value store hold in every state that calls of plugins can reach: a plugin has
  at most 1000 keys, and the size that is accounted to it is the sum of the lengths of its keys
  and values and at most 10 MiB.
\<close>

theorem kv_quotas_hold:
  assumes "reachable_kv s" and "s p = Some pk"
  shows "length (pk_entries pk) \<le> 1000 \<and> pk_totalSize pk \<le> 10485760 \<and>
    pk_totalSize pk = (\<Sum>(k, e) \<leftarrow> pk_entries pk. int (length k) + int (length (kv_value e)))"
proof -
  have ok: "kv_ok pk" using reachable_store_ok [OF assms(1)] assms(2) by (simp add: store_ok_def)
  have "map (\<lambda>(k, e). kv_size e) (pk_entries pk) =
      map (\<lambda>(k, e). int (length k) + int (length (kv_value e))) (pk_entries pk)"
    using ok by (auto simp: kv_ok_def)
  from arg_cong [OF this, of sum_list] ok show ?thesis
    unfolding kv_ok_def entries_size_def KVMaxKeysPerPlugin_def KVMaxTotalPerPlugin_def by linarith
qed

definition demo_kv :: kv_store where
  "demo_kv = fst (kv_Set 0 ''p'' ''key'' ''value'' 10 NewKVStore)"

theorem kv_quotas_hold_witness:
  "\<exists>pk. demo_kv ''p'' = Some pk \<and> pk_entries pk \<noteq> [] \<and> pk_totalSize pk \<le> 10485760"
proof -
  obtain pk where pk: "demo_kv ''p'' = Some pk" "pk_entries pk \<noteq> []"
    by (simp add: demo_kv_def kv_Set_def getOrCreatePluginKV_def NewKVStore_def evictExpiredLocked_def empty_kv_def
        KVMaxValueSize_def KVMaxKeysPerPlugin_def KVMaxTotalPerPlugin_def)
  have "reachable_kv demo_kv" unfolding demo_kv_def by (intro reachable_kv.intros)
  from kv_quotas_hold [OF this pk(1)] pk show ?thesis by blast
qed


subsection \<open>What a plugin reads is what it wrote\<close>

lemma kv_Get_result:
  "snd (kv_Get now p key s) =
     (case s p of None \<Rightarrow> None
      | Some pk \<Rightarrow> (case map_of (pk_entries pk) key of None \<Rightarrow> None
                  | Some e \<Rightarrow> if isExpired now e then None else Some (kv_value e)))"
  by (auto simp: kv_Get_def getOrCreatePluginKV_def empty_kv_def split: option.split)

lemma kv_Set_stored:
  assumes "kv_Set now p key val ttl s = (s', None)"
  obtains pk where "s' p = Some pk" "\<And>q. q \<noteq> p \<Longrightarrow> s' q = s q"
    "pk_entries pk = AList.update key
       \<lparr>kv_value = val, kv_size = int (length key) + int (length val), kv_expiresAt = (if ttl > 0 then Some (now + ttl) else None)\<rparr>
       (pk_entries (evictExpiredLocked now (case s p of Some pk \<Rightarrow> pk | None \<Rightarrow> empty_kv)))"
proof -
  obtain s1 pk0 where g: "getOrCreatePluginKV p s = (s1, pk0)" by fastforce
  then have s1: "\<And>q. q \<noteq> p \<Longrightarrow> s1 q = s q" "pk0 = (case s p of Some pk \<Rightarrow> pk | None \<Rightarrow> empty_kv)"
    by (auto simp: getOrCreatePluginKV_def split: option.splits)
  have "\<exists>pk. s' = s1(p \<mapsto> pk) \<and> pk_entries pk = AList.update key
       \<lparr>kv_value = val, kv_size = int (length key) + int (length val), kv_expiresAt = (if ttl > 0 then Some (now + ttl) else None)\<rparr>
       (pk_entries (evictExpiredLocked now pk0))"
    using assms unfolding kv_Set_def g Let_def prod.case
    by (cases "ttl > 0") (auto split: if_split_asm intro!: exI)
  with s1 that show ?thesis by auto
qed

text \<open>
  After a successful set a plugin reads the value back until its lifetime has passed; its other
  keys read as before at every later time, and the keys of other plugins are untouched.
\<close>

theorem kv_set_then_get:
  assumes "reachable_kv s" and set: "kv_Set now p key val ttl s = (s', None)" and later: "now \<le> t"
  shows "snd (kv_Get t p key s') = (if ttl > 0 \<and> t > now + ttl then None else Some val) \<and>
    (\<forall>k. k \<noteq> key \<longrightarrow> snd (kv_Get t p k s') = snd (kv_Get t p k s)) \<and> (\<forall>q. q \<noteq> p \<longrightarrow> s' q = s q)"
proof -
  let ?pk = "case s p of Some pk \<Rightarrow> pk | None \<Rightarrow> empty_kv"
  have ok: "kv_ok ?pk" using reachable_store_ok [OF assms(1)] by (auto simp: store_ok_def split: option.split)
  from kv_Set_stored [OF set] obtain pk where pk: "s' p = Some pk" "\<And>q. q \<noteq> p \<Longrightarrow> s' q = s q"
    "pk_entries pk = AList.update key
       \<lparr>kv_value = val, kv_size = int (length key) + int (length val), kv_expiresAt = (if ttl > 0 then Some (now + ttl) else None)\<rparr>
       (pk_entries (evictExpiredLocked now ?pk))" by blast
  have "snd (kv_Get t p key s') = (if ttl > 0 \<and> t > now + ttl then None else Some val)"
    by (simp add: kv_Get_result pk(1,3) AList.update_conv' isExpired_def)
  moreover have mono: "isExpired now e \<Longrightarrow> isExpired t e" for e
    using later by (auto simp: isExpired_def split: option.splits)
  have "snd (kv_Get t p k s') = snd (kv_Get t p k s)" if "k \<noteq> key" for k using that mono
    by (auto simp: kv_Get_result pk(1,3) AList.update_conv' evictExpired_ok(2) [OF ok] empty_kv_def split: option.split)
  ultimately show ?thesis using pk(2) by blast
qed

theorem kv_set_then_get_witness:
  "snd (kv_Get 10 ''p'' ''key'' demo_kv) = Some ''value'' \<and> snd (kv_Get 11 ''p'' ''key'' demo_kv) = None"
proof -
  have "kv_Set 0 ''p'' ''key'' ''value'' 10 NewKVStore = (demo_kv, None)"
    by (simp add: demo_kv_def kv_Set_def getOrCreatePluginKV_def NewKVStore_def evictExpiredLocked_def empty_kv_def
        KVMaxValueSize_def KVMaxKeysPerPlugin_def KVMaxTotalPerPlugin_def)
  from kv_set_then_get [OF kv_new this, of 10] kv_set_then_get [OF kv_new this, of 11] show ?thesis by simp
qed

subsection \<open>Lifetimes given in seconds\<close>

lemma wrap64_id: "- (2 ^ 63) \<le> i \<Longrightarrow> i < 2 ^ 63 \<Longrightarrow> wrap64 i = i"
  by (simp add: wrap64_def)

lemma wrap64_range: "- (2 ^ 63) \<le> wrap64 i \<and> wrap64 i < 2 ^ 63"
  using pos_mod_bound [of "2 ^ 64 :: int" "i + 2 ^ 63"] pos_mod_sign [of "2 ^ 64 :: int" "i + 2 ^ 63"]
  by (simp add: wrap64_def)

text \<open>
  The lifetime of a key is the requested number of seconds exactly up to 9223372036 seconds; the
  next larger request overflows to a negative duration, with which the key never expires.
\<close>

lemma kv_ttl_exact_range:
  assumes "n > 0"
  shows "(kv_ttl (Some n) = n * 1000000000 \<longleftrightarrow> n \<le> 9223372036) \<and> kv_ttl (Some 9223372037) < 0"
proof -
  have "n \<le> 9223372036" if "wrap64 (n * 1000000000) = n * 1000000000"
    using wrap64_range [of "n * 1000000000"] that by simp
  moreover have "wrap64 (n * 1000000000) = n * 1000000000" if "n \<le> 9223372036"
    using that assms by (intro wrap64_id) simp_all
  moreover have "wrap64 (9223372037 * 1000000000) < 0" by (simp add: wrap64_def)
  moreover have "Second = 1000000000" by (simp add: Second_def Millisecond_def)
  ultimately show ?thesis using assms by (auto simp: kv_ttl_def)
qed

subsection \<open>Call limits are exact\<close>


text \<open>The names of the calls that the limiter lets through.\<close>

fun allowed_calls :: "string list \<Rightarrow> rate_limiter \<Rightarrow> string list" where
  "allowed_calls [] rl = []"
| "allowed_calls (f # fs) rl =
     (case Allow f rl of (rl', None) \<Rightarrow> f # allowed_calls fs rl' | (rl', Some _) \<Rightarrow> allowed_calls fs rl')"

lemma allowed_calls_from:
  assumes "rl_limits rl f = Some l" "rl_counts rl f \<le> l"
  shows "int (count_list (allowed_calls fs rl) f) = min (l - rl_counts rl f) (int (count_list fs f))"
  using assms
proof (induction fs arbitrary: rl)
  case (Cons g fs)
  show ?case
  proof (cases "\<exists>l'. rl_limits rl g = Some l' \<and> rl_counts rl g < l'")
    case True
    then obtain l' where l': "rl_limits rl g = Some l'" "rl_counts rl g < l'" by blast
    let ?rl = "rl\<lparr>rl_counts := (rl_counts rl)(g := rl_counts rl g + 1)\<rparr>"
    from l' have "Allow g rl = (?rl, None)" by (simp add: Allow_def)
    with Cons.IH [of ?rl] Cons.prems l' show ?thesis by auto
  next
    case False
    then have "fst (Allow g rl) = rl" by (auto simp: Allow_def split: option.split)
    moreover from False Cons.prems have "g = f \<Longrightarrow> l = rl_counts rl f \<and> snd (Allow g rl) \<noteq> None"
      by (auto simp: Allow_def)
    ultimately show ?thesis using Cons.IH [of rl] Cons.prems
      by (cases "Allow g rl") (auto split: option.split)
  qed
qed simp

text \<open>
  In one execution exactly the first calls up to the limit of a limited host function are
  allowed, whatever other calls are interleaved.
\<close>

theorem rate_limit_exact:
  assumes "0 \<le> l" and "limits f = Some l"
  shows "int (count_list (allowed_calls fs (NewRateLimiter plugin (Some limits))) f) = min l (int (count_list fs f))"
  using allowed_calls_from [of "NewRateLimiter plugin (Some limits)" f l fs] assms by (simp add: NewRateLimiter_def)

theorem rate_limit_exact_witness:
  "count_list (allowed_calls [''a'', ''b'', ''a'', ''a''] (NewRateLimiter ''p'' (Some [''a'' \<mapsto> 2]))) ''a'' = 2"
  using rate_limit_exact [of 2 "[''a'' \<mapsto> 2]" "''a''" "[''a'', ''b'', ''a'', ''a'']" "''p''"] by simp


subsection \<open>Chains of calls between plugins\<close>

text \<open>
  The contexts in which plugins run: an execution starts without a chain; a call that is admitted
  runs the target in the context of the call; and a plugin that handles an event runs in the context
  of the one that published it.
\<close>

inductive reachable_call :: "call_info \<Rightarrow> bool" where
  started: "reachable_call \<lparr>ci_pluginID = p, ci_depth = 0, ci_chain = []\<rparr>"
| called: "reachable_call c \<Longrightarrow> admit_call ps reg target c = Inr c' \<Longrightarrow> reachable_call (c'\<lparr>ci_pluginID := target\<rparr>)"
| event_handled: "reachable_call c \<Longrightarrow> reachable_call (c\<lparr>ci_pluginID := p\<rparr>)"

lemma admit_call_Inr:
  assumes "admit_call ps reg target c = Inr c'"
  obtains chain where "chain = (if ci_chain c = [] then [ci_pluginID c] else ci_chain c)"
    "target \<notin> set chain" "ci_depth c < 5" "ci_chain c' = chain @ [target]" "ci_depth c' = ci_depth c + 1"
    "CheckPermission ps (ci_pluginID c) (''plugins:call:'' @ target) = None"
  using assms
  by (auto simp: admit_call_def Let_def checkCallCycle_def withCallDepth_def MaxCallDepth_def split: option.splits if_splits)

lemma reachable_call_shape:
  "reachable_call c \<Longrightarrow>
   distinct (ci_chain c) \<and> 0 \<le> ci_depth c \<and> ci_depth c \<le> 5 \<and>
   (if ci_chain c = [] then ci_depth c = 0 else int (length (ci_chain c)) = ci_depth c + 1)"
proof (induction rule: reachable_call.induct)
  case (called c ps reg target c')
  from called.hyps(2) show ?case by (rule admit_call_Inr) (use called.IH in \<open>auto split: if_splits\<close>)
qed auto

text \<open>
  C15. Calls between plugins cannot recurse: in every context that can arise no plugin is twice in
  the chain of calls, and the chain is at most five calls deep.
\<close>

theorem call_chain_bounded:
  assumes "reachable_call c"
  shows "distinct (ci_chain c) \<and> ci_depth c \<le> 5 \<and> length (ci_chain c) \<le> 6"
  using reachable_call_shape [OF assms] by (auto split: if_splits)

definition demo_call_permissions :: permission_store where
  "demo_call_permissions = Grant ''a'' (PermissionsFromRequirements
     [\<lparr>rq_Type = ''plugin'', rq_Description = '''', rq_Name = '''', rq_Target = ''b'', rq_Config = ''''\<rparr>]) newPermissionStore"

theorem call_chain_bounded_witness:
  "\<exists>c. reachable_call c \<and> ci_chain c = [''a'', ''b''] \<and> ci_depth c \<le> 5 \<and> length (ci_chain c) \<le> 6"
proof -
  have "admit_call demo_call_permissions True ''b'' \<lparr>ci_pluginID = ''a'', ci_depth = 0, ci_chain = []\<rparr> =
      Inr \<lparr>ci_pluginID = ''a'', ci_depth = 1, ci_chain = [''a'', ''b'']\<rparr>"
    by (simp add: demo_call_permissions_def Grant_def PermissionsFromRequirements_def requirement_permission_def
        newPermissionStore_def admit_call_def CheckPermission_def checkCallCycle_def withCallDepth_def MaxCallDepth_def)
  from called [OF started this] have r: "reachable_call \<lparr>ci_pluginID = ''b'', ci_depth = 1, ci_chain = [''a'', ''b'']\<rparr>"
    by simp
  from call_chain_bounded [OF r] r show ?thesis by force
qed

subsection \<open>Permissions come from requirements\<close>

lemma mem_PermissionsFromRequirements:
  "perm \<in> set (PermissionsFromRequirements reqs) \<longleftrightarrow> (\<exists>r \<in> set reqs. perm \<in> set (requirement_permission r))"
  by (simp add: PermissionsFromRequirements_def)

lemma plugin_permission_iff:
  "''plugins:call:'' @ t \<in> set (requirement_permission r) \<longleftrightarrow> rq_Type r = ''plugin'' \<and> rq_Target r = t \<and> t \<noteq> ''''"
  by (auto simp: requirement_permission_def)

text \<open>
  A plugin that was granted the permissions of its requirements can call another plugin exactly
  when it requires that plugin by its name, the call closes no cycle, and the chain is not full.
\<close>

lemma admitted_calls_are_required:
  assumes "ps = Grant p (PermissionsFromRequirements reqs) ps0" and "ci_pluginID c = p"
  shows "(\<exists>c'. admit_call ps True t c = Inr c') \<longleftrightarrow>
    t \<noteq> '''' \<and> (\<exists>r \<in> set reqs. rq_Type r = ''plugin'' \<and> rq_Target r = t) \<and>
    (if ci_chain c = [] then t \<noteq> p else t \<notin> set (ci_chain c)) \<and> ci_depth c < 5"
proof -
  have "CheckPermission ps p (''plugins:call:'' @ t) = None \<longleftrightarrow>
      t \<noteq> '''' \<and> (\<exists>r \<in> set reqs. rq_Type r = ''plugin'' \<and> rq_Target r = t)"
    unfolding assms(1) CheckPermission_def Grant_def fun_upd_same option.case set_remdups
      mem_PermissionsFromRequirements plugin_permission_iff by auto
  then show ?thesis using assms(2)
    by (cases "CheckPermission ps p (''plugins:call:'' @ t)")
      (auto simp: admit_call_def checkCallCycle_def MaxCallDepth_def Let_def split: if_splits)
qed



subsection \<open>HTTP requests stay within their policy\<close>

lemma host_matches_iff:
  "host_matches host c \<longleftrightarrow> c = host \<or> (\<exists>d x. c = ''*.'' @ d \<and> host = x @ ''.'' @ d)"
proof (cases "HasPrefix c ''*.''")
  case True
  then obtain d where c: "c = ''*.'' @ d" by (auto simp: prefix_def)
  have "TrimPrefix c ''*.'' = d" "TrimPrefix c ''*'' = ''.'' @ d" by (simp_all add: c TrimPrefix_def)
  then show ?thesis by (auto simp: host_matches_def c suffix_def)
qed (auto simp: host_matches_def)

lemma enforce_policy_confines:
  assumes "enforceHTTPRequestPolicy policy method1 (Inr h) n = None"
  shows "hp_AllowedHosts policy = [] \<or> ToLower (TrimSpace h) \<in> set (hp_AllowedHosts policy) \<or>
      (\<exists>d x. ''*.'' @ d \<in> set (hp_AllowedHosts policy) \<and> ToLower (TrimSpace h) = x @ ''.'' @ d)"
    and "hp_AllowedMethods policy = [] \<or> ''*'' \<in> set (hp_AllowedMethods policy) \<or>
      normalizeHTTPRequestMethod method1 \<in> set (hp_AllowedMethods policy)"
    and "hp_MaxRequestBodyBytes policy > 0 \<longrightarrow> n \<le> hp_MaxRequestBodyBytes policy"
  using assms unfolding enforceHTTPRequestPolicy_def Let_def
  by (auto simp: hostAllowedByPolicy_def methodAllowedByPolicy_def list_ex_iff host_matches_iff split: if_splits)

lemma admit_request_Inr:
  assumes "admit_request N ps (Some s) client p pl = Inr (req, pol)"
  obtains "CheckPermission ps p ''network'' = None"
    "HTTPPolicy s p (hr_Requirement pl) = Inr pol"
    "enforceHTTPRequestPolicy pol (normalizeHTTPRequestMethod (hr_Method pl)) (hn_hostname N (hr_URL pl)) (int (length (hr_Body pl))) = None"
    "\<not> isBlockedHost (hn_hostname N) (hn_parseIP N) (hr_URL pl)"
    "req = (normalizeHTTPRequestMethod (hr_Method pl), hr_URL pl, hr_Headers pl, hr_Body pl)"
  using assms by (auto simp: admit_request_def Let_def split: option.splits sum.splits if_splits)

text \<open>
  C16. With policies enforced, a request that leaves the host is one of a plugin with the network
  permission and a policy for the named requirement; its host is one that the policy lists, or a
  subdomain of a listed wildcard, its body keeps the policy's limit (an empty list or a zero limit
  does not restrict), and its host is no literal loopback, private or link-local address.
\<close>

theorem policy_confines_requests:
  assumes "admit_request N ps (Some s) True p pl = Inr (req, pol)" and host: "hn_hostname N (hr_URL pl) = Inr h"
  shows "CheckPermission ps p ''network'' = None \<and> HTTPPolicy s p (hr_Requirement pl) = Inr pol \<and>
    (hp_AllowedHosts pol = [] \<or> ToLower (TrimSpace h) \<in> set (hp_AllowedHosts pol) \<or>
      (\<exists>d x. ''*.'' @ d \<in> set (hp_AllowedHosts pol) \<and> ToLower (TrimSpace h) = x @ ''.'' @ d)) \<and>
    (hp_MaxRequestBodyBytes pol > 0 \<longrightarrow> int (length (hr_Body pl)) \<le> hp_MaxRequestBodyBytes pol) \<and>
    (\<forall>ip. hn_parseIP N h = Some ip \<longrightarrow> \<not> IsLoopback ip \<and> \<not> IsPrivate ip \<and> \<not> IsLinkLocalUnicast ip)"
proof -
  from admit_request_Inr [OF assms(1)] have adm: "CheckPermission ps p ''network'' = None"
      "HTTPPolicy s p (hr_Requirement pl) = Inr pol"
      "enforceHTTPRequestPolicy pol (normalizeHTTPRequestMethod (hr_Method pl)) (Inr h) (int (length (hr_Body pl))) = None"
      "\<not> isBlockedHost (hn_hostname N) (hn_parseIP N) (hr_URL pl)"
    using host by metis+
  have "\<forall>ip. hn_parseIP N h = Some ip \<longrightarrow> \<not> IsLoopback ip \<and> \<not> IsPrivate ip \<and> \<not> IsLinkLocalUnicast ip"
    using adm(4) by (auto simp: isBlockedHost_def host Let_def)
  with adm(1,2) enforce_policy_confines(1,3) [OF adm(3)] show ?thesis by blast
qed

definition demo_policy :: http_policy where
  "demo_policy = \<lparr>hp_Requirement = ''r'', hp_AllowedHosts = [''*.x''], hp_AllowedMethods = [''GET''],
     hp_MaxRequestBodyBytes = 5, hp_MaxResponseBodyBytes = 0\<rparr>"

definition demo_net :: http_net where
  "demo_net = \<lparr>hn_hostname = (\<lambda>u. Inr (drop 7 u)), hn_parseIP = (\<lambda>h. if h = ''0.0.0.0'' then Some (IP4 0 0 0 0) else None),
     hn_newRequest = (\<lambda>_ _. None)\<rparr>"

definition demo_http_payload :: http_request_payload where
  "demo_http_payload = \<lparr>hr_Requirement = ''r'', hr_Method = '''', hr_URL = ''http://a.x'', hr_Headers = [], hr_Body = ''abc''\<rparr>"

theorem policy_confines_requests_witness:
  "(\<exists>req. admit_request demo_net (Grant ''p'' [''network''] newPermissionStore)
      (Some (policies_Set ''p'' [''r'' \<mapsto> demo_policy] Map.empty)) True ''p'' demo_http_payload = Inr (req, demo_policy)) \<and>
   (\<exists>d x. ''*.'' @ d \<in> set (hp_AllowedHosts demo_policy) \<and> ''a.x'' = x @ ''.'' @ d)"
proof -
  let ?ps = "Grant ''p'' [''network''] newPermissionStore"
  let ?s = "policies_Set ''p'' [''r'' \<mapsto> demo_policy] Map.empty"
  have t: "ToLower (TrimSpace ''a.x'') = ''a.x''" by code_simp
  have m: "normalizeHTTPRequestMethod '''' = ''GET''" by code_simp
  have low: "ToLower ''a.x'' = ''a.x''" by code_simp
  have h: "hn_hostname demo_net (hr_URL demo_http_payload) = Inr ''a.x''"
    by (simp add: demo_net_def demo_http_payload_def)
  have open_host: "\<not> isBlockedHost (hn_hostname demo_net) (hn_parseIP demo_net) (hr_URL demo_http_payload)"
    by (simp add: isBlockedHost_def h low, simp add: demo_net_def)
  have fields: "hr_Requirement demo_http_payload = ''r''" "hr_Method demo_http_payload = ''''" "length (hr_Body demo_http_payload) = 3"
    by (simp_all add: demo_http_payload_def)
  have e: "enforceHTTPRequestPolicy demo_policy ''GET'' (Inr ''a.x'') (int 3) = None" by code_simp
  have c: "CheckPermission ?ps ''p'' ''network'' = None"
    by (simp add: Grant_def newPermissionStore_def CheckPermission_def)
  have pol: "HTTPPolicy ?s ''p'' ''r'' = Inr demo_policy"
    by (simp add: HTTPPolicy_def policies_Get_def policies_Set_def)
  have "\<exists>req. admit_request demo_net ?ps (Some ?s) True ''p'' demo_http_payload = Inr (req, demo_policy)"
    unfolding admit_request_def h c fields m Let_def option.case pol sum.case e using open_host
    by (simp add: demo_net_def)
  then obtain req where adm: "admit_request demo_net ?ps (Some ?s) True ''p'' demo_http_payload = Inr (req, demo_policy)" ..
  have "''a.x'' \<notin> set (hp_AllowedHosts demo_policy)" "hp_AllowedHosts demo_policy \<noteq> []" by (simp_all add: demo_policy_def)
  with policy_confines_requests [OF adm h] adm show ?thesis unfolding t by blast
qed

text \<open>The unspecified address, which connects to the host itself, is not blocked.\<close>

lemma unspecified_address_not_blocked:
  "\<not> isBlockedHost (hn_hostname demo_net) (hn_parseIP demo_net) ''http://0.0.0.0''"
  by code_simp

end
