(* ===== verification/Event_Bus.thy ===== *)
theory Event_Bus
  imports Bot_Model
begin

text \<open>
  The buses that carry events between plugins (\<^verbatim>\<open>internal/wasm/eventbus\<close>): the bus in memory with
  retries and a dead-letter queue (\<^verbatim>\<open>eventbus.go\<close>) and the one over a PostgreSQL table
  (\<^verbatim>\<open>postgres.go\<close>).

  A handler is a Go closure: the model names it by a value of type \<open>'h\<close>, and the environment runs it.
  It runs on the whole state, so it may publish, subscribe or replay again while the bus delivers to
  it. The context of a delivery is the identifier of the publishing plugin that it carries.
  Sequence numbers of dead letters are unbounded. Counters of metrics are lists of what was counted,
  absent when no metrics are configured.
\<close>

subsection \<open>Configuration\<close>

record bus_config =
  bc_MaxRetries :: int
  bc_Backoff :: "duration list"
  bc_DLQMaxSize :: int
  bc_PollInterval :: duration
  bc_LeaseDuration :: duration
  bc_BatchSize :: int

definition zero_config :: bus_config where
  "zero_config = \<lparr>bc_MaxRetries = 0, bc_Backoff = [], bc_DLQMaxSize = 0, bc_PollInterval = 0, bc_LeaseDuration = 0, bc_BatchSize = 0\<rparr>"

definition withDefaults :: "bus_config \<Rightarrow> bus_config" where
  "withDefaults c =
     \<lparr>bc_MaxRetries = (if bc_MaxRetries c \<le> 0 then 3 else bc_MaxRetries c),
      bc_Backoff = (if length (bc_Backoff c) = 0 then [100 * Millisecond, 500 * Millisecond, 2 * Second] else bc_Backoff c),
      bc_DLQMaxSize = (if bc_DLQMaxSize c \<le> 0 then 1000 else bc_DLQMaxSize c),
      bc_PollInterval = (if bc_PollInterval c \<le> 0 then 500 * Millisecond else bc_PollInterval c),
      bc_LeaseDuration = (if bc_LeaseDuration c \<le> 0 then 30 * Second else bc_LeaseDuration c),
      bc_BatchSize = (if bc_BatchSize c \<le> 0 then 16 else bc_BatchSize c)\<rparr>"

text \<open>The list of waiting times is not empty after \<^verbatim>\<open>withDefaults\<close>.\<close>

definition bus_backoffDelay :: "bus_config \<Rightarrow> nat \<Rightarrow> duration" where
  "bus_backoffDelay c retryIndex =
     (if retryIndex < length (bc_Backoff c) then bc_Backoff c ! retryIndex else last (bc_Backoff c))"

subsection \<open>The bus in memory (eventbus.go)\<close>

record dlq_entry =
  dl_ID :: string
  dl_Topic :: string
  dl_Payload :: string
  dl_PluginID :: string
  dl_Error :: string
  dl_Timestamp :: instant
  dl_RetryCount :: int

record 'h bus =
  bus_cfg :: bus_config
  bus_metrics :: "(string \<times> string) list option"
  bus_appm :: "(string \<times> string) list option"
  bus_handlers :: "'h list"
  bus_dlq :: "dlq_entry list"
  bus_dlqSeq :: nat

text \<open>
  What the bus calls: a handler, with the publishing plugin, the topic and the payload; the wait for
  a retry, which ends with the context's error when the context ends first; and the clock.
\<close>

record ('h, 'w) bus_env =
  be_run :: "'h \<Rightarrow> string \<Rightarrow> string \<Rightarrow> string \<Rightarrow> 'h bus \<times> 'w \<Rightarrow> ('h bus \<times> 'w) \<times> go_error option"
  be_wait :: "duration \<Rightarrow> 'w \<Rightarrow> 'w \<times> go_error option"
  be_now :: "'w \<Rightarrow> instant"

definition bus_New :: "bus_config option \<Rightarrow> bool \<Rightarrow> 'h bus" where
  "bus_New cfg metrics =
     \<lparr>bus_cfg = withDefaults (case cfg of Some c \<Rightarrow> c | None \<Rightarrow> zero_config),
      bus_metrics = (if metrics then Some [] else None), bus_appm = None,
      bus_handlers = [], bus_dlq = [], bus_dlqSeq = 0\<rparr>"

definition bus_SetAppMetrics :: "bool \<Rightarrow> 'h bus \<Rightarrow> 'h bus" where
  "bus_SetAppMetrics on b = b\<lparr>bus_appm := (if on then Some [] else None)\<rparr>"

definition bus_Subscribe :: "'h \<Rightarrow> 'h bus \<Rightarrow> 'h bus" where
  "bus_Subscribe h b = b\<lparr>bus_handlers := bus_handlers b @ [h]\<rparr>"

definition incMetric :: "string \<Rightarrow> string \<Rightarrow> 'h bus \<Rightarrow> 'h bus" where
  "incMetric topic status b = b\<lparr>bus_metrics := map_option (\<lambda>l. l @ [(topic, status)]) (bus_metrics b)\<rparr>"

definition incAppMetric :: "string \<Rightarrow> string \<Rightarrow> 'h bus \<Rightarrow> 'h bus" where
  "incAppMetric backend status b = b\<lparr>bus_appm := map_option (\<lambda>l. l @ [(backend, status)]) (bus_appm b)\<rparr>"

definition bus_count :: "string \<Rightarrow> string \<Rightarrow> 'h bus \<Rightarrow> 'h bus" where
  "bus_count topic status b = incAppMetric ''memory'' status (incMetric topic status b)"

text \<open>
  The attempts of a delivery: \<open>n\<close> are left, \<open>attempt\<close> were made, and the last failed with \<open>lastErr\<close>.
\<close>

fun deliver_attempts ::
    "('h, 'w) bus_env \<Rightarrow> 'h \<Rightarrow> string \<Rightarrow> string \<Rightarrow> string \<Rightarrow> nat \<Rightarrow> nat \<Rightarrow> go_error option \<Rightarrow> 'h bus \<times> 'w \<Rightarrow>
     ('h bus \<times> 'w) \<times> go_error option" where
  "deliver_attempts E h src topic payload 0 attempt lastErr st = (st, lastErr)"
| "deliver_attempts E h src topic payload (Suc n) attempt lastErr st =
     (let (st1, cancelled) =
            (if attempt > 0
             then (let b = bus_count topic ''retrying'' (fst st);
                       (w, c) = be_wait E (bus_backoffDelay (bus_cfg b) (attempt - 1)) (snd st)
                   in ((b, w), c))
             else (st, None))
      in case cancelled of
           Some err \<Rightarrow> (st1, Some (Wrap ''context cancelled during retry backoff: '' err ''''))
         | None \<Rightarrow>
             (case be_run E h src topic payload st1 of
                (st2, None) \<Rightarrow> (st2, None)
              | (st2, Some err) \<Rightarrow> deliver_attempts E h src topic payload n (Suc attempt) (Some err) st2))"

definition deliverWithRetry ::
    "('h, 'w) bus_env \<Rightarrow> 'h \<Rightarrow> string \<Rightarrow> string \<Rightarrow> string \<Rightarrow> 'h bus \<times> 'w \<Rightarrow> ('h bus \<times> 'w) \<times> go_error option" where
  "deliverWithRetry E h src topic payload st =
     deliver_attempts E h src topic payload (nat (1 + bc_MaxRetries (bus_cfg (fst st)))) 0 None st"

definition dlq_id :: "nat \<Rightarrow> string" where
  "dlq_id n = ''dlq-'' @ FormatInt (int n)"

definition addToDLQ :: "instant \<Rightarrow> string \<Rightarrow> string \<Rightarrow> string \<Rightarrow> go_error \<Rightarrow> 'h bus \<Rightarrow> 'h bus" where
  "addToDLQ now topic payload pluginID err b =
     (let n = Suc (bus_dlqSeq b);
          entry = \<lparr>dl_ID = dlq_id n, dl_Topic = topic, dl_Payload = payload, dl_PluginID = pluginID,
                   dl_Error = error_text err, dl_Timestamp = now, dl_RetryCount = bc_MaxRetries (bus_cfg b)\<rparr>
      in b\<lparr>bus_dlqSeq := n,
           bus_dlq := (if int (length (bus_dlq b)) \<ge> bc_DLQMaxSize (bus_cfg b) then tl (bus_dlq b) @ [entry]
                       else bus_dlq b @ [entry])\<rparr>)"

fun publish_to ::
    "('h, 'w) bus_env \<Rightarrow> string \<Rightarrow> string \<Rightarrow> string \<Rightarrow> 'h list \<Rightarrow> go_error option \<Rightarrow> 'h bus \<times> 'w \<Rightarrow>
     ('h bus \<times> 'w) \<times> go_error option" where
  "publish_to E src topic payload [] firstErr st = (st, firstErr)"
| "publish_to E src topic payload (h # hs) firstErr st =
     (case deliverWithRetry E h src topic payload st of
        ((b, w), Some err) \<Rightarrow>
          publish_to E src topic payload hs (if firstErr = None then Some err else firstErr)
            (bus_count topic ''dead_lettered'' (addToDLQ (be_now E w) topic payload src err b), w)
      | ((b, w), None) \<Rightarrow> publish_to E src topic payload hs firstErr (bus_count topic ''delivered'' b, w))"

definition bus_Publish ::
    "('h, 'w) bus_env \<Rightarrow> string \<Rightarrow> string \<Rightarrow> string \<Rightarrow> 'h bus \<times> 'w \<Rightarrow> ('h bus \<times> 'w) \<times> go_error option" where
  "bus_Publish E src topic payload st =
     (if bus_handlers (fst st) = []
      then ((incAppMetric ''memory'' ''no_subscribers'' (incMetric topic ''delivered'' (fst st)), snd st), None)
      else publish_to E src topic payload (bus_handlers (fst st)) None st)"

definition DLQEntries :: "'h bus \<Rightarrow> dlq_entry list" where
  "DLQEntries b = bus_dlq b"

definition DLQLen :: "'h bus \<Rightarrow> nat" where
  "DLQLen b = length (bus_dlq b)"

text \<open>Replaying a snapshot: the entries that remain, the number replayed and the first error.\<close>

fun replay_entries ::
    "('h, 'w) bus_env \<Rightarrow> dlq_entry list \<Rightarrow> dlq_entry list \<Rightarrow> nat \<Rightarrow> go_error option \<Rightarrow> 'h bus \<times> 'w \<Rightarrow>
     ('h bus \<times> 'w) \<times> dlq_entry list \<times> nat \<times> go_error option" where
  "replay_entries E [] remaining replayed firstErr st = (st, remaining, replayed, firstErr)"
| "replay_entries E (entry # entries) remaining replayed firstErr st =
     (case bus_Publish E (dl_PluginID entry) (dl_Topic entry) (dl_Payload entry) st of
        (st1, Some err) \<Rightarrow>
          replay_entries E entries
            (remaining @ [entry\<lparr>dl_Error := error_text err, dl_Timestamp := be_now E (snd st1),
                                dl_RetryCount := dl_RetryCount entry + bc_MaxRetries (bus_cfg (fst st1))\<rparr>])
            replayed (if firstErr = None then Some err else firstErr) st1
      | (st1, None) \<Rightarrow> replay_entries E entries remaining (Suc replayed) firstErr st1)"

definition ReplayDLQ :: "('h, 'w) bus_env \<Rightarrow> 'h bus \<times> 'w \<Rightarrow> ('h bus \<times> 'w) \<times> nat \<times> go_error option" where
  "ReplayDLQ E st =
     (case replay_entries E (bus_dlq (fst st)) [] 0 None st of
        ((b, w), remaining, replayed, firstErr) \<Rightarrow> ((b\<lparr>bus_dlq := remaining\<rparr>, w), replayed, firstErr))"

definition PurgeDLQ :: "'h bus \<Rightarrow> 'h bus \<times> nat" where
  "PurgeDLQ b = (b\<lparr>bus_dlq := []\<rparr>, length (bus_dlq b))"

subsection \<open>The dead-letter queue is bounded and its identifiers are unique\<close>

text \<open>
  Identifiers are those of increasing sequence numbers, none above the current one.
\<close>

definition id_less :: "string \<Rightarrow> string \<Rightarrow> bool" where
  "id_less a b \<longleftrightarrow> (\<exists>i j. a = dlq_id i \<and> b = dlq_id j \<and> i < j)"

definition dlq_ids :: "nat \<Rightarrow> dlq_entry list \<Rightarrow> bool" where
  "dlq_ids n es \<longleftrightarrow> sorted_wrt id_less (map dl_ID es) \<and> (\<forall>x \<in> set (map dl_ID es). \<exists>i \<le> n. x = dlq_id i)"

definition bus_ok :: "'h bus \<Rightarrow> bool" where
  "bus_ok b \<longleftrightarrow> bc_DLQMaxSize (bus_cfg b) > 0 \<and> int (length (bus_dlq b)) \<le> bc_DLQMaxSize (bus_cfg b) \<and>
     dlq_ids (bus_dlqSeq b) (bus_dlq b)"

text \<open>What a state may become: the configuration stays, and sequence numbers are not reused.\<close>

definition bus_step :: "'h bus \<Rightarrow> 'h bus \<Rightarrow> bool" where
  "bus_step b b' \<longleftrightarrow> bus_ok b' \<and> bus_cfg b' = bus_cfg b \<and> bus_dlqSeq b \<le> bus_dlqSeq b'"

lemma bus_step_trans: "bus_step b b' \<Longrightarrow> bus_step b' b'' \<Longrightarrow> bus_step b b''"
  by (auto simp: bus_step_def)

lemma bus_step_refl: "bus_ok b \<Longrightarrow> bus_step b b"
  by (simp add: bus_step_def)

lemma bus_step_ok: "bus_step b b' \<Longrightarrow> bus_ok b'"
  by (simp add: bus_step_def)

lemma dlq_id_inj [simp]: "dlq_id i = dlq_id j \<longleftrightarrow> i = j"
  by (simp add: dlq_id_def FormatInt_inj)

lemma id_sorted_distinct: "sorted_wrt id_less xs \<Longrightarrow> distinct xs"
  by (induction xs) (auto simp: id_less_def)

lemma dlq_ids_distinct: "dlq_ids n es \<Longrightarrow> distinct (map dl_ID es)"
  by (simp add: dlq_ids_def id_sorted_distinct)

lemma dlq_ids_append_drop: "dlq_ids n (es @ e # fs) \<Longrightarrow> dlq_ids n (es @ fs)"
  by (auto simp: dlq_ids_def sorted_wrt_append)

lemma dlq_ids_tl: "dlq_ids n es \<Longrightarrow> dlq_ids n (tl es)"
  using dlq_ids_append_drop [of n "[]" "hd es" "tl es"] by (cases es) auto

lemma dlq_ids_cong: "map dl_ID es = map dl_ID fs \<Longrightarrow> dlq_ids n es \<Longrightarrow> dlq_ids n fs"
  unfolding dlq_ids_def by simp

lemma dlq_ids_mono: "dlq_ids n es \<Longrightarrow> n \<le> m \<Longrightarrow> dlq_ids m es"
  unfolding dlq_ids_def by (meson le_trans)

lemma dlq_ids_snoc:
  assumes "dlq_ids n es" "dl_ID e = dlq_id (Suc n)"
  shows "dlq_ids (Suc n) (es @ [e])"
  using assms dlq_ids_mono [OF assms(1), of "Suc n"]
  by (fastforce simp: dlq_ids_def sorted_wrt_append id_less_def)

lemma addToDLQ_step:
  assumes "bus_ok b"
  shows "bus_step b (addToDLQ now topic payload src err b)"
proof -
  let ?e = "\<lparr>dl_ID = dlq_id (Suc (bus_dlqSeq b)), dl_Topic = topic, dl_Payload = payload, dl_PluginID = src,
      dl_Error = error_text err, dl_Timestamp = now, dl_RetryCount = bc_MaxRetries (bus_cfg b)\<rparr>"
  have "dlq_ids (bus_dlqSeq b) (bus_dlq b)" using assms by (simp add: bus_ok_def)
  then have "dlq_ids (Suc (bus_dlqSeq b)) (bus_dlq b @ [?e])" "dlq_ids (Suc (bus_dlqSeq b)) (tl (bus_dlq b) @ [?e])"
    by (auto intro: dlq_ids_snoc dlq_ids_tl)
  moreover have "int (length (tl (bus_dlq b) @ [?e])) \<le> bc_DLQMaxSize (bus_cfg b)"
    using assms by (cases "bus_dlq b") (auto simp: bus_ok_def)
  ultimately show ?thesis using assms by (simp add: bus_step_def bus_ok_def addToDLQ_def Let_def)
qed

lemma count_step [simp]:
  "bus_step b (bus_count t s b') \<longleftrightarrow> bus_step b b'" "bus_ok (bus_count t s b) \<longleftrightarrow> bus_ok b"
  "bus_step b (incAppMetric t s b') \<longleftrightarrow> bus_step b b'" "bus_step b (incMetric t s b') \<longleftrightarrow> bus_step b b'"
  "bus_step (bus_count t s b) b' \<longleftrightarrow> bus_step b b'"
  by (simp_all add: bus_count_def incMetric_def incAppMetric_def bus_step_def bus_ok_def)

text \<open>
  A handler takes the bus from one such state to another: it may use the bus, but it does not write
  its fields otherwise.
\<close>

definition handlers_step :: "('h, 'w) bus_env \<Rightarrow> bool" where
  "handlers_step E \<longleftrightarrow>
     (\<forall>h src topic payload b w. bus_ok b \<longrightarrow> bus_step b (fst (fst (be_run E h src topic payload (b, w)))))"

lemma deliver_attempts_step:
  assumes "handlers_step E" "bus_ok b"
  shows "bus_step b (fst (fst (deliver_attempts E h src topic payload n attempt lastErr (b, w))))"
  using assms(2)
proof (induction n arbitrary: attempt lastErr b w)
  case (Suc n)
  let ?b = "if attempt > 0 then bus_count topic ''retrying'' b else b"
  have ok: "bus_ok ?b" using Suc.prems by simp
  have run: "bus_step b (fst (fst (be_run E h src topic payload (?b, w'))))" for w'
    using assms(1) ok bus_step_trans [of b ?b] bus_step_refl [OF Suc.prems] unfolding handlers_step_def by simp
  have next1: "bus_step b (fst (fst (deliver_attempts E h src topic payload n (Suc attempt) (Some err)
      (fst (be_run E h src topic payload (?b, w'))))))" for w' err
    using Suc.IH [OF bus_step_ok [OF run [of w']]] bus_step_trans [OF run [of w']] by (metis prod.collapse)
  obtain w1 c where wait: "be_wait E (bus_backoffDelay (bus_cfg (bus_count topic ''retrying'' b)) (attempt - 1)) w = (w1, c)"
    by fastforce
  show ?case
  proof (cases "attempt > 0")
    case True
    obtain st2 r where r: "be_run E h src topic payload (bus_count topic ''retrying'' b, w1) = (st2, r)" by fastforce
    show ?thesis using True wait r run [of w1] next1 [where w' = w1] bus_step_refl [OF Suc.prems]
      by (cases r; cases c) auto
  next
    case False
    obtain st2 r where r: "be_run E h src topic payload (b, w) = (st2, r)" by fastforce
    show ?thesis using False r run [of w] next1 [where w' = w] by (cases r) auto
  qed
qed (simp add: bus_step_refl)

lemma publish_to_step:
  assumes "handlers_step E" "bus_ok b"
  shows "bus_step b (fst (fst (publish_to E src topic payload hs firstErr (b, w))))"
  using assms(2)
proof (induction hs arbitrary: firstErr b w)
  case (Cons h hs)
  obtain b1 w1 r where r: "deliverWithRetry E h src topic payload (b, w) = ((b1, w1), r)"
    by (metis prod.collapse)
  have b1: "bus_step b b1"
    using deliver_attempts_step [OF assms(1) Cons.prems, of h src topic payload _ _ _ w] r
    unfolding deliverWithRetry_def by (metis fst_conv)
  let ?b = "case r of None \<Rightarrow> bus_count topic ''delivered'' b1
    | Some err \<Rightarrow> bus_count topic ''dead_lettered'' (addToDLQ (be_now E w1) topic payload src err b1)"
  have step: "bus_step b ?b"
    using b1 bus_step_trans [OF b1 addToDLQ_step [OF bus_step_ok [OF b1]]] by (cases r) auto
  show ?case using Cons.IH [OF bus_step_ok [OF step]] bus_step_trans [OF step] r by (cases r) auto
qed (simp add: bus_step_refl)

lemma bus_Publish_step:
  assumes "handlers_step E" "bus_ok b"
  shows "bus_step b (fst (fst (bus_Publish E src topic payload (b, w))))"
  using publish_to_step [OF assms] bus_step_refl [OF assms(2)] by (simp add: bus_Publish_def)


lemma replay_entries_step:
  assumes "handlers_step E" "bus_ok b"
  shows "case replay_entries E entries remaining replayed firstErr (b, w) of
    ((b', w'), remaining', replayed', err) \<Rightarrow> bus_step b b' \<and> length remaining' \<le> length remaining + length entries \<and>
      (\<forall>n. dlq_ids n (remaining @ entries) \<longrightarrow> dlq_ids n remaining')"
  using assms(2)
proof (induction entries arbitrary: remaining replayed firstErr b w)
  case (Cons e entries)
  obtain b1 w1 r where r: "bus_Publish E (dl_PluginID e) (dl_Topic e) (dl_Payload e) (b, w) = ((b1, w1), r)"
    by (metis prod.collapse)
  have b1: "bus_step b b1" using bus_Publish_step [OF assms(1) Cons.prems] r by (metis fst_conv)
  note IH = Cons.IH [OF bus_step_ok [OF b1], where w = w1]
  show ?case
  proof (cases r)
    case None
    show ?thesis using IH [of remaining "Suc replayed" firstErr] r None bus_step_trans [OF b1]
        dlq_ids_append_drop [of _ remaining e entries]
      by (auto split: prod.splits)
  next
    case (Some err)
    let ?e = "e\<lparr>dl_Error := error_text err, dl_Timestamp := be_now E w1, dl_RetryCount := dl_RetryCount e + bc_MaxRetries (bus_cfg b1)\<rparr>"
    have "\<And>n. dlq_ids n (remaining @ e # entries) \<Longrightarrow> dlq_ids n ((remaining @ [?e]) @ entries)"
      by (rule dlq_ids_cong) auto
    with IH [of "remaining @ [?e]" replayed "if firstErr = None then Some err else firstErr"] r Some bus_step_trans [OF b1]
    show ?thesis by (auto split: prod.splits)
  qed
qed (simp add: bus_step_refl)

lemma ReplayDLQ_step:
  assumes "handlers_step E" "bus_ok b"
  shows "bus_step b (fst (fst (ReplayDLQ E (b, w))))"
proof -
  obtain b' w' remaining replayed err where r: "replay_entries E (bus_dlq b) [] 0 None (b, w) = ((b', w'), remaining, replayed, err)"
    by (metis prod.collapse)
  with replay_entries_step [OF assms, where entries = "bus_dlq b" and remaining = "[]" and replayed = 0 and firstErr = None and w = w] have
    "bus_step b b'" "length remaining \<le> length (bus_dlq b)" "dlq_ids (bus_dlqSeq b) remaining"
    using assms(2) by (auto simp: bus_ok_def)
  with assms(2) show ?thesis unfolding ReplayDLQ_def
    by (auto simp: r bus_step_def bus_ok_def dest: dlq_ids_mono)
qed

text \<open>The states of a bus that is used through its operations.\<close>

inductive reachable_bus :: "('h, 'w) bus_env \<Rightarrow> 'h bus \<Rightarrow> bool" for E where
  bus_created: "reachable_bus E (bus_New cfg m)"
| bus_counted: "reachable_bus E b \<Longrightarrow> reachable_bus E (bus_SetAppMetrics on b)"
| bus_subscribed: "reachable_bus E b \<Longrightarrow> reachable_bus E (bus_Subscribe h b)"
| bus_published: "reachable_bus E b \<Longrightarrow> reachable_bus E (fst (fst (bus_Publish E src topic payload (b, w))))"
| bus_replayed: "reachable_bus E b \<Longrightarrow> reachable_bus E (fst (fst (ReplayDLQ E (b, w))))"
| bus_purged: "reachable_bus E b \<Longrightarrow> reachable_bus E (fst (PurgeDLQ b))"

lemma reachable_bus_ok: "reachable_bus E b \<Longrightarrow> handlers_step E \<Longrightarrow> bus_ok b"
proof (induction rule: reachable_bus.induct)
  case (bus_published b src topic payload w)
  then show ?case by (blast intro: bus_step_ok bus_Publish_step)
next
  case (bus_replayed b w)
  then show ?case by (blast intro: bus_step_ok ReplayDLQ_step)
qed (auto simp: bus_ok_def bus_New_def withDefaults_def bus_SetAppMetrics_def bus_Subscribe_def PurgeDLQ_def dlq_ids_def)

text \<open>
  However publications, replays, purges and subscriptions follow each other, also from within
  handlers, the dead-letter queue never exceeds its configured size and no two dead letters share an
  identifier.
\<close>

theorem dead_letters_bounded:
  assumes "handlers_step E" and "reachable_bus E b"
  shows "int (DLQLen b) \<le> bc_DLQMaxSize (bus_cfg b) \<and> distinct (map dl_ID (DLQEntries b))"
  using reachable_bus_ok [OF assms(2,1)] by (auto simp: bus_ok_def DLQLen_def DLQEntries_def intro: dlq_ids_distinct)

text \<open>An environment whose handlers fail, named by the text of their error.\<close>

definition failing_env :: "(string, unit) bus_env" where
  "failing_env = \<lparr>be_run = (\<lambda>h src topic payload st. (st, if h = '''' then None else Some (Plain h))), be_wait = (\<lambda>d w. (w, None)), be_now = (\<lambda>w. 0)\<rparr>"

definition demo_bus :: "string bus" where
  "demo_bus = fst (fst (bus_Publish failing_env ''p'' ''topic'' ''{}'' (bus_Subscribe ''broken'' (bus_New None True), ())))"

lemma failing_env_step: "handlers_step failing_env"
  by (simp add: handlers_step_def failing_env_def bus_step_refl)

theorem dead_letters_bounded_witness:
  "map dl_ID (DLQEntries demo_bus) = [''dlq-1''] \<and> int (DLQLen demo_bus) \<le> 1000"
proof -
  have "reachable_bus failing_env demo_bus" unfolding demo_bus_def by (intro reachable_bus.intros)
  note dead_letters_bounded [OF failing_env_step this]
  moreover have "map dl_ID (DLQEntries demo_bus) = [''dlq-1'']" "bc_DLQMaxSize (bus_cfg demo_bus) = 1000" by code_simp+
  ultimately show ?thesis by simp
qed

subsection \<open>Retries\<close>

text \<open>
  An environment that runs a script: the world lists the outcomes of the attempts to come, and no
  context ends.
\<close>

definition script_env :: "('h, go_error option list) bus_env" where
  "script_env = \<lparr>be_run = (\<lambda>h src topic payload (b, w). ((b, tl w), hd w)), be_wait = (\<lambda>d w. (w, None)), be_now = (\<lambda>w. 0)\<rparr>"

lemma deliver_attempts_script:
  assumes "n \<le> length outcomes"
  shows "snd (fst (deliver_attempts script_env h src topic payload n attempt lastErr (b, outcomes))) =
      drop (min n (Suc (length (takeWhile (\<lambda>x. x \<noteq> None) outcomes)))) outcomes"
    and "snd (deliver_attempts script_env h src topic payload n attempt lastErr (b, outcomes)) =
      (if None \<in> set (take n outcomes) then None else last (lastErr # take n outcomes))"
  using assms
proof (induction n arbitrary: attempt lastErr b outcomes)
  case (Suc n)
  {
    case 1
    then obtain x xs where x: "outcomes = x # xs" by (cases outcomes) auto
    show ?case using Suc.IH(1) [of xs] 1 x by (cases x) (auto simp: script_env_def)
  next
    case 2
    then obtain x xs where x: "outcomes = x # xs" by (cases outcomes) auto
    show ?case using Suc.IH(2) [of xs] 2 x by (cases x) (auto simp: script_env_def)
  }
qed auto

text \<open>
  A delivery tries a handler until its first success, at most once more than the configured
  number of retries, and fails with the error of the last attempt only when all attempts failed.
\<close>

theorem delivery_stops_at_success:
  assumes "attempts = nat (1 + bc_MaxRetries (bus_cfg b))" and "attempts > 0" and "attempts \<le> length outcomes"
  shows "snd (deliverWithRetry script_env h src topic payload (b, outcomes)) =
      (if None \<in> set (take attempts outcomes) then None else outcomes ! (attempts - 1)) \<and>
    length outcomes - length (snd (fst (deliverWithRetry script_env h src topic payload (b, outcomes)))) =
      min attempts (Suc (length (takeWhile (\<lambda>x. x \<noteq> None) outcomes)))"
proof -
  have "take attempts outcomes \<noteq> []" "last (take attempts outcomes) = outcomes ! (attempts - 1)"
    using assms(2,3) by (cases outcomes; simp add: last_conv_nth)+
  moreover have "length (takeWhile (\<lambda>x. x \<noteq> None) outcomes) \<le> length outcomes" by (rule length_takeWhile_le)
  ultimately show ?thesis
    unfolding deliverWithRetry_def fst_conv assms(1) [symmetric] deliver_attempts_script [OF assms(3)]
    using assms(3) by (simp del: not_None_eq)
qed

theorem delivery_stops_at_success_witness:
  "snd (deliverWithRetry script_env () ''p'' ''t'' '''' (bus_New None False, [Some (Plain ''a''), None, None, None])) = None"
  using delivery_stops_at_success [where attempts = 4 and b = "bus_New None False" and outcomes = "[Some (Plain ''a''), None, None, None]"
      and h = "()" and src = "''p''" and topic = "''t''" and payload = "''''"]
  by (simp add: bus_New_def withDefaults_def zero_config_def)


subsection \<open>Replaying dead letters\<close>

text \<open>An environment whose handlers leave the bus alone and answer by the event.\<close>

definition quiet_env :: "('h \<Rightarrow> string \<Rightarrow> string \<Rightarrow> string \<Rightarrow> go_error option) \<Rightarrow> ('h, unit) bus_env" where
  "quiet_env out = \<lparr>be_run = (\<lambda>h src topic payload st. (st, out h src topic payload)), be_wait = (\<lambda>d w. (w, None)), be_now = (\<lambda>w. 0)\<rparr>"

abbreviation same_setup :: "'h bus \<Rightarrow> 'h bus \<Rightarrow> bool" where
  "same_setup b b' \<equiv> bus_cfg b' = bus_cfg b \<and> bus_handlers b' = bus_handlers b"

lemma same_setup_simps [simp]:
  "bus_cfg (bus_count t s b) = bus_cfg b" "bus_handlers (bus_count t s b) = bus_handlers b"
  "bus_cfg (addToDLQ now t p src err b) = bus_cfg b" "bus_handlers (addToDLQ now t p src err b) = bus_handlers b"
  "bus_cfg (incMetric t s b) = bus_cfg b" "bus_handlers (incMetric t s b) = bus_handlers b"
  "bus_cfg (incAppMetric t s b) = bus_cfg b" "bus_handlers (incAppMetric t s b) = bus_handlers b"
  by (simp_all add: bus_count_def incMetric_def incAppMetric_def addToDLQ_def Let_def)

lemma quiet_env_simps [simp]:
  "be_run (quiet_env out) h src t p st = (st, out h src t p)" "be_wait (quiet_env out) d w = (w, None)"
  by (simp_all add: quiet_env_def)

lemma deliver_attempts_quiet:
  "same_setup b (fst (fst (deliver_attempts (quiet_env out) h src t p n attempt lastErr (b, ())))) \<and>
   snd (deliver_attempts (quiet_env out) h src t p n attempt lastErr (b, ())) = (if n = 0 then lastErr else out h src t p)"
proof (induction n arbitrary: attempt lastErr b)
  case (Suc n)
  then show ?case by (cases "out h src t p") (simp_all add: Let_def)
qed simp

lemma publish_to_quiet:
  assumes "bc_MaxRetries (bus_cfg b) \<ge> 0"
  shows "same_setup b (fst (fst (publish_to (quiet_env out) src t p hs firstErr (b, ())))) \<and>
    (snd (publish_to (quiet_env out) src t p hs firstErr (b, ())) = None \<longleftrightarrow>
      firstErr = None \<and> (\<forall>h \<in> set hs. out h src t p = None))"
  using assms
proof (induction hs arbitrary: firstErr b)
  case (Cons h hs)
  obtain b1 r where r: "deliverWithRetry (quiet_env out) h src t p (b, ()) = ((b1, ()), r)"
    by (metis prod.collapse unit.exhaust)
  have q: "same_setup b b1" "r = out h src t p"
    using deliver_attempts_quiet [where b = b and n = "nat (1 + bc_MaxRetries (bus_cfg b))" and attempt = 0 and lastErr = None
        and out = out and h = h and src = src and t = t and p = p] r Cons.prems
    unfolding deliverWithRetry_def by simp_all
  then show ?case using Cons.IH r Cons.prems by (cases "out h src t p") simp_all
qed simp

lemma bus_Publish_quiet:
  assumes "bc_MaxRetries (bus_cfg b) \<ge> 0"
  shows "same_setup b (fst (fst (bus_Publish (quiet_env out) src t p (b, ()))))"
    and "snd (bus_Publish (quiet_env out) src t p (b, ())) = None \<longleftrightarrow> (\<forall>h \<in> set (bus_handlers b). out h src t p = None)"
  using publish_to_quiet [OF assms] by (simp_all add: bus_Publish_def)

definition refused :: "('h \<Rightarrow> string \<Rightarrow> string \<Rightarrow> string \<Rightarrow> go_error option) \<Rightarrow> 'h bus \<Rightarrow> dlq_entry \<Rightarrow> bool" where
  "refused out b e \<longleftrightarrow> (\<exists>h \<in> set (bus_handlers b). out h (dl_PluginID e) (dl_Topic e) (dl_Payload e) \<noteq> None)"

lemma replay_entries_quiet:
  assumes "bc_MaxRetries (bus_cfg b) \<ge> 0" "same_setup b c"
  shows "map dl_ID (fst (snd (replay_entries (quiet_env out) entries remaining replayed firstErr (c, ())))) =
      map dl_ID remaining @ map dl_ID (filter (refused out b) entries) \<and>
    fst (snd (snd (replay_entries (quiet_env out) entries remaining replayed firstErr (c, ())))) =
      replayed + length (filter (\<lambda>e. \<not> refused out b e) entries)"
  using assms(2)
proof (induction entries arbitrary: remaining replayed firstErr c)
  case (Cons e entries)
  obtain b1 r where r: "bus_Publish (quiet_env out) (dl_PluginID e) (dl_Topic e) (dl_Payload e) (c, ()) = ((b1, ()), r)"
    by (metis prod.collapse unit.exhaust)
  have m: "bc_MaxRetries (bus_cfg c) \<ge> 0" using assms(1) Cons.prems by simp
  have s: "same_setup b b1" "r = None \<longleftrightarrow> \<not> refused out b e"
    using bus_Publish_quiet [OF m, of out "dl_PluginID e" "dl_Topic e" "dl_Payload e"] r Cons.prems by (simp_all add: refused_def)
  show ?case using Cons.IH [OF s(1)] s(2) r by (cases r) simp_all
qed simp

text \<open>
  Replaying the dead letters to handlers that do not use the bus themselves keeps exactly those
  that some handler still refuses, in their order, and counts the others as replayed.
\<close>

theorem replay_keeps_exactly_failed:
  assumes "bc_MaxRetries (bus_cfg b) \<ge> 0"
  shows "map dl_ID (bus_dlq (fst (fst (ReplayDLQ (quiet_env out) (b, ()))))) = map dl_ID (filter (refused out b) (bus_dlq b)) \<and>
    fst (snd (ReplayDLQ (quiet_env out) (b, ()))) = length (filter (\<lambda>e. \<not> refused out b e) (bus_dlq b))"
  using replay_entries_quiet [OF assms, where c = b and out = out and entries = "bus_dlq b" and remaining = "[]" and replayed = 0 and firstErr = None]
  by (auto simp: ReplayDLQ_def split: prod.splits)

theorem replay_keeps_exactly_failed_witness:
  "fst (snd (ReplayDLQ (quiet_env (\<lambda>h src t p. None)) (demo_bus, ()))) = 1"
proof -
  have "bc_MaxRetries (bus_cfg demo_bus) = 3" "length (bus_dlq demo_bus) = 1" by code_simp+
  with replay_keeps_exactly_failed [of demo_bus "\<lambda>h src t p. None"] show ?thesis by (simp add: refused_def)
qed

text \<open>
  Whatever the handlers do, no letter that arrives during a replay is in the queue afterwards: the
  queue is overwritten with what remained of the snapshot.
\<close>

lemma replay_entries_ids:
  "set (map dl_ID (fst (snd (replay_entries E entries remaining replayed firstErr st)))) \<subseteq> set (map dl_ID (remaining @ entries))"
proof (induction entries arbitrary: remaining replayed firstErr st)
  case (Cons e entries)
  obtain st1 r where r: "bus_Publish E (dl_PluginID e) (dl_Topic e) (dl_Payload e) st = (st1, r)" by fastforce
  show ?case
  proof (cases r)
    case None
    with Cons.IH [of remaining "Suc replayed" firstErr st1] r show ?thesis by auto
  next
    case (Some err)
    let ?e = "e\<lparr>dl_Error := error_text err, dl_Timestamp := be_now E (snd st1),
        dl_RetryCount := dl_RetryCount e + bc_MaxRetries (bus_cfg (fst st1))\<rparr>"
    show ?thesis using Cons.IH [of "remaining @ [?e]" replayed "if firstErr = None then Some err else firstErr" st1] r Some
      by simp
  qed
qed simp

lemma replay_drops_new_letters:
  "set (map dl_ID (bus_dlq (fst (fst (ReplayDLQ E st))))) \<subseteq> set (map dl_ID (bus_dlq (fst st)))"
  using replay_entries_ids [of E "bus_dlq (fst st)" "[]" 0 None st] by (auto simp: ReplayDLQ_def split: prod.splits)

end
