(* ===== verification/Event_Queue.thy ===== *)
theory Event_Queue
  imports Event_Bus
begin

text \<open>
  The event bus over PostgreSQL (\<^verbatim>\<open>internal/wasm/eventbus/postgres.go\<close>). The table is the list of its
  rows in the order of their identifiers, and a statement is the function on rows that its SQL
  says. A database call takes the next of the given outcomes: an error leaves the table unchanged.
  The clock is a field of the state. A consumer's handler runs on the whole state: it may publish
  into the table that is being consumed.
\<close>

datatype event_status = Pending | Processing | Dead

record queue_row =
  qr_id :: int
  qr_topic :: string
  qr_payload :: string
  qr_source :: string
  qr_status :: event_status
  qr_retries :: int
  qr_available :: instant
  qr_locked :: "instant option"
  qr_claimed :: "string option"
  qr_error :: "string option"
  qr_dead_at :: "instant option"

record queued_event =
  qe_ID :: int
  qe_Topic :: string
  qe_Payload :: string
  qe_SourcePluginID :: string
  qe_RetryCount :: int

record 'w pg_bus =
  pg_instanceID :: string
  pg_cfg :: bus_config
  pg_metrics :: "(string \<times> string) list option"
  pg_appm :: "(string \<times> string) list option"
  pg_rows :: "queue_row list"
  pg_nextID :: int
  pg_outcomes :: "go_error option list"
  pg_now :: instant
  pg_world :: 'w

definition NewPostgresBus ::
    "string \<Rightarrow> bus_config option \<Rightarrow> bool \<Rightarrow> queue_row list \<Rightarrow> int \<Rightarrow> go_error option list \<Rightarrow> instant \<Rightarrow> 'w \<Rightarrow> 'w pg_bus" where
  "NewPostgresBus instanceID cfg metrics rows nextID outcomes now w =
     \<lparr>pg_instanceID = instanceID, pg_cfg = withDefaults (case cfg of Some c \<Rightarrow> c | None \<Rightarrow> zero_config),
      pg_metrics = (if metrics then Some [] else None), pg_appm = None,
      pg_rows = rows, pg_nextID = nextID, pg_outcomes = outcomes, pg_now = now, pg_world = w\<rparr>"

definition pg_incMetric :: "string \<Rightarrow> string \<Rightarrow> 'w pg_bus \<Rightarrow> 'w pg_bus" where
  "pg_incMetric topic status s = s\<lparr>pg_metrics := map_option (\<lambda>l. l @ [(topic, status)]) (pg_metrics s)\<rparr>"

definition pg_incAppMetric :: "string \<Rightarrow> string \<Rightarrow> 'w pg_bus \<Rightarrow> 'w pg_bus" where
  "pg_incAppMetric backend status s = s\<lparr>pg_appm := map_option (\<lambda>l. l @ [(backend, status)]) (pg_appm s)\<rparr>"

text \<open>One statement: with the outcome of the call, the table changes or the error is returned.\<close>

definition exec :: "(queue_row list \<Rightarrow> queue_row list) \<Rightarrow> 'w pg_bus \<Rightarrow> 'w pg_bus \<times> go_error option" where
  "exec stmt s =
     (case pg_outcomes s of
        Some err # os \<Rightarrow> (s\<lparr>pg_outcomes := os\<rparr>, Some err)
      | None # os \<Rightarrow> (s\<lparr>pg_outcomes := os, pg_rows := stmt (pg_rows s)\<rparr>, None)
      | [] \<Rightarrow> (s\<lparr>pg_rows := stmt (pg_rows s)\<rparr>, None))"

text \<open>\<open>jsonb\<close> is what a valid text is stored as; \<open>validJSON\<close> is \<^verbatim>\<open>json.Valid\<close>.\<close>

definition pg_Publish ::
    "(string \<Rightarrow> bool) \<Rightarrow> (string \<Rightarrow> string) \<Rightarrow> string \<Rightarrow> string \<Rightarrow> string \<Rightarrow> 'w pg_bus \<Rightarrow> 'w pg_bus \<times> go_error option" where
  "pg_Publish validJSON jsonb src topic payload s =
     (if \<not> validJSON payload
      then (pg_incAppMetric ''postgres'' ''invalid_payload'' (pg_incMetric topic ''invalid_payload'' s),
            Some (Plain (''event payload for topic '' @ quote topic @ '' is not valid JSON'')))
      else let row = \<lparr>qr_id = pg_nextID s, qr_topic = topic, qr_payload = jsonb payload, qr_source = src,
                      qr_status = Pending, qr_retries = 0, qr_available = pg_now s, qr_locked = None,
                      qr_claimed = None, qr_error = None, qr_dead_at = None\<rparr>
           in case exec (\<lambda>rows. rows @ [row]) s of
                (s1, Some err) \<Rightarrow>
                  (pg_incAppMetric ''postgres'' ''publish_error'' (pg_incMetric topic ''publish_error'' (s1\<lparr>pg_nextID := pg_nextID s + 1\<rparr>)),
                   Some (Wrap (''enqueue event '' @ quote topic @ '': '') err ''''))
              | (s1, None) \<Rightarrow>
                  (pg_incAppMetric ''postgres'' ''enqueued'' (pg_incMetric topic ''enqueued'' (s1\<lparr>pg_nextID := pg_nextID s + 1\<rparr>)), None))"

subsection \<open>Claiming\<close>

text \<open>Reading the claimed rows may fail after they were locked; they are claimed again when the lease ends.\<close>

definition Milliseconds :: "duration \<Rightarrow> int" where
  "Milliseconds d = d div Millisecond"

definition claimable :: "instant \<Rightarrow> queue_row \<Rightarrow> bool" where
  "claimable now r \<longleftrightarrow>
     qr_status r = Pending \<and> qr_available r \<le> now \<or>
     qr_status r = Processing \<and> (case qr_locked r of Some t \<Rightarrow> t \<le> now | None \<Rightarrow> False)"

definition next_events :: "instant \<Rightarrow> int \<Rightarrow> queue_row list \<Rightarrow> int list" where
  "next_events now limit rows = take (nat limit) (map qr_id (filter (claimable now) rows))"

definition lock_row :: "string \<Rightarrow> instant \<Rightarrow> queue_row \<Rightarrow> queue_row" where
  "lock_row instanceID lockedUntil r = r\<lparr>qr_status := Processing, qr_claimed := Some instanceID, qr_locked := Some lockedUntil\<rparr>"

definition event_of :: "queue_row \<Rightarrow> queued_event" where
  "event_of r = \<lparr>qe_ID = qr_id r, qe_Topic = qr_topic r, qe_Payload = qr_payload r, qe_SourcePluginID = qr_source r, qe_RetryCount = qr_retries r\<rparr>"

definition claimBatch :: "'w pg_bus \<Rightarrow> 'w pg_bus \<times> (go_error + queued_event list)" where
  "claimBatch s =
     (let ids = next_events (pg_now s) (bc_BatchSize (pg_cfg s)) (pg_rows s);
          locked = pg_now s + Milliseconds (bc_LeaseDuration (pg_cfg s)) * Millisecond
      in case exec (map (\<lambda>r. if qr_id r \<in> set ids then lock_row (pg_instanceID s) locked r else r)) s of
           (s1, Some err) \<Rightarrow> (s1, Inl (Wrap ''claim event batch: '' err ''''))
         | (s1, None) \<Rightarrow>
             (case exec id s1 of
                (s2, Some err) \<Rightarrow> (s2, Inl (Wrap ''iterate queued events: '' err ''''))
              | (s2, None) \<Rightarrow> (s2, Inr (map event_of (filter (\<lambda>r. qr_id r \<in> set ids) (pg_rows s))))))"

subsection \<open>Consuming\<close>

definition markSuccess :: "int \<Rightarrow> 'w pg_bus \<Rightarrow> 'w pg_bus \<times> go_error option" where
  "markSuccess i s =
     (case exec (filter (\<lambda>r. qr_id r \<noteq> i)) s of
        (s1, Some err) \<Rightarrow> (s1, Some (Wrap (''delete delivered event '' @ FormatInt i @ '': '') err ''''))
      | (s1, None) \<Rightarrow> (pg_incAppMetric ''postgres'' ''delivered'' s1, None))"

definition update_row :: "int \<Rightarrow> (queue_row \<Rightarrow> queue_row) \<Rightarrow> queue_row list \<Rightarrow> queue_row list" where
  "update_row i f rows = map (\<lambda>r. if qr_id r = i then f r else r) rows"

definition dead_row :: "instant \<Rightarrow> int \<Rightarrow> go_error \<Rightarrow> queue_row \<Rightarrow> queue_row" where
  "dead_row now retries err r =
     r\<lparr>qr_status := Dead, qr_retries := retries, qr_error := Some (error_text err), qr_dead_at := Some now,
       qr_locked := None, qr_claimed := None\<rparr>"

definition retry_row :: "instant \<Rightarrow> int \<Rightarrow> go_error \<Rightarrow> queue_row \<Rightarrow> queue_row" where
  "retry_row available retries err r =
     r\<lparr>qr_status := Pending, qr_retries := retries, qr_error := Some (error_text err), qr_available := available,
       qr_locked := None, qr_claimed := None\<rparr>"

definition markFailure :: "queued_event \<Rightarrow> go_error \<Rightarrow> 'w pg_bus \<Rightarrow> 'w pg_bus \<times> go_error option" where
  "markFailure e handlerErr s =
     (let retries = qe_RetryCount e + 1
      in if retries > bc_MaxRetries (pg_cfg s)
         then (case exec (update_row (qe_ID e) (dead_row (pg_now s) retries handlerErr)) s of
                 (s1, Some err) \<Rightarrow> (s1, Some (Wrap (''mark event '' @ FormatInt (qe_ID e) @ '' dead-lettered: '') err ''''))
               | (s1, None) \<Rightarrow> (pg_incAppMetric ''postgres'' ''dead_lettered'' (pg_incMetric (qe_Topic e) ''dead_lettered'' s1), None))
         else let delay = bus_backoffDelay (pg_cfg s) (nat (qe_RetryCount e))
              in (case exec (update_row (qe_ID e) (retry_row (pg_now s + Milliseconds delay * Millisecond) retries handlerErr)) s of
                    (s1, Some err) \<Rightarrow> (s1, Some (Wrap (''requeue event '' @ FormatInt (qe_ID e) @ '': '') err ''''))
                  | (s1, None) \<Rightarrow> (pg_incAppMetric ''postgres'' ''retrying'' (pg_incMetric (qe_Topic e) ''retrying'' s1), None)))"

text \<open>The handler of the consumer, for the publishing plugin, the topic and the payload.\<close>

type_synonym 'w pg_handler = "string \<Rightarrow> string \<Rightarrow> string \<Rightarrow> 'w pg_bus \<Rightarrow> 'w pg_bus \<times> go_error option"

fun consume_events :: "'w pg_handler \<Rightarrow> queued_event list \<Rightarrow> go_error option \<Rightarrow> 'w pg_bus \<Rightarrow> 'w pg_bus \<times> go_error option" where
  "consume_events handler [] firstErr s = (s, firstErr)"
| "consume_events handler (e # es) firstErr s =
     (case handler (qe_SourcePluginID e) (qe_Topic e) (qe_Payload e) s of
        (s1, Some err) \<Rightarrow>
          (case markFailure e err s1 of
             (s2, markErr) \<Rightarrow>
               consume_events handler es
                 (case firstErr of Some f \<Rightarrow> Some f | None \<Rightarrow> (case markErr of Some m \<Rightarrow> Some m | None \<Rightarrow> Some err)) s2)
      | (s1, None) \<Rightarrow>
          (case markSuccess (qe_ID e) s1 of
             (s2, err) \<Rightarrow> consume_events handler es (case firstErr of Some f \<Rightarrow> Some f | None \<Rightarrow> err) s2))"

definition consumeOnce :: "'w pg_handler \<Rightarrow> 'w pg_bus \<Rightarrow> 'w pg_bus \<times> nat \<times> go_error option" where
  "consumeOnce handler s =
     (case claimBatch s of
        (s1, Inl err) \<Rightarrow> (s1, 0, Some err)
      | (s1, Inr events) \<Rightarrow>
          if events = [] then (s1, 0, None)
          else (case consume_events handler events None s1 of (s2, err) \<Rightarrow> (s2, length events, err)))"

text \<open>
  The consumer's loop, which ends only with its context: \<open>ended\<close> says that the context has ended,
  and \<open>wait\<close> waits for the poll interval or for the end of the context. An absent error means that
  the loop still runs when the fuel is used up.
\<close>

fun RunConsumer ::
    "nat \<Rightarrow> ('w pg_bus \<Rightarrow> go_error option) \<Rightarrow> (duration \<Rightarrow> 'w pg_bus \<Rightarrow> 'w pg_bus \<times> go_error option) \<Rightarrow>
     'w pg_handler \<Rightarrow> 'w pg_bus \<Rightarrow> 'w pg_bus \<times> go_error option" where
  "RunConsumer 0 ended wait handler s = (s, None)"
| "RunConsumer (Suc n) ended wait handler s =
     (case consumeOnce handler s of
        (s1, processed, err) \<Rightarrow>
          if err \<noteq> None \<and> ended s1 \<noteq> None then (s1, ended s1)
          else if err \<noteq> None \<or> processed = 0
          then (case wait (bc_PollInterval (pg_cfg s1)) s1 of
                  (s2, Some e) \<Rightarrow> (s2, Some e)
                | (s2, None) \<Rightarrow> RunConsumer n ended wait handler s2)
          else RunConsumer n ended wait handler s1)"


subsection \<open>Retries and dead letters\<close>

definition row_ok :: "bus_config \<Rightarrow> queue_row \<Rightarrow> bool" where
  "row_ok c r \<longleftrightarrow> 0 \<le> qr_retries r \<and>
     (if qr_status r = Dead then qr_retries r = bc_MaxRetries c + 1 else qr_retries r \<le> bc_MaxRetries c)"

definition event_ok :: "bus_config \<Rightarrow> queued_event \<Rightarrow> bool" where
  "event_ok c e \<longleftrightarrow> 0 \<le> qe_RetryCount e \<and> qe_RetryCount e \<le> bc_MaxRetries c"

definition rows_ok :: "bus_config \<Rightarrow> int \<Rightarrow> queue_row list \<Rightarrow> bool" where
  "rows_ok c n rows \<longleftrightarrow> distinct (map qr_id rows) \<and> (\<forall>r \<in> set rows. qr_id r < n \<and> row_ok c r)"

definition table_ok :: "'w pg_bus \<Rightarrow> bool" where
  "table_ok s \<longleftrightarrow> bc_MaxRetries (pg_cfg s) > 0 \<and> rows_ok (pg_cfg s) (pg_nextID s) (pg_rows s)"

definition pg_step :: "'w pg_bus \<Rightarrow> 'w pg_bus \<Rightarrow> bool" where
  "pg_step s s' \<longleftrightarrow> table_ok s' \<and> pg_cfg s' = pg_cfg s"

lemma pg_step_trans: "pg_step s s' \<Longrightarrow> pg_step s' s'' \<Longrightarrow> pg_step s s''"
  by (auto simp: pg_step_def)

lemma pg_step_refl: "table_ok s \<Longrightarrow> pg_step s s"
  by (simp add: pg_step_def)

lemma counts_keep [simp]:
  "pg_rows (pg_incMetric t m s) = pg_rows s" "pg_cfg (pg_incMetric t m s) = pg_cfg s" "pg_nextID (pg_incMetric t m s) = pg_nextID s"
  "pg_rows (pg_incAppMetric t m s) = pg_rows s" "pg_cfg (pg_incAppMetric t m s) = pg_cfg s" "pg_nextID (pg_incAppMetric t m s) = pg_nextID s"
  "pg_step s0 (pg_incMetric t m s) \<longleftrightarrow> pg_step s0 s" "pg_step s0 (pg_incAppMetric t m s) \<longleftrightarrow> pg_step s0 s"
  by (simp_all add: pg_incMetric_def pg_incAppMetric_def table_ok_def pg_step_def)

lemma exec_fields [simp]: "pg_cfg (fst (exec f s)) = pg_cfg s" "pg_nextID (fst (exec f s)) = pg_nextID s"
  by (auto simp: exec_def split: list.split option.split)

lemma exec_rows: "pg_rows (fst (exec f s)) = (if snd (exec f s) = None then f (pg_rows s) else pg_rows s)"
  by (auto simp: exec_def split: list.split option.split)

lemma exec_step:
  assumes "table_ok s" "rows_ok (pg_cfg s) (pg_nextID s) (f (pg_rows s))"
  shows "pg_step s (fst (exec f s))"
  using assms by (simp add: pg_step_def table_ok_def exec_rows)

lemma rows_ok_map:
  assumes "rows_ok c n rows" "\<And>r. r \<in> set rows \<Longrightarrow> qr_id (g r) = qr_id r \<and> row_ok c (g r)"
  shows "rows_ok c n (map g rows)"
proof -
  have ids: "map qr_id (map g rows) = map qr_id rows" using assms(2) by simp
  have "\<forall>r \<in> set (map g rows). qr_id r < n \<and> row_ok c r" using assms by (auto simp: rows_ok_def)
  then show ?thesis using assms(1) unfolding rows_ok_def ids by blast
qed

lemma rows_ok_update:
  assumes "rows_ok c n rows" "\<And>r. qr_id (f r) = qr_id r \<and> row_ok c (f r)"
  shows "rows_ok c n (update_row i f rows)"
  unfolding update_row_def by (rule rows_ok_map [OF assms(1)]) (use assms in \<open>auto simp: rows_ok_def\<close>)

lemma rows_ok_filter: "rows_ok c n rows \<Longrightarrow> rows_ok c n (filter P rows)"
  by (auto simp: rows_ok_def distinct_map_filter)

lemma markFailure_fst:
  "pg_step s0 (fst (markFailure e err s)) \<longleftrightarrow> pg_step s0 (fst (exec (update_row (qe_ID e)
     (if qe_RetryCount e + 1 > bc_MaxRetries (pg_cfg s) then dead_row (pg_now s) (qe_RetryCount e + 1) err
      else retry_row (pg_now s + Milliseconds (bus_backoffDelay (pg_cfg s) (nat (qe_RetryCount e))) * Millisecond) (qe_RetryCount e + 1) err)) s))"
  by (auto simp: markFailure_def Let_def split: prod.split option.split)

lemma markFailure_step:
  assumes "table_ok s" "event_ok (pg_cfg s) e"
  shows "pg_step s (fst (markFailure e err s))"
  unfolding markFailure_fst
  by (intro exec_step rows_ok_update) (use assms in \<open>auto simp: table_ok_def row_ok_def event_ok_def dead_row_def retry_row_def\<close>)

lemma markSuccess_fst: "pg_step s0 (fst (markSuccess i s)) \<longleftrightarrow> pg_step s0 (fst (exec (filter (\<lambda>r. qr_id r \<noteq> i)) s))"
  by (auto simp: markSuccess_def split: prod.split option.split)

lemma markSuccess_step:
  assumes "table_ok s"
  shows "pg_step s (fst (markSuccess i s))"
  unfolding markSuccess_fst by (intro exec_step rows_ok_filter) (use assms in \<open>auto simp: table_ok_def\<close>)

definition handler_step :: "'w pg_handler \<Rightarrow> bool" where
  "handler_step h \<longleftrightarrow> (\<forall>src topic payload s. table_ok s \<longrightarrow> pg_step s (fst (h src topic payload s)))"

lemma consume_events_step:
  assumes "handler_step h" "table_ok s" "\<forall>e \<in> set es. event_ok (pg_cfg s) e"
  shows "pg_step s (fst (consume_events h es firstErr s))"
  using assms(2,3)
proof (induction es arbitrary: firstErr s)
  case (Cons e es)
  obtain s1 r where r: "h (qe_SourcePluginID e) (qe_Topic e) (qe_Payload e) s = (s1, r)" by fastforce
  have s1: "pg_step s s1" using assms(1) Cons.prems(1) r unfolding handler_step_def by (metis fst_conv)
  let ?s2 = "case r of Some err \<Rightarrow> fst (markFailure e err s1) | None \<Rightarrow> fst (markSuccess (qe_ID e) s1)"
  have "pg_step s1 ?s2" using s1 Cons.prems markFailure_step [of s1 e] markSuccess_step [of s1]
    by (auto simp: pg_step_def split: option.split)
  then have s2: "pg_step s ?s2" using s1 pg_step_trans by blast
  have "\<And>f. pg_step ?s2 (fst (consume_events h es f ?s2))"
    using Cons.IH s2 Cons.prems(2) by (simp add: pg_step_def)
  with s2 pg_step_trans have "\<And>f. pg_step s (fst (consume_events h es f ?s2))" by blast
  then show ?case using r by (cases r) (auto split: prod.splits)
qed (simp add: pg_step_refl)

lemma claimBatch_parts:
  fixes s :: "'w pg_bus"
  defines "lock \<equiv> map (\<lambda>r. if qr_id r \<in> set (next_events (pg_now s) (bc_BatchSize (pg_cfg s)) (pg_rows s))
      then lock_row (pg_instanceID s) (pg_now s + Milliseconds (bc_LeaseDuration (pg_cfg s)) * Millisecond) r else r)"
  shows "fst (claimBatch s) = fst (exec lock s) \<or> fst (claimBatch s) = fst (exec id (fst (exec lock s)))"
    and "snd (claimBatch s) = Inr es \<Longrightarrow>
      es = map event_of (filter (\<lambda>r. qr_id r \<in> set (next_events (pg_now s) (bc_BatchSize (pg_cfg s)) (pg_rows s))) (pg_rows s))"
  unfolding claimBatch_def lock_def by (auto simp: Let_def split: prod.splits option.splits)

lemma lock_row_fields [simp]:
  "qr_id (lock_row i t r) = qr_id r" "qr_topic (lock_row i t r) = qr_topic r" "qr_payload (lock_row i t r) = qr_payload r"
  "qr_source (lock_row i t r) = qr_source r" "qr_retries (lock_row i t r) = qr_retries r" "qr_status (lock_row i t r) = Processing"
  by (simp_all add: lock_row_def)

lemma in_next_events:
  assumes "distinct (map qr_id rows)" "r \<in> set rows" "qr_id r \<in> set (next_events now limit rows)"
  shows "claimable now r"
proof -
  from assms(3) obtain r' where "r' \<in> set rows" "claimable now r'" "qr_id r' = qr_id r"
    unfolding next_events_def by (auto dest!: in_set_takeD)
  moreover from this assms(1,2) have "r' = r" by (auto simp: distinct_map inj_on_def)
  ultimately show ?thesis by simp
qed

lemma claimBatch_step:
  assumes "table_ok s"
  shows "pg_step s (fst (claimBatch s))"
    and "snd (claimBatch s) = Inr es \<Longrightarrow> e \<in> set es \<Longrightarrow> event_ok (pg_cfg s) e"
proof -
  let ?ids = "next_events (pg_now s) (bc_BatchSize (pg_cfg s)) (pg_rows s)"
  let ?g = "\<lambda>r. if qr_id r \<in> set ?ids
      then lock_row (pg_instanceID s) (pg_now s + Milliseconds (bc_LeaseDuration (pg_cfg s)) * Millisecond) r else r"
  have alive: "qr_status r \<noteq> Dead" if "r \<in> set (pg_rows s)" "qr_id r \<in> set ?ids" for r
    using in_next_events [OF _ that] assms by (auto simp: table_ok_def rows_ok_def claimable_def)
  have "rows_ok (pg_cfg s) (pg_nextID s) (map ?g (pg_rows s))"
    by (rule rows_ok_map) (use assms alive in \<open>auto simp: table_ok_def rows_ok_def row_ok_def\<close>)
  then have lock: "pg_step s (fst (exec (map ?g) s))" by (rule exec_step [OF assms])
  then have "pg_step s (fst (exec id (fst (exec (map ?g) s))))"
    using exec_step [of "fst (exec (map ?g) s)" id] pg_step_trans [OF lock] by (simp add: pg_step_def table_ok_def)
  with lock show "pg_step s (fst (claimBatch s))" using claimBatch_parts(1) [of s] by (elim disjE) (simp_all only:)
  assume "snd (claimBatch s) = Inr es" "e \<in> set es"
  then obtain r where r: "e = event_of r" "r \<in> set (pg_rows s)" "qr_id r \<in> set ?ids"
    using claimBatch_parts(2) [of s es] by (auto simp del: set_take_subset)
  then have "row_ok (pg_cfg s) r" using assms by (simp add: table_ok_def rows_ok_def)
  then show "event_ok (pg_cfg s) e" using alive [OF r(2,3)] by (simp add: r(1) event_ok_def event_of_def row_ok_def)
qed

lemma consumeOnce_step:
  assumes "handler_step h" "table_ok s"
  shows "pg_step s (fst (consumeOnce h s))"
proof -
  obtain s1 r where r: "claimBatch s = (s1, r)" by fastforce
  have s1: "pg_step s s1" using claimBatch_step(1) [OF assms(2)] r by simp
  show ?thesis
  proof (cases r)
    case (Inr es)
    have "pg_step s1 (fst (consume_events h es None s1))"
      using consume_events_step [OF assms(1)] s1 claimBatch_step(2) [OF assms(2)] r Inr by (auto simp: pg_step_def)
    then show ?thesis using pg_step_trans [OF s1] s1 r Inr by (auto simp: consumeOnce_def split: prod.split)
  qed (use s1 r in \<open>simp add: consumeOnce_def\<close>)
qed

lemma pg_Publish_step:
  assumes "table_ok s"
  shows "pg_step s (fst (pg_Publish valid jsonb src topic payload s))"
proof -
  let ?row = "\<lparr>qr_id = pg_nextID s, qr_topic = topic, qr_payload = jsonb payload, qr_source = src,
      qr_status = Pending, qr_retries = 0, qr_available = pg_now s, qr_locked = None,
      qr_claimed = None, qr_error = None, qr_dead_at = None\<rparr>"
  have "rows_ok (pg_cfg s) (pg_nextID s + 1) (pg_rows s @ [?row])" "rows_ok (pg_cfg s) (pg_nextID s + 1) (pg_rows s)"
    using assms by (fastforce simp: table_ok_def rows_ok_def row_ok_def)+
  then have "pg_step s (fst (exec (\<lambda>rows. rows @ [?row]) s)\<lparr>pg_nextID := pg_nextID s + 1\<rparr>)"
    using assms by (simp add: pg_step_def table_ok_def exec_rows)
  then show ?thesis using pg_step_refl [OF assms]
    by (auto simp: pg_Publish_def Let_def split: prod.split option.split)
qed


text \<open>
  The states of the queue: any number of instances consume it, with any handlers that use the table
  only through publications or further consumption, while time passes and calls fail.
\<close>

inductive reachable_pg :: "'w pg_bus \<Rightarrow> bool" where
  pg_created: "reachable_pg (NewPostgresBus i cfg m [] n os now w)"
| pg_published: "reachable_pg s \<Longrightarrow> reachable_pg (fst (pg_Publish valid jsonb src topic payload s))"
| pg_consumed: "reachable_pg s \<Longrightarrow> handler_step h \<Longrightarrow> reachable_pg (fst (consumeOnce h s))"
| pg_elsewhere: "reachable_pg s \<Longrightarrow> reachable_pg (s\<lparr>pg_instanceID := i, pg_outcomes := os, pg_now := now, pg_world := w\<rparr>)"

lemma reachable_pg_ok: "reachable_pg s \<Longrightarrow> table_ok s"
proof (induction rule: reachable_pg.induct)
  case (pg_published s valid jsonb src topic payload)
  from pg_Publish_step [OF pg_published.IH] show ?case by (simp add: pg_step_def)
next
  case (pg_consumed s h)
  from consumeOnce_step [OF pg_consumed.hyps(2) pg_consumed.IH] show ?case by (simp add: pg_step_def)
qed (auto simp: table_ok_def rows_ok_def NewPostgresBus_def withDefaults_def)

text \<open>
  In every state of the queue an event is dead exactly when it was refused once more than the
  configured number of retries, and an event that is still tried was refused at most that often.
\<close>

theorem dead_exactly_after_retries:
  assumes "reachable_pg s" and "r \<in> set (pg_rows s)"
  shows "(qr_status r = Dead \<longleftrightarrow> qr_retries r = bc_MaxRetries (pg_cfg s) + 1) \<and>
    0 \<le> qr_retries r \<and> qr_retries r \<le> bc_MaxRetries (pg_cfg s) + 1"
  using reachable_pg_ok [OF assms(1)] assms(2) by (auto simp: table_ok_def rows_ok_def row_ok_def split: if_splits)

definition demo_queue :: "unit pg_bus" where
  "demo_queue = fst (consumeOnce (\<lambda>src t p s. (s, Some (Plain ''no'')))
     (fst (pg_Publish (\<lambda>_. True) (\<lambda>p. p) ''p'' ''t'' ''{}'' (NewPostgresBus ''i'' None False [] 1 [] 0 ()))))"

lemma demo_queue_rows: "map (\<lambda>r. (qr_id r, qr_retries r)) (pg_rows demo_queue) = [(1, 1)]" "bc_MaxRetries (pg_cfg demo_queue) = 3"
  by code_simp+

theorem dead_exactly_after_retries_witness:
  "\<exists>r. r \<in> set (pg_rows demo_queue) \<and> qr_retries r = 1 \<and> qr_status r \<noteq> Dead"
proof -
  obtain r where r: "r \<in> set (pg_rows demo_queue)" "qr_retries r = 1"
    using demo_queue_rows(1) by (auto simp: map_eq_Cons_conv)
  have "handler_step (\<lambda>src t p s :: unit pg_bus. (s, Some (Plain ''no'')))"
    by (simp add: handler_step_def pg_step_refl)
  then have "reachable_pg demo_queue" unfolding demo_queue_def by (intro reachable_pg.intros)
  from dead_exactly_after_retries [OF this r(1)] r demo_queue_rows(2) show ?thesis by auto
qed

subsection \<open>No event is lost\<close>

text \<open>A handler that changes the table at most by appending rows, and one that refuses an event.\<close>

definition handler_appends :: "'w pg_handler \<Rightarrow> bool" where
  "handler_appends h \<longleftrightarrow> (\<forall>src topic payload s. \<exists>new. pg_rows (fst (h src topic payload s)) = pg_rows s @ new)"

definition handler_refuses :: "'w pg_handler \<Rightarrow> string \<Rightarrow> string \<Rightarrow> string \<Rightarrow> bool" where
  "handler_refuses h src topic payload \<longleftrightarrow> (\<forall>s. snd (h src topic payload s) \<noteq> None)"

definition row_key :: "queue_row \<Rightarrow> int \<times> string \<times> string \<times> string" where
  "row_key r = (qr_id r, qr_topic r, qr_payload r, qr_source r)"

lemma row_key_updates [simp]:
  "row_key (dead_row now n err r) = row_key r" "row_key (retry_row t n err r) = row_key r" "row_key (lock_row i t r) = row_key r"
  by (simp_all add: row_key_def dead_row_def retry_row_def lock_row_def)

lemma exec_keys:
  "(\<And>r. row_key (g r) = row_key r) \<Longrightarrow> map row_key (pg_rows (fst (exec (map g) s))) = map row_key (pg_rows s)"
  by (simp add: exec_rows)

lemma exec_id_rows: "pg_rows (fst (exec id s)) = pg_rows s"
  by (simp add: exec_rows)

lemma markFailure_keys: "map row_key (pg_rows (fst (markFailure e err s))) = map row_key (pg_rows s)"
proof -
  have "pg_rows (fst (markFailure e err s)) = pg_rows (fst (exec (update_row (qe_ID e)
     (if qe_RetryCount e + 1 > bc_MaxRetries (pg_cfg s) then dead_row (pg_now s) (qe_RetryCount e + 1) err
      else retry_row (pg_now s + Milliseconds (bus_backoffDelay (pg_cfg s) (nat (qe_RetryCount e))) * Millisecond) (qe_RetryCount e + 1) err)) s))"
    by (auto simp: markFailure_def Let_def split: prod.split option.split)
  moreover have "map row_key (pg_rows (fst (exec (update_row i f) s))) = map row_key (pg_rows s)" if "\<And>r. row_key (f r) = row_key r" for i f
    unfolding update_row_def using that by (intro exec_keys) simp
  ultimately show ?thesis by (simp only:) simp
qed

lemma markSuccess_keys:
  "k \<in> row_key ` set (pg_rows s) \<Longrightarrow> fst k \<noteq> i \<Longrightarrow> k \<in> row_key ` set (pg_rows (fst (markSuccess i s)))"
  using exec_rows [of "filter (\<lambda>r. qr_id r \<noteq> i)" s] by (force simp: markSuccess_def row_key_def split: prod.split option.split)

lemma consume_events_keep:
  assumes "handler_appends h" "handler_refuses h src topic payload"
    and "(i, topic, payload, src) \<in> row_key ` set (pg_rows s)"
    and "\<forall>e \<in> set es. qe_ID e = i \<longrightarrow> qe_Topic e = topic \<and> qe_Payload e = payload \<and> qe_SourcePluginID e = src"
  shows "(i, topic, payload, src) \<in> row_key ` set (pg_rows (fst (consume_events h es firstErr s)))"
  using assms(3,4)
proof (induction es arbitrary: firstErr s)
  case (Cons e es)
  obtain s1 r where r: "h (qe_SourcePluginID e) (qe_Topic e) (qe_Payload e) s = (s1, r)" by fastforce
  with assms(1) obtain new where s1: "pg_rows s1 = pg_rows s @ new"
    unfolding handler_appends_def by (metis fst_conv)
  let ?s2 = "case r of Some err \<Rightarrow> fst (markFailure e err s1) | None \<Rightarrow> fst (markSuccess (qe_ID e) s1)"
  have k1: "(i, topic, payload, src) \<in> row_key ` set (pg_rows s1)" using Cons.prems(1) s1 by auto
  have "(i, topic, payload, src) \<in> row_key ` set (pg_rows ?s2)"
  proof (cases r)
    case None
    then have "qe_ID e \<noteq> i" using r assms(2) Cons.prems(2) unfolding handler_refuses_def
      by (metis list.set_intros(1) snd_conv)
    with None markSuccess_keys [OF k1, of "qe_ID e"] show ?thesis by simp
  next
    case (Some err)
    with k1 arg_cong [OF markFailure_keys [of e err s1], of set] show ?thesis by simp
  qed
  then have "\<And>f. (i, topic, payload, src) \<in> row_key ` set (pg_rows (fst (consume_events h es f ?s2)))"
    using Cons.IH Cons.prems(2) by simp
  then show ?case using r by (cases r) (simp_all add: case_prod_unfold)
qed simp

lemma claimBatch_keys: "map row_key (pg_rows (fst (claimBatch s))) = map row_key (pg_rows s)"
  using claimBatch_parts(1) [of s]
  by (elim disjE) (simp_all only: exec_id_rows, (rule exec_keys, simp)+)

lemma refused_event_kept:
  assumes "reachable_pg s" and "handler_appends h" and "r \<in> set (pg_rows s)"
    and "handler_refuses h (qr_source r) (qr_topic r) (qr_payload r)"
  shows "\<exists>r'. r' \<in> set (pg_rows (fst (consumeOnce h s))) \<and> row_key r' = row_key r"
proof -
  obtain s1 c where c: "claimBatch s = (s1, c)" by fastforce
  have k1: "(qr_id r, qr_topic r, qr_payload r, qr_source r) \<in> row_key ` set (pg_rows s1)"
    using arg_cong [OF claimBatch_keys [of s], of set] c assms(3) by (auto simp: row_key_def)
  have "(qr_id r, qr_topic r, qr_payload r, qr_source r) \<in> row_key ` set (pg_rows (fst (consumeOnce h s)))"
  proof (cases c)
    case (Inr es)
    have "\<forall>e \<in> set es. qe_ID e = qr_id r \<longrightarrow> qe_Topic e = qr_topic r \<and> qe_Payload e = qr_payload r \<and> qe_SourcePluginID e = qr_source r"
      using claimBatch_parts(2) [of s es] c Inr assms(3) reachable_pg_ok [OF assms(1)]
      by (auto simp: event_of_def table_ok_def rows_ok_def distinct_map dest: inj_onD)
    from consume_events_keep [OF assms(2,4) k1 this, of None] k1 c Inr show ?thesis
      by (simp add: consumeOnce_def case_prod_unfold)
  qed (use k1 c in \<open>simp add: consumeOnce_def\<close>)
  then show ?thesis by (auto simp: row_key_def)
qed

text \<open>
  No event is lost: whatever the consumer claims and whichever database calls fail, an event
  leaves the queue in an iteration only when its handler accepted it.
\<close>

theorem refused_events_stay:
  assumes "reachable_pg s" and "handler_appends h" and "r \<in> set (pg_rows s)"
    and "handler_refuses h (qr_source r) (qr_topic r) (qr_payload r)"
  shows "\<exists>r'. r' \<in> set (pg_rows (fst (consumeOnce h s))) \<and> row_key r' = row_key r"
  by (rule refused_event_kept [OF assms])

theorem refused_events_stay_witness:
  "\<exists>r. r \<in> set (pg_rows (fst (consumeOnce (\<lambda>src t p s. (s, Some (Plain ''no''))) demo_queue))) \<and> qr_id r = 1"
proof -
  obtain r where r: "r \<in> set (pg_rows demo_queue)" "qr_id r = 1"
    using demo_queue_rows(1) by (auto simp: map_eq_Cons_conv)
  have "handler_step (\<lambda>src t p s :: unit pg_bus. (s, Some (Plain ''no'')))"
    by (simp add: handler_step_def pg_step_refl)
  then have "reachable_pg demo_queue" unfolding demo_queue_def by (intro reachable_pg.intros)
  moreover have "handler_appends (\<lambda>src t p s :: unit pg_bus. (s, Some (Plain ''no'')))"
    "handler_refuses (\<lambda>src t p s :: unit pg_bus. (s, Some (Plain ''no''))) a b c" for a b c
    by (simp_all add: handler_appends_def handler_refuses_def)
  ultimately obtain r' where
    "r' \<in> set (pg_rows (fst (consumeOnce (\<lambda>src t p s. (s, Some (Plain ''no''))) demo_queue)))" "row_key r' = row_key r"
    using refused_events_stay [OF _ _ r(1)] by blast
  with r(2) show ?thesis by (auto simp: row_key_def)
qed

end
