(* ===== verification/Module_Pool.thy ===== *)
theory Module_Pool
  imports Go_Prelude
begin

text \<open>
  The pool that bounds the concurrent executions of a plugin's module
  (\<^verbatim>\<open>internal/wasm/runtime/pool.go\<close>), as a step relation: any number of goroutines are in
  \<^verbatim>\<open>Execute\<close> and at most one, which holds the mutex, is in the critical part of \<^verbatim>\<open>Close\<close>; their steps
  interleave in every order. The channel of slots is the number of tokens it holds, absent for a
  pool without a bound.
\<close>

record pool_config =
  pc_MaxConcurrency :: int

definition DefaultPoolConcurrency :: int where "DefaultPoolConcurrency = 8"

text \<open>
  A goroutine in \<^verbatim>\<open>Execute\<close>: not started, past the check that the pool is open (and waiting for a
  slot), with a slot, running the module, finished but with its slot not given back, or returned
  with its outcome.
\<close>

datatype exec_outcome = PoolClosed | TimedOutWaiting | Ran bool

datatype exec_phase = Out | Waiting | Holding | Running | Finishing bool | Returned exec_outcome

text \<open>\<^verbatim>\<open>Close\<close>: not called, taking slots with so many taken, or returned.\<close>

datatype close_phase = NotClosing | Draining nat | CloseReturned

record pool =
  pl_sem :: "nat option"
  pl_poolSize :: nat
  pl_active :: int
  pl_total :: int
  pl_closed :: bool
  pl_threads :: "nat \<Rightarrow> exec_phase"
  pl_closer :: close_phase

definition NewModulePool :: "pool_config option \<Rightarrow> pool" where
  "NewModulePool cfg =
     (let size1 = (case cfg of Some c \<Rightarrow> if pc_MaxConcurrency c > 0 then pc_MaxConcurrency c else DefaultPoolConcurrency
                           | None \<Rightarrow> DefaultPoolConcurrency);
          bounded = (case cfg of None \<Rightarrow> True | Some c \<Rightarrow> pc_MaxConcurrency c \<ge> 0)
      in \<lparr>pl_sem = (if bounded then Some (nat size1) else None), pl_poolSize = nat size1, pl_active = 0, pl_total = 0,
          pl_closed = False, pl_threads = (\<lambda>_. Out), pl_closer = NotClosing\<rparr>)"

definition at_phase :: "nat \<Rightarrow> exec_phase \<Rightarrow> pool \<Rightarrow> pool" where
  "at_phase t ph p = p\<lparr>pl_threads := (pl_threads p)(t := ph)\<rparr>"

subsection \<open>Steps of Execute\<close>

text \<open>The check of the flag; what follows until the wait for a slot changes nothing of the pool.\<close>

definition exec_enter :: "nat \<Rightarrow> pool \<Rightarrow> pool option" where
  "exec_enter t p =
     (if pl_threads p t \<noteq> Out then None
      else Some (at_phase t (if pl_closed p then Returned PoolClosed else Waiting) p))"

text \<open>The two branches of the select; a pool without a bound goes on at once.\<close>

definition exec_acquire :: "nat \<Rightarrow> pool \<Rightarrow> pool option" where
  "exec_acquire t p =
     (if pl_threads p t \<noteq> Waiting then None
      else case pl_sem p of
             None \<Rightarrow> Some (at_phase t Holding p)
           | Some 0 \<Rightarrow> None
           | Some (Suc n) \<Rightarrow> Some (at_phase t Holding (p\<lparr>pl_sem := Some n\<rparr>)))"

definition exec_timeout :: "nat \<Rightarrow> pool \<Rightarrow> pool option" where
  "exec_timeout t p =
     (if pl_threads p t \<noteq> Waiting \<or> pl_sem p = None then None
      else Some (at_phase t (Returned TimedOutWaiting) p))"

definition exec_begin :: "nat \<Rightarrow> pool \<Rightarrow> pool option" where
  "exec_begin t p =
     (if pl_threads p t \<noteq> Holding then None
      else Some (at_phase t Running (p\<lparr>pl_active := pl_active p + 1, pl_total := pl_total p + 1\<rparr>)))"

text \<open>The module has returned: the deferred functions run in the reverse of their order.\<close>

definition exec_end :: "nat \<Rightarrow> bool \<Rightarrow> pool \<Rightarrow> pool option" where
  "exec_end t success p =
     (if pl_threads p t \<noteq> Running then None
      else Some (at_phase t (Finishing success) (p\<lparr>pl_active := pl_active p - 1\<rparr>)))"

text \<open>Giving a slot back blocks on a full channel.\<close>

definition exec_release :: "nat \<Rightarrow> pool \<Rightarrow> pool option" where
  "exec_release t p =
     (case pl_threads p t of
        Finishing success \<Rightarrow>
          (case pl_sem p of
             None \<Rightarrow> Some (at_phase t (Returned (Ran success)) p)
           | Some n \<Rightarrow> if n < pl_poolSize p then Some (at_phase t (Returned (Ran success)) (p\<lparr>pl_sem := Some (Suc n)\<rparr>)) else None)
      | _ \<Rightarrow> None)"

subsection \<open>Steps of Close\<close>

definition close_begin :: "pool \<Rightarrow> pool option" where
  "close_begin p =
     (case pl_closer p of
        NotClosing \<Rightarrow>
          Some (if pl_closed p then p
                else p\<lparr>pl_closed := True, pl_closer := (case pl_sem p of None \<Rightarrow> CloseReturned | Some _ \<Rightarrow> Draining 0)\<rparr>)
      | Draining _ \<Rightarrow> None
      | CloseReturned \<Rightarrow> Some p)"

definition close_take :: "pool \<Rightarrow> pool option" where
  "close_take p =
     (case (pl_closer p, pl_sem p) of
        (Draining k, Some (Suc n)) \<Rightarrow>
          if k < pl_poolSize p then Some (p\<lparr>pl_closer := Draining (Suc k), pl_sem := Some n\<rparr>) else None
      | _ \<Rightarrow> None)"

definition close_end :: "pool \<Rightarrow> pool option" where
  "close_end p =
     (case pl_closer p of
        Draining k \<Rightarrow> if k = pl_poolSize p then Some (p\<lparr>pl_closer := CloseReturned\<rparr>) else None
      | _ \<Rightarrow> None)"

record pool_stats =
  ps_PoolSize :: nat
  ps_Active :: int
  ps_Total :: int

definition pool_Stats :: "pool \<Rightarrow> pool_stats" where
  "pool_Stats p = \<lparr>ps_PoolSize = pl_poolSize p, ps_Active = pl_active p, ps_Total = pl_total p\<rparr>"

inductive pool_step :: "pool \<Rightarrow> pool \<Rightarrow> bool" where
  enter: "exec_enter t p = Some p' \<Longrightarrow> pool_step p p'"
| acquire: "exec_acquire t p = Some p' \<Longrightarrow> pool_step p p'"
| timeout: "exec_timeout t p = Some p' \<Longrightarrow> pool_step p p'"
| begins: "exec_begin t p = Some p' \<Longrightarrow> pool_step p p'"
| ends: "exec_end t success p = Some p' \<Longrightarrow> pool_step p p'"
| release: "exec_release t p = Some p' \<Longrightarrow> pool_step p p'"
| closing: "close_begin p = Some p' \<Longrightarrow> pool_step p p'"
| taking: "close_take p = Some p' \<Longrightarrow> pool_step p p'"
| closed: "close_end p = Some p' \<Longrightarrow> pool_step p p'"

inductive reachable_pool :: "pool_config option \<Rightarrow> pool \<Rightarrow> bool" for cfg where
  initial: "reachable_pool cfg (NewModulePool cfg)"
| stepped: "reachable_pool cfg p \<Longrightarrow> pool_step p p' \<Longrightarrow> reachable_pool cfg p'"

subsection \<open>Slots are conserved\<close>

definition has_slot :: "exec_phase \<Rightarrow> bool" where
  "has_slot ph \<longleftrightarrow> ph = Holding \<or> ph = Running \<or> (\<exists>b. ph = Finishing b)"

definition holders :: "pool \<Rightarrow> nat set" where
  "holders p = {t. has_slot (pl_threads p t)}"

definition runners :: "pool \<Rightarrow> nat set" where
  "runners p = {t. pl_threads p t = Running}"

definition taken :: "pool \<Rightarrow> nat" where
  "taken p = (case pl_closer p of NotClosing \<Rightarrow> 0 | Draining k \<Rightarrow> k | CloseReturned \<Rightarrow> pl_poolSize p)"

definition pool_ok :: "pool \<Rightarrow> bool" where
  "pool_ok p \<longleftrightarrow> finite (holders p) \<and> pl_active p = int (card (runners p)) \<and>
     (\<forall>n. pl_sem p = Some n \<longrightarrow> n + card (holders p) + taken p = pl_poolSize p)"

lemma has_slot_simps [simp]:
  "has_slot Holding" "has_slot Running" "has_slot (Finishing b)" "\<not> has_slot Out" "\<not> has_slot Waiting" "\<not> has_slot (Returned r)"
  by (simp_all add: has_slot_def)

lemma at_phase_fields [simp]:
  "pl_sem (at_phase t ph p) = pl_sem p" "pl_poolSize (at_phase t ph p) = pl_poolSize p" "pl_active (at_phase t ph p) = pl_active p"
  "pl_closer (at_phase t ph p) = pl_closer p" "pl_closed (at_phase t ph p) = pl_closed p" "taken (at_phase t ph p) = taken p"
  "pl_threads (at_phase t ph p) = (pl_threads p)(t := ph)"
  by (simp_all add: at_phase_def taken_def split: close_phase.split)

lemma holders_at_phase: "holders (at_phase t ph p) = (if has_slot ph then insert t (holders p) else holders p - {t})"
  by (auto simp: holders_def)

lemma runners_at_phase: "runners (at_phase t ph p) = (if ph = Running then insert t (runners p) else runners p - {t})"
  by (auto simp: runners_def)

lemma runners_holders: "runners p \<subseteq> holders p"
  by (auto simp: runners_def holders_def)

lemma holders_upd [simp]:
  "holders (p\<lparr>pl_sem := a\<rparr>) = holders p" "holders (p\<lparr>pl_active := b, pl_total := c\<rparr>) = holders p" "holders (p\<lparr>pl_active := b\<rparr>) = holders p"
  "runners (p\<lparr>pl_sem := a\<rparr>) = runners p" "runners (p\<lparr>pl_active := b, pl_total := c\<rparr>) = runners p" "runners (p\<lparr>pl_active := b\<rparr>) = runners p"
  "taken (p\<lparr>pl_sem := a\<rparr>) = taken p" "taken (p\<lparr>pl_active := b, pl_total := c\<rparr>) = taken p" "taken (p\<lparr>pl_active := b\<rparr>) = taken p"
  by (simp_all add: holders_def runners_def taken_def split: close_phase.split)

lemma in_sets:
  "t \<in> holders p \<longleftrightarrow> has_slot (pl_threads p t)" "t \<in> runners p \<longleftrightarrow> pl_threads p t = Running"
  by (simp_all add: holders_def runners_def)


lemma finite_runners: "finite (holders p) \<Longrightarrow> finite (runners p)"
  by (rule finite_subset [OF runners_holders])

lemma card_remove_in: "finite A \<Longrightarrow> t \<in> A \<Longrightarrow> card A = Suc (card (A - {t}))"
  by (rule card.remove)

lemma pool_ok_step:
  assumes "pool_ok p" "pool_step p p'"
  shows "pool_ok p' \<and> pl_poolSize p' = pl_poolSize p \<and> (pl_sem p' = None \<longleftrightarrow> pl_sem p = None)"
  using assms(2)
proof (cases rule: pool_step.cases)
  case (enter t)
  then have t: "pl_threads p t = Out" by (auto simp: exec_enter_def split: if_splits)
  then have "t \<notin> holders p" "t \<notin> runners p" by (simp_all add: in_sets)
  with enter t assms(1) show ?thesis
    by (auto simp: exec_enter_def pool_ok_def holders_at_phase runners_at_phase split: if_splits)
next
  case (acquire t)
  then have t: "pl_threads p t = Waiting" by (auto simp: exec_acquire_def split: if_splits)
  then have "t \<notin> holders p" "t \<notin> runners p" by (simp_all add: in_sets)
  with acquire t assms(1) show ?thesis
    by (auto simp: exec_acquire_def pool_ok_def holders_at_phase runners_at_phase split: if_splits option.splits nat.splits)
next
  case (timeout t)
  then have t: "pl_threads p t = Waiting" by (auto simp: exec_timeout_def split: if_splits)
  then have "t \<notin> holders p" "t \<notin> runners p" by (simp_all add: in_sets)
  with timeout t assms(1) show ?thesis
    by (auto simp: exec_timeout_def pool_ok_def holders_at_phase runners_at_phase split: if_splits)
next
  case (begins t)
  then have t: "pl_threads p t = Holding" by (auto simp: exec_begin_def split: if_splits)
  then have "t \<in> holders p" "t \<notin> runners p" by (simp_all add: in_sets)
  with begins t assms(1) show ?thesis
    by (auto simp: exec_begin_def pool_ok_def holders_at_phase runners_at_phase insert_absorb finite_runners split: if_splits)
next
  case (ends t success)
  then have t: "pl_threads p t = Running" by (auto simp: exec_end_def split: if_splits)
  then have "t \<in> holders p" "t \<in> runners p" by (simp_all add: in_sets)
  with ends t assms(1) card_remove_in [of "runners p" t] show ?thesis
    by (auto simp: exec_end_def pool_ok_def holders_at_phase runners_at_phase insert_absorb finite_runners split: if_splits)
next
  case (release t)
  then obtain success where t: "pl_threads p t = Finishing success" by (auto simp: exec_release_def split: exec_phase.splits)
  then have "t \<in> holders p" "t \<notin> runners p" by (simp_all add: in_sets)
  with release t assms(1) card_remove_in [of "holders p" t] show ?thesis
    by (auto simp: exec_release_def pool_ok_def holders_at_phase runners_at_phase split: if_splits option.splits)
next
  case closing
  with assms(1) show ?thesis
    by (auto simp: close_begin_def pool_ok_def holders_def runners_def taken_def split: close_phase.splits option.splits if_splits)
next
  case taking
  with assms(1) show ?thesis
    by (auto simp: close_take_def pool_ok_def holders_def runners_def taken_def split: close_phase.splits option.splits nat.splits if_splits)
next
  case closed
  with assms(1) show ?thesis
    by (auto simp: close_end_def pool_ok_def holders_def runners_def taken_def split: close_phase.splits option.splits if_splits)
qed

lemma reachable_pool_ok:
  "reachable_pool cfg p \<Longrightarrow> pool_ok p \<and> pl_poolSize p = pl_poolSize (NewModulePool cfg) \<and>
     (pl_sem p = None \<longleftrightarrow> pl_sem (NewModulePool cfg) = None)"
proof (induction rule: reachable_pool.induct)
  case initial
  show ?case by (auto simp: pool_ok_def NewModulePool_def holders_def runners_def taken_def Let_def)
next
  case (stepped p p')
  then show ?case using pool_ok_step [of p p'] by auto
qed

text \<open>
  C17. However calls and the closing of the pool interleave, a bounded pool never runs more
  executions at once than its size, its counter is the number of running executions, and once
  closing has returned none runs or ever will.
\<close>

theorem pool_bounds_executions:
  assumes "reachable_pool cfg p" and "pl_sem p \<noteq> None"
  shows "card (runners p) \<le> pl_poolSize (NewModulePool cfg) \<and> ps_Active (pool_Stats p) = int (card (runners p)) \<and>
    (pl_closer p = CloseReturned \<longrightarrow> runners p = {} \<and> (\<forall>p'. pool_step\<^sup>*\<^sup>* p p' \<longrightarrow> runners p' = {}))"
proof -
  have bound: "card (runners q) + taken q \<le> pl_poolSize q" "finite (runners q)" if "reachable_pool cfg q" "pl_sem q \<noteq> None" for q
    using reachable_pool_ok [OF that(1)] that(2) card_mono [OF _ runners_holders [of q]] finite_runners [of q]
    by (auto simp: pool_ok_def)
  have closed: "runners q = {}" if "reachable_pool cfg q" "pl_sem q \<noteq> None" "pl_closer q = CloseReturned" for q
    using bound [OF that(1,2)] that(3) by (simp add: taken_def)
  have stays: "pl_closer q = CloseReturned \<Longrightarrow> pool_step q q' \<Longrightarrow> pl_closer q' = CloseReturned" for q q'
    by (auto elim!: pool_step.cases simp: exec_enter_def exec_acquire_def exec_timeout_def exec_begin_def exec_end_def
        exec_release_def close_begin_def close_take_def close_end_def split: if_splits option.splits nat.splits exec_phase.splits)
  have "reachable_pool cfg q \<and> pl_sem q \<noteq> None \<and> pl_closer q = CloseReturned"
    if "pl_closer p = CloseReturned" "pool_step\<^sup>*\<^sup>* p q" for q
    using that(2)
  proof (induction rule: rtranclp_induct)
    case (step q q')
    then show ?case using stays pool_ok_step reachable_pool_ok reachable_pool.stepped by metis
  qed (use assms that(1) in auto)
  then show ?thesis using bound [OF assms] closed reachable_pool_ok [OF assms(1)]
    by (auto simp: pool_ok_def pool_Stats_def)
qed

lemma demo_pool_reachable:
  "\<exists>p. reachable_pool None p \<and> pl_sem p = Some 7 \<and> pl_threads p 0 = Running"
proof -
  let ?p0 = "NewModulePool None"
  let ?p1 = "at_phase 0 Waiting ?p0"
  let ?p2 = "at_phase 0 Holding (?p1\<lparr>pl_sem := Some 7\<rparr>)"
  let ?p3 = "at_phase 0 Running (?p2\<lparr>pl_active := 1, pl_total := 1\<rparr>)"
  have sem: "pl_sem ?p0 = Some (Suc 7)" "pl_closed ?p0 = False" "pl_threads ?p0 0 = Out" "pl_active ?p0 = 0" "pl_total ?p0 = 0"
    by (simp_all add: NewModulePool_def DefaultPoolConcurrency_def)
  have "pool_step ?p0 ?p1" by (rule pool_step.enter [of 0]) (simp add: exec_enter_def sem)
  moreover have "pool_step ?p1 ?p2" by (rule pool_step.acquire [of 0]) (simp add: exec_acquire_def sem)
  moreover have "pool_step ?p2 ?p3" by (rule pool_step.begins [of 0]) (simp add: exec_begin_def sem at_phase_def)
  ultimately have "reachable_pool None ?p3" by (meson reachable_pool.intros)
  then show ?thesis by (intro exI [of _ ?p3]) simp
qed

theorem pool_bounds_executions_witness:
  "\<exists>p. pl_threads p 0 = Running \<and> card (runners p) \<le> 8"
proof -
  obtain p where "reachable_pool None p" "pl_sem p = Some 7" "pl_threads p 0 = Running" using demo_pool_reachable by blast
  with pool_bounds_executions [of None p] show ?thesis
    by (auto simp: NewModulePool_def DefaultPoolConcurrency_def)
qed


subsection \<open>Closing always completes\<close>

text \<open>Steps other than new calls, and other than calls of \<^verbatim>\<open>Close\<close> on a closed pool, which do nothing.\<close>

inductive pool_work :: "pool \<Rightarrow> pool \<Rightarrow> bool" where
  w_acquire: "exec_acquire t p = Some p' \<Longrightarrow> pool_work p p'"
| w_timeout: "exec_timeout t p = Some p' \<Longrightarrow> pool_work p p'"
| w_begins: "exec_begin t p = Some p' \<Longrightarrow> pool_work p p'"
| w_ends: "exec_end t success p = Some p' \<Longrightarrow> pool_work p p'"
| w_release: "exec_release t p = Some p' \<Longrightarrow> pool_work p p'"
| w_closing: "close_begin p = Some p' \<Longrightarrow> p' \<noteq> p \<Longrightarrow> pool_work p p'"
| w_taking: "close_take p = Some p' \<Longrightarrow> pool_work p p'"
| w_closed: "close_end p = Some p' \<Longrightarrow> pool_work p p'"

fun weight :: "exec_phase \<Rightarrow> nat" where
  "weight Out = 0"
| "weight Waiting = 4"
| "weight Holding = 3"
| "weight Running = 2"
| "weight (Finishing b) = 1"
| "weight (Returned r) = 0"

definition started :: "pool \<Rightarrow> nat set" where
  "started p = {t. pl_threads p t \<noteq> Out}"

definition load :: "pool \<Rightarrow> nat" where
  "load p = (\<Sum>u \<in> started p. weight (pl_threads p u))"

definition pool_measure :: "pool \<Rightarrow> nat" where
  "pool_measure p = load p +
     (case pl_closer p of NotClosing \<Rightarrow> pl_poolSize p + 2 | Draining k \<Rightarrow> pl_poolSize p + 1 - k | CloseReturned \<Rightarrow> 0)"

lemma load_at_phase:
  assumes "finite (started p)" "pl_threads p t \<noteq> Out" "ph \<noteq> Out" "pl_threads q = pl_threads p"
  shows "load (at_phase t ph q) + weight (pl_threads p t) = load p + weight ph"
proof -
  have t: "t \<in> started p" using assms(2) by (simp add: started_def)
  have "started (at_phase t ph q) = started p" using assms(2,3,4) by (auto simp: started_def)
  moreover have "(\<Sum>u \<in> started p - {t}. weight (((pl_threads p)(t := ph)) u)) = (\<Sum>u \<in> started p - {t}. weight (pl_threads p u))"
    by (rule sum.cong) auto
  ultimately show ?thesis unfolding load_def
    using sum.remove [OF assms(1) t, of "\<lambda>u. weight (pl_threads p u)"]
      sum.remove [OF assms(1) t, of "\<lambda>u. weight (((pl_threads p)(t := ph)) u)"] assms(4) by simp
qed

lemma load_less:
  assumes "finite (started p)" "pl_threads p t \<noteq> Out" "ph \<noteq> Out" "pl_threads q = pl_threads p"
    and "weight ph < weight (pl_threads p t)"
  shows "load (at_phase t ph q) < load p"
  using load_at_phase [OF assms(1-4)] assms(5) by linarith

lemma finite_started_at_phase: "finite (started q) \<Longrightarrow> finite (started (at_phase t ph q))"
  by (rule finite_subset [of _ "insert t (started q)"]) (auto simp: started_def)

lemma started_upd [simp]:
  "started (p\<lparr>pl_sem := a\<rparr>) = started p" "started (p\<lparr>pl_active := b, pl_total := c\<rparr>) = started p" "started (p\<lparr>pl_active := b\<rparr>) = started p"
  "started (p\<lparr>pl_closed := d\<rparr>) = started p" "started (p\<lparr>pl_closer := e, pl_sem := a\<rparr>) = started p"
  "started (p\<lparr>pl_closer := e\<rparr>) = started p"
  by (simp_all add: started_def)

lemma reachable_started: "reachable_pool cfg p \<Longrightarrow> finite (started p)"
proof (induction rule: reachable_pool.induct)
  case (stepped p p')
  from stepped.hyps(2) stepped.IH show ?case
    by (auto elim!: pool_step.cases simp: exec_enter_def exec_acquire_def exec_timeout_def exec_begin_def exec_end_def
        exec_release_def close_begin_def close_take_def close_end_def
        intro!: finite_started_at_phase
        split: if_splits option.splits nat.splits exec_phase.splits close_phase.splits)
qed (simp add: started_def NewModulePool_def Let_def)

lemma pool_work_decreases:
  assumes "finite (started p)" "pool_work p p'"
  shows "pool_measure p' < pool_measure p"
  using assms(2)
proof (cases rule: pool_work.cases)
  case (w_acquire t)
  then show ?thesis by (auto intro!: load_less [OF assms(1)] simp: exec_acquire_def pool_measure_def split: if_splits option.splits nat.splits close_phase.splits)
next
  case (w_timeout t)
  then show ?thesis by (auto intro!: load_less [OF assms(1)] simp: exec_timeout_def pool_measure_def split: if_splits close_phase.splits)
next
  case (w_begins t)
  then show ?thesis by (auto intro!: load_less [OF assms(1)] simp: exec_begin_def pool_measure_def split: if_splits close_phase.splits)
next
  case (w_ends t success)
  then show ?thesis by (auto intro!: load_less [OF assms(1)] simp: exec_end_def pool_measure_def split: if_splits close_phase.splits)
next
  case (w_release t)
  then obtain success where "pl_threads p t = Finishing success" by (auto simp: exec_release_def split: exec_phase.splits)
  with w_release show ?thesis by (auto intro!: load_less [OF assms(1)] simp: exec_release_def pool_measure_def split: if_splits option.splits close_phase.splits)
next
  case w_closing
  then show ?thesis
    by (auto simp: close_begin_def pool_measure_def load_def started_def split: close_phase.splits option.splits if_splits)
next
  case w_taking
  then show ?thesis
    by (auto simp: close_take_def pool_measure_def load_def started_def split: close_phase.splits option.splits nat.splits if_splits)
next
  case w_closed
  then show ?thesis
    by (auto simp: close_end_def pool_measure_def load_def started_def split: close_phase.splits if_splits)
qed

lemma draining_works:
  assumes "pool_ok p" "pl_closer p = Draining k" "pl_sem p = Some n"
  shows "\<exists>p'. pool_work p p'"
proof (cases "k = pl_poolSize p")
  case True
  with assms(2) have "close_end p = Some (p\<lparr>pl_closer := CloseReturned\<rparr>)" by (simp add: close_end_def)
  then show ?thesis by (blast intro: w_closed)
next
  case False
  have balance: "n + card (holders p) + k = pl_poolSize p" using assms by (auto simp: pool_ok_def taken_def)
  show ?thesis
  proof (cases n)
    case (Suc m)
    with assms(2,3) balance have "close_take p = Some (p\<lparr>pl_closer := Draining (Suc k), pl_sem := Some m\<rparr>)"
      by (simp add: close_take_def)
    then show ?thesis by (blast intro: w_taking)
  next
    case 0
    with balance False have "holders p \<noteq> {}" by auto
    then obtain t where t: "has_slot (pl_threads p t)" by (auto simp: holders_def)
    then consider "pl_threads p t = Holding" | "pl_threads p t = Running" | b where "pl_threads p t = Finishing b"
      by (auto simp: has_slot_def)
    then show ?thesis
    proof cases
      case 1
      then show ?thesis by (metis exec_begin_def w_begins)
    next
      case 2
      then show ?thesis by (metis exec_end_def w_ends)
    next
      case 3
      with assms(3) 0 balance False have "exec_release t p = Some (at_phase t (Returned (Ran b)) (p\<lparr>pl_sem := Some 1\<rparr>))"
        by (simp add: exec_release_def)
      then show ?thesis by (blast intro: w_release)
    qed
  qed
qed

lemma draining_has_sem: "reachable_pool cfg p \<Longrightarrow> pl_closer p = Draining k \<Longrightarrow> pl_sem p \<noteq> None"
proof (induction arbitrary: k rule: reachable_pool.induct)
  case (stepped p p')
  have "(\<exists>j. pl_closer p = Draining j) \<or> pl_sem p \<noteq> None"
    using stepped.hyps(2) stepped.prems
    by (auto elim!: pool_step.cases simp: exec_enter_def exec_acquire_def exec_timeout_def exec_begin_def exec_end_def
        exec_release_def close_begin_def close_take_def close_end_def
        split: if_splits option.splits nat.splits exec_phase.splits close_phase.splits)
  then have "pl_sem p \<noteq> None" using stepped.IH by auto
  then show ?case using pool_ok_step stepped.hyps reachable_pool_ok by metis
qed (simp add: NewModulePool_def Let_def)

text \<open>
  C18. Closing the pool always completes: while it takes the slots some step of a running execution
  or of the closing itself is possible, and every schedule of such steps ends, because each one
  decreases a measure. New calls do not count: after the flag is set they return at once.
\<close>

theorem closing_completes:
  assumes "reachable_pool cfg p"
  shows "(\<forall>p'. pool_work p p' \<longrightarrow> pool_measure p' < pool_measure p) \<and>
    (\<forall>k. pl_closer p = Draining k \<longrightarrow> (\<exists>p'. pool_work p p'))"
  using pool_work_decreases [OF reachable_started [OF assms]] draining_works draining_has_sem [OF assms]
    reachable_pool_ok [OF assms] by blast

theorem closing_completes_witness:
  "\<exists>p'. pool_work ((NewModulePool None)\<lparr>pl_closed := True, pl_closer := Draining 0\<rparr>) p'"
proof -
  have "close_begin (NewModulePool None) = Some ((NewModulePool None)\<lparr>pl_closed := True, pl_closer := Draining 0\<rparr>)"
    by (simp add: close_begin_def NewModulePool_def)
  then have "reachable_pool None ((NewModulePool None)\<lparr>pl_closed := True, pl_closer := Draining 0\<rparr>)"
    by (meson reachable_pool.intros pool_step.closing)
  from closing_completes [OF this] show ?thesis by simp
qed

end
