(* ===== verification/Triggers.thy ===== *)
theory Triggers
  imports Bot_Model "HOL-Library.AList"
begin

text \<open>
  What starts a plugin apart from messages (\<^verbatim>\<open>internal/trigger\<close>): the registry of HTTP routes and
  event subscriptions (\<^verbatim>\<open>registry.go\<close>), the HTTP endpoint with its origins and access settings
  (\<^verbatim>\<open>http.go\<close>, \<^verbatim>\<open>internal/weborigin\<close>), schedules (\<^verbatim>\<open>cron.go\<close>) and the subscriber of the event bus
  (\<^verbatim>\<open>event_subscriber.go\<close>).

  A Go map that is ranged over is an association list with distinct keys. \<^verbatim>\<open>url.Parse\<close>, the
  authentication and settings services and the cron library are parameters.
\<close>

subsection \<open>The registry (registry.go)\<close>

record trigger_def =
  td_Name :: string
  td_Type :: string
  td_Path :: string
  td_Methods :: "string list"
  td_Schedule :: string
  td_Topic :: string

record http_route =
  ht_PluginID :: string
  ht_TriggerName :: string
  ht_Methods :: "string set"

record event_route =
  er_PluginID :: string
  er_TriggerName :: string

text \<open>
  The registry, and the schedules that it passes on: the identifier that the cron library gives to
  an entry, the trigger and its schedule. \<open>cron_add\<close> is the library's \<^verbatim>\<open>AddFunc\<close>: the error of a
  schedule it does not understand. The keys of the running triggers are those of \<^verbatim>\<open>running\<close>.
\<close>

record cron_entry =
  ce_EntryID :: nat
  ce_TriggerName :: string
  ce_Schedule :: string

record cron_scheduler =
  cs_entries :: "string \<Rightarrow> cron_entry list"
  cs_nextID :: nat
  cs_installed :: "nat list"
  cs_running :: "string set"

record trigger_registry =
  tr_httpRoutes :: "(string \<times> http_route) list"
  tr_eventRoutes :: "(string \<times> event_route list) list"
  tr_cron :: "cron_scheduler option"

definition NewRegistry :: trigger_registry where
  "NewRegistry = \<lparr>tr_httpRoutes = [], tr_eventRoutes = [], tr_cron = None\<rparr>"

definition NewCronScheduler :: cron_scheduler where
  "NewCronScheduler = \<lparr>cs_entries = (\<lambda>_. []), cs_nextID = 1, cs_installed = [], cs_running = {}\<rparr>"

definition SetCronScheduler :: "cron_scheduler \<Rightarrow> trigger_registry \<Rightarrow> trigger_registry" where
  "SetCronScheduler cs r = r\<lparr>tr_cron := Some cs\<rparr>"

definition httpRouteKey :: "string \<Rightarrow> string \<Rightarrow> string" where
  "httpRouteKey pluginID path = pluginID @ ''/'' @ TrimPrefix path ''/''"

definition AddSchedule ::
    "(string \<Rightarrow> go_error option) \<Rightarrow> string \<Rightarrow> string \<Rightarrow> string \<Rightarrow> cron_scheduler \<Rightarrow> cron_scheduler \<times> go_error option" where
  "AddSchedule cron_add pluginID triggerName schedule cs =
     (case cron_add schedule of
        Some err \<Rightarrow> (cs, Some err)
      | None \<Rightarrow>
          (cs\<lparr>cs_nextID := Suc (cs_nextID cs), cs_installed := cs_installed cs @ [cs_nextID cs],
              cs_entries := (cs_entries cs)(pluginID := cs_entries cs pluginID @
                [\<lparr>ce_EntryID = cs_nextID cs, ce_TriggerName = triggerName, ce_Schedule = schedule\<rparr>])\<rparr>, None))"

definition cronRunKey :: "string \<Rightarrow> string \<Rightarrow> string" where
  "cronRunKey pluginID triggerName = pluginID @ '':'' @ triggerName"

definition RemoveAll :: "string \<Rightarrow> cron_scheduler \<Rightarrow> cron_scheduler" where
  "RemoveAll pluginID cs =
     (let cs1 = foldl (\<lambda>c e. c\<lparr>cs_installed := filter (\<lambda>i. i \<noteq> ce_EntryID e) (cs_installed c),
                            cs_running := cs_running c - {cronRunKey pluginID (ce_TriggerName e)}\<rparr>)
                      cs (cs_entries cs pluginID)
      in cs1\<lparr>cs_entries := (cs_entries cs1)(pluginID := [])\<rparr>)"

definition route_methods :: "string list \<Rightarrow> string set" where
  "route_methods ms = (if ms = [] then {''GET'', ''POST''} else set (map ToUpper ms))"

definition register_trigger ::
    "(string \<Rightarrow> go_error option) \<Rightarrow> string \<Rightarrow> trigger_registry \<Rightarrow> trigger_def \<Rightarrow> trigger_registry" where
  "register_trigger cron_add pluginID r t =
     (if td_Type t = ''http'' then
        r\<lparr>tr_httpRoutes := AList.update (httpRouteKey pluginID (td_Path t))
             \<lparr>ht_PluginID = pluginID, ht_TriggerName = td_Name t, ht_Methods = route_methods (td_Methods t)\<rparr> (tr_httpRoutes r)\<rparr>
      else if td_Type t = ''cron'' then
        (case tr_cron r of
           Some cs \<Rightarrow> if td_Schedule t \<noteq> ''''
                      then r\<lparr>tr_cron := Some (fst (AddSchedule cron_add pluginID (td_Name t) (td_Schedule t) cs))\<rparr> else r
         | None \<Rightarrow> r)
      else if td_Type t = ''event'' then
        (if td_Topic t \<noteq> ''''
         then r\<lparr>tr_eventRoutes := AList.update (td_Topic t)
                  ((case map_of (tr_eventRoutes r) (td_Topic t) of Some rs \<Rightarrow> rs | None \<Rightarrow> []) @
                   [\<lparr>er_PluginID = pluginID, er_TriggerName = td_Name t\<rparr>]) (tr_eventRoutes r)\<rparr>
         else r)
      else r)"

definition RegisterTriggers ::
    "(string \<Rightarrow> go_error option) \<Rightarrow> string \<Rightarrow> trigger_def list \<Rightarrow> trigger_registry \<Rightarrow> trigger_registry" where
  "RegisterTriggers cron_add pluginID triggers r = foldl (register_trigger cron_add pluginID) r triggers"

text \<open>Deleting in the range of a map visits every entry once.\<close>

definition other_routes :: "string \<Rightarrow> (string \<times> event_route list) list \<Rightarrow> (string \<times> event_route list) list" where
  "other_routes pluginID routes =
     filter (\<lambda>(topic, rs). rs \<noteq> [])
       (map (\<lambda>(topic, rs). (topic, filter (\<lambda>e. er_PluginID e \<noteq> pluginID) rs)) routes)"

definition UnregisterTriggers :: "string \<Rightarrow> trigger_registry \<Rightarrow> trigger_registry" where
  "UnregisterTriggers pluginID r =
     r\<lparr>tr_httpRoutes := filter (\<lambda>(key, route). ht_PluginID route \<noteq> pluginID) (tr_httpRoutes r),
       tr_eventRoutes := other_routes pluginID (tr_eventRoutes r),
       tr_cron := map_option (RemoveAll pluginID) (tr_cron r)\<rparr>"

definition LookupHTTP :: "trigger_registry \<Rightarrow> string \<Rightarrow> string \<Rightarrow> string \<Rightarrow> go_error + string" where
  "LookupHTTP r pluginID path m =
     (case map_of (tr_httpRoutes r) (httpRouteKey pluginID path) of
        None \<Rightarrow> Inl (Plain (''no HTTP trigger registered for '' @ pluginID @ ''/'' @ path))
      | Some route \<Rightarrow>
          if ToUpper m \<notin> ht_Methods route
          then Inl (Plain (''method '' @ m @ '' not allowed for '' @ pluginID @ ''/'' @ path))
          else Inr (ht_TriggerName route))"

definition LookupEventSubscribers :: "trigger_registry \<Rightarrow> string \<Rightarrow> event_route list" where
  "LookupEventSubscribers r topic = (case map_of (tr_eventRoutes r) topic of None \<Rightarrow> [] | Some rs \<Rightarrow> rs)"

subsection \<open>Origins (internal/weborigin)\<close>

text \<open>What \<^verbatim>\<open>url.Parse\<close> finds in a text; the scheme is in lower case.\<close>

record parsed_url =
  u_Scheme :: string
  u_Host :: string
  u_User :: bool
  u_Path :: string
  u_RawQuery :: string
  u_Fragment :: string

type_synonym url_parser = "string \<Rightarrow> go_error + parsed_url"

definition Canonicalize :: "url_parser \<Rightarrow> string \<Rightarrow> go_error + string" where
  "Canonicalize parse raw0 =
     (let raw = TrimSpace raw0
      in if raw = '''' then Inl (Plain ''origin is required'')
         else case parse raw of
                Inl err \<Rightarrow> Inl (Wrap ''parse origin: '' err '''')
              | Inr u \<Rightarrow>
                  if u_Scheme u = '''' \<or> u_Host u = '''' then Inl (Plain ''origin must be an absolute URL'')
                  else if u_Scheme u \<noteq> ''http'' \<and> u_Scheme u \<noteq> ''https'' then Inl (Plain ''origin scheme must be http or https'')
                  else if u_User u then Inl (Plain ''origin must not include user info'')
                  else if u_Path u \<noteq> '''' \<and> u_Path u \<noteq> ''/'' then Inl (Plain ''origin must not include a path'')
                  else if u_RawQuery u \<noteq> '''' \<or> u_Fragment u \<noteq> '''' then Inl (Plain ''origin must not include query or fragment'')
                  else Inr (ToLower (u_Scheme u) @ ''://'' @ ToLower (u_Host u)))"

fun canonicalize_list :: "url_parser \<Rightarrow> string list \<Rightarrow> string list \<Rightarrow> go_error + string list" where
  "canonicalize_list parse [] origins = Inr origins"
| "canonicalize_list parse (raw # raws) origins =
     (if TrimSpace raw = '''' then canonicalize_list parse raws origins
      else case Canonicalize parse raw of
             Inl err \<Rightarrow> Inl (Wrap (quote raw @ '': '') err '''')
           | Inr origin \<Rightarrow> canonicalize_list parse raws (if origin \<in> set origins then origins else origins @ [origin]))"

definition CanonicalizeList :: "url_parser \<Rightarrow> string list \<Rightarrow> go_error + string list" where
  "CanonicalizeList parse raws = canonicalize_list parse raws []"

definition FromURL :: "url_parser \<Rightarrow> string \<Rightarrow> go_error + string" where
  "FromURL parse rawURL =
     (case parse (TrimSpace rawURL) of
        Inl err \<Rightarrow> Inl (Wrap ''parse URL: '' err '''')
      | Inr u \<Rightarrow>
          if u_Scheme u = '''' \<or> u_Host u = '''' then Inl (Plain ''URL must be absolute'')
          else if u_Scheme u \<noteq> ''http'' \<and> u_Scheme u \<noteq> ''https'' then Inl (Plain ''URL scheme must be http or https'')
          else if u_User u then Inl (Plain ''URL must not include user info'')
          else Inr (ToLower (u_Scheme u) @ ''://'' @ ToLower (u_Host u)))"

definition origins_Contains :: "url_parser \<Rightarrow> string list \<Rightarrow> string \<Rightarrow> bool" where
  "origins_Contains parse origins origin =
     (case Canonicalize parse origin of Inl _ \<Rightarrow> False | Inr canonical \<Rightarrow> canonical \<in> set origins)"

subsection \<open>Requests and access (http.go)\<close>

text \<open>
  A request: header names are canonical, as the server delivers them. \<open>rq_Body\<close> is what reading the
  body gives.
\<close>

record http_req =
  q_Method :: string
  q_Path :: string
  q_Query :: "(string \<times> string list) list"
  q_Host :: string
  q_URLHost :: string
  q_TLS :: bool
  q_Header :: "(string \<times> string list) list"
  q_Body :: "go_error + string"
  q_RemoteAddr :: string
  q_RequestURI :: string

definition header_Values :: "http_req \<Rightarrow> string \<Rightarrow> string list" where
  "header_Values r k = (case map_of (q_Header r) k of None \<Rightarrow> [] | Some vs \<Rightarrow> vs)"

definition header_Get :: "http_req \<Rightarrow> string \<Rightarrow> string" where
  "header_Get r k = (case header_Values r k of [] \<Rightarrow> '''' | v # _ \<Rightarrow> v)"

record http_setting =
  hs_Enabled :: bool
  hs_AllowUserKeys :: bool
  hs_AllowServiceKeys :: bool
  hs_PolicyExpression :: string
  hs_AllowedOrigins :: "string list"

datatype http_auth = AuthUser int | AuthService int

text \<open>
  The services that the handler was given; an absent one is a nil function. Looking up a principal or
  a setting is a function of its arguments during one request.
\<close>

record http_services =
  hv_parse :: url_parser
  hv_loadSetting :: "(string \<Rightarrow> string \<Rightarrow> go_error + http_setting option) option"
  hv_authUser :: "(http_req \<Rightarrow> int option) option"
  hv_authToken :: "(string \<Rightarrow> go_error + int option) option"
  hv_authService :: "(string \<Rightarrow> string \<Rightarrow> string \<Rightarrow> go_error + int option) option"
  hv_evalPolicy :: "(string \<Rightarrow> int \<Rightarrow> go_error + bool) option"

definition isHTTPTriggerCORSPreflight :: "http_req \<Rightarrow> bool" where
  "isHTTPTriggerCORSPreflight r \<longleftrightarrow>
     q_Method r = ''OPTIONS'' \<and> TrimSpace (header_Get r ''Origin'') \<noteq> '''' \<and>
     TrimSpace (header_Get r ''Access-Control-Request-Method'') \<noteq> ''''"

definition routeLookupMethod :: "http_req \<Rightarrow> string" where
  "routeLookupMethod r =
     (if isHTTPTriggerCORSPreflight r then TrimSpace (header_Get r ''Access-Control-Request-Method'') else q_Method r)"

definition requestScheme :: "http_req \<Rightarrow> string" where
  "requestScheme r =
     (let forwarded = TrimSpace (header_Get r ''X-Forwarded-Proto'');
          proto = ToLower (TrimSpace (hd (SplitOn (CHR '','') forwarded)))
      in if forwarded \<noteq> '''' \<and> (proto = ''http'' \<or> proto = ''https'') then proto
         else if q_TLS r then ''https'' else ''http'')"

definition requestOriginMatches :: "url_parser \<Rightarrow> http_req \<Rightarrow> string \<Rightarrow> bool" where
  "requestOriginMatches parse r origin =
     (let host = (if q_Host r = '''' then q_URLHost r else q_Host r)
      in if host = '''' then False
         else case Canonicalize parse (requestScheme r @ ''://'' @ host) of
                Inl _ \<Rightarrow> False
              | Inr requestOrigin \<Rightarrow> requestOrigin = origin)"

text \<open>Headers of a response, with canonical names.\<close>

type_synonym headers = "(string \<times> string list) list"

definition h_Values :: "headers \<Rightarrow> string \<Rightarrow> string list" where
  "h_Values h k = (case map_of h k of None \<Rightarrow> [] | Some vs \<Rightarrow> vs)"

definition h_Set :: "string \<Rightarrow> string \<Rightarrow> headers \<Rightarrow> headers" where
  "h_Set k v h = AList.update k [v] h"

definition h_Add :: "string \<Rightarrow> string \<Rightarrow> headers \<Rightarrow> headers" where
  "h_Add k v h = AList.update k (h_Values h k @ [v]) h"

text \<open>\<^verbatim>\<open>strings.EqualFold\<close> on ASCII text.\<close>

definition EqualFold :: "string \<Rightarrow> string \<Rightarrow> bool" where
  "EqualFold a b \<longleftrightarrow> ToLower a = ToLower b"

definition addVary :: "string \<Rightarrow> headers \<Rightarrow> headers" where
  "addVary v h =
     (if list_ex (\<lambda>item. list_ex (\<lambda>part. EqualFold (TrimSpace part) v) (SplitOn (CHR '','') item)) (h_Values h ''Vary'')
      then h else h_Add ''Vary'' v h)"

text \<open>The new headers with whether the request is a preflight, or the error.\<close>

definition applyHTTPTriggerCORS ::
    "url_parser \<Rightarrow> http_req \<Rightarrow> http_setting \<Rightarrow> string \<Rightarrow> headers \<Rightarrow> go_error + headers \<times> bool" where
  "applyHTTPTriggerCORS parse r setting triggerMethod h =
     (let preflight = isHTTPTriggerCORSPreflight r;
          originHeader = TrimSpace (header_Get r ''Origin'')
      in if originHeader = '''' then Inr (h, False)
         else case Canonicalize parse originHeader of
                Inl err \<Rightarrow> Inl err
              | Inr origin \<Rightarrow>
                  if requestOriginMatches parse r origin then Inr (h, preflight)
                  else if \<not> origins_Contains parse (hs_AllowedOrigins setting) origin
                  then Inl (Plain ''origin is not allowed'')
                  else let h1 = addVary ''Origin'' (h_Set ''Access-Control-Allow-Credentials'' ''true''
                                  (h_Set ''Access-Control-Allow-Origin'' origin h))
                       in if \<not> preflight then Inr (h1, preflight)
                          else let h2 = h_Set ''Access-Control-Allow-Methods'' (ToUpper triggerMethod) h1;
                                   requested = TrimSpace (header_Get r ''Access-Control-Request-Headers'');
                                   h3 = (if requested \<noteq> ''''
                                         then addVary ''Access-Control-Request-Headers'' (h_Set ''Access-Control-Allow-Headers'' requested h2)
                                         else h2)
                               in Inr (addVary ''Access-Control-Request-Method'' h3, preflight))"

definition basePath :: string where "basePath = ''/api/triggers/http/''"

definition resolveRoute :: "string \<Rightarrow> go_error + string \<times> string" where
  "resolveRoute path =
     (let remainder = TrimPrefix (TrimPrefix path basePath) ''/''
      in if remainder = '''' then Inl (Plain ''missing plugin ID in URL'')
         else case SplitN 2 (CHR ''/'') remainder of
                [p] \<Rightarrow> Inr (p, '''')
              | p # t # _ \<Rightarrow> Inr (p, t)
              | [] \<Rightarrow> Inr ('''', ''''))"

definition default_setting :: http_setting where
  "default_setting = \<lparr>hs_Enabled = True, hs_AllowUserKeys = True, hs_AllowServiceKeys = False, hs_PolicyExpression = '''', hs_AllowedOrigins = []\<rparr>"

definition resolveSetting :: "http_services \<Rightarrow> string \<Rightarrow> string \<Rightarrow> go_error + http_setting" where
  "resolveSetting V pluginID triggerName =
     (case hv_loadSetting V of
        None \<Rightarrow> Inr default_setting
      | Some load \<Rightarrow>
          (case load pluginID triggerName of
             Inl err \<Rightarrow> Inl err
           | Inr (Some s) \<Rightarrow> Inr s
           | Inr None \<Rightarrow> Inr default_setting))"

definition allowsAnonymousHTTPAccess :: "http_setting \<Rightarrow> bool" where
  "allowsAnonymousHTTPAccess s \<longleftrightarrow> \<not> hs_AllowUserKeys s \<and> \<not> hs_AllowServiceKeys s \<and> TrimSpace (hs_PolicyExpression s) = ''''"

definition bearerToken :: "http_req \<Rightarrow> string option" where
  "bearerToken r =
     (let v = header_Get r ''Authorization''
      in if \<not> HasPrefix v ''Bearer '' then None
         else let token = TrimSpace (TrimPrefix v ''Bearer '')
              in if token = '''' then None else Some token)"

text \<open>A refusal is a status code and an error.\<close>

definition authorizeUserPrincipal :: "http_services \<Rightarrow> http_setting \<Rightarrow> int \<Rightarrow> int \<times> go_error + http_auth" where
  "authorizeUserPrincipal V setting userID =
     (if \<not> hs_AllowUserKeys setting then Inl (403, Plain ''forbidden'')
      else if hs_PolicyExpression setting \<noteq> ''''
      then (case hv_evalPolicy V of
              None \<Rightarrow> Inl (500, Plain ''authorization unavailable'')
            | Some eval \<Rightarrow>
                (case eval (hs_PolicyExpression setting) userID of
                   Inl err \<Rightarrow> Inl (403, Plain ''forbidden'')
                 | Inr allowed \<Rightarrow> if \<not> allowed then Inl (403, Plain ''forbidden'') else Inr (AuthUser userID)))
      else Inr (AuthUser userID))"

definition resolveBearerPrincipal ::
    "http_services \<Rightarrow> string \<Rightarrow> string \<Rightarrow> string \<Rightarrow> http_setting \<Rightarrow> int \<times> go_error + http_auth" where
  "resolveBearerPrincipal V rawToken pluginID triggerName setting =
     (let as_service =
            (case hv_authService V of
               None \<Rightarrow> Inl (401, Plain ''authentication required'')
             | Some auth \<Rightarrow>
                 (case auth rawToken pluginID triggerName of
                    Inl err \<Rightarrow> Inl (500, Plain ''internal error'')
                  | Inr None \<Rightarrow> Inl (401, Plain ''authentication required'')
                  | Inr (Some i) \<Rightarrow> if \<not> hs_AllowServiceKeys setting then Inl (403, Plain ''forbidden'') else Inr (AuthService i)))
      in case hv_authToken V of
           None \<Rightarrow> as_service
         | Some auth \<Rightarrow>
             (case auth rawToken of
                Inl err \<Rightarrow> Inl (500, Plain ''internal error'')
              | Inr (Some userID) \<Rightarrow> authorizeUserPrincipal V setting userID
              | Inr None \<Rightarrow> as_service))"

text \<open>A refusal of 403 becomes anonymous access where that is allowed.\<close>

definition or_anonymous :: "bool \<Rightarrow> int \<times> go_error + http_auth \<Rightarrow> int \<times> go_error + http_auth option" where
  "or_anonymous allowAnonymous res =
     (case res of
        Inr a \<Rightarrow> Inr (Some a)
      | Inl (code, err) \<Rightarrow> if allowAnonymous \<and> code = 403 then Inr None else Inl (code, err))"

definition resolvePrincipal ::
    "http_services \<Rightarrow> http_req \<Rightarrow> string \<Rightarrow> string \<Rightarrow> http_setting \<Rightarrow> int \<times> go_error + http_auth option" where
  "resolvePrincipal V r pluginID triggerName setting =
     (let allowAnonymous = allowsAnonymousHTTPAccess setting
      in case bearerToken r of
           Some token \<Rightarrow> or_anonymous allowAnonymous (resolveBearerPrincipal V token pluginID triggerName setting)
         | None \<Rightarrow>
             (case (case hv_authUser V of None \<Rightarrow> None | Some auth \<Rightarrow> auth r) of
                Some userID \<Rightarrow> or_anonymous allowAnonymous (authorizeUserPrincipal V setting userID)
              | None \<Rightarrow> if allowAnonymous then Inr None else Inl (401, Plain ''authentication required'')))"


definition acceptsHTML :: "http_req \<Rightarrow> bool" where
  "acceptsHTML r =
     list_ex (\<lambda>v. list_ex (\<lambda>part. TrimSpace (hd (SplitN 2 (CHR '';'') part)) = ''text/html'') (SplitOn (CHR '','') v))
       (header_Values r ''Accept'')"

definition requestReturnTo :: "http_req \<Rightarrow> string" where
  "requestReturnTo r = (if q_RequestURI r \<noteq> '''' then q_RequestURI r else if q_Path r = '''' then ''/'' else q_Path r)"

text \<open>\<open>escape\<close> is \<^verbatim>\<open>url.QueryEscape\<close>.\<close>

definition loginRedirectURL :: "(string \<Rightarrow> string) \<Rightarrow> http_req \<Rightarrow> int \<Rightarrow> http_setting \<Rightarrow> string option" where
  "loginRedirectURL escape r statusCode setting =
     (if statusCode \<noteq> 401 \<or> \<not> hs_AllowUserKeys setting \<or> bearerToken r \<noteq> None \<or>
         q_Method r \<noteq> ''GET'' \<and> q_Method r \<noteq> ''HEAD'' \<or> \<not> acceptsHTML r
      then None else Some (''/api/auth/tsu/start?return_to='' @ escape (requestReturnTo r)))"

record http_trigger_data =
  hd_Method :: string
  hd_Path :: string
  hd_Query :: "(string \<times> string) list"
  hd_Headers :: "(string \<times> string) list"
  hd_Body :: string
  hd_RemoteAddr :: string
  hd_Auth :: "http_auth option"

definition first_values :: "(string \<times> string list) list \<Rightarrow> (string \<times> string) list" where
  "first_values m = map (\<lambda>(k, vs). (k, hd vs)) (filter (\<lambda>(k, vs). length vs > 0) m)"

definition buildHTTPRequestData :: "http_req \<Rightarrow> string \<Rightarrow> http_auth option \<Rightarrow> go_error + http_trigger_data" where
  "buildHTTPRequestData r triggerPath who =
     (case q_Body r of
        Inl err \<Rightarrow> Inl (Plain ''failed to read request body'')
      | Inr body \<Rightarrow>
          Inr \<lparr>hd_Method = q_Method r, hd_Path = ''/'' @ triggerPath, hd_Query = first_values (q_Query r),
               hd_Headers = first_values (q_Header r), hd_Body = take (10 * 2 ^ 20) body,
               hd_RemoteAddr = q_RemoteAddr r, hd_Auth = who\<rparr>)"

text \<open>An event with the data of its kind of trigger.\<close>

datatype trigger_data = HTTPData http_trigger_data | CronData string int | EventData string string string

record trigger_event =
  te_TriggerName :: string
  te_PluginID :: string
  te_Timestamp :: int
  te_Data :: trigger_data

text \<open>
  A plugin's response: its error text, and its data as \<^verbatim>\<open>json.Unmarshal\<close> reads it (absent when it is
  empty).
\<close>

record http_response_data =
  hd_StatusCode :: int
  hd_RespHeaders :: "(string \<times> string) list"
  hd_RespBody :: string

record event_response =
  rs_Error :: string
  rs_Data :: "(go_error + http_response_data) option"

text \<open>Routing: the handler of a plugin's events, with the principal of a request in its context.\<close>

type_synonym 'w router = "string \<rightharpoonup> (http_auth option \<Rightarrow> trigger_event \<Rightarrow> 'w \<Rightarrow> 'w \<times> (go_error + event_response option))"

definition route_event :: "'w router \<Rightarrow> http_auth option \<Rightarrow> trigger_event \<Rightarrow> 'w \<Rightarrow> 'w \<times> (go_error + event_response option)" where
  "route_event plugins auth ev w =
     (case plugins (te_PluginID ev) of
        None \<Rightarrow> (w, Inl (Plain (''plugin '' @ quote (te_PluginID ev) @ '' not found'')))
      | Some h \<Rightarrow> h auth ev w)"

definition empty_response :: http_response_data where
  "empty_response = \<lparr>hd_StatusCode = 0, hd_RespHeaders = [], hd_RespBody = ''''\<rparr>"

text \<open>A failed dispatch says whether the error is the plugin's own.\<close>

definition dispatchHTTPEvent ::
    "'w router \<Rightarrow> http_auth option \<Rightarrow> trigger_event \<Rightarrow> 'w \<Rightarrow> 'w \<times> (bool \<times> go_error + http_response_data)" where
  "dispatchHTTPEvent plugins auth ev w =
     (case route_event plugins auth ev w of
        (w1, Inl err) \<Rightarrow> (w1, Inl (False, err))
      | (w1, Inr None) \<Rightarrow> (w1, Inr empty_response)
      | (w1, Inr (Some resp)) \<Rightarrow>
          if rs_Error resp \<noteq> '''' then (w1, Inl (True, Plain (rs_Error resp)))
          else (case rs_Data resp of
                  None \<Rightarrow> (w1, Inr empty_response)
                | Some (Inl err) \<Rightarrow> (w1, Inl (False, Wrap ''parse plugin HTTP response: '' err ''''))
                | Some (Inr d) \<Rightarrow> (w1, Inr d)))"

text \<open>What is written: an error text, no content, a redirect, or the plugin's answer; and the headers.\<close>

datatype http_body = ErrorText string | NoContent | RedirectTo string | PluginBody string

record http_written =
  hw_headers :: headers
  hw_status :: int
  hw_body :: http_body

definition managed_headers :: "string list" where
  "managed_headers = [''Access-Control-Allow-Origin'', ''Access-Control-Allow-Credentials'',
     ''Access-Control-Allow-Methods'', ''Access-Control-Allow-Headers'']"

text \<open>\<open>canonical\<close> is \<^verbatim>\<open>http.CanonicalHeaderKey\<close>, which \<^verbatim>\<open>Set\<close> and \<^verbatim>\<open>Get\<close> apply.\<close>

definition isManagedCORSHeader :: "(string \<Rightarrow> string) \<Rightarrow> string \<Rightarrow> bool" where
  "isManagedCORSHeader canonical name \<longleftrightarrow> canonical name \<in> set managed_headers"

definition h_Get :: "headers \<Rightarrow> string \<Rightarrow> string" where
  "h_Get h k = (case h_Values h k of [] \<Rightarrow> '''' | v # _ \<Rightarrow> v)"

definition set_response_header :: "(string \<Rightarrow> string) \<Rightarrow> headers \<Rightarrow> string \<times> string \<Rightarrow> headers" where
  "set_response_header canonical h kv =
     (case kv of (k, v) \<Rightarrow>
        if isManagedCORSHeader canonical k \<and> h_Get h (canonical k) \<noteq> '''' then h else h_Set (canonical k) v h)"

definition writeHTTPResponse :: "(string \<Rightarrow> string) \<Rightarrow> http_response_data \<Rightarrow> headers \<Rightarrow> http_written" where
  "writeHTTPResponse canonical resp h =
     (let h1 = foldl (set_response_header canonical) h (hd_RespHeaders resp);
          h2 = (if h_Get h1 ''Content-Type'' = '''' then h_Set ''Content-Type'' ''application/json'' h1 else h1)
      in \<lparr>hw_headers = h2, hw_status = (if hd_StatusCode resp = 0 then 200 else hd_StatusCode resp),
          hw_body = PluginBody (hd_RespBody resp)\<rparr>)"

text \<open>\<^verbatim>\<open>http.Error\<close>, less the fixed headers it sets.\<close>

definition http_Error :: "headers \<Rightarrow> string \<Rightarrow> int \<Rightarrow> http_written" where
  "http_Error h t code = \<lparr>hw_headers = h, hw_status = code, hw_body = ErrorText t\<rparr>"

text \<open>
  The checks of \<^verbatim>\<open>ServeHTTP\<close> before the plugin runs: the answer that ends the request, or the headers
  set so far with the plugin, the trigger, the principal and the data of the event.
\<close>

definition admit_http ::
    "http_services \<Rightarrow> (string \<Rightarrow> string) \<Rightarrow> trigger_registry \<Rightarrow> http_req \<Rightarrow>
     http_written + headers \<times> string \<times> string \<times> http_auth option \<times> http_trigger_data" where
  "admit_http V escape reg r =
     (case resolveRoute (q_Path r) of
        Inl err \<Rightarrow> Inl (http_Error [] (error_text err) 400)
      | Inr (pluginID, triggerPath) \<Rightarrow>
          (case LookupHTTP reg pluginID triggerPath (routeLookupMethod r) of
             Inl err \<Rightarrow> Inl (http_Error [] (error_text err) 404)
           | Inr triggerName \<Rightarrow>
               (case resolveSetting V pluginID triggerName of
                  Inl err \<Rightarrow> Inl (http_Error [] ''internal error'' 500)
                | Inr setting \<Rightarrow>
                    if \<not> hs_Enabled setting then Inl (http_Error [] ''forbidden'' 403)
                    else (case applyHTTPTriggerCORS (hv_parse V) r setting (routeLookupMethod r) [] of
                            Inl err \<Rightarrow> Inl (http_Error [] ''forbidden'' 403)
                          | Inr (h, preflight) \<Rightarrow>
                              if preflight then Inl \<lparr>hw_headers = h, hw_status = 204, hw_body = NoContent\<rparr>
                              else (case resolvePrincipal V r pluginID triggerName setting of
                                      Inl (code0, err) \<Rightarrow>
                                        let code = (if code0 = 0 then 500 else code0)
                                        in (case loginRedirectURL escape r code setting of
                                              Some url \<Rightarrow> Inl \<lparr>hw_headers = h, hw_status = 302, hw_body = RedirectTo url\<rparr>
                                            | None \<Rightarrow> Inl (http_Error h (error_text err) code))
                                    | Inr who \<Rightarrow>
                                        (case buildHTTPRequestData r triggerPath who of
                                           Inl err \<Rightarrow> Inl (http_Error h (error_text err) 400)
                                         | Inr d \<Rightarrow> Inr (h, pluginID, triggerName, who, d)))))))"

definition ServeHTTP ::
    "http_services \<Rightarrow> (string \<Rightarrow> string) \<Rightarrow> (string \<Rightarrow> string) \<Rightarrow> trigger_registry \<Rightarrow> int \<Rightarrow> 'w router \<Rightarrow> http_req \<Rightarrow> 'w \<Rightarrow> 'w \<times> http_written" where
  "ServeHTTP V escape canonical reg nowMilli plugins r w =
     (case admit_http V escape reg r of
        Inl written \<Rightarrow> (w, written)
      | Inr (h, pluginID, triggerName, who, d) \<Rightarrow>
          (case dispatchHTTPEvent plugins who
                  \<lparr>te_TriggerName = triggerName, te_PluginID = pluginID, te_Timestamp = nowMilli, te_Data = HTTPData d\<rparr> w of
             (w1, Inl (True, err)) \<Rightarrow> (w1, http_Error h (error_text err) 500)
           | (w1, Inl (False, err)) \<Rightarrow> (w1, http_Error h ''internal error'' 500)
           | (w1, Inr resp) \<Rightarrow> (w1, writeHTTPResponse canonical resp h)))"

subsection \<open>Access to HTTP triggers\<close>

text \<open>Who a request may act as under a setting: a user, a service, or nobody.\<close>

definition grants :: "http_services \<Rightarrow> http_req \<Rightarrow> string \<Rightarrow> string \<Rightarrow> http_setting \<Rightarrow> http_auth option \<Rightarrow> bool" where
  "grants V r pluginID triggerName s who \<longleftrightarrow>
     (case who of
        None \<Rightarrow> \<not> hs_AllowUserKeys s \<and> \<not> hs_AllowServiceKeys s \<and> TrimSpace (hs_PolicyExpression s) = ''''
      | Some (AuthUser u) \<Rightarrow>
          hs_AllowUserKeys s \<and>
          (hs_PolicyExpression s = '''' \<or> (\<exists>eval. hv_evalPolicy V = Some eval \<and> eval (hs_PolicyExpression s) u = Inr True)) \<and>
          (case bearerToken r of
             Some token \<Rightarrow> \<exists>auth. hv_authToken V = Some auth \<and> auth token = Inr (Some u)
           | None \<Rightarrow> \<exists>auth. hv_authUser V = Some auth \<and> auth r = Some u)
      | Some (AuthService i) \<Rightarrow>
          hs_AllowServiceKeys s \<and>
          (\<exists>token auth. bearerToken r = Some token \<and> hv_authService V = Some auth \<and> auth token pluginID triggerName = Inr (Some i)))"

lemma authorizeUserPrincipal_Inr:
  "authorizeUserPrincipal V s u = Inr a \<longleftrightarrow>
     a = AuthUser u \<and> hs_AllowUserKeys s \<and>
     (hs_PolicyExpression s = '''' \<or> (\<exists>eval. hv_evalPolicy V = Some eval \<and> eval (hs_PolicyExpression s) u = Inr True))"
  by (auto simp: authorizeUserPrincipal_def split: option.splits sum.splits if_splits)

lemma resolveBearerPrincipal_Inr:
  "resolveBearerPrincipal V token p t s = Inr a \<Longrightarrow>
     (\<exists>u auth. a = AuthUser u \<and> hv_authToken V = Some auth \<and> auth token = Inr (Some u) \<and> authorizeUserPrincipal V s u = Inr a) \<or>
     (\<exists>i auth. a = AuthService i \<and> hs_AllowServiceKeys s \<and> hv_authService V = Some auth \<and> auth token p t = Inr (Some i))"
  by (auto simp: resolveBearerPrincipal_def authorizeUserPrincipal_Inr Let_def split: option.splits sum.splits if_splits)

lemma or_anonymous_Inr:
  "or_anonymous anon res = Inr who \<longleftrightarrow>
     (\<exists>a. who = Some a \<and> res = Inr a) \<or> who = None \<and> anon \<and> (\<exists>err. res = Inl (403, err))"
  by (auto simp: or_anonymous_def split: sum.splits)

lemma resolvePrincipal_grants:
  assumes "resolvePrincipal V r p t s = Inr who"
  shows "grants V r p t s who"
proof (cases who)
  case None
  with assms show ?thesis
    by (auto simp: resolvePrincipal_def grants_def or_anonymous_Inr allowsAnonymousHTTPAccess_def Let_def split: option.splits if_splits)
next
  case (Some a)
  show ?thesis
  proof (cases "bearerToken r")
    case None
    with assms Some show ?thesis
      by (auto simp: resolvePrincipal_def grants_def or_anonymous_Inr authorizeUserPrincipal_Inr Let_def split: option.splits if_splits)
  next
    case (Some token)
    with assms \<open>who = Some a\<close> have "resolveBearerPrincipal V token p t s = Inr a"
      by (simp add: resolvePrincipal_def or_anonymous_Inr Let_def)
    from resolveBearerPrincipal_Inr [OF this] show ?thesis using Some \<open>who = Some a\<close>
      by (auto simp: grants_def authorizeUserPrincipal_Inr)
  qed
qed

text \<open>The origin of a request is absent, that of the endpoint itself, or allowed by the setting.\<close>

definition origin_ok :: "url_parser \<Rightarrow> http_req \<Rightarrow> http_setting \<Rightarrow> bool" where
  "origin_ok parse r s \<longleftrightarrow>
     TrimSpace (header_Get r ''Origin'') = '''' \<or>
     (\<exists>origin. Canonicalize parse (TrimSpace (header_Get r ''Origin'')) = Inr origin \<and>
        (requestOriginMatches parse r origin \<or> origins_Contains parse (hs_AllowedOrigins s) origin))"

lemma applyCORS_origin_ok:
  "applyHTTPTriggerCORS parse r s m h = Inr res \<Longrightarrow> origin_ok parse r s"
  by (auto simp: applyHTTPTriggerCORS_def origin_ok_def Let_def split: sum.splits if_splits)

lemma admit_http_granted:
  assumes "admit_http V escape reg r = Inr (h, pluginID, triggerName, who, d)"
  shows "\<exists>triggerPath s. resolveRoute (q_Path r) = Inr (pluginID, triggerPath) \<and>
    LookupHTTP reg pluginID triggerPath (routeLookupMethod r) = Inr triggerName \<and>
    resolveSetting V pluginID triggerName = Inr s \<and> hs_Enabled s \<and> origin_ok (hv_parse V) r s \<and>
    grants V r pluginID triggerName s who \<and> hd_Auth d = who"
proof -
  obtain p tp where route: "resolveRoute (q_Path r) = Inr (p, tp)"
    using assms by (auto simp: admit_http_def split: sum.splits)
  obtain t where look: "LookupHTTP reg p tp (routeLookupMethod r) = Inr t"
    using assms route by (auto simp: admit_http_def split: sum.splits)
  obtain s where setting: "resolveSetting V p t = Inr s" "hs_Enabled s"
    using assms route look by (auto simp: admit_http_def split: sum.splits if_splits)
  obtain h' pre where cors: "applyHTTPTriggerCORS (hv_parse V) r s (routeLookupMethod r) [] = Inr (h', pre)" "\<not> pre"
    using assms route look setting by (auto simp: admit_http_def split: sum.splits if_splits)
  obtain pr where pr: "resolvePrincipal V r p t s = Inr pr"
    using assms route look setting cors by (auto simp: admit_http_def Let_def split: sum.splits option.splits)
  obtain d' where d: "buildHTTPRequestData r tp pr = Inr d'"
    using assms route look setting cors pr by (auto simp: admit_http_def split: sum.splits)
  have "p = pluginID" "t = triggerName" "pr = who" "d' = d"
    using assms route look setting cors pr d by (simp_all add: admit_http_def)
  moreover have "hd_Auth d' = pr" using d by (auto simp: buildHTTPRequestData_def split: sum.splits)
  ultimately show ?thesis
    using route look setting applyCORS_origin_ok [OF cors(1)] resolvePrincipal_grants [OF pr] by auto
qed

text \<open>
  C19. A plugin runs for an HTTP request only when the request names a registered trigger of that
  plugin, the trigger is enabled, the origin is absent, the endpoint's own or allowed, the request is
  no preflight, and the principal that is passed on is one the services authenticated and the
  setting and its policy allow; without a principal only when the setting allows nobody else.
\<close>

theorem http_plugin_runs_only_if_granted:
  assumes "admit_http V escape reg r = Inr (h, pluginID, triggerName, who, d)"
  shows "\<exists>triggerPath s. resolveRoute (q_Path r) = Inr (pluginID, triggerPath) \<and>
    LookupHTTP reg pluginID triggerPath (routeLookupMethod r) = Inr triggerName \<and>
    resolveSetting V pluginID triggerName = Inr s \<and> hs_Enabled s \<and> origin_ok (hv_parse V) r s \<and>
    grants V r pluginID triggerName s who \<and> hd_Auth d = who"
  by (rule admit_http_granted [OF assms])


definition demo_http_services :: http_services where
  "demo_http_services = \<lparr>hv_parse = (\<lambda>_. Inl (Plain ''not parsed'')),
     hv_loadSetting = Some (\<lambda>_ _. Inr (Some \<lparr>hs_Enabled = True, hs_AllowUserKeys = True, hs_AllowServiceKeys = False,
        hs_PolicyExpression = ''staff'', hs_AllowedOrigins = []\<rparr>)),
     hv_authUser = Some (\<lambda>_. Some 7), hv_authToken = None, hv_authService = None,
     hv_evalPolicy = Some (\<lambda>e u. Inr (e = ''staff'' \<and> u = 7))\<rparr>"

definition demo_triggers :: trigger_registry where
  "demo_triggers = RegisterTriggers (\<lambda>_. None) ''p''
     [\<lparr>td_Name = ''hook'', td_Type = ''http'', td_Path = ''/x'', td_Methods = [], td_Schedule = '''', td_Topic = ''''\<rparr>] NewRegistry"

definition demo_http_req :: http_req where
  "demo_http_req = \<lparr>q_Method = ''GET'', q_Path = ''/api/triggers/http/p/x'', q_Query = [], q_Host = ''h'', q_URLHost = '''', q_TLS = False,
     q_Header = [], q_Body = Inr '''', q_RemoteAddr = '''', q_RequestURI = ''''\<rparr>"

theorem http_plugin_runs_only_if_granted_witness:
  "\<exists>s. grants demo_http_services demo_http_req ''p'' ''hook'' s (Some (AuthUser 7))"
proof -
  have route: "resolveRoute (q_Path demo_http_req) = Inr (''p'', ''x'')"
    by (simp add: resolveRoute_def demo_http_req_def basePath_def TrimPrefix_def)
  have m: "routeLookupMethod demo_http_req = ''GET''" by code_simp
  have upper: "ToUpper ''GET'' = ''GET''" by code_simp
  have look: "LookupHTTP demo_triggers ''p'' ''x'' ''GET'' = Inr ''hook''"
    by (simp add: demo_triggers_def RegisterTriggers_def register_trigger_def NewRegistry_def LookupHTTP_def httpRouteKey_def
        TrimPrefix_def route_methods_def upper)
  have no_headers: "header_Get demo_http_req k = ''''" for k
    by (simp add: header_Get_def header_Values_def demo_http_req_def)
  have trim: "TrimSpace '''' = ''''" by code_simp
  obtain st where setting: "resolveSetting demo_http_services ''p'' ''hook'' = Inr st" "hs_Enabled st" "hs_AllowUserKeys st"
      "hs_PolicyExpression st = ''staff''"
    by (simp add: resolveSetting_def demo_http_services_def)
  have cors: "applyHTTPTriggerCORS parse demo_http_req st m1 [] = Inr ([], False)" for parse m1
    by (simp add: applyHTTPTriggerCORS_def no_headers trim)
  have eval: "hv_authUser demo_http_services = Some (\<lambda>_. Some 7)" "hv_evalPolicy demo_http_services = Some (\<lambda>e u. Inr (e = ''staff'' \<and> u = 7))"
    by (simp_all add: demo_http_services_def)
  have who: "resolvePrincipal demo_http_services demo_http_req ''p'' ''hook'' st = Inr (Some (AuthUser 7))"
    using setting by (simp add: resolvePrincipal_def bearerToken_def no_headers authorizeUserPrincipal_def or_anonymous_def eval)
  have "q_Body demo_http_req = Inr ''''" by (simp add: demo_http_req_def)
  then have "\<exists>d. admit_http demo_http_services (\<lambda>u. u) demo_triggers demo_http_req = Inr ([], ''p'', ''hook'', Some (AuthUser 7), d)"
    using setting(2) by (simp add: admit_http_def route m look setting(1) cors who buildHTTPRequestData_def)
  then obtain d where "admit_http demo_http_services (\<lambda>u. u) demo_triggers demo_http_req = Inr ([], ''p'', ''hook'', Some (AuthUser 7), d)" ..
  from http_plugin_runs_only_if_granted [OF this] show ?thesis by blast
qed

subsection \<open>Registering and unregistering\<close>

definition triggers_ok :: "trigger_registry \<Rightarrow> bool" where
  "triggers_ok r \<longleftrightarrow> distinct (map fst (tr_httpRoutes r)) \<and> distinct (map fst (tr_eventRoutes r))"

lemma map_of_filter_value:
  "distinct (map fst xs) \<Longrightarrow>
   map_of (filter (\<lambda>(k, v). P v) xs) k = (case map_of xs k of Some v \<Rightarrow> if P v then Some v else None | None \<Rightarrow> None)"
proof (induction xs)
  case (Cons x xs)
  obtain k' v where x: "x = (k', v)" by fastforce
  show ?case
  proof (cases "k = k'")
    case True
    with Cons.prems x have "map_of xs k = None" by (simp add: map_of_eq_None_iff)
    with Cons x True show ?thesis by simp
  qed (use Cons x in auto)
qed simp

lemma map_of_map_value: "map_of (map (\<lambda>(k, v). (k, f v)) xs) k = map_option f (map_of xs k)"
  by (induction xs) auto

lemma distinct_keys_filter: "distinct (map fst xs) \<Longrightarrow> distinct (map fst (filter P xs))"
  by (rule distinct_map_filter)

lemma register_trigger_ok: "triggers_ok r \<Longrightarrow> triggers_ok (register_trigger ca p r t)"
  by (auto simp: register_trigger_def triggers_ok_def distinct_update split: option.split)

lemma RegisterTriggers_ok: "triggers_ok r \<Longrightarrow> triggers_ok (RegisterTriggers ca p ts r)"
  unfolding RegisterTriggers_def by (induction ts arbitrary: r) (simp_all add: register_trigger_ok)

lemma UnregisterTriggers_ok: "triggers_ok r \<Longrightarrow> triggers_ok (UnregisterTriggers p r)"
  by (auto simp: triggers_ok_def UnregisterTriggers_def other_routes_def case_prod_unfold comp_def intro!: distinct_keys_filter)

inductive reachable_registry :: "(string \<Rightarrow> go_error option) \<Rightarrow> trigger_registry \<Rightarrow> bool" for ca where
  registry_new: "reachable_registry ca NewRegistry"
| registry_cron: "reachable_registry ca r \<Longrightarrow> reachable_registry ca (SetCronScheduler NewCronScheduler r)"
| registered: "reachable_registry ca r \<Longrightarrow> reachable_registry ca (RegisterTriggers ca p ts r)"
| unregistered: "reachable_registry ca r \<Longrightarrow> reachable_registry ca (UnregisterTriggers p r)"

lemma reachable_triggers_ok: "reachable_registry ca r \<Longrightarrow> triggers_ok r"
  by (induction rule: reachable_registry.induct)
    (auto simp: RegisterTriggers_ok UnregisterTriggers_ok, auto simp: triggers_ok_def NewRegistry_def SetCronScheduler_def)

lemma remove_loop:
  "cs_entries (foldl (\<lambda>c e. c\<lparr>cs_installed := filter (\<lambda>i. i \<noteq> ce_EntryID e) (cs_installed c),
      cs_running := cs_running c - {cronRunKey p (ce_TriggerName e)}\<rparr>) cs es) = cs_entries cs"
  "cs_installed (foldl (\<lambda>c e. c\<lparr>cs_installed := filter (\<lambda>i. i \<noteq> ce_EntryID e) (cs_installed c),
      cs_running := cs_running c - {cronRunKey p (ce_TriggerName e)}\<rparr>) cs es) = filter (\<lambda>i. i \<notin> ce_EntryID ` set es) (cs_installed cs)"
  "cs_running (foldl (\<lambda>c e. c\<lparr>cs_installed := filter (\<lambda>i. i \<noteq> ce_EntryID e) (cs_installed c),
      cs_running := cs_running c - {cronRunKey p (ce_TriggerName e)}\<rparr>) cs es) = cs_running cs - cronRunKey p ` ce_TriggerName ` set es"
  by (induction es arbitrary: cs) (auto intro: filter_cong)

lemma RemoveAll_fields:
  "cs_entries (RemoveAll p cs) = (cs_entries cs)(p := [])"
  "cs_installed (RemoveAll p cs) = filter (\<lambda>i. i \<notin> ce_EntryID ` set (cs_entries cs p)) (cs_installed cs)"
  "cs_running (RemoveAll p cs) = cs_running cs - cronRunKey p ` ce_TriggerName ` set (cs_entries cs p)"
  by (simp_all add: RemoveAll_def Let_def remove_loop)

text \<open>
  Unregistering a plugin's triggers removes exactly them: no HTTP route, subscription or
  schedule of it is left, and the routes, the subscriptions (in their order) and the schedules of
  other plugins stay.
\<close>

theorem unregister_triggers_exact:
  assumes "reachable_registry ca r"
  shows "map_of (tr_httpRoutes (UnregisterTriggers p r)) k =
      (case map_of (tr_httpRoutes r) k of Some route \<Rightarrow> if ht_PluginID route = p then None else Some route | None \<Rightarrow> None) \<and>
    LookupEventSubscribers (UnregisterTriggers p r) topic = filter (\<lambda>e. er_PluginID e \<noteq> p) (LookupEventSubscribers r topic) \<and>
    (\<forall>cs. tr_cron r = Some cs \<longrightarrow>
      (\<exists>cs'. tr_cron (UnregisterTriggers p r) = Some cs' \<and> cs_entries cs' p = [] \<and> (\<forall>q. q \<noteq> p \<longrightarrow> cs_entries cs' q = cs_entries cs q)))"
proof -
  have d: "distinct (map fst (tr_httpRoutes r))" "distinct (map fst (tr_eventRoutes r))"
    using reachable_triggers_ok [OF assms] by (simp_all add: triggers_ok_def)
  have d2: "distinct (map fst (map (\<lambda>(topic, rs). (topic, filter (\<lambda>e. er_PluginID e \<noteq> p) rs)) (tr_eventRoutes r)))"
    using d(2) by (simp add: case_prod_unfold comp_def)
  have http: "map_of (tr_httpRoutes (UnregisterTriggers p r)) k =
      (case map_of (tr_httpRoutes r) k of Some route \<Rightarrow> if ht_PluginID route = p then None else Some route | None \<Rightarrow> None)"
    using map_of_filter_value [OF d(1), of "\<lambda>route. ht_PluginID route \<noteq> p" k]
    by (auto simp: UnregisterTriggers_def split: option.split)
  moreover have "map_of (tr_eventRoutes (UnregisterTriggers p r)) topic =
      (case map_option (filter (\<lambda>e. er_PluginID e \<noteq> p)) (map_of (tr_eventRoutes r) topic) of
         Some rs \<Rightarrow> if rs \<noteq> [] then Some rs else None | None \<Rightarrow> None)"
    unfolding UnregisterTriggers_def other_routes_def
    by (simp add: map_of_filter_value [OF d2, of "\<lambda>rs. rs \<noteq> []"] map_of_map_value)
  then have "LookupEventSubscribers (UnregisterTriggers p r) topic = filter (\<lambda>e. er_PluginID e \<noteq> p) (LookupEventSubscribers r topic)"
    by (auto simp: LookupEventSubscribers_def split: option.splits)
  moreover have "\<forall>cs. tr_cron r = Some cs \<longrightarrow>
      (\<exists>cs'. tr_cron (UnregisterTriggers p r) = Some cs' \<and> cs_entries cs' p = [] \<and> (\<forall>q. q \<noteq> p \<longrightarrow> cs_entries cs' q = cs_entries cs q))"
    by (simp add: UnregisterTriggers_def RemoveAll_fields)
  ultimately show ?thesis by blast
qed

theorem unregister_triggers_exact_witness:
  "map_of (tr_httpRoutes (UnregisterTriggers ''p'' demo_triggers)) ''p/x'' = None"
proof -
  have "reachable_registry (\<lambda>_. None) demo_triggers" unfolding demo_triggers_def by (intro reachable_registry.intros)
  moreover have "map_option ht_PluginID (map_of (tr_httpRoutes demo_triggers) ''p/x'') = Some ''p''" by code_simp
  ultimately show ?thesis using unregister_triggers_exact [of "\<lambda>_. None" demo_triggers "''p''" "''p/x''"]
    by (auto split: option.splits)
qed


lemma SplitN_2: "c \<notin> set p \<Longrightarrow> SplitN 2 c (p @ c # q) = [p, q]"
proof (induction p)
  case Nil
  have "SplitN 1 c q = [q]" by (cases q) simp_all
  then show ?case by simp
qed auto

text \<open>
  The address under which a plugin's HTTP trigger is published leads back to the plugin and its
  trigger, for each method of the trigger, if the plugin's identifier has no slash and the path does
  not start with two.
\<close>

theorem http_route_roundtrip:
  assumes "p \<noteq> ''''" and "CHR ''/'' \<notin> set p" and "\<not> HasPrefix (td_Path t) ''//''"
    and "td_Type t = ''http''" and "ToUpper m \<in> route_methods (td_Methods t)"
  shows "\<exists>path. resolveRoute (basePath @ httpRouteKey p (td_Path t)) = Inr (p, path) \<and>
    LookupHTTP (RegisterTriggers ca p (ts @ [t]) r) p path m = Inr (td_Name t)"
proof -
  let ?path = "TrimPrefix (td_Path t) ''/''"
  have "\<not> HasPrefix (p @ q) ''/''" for q using assms(1,2) by (cases p) auto
  then have noslash: "TrimPrefix (p @ q) ''/'' = p @ q" for q by (simp add: TrimPrefix_def)
  have "resolveRoute (basePath @ httpRouteKey p (td_Path t)) = Inr (p, ?path)"
    using SplitN_2 [OF assms(2), of ?path] assms(1) noslash [of "''/'' @ ?path"]
    by (simp add: resolveRoute_def httpRouteKey_def)
  moreover have "TrimPrefix ?path ''/'' = ?path"
    using assms(3) by (cases "td_Path t" rule: list.exhaust; cases "tl (td_Path t)") (auto simp: TrimPrefix_def)
  then have "httpRouteKey p ?path = httpRouteKey p (td_Path t)" by (simp add: httpRouteKey_def)
  then have "LookupHTTP (RegisterTriggers ca p (ts @ [t]) r) p ?path m = Inr (td_Name t)"
    using assms(4,5) by (simp add: LookupHTTP_def RegisterTriggers_def register_trigger_def AList.update_conv')
  ultimately show ?thesis by blast
qed

theorem http_route_roundtrip_witness:
  "\<exists>path. LookupHTTP demo_triggers ''p'' path ''get'' = Inr ''hook''"
proof -
  have "ToUpper ''get'' = ''GET''" by code_simp
  then show ?thesis unfolding demo_triggers_def
    using http_route_roundtrip [of "''p''" "\<lparr>td_Name = ''hook'', td_Type = ''http'', td_Path = ''/x'', td_Methods = [], td_Schedule = '''', td_Topic = ''''\<rparr>"
        "''get''" "\<lambda>_. None" "[]" NewRegistry]
    by (auto simp: route_methods_def)
qed

subsection \<open>Schedules (cron.go)\<close>

definition cronLockTTL :: duration where "cronLockTTL = 2 * Minute"

text \<open>
  The lock of a fire: the key of its window of sixty seconds, and the answer of the client's
  \<^verbatim>\<open>SetNX\<close> on the shared store; without a store, and when the store fails, the trigger runs.
\<close>

definition cron_lock_key :: "string \<Rightarrow> string \<Rightarrow> instant \<Rightarrow> string" where
  "cron_lock_key pluginID triggerName fireTime =
     ''cron_lock:'' @ pluginID @ '':'' @ triggerName @ '':'' @ FormatInt (fireTime div Second div 60)"

definition tryLock ::
    "(string \<Rightarrow> duration \<Rightarrow> 'w \<Rightarrow> 'w \<times> (go_error + bool)) option \<Rightarrow> string \<Rightarrow> string \<Rightarrow> instant \<Rightarrow> 'w \<Rightarrow> 'w \<times> bool" where
  "tryLock redis pluginID triggerName fireTime w =
     (case redis of
        None \<Rightarrow> (w, True)
      | Some setnx \<Rightarrow>
          (case setnx (cron_lock_key pluginID triggerName fireTime) cronLockTTL w of
             (w1, Inl err) \<Rightarrow> (w1, True)
           | (w1, Inr ok) \<Rightarrow> (w1, ok)))"

text \<open>
  One fire: its outcome is what is counted. The set of running keys is that of the scheduler; while
  the plugin runs the key is in the set, and the deferred deletion removes it.
\<close>

definition cron_fire_locked ::
    "(string \<Rightarrow> duration \<Rightarrow> 'w \<Rightarrow> 'w \<times> (go_error + bool)) option \<Rightarrow> 'w router \<Rightarrow> instant \<Rightarrow> string \<Rightarrow> string \<Rightarrow> 'w \<Rightarrow> 'w \<times> string" where
  "cron_fire_locked redis plugins now pluginID triggerName w =
     (case tryLock redis pluginID triggerName now w of
        (w1, False) \<Rightarrow> (w1, ''skipped_locked'')
      | (w1, True) \<Rightarrow>
          (case route_event plugins None
                  \<lparr>te_TriggerName = triggerName, te_PluginID = pluginID, te_Timestamp = now div Millisecond,
                   te_Data = CronData triggerName (now div Millisecond)\<rparr> w1 of
             (w2, Inl err) \<Rightarrow> (w2, ''dispatch_error'')
           | (w2, Inr None) \<Rightarrow> (w2, ''ok'')
           | (w2, Inr (Some resp)) \<Rightarrow> (w2, if rs_Error resp \<noteq> '''' then ''plugin_error'' else ''ok'')))"

definition fire_begin :: "string \<Rightarrow> cron_scheduler \<Rightarrow> cron_scheduler \<times> bool" where
  "fire_begin runKey cs = (if runKey \<in> cs_running cs then (cs, False) else (cs\<lparr>cs_running := insert runKey (cs_running cs)\<rparr>, True))"

definition fire_end :: "string \<Rightarrow> cron_scheduler \<Rightarrow> cron_scheduler" where
  "fire_end runKey cs = cs\<lparr>cs_running := cs_running cs - {runKey}\<rparr>"

definition cron_fire ::
    "(string \<Rightarrow> duration \<Rightarrow> 'w \<Rightarrow> 'w \<times> (go_error + bool)) option \<Rightarrow> 'w router \<Rightarrow> instant \<Rightarrow> string \<Rightarrow> string \<Rightarrow> cron_scheduler \<times> 'w \<Rightarrow>
     (cron_scheduler \<times> 'w) \<times> string" where
  "cron_fire redis plugins now pluginID triggerName st =
     (let runKey = cronRunKey pluginID triggerName
      in case fire_begin runKey (fst st) of
           (cs, False) \<Rightarrow> ((cs, snd st), ''skipped_running'')
         | (cs, True) \<Rightarrow>
             (case cron_fire_locked redis plugins now pluginID triggerName (snd st) of
                (w, result) \<Rightarrow> ((fire_end runKey cs, w), result)))"

subsection \<open>A schedule does not overlap itself\<close>

text \<open>
  The library runs every fire on its own goroutine: the executions in progress are a list of keys.
  A fire begins, an execution ends, and plugins' schedules are added or removed, in every order.
\<close>

inductive cron_run :: "bool \<Rightarrow> cron_scheduler \<times> string list \<Rightarrow> bool" for removals where
  cron_new: "cron_run removals (NewCronScheduler, [])"
| cron_added: "cron_run removals (cs, ks) \<Longrightarrow> cron_run removals (fst (AddSchedule ca p t sch cs), ks)"
| cron_started: "cron_run removals (cs, ks) \<Longrightarrow> fire_begin k cs = (cs', True) \<Longrightarrow> cron_run removals (cs', k # ks)"
| cron_skipped: "cron_run removals (cs, ks) \<Longrightarrow> fire_begin k cs = (cs', False) \<Longrightarrow> cron_run removals (cs', ks)"
| cron_ended: "cron_run removals (cs, ks) \<Longrightarrow> k \<in> set ks \<Longrightarrow> cron_run removals (fire_end k cs, remove1 k ks)"
| cron_removed: "cron_run removals (cs, ks) \<Longrightarrow> removals \<Longrightarrow> cron_run removals (RemoveAll p cs, ks)"

definition runs_ok :: "cron_scheduler \<times> string list \<Rightarrow> bool" where
  "runs_ok st \<longleftrightarrow> distinct (snd st) \<and> cs_running (fst st) = set (snd st)"

lemma fire_begin_iff:
  "fire_begin k cs = (cs', True) \<longleftrightarrow> k \<notin> cs_running cs \<and> cs' = cs\<lparr>cs_running := insert k (cs_running cs)\<rparr>"
  "fire_begin k cs = (cs', False) \<longleftrightarrow> k \<in> cs_running cs \<and> cs' = cs"
  unfolding fire_begin_def by (simp_all add: eq_commute)

lemma runs_ok_steps:
  "runs_ok (NewCronScheduler, [])"
  "runs_ok (cs, ks) \<Longrightarrow> runs_ok (fst (AddSchedule ca p t sch cs), ks)"
  "runs_ok (cs, ks) \<Longrightarrow> fire_begin k cs = (cs', True) \<Longrightarrow> runs_ok (cs', k # ks)"
  "runs_ok (cs, ks) \<Longrightarrow> fire_begin k cs = (cs', False) \<Longrightarrow> runs_ok (cs', ks)"
  "runs_ok (cs, ks) \<Longrightarrow> runs_ok (fire_end k cs, remove1 k ks)"
proof -
  show "runs_ok (NewCronScheduler, [])" by (simp add: runs_ok_def NewCronScheduler_def)
  show "runs_ok (cs, ks) \<Longrightarrow> runs_ok (fst (AddSchedule ca p t sch cs), ks)"
    by (simp add: runs_ok_def AddSchedule_def split: option.split)
  show "runs_ok (cs, ks) \<Longrightarrow> fire_begin k cs = (cs', True) \<Longrightarrow> runs_ok (cs', k # ks)"
    by (simp add: runs_ok_def fire_begin_iff)
  show "runs_ok (cs, ks) \<Longrightarrow> fire_begin k cs = (cs', False) \<Longrightarrow> runs_ok (cs', ks)"
    by (simp add: runs_ok_def fire_begin_iff)
  show "runs_ok (cs, ks) \<Longrightarrow> runs_ok (fire_end k cs, remove1 k ks)"
    by (simp add: runs_ok_def fire_end_def set_remove1_eq)
qed

lemma cron_run_invariant: "cron_run removals st \<Longrightarrow> \<not> removals \<Longrightarrow> runs_ok st"
  by (induction rule: cron_run.induct) (blast intro: runs_ok_steps)+

text \<open>
  While no plugin's schedules are removed, no two executions of the same trigger overlap, and the
  set of running keys is exactly the executions in progress.
\<close>

theorem cron_never_overlaps:
  assumes "cron_run False (cs, ks)"
  shows "distinct ks \<and> cs_running cs = set ks"
  using cron_run_invariant [OF assms] by (simp add: runs_ok_def)

theorem cron_never_overlaps_witness:
  "distinct [''p:t''] \<and> cs_running (fst (fire_begin ''p:t'' NewCronScheduler)) = {''p:t''}"
proof -
  have "fire_begin ''p:t'' NewCronScheduler = (fst (fire_begin ''p:t'' NewCronScheduler), True)"
    by (simp add: fire_begin_def NewCronScheduler_def)
  from cron_started [OF cron_new this] have "cron_run False (fst (fire_begin ''p:t'' NewCronScheduler), [''p:t''])" .
  from cron_never_overlaps [OF this] show ?thesis by simp
qed

text \<open>
  Removing a plugin's schedules, as an update of the plugin does, also forgets its executions in
  progress: after it is registered again a trigger can run twice at once.
\<close>

lemma cron_overlaps_after_removal: "\<exists>cs. cron_run True (cs, [''p:t'', ''p:t''])"
proof -
  let ?add = "\<lambda>cs. fst (AddSchedule (\<lambda>_. None) ''p'' ''t'' ''s'' cs)"
  let ?run = "\<lambda>cs. cs\<lparr>cs_running := insert ''p:t'' (cs_running cs)\<rparr>"
  have key: "cronRunKey ''p'' ''t'' = ''p:t''" by (simp add: cronRunKey_def)
  have "fire_begin ''p:t'' (?add NewCronScheduler) = (?run (?add NewCronScheduler), True)"
    by (simp add: fire_begin_def AddSchedule_def NewCronScheduler_def)
  from cron_removed [OF cron_started [OF cron_added [OF cron_new] this]]
  have run: "cron_run True (RemoveAll ''p'' (?run (?add NewCronScheduler)), [''p:t''])" by simp
  have "''p:t'' \<notin> cs_running (?add (RemoveAll ''p'' (?run (?add NewCronScheduler))))"
    by (simp add: AddSchedule_def RemoveAll_fields NewCronScheduler_def key)
  then have "fire_begin ''p:t'' (?add (RemoveAll ''p'' (?run (?add NewCronScheduler)))) =
      (?run (?add (RemoveAll ''p'' (?run (?add NewCronScheduler)))), True)"
    by (simp only: fire_begin_def if_False)
  from cron_started [OF cron_added [OF run] this] show ?thesis by blast
qed

subsection \<open>The subscriber of the event bus (event_subscriber.go)\<close>

text \<open>A text is always encoded; the payload is valid JSON, as the buses and host functions check.\<close>

fun deliver_event ::
    "'w router \<Rightarrow> instant \<Rightarrow> string \<Rightarrow> string \<Rightarrow> string \<Rightarrow> event_route list \<Rightarrow> go_error option \<Rightarrow> 'w \<Rightarrow> 'w \<times> go_error option" where
  "deliver_event plugins now topic payload source [] firstErr w = (w, firstErr)"
| "deliver_event plugins now topic payload source (s # ss) firstErr w =
     (case route_event plugins None
             \<lparr>te_TriggerName = er_TriggerName s, te_PluginID = er_PluginID s, te_Timestamp = now div Millisecond,
              te_Data = EventData topic payload source\<rparr> w of
        (w1, Inl err) \<Rightarrow>
          deliver_event plugins now topic payload source ss
            (if firstErr = None
             then Some (Wrap (''dispatch event '' @ quote topic @ '' to '' @ er_PluginID s @ ''.'' @ er_TriggerName s @ '': '') err '''')
             else firstErr) w1
      | (w1, Inr resp) \<Rightarrow>
          deliver_event plugins now topic payload source ss
            (case resp of
               Some r \<Rightarrow>
                 if rs_Error r \<noteq> '''' \<and> firstErr = None
                 then Some (Plain (''plugin '' @ er_PluginID s @ '' returned error for event '' @ quote topic @ '': '' @ rs_Error r))
                 else firstErr
             | None \<Rightarrow> firstErr) w1)"

definition subscriber_Handle ::
    "trigger_registry \<Rightarrow> 'w router \<Rightarrow> instant \<Rightarrow> string \<Rightarrow> string \<Rightarrow> string \<Rightarrow> 'w \<Rightarrow> 'w \<times> go_error option" where
  "subscriber_Handle reg plugins now source topic payload w =
     deliver_event plugins now topic payload source (LookupEventSubscribers reg topic) None w"


text \<open>
  A delivery fails exactly when some subscriber fails or answers with an error, and every subscriber
  is reached: \<open>fails\<close> is what a subscriber does in the world it runs in.
\<close>

definition subscriber_fails :: "'w router \<Rightarrow> instant \<Rightarrow> string \<Rightarrow> string \<Rightarrow> string \<Rightarrow> event_route \<Rightarrow> 'w \<Rightarrow> bool" where
  "subscriber_fails plugins now topic payload source s w \<longleftrightarrow>
     (case snd (route_event plugins None
             \<lparr>te_TriggerName = er_TriggerName s, te_PluginID = er_PluginID s, te_Timestamp = now div Millisecond,
              te_Data = EventData topic payload source\<rparr> w) of
        Inl _ \<Rightarrow> True | Inr None \<Rightarrow> False | Inr (Some r) \<Rightarrow> rs_Error r \<noteq> '''')"

lemma deliver_event_keeps_error:
  "firstErr \<noteq> None \<Longrightarrow> snd (deliver_event plugins now topic payload source ss firstErr w) \<noteq> None"
  by (induction ss arbitrary: firstErr w)
    (auto simp del: not_None_eq split: prod.split sum.split option.split)

lemma deliver_event_fails:
  assumes "s \<in> set ss" "\<And>w. subscriber_fails plugins now topic payload source s w"
  shows "snd (deliver_event plugins now topic payload source ss firstErr w) \<noteq> None"
  using assms(1)
proof (induction ss arbitrary: firstErr w)
  case (Cons x ss)
  obtain w1 r where r: "route_event plugins None
      \<lparr>te_TriggerName = er_TriggerName x, te_PluginID = er_PluginID x, te_Timestamp = now div Millisecond,
       te_Data = EventData topic payload source\<rparr> w = (w1, r)" by fastforce
  show ?case
  proof (cases "x = s")
    case False
    with Cons r show ?thesis by (auto simp del: not_None_eq split: sum.split)
  next
    case True
    with assms(2) [of w] r have "case r of Inl _ \<Rightarrow> True | Inr None \<Rightarrow> False | Inr (Some r) \<Rightarrow> rs_Error r \<noteq> ''''"
      by (simp add: subscriber_fails_def)
    with r show ?thesis
      by (auto simp del: not_None_eq intro!: deliver_event_keeps_error split: sum.splits option.splits)
  qed
qed simp

end
