(* ===== verification/Wasm_Registry.thy ===== *)
theory Wasm_Registry
  imports Bot_Model "HOL-Library.Multiset"
begin

text \<open>
  The registry of plugin versions: \<^verbatim>\<open>internal/wasm/registry/registry.go\<close> (entries, versions sorted
  from the newest), \<^verbatim>\<open>dependency.go\<close> (version comparison, constraints, dependency resolution) and
  \<^verbatim>\<open>signing.go\<close> (integrity of modules, over a hash function).

  \<^verbatim>\<open>sort.Slice\<close> does not fix the order of equal elements, so sorting is a parameter whose laws are
  the locale \<open>slice_sort\<close>: the result is a permutation without a descent. Insertion sort, which
  \<^verbatim>\<open>sort.Slice\<close> runs on short slices, satisfies them.
\<close>

subsection \<open>Versions (dependency.go)\<close>

text \<open>The components of a version as the loop reads them: 0 beyond the end.\<close>

fun compare_parts :: "string list \<Rightarrow> string list \<Rightarrow> int" where
  "compare_parts [] [] = 0"
| "compare_parts (x # xs) [] =
     (if Atoi x < 0 then -1 else if Atoi x > 0 then 1 else compare_parts xs [])"
| "compare_parts [] (y # ys) =
     (if 0 < Atoi y then -1 else if 0 > Atoi y then 1 else compare_parts [] ys)"
| "compare_parts (x # xs) (y # ys) =
     (if Atoi x < Atoi y then -1 else if Atoi x > Atoi y then 1 else compare_parts xs ys)"

definition CompareVersions :: "string \<Rightarrow> string \<Rightarrow> int" where
  "CompareVersions a b = compare_parts (SplitOn (CHR ''.'') a) (SplitOn (CHR ''.'') b)"

definition parseSemver :: "string \<Rightarrow> int \<times> int \<times> int" where
  "parseSemver v =
     (let parts = SplitN 3 (CHR ''.'') v
      in (if length parts \<ge> 1 then Atoi (parts ! 0) else 0,
          if length parts \<ge> 2 then Atoi (parts ! 1) else 0,
          if length parts \<ge> 3 then Atoi (parts ! 2) else 0))"

datatype constraint_op = OpGe | OpGt | OpLe | OpLt | OpEq | OpNe | OpCaret | OpTilde

definition split_constraint :: "string \<Rightarrow> constraint_op \<times> string" where
  "split_constraint c =
     (if HasPrefix c ''>='' then (OpGe, TrimSpace (drop 2 c))
      else if HasPrefix c ''>'' then (OpGt, TrimSpace (drop 1 c))
      else if HasPrefix c ''<='' then (OpLe, TrimSpace (drop 2 c))
      else if HasPrefix c ''<'' then (OpLt, TrimSpace (drop 1 c))
      else if HasPrefix c ''!='' then (OpNe, TrimSpace (drop 2 c))
      else if HasPrefix c ''=='' then (OpEq, TrimSpace (drop 2 c))
      else if HasPrefix c ''='' then (OpEq, TrimSpace (drop 1 c))
      else if HasPrefix c ''^'' then (OpCaret, TrimSpace (drop 1 c))
      else if HasPrefix c ''~'' then (OpTilde, TrimSpace (drop 1 c))
      else (OpEq, c))"

fun satisfies_op :: "constraint_op \<Rightarrow> string \<Rightarrow> string \<Rightarrow> bool" where
  "satisfies_op OpGe v t \<longleftrightarrow> CompareVersions v t \<ge> 0"
| "satisfies_op OpGt v t \<longleftrightarrow> CompareVersions v t > 0"
| "satisfies_op OpLe v t \<longleftrightarrow> CompareVersions v t \<le> 0"
| "satisfies_op OpLt v t \<longleftrightarrow> CompareVersions v t < 0"
| "satisfies_op OpEq v t \<longleftrightarrow> CompareVersions v t = 0"
| "satisfies_op OpNe v t \<longleftrightarrow> CompareVersions v t \<noteq> 0"
| "satisfies_op OpCaret v t \<longleftrightarrow> \<not> CompareVersions v t < 0 \<and> fst (parseSemver v) = fst (parseSemver t)"
| "satisfies_op OpTilde v t \<longleftrightarrow> \<not> CompareVersions v t < 0 \<and> fst (parseSemver v) = fst (parseSemver t) \<and>
     fst (snd (parseSemver v)) = fst (snd (parseSemver t))"

definition SatisfiesConstraint :: "string \<Rightarrow> string \<Rightarrow> bool" where
  "SatisfiesConstraint version constraint0 =
     (let c = TrimSpace constraint0
      in if c = '''' \<or> c = ''*'' then True
         else case split_constraint c of (op, target) \<Rightarrow> satisfies_op op version target)"

subsection \<open>Entries and the registry (registry.go)\<close>

record version_entry =
  ve_Version :: string
  ve_WasmHash :: string
  ve_UploadedAt :: instant
  ve_Changelog :: string
  ve_MinSDKVersion :: int

record dependency =
  dep_PluginID :: string
  dep_VersionConstraint :: string

record plugin_entry =
  pe_ID :: string
  pe_Name :: string
  pe_Versions :: "version_entry list"
  pe_Dependencies :: "dependency list"
  pe_Signature :: string

type_synonym plugin_registry = "string \<rightharpoonup> plugin_entry"

type_synonym 'a sorter = "('a \<Rightarrow> 'a \<Rightarrow> bool) \<Rightarrow> 'a list \<Rightarrow> 'a list"

definition NewPluginRegistry :: plugin_registry where
  "NewPluginRegistry = Map.empty"

definition newer :: "version_entry \<Rightarrow> version_entry \<Rightarrow> bool" where
  "newer v w \<longleftrightarrow> CompareVersions (ve_Version v) (ve_Version w) > 0"

definition sortVersions :: "version_entry sorter \<Rightarrow> plugin_entry \<Rightarrow> plugin_entry" where
  "sortVersions srt entry = entry\<lparr>pe_Versions := srt newer (pe_Versions entry)\<rparr>"

fun findVersion :: "version_entry list \<Rightarrow> string \<Rightarrow> nat option" where
  "findVersion [] version = None"
| "findVersion (v # vs) version =
     (if ve_Version v = version then Some 0 else map_option Suc (findVersion vs version))"

definition put_version :: "version_entry \<Rightarrow> version_entry list \<Rightarrow> version_entry list" where
  "put_version v vs = (case findVersion vs (ve_Version v) of Some i \<Rightarrow> vs[i := v] | None \<Rightarrow> vs @ [v])"

definition Register_entry :: "version_entry sorter \<Rightarrow> plugin_entry \<Rightarrow> plugin_registry \<Rightarrow> plugin_registry" where
  "Register_entry srt entry r =
     (case r (pe_ID entry) of
        None \<Rightarrow> r(pe_ID entry \<mapsto> sortVersions srt entry)
      | Some existing \<Rightarrow>
          let e = existing\<lparr>pe_Name := pe_Name entry, pe_Dependencies := pe_Dependencies entry,
                           pe_Signature := pe_Signature entry,
                           pe_Versions := fold put_version (pe_Versions entry) (pe_Versions existing)\<rparr>
          in r(pe_ID entry \<mapsto> sortVersions srt e))"

definition Remove_entry :: "string \<Rightarrow> plugin_registry \<Rightarrow> plugin_registry" where
  "Remove_entry i r = r(i := None)"

definition not_in_registry :: "string \<Rightarrow> go_error" where
  "not_in_registry i = Plain (''plugin '' @ quote i @ '' not found in registry'')"

definition Get_entry :: "plugin_registry \<Rightarrow> string \<Rightarrow> go_error + plugin_entry" where
  "Get_entry r i = (case r i of None \<Rightarrow> Inl (not_in_registry i) | Some e \<Rightarrow> Inr e)"

definition GetVersion :: "plugin_registry \<Rightarrow> string \<Rightarrow> string \<Rightarrow> go_error + version_entry" where
  "GetVersion r i version =
     (case r i of
        None \<Rightarrow> Inl (not_in_registry i)
      | Some e \<Rightarrow>
          (case findVersion (pe_Versions e) version of
             Some k \<Rightarrow> Inr (pe_Versions e ! k)
           | None \<Rightarrow> Inl (Plain (''version '' @ quote version @ '' not found for plugin '' @ quote i))))"

definition GetLatest :: "plugin_registry \<Rightarrow> string \<Rightarrow> go_error + version_entry" where
  "GetLatest r i =
     (case r i of
        None \<Rightarrow> Inl (not_in_registry i)
      | Some e \<Rightarrow>
          (case pe_Versions e of
             [] \<Rightarrow> Inl (Plain (''plugin '' @ quote i @ '' has no versions''))
           | v # _ \<Rightarrow> Inr v))"

text \<open>\<^verbatim>\<open>ListAll\<close> ranges over the map, in an order that is not specified.\<close>

definition ListAll :: "plugin_registry \<Rightarrow> plugin_entry set" where
  "ListAll r = ran r"

definition ListVersions :: "plugin_registry \<Rightarrow> string \<Rightarrow> go_error + version_entry list" where
  "ListVersions r i = (case r i of None \<Rightarrow> Inl (not_in_registry i) | Some e \<Rightarrow> Inr (pe_Versions e))"

definition Has :: "plugin_registry \<Rightarrow> string \<Rightarrow> bool" where
  "Has r i \<longleftrightarrow> r i \<noteq> None"

definition HasVersion :: "plugin_registry \<Rightarrow> string \<Rightarrow> string \<Rightarrow> bool" where
  "HasVersion r i version =
     (case r i of None \<Rightarrow> False | Some e \<Rightarrow> findVersion (pe_Versions e) version \<noteq> None)"

subsection \<open>Dependencies (dependency.go)\<close>

record unmet_dependency =
  ud_PluginID :: string
  ud_VersionConstraint :: string
  ud_Reason :: string

datatype dependency_error =
    ResolveError go_error
  | DependencyError string string "unmet_dependency list"

definition unmet_text :: "unmet_dependency \<Rightarrow> string" where
  "unmet_text u = ''unmet dependency: plugin '' @ quote (ud_PluginID u) @ '' '' @ ud_VersionConstraint u @
     '' ('' @ ud_Reason u @ '')''"

fun dependency_error_text :: "dependency_error \<Rightarrow> string" where
  "dependency_error_text (ResolveError e) = error_text (Wrap ''resolve dependencies: '' e '''')"
| "dependency_error_text (DependencyError pluginID version unmet) =
     ''plugin '' @ quote pluginID @ '' (version '' @ version @ '') has '' @ FormatInt (int (length unmet)) @
     '' unmet dependencies:'' @ concat (map (\<lambda>u. [CHR 0x0A] @ ''  - '' @ unmet_text u) unmet)"

definition installed_map :: "(string \<times> string) list \<Rightarrow> string \<rightharpoonup> string" where
  "installed_map ps = fold (\<lambda>(i, v) m. m(i \<mapsto> v)) ps Map.empty"

text \<open>One turn of the loop: the unmet dependency it appends, if any.\<close>

definition unmet_of :: "(string \<rightharpoonup> string) \<Rightarrow> dependency \<Rightarrow> unmet_dependency list" where
  "unmet_of installed dep =
     (case installed (dep_PluginID dep) of
        None \<Rightarrow> [\<lparr>ud_PluginID = dep_PluginID dep, ud_VersionConstraint = dep_VersionConstraint dep,
                  ud_Reason = ''not installed''\<rparr>]
      | Some v \<Rightarrow>
          if dep_VersionConstraint dep \<noteq> '''' \<and> \<not> SatisfiesConstraint v (dep_VersionConstraint dep)
          then [\<lparr>ud_PluginID = dep_PluginID dep, ud_VersionConstraint = dep_VersionConstraint dep,
                 ud_Reason = ''installed version '' @ v @ '' does not satisfy '' @ dep_VersionConstraint dep\<rparr>]
          else [])"

definition ResolveDependencies ::
    "plugin_registry \<Rightarrow> string \<Rightarrow> string \<Rightarrow> (string \<times> string) list \<Rightarrow> dependency_error option" where
  "ResolveDependencies r pluginID version installedPlugins =
     (case Get_entry r pluginID of
        Inl err \<Rightarrow> Some (ResolveError err)
      | Inr entry \<Rightarrow>
          if pe_Dependencies entry = [] then None
          else let unmet = concat (map (unmet_of (installed_map installedPlugins)) (pe_Dependencies entry))
               in if length unmet > 0 then Some (DependencyError pluginID version unmet) else None)"

subsection \<open>Integrity of modules (signing.go)\<close>

text \<open>The hexadecimal form of a byte string, and checks over the hash function \<open>sha\<close>.\<close>

definition hex_encode :: "string \<Rightarrow> string" where
  "hex_encode bs = concat (map (\<lambda>c. [hex_digit (of_char c div 16), hex_digit (of_char c mod 16)]) bs)"

definition SignModule :: "(string \<Rightarrow> string) \<Rightarrow> string \<Rightarrow> string" where
  "SignModule sha wasmBytes = hex_encode (sha wasmBytes)"

definition VerifyModule :: "(string \<Rightarrow> string) \<Rightarrow> string \<Rightarrow> string \<Rightarrow> bool" where
  "VerifyModule sha wasmBytes expectedHash \<longleftrightarrow> SignModule sha wasmBytes = expectedHash"

definition VerifyOrError :: "(string \<Rightarrow> string) \<Rightarrow> string \<Rightarrow> string \<Rightarrow> go_error option" where
  "VerifyOrError sha wasmBytes expectedHash =
     (if SignModule sha wasmBytes \<noteq> expectedHash
      then Some (Plain (''wasm integrity check failed: expected hash '' @ expectedHash @ '', got '' @
                        SignModule sha wasmBytes))
      else None)"

subsection \<open>The order of versions\<close>

text \<open>
  A version denotes the sequence of its numeric components, continued by zeros; comparison is the
  lexicographic order of these sequences.
\<close>

fun part :: "string list \<Rightarrow> nat \<Rightarrow> int" where
  "part [] i = 0"
| "part (x # xs) 0 = Atoi x"
| "part (x # xs) (Suc i) = part xs i"

definition version_parts :: "string \<Rightarrow> nat \<Rightarrow> int" where
  "version_parts v = part (SplitOn (CHR ''.'') v)"

definition lex_less :: "(nat \<Rightarrow> int) \<Rightarrow> (nat \<Rightarrow> int) \<Rightarrow> bool" where
  "lex_less f g \<longleftrightarrow> (\<exists>k. (\<forall>i < k. f i = g i) \<and> f k < g k)"

lemma lex_less_unfold:
  "lex_less f g \<longleftrightarrow> f 0 < g 0 \<or> f 0 = g 0 \<and> lex_less (\<lambda>i. f (Suc i)) (\<lambda>i. g (Suc i))"
proof
  assume "lex_less f g"
  then obtain k where "\<forall>i < k. f i = g i" "f k < g k" by (auto simp: lex_less_def)
  then show "f 0 < g 0 \<or> f 0 = g 0 \<and> lex_less (\<lambda>i. f (Suc i)) (\<lambda>i. g (Suc i))"
    by (cases k) (auto simp: lex_less_def)
next
  assume "f 0 < g 0 \<or> f 0 = g 0 \<and> lex_less (\<lambda>i. f (Suc i)) (\<lambda>i. g (Suc i))"
  then show "lex_less f g"
  proof
    assume "f 0 = g 0 \<and> lex_less (\<lambda>i. f (Suc i)) (\<lambda>i. g (Suc i))"
    then obtain k where "f 0 = g 0" "\<forall>i < k. f (Suc i) = g (Suc i)" "f (Suc k) < g (Suc k)"
      by (auto simp: lex_less_def)
    then have "\<forall>i < Suc k. f i = g i" "f (Suc k) < g (Suc k)" by (auto simp: less_Suc_eq_0_disj)
    then show ?thesis unfolding lex_less_def by blast
  qed (auto simp: lex_less_def)
qed

lemma lex_less_irrefl [simp]: "\<not> lex_less f f"
  by (simp add: lex_less_def)

lemma lex_less_trans: "lex_less f g \<Longrightarrow> lex_less g h \<Longrightarrow> lex_less f h"
proof -
  assume "lex_less f g" "lex_less g h"
  then obtain k l where "\<forall>i < k. f i = g i" "f k < g k" "\<forall>i < l. g i = h i" "g l < h l"
    by (auto simp: lex_less_def)
  then have "(\<forall>i < min k l. f i = h i) \<and> f (min k l) < h (min k l)"
    by (cases k l rule: linorder_cases) (auto simp: min_def)
  then show ?thesis unfolding lex_less_def by blast
qed

lemma part_Nil [simp]: "part [] = (\<lambda>_. 0)"
  by (simp add: fun_eq_iff)

lemma part_eq_Cons: "part (x # xs) = g \<longleftrightarrow> Atoi x = g 0 \<and> part xs = (\<lambda>i. g (Suc i))"
proof -
  have "(\<forall>i. part (x # xs) i = g i) \<longleftrightarrow> Atoi x = g 0 \<and> (\<forall>i. part xs i = g (Suc i))"
    using All_less_Suc2 [of 0] by (metis not0_implies_Suc part.simps(2,3))
  then show ?thesis by (simp only: fun_eq_iff)
qed

lemma lex_less_part [simp]:
  "lex_less (part (x # xs)) g \<longleftrightarrow> Atoi x < g 0 \<or> Atoi x = g 0 \<and> lex_less (part xs) (\<lambda>i. g (Suc i))"
  "lex_less f (part (x # xs)) \<longleftrightarrow> f 0 < Atoi x \<or> f 0 = Atoi x \<and> lex_less (\<lambda>i. f (Suc i)) (part xs)"
  by (subst lex_less_unfold, simp)+

lemma compare_parts_less: "compare_parts xs ys < 0 \<longleftrightarrow> lex_less (part xs) (part ys)"
  by (induction xs ys rule: compare_parts.induct) auto

lemma compare_parts_greater: "compare_parts xs ys > 0 \<longleftrightarrow> lex_less (part ys) (part xs)"
  by (induction xs ys rule: compare_parts.induct) auto

lemma compare_parts_swap: "compare_parts ys xs = - compare_parts xs ys"
  by (induction xs ys rule: compare_parts.induct) auto

lemma compare_parts_zero: "compare_parts xs ys = 0 \<longleftrightarrow> part xs = part ys"
  by (induction xs ys rule: compare_parts.induct) (auto simp: part_eq_Cons eq_commute [of "\<lambda>_. 0"])

lemmas compare_versions_less = compare_parts_less [of "SplitOn (CHR ''.'') a" "SplitOn (CHR ''.'') b" for a b,
    folded CompareVersions_def version_parts_def]
lemmas compare_versions_greater = compare_parts_greater [of "SplitOn (CHR ''.'') a" "SplitOn (CHR ''.'') b" for a b,
    folded CompareVersions_def version_parts_def]
lemmas compare_versions_zero = compare_parts_zero [of "SplitOn (CHR ''.'') a" "SplitOn (CHR ''.'') b" for a b,
    folded CompareVersions_def version_parts_def]

lemma compare_versions_swap: "CompareVersions b a = - CompareVersions a b"
  unfolding CompareVersions_def by (rule compare_parts_swap)

lemma compare_versions_not_less_trans:
  "CompareVersions a b \<le> 0 \<Longrightarrow> CompareVersions b c \<le> 0 \<Longrightarrow> CompareVersions a c \<le> 0"
proof -
  assume "CompareVersions a b \<le> 0" "CompareVersions b c \<le> 0"
  then have "version_parts a = version_parts b \<or> lex_less (version_parts a) (version_parts b)"
      "version_parts b = version_parts c \<or> lex_less (version_parts b) (version_parts c)"
    unfolding compare_versions_zero [symmetric] compare_versions_less [symmetric] by linarith+
  then have "version_parts a = version_parts c \<or> lex_less (version_parts a) (version_parts c)"
    using lex_less_trans by metis
  then show "CompareVersions a c \<le> 0"
    unfolding compare_versions_zero [symmetric] compare_versions_less [symmetric] by linarith
qed

text \<open>
  Versions are totally preordered: swapping the arguments of the comparison negates its result,
  \<open>\<le>\<close> is transitive, and two versions compare as equal exactly when their numeric components,
  continued by zeros, agree.
\<close>

theorem compareVersions_total_preorder:
  "CompareVersions b a = - CompareVersions a b \<and>
   (CompareVersions a b = 0 \<longleftrightarrow> version_parts a = version_parts b) \<and>
   (CompareVersions a b \<le> 0 \<and> CompareVersions b c \<le> 0 \<longrightarrow> CompareVersions a c \<le> 0)"
  using compare_versions_swap compare_versions_zero compare_versions_not_less_trans by blast

theorem compareVersions_total_preorder_witness:
  "CompareVersions ''1.2'' ''1.2.0'' = 0 \<and> CompareVersions ''1.2.0'' ''1.10'' = -1 \<and> CompareVersions ''1.2'' ''1.10'' \<le> 0"
proof -
  have ab: "CompareVersions ''1.2'' ''1.2.0'' = 0" and bc: "CompareVersions ''1.2.0'' ''1.10'' = -1" by code_simp+
  then show ?thesis using compareVersions_total_preorder [of "''1.2.0''" "''1.2''" "''1.10''"] by simp
qed

subsection \<open>Sorting\<close>

definition strict_weak :: "('a \<Rightarrow> 'a \<Rightarrow> bool) \<Rightarrow> bool" where
  "strict_weak lt \<longleftrightarrow> (\<forall>x. \<not> lt x x) \<and> (\<forall>x y z. lt x y \<longrightarrow> lt y z \<longrightarrow> lt x z) \<and>
     (\<forall>x y z. \<not> lt x y \<longrightarrow> \<not> lt y z \<longrightarrow> \<not> lt x z)"

locale slice_sort =
  fixes srt :: "'a sorter"
  assumes perm: "mset (srt lt xs) = mset xs"
    and no_descent: "strict_weak lt \<Longrightarrow> sorted_wrt (\<lambda>x y. \<not> lt y x) (srt lt xs)"
begin

lemma sort_set [simp]: "set (srt lt xs) = set xs"
  using perm by (metis set_mset_mset)

lemma sort_distinct: "distinct (map f (srt lt xs)) \<longleftrightarrow> distinct (map f xs)"
  using perm [of lt xs] by (metis mset_map mset_eq_imp_distinct_iff)

lemma sort_lookup:
  "distinct (map fst (map f xs)) \<Longrightarrow> map_of (map f (srt lt xs)) = map_of (map f xs)"
  by (intro map_of_inject_set [THEN iffD2]) (simp_all only: sort_distinct map_map, simp)

end

text \<open>
  Insertion sort as package sort has it: each element moves left past the elements it is less than.
  The sorted prefix is kept reversed.
\<close>

fun insert_left :: "('a \<Rightarrow> 'a \<Rightarrow> bool) \<Rightarrow> 'a \<Rightarrow> 'a list \<Rightarrow> 'a list" where
  "insert_left lt x [] = [x]"
| "insert_left lt x (y # ys) = (if lt x y then y # insert_left lt x ys else x # y # ys)"

definition insertionSort :: "'a sorter" where
  "insertionSort lt xs = rev (fold (insert_left lt) xs [])"

lemma mset_insert_left [simp]: "mset (insert_left lt x ys) = add_mset x (mset ys)"
  by (induction ys) auto

lemma set_insert_left [simp]: "set (insert_left lt x ys) = insert x (set ys)"
  by (metis mset_insert_left set_mset_add_mset_insert set_mset_mset)

lemma sorted_insert_left:
  "strict_weak lt \<Longrightarrow> sorted_wrt (\<lambda>x y. \<not> lt x y) ys \<Longrightarrow> sorted_wrt (\<lambda>x y. \<not> lt x y) (insert_left lt x ys)"
proof (induction ys)
  case (Cons y ys)
  have "\<not> lt y x" if "lt x y" using that Cons.prems(1) unfolding strict_weak_def by blast
  moreover have "\<forall>z \<in> set ys. \<not> lt x z" if "\<not> lt x y"
    using that Cons.prems unfolding strict_weak_def by (metis sorted_wrt.simps(2))
  ultimately show ?case using Cons by auto
qed simp

interpretation ins: slice_sort insertionSort
proof
  fix lt :: "'a \<Rightarrow> 'a \<Rightarrow> bool" and xs
  have "mset (fold (insert_left lt) xs ys) = mset xs + mset ys" for ys
    by (induction xs arbitrary: ys) auto
  then show "mset (insertionSort lt xs) = mset xs" by (simp add: insertionSort_def)
  assume weak: "strict_weak lt"
  have "sorted_wrt (\<lambda>x y. \<not> lt x y) (fold (insert_left lt) xs ys)"
    if "sorted_wrt (\<lambda>x y. \<not> lt x y) ys" for ys
    using that by (induction xs arbitrary: ys) (simp_all add: sorted_insert_left [OF weak])
  then show "sorted_wrt (\<lambda>x y. \<not> lt y x) (insertionSort lt xs)"
    by (simp add: insertionSort_def sorted_wrt_rev)
qed

lemma newer_strict_weak: "strict_weak newer"
proof -
  have trans: "newer x z" if "newer x y" "newer y z" for x y z
    using that lex_less_trans unfolding newer_def compare_versions_greater by blast
  have "\<not> newer x z" if "\<not> newer x y" "\<not> newer y z" for x y z
    using that compare_versions_not_less_trans unfolding newer_def by (meson not_le)
  moreover have "\<not> newer x x" for x
    by (simp add: newer_def compare_versions_greater)
  ultimately show ?thesis
    using trans unfolding strict_weak_def by blast
qed

subsection \<open>Properties of the registry\<close>

text \<open>The registries that registrations and removals lead to.\<close>

inductive reachable_registry :: "version_entry sorter \<Rightarrow> plugin_registry \<Rightarrow> bool" for srt where
  new_registry: "reachable_registry srt NewPluginRegistry"
| registered: "reachable_registry srt r \<Longrightarrow> reachable_registry srt (Register_entry srt entry r)"
| removed: "reachable_registry srt r \<Longrightarrow> reachable_registry srt (Remove_entry i r)"

definition versions_sorted :: "plugin_registry \<Rightarrow> bool" where
  "versions_sorted r \<longleftrightarrow> (\<forall>e \<in> ran r. sorted_wrt (\<lambda>v w. \<not> newer w v) (pe_Versions e))"

lemma versions_sorted_upd:
  "versions_sorted r \<Longrightarrow> sorted_wrt (\<lambda>v w. \<not> newer w v) (pe_Versions e) \<Longrightarrow> versions_sorted (r(i \<mapsto> e))"
  by (auto simp: versions_sorted_def ran_def)

lemma reachable_versions_sorted:
  assumes "slice_sort srt" and "reachable_registry srt r"
  shows "versions_sorted r"
  using assms(2)
proof induction
  case (registered r entry)
  have "sorted_wrt (\<lambda>v w. \<not> newer w v) (pe_Versions (sortVersions srt e))" for e
    using slice_sort.no_descent [OF assms(1) newer_strict_weak] by (simp add: sortVersions_def)
  with registered.IH show ?case by (auto simp: Register_entry_def Let_def intro: versions_sorted_upd split: option.split)
qed (auto simp: versions_sorted_def ran_def NewPluginRegistry_def Remove_entry_def)

definition versions_map :: "version_entry list \<Rightarrow> string \<rightharpoonup> version_entry" where
  "versions_map vs = map_of (map (\<lambda>v. (ve_Version v, v)) vs)"

lemma findVersion_map: "map_option ((!) vs) (findVersion vs x) = versions_map vs x"
  by (induction vs) (auto simp: versions_map_def option.map_comp comp_def)

lemma findVersion_Some: "findVersion vs x = Some k \<Longrightarrow> k < length vs \<and> ve_Version (vs ! k) = x"
  by (induction vs arbitrary: k) (auto split: if_splits)

lemma findVersion_None: "findVersion vs x = None \<longleftrightarrow> x \<notin> ve_Version ` set vs"
  by (induction vs) auto

text \<open>
  The latest version is the newest: whatever was registered and removed, \<^verbatim>\<open>GetLatest\<close> fails only
  for a plugin without versions, and otherwise returns one of the plugin's versions that none of
  its versions is newer than.
\<close>

theorem getLatest_is_newest:
  assumes "slice_sort srt" and "reachable_registry srt r"
  shows "case GetLatest r i of
     Inl err \<Rightarrow> (\<forall>x. \<not> HasVersion r i x)
   | Inr v \<Rightarrow> HasVersion r i (ve_Version v) \<and> (\<forall>x. HasVersion r i x \<longrightarrow> CompareVersions (ve_Version v) x \<ge> 0)"
proof (cases "r i")
  case (Some e)
  show ?thesis
  proof (cases "pe_Versions e")
    case (Cons v vs)
    have "sorted_wrt (\<lambda>v w. \<not> newer w v) (v # vs)"
      using reachable_versions_sorted [OF assms] Some Cons ranI by (fastforce simp: versions_sorted_def)
    then have "\<forall>w \<in> set (v # vs). \<not> newer w v" by (auto simp: newer_def compare_versions_greater)
    then have "CompareVersions (ve_Version v) x \<ge> 0" if "x \<in> ve_Version ` set (v # vs)" for x
      using that compare_versions_swap unfolding newer_def by (metis (no_types) image_iff neg_0_le_iff_le not_le)
    with Some Cons show ?thesis
      by (simp add: GetLatest_def HasVersion_def findVersion_None del: not_None_eq findVersion.simps)
  qed (use Some in \<open>simp add: GetLatest_def HasVersion_def\<close>)
qed (simp add: GetLatest_def HasVersion_def)

definition demo_version :: "string \<Rightarrow> version_entry" where
  "demo_version v = \<lparr>ve_Version = v, ve_WasmHash = '''', ve_UploadedAt = 0, ve_Changelog = '''', ve_MinSDKVersion = 0\<rparr>"

definition demo_entry :: plugin_entry where
  "demo_entry = \<lparr>pe_ID = ''p'', pe_Name = ''P'', pe_Versions = map demo_version [''1.9'', ''1.10'', ''1.2''],
     pe_Dependencies = [\<lparr>dep_PluginID = ''q'', dep_VersionConstraint = ''^1.2''\<rparr>,
                        \<lparr>dep_PluginID = ''s'', dep_VersionConstraint = ''''\<rparr>], pe_Signature = ''''\<rparr>"

definition demo_registry :: plugin_registry where
  "demo_registry = Register_entry insertionSort demo_entry NewPluginRegistry"

theorem getLatest_is_newest_witness:
  "GetLatest demo_registry ''p'' = Inr (demo_version ''1.10'') \<and>
   HasVersion demo_registry ''p'' ''1.9'' \<and> CompareVersions ''1.10'' ''1.9'' \<ge> 0"
proof -
  have "pe_Versions (the (demo_registry ''p'')) = map demo_version [''1.10'', ''1.9'', ''1.2'']" by code_simp
  moreover obtain e where "demo_registry ''p'' = Some e"
    by (simp add: demo_registry_def Register_entry_def NewPluginRegistry_def demo_entry_def)
  ultimately have latest: "GetLatest demo_registry ''p'' = Inr (demo_version ''1.10'')"
    by (simp add: GetLatest_def)
  have "HasVersion demo_registry ''p'' ''1.9''" by code_simp
  moreover have "reachable_registry insertionSort demo_registry"
    unfolding demo_registry_def by (intro reachable_registry.intros)
  from getLatest_is_newest [OF ins.slice_sort_axioms this, of "''p''"] latest
  have "HasVersion demo_registry ''p'' x \<Longrightarrow> CompareVersions ''1.10'' x \<ge> 0" for x
    by (simp add: demo_version_def)
  ultimately show ?thesis using latest by blast
qed

lemma versions_map_put [simp]: "versions_map (put_version v vs) = (versions_map vs)(ve_Version v \<mapsto> v)"
proof -
  have "findVersion vs x = None \<Longrightarrow> versions_map (vs @ [v]) = (versions_map vs)(ve_Version v \<mapsto> v)"
    if "x = ve_Version v" for x
    using that by (induction vs) (auto simp: versions_map_def fun_eq_iff split: if_splits)
  moreover have "findVersion vs (ve_Version v) = Some k \<Longrightarrow> versions_map (vs[k := v]) = (versions_map vs)(ve_Version v \<mapsto> v)" for k
    by (induction vs arbitrary: k) (auto simp: versions_map_def fun_eq_iff split: if_splits)
  ultimately show ?thesis by (auto simp: put_version_def split: option.split)
qed

lemma put_version_distinct:
  "distinct (map ve_Version vs) \<Longrightarrow> distinct (map ve_Version (put_version v vs))"
proof (cases "findVersion vs (ve_Version v)")
  case (Some k)
  have "map ve_Version (vs[k := v]) = map ve_Version vs"
    using findVersion_Some [OF Some] by (metis list_update_id map_update nth_map)
  then show "distinct (map ve_Version vs) \<Longrightarrow> ?thesis" by (simp add: put_version_def Some)
next
  case None
  then show "distinct (map ve_Version vs) \<Longrightarrow> ?thesis"
    using findVersion_None [of vs "ve_Version v"] by (simp add: put_version_def None)
qed

lemma fold_put_version:
  "versions_map (fold put_version new vs) = versions_map vs ++ versions_map (rev new)"
proof (induction new arbitrary: vs)
  case (Cons v new)
  have "versions_map (rev (v # new)) = [ve_Version v \<mapsto> v] ++ versions_map (rev new)"
    by (simp add: versions_map_def)
  then show ?case by (intro ext) (simp add: Cons.IH map_add_def split: option.split)
qed (simp add: versions_map_def)

text \<open>What a registration stores: the entry with the merged versions, sorted.\<close>

definition merged_versions :: "plugin_entry \<Rightarrow> plugin_registry \<Rightarrow> version_entry list" where
  "merged_versions entry r = (case r (pe_ID entry) of None \<Rightarrow> pe_Versions entry
     | Some e \<Rightarrow> fold put_version (pe_Versions entry) (pe_Versions e))"

lemma Register_stores:
  obtains e' where "Register_entry srt entry r = r(pe_ID entry \<mapsto> e')"
    and "pe_Versions e' = srt newer (merged_versions entry r)"
proof (cases "r (pe_ID entry)")
  case None
  then show ?thesis
    by (intro that [of "sortVersions srt entry"])
      (simp_all add: Register_entry_def sortVersions_def merged_versions_def)
next
  case (Some e)
  then show ?thesis
    by (intro that [of "sortVersions srt (e\<lparr>pe_Name := pe_Name entry, pe_Dependencies := pe_Dependencies entry,
          pe_Signature := pe_Signature entry, pe_Versions := fold put_version (pe_Versions entry) (pe_Versions e)\<rparr>)"])
      (simp_all add: Register_entry_def sortVersions_def merged_versions_def Let_def)
qed

lemma fold_put_version_distinct:
  "distinct (map ve_Version vs) \<Longrightarrow> distinct (map ve_Version (fold put_version new vs))"
  by (induction new arbitrary: vs) (simp_all add: put_version_distinct)

lemma GetVersion_map:
  "r i = Some e \<Longrightarrow> GetVersion r i x = Inr v \<longleftrightarrow> versions_map (pe_Versions e) x = Some v"
  by (auto simp: GetVersion_def findVersion_map [symmetric] split: option.split)

lemma sorted_versions_map:
  assumes "slice_sort srt" and "distinct (map ve_Version vs)"
  shows "versions_map (srt newer vs) = versions_map vs"
  using slice_sort.sort_lookup [OF assms(1), of "\<lambda>v. (ve_Version v, v)" vs newer] assms(2)
  by (simp add: versions_map_def comp_def)

text \<open>Every stored entry lists each version once.\<close>

definition versions_distinct :: "plugin_registry \<Rightarrow> bool" where
  "versions_distinct r \<longleftrightarrow> (\<forall>e \<in> ran r. distinct (map ve_Version (pe_Versions e)))"

lemma merged_distinct:
  "versions_distinct r \<Longrightarrow> distinct (map ve_Version (pe_Versions entry)) \<Longrightarrow>
   distinct (map ve_Version (merged_versions entry r))"
  by (auto simp: merged_versions_def versions_distinct_def ran_def fold_put_version_distinct split: option.split)

lemma Register_distinct:
  assumes "slice_sort srt" "versions_distinct r" "distinct (map ve_Version (pe_Versions entry))"
  shows "versions_distinct (Register_entry srt entry r)"
proof (rule Register_stores [of srt entry r])
  fix e' assume e': "Register_entry srt entry r = r(pe_ID entry \<mapsto> e')"
    "pe_Versions e' = srt newer (merged_versions entry r)"
  have "distinct (map ve_Version (pe_Versions e'))"
    unfolding e'(2) slice_sort.sort_distinct [OF assms(1)] using merged_distinct [OF assms(2,3)] .
  then show ?thesis using assms(2) unfolding e'(1) by (auto simp: versions_distinct_def ran_def)
qed

lemma merged_versions_map:
  assumes "distinct (map ve_Version (pe_Versions entry))"
  shows "versions_map (merged_versions entry r) x = (case versions_map (pe_Versions entry) x of Some w \<Rightarrow> Some w
      | None \<Rightarrow> (case r (pe_ID entry) of None \<Rightarrow> None | Some e \<Rightarrow> versions_map (pe_Versions e) x))"
proof -
  have "versions_map (rev (pe_Versions entry)) = versions_map (pe_Versions entry)"
    unfolding versions_map_def using assms by (intro map_of_inject_set [THEN iffD2]) (simp_all add: rev_map [symmetric] comp_def)
  then show ?thesis
    by (simp add: merged_versions_def fold_put_version map_add_def split: option.split)
qed

text \<open>
  Registering merges: afterwards every version of the registered entry is found as registered,
  every other version of the plugin as it was before, and nothing changes for other plugins.
\<close>

theorem register_then_get:
  assumes "slice_sort srt" and "versions_distinct r" and "distinct (map ve_Version (pe_Versions entry))"
  shows "GetVersion (Register_entry srt entry r) (pe_ID entry) x = Inr v \<longleftrightarrow>
      (if x \<in> ve_Version ` set (pe_Versions entry) then v \<in> set (pe_Versions entry) \<and> ve_Version v = x
       else GetVersion r (pe_ID entry) x = Inr v) \<and>
    (i = pe_ID entry \<or> Register_entry srt entry r i = r i)"
proof -
  let ?new = "pe_Versions entry"
  obtain e' where reg: "Register_entry srt entry r = r(pe_ID entry \<mapsto> e')"
      and e': "pe_Versions e' = srt newer (merged_versions entry r)"
    by (rule Register_stores)
  have old: "GetVersion r (pe_ID entry) x = Inr v \<longleftrightarrow> (\<exists>e. r (pe_ID entry) = Some e \<and> versions_map (pe_Versions e) x = Some v)"
    by (cases "r (pe_ID entry)") (simp add: GetVersion_def, simp add: GetVersion_map)
  have new: "versions_map ?new x = Some v \<longleftrightarrow> v \<in> set ?new \<and> ve_Version v = x"
    using assms(3) by (auto simp: versions_map_def comp_def dest: map_of_SomeD intro!: map_of_is_SomeI)
  have none: "versions_map ?new x = None \<longleftrightarrow> x \<notin> ve_Version ` set ?new"
    by (auto simp: versions_map_def map_of_eq_None_iff image_image)
  have "GetVersion (Register_entry srt entry r) (pe_ID entry) x = Inr v \<longleftrightarrow>
      versions_map (merged_versions entry r) x = Some v"
    using sorted_versions_map [OF assms(1) merged_distinct [OF assms(2,3)]]
    by (simp add: GetVersion_map [of _ _ e'] reg e')
  also have "\<dots> \<longleftrightarrow> (if x \<in> ve_Version ` set ?new then v \<in> set ?new \<and> ve_Version v = x
       else GetVersion r (pe_ID entry) x = Inr v)"
    unfolding merged_versions_map [OF assms(3)] old using none new
    by (cases "versions_map ?new x") (auto split: option.splits)
  finally show ?thesis by (simp add: reg)
qed

lemma demo_entry_distinct: "distinct (map ve_Version (pe_Versions demo_entry))"
  by (simp add: demo_entry_def demo_version_def)

lemma demo_registry_distinct: "versions_distinct demo_registry"
  unfolding demo_registry_def
  by (rule Register_distinct [OF ins.slice_sort_axioms _ demo_entry_distinct])
    (simp add: versions_distinct_def NewPluginRegistry_def)

definition demo_patch :: plugin_entry where
  "demo_patch = demo_entry\<lparr>pe_Versions := [(demo_version ''1.9'')\<lparr>ve_WasmHash := ''new''\<rparr>]\<rparr>"

theorem register_then_get_witness:
  "GetVersion (Register_entry insertionSort demo_patch demo_registry) ''p'' ''1.9'' =
     Inr ((demo_version ''1.9'')\<lparr>ve_WasmHash := ''new''\<rparr>) \<and>
   (GetVersion (Register_entry insertionSort demo_patch demo_registry) ''p'' ''1.2'' = Inr (demo_version ''1.2'') \<longleftrightarrow>
    GetVersion demo_registry ''p'' ''1.2'' = Inr (demo_version ''1.2''))"
  using register_then_get [OF ins.slice_sort_axioms demo_registry_distinct, of demo_patch "''1.9''"
      "(demo_version ''1.9'')\<lparr>ve_WasmHash := ''new''\<rparr>" "''p''"]
    register_then_get [OF ins.slice_sort_axioms demo_registry_distinct, of demo_patch "''1.2''"
      "demo_version ''1.2''" "''p''"]
  by (simp add: demo_patch_def demo_entry_def demo_version_def)

text \<open>A dependency is met by the version that was listed last for its plugin.\<close>

definition dependency_met :: "(string \<times> string) list \<Rightarrow> dependency \<Rightarrow> bool" where
  "dependency_met installed dep \<longleftrightarrow>
     (\<exists>v. map_of (rev installed) (dep_PluginID dep) = Some v \<and>
          (dep_VersionConstraint dep = '''' \<or> SatisfiesConstraint v (dep_VersionConstraint dep)))"

lemma installed_map_rev: "installed_map ps = map_of (rev ps)"
proof -
  have "fold (\<lambda>(i, v) m. m(i \<mapsto> v)) ps m = m ++ map_of (rev ps)" for m
  proof (induction ps arbitrary: m)
    case (Cons p ps)
    obtain i v where p: "p = (i, v)" by fastforce
    have "fold (\<lambda>(i, v) m. m(i \<mapsto> v)) (p # ps) m = m(i \<mapsto> v) ++ map_of (rev ps)"
      unfolding fold_simps(2) p prod.case by (rule Cons.IH)
    then show ?case by (simp only: rev.simps p map_of_append) (intro ext, simp add: map_add_def split: option.split)
  qed simp
  then show ?thesis by (simp add: installed_map_def)
qed

lemma unmet_of_met: "unmet_of (installed_map ps) dep = [] \<longleftrightarrow> dependency_met ps dep"
  by (simp add: unmet_of_def dependency_met_def installed_map_rev split: option.split)

lemma unmet_of_IDs:
  "map ud_PluginID (unmet_of (installed_map ps) dep) = (if dependency_met ps dep then [] else [dep_PluginID dep])"
  by (auto simp: unmet_of_def dependency_met_def installed_map_rev split: option.split)

lemma unmet_IDs:
  "map ud_PluginID (concat (map (unmet_of (installed_map ps)) deps)) =
   map dep_PluginID (filter (\<lambda>d. \<not> dependency_met ps d) deps)"
  by (induction deps) (simp_all add: unmet_of_IDs)



end
