(* ===== verification/Wasm_Module.thy ===== *)
theory Wasm_Module
  imports Triggers Plugin_Host Wasm_Registry Module_Pool Dialog_DSL
begin

text \<open>
  Modules of plugins and the calls the core makes to them: the data of the wire protocol
  (\<^verbatim>\<open>internal/wasm/protocol/types.go\<close>), limits and timeouts (\<^verbatim>\<open>internal/wasm/runtime/config.go\<close>) and
  the actions of a compiled module (\<^verbatim>\<open>internal/wasm/runtime/module.go\<close>).

  The WebAssembly engine, SHA-256 and the JSON codec are records of functions; the codec's decoders
  of Go values that hold only strings and lists are total functions of the bytes with an error. The
  outside world \<open>'w\<close> contains whatever a module can reach, \<open>'m\<close> is the engine's handle of a compiled
  module.
\<close>

subsection \<open>The protocol (types.go)\<close>

definition MaxSupportedSDKVersion :: int where "MaxSupportedSDKVersion = 4"

text \<open>
  A pointer to a condition may be nil; the elements of the lists are pointers, too. Cases of a
  branch are a map that is ranged over.
\<close>

datatype condition_def =
  ConditionDef (cdef_Param: string) (cdef_Eq: "string option") (cdef_Neq: "string option") (cdef_Match: string)
    (cdef_Set: "bool option") (cdef_And: "condition_def option list") (cdef_Or: "condition_def option list")
    (cdef_Not: "condition_def option")

record option_def =
  od_Label :: string
  od_Labels :: "(string \<times> string) list"
  od_Value :: string

record block_def =
  bd_PromptsFn :: string
  bd_Type :: string
  bd_Text :: string
  bd_Texts :: "(string \<times> string) list"
  bd_Style :: string
  bd_Prompt :: string
  bd_Prompts :: "(string \<times> string) list"
  bd_Options :: "option_def list"
  bd_OptionsFn :: string
  bd_URL :: string
  bd_Label :: string

record pagination_node_def =
  pn_Prompt :: string
  pn_Prompts :: "(string \<times> string) list"
  pn_PageSize :: int
  pn_Provider :: string

datatype node_def =
  NodeDef (nd_Type: string) (nd_Param: string) (nd_Blocks: "block_def list") (nd_Validation: string)
    (nd_ValidateFn: string) (nd_VisibleWhen: "condition_def option") (nd_ConditionFn: string)
    (nd_Pagination: "pagination_node_def option") (nd_OnParam: string)
    (nd_Cases: "(string \<times> node_def list) list") (nd_ConditionalCases: "cond_case_def list")
    (nd_Default: "node_def list")
and cond_case_def =
  CondCaseDef (cc_Condition: "condition_def option") (cc_ConditionFn: string) (cc_Nodes: "node_def list")

record wasm_trigger = trigger_def +
  wt_AllowBack :: bool
  wt_Descriptions :: "(string \<times> string) list"
  wt_Description :: string
  wt_Nodes :: "node_def list"

record dependency_def =
  dd_PluginID :: string
  dd_VersionConstraint :: string

record migration_def =
  mg_Version :: int
  mg_Description :: string
  mg_Up :: string
  mg_Down :: string

record plugin_meta =
  pm_ID :: string
  pm_Name :: string
  pm_Version :: string
  pm_SDKVersion :: int
  pm_SupportsReconfigure :: bool
  pm_SupportsVisibility :: bool
  pm_RPCMethods :: "(string \<times> string) list"
  pm_Triggers :: "wasm_trigger list"
  pm_Requirements :: "requirement_def list"
  pm_ConfigSchema :: string
  pm_Dependencies :: "dependency_def list"
  pm_Migrations :: "migration_def list"

record rpc_response =
  rpc_Status :: string
  rpc_Result :: string
  rpc_Error :: string

record step_callback_request =
  sq_Callback :: string
  sq_UserID :: user_id
  sq_Locale :: string
  sq_Params :: option_map
  sq_Page :: int
  sq_Input :: string

record step_callback_response =
  sr_Prompts :: "(string \<times> string) list"
  sr_Options :: "option_def list"
  sr_HasMore :: bool
  sr_Result :: "bool option"
  sr_Error :: string

subsection \<open>Limits of a call (config.go)\<close>

definition DefaultPluginTimeoutSeconds :: int where "DefaultPluginTimeoutSeconds = 5"

definition pluginTimeoutFromContext :: "int option \<Rightarrow> int \<Rightarrow> int" where
  "pluginTimeoutFromContext override configSeconds =
     (case override of
        Some n \<Rightarrow> if n > 0 then n else if configSeconds > 0 then configSeconds else DefaultPluginTimeoutSeconds
      | None \<Rightarrow> if configSeconds > 0 then configSeconds else DefaultPluginTimeoutSeconds)"

record runtime_config =
  rc_CacheDir :: string
  rc_DefaultMemoryLimitPages :: int
  rc_DefaultTimeoutSeconds :: int
  rc_PoolMaxConcurrency :: int

definition runtime_withDefaults :: "runtime_config \<Rightarrow> runtime_config" where
  "runtime_withDefaults c =
     (let c1 = (if rc_DefaultMemoryLimitPages c = 0 then c\<lparr>rc_DefaultMemoryLimitPages := 256\<rparr> else c)
      in if rc_DefaultTimeoutSeconds c1 = 0 then c1\<lparr>rc_DefaultTimeoutSeconds := DefaultPluginTimeoutSeconds\<rparr> else c1)"

definition PoolConfig :: "runtime_config \<Rightarrow> pool_config option" where
  "PoolConfig c =
     (if rc_PoolMaxConcurrency c = 0 then None else Some \<lparr>pc_MaxConcurrency = rc_PoolMaxConcurrency c\<rparr>)"

subsection \<open>Compiled modules (module.go)\<close>

text \<open>
  What running a module gives: its exit code with its standard output, or the engine's error. A
  module that returns from its start function without exiting has exit code 0 here: the code returns
  the output in both cases.
\<close>

datatype instance_result = Exited nat string | EngineError go_error

record ('w, 'm) wasm_engine =
  we_Compile :: "string \<Rightarrow> 'w \<Rightarrow> 'w \<times> (go_error + 'm)"
  we_Exports :: "'m \<Rightarrow> string list"
  we_Close :: "'m \<Rightarrow> 'w \<Rightarrow> 'w \<times> go_error option"
  we_Instantiate :: "'m \<Rightarrow> string \<Rightarrow> (string \<times> string) list \<Rightarrow> string \<Rightarrow> int \<Rightarrow> 'w \<Rightarrow> 'w \<times> instance_result"
  we_Slot :: "pool \<Rightarrow> 'w \<Rightarrow> 'w \<times> go_error option"
  we_sha256 :: "string \<Rightarrow> string"

record wire_codec =
  wc_meta :: "string \<Rightarrow> go_error + plugin_meta"
  wc_error :: "string \<Rightarrow> string option"
  wc_reconfigure :: "string \<times> string \<Rightarrow> go_error + string"
  wc_rpc_request :: "string \<times> string \<times> string \<Rightarrow> go_error + string"
  wc_rpc_response :: "string \<Rightarrow> go_error + rpc_response"
  wc_migrate_request :: "string \<times> string \<Rightarrow> go_error + string"
  wc_migrate_response :: "string \<Rightarrow> (string \<times> string) option"
  wc_visibility_request :: "int \<Rightarrow> string"
  wc_visible :: "string \<Rightarrow> go_error + string list"

text \<open>
  The runtime a module belongs to, its codec, and the override of the timeout in the context of the
  call.
\<close>

record ('w, 'm) wasm_runtime =
  rt_engine :: "('w, 'm) wasm_engine"
  rt_config :: runtime_config
  rt_wire :: wire_codec
  rt_override :: "int option"

record 'm compiled_module =
  cm_compiled :: 'm
  cm_pool :: "pool option"
  cm_ID :: string
  cm_Version :: string
  cm_Hash :: string

definition requiredExports :: "string list" where "requiredExports = [''alloc'']"

fun missing_export :: "string list \<Rightarrow> string list \<Rightarrow> string option" where
  "missing_export exports [] = None"
| "missing_export exports (name # names) =
     (if name \<in> set exports then missing_export exports names else Some name)"

definition CompileModule ::
    "('w, 'm) wasm_runtime \<Rightarrow> string \<Rightarrow> 'w \<Rightarrow> 'w \<times> (go_error + 'm compiled_module)" where
  "CompileModule rt wasmBytes w =
     (case we_Compile (rt_engine rt) wasmBytes w of
        (w1, Inl err) \<Rightarrow> (w1, Inl (Wrap ''compile wasm module: '' err ''''))
      | (w1, Inr m) \<Rightarrow>
          (case missing_export (we_Exports (rt_engine rt) m) requiredExports of
             Some name \<Rightarrow> (fst (we_Close (rt_engine rt) m w1),
                           Inl (Plain (''wasm module missing required export '' @ quote name)))
           | None \<Rightarrow> (w1, Inr \<lparr>cm_compiled = m, cm_pool = None, cm_ID = '''', cm_Version = '''',
                              cm_Hash = hex_encode (we_sha256 (rt_engine rt) wasmBytes)\<rparr>)))"

definition EnablePool :: "pool_config option \<Rightarrow> 'm compiled_module \<Rightarrow> 'm compiled_module" where
  "EnablePool cfg cm = cm\<lparr>cm_pool := Some (NewModulePool cfg)\<rparr>"

definition module_Close ::
    "('w, 'm) wasm_runtime \<Rightarrow> 'm compiled_module \<Rightarrow> 'w \<Rightarrow> 'w \<times> go_error option" where
  "module_Close rt cm w = we_Close (rt_engine rt) (cm_compiled cm) w"

definition module_env :: "string \<Rightarrow> string \<Rightarrow> (string \<times> string) list" where
  "module_env action configJSON =
     (''PLUGIN_ACTION'', action) # (if length configJSON > 0 then [(''PLUGIN_CONFIG'', configJSON)] else [])"

definition instantiate ::
    "('w, 'm) wasm_runtime \<Rightarrow> int \<Rightarrow> 'm compiled_module \<Rightarrow> string \<Rightarrow> string \<Rightarrow> string \<Rightarrow> 'w \<Rightarrow> 'w \<times> (go_error + string)" where
  "instantiate rt timeoutSec cm action input configJSON w =
     (case we_Instantiate (rt_engine rt) (cm_compiled cm) (cm_ID cm) (module_env action configJSON) input timeoutSec w of
        (w1, Exited code stdout) \<Rightarrow>
          (w1, if code = 0 then Inr stdout
               else Inl (Plain (''wasm module exited with code '' @ FormatInt (int code))))
      | (w1, EngineError err) \<Rightarrow> (w1, Inl (Wrap ''instantiate wasm module: '' err '''')))"

text \<open>
  The plugin's identifier and the timeout, which \<^verbatim>\<open>runActionDirect\<close> puts into the context, are
  arguments of the engine; its metrics are left out. With a pool a slot is waited for first (theory
  Module\_Pool).
\<close>

definition runActionDirect ::
    "('w, 'm) wasm_runtime \<Rightarrow> 'm compiled_module \<Rightarrow> string \<Rightarrow> string \<Rightarrow> string \<Rightarrow> 'w \<Rightarrow> 'w \<times> (go_error + string)" where
  "runActionDirect rt cm action input configJSON w =
     instantiate rt (pluginTimeoutFromContext (rt_override rt) (rc_DefaultTimeoutSeconds (rt_config rt)))
       cm action input configJSON w"

definition RunActionWithConfig ::
    "('w, 'm) wasm_runtime \<Rightarrow> 'm compiled_module \<Rightarrow> string \<Rightarrow> string \<Rightarrow> string \<Rightarrow> 'w \<Rightarrow> 'w \<times> (go_error + string)" where
  "RunActionWithConfig rt cm action input configJSON w =
     (case cm_pool cm of
        None \<Rightarrow> runActionDirect rt cm action input configJSON w
      | Some pl \<Rightarrow>
          (case we_Slot (rt_engine rt) pl w of
             (w1, Some err) \<Rightarrow> (w1, Inl err)
           | (w1, None) \<Rightarrow> runActionDirect rt cm action input configJSON w1))"

definition RunAction ::
    "('w, 'm) wasm_runtime \<Rightarrow> 'm compiled_module \<Rightarrow> string \<Rightarrow> string \<Rightarrow> 'w \<Rightarrow> 'w \<times> (go_error + string)" where
  "RunAction rt cm action input w = RunActionWithConfig rt cm action input '''' w"

definition CallMeta :: "('w, 'm) wasm_runtime \<Rightarrow> 'm compiled_module \<Rightarrow> 'w \<Rightarrow> 'w \<times> (go_error + plugin_meta)" where
  "CallMeta rt cm w =
     (case RunAction rt cm ''meta'' '''' w of
        (w1, Inl err) \<Rightarrow> (w1, Inl (Wrap ''call meta: '' err ''''))
      | (w1, Inr data) \<Rightarrow>
          (w1, case wc_meta (rt_wire rt) data of
                 Inl err \<Rightarrow> Inl (Wrap (''unmarshal meta JSON ('' @ quote data @ ''): '') err '''')
               | Inr meta \<Rightarrow>
                   if pm_SDKVersion meta > MaxSupportedSDKVersion
                   then Inl (Plain (''plugin '' @ quote (pm_ID meta) @ '' requires SDK protocol v'' @ FormatInt (pm_SDKVersion meta) @
                          '', but host supports up to v'' @ FormatInt MaxSupportedSDKVersion @ '' '' @ [CHR 0xE2, CHR 0x80, CHR 0x94] @
                          '' upgrade the host''))
                   else Inr meta))"

text \<open>The error a module reports in its output, and an action that answers nothing else.\<close>

definition reported_error :: "('w, 'm) wasm_runtime \<Rightarrow> string \<Rightarrow> string \<Rightarrow> go_error option" where
  "reported_error rt what data =
     (if length data > 0
      then (case wc_error (rt_wire rt) data of
              Some e \<Rightarrow> if e \<noteq> '''' then Some (Plain (what @ '' error: '' @ e)) else None
            | None \<Rightarrow> None)
      else None)"

definition CallConfigure ::
    "('w, 'm) wasm_runtime \<Rightarrow> 'm compiled_module \<Rightarrow> string \<Rightarrow> 'w \<Rightarrow> 'w \<times> go_error option" where
  "CallConfigure rt cm configJSON w =
     (case RunAction rt cm ''configure'' configJSON w of
        (w1, Inl err) \<Rightarrow> (w1, Some (Wrap ''call configure: '' err ''''))
      | (w1, Inr data) \<Rightarrow> (w1, reported_error rt ''configure'' data))"

definition CallReconfigure ::
    "('w, 'm) wasm_runtime \<Rightarrow> 'm compiled_module \<Rightarrow> string \<Rightarrow> string \<Rightarrow> 'w \<Rightarrow> 'w \<times> go_error option" where
  "CallReconfigure rt cm previousConfigJSON configJSON w =
     (case wc_reconfigure (rt_wire rt) (previousConfigJSON, configJSON) of
        Inl err \<Rightarrow> (w, Some (Wrap ''marshal reconfigure input: '' err ''''))
      | Inr input \<Rightarrow>
          (case RunAction rt cm ''reconfigure'' input w of
             (w1, Inl err) \<Rightarrow> (w1, Some (Wrap ''call reconfigure: '' err ''''))
           | (w1, Inr data) \<Rightarrow> (w1, reported_error rt ''reconfigure'' data)))"

definition CallRPC ::
    "('w, 'm) wasm_runtime \<Rightarrow> 'm compiled_module \<Rightarrow> string \<Rightarrow> string \<Rightarrow> string \<Rightarrow> string \<Rightarrow> 'w \<Rightarrow> 'w \<times> (go_error + string)" where
  "CallRPC rt cm caller meth params configJSON w =
     (case wc_rpc_request (rt_wire rt) (caller, meth, params) of
        Inl err \<Rightarrow> (w, Inl (Wrap ''marshal rpc input: '' err ''''))
      | Inr input \<Rightarrow>
          (case RunActionWithConfig rt cm ''handle_rpc'' input configJSON w of
             (w1, Inl err) \<Rightarrow> (w1, Inl (Wrap ''call handle_rpc: '' err ''''))
           | (w1, Inr data) \<Rightarrow>
               (w1, if length data = 0 then Inl (Plain ''empty rpc response'')
                    else case wc_rpc_response (rt_wire rt) data of
                           Inl err \<Rightarrow> Inl (Wrap ''unmarshal rpc response: '' err '''')
                         | Inr resp \<Rightarrow>
                             if rpc_Status resp = ''error''
                             then Inl (Plain (if rpc_Error resp = '''' then ''rpc call failed'' else rpc_Error resp))
                             else Inr (rpc_Result resp))))"

definition CallMigrate ::
    "('w, 'm) wasm_runtime \<Rightarrow> 'm compiled_module \<Rightarrow> string \<Rightarrow> string \<Rightarrow> 'w \<Rightarrow> 'w \<times> go_error option" where
  "CallMigrate rt cm oldVersion newVersion w =
     (case wc_migrate_request (rt_wire rt) (oldVersion, newVersion) of
        Inl err \<Rightarrow> (w, Some (Wrap ''marshal migrate input: '' err ''''))
      | Inr input \<Rightarrow>
          (case RunAction rt cm ''migrate'' input w of
             (w1, Inl err) \<Rightarrow> (w1, Some (Wrap ''call migrate: '' err ''''))
           | (w1, Inr data) \<Rightarrow>
               (w1, if length data = 0 then None
                    else case wc_migrate_response (rt_wire rt) data of
                           None \<Rightarrow> None
                         | Some (status, msg) \<Rightarrow>
                             if status = ''error'' \<and> msg \<noteq> '''' then Some (Plain (''migrate error: '' @ msg)) else None)))"

definition CallStepCallback ::
    "('w, 'm) wasm_runtime \<Rightarrow> 'm compiled_module \<Rightarrow> string \<Rightarrow> string \<Rightarrow> 'w \<Rightarrow> 'w \<times> (go_error + string)" where
  "CallStepCallback rt cm reqJSON configJSON w =
     (case RunActionWithConfig rt cm ''step_callback'' reqJSON configJSON w of
        (w1, Inl err) \<Rightarrow> (w1, Inl (Wrap ''call step_callback: '' err ''''))
      | (w1, Inr data) \<Rightarrow> (w1, Inr data))"

definition CallHandleEvent ::
    "('w, 'm) wasm_runtime \<Rightarrow> 'm compiled_module \<Rightarrow> string \<Rightarrow> string \<Rightarrow> 'w \<Rightarrow> 'w \<times> (go_error + string)" where
  "CallHandleEvent rt cm eventJSON configJSON w =
     (case RunActionWithConfig rt cm ''handle_event'' eventJSON configJSON w of
        (w1, Inl err) \<Rightarrow> (w1, Inl (Wrap ''call handle_event: '' err ''''))
      | (w1, Inr data) \<Rightarrow> (w1, Inr data))"

definition CallCheckVisibility ::
    "('w, 'm) wasm_runtime \<Rightarrow> 'm compiled_module \<Rightarrow> int \<Rightarrow> 'w \<Rightarrow> 'w \<times> (go_error + string list)" where
  "CallCheckVisibility rt cm userID w =
     (case RunAction rt cm ''check_visibility'' (wc_visibility_request (rt_wire rt) userID) w of
        (w1, Inl err) \<Rightarrow> (w1, Inl (Wrap ''call check_visibility: '' err ''''))
      | (w1, Inr data) \<Rightarrow>
          (w1, case wc_visible (rt_wire rt) data of
                 Inl err \<Rightarrow> Inl (Wrap ''unmarshal check_visibility response: '' err '''')
               | Inr visible \<Rightarrow> Inr visible))"

end
