(* ===== verification/Sql_Store.thy ===== *)
theory Sql_Store
  imports Plugin_Host Wasm_Registry "HOL-Library.Word"
begin

text \<open>
  SQL for plugins: \<^verbatim>\<open>internal/wasm/hostapi/sqlstore.go\<close>, \<^verbatim>\<open>host_sql.go\<close> and
  \<^verbatim>\<open>host_sql_types.go\<close>. A plugin opens connections, transactions and cursors during one
  execution and names them by 32-bit handles; whatever an execution leaves open is released when it
  ends. The PostgreSQL driver (pgx) is a record of functions on the outside world \<open>'w\<close>, over pools
  \<open>'p\<close>, connections \<open>'c\<close>, transactions \<open>'x\<close> and cursors \<open>'r\<close>.

  A Go map that is ranged over is an association list. Contexts with their timeouts belong to the
  driver. The two kinds of pointers that a handle may hold are the arguments of its constructor.
\<close>

subsection \<open>Data source names (sqlstore.go)\<close>

definition schema_char :: "char \<Rightarrow> bool" where
  "schema_char c \<longleftrightarrow> (CHR ''a'' \<le> c \<and> c \<le> CHR ''z'') \<or> (CHR ''0'' \<le> c \<and> c \<le> CHR ''9'') \<or> c = CHR ''_''"

definition trim_chars :: "char \<Rightarrow> string \<Rightarrow> string" where
  "trim_chars c s = rev (dropWhile (\<lambda>d. d = c) (rev (dropWhile (\<lambda>d. d = c) s)))"

text \<open>
  The name is modelled for ASCII identifiers: \<^verbatim>\<open>strings.Map\<close> replaces a rune, which may be several
  bytes, by one underscore.
\<close>

definition pluginSchemaName :: "string \<Rightarrow> string" where
  "pluginSchemaName pluginID =
     (let s1 = ToLower (TrimSpace pluginID);
          s2 = map (\<lambda>c. if schema_char c then c else CHR ''_'') s1;
          s3 = trim_chars (CHR ''_'') s2
      in ''plugin_'' @ (if s3 = '''' then ''plugin'' else s3))"

definition injectSearchPath :: "string \<Rightarrow> string \<Rightarrow> string" where
  "injectSearchPath dsn schema =
     (if HasPrefix dsn ''postgres://'' \<or> HasPrefix dsn ''postgresql://''
      then (if Contains dsn ''?'' then dsn @ ''&search_path='' @ schema else dsn @ ''?search_path='' @ schema)
      else dsn @ '' search_path='' @ schema)"

subsection \<open>The store of handles (sqlstore.go)\<close>

definition SQLMaxHandlesPerExecution :: nat where "SQLMaxHandlesPerExecution = 16"

type_synonym handle_id = "32 word"

datatype ('c, 'x, 'r) sql_handle =
    ConnHandle 'c
  | TxHandle 'x handle_id
  | RowsHandle 'r "string list" handle_id

record ('c, 'x, 'r) execution_handles =
  eh_nextID :: handle_id
  eh_handles :: "(handle_id \<times> ('c, 'x, 'r) sql_handle) list"

record ('p, 'c, 'x, 'r) plugin_sql_state =
  ps_dsns :: string_map
  ps_pools :: "(string \<times> 'p) list"
  ps_executions :: "(string \<times> ('c, 'x, 'r) execution_handles) list"

type_synonym ('p, 'c, 'x, 'r) sql_store = "string \<rightharpoonup> ('p, 'c, 'x, 'r) plugin_sql_state"

definition NewSQLHandleStore :: "('p, 'c, 'x, 'r) sql_store" where
  "NewSQLHandleStore = Map.empty"

definition RegisterDSN :: "string \<Rightarrow> string \<Rightarrow> string \<Rightarrow> ('p, 'c, 'x, 'r) sql_store \<Rightarrow> ('p, 'c, 'x, 'r) sql_store" where
  "RegisterDSN pluginID name dsn s =
     (let ps = (case s pluginID of
                  Some ps \<Rightarrow> ps
                | None \<Rightarrow> \<lparr>ps_dsns = Map.empty, ps_pools = [], ps_executions = []\<rparr>)
      in s(pluginID \<mapsto> ps\<lparr>ps_dsns := (ps_dsns ps)(name \<mapsto> injectSearchPath dsn (pluginSchemaName pluginID))\<rparr>))"

definition HasDSN :: "('p, 'c, 'x, 'r) sql_store \<Rightarrow> string \<Rightarrow> string \<Rightarrow> bool" where
  "HasDSN s pluginID dbName \<longleftrightarrow>
     (case s pluginID of
        None \<Rightarrow> False
      | Some ps \<Rightarrow> (case ps_dsns ps dbName of None \<Rightarrow> False | Some dsn \<Rightarrow> dsn \<noteq> ''''))"

definition DSN :: "('p, 'c, 'x, 'r) sql_store \<Rightarrow> string \<Rightarrow> string \<Rightarrow> string" where
  "DSN s pluginID dbName =
     (case s pluginID of
        None \<Rightarrow> ''''
      | Some ps \<Rightarrow> (case ps_dsns ps dbName of None \<Rightarrow> '''' | Some dsn \<Rightarrow> dsn))"

text \<open>The driver; isolation levels are pgx's, the empty one is the server's default.\<close>

datatype iso_level = IsoDefault | ReadCommitted | RepeatableRead | Serializable

datatype sql_any =
    ANil
  | ABool bool
  | AInt8 "8 word" | AInt16 "16 word" | AInt32 "32 word" | AInt64 "64 word" | AInt "64 word"
  | AUint8 "8 word" | AUint16 "16 word" | AUint32 "32 word" | AUint64 "64 word"
  | AFloat32 "32 word" | AFloat64 "64 word"
  | AString string
  | ABytes string
  | ATime instant
  | ABytes16 string
  | AStringer string
  | AOther string

record ('w, 'p, 'c, 'x, 'r) sql_driver =
  id_Sanitize :: "string \<Rightarrow> string"
  pool_New :: "string \<Rightarrow> 'w \<Rightarrow> 'w \<times> (go_error + 'p)"
  pool_Exec :: "'p \<Rightarrow> string \<Rightarrow> 'w \<Rightarrow> 'w \<times> go_error option"
  pool_Close :: "'p \<Rightarrow> 'w \<Rightarrow> 'w"
  pool_Acquire :: "'p \<Rightarrow> 'w \<Rightarrow> 'w \<times> (go_error + 'c)"
  conn_Release :: "'c \<Rightarrow> 'w \<Rightarrow> 'w"
  conn_Exec :: "'c \<Rightarrow> string \<Rightarrow> sql_any list \<Rightarrow> 'w \<Rightarrow> 'w \<times> (go_error + int)"
  conn_Query :: "'c \<Rightarrow> string \<Rightarrow> sql_any list \<Rightarrow> 'w \<Rightarrow> 'w \<times> (go_error + 'r)"
  conn_BeginTx :: "'c \<Rightarrow> bool \<Rightarrow> iso_level \<Rightarrow> 'w \<Rightarrow> 'w \<times> (go_error + 'x)"
  tx_Exec :: "'x \<Rightarrow> string \<Rightarrow> sql_any list \<Rightarrow> 'w \<Rightarrow> 'w \<times> (go_error + int)"
  tx_Query :: "'x \<Rightarrow> string \<Rightarrow> sql_any list \<Rightarrow> 'w \<Rightarrow> 'w \<times> (go_error + 'r)"
  tx_Commit :: "'x \<Rightarrow> 'w \<Rightarrow> 'w \<times> go_error option"
  tx_Rollback :: "'x \<Rightarrow> 'w \<Rightarrow> 'w \<times> go_error option"
  rows_Columns :: "'r \<Rightarrow> 'w \<Rightarrow> string list"
  rows_Next :: "'r \<Rightarrow> 'w \<Rightarrow> 'w \<times> bool"
  rows_Err :: "'r \<Rightarrow> 'w \<Rightarrow> go_error option"
  rows_Values :: "'r \<Rightarrow> 'w \<Rightarrow> go_error + sql_any list"
  rows_Close :: "'r \<Rightarrow> 'w \<Rightarrow> 'w"

text \<open>Closing what an execution left open: cursors, then transactions, then connections.\<close>

definition close_rows :: "('w, 'p, 'c, 'x, 'r) sql_driver \<Rightarrow> ('c, 'x, 'r) sql_handle \<Rightarrow> 'w \<Rightarrow> 'w" where
  "close_rows drv h w = (case h of RowsHandle r _ _ \<Rightarrow> rows_Close drv r w | _ \<Rightarrow> w)"

definition rollback_tx :: "('w, 'p, 'c, 'x, 'r) sql_driver \<Rightarrow> ('c, 'x, 'r) sql_handle \<Rightarrow> 'w \<Rightarrow> 'w" where
  "rollback_tx drv h w = (case h of TxHandle x _ \<Rightarrow> fst (tx_Rollback drv x w) | _ \<Rightarrow> w)"

definition release_conn :: "('w, 'p, 'c, 'x, 'r) sql_driver \<Rightarrow> ('c, 'x, 'r) sql_handle \<Rightarrow> 'w \<Rightarrow> 'w" where
  "release_conn drv h w = (case h of ConnHandle c \<Rightarrow> conn_Release drv c w | _ \<Rightarrow> w)"

definition cleanupExecutionLocked ::
    "('w, 'p, 'c, 'x, 'r) sql_driver \<Rightarrow> string \<Rightarrow> ('p, 'c, 'x, 'r) plugin_sql_state \<Rightarrow> 'w \<Rightarrow>
     ('p, 'c, 'x, 'r) plugin_sql_state \<times> 'w" where
  "cleanupExecutionLocked drv execID ps w =
     (case map_of (ps_executions ps) execID of
        None \<Rightarrow> (ps, w)
      | Some eh \<Rightarrow>
          let hs = map snd (eh_handles eh);
              w1 = fold (close_rows drv) hs w;
              w2 = fold (rollback_tx drv) hs w1;
              w3 = fold (release_conn drv) hs w2
          in (ps\<lparr>ps_executions := AList.delete execID (ps_executions ps)\<rparr>, w3))"

definition CleanupExecution ::
    "('w, 'p, 'c, 'x, 'r) sql_driver \<Rightarrow> string \<Rightarrow> string \<Rightarrow> ('p, 'c, 'x, 'r) sql_store \<times> 'w \<Rightarrow>
     ('p, 'c, 'x, 'r) sql_store \<times> 'w" where
  "CleanupExecution drv pluginID execID sw =
     (case sw of (s, w) \<Rightarrow>
        (case s pluginID of
           None \<Rightarrow> (s, w)
         | Some ps \<Rightarrow> (case cleanupExecutionLocked drv execID ps w of (ps', w') \<Rightarrow> (s(pluginID \<mapsto> ps'), w'))))"

text \<open>The loop visits the keys the map has when it starts; each visit deletes its own key.\<close>

definition UnregisterPlugin ::
    "('w, 'p, 'c, 'x, 'r) sql_driver \<Rightarrow> string \<Rightarrow> ('p, 'c, 'x, 'r) sql_store \<times> 'w \<Rightarrow>
     ('p, 'c, 'x, 'r) sql_store \<times> 'w" where
  "UnregisterPlugin drv pluginID sw =
     (case sw of (s, w) \<Rightarrow>
        (case s pluginID of
           None \<Rightarrow> (s, w)
         | Some ps \<Rightarrow>
             let (ps1, w1) = fold (\<lambda>execID (ps, w). cleanupExecutionLocked drv execID ps w)
                               (map fst (ps_executions ps)) (ps, w)
             in (s(pluginID := None), fold (pool_Close drv) (map snd (ps_pools ps1)) w1)))"

definition getPluginState :: "('p, 'c, 'x, 'r) sql_store \<Rightarrow> string \<Rightarrow> go_error + ('p, 'c, 'x, 'r) plugin_sql_state" where
  "getPluginState s pluginID =
     (case s pluginID of
        None \<Rightarrow> Inl (Plain (''no SQL DSN configured for plugin '' @ quote pluginID))
      | Some ps \<Rightarrow> Inr ps)"

definition getOrCreatePool ::
    "('w, 'p, 'c, 'x, 'r) sql_driver \<Rightarrow> string \<Rightarrow> string \<Rightarrow> ('p, 'c, 'x, 'r) sql_store \<times> 'w \<Rightarrow>
     (('p, 'c, 'x, 'r) sql_store \<times> 'w) \<times> (go_error + 'p)" where
  "getOrCreatePool drv pluginID dbName sw =
     (case sw of (s, w) \<Rightarrow>
        (case getPluginState s pluginID of
           Inl err \<Rightarrow> ((s, w), Inl err)
         | Inr ps \<Rightarrow>
             (case map_of (ps_pools ps) dbName of
                Some pool \<Rightarrow> ((s, w), Inr pool)
              | None \<Rightarrow>
                  if DSN s pluginID dbName = ''''
                  then ((s, w), Inl (Plain (''no SQL DSN configured for plugin '' @ quote pluginID @ '' database '' @ quote dbName)))
                  else (case pool_New drv (DSN s pluginID dbName) w of
                          (w1, Inl err) \<Rightarrow>
                            ((s, w1), Inl (Wrap (''create pool for plugin '' @ quote pluginID @ '' database '' @ quote dbName @ '': '') err ''''))
                        | (w1, Inr pool) \<Rightarrow>
                            (case pool_Exec drv pool (''CREATE SCHEMA IF NOT EXISTS '' @ id_Sanitize drv (pluginSchemaName pluginID)) w1 of
                               (w2, Some err) \<Rightarrow>
                                 ((s, pool_Close drv pool w2), Inl (Wrap (''ensure plugin schema for '' @ quote pluginID @ '': '') err ''''))
                             | (w2, None) \<Rightarrow>
                                 ((s(pluginID \<mapsto> ps\<lparr>ps_pools := AList.update dbName pool (ps_pools ps)\<rparr>), w2), Inr pool))))))"

text \<open>The handles of an execution, created on first use, and writing them back.\<close>

definition getExecHandles ::
    "string \<Rightarrow> string \<Rightarrow> ('p, 'c, 'x, 'r) sql_store \<Rightarrow>
     ('p, 'c, 'x, 'r) sql_store \<times> (go_error + ('c, 'x, 'r) execution_handles)" where
  "getExecHandles pluginID execID s =
     (case getPluginState s pluginID of
        Inl err \<Rightarrow> (s, Inl err)
      | Inr ps \<Rightarrow>
          (case map_of (ps_executions ps) execID of
             Some eh \<Rightarrow> (s, Inr eh)
           | None \<Rightarrow>
               let eh = \<lparr>eh_nextID = 1, eh_handles = []\<rparr>
               in (s(pluginID \<mapsto> ps\<lparr>ps_executions := AList.update execID eh (ps_executions ps)\<rparr>), Inr eh)))"

definition putExecHandles ::
    "string \<Rightarrow> string \<Rightarrow> ('c, 'x, 'r) execution_handles \<Rightarrow> ('p, 'c, 'x, 'r) sql_store \<Rightarrow> ('p, 'c, 'x, 'r) sql_store" where
  "putExecHandles pluginID execID eh s =
     (case s pluginID of
        None \<Rightarrow> s
      | Some ps \<Rightarrow> s(pluginID \<mapsto> ps\<lparr>ps_executions := AList.update execID eh (ps_executions ps)\<rparr>))"

definition Alloc ::
    "string \<Rightarrow> string \<Rightarrow> ('c, 'x, 'r) sql_handle \<Rightarrow> ('p, 'c, 'x, 'r) sql_store \<Rightarrow>
     ('p, 'c, 'x, 'r) sql_store \<times> (go_error + handle_id)" where
  "Alloc pluginID execID h s =
     (case getExecHandles pluginID execID s of
        (s1, Inl err) \<Rightarrow> (s1, Inl err)
      | (s1, Inr eh) \<Rightarrow>
          if length (eh_handles eh) \<ge> SQLMaxHandlesPerExecution
          then (s1, Inl (Plain (''too many open SQL handles: max '' @ FormatInt (int SQLMaxHandlesPerExecution) @ '' per execution'')))
          else (putExecHandles pluginID execID
                  \<lparr>eh_nextID = eh_nextID eh + 1, eh_handles = AList.update (eh_nextID eh) h (eh_handles eh)\<rparr> s1,
                Inr (eh_nextID eh)))"

definition handle_not_found :: "handle_id \<Rightarrow> go_error" where
  "handle_not_found i = Plain (''SQL handle '' @ FormatInt (uint i) @ '' not found'')"

definition Get_handle ::
    "string \<Rightarrow> string \<Rightarrow> handle_id \<Rightarrow> ('p, 'c, 'x, 'r) sql_store \<Rightarrow>
     ('p, 'c, 'x, 'r) sql_store \<times> (go_error + ('c, 'x, 'r) sql_handle)" where
  "Get_handle pluginID execID i s =
     (case getExecHandles pluginID execID s of
        (s1, Inl err) \<Rightarrow> (s1, Inl err)
      | (s1, Inr eh) \<Rightarrow>
          (case map_of (eh_handles eh) i of
             None \<Rightarrow> (s1, Inl (handle_not_found i))
           | Some h \<Rightarrow> (s1, Inr h)))"

definition Remove_handle ::
    "string \<Rightarrow> string \<Rightarrow> handle_id \<Rightarrow> ('p, 'c, 'x, 'r) sql_store \<Rightarrow>
     ('p, 'c, 'x, 'r) sql_store \<times> (go_error + ('c, 'x, 'r) sql_handle)" where
  "Remove_handle pluginID execID i s =
     (case getExecHandles pluginID execID s of
        (s1, Inl err) \<Rightarrow> (s1, Inl err)
      | (s1, Inr eh) \<Rightarrow>
          (case map_of (eh_handles eh) i of
             None \<Rightarrow> (s1, Inl (handle_not_found i))
           | Some h \<Rightarrow>
               (putExecHandles pluginID execID (eh\<lparr>eh_handles := AList.delete i (eh_handles eh)\<rparr>) s1, Inr h)))"

subsection \<open>Values (host_sql_types.go)\<close>

text \<open>
  A value of the driver as one that msgpack can carry. Floating point numbers are their bits;
  converting them, the text of an instant in the layout RFC3339Nano, and the text of values of other
  types are those of the Go runtime.
\<close>

record formatters =
  fm_widen :: "32 word \<Rightarrow> 64 word"
  fm_float :: "64 word \<Rightarrow> 64 word"
  fm_time :: "instant \<Rightarrow> string"

text \<open>Standard base64 with padding (package \<^verbatim>\<open>encoding/base64\<close>).\<close>

definition b64_digit :: "nat \<Rightarrow> char" where
  "b64_digit n = ''ABCDEFGHIJKLMNOPQRSTUVWXYZabcdefghijklmnopqrstuvwxyz0123456789+/'' ! n"

fun base64 :: "string \<Rightarrow> string" where
  "base64 [] = []"
| "base64 [a] =
     (let n = of_char a * 65536 :: nat in [b64_digit (n div 262144), b64_digit (n div 4096 mod 64), CHR ''='', CHR ''=''])"
| "base64 [a, b] =
     (let n = of_char a * 65536 + of_char b * 256 :: nat
      in [b64_digit (n div 262144), b64_digit (n div 4096 mod 64), b64_digit (n div 64 mod 64), CHR ''=''])"
| "base64 (a # b # c # bs) =
     (let n = of_char a * 65536 + of_char b * 256 + of_char c :: nat
      in [b64_digit (n div 262144), b64_digit (n div 4096 mod 64), b64_digit (n div 64 mod 64), b64_digit (n mod 64)] @ base64 bs)"

fun normalizeValue :: "formatters \<Rightarrow> sql_any \<Rightarrow> sql_any" where
  "normalizeValue fm ANil = ANil"
| "normalizeValue fm (ABool b) = ABool b"
| "normalizeValue fm (AInt8 v) = AInt64 (scast v)"
| "normalizeValue fm (AInt16 v) = AInt64 (scast v)"
| "normalizeValue fm (AInt32 v) = AInt64 (scast v)"
| "normalizeValue fm (AInt64 v) = AInt64 v"
| "normalizeValue fm (AInt v) = AInt64 v"
| "normalizeValue fm (AUint8 v) = AInt64 (ucast v)"
| "normalizeValue fm (AUint16 v) = AInt64 (ucast v)"
| "normalizeValue fm (AUint32 v) = AInt64 (ucast v)"
| "normalizeValue fm (AUint64 v) = (if v \<le> 0x7FFFFFFFFFFFFFFF then AInt64 v else AFloat64 (fm_float fm v))"
| "normalizeValue fm (AFloat32 v) = AFloat64 (fm_widen fm v)"
| "normalizeValue fm (AFloat64 v) = AFloat64 v"
| "normalizeValue fm (AString s) = AString s"
| "normalizeValue fm (ABytes bs) = AString (base64 bs)"
| "normalizeValue fm (ATime t) = AString (fm_time fm t)"
| "normalizeValue fm (ABytes16 u) =
     AString (hex_encode (take 4 u) @ ''-'' @ hex_encode (take 2 (drop 4 u)) @ ''-'' @ hex_encode (take 2 (drop 6 u)) @
              ''-'' @ hex_encode (take 2 (drop 8 u)) @ ''-'' @ hex_encode (take 6 (drop 10 u)))"
| "normalizeValue fm (AStringer s) = AString s"
| "normalizeValue fm (AOther s) = AString s"

subsection \<open>Host functions (host_sql.go)\<close>

text \<open>
  Each function takes the plugin and execution it is called in, and the decoded request or the error
  of decoding it; the store is absent when the host has none.
\<close>

type_synonym ('w, 'p, 'c, 'x, 'r) sql_state = "('p, 'c, 'x, 'r) sql_store option \<times> 'w"

datatype sql_answer =
    SqlHandle handle_id
  | SqlOK
  | SqlAffected int
  | SqlCursor handle_id "string list"
  | SqlRow "sql_any list"
  | SqlDone

definition sql_preamble ::
    "permission_store \<Rightarrow> string \<Rightarrow> go_error + 'req \<Rightarrow> ('p, 'c, 'x, 'r) sql_store option \<Rightarrow>
     go_error + 'req \<times> ('p, 'c, 'x, 'r) sql_store" where
  "sql_preamble perms pluginID payload store =
     (case CheckPermission perms pluginID ''sql'' of
        Some err \<Rightarrow> Inl err
      | None \<Rightarrow>
          (case payload of
             Inl err \<Rightarrow> Inl err
           | Inr req \<Rightarrow>
               (case store of
                  None \<Rightarrow> Inl (Plain (''dependency '' @ quote ''SQLStore'' @ '' is not available''))
                | Some s \<Rightarrow> Inr (req, s))))"

definition sqlOpenFunc ::
    "('w, 'p, 'c, 'x, 'r) sql_driver \<Rightarrow> permission_store \<Rightarrow> string \<Rightarrow> string \<Rightarrow> go_error + string \<Rightarrow>
     ('w, 'p, 'c, 'x, 'r) sql_state \<Rightarrow> ('w, 'p, 'c, 'x, 'r) sql_state \<times> sql_answer host_answer" where
  "sqlOpenFunc drv perms pluginID execID payload sw =
     (case sql_preamble perms pluginID payload (fst sw) of
        Inl err \<Rightarrow> (sw, HostError err)
      | Inr (name, s) \<Rightarrow>
          let dbName = (if name = '''' then ''default'' else name)
          in case getOrCreatePool drv pluginID dbName (s, snd sw) of
               ((s1, w1), Inl err) \<Rightarrow> ((Some s1, w1), HostError err)
             | ((s1, w1), Inr pool) \<Rightarrow>
                 (case pool_Acquire drv pool w1 of
                    (w2, Inl err) \<Rightarrow> ((Some s1, w2), HostError (Wrap ''acquire connection: '' err ''''))
                  | (w2, Inr conn) \<Rightarrow>
                      (case Alloc pluginID execID (ConnHandle conn) s1 of
                         (s2, Inl err) \<Rightarrow> ((Some s2, conn_Release drv conn w2), HostError err)
                       | (s2, Inr handle) \<Rightarrow> ((Some s2, w2), HostAnswer (SqlHandle handle)))))"

definition sqlCloseFunc ::
    "('w, 'p, 'c, 'x, 'r) sql_driver \<Rightarrow> permission_store \<Rightarrow> string \<Rightarrow> string \<Rightarrow> go_error + handle_id \<Rightarrow>
     ('w, 'p, 'c, 'x, 'r) sql_state \<Rightarrow> ('w, 'p, 'c, 'x, 'r) sql_state \<times> sql_answer host_answer" where
  "sqlCloseFunc drv perms pluginID execID payload sw =
     (case sql_preamble perms pluginID payload (fst sw) of
        Inl err \<Rightarrow> (sw, HostError err)
      | Inr (handle, s) \<Rightarrow>
          (case Remove_handle pluginID execID handle s of
             (s1, Inl err) \<Rightarrow> ((Some s1, snd sw), HostError err)
           | (s1, Inr sh) \<Rightarrow> ((Some s1, release_conn drv sh (snd sw)), HostAnswer SqlOK)))"

definition not_conn_or_tx :: "handle_id \<Rightarrow> go_error" where
  "not_conn_or_tx i = Plain (''handle '' @ FormatInt (uint i) @ '' is not a connection or transaction'')"

definition sqlExecFunc ::
    "('w, 'p, 'c, 'x, 'r) sql_driver \<Rightarrow> permission_store \<Rightarrow> string \<Rightarrow> string \<Rightarrow>
     go_error + handle_id \<times> string \<times> sql_any list \<Rightarrow>
     ('w, 'p, 'c, 'x, 'r) sql_state \<Rightarrow> ('w, 'p, 'c, 'x, 'r) sql_state \<times> sql_answer host_answer" where
  "sqlExecFunc drv perms pluginID execID payload sw =
     (case sql_preamble perms pluginID payload (fst sw) of
        Inl err \<Rightarrow> (sw, HostError err)
      | Inr ((handle, sql, args), s) \<Rightarrow>
          (case Get_handle pluginID execID handle s of
             (s1, Inl err) \<Rightarrow> ((Some s1, snd sw), HostError err)
           | (s1, Inr sh) \<Rightarrow>
               let answer = (\<lambda>(w1, r). ((Some s1, w1),
                     case r of Inl err \<Rightarrow> HostError (Wrap ''sql exec: '' err '''')
                             | Inr affected \<Rightarrow> HostAnswer (SqlAffected affected)))
               in case sh of
                    ConnHandle c \<Rightarrow> answer (conn_Exec drv c sql args (snd sw))
                  | TxHandle x _ \<Rightarrow> answer (tx_Exec drv x sql args (snd sw))
                  | RowsHandle _ _ _ \<Rightarrow> ((Some s1, snd sw), HostError (not_conn_or_tx handle))))"

definition sqlQueryFunc ::
    "('w, 'p, 'c, 'x, 'r) sql_driver \<Rightarrow> permission_store \<Rightarrow> string \<Rightarrow> string \<Rightarrow>
     go_error + handle_id \<times> string \<times> sql_any list \<Rightarrow>
     ('w, 'p, 'c, 'x, 'r) sql_state \<Rightarrow> ('w, 'p, 'c, 'x, 'r) sql_state \<times> sql_answer host_answer" where
  "sqlQueryFunc drv perms pluginID execID payload sw =
     (case sql_preamble perms pluginID payload (fst sw) of
        Inl err \<Rightarrow> (sw, HostError err)
      | Inr ((handle, sql, args), s) \<Rightarrow>
          (case Get_handle pluginID execID handle s of
             (s1, Inl err) \<Rightarrow> ((Some s1, snd sw), HostError err)
           | (s1, Inr sh) \<Rightarrow>
               let opened = (\<lambda>(w1, r). case r of
                     Inl err \<Rightarrow> ((Some s1, w1), HostError (Wrap ''sql query: '' err ''''))
                   | Inr rows \<Rightarrow>
                       let cols = rows_Columns drv rows w1
                       in case Alloc pluginID execID (RowsHandle rows cols handle) s1 of
                            (s2, Inl err) \<Rightarrow> ((Some s2, rows_Close drv rows w1), HostError err)
                          | (s2, Inr cursorID) \<Rightarrow> ((Some s2, w1), HostAnswer (SqlCursor cursorID cols)))
               in case sh of
                    ConnHandle c \<Rightarrow> opened (conn_Query drv c sql args (snd sw))
                  | TxHandle x _ \<Rightarrow> opened (tx_Query drv x sql args (snd sw))
                  | RowsHandle _ _ _ \<Rightarrow> ((Some s1, snd sw), HostError (not_conn_or_tx handle))))"

definition sqlNextFunc ::
    "formatters \<Rightarrow> ('w, 'p, 'c, 'x, 'r) sql_driver \<Rightarrow> permission_store \<Rightarrow> string \<Rightarrow> string \<Rightarrow> go_error + handle_id \<Rightarrow>
     ('w, 'p, 'c, 'x, 'r) sql_state \<Rightarrow> ('w, 'p, 'c, 'x, 'r) sql_state \<times> sql_answer host_answer" where
  "sqlNextFunc fm drv perms pluginID execID payload sw =
     (case sql_preamble perms pluginID payload (fst sw) of
        Inl err \<Rightarrow> (sw, HostError err)
      | Inr (cursor, s) \<Rightarrow>
          (case Get_handle pluginID execID cursor s of
             (s1, Inl err) \<Rightarrow> ((Some s1, snd sw), HostError err)
           | (s1, Inr (RowsHandle rows _ _)) \<Rightarrow>
               (case rows_Next drv rows (snd sw) of
                  (w1, False) \<Rightarrow>
                    (case rows_Err drv rows w1 of
                       Some err \<Rightarrow> ((Some s1, w1), HostError (Wrap ''sql next: '' err ''''))
                     | None \<Rightarrow>
                         ((Some (fst (Remove_handle pluginID execID cursor s1)), rows_Close drv rows w1), HostAnswer SqlDone))
                | (w1, True) \<Rightarrow>
                    (case rows_Values drv rows w1 of
                       Inl err \<Rightarrow> ((Some s1, w1), HostError (Wrap ''sql row values: '' err ''''))
                     | Inr values \<Rightarrow> ((Some s1, w1), HostAnswer (SqlRow (map (normalizeValue fm) values)))))
           | (s1, Inr _) \<Rightarrow>
               ((Some s1, snd sw), HostError (Plain (''handle '' @ FormatInt (uint cursor) @ '' is not a cursor'')))))"

definition sqlRowsCloseFunc ::
    "('w, 'p, 'c, 'x, 'r) sql_driver \<Rightarrow> permission_store \<Rightarrow> string \<Rightarrow> string \<Rightarrow> go_error + handle_id \<Rightarrow>
     ('w, 'p, 'c, 'x, 'r) sql_state \<Rightarrow> ('w, 'p, 'c, 'x, 'r) sql_state \<times> sql_answer host_answer" where
  "sqlRowsCloseFunc drv perms pluginID execID payload sw =
     (case sql_preamble perms pluginID payload (fst sw) of
        Inl err \<Rightarrow> (sw, HostError err)
      | Inr (cursor, s) \<Rightarrow>
          (case Remove_handle pluginID execID cursor s of
             (s1, Inl err) \<Rightarrow> ((Some s1, snd sw), HostError err)
           | (s1, Inr sh) \<Rightarrow> ((Some s1, close_rows drv sh (snd sw)), HostAnswer SqlOK)))"

definition isolation_of :: "string \<Rightarrow> iso_level" where
  "isolation_of s =
     (if s = ''read_committed'' then ReadCommitted
      else if s = ''repeatable_read'' then RepeatableRead
      else if s = ''serializable'' then Serializable else IsoDefault)"

definition sqlBeginFunc ::
    "('w, 'p, 'c, 'x, 'r) sql_driver \<Rightarrow> permission_store \<Rightarrow> string \<Rightarrow> string \<Rightarrow>
     go_error + handle_id \<times> bool \<times> string \<Rightarrow>
     ('w, 'p, 'c, 'x, 'r) sql_state \<Rightarrow> ('w, 'p, 'c, 'x, 'r) sql_state \<times> sql_answer host_answer" where
  "sqlBeginFunc drv perms pluginID execID payload sw =
     (case sql_preamble perms pluginID payload (fst sw) of
        Inl err \<Rightarrow> (sw, HostError err)
      | Inr ((handle, readOnly, isolation), s) \<Rightarrow>
          (case Get_handle pluginID execID handle s of
             (s1, Inl err) \<Rightarrow> ((Some s1, snd sw), HostError err)
           | (s1, Inr (ConnHandle conn)) \<Rightarrow>
               (case conn_BeginTx drv conn readOnly (isolation_of isolation) (snd sw) of
                  (w1, Inl err) \<Rightarrow> ((Some s1, w1), HostError (Wrap ''begin tx: '' err ''''))
                | (w1, Inr tx) \<Rightarrow>
                    (case Alloc pluginID execID (TxHandle tx handle) s1 of
                       (s2, Inl err) \<Rightarrow> ((Some s2, fst (tx_Rollback drv tx w1)), HostError err)
                     | (s2, Inr txHandle) \<Rightarrow> ((Some s2, w1), HostAnswer (SqlHandle txHandle))))
           | (s1, Inr _) \<Rightarrow>
               ((Some s1, snd sw), HostError (Plain (''handle '' @ FormatInt (uint handle) @ '' is not a connection'')))))"

definition sqlEndFunc ::
    "('w, 'p, 'c, 'x, 'r) sql_driver \<Rightarrow> permission_store \<Rightarrow> string \<Rightarrow> string \<Rightarrow> go_error + handle_id \<times> bool \<Rightarrow>
     ('w, 'p, 'c, 'x, 'r) sql_state \<Rightarrow> ('w, 'p, 'c, 'x, 'r) sql_state \<times> sql_answer host_answer" where
  "sqlEndFunc drv perms pluginID execID payload sw =
     (case sql_preamble perms pluginID payload (fst sw) of
        Inl err \<Rightarrow> (sw, HostError err)
      | Inr ((handle, commit), s) \<Rightarrow>
          (case Remove_handle pluginID execID handle s of
             (s1, Inl err) \<Rightarrow> ((Some s1, snd sw), HostError err)
           | (s1, Inr (TxHandle tx _)) \<Rightarrow>
               (case (if commit then tx_Commit drv tx (snd sw) else tx_Rollback drv tx (snd sw)) of
                  (w1, Some err) \<Rightarrow> ((Some s1, w1), HostError (Wrap ''sql end: '' err ''''))
                | (w1, None) \<Rightarrow> ((Some s1, w1), HostAnswer SqlOK))
           | (s1, Inr _) \<Rightarrow>
               ((Some s1, snd sw), HostError (Plain (''handle '' @ FormatInt (uint handle) @ '' is not a transaction'')))))"

text \<open>The calls a plugin can make, as one function.\<close>

datatype sql_call =
    CallOpen "go_error + string"
  | CallClose "go_error + handle_id"
  | CallExec "go_error + handle_id \<times> string \<times> sql_any list"
  | CallQuery "go_error + handle_id \<times> string \<times> sql_any list"
  | CallNext "go_error + handle_id"
  | CallRowsClose "go_error + handle_id"
  | CallBegin "go_error + handle_id \<times> bool \<times> string"
  | CallEnd "go_error + handle_id \<times> bool"

fun sql_host_call ::
    "formatters \<Rightarrow> ('w, 'p, 'c, 'x, 'r) sql_driver \<Rightarrow> permission_store \<Rightarrow> string \<Rightarrow> string \<Rightarrow> sql_call \<Rightarrow>
     ('w, 'p, 'c, 'x, 'r) sql_state \<Rightarrow> ('w, 'p, 'c, 'x, 'r) sql_state \<times> sql_answer host_answer" where
  "sql_host_call fm drv perms p e (CallOpen q) sw = sqlOpenFunc drv perms p e q sw"
| "sql_host_call fm drv perms p e (CallClose q) sw = sqlCloseFunc drv perms p e q sw"
| "sql_host_call fm drv perms p e (CallExec q) sw = sqlExecFunc drv perms p e q sw"
| "sql_host_call fm drv perms p e (CallQuery q) sw = sqlQueryFunc drv perms p e q sw"
| "sql_host_call fm drv perms p e (CallNext q) sw = sqlNextFunc fm drv perms p e q sw"
| "sql_host_call fm drv perms p e (CallRowsClose q) sw = sqlRowsCloseFunc drv perms p e q sw"
| "sql_host_call fm drv perms p e (CallBegin q) sw = sqlBeginFunc drv perms p e q sw"
| "sql_host_call fm drv perms p e (CallEnd q) sw = sqlEndFunc drv perms p e q sw"

subsection \<open>What the operations do to the handles\<close>

text \<open>The abstract view of the store: what a handle of an execution of a plugin denotes.\<close>

type_synonym handle_key = "string \<times> string \<times> handle_id"

definition handle_at :: "('p, 'c, 'x, 'r) sql_store \<Rightarrow> handle_key \<Rightarrow> ('c, 'x, 'r) sql_handle option" where
  "handle_at s k =
     (case k of (p, e, i) \<Rightarrow>
        (case s p of
           None \<Rightarrow> None
         | Some ps \<Rightarrow> (case map_of (ps_executions ps) e of None \<Rightarrow> None | Some eh \<Rightarrow> map_of (eh_handles eh) i)))"

definition handles_wf :: "('c, 'x, 'r) execution_handles \<Rightarrow> bool" where
  "handles_wf eh \<longleftrightarrow> distinct (map fst (eh_handles eh)) \<and> length (eh_handles eh) \<le> SQLMaxHandlesPerExecution \<and>
     (\<forall>i \<in> fst ` set (eh_handles eh). i < eh_nextID eh)"

definition store_wf :: "('p, 'c, 'x, 'r) sql_store \<Rightarrow> bool" where
  "store_wf s \<longleftrightarrow> (\<forall>ps \<in> ran s. distinct (map fst (ps_executions ps)) \<and> (\<forall>(e, eh) \<in> set (ps_executions ps). handles_wf eh))"

definition ids_left :: "('p, 'c, 'x, 'r) sql_store \<Rightarrow> string \<Rightarrow> string \<Rightarrow> bool" where
  "ids_left s p e \<longleftrightarrow>
     (case s p of
        None \<Rightarrow> True
      | Some ps \<Rightarrow> (case map_of (ps_executions ps) e of None \<Rightarrow> True | Some eh \<Rightarrow> eh_nextID eh < 0xFFFFFFFF))"

lemma handles_wf_empty [simp]: "handles_wf \<lparr>eh_nextID = 1, eh_handles = []\<rparr>"
  by (simp add: handles_wf_def)

lemma store_wf_upd:
  assumes "store_wf s" "distinct (map fst (ps_executions ps))" "\<forall>(e, eh) \<in> set (ps_executions ps). handles_wf eh"
  shows "store_wf (s(p \<mapsto> ps))"
  using assms unfolding store_wf_def by (auto simp: ran_def split: if_splits)

lemma store_wfD:
  assumes "store_wf s" "s p = Some ps"
  shows "distinct (map fst (ps_executions ps))" "\<forall>(e, eh) \<in> set (ps_executions ps). handles_wf eh"
  using assms unfolding store_wf_def by (auto simp: ran_def)

lemma update_fresh: "k \<notin> fst ` set xs \<Longrightarrow> AList.update k v xs = xs @ [(k, v)]"
  by (induction xs) auto

lemma put_wf:
  assumes "store_wf s" "handles_wf eh"
  shows "store_wf (putExecHandles p e eh s)"
proof (cases "s p")
  case None
  then show ?thesis using assms by (simp add: putExecHandles_def)
next
  case (Some ps)
  have "\<forall>(e', eh') \<in> set (AList.update e eh (ps_executions ps)). handles_wf eh'"
    using set_update_subset [of e eh "ps_executions ps"] store_wfD(2) [OF assms(1) Some] assms(2) by fastforce
  then show ?thesis
    using Some store_wfD(1) [OF assms(1) Some] assms(1)
    by (simp add: putExecHandles_def store_wf_upd distinct_update)
qed

lemma put_handle_at:
  assumes "s p = Some ps"
  shows "handle_at (putExecHandles p e eh s) (p', e', i) =
           (if p' = p \<and> e' = e then map_of (eh_handles eh) i else handle_at s (p', e', i))"
  using assms by (simp add: handle_at_def putExecHandles_def update_conv')

lemma getExec_new:
  "getExecHandles p e s =
     (case s p of
        None \<Rightarrow> (s, Inl (Plain (''no SQL DSN configured for plugin '' @ quote p)))
      | Some ps \<Rightarrow>
          (case map_of (ps_executions ps) e of
             Some eh \<Rightarrow> (s, Inr eh)
           | None \<Rightarrow> (putExecHandles p e \<lparr>eh_nextID = 1, eh_handles = []\<rparr> s, Inr \<lparr>eh_nextID = 1, eh_handles = []\<rparr>)))"
  by (simp add: getExecHandles_def getPluginState_def putExecHandles_def Let_def split: option.split)

lemma getExec_frame:
  assumes "getExecHandles p e s = (s1, r)"
  shows "handle_at s1 = handle_at s"
proof
  fix k :: handle_key
  obtain p' e' i where k: "k = (p', e', i)" by (cases k)
  show "handle_at s1 k = handle_at s k"
    using assms unfolding k getExec_new
    by (auto simp: put_handle_at split: option.splits) (simp add: handle_at_def)
qed

lemma getExec_wf:
  assumes "getExecHandles p e s = (s1, r)" "store_wf s"
  shows "store_wf s1"
  using assms put_wf [of s "\<lparr>eh_nextID = 1, eh_handles = []\<rparr>" p e] unfolding getExec_new
  by (auto split: option.splits)

lemma getExec_at:
  assumes "getExecHandles p e s = (s1, Inr eh)"
  shows "\<exists>ps. s1 p = Some ps \<and> map_of (ps_executions ps) e = Some eh"
  using assms unfolding getExec_new putExecHandles_def
  by (auto simp: update_conv' split: option.splits)

lemma getExec_next:
  assumes "getExecHandles p e s = (s1, Inr eh)" "ids_left s p e"
  shows "eh_nextID eh < 0xFFFFFFFF"
  using assms unfolding getExec_new ids_left_def by (auto split: option.splits)

lemma getExec_eh_wf:
  assumes "getExecHandles p e s = (s1, Inr eh)" "store_wf s"
  shows "handles_wf eh"
proof -
  obtain ps where ps: "s1 p = Some ps" "map_of (ps_executions ps) e = Some eh" using getExec_at [OF assms(1)] by blast
  then show ?thesis using store_wfD(2) [OF getExec_wf [OF assms] ps(1)] by (auto dest: map_of_SomeD)
qed

lemma getExec_handle_at:
  assumes "getExecHandles p e s = (s1, Inr eh)"
  shows "handle_at s (p, e, i) = map_of (eh_handles eh) i"
proof -
  obtain ps where "s1 p = Some ps" "map_of (ps_executions ps) e = Some eh" using getExec_at [OF assms] by blast
  then show ?thesis by (simp add: handle_at_def flip: getExec_frame [OF assms])
qed

lemma put_after_get:
  assumes "getExecHandles p e s = (s1, Inr eh)"
  shows "handle_at (putExecHandles p e eh' s1) (p', e', i) =
           (if p' = p \<and> e' = e then map_of (eh_handles eh') i else handle_at s (p', e', i))"
proof -
  obtain ps where "s1 p = Some ps" using getExec_at [OF assms] by blast
  then show ?thesis by (simp add: put_handle_at getExec_frame [OF assms])
qed

lemma Get_frame: "handle_at (fst (Get_handle p e i s)) = handle_at s"
  using getExec_frame unfolding Get_handle_def
  by (fastforce split: prod.split sum.split option.split)

lemma Get_wf: "store_wf s \<Longrightarrow> store_wf (fst (Get_handle p e i s))"
  using getExec_wf unfolding Get_handle_def
  by (fastforce split: prod.split sum.split option.split)

lemma Get_result:
  assumes "Get_handle p e i s = (s1, Inr h)"
  shows "handle_at s (p, e, i) = Some h"
proof -
  obtain s2 r where g: "getExecHandles p e s = (s2, r)" by fastforce
  with assms obtain eh where "r = Inr eh" "map_of (eh_handles eh) i = Some h"
    by (auto simp: Get_handle_def split: sum.splits option.splits)
  then show ?thesis using getExec_handle_at [of p e s s2 eh i] g by simp
qed

lemma Alloc_wf:
  assumes "Alloc p e h s = (s1, r)" "store_wf s" "ids_left s p e"
  shows "store_wf s1"
proof -
  obtain s2 q where g: "getExecHandles p e s = (s2, q)" by fastforce
  show ?thesis
  proof (cases q)
    case (Inl err)
    then show ?thesis using assms(1) g getExec_wf [OF g assms(2)] by (simp add: Alloc_def)
  next
    case (Inr eh)
    note gi = g [unfolded Inr]
    have wf: "handles_wf eh" by (rule getExec_eh_wf [OF gi assms(2)])
    have nx: "eh_nextID eh < eh_nextID eh + 1"
      using getExec_next [OF gi assms(3)] by (simp add: word_less_nat_alt unat_word_ariths)
    have "handles_wf \<lparr>eh_nextID = eh_nextID eh + 1, eh_handles = AList.update (eh_nextID eh) h (eh_handles eh)\<rparr>"
      if "\<not> length (eh_handles eh) \<ge> SQLMaxHandlesPerExecution"
    proof -
      have new: "eh_nextID eh \<notin> fst ` set (eh_handles eh)" using wf by (auto simp: handles_wf_def)
      have "length (AList.update (eh_nextID eh) h (eh_handles eh)) = Suc (length (eh_handles eh))"
        using new by (simp add: update_fresh)
      then show ?thesis
        using wf that nx new unfolding handles_wf_def
        by (auto simp: distinct_update update_fresh intro: order.strict_trans)
    qed
    then show ?thesis
      using assms(1) gi getExec_wf [OF gi assms(2)] put_wf
      by (auto simp: Alloc_def split: if_splits)
  qed
qed

lemma Alloc_frame:
  assumes "Alloc p e h s = (s1, Inl err)"
  shows "handle_at s1 = handle_at s"
  using assms getExec_frame unfolding Alloc_def by (fastforce split: prod.splits sum.splits if_splits)

lemma Alloc_new:
  assumes "Alloc p e h s = (s1, Inr i)" "store_wf s"
  shows "handle_at s1 = (handle_at s)((p, e, i) \<mapsto> h)" "handle_at s (p, e, i) = None"
proof -
  obtain s2 q where g: "getExecHandles p e s = (s2, q)" by fastforce
  with assms(1) obtain eh where q: "q = Inr eh" and i: "i = eh_nextID eh"
    and s1: "s1 = putExecHandles p e \<lparr>eh_nextID = eh_nextID eh + 1, eh_handles = AList.update i h (eh_handles eh)\<rparr> s2"
    by (auto simp: Alloc_def split: sum.splits if_splits)
  note gi = g [unfolded q]
  show "handle_at s1 = (handle_at s)((p, e, i) \<mapsto> h)"
  proof
    fix k :: handle_key
    obtain p' e' j where k: "k = (p', e', j)" by (cases k)
    show "handle_at s1 k = ((handle_at s)((p, e, i) \<mapsto> h)) k"
      unfolding s1 k by (auto simp: put_after_get [OF gi] update_conv' getExec_handle_at [OF gi])
  qed
  have "i \<notin> fst ` set (eh_handles eh)"
    using getExec_eh_wf [OF gi assms(2)] i by (auto simp: handles_wf_def)
  then show "handle_at s (p, e, i) = None"
    by (simp add: getExec_handle_at [OF gi] map_of_eq_None_iff)
qed

lemma Remove_frame:
  assumes "Remove_handle p e i s = (s1, Inl err)"
  shows "handle_at s1 = handle_at s"
  using assms getExec_frame unfolding Remove_handle_def by (fastforce split: prod.splits sum.splits option.splits)

lemma Remove_result:
  assumes "Remove_handle p e i s = (s1, Inr h)"
  shows "handle_at s (p, e, i) = Some h" "handle_at s1 = (handle_at s)((p, e, i) := None)"
proof -
  obtain s2 q where g: "getExecHandles p e s = (s2, q)" by fastforce
  with assms(1) obtain eh where q: "q = Inr eh" and m: "map_of (eh_handles eh) i = Some h"
    and s1: "s1 = putExecHandles p e (eh\<lparr>eh_handles := AList.delete i (eh_handles eh)\<rparr>) s2"
    by (auto simp: Remove_handle_def split: sum.splits option.splits)
  note gi = g [unfolded q]
  show "handle_at s (p, e, i) = Some h" using m by (simp add: getExec_handle_at [OF gi])
  show "handle_at s1 = (handle_at s)((p, e, i) := None)"
  proof
    fix k :: handle_key
    obtain p' e' j where k: "k = (p', e', j)" by (cases k)
    show "handle_at s1 k = ((handle_at s)((p, e, i) := None)) k"
      unfolding s1 k by (auto simp: put_after_get [OF gi] delete_conv' getExec_handle_at [OF gi])
  qed
qed

lemma Remove_wf:
  assumes "store_wf s"
  shows "store_wf (fst (Remove_handle p e i s))"
proof -
  obtain s2 q where g: "getExecHandles p e s = (s2, q)" by fastforce
  show ?thesis
  proof (cases q)
    case (Inl err)
    then show ?thesis using g getExec_wf [OF g assms] by (simp add: Remove_handle_def)
  next
    case (Inr eh)
    note gi = g [unfolded Inr]
    have "handles_wf (eh\<lparr>eh_handles := AList.delete i (eh_handles eh)\<rparr>)"
      using getExec_eh_wf [OF gi assms] unfolding handles_wf_def
      by (auto simp: distinct_map_filter AList.delete_eq intro: order_trans [OF length_filter_le])
    then show ?thesis
      using gi getExec_wf [OF gi assms] put_wf by (auto simp: Remove_handle_def split: option.split)
  qed
qed

lemma getOrCreatePool_frame:
  assumes "getOrCreatePool drv p db (s, w) = ((s1, w1), r)"
  shows "handle_at s1 = handle_at s" "store_wf s \<Longrightarrow> store_wf s1" "ids_left s1 p' e = ids_left s p' e"
proof -
  have cases: "s1 = s \<or> (\<exists>ps pool. s p = Some ps \<and> s1 = s(p \<mapsto> ps\<lparr>ps_pools := AList.update db pool (ps_pools ps)\<rparr>))"
    using assms unfolding getOrCreatePool_def getPluginState_def
    by (auto split: option.splits sum.splits prod.splits if_splits)
  then show "handle_at s1 = handle_at s" by (auto simp: fun_eq_iff handle_at_def)
  show "store_wf s1" if "store_wf s"
    using cases that store_wfD [OF that] by (auto simp: store_wf_upd)
  show "ids_left s1 p' e = ids_left s p' e" using cases by (elim disjE exE conjE) (simp_all add: ids_left_def)
qed

subsection \<open>Connections are accounted for\<close>

text \<open>
  What is expected of the driver: \<open>out w\<close> are the connections that are checked out of their pools;
  acquiring checks out one that was not, releasing gives it back, nothing else changes the set.
\<close>

definition driver_ok :: "('w, 'p, 'c, 'x, 'r) sql_driver \<Rightarrow> ('w \<Rightarrow> 'c set) \<Rightarrow> bool" where
  "driver_ok drv out \<longleftrightarrow>
     (\<forall>p w w1 err. pool_Acquire drv p w = (w1, Inl err) \<longrightarrow> out w1 = out w) \<and>
     (\<forall>p w w1 c. pool_Acquire drv p w = (w1, Inr c) \<longrightarrow> c \<notin> out w \<and> out w1 = insert c (out w)) \<and>
     (\<forall>c w. out (conn_Release drv c w) = out w - {c}) \<and>
     (\<forall>d w. out (fst (pool_New drv d w)) = out w) \<and>
     (\<forall>p q w. out (fst (pool_Exec drv p q w)) = out w) \<and>
     (\<forall>p w. out (pool_Close drv p w) = out w) \<and>
     (\<forall>c q a w. out (fst (conn_Exec drv c q a w)) = out w) \<and>
     (\<forall>c q a w. out (fst (conn_Query drv c q a w)) = out w) \<and>
     (\<forall>c b i w. out (fst (conn_BeginTx drv c b i w)) = out w) \<and>
     (\<forall>x q a w. out (fst (tx_Exec drv x q a w)) = out w) \<and>
     (\<forall>x q a w. out (fst (tx_Query drv x q a w)) = out w) \<and>
     (\<forall>x w. out (fst (tx_Commit drv x w)) = out w) \<and>
     (\<forall>x w. out (fst (tx_Rollback drv x w)) = out w) \<and>
     (\<forall>r w. out (fst (rows_Next drv r w)) = out w) \<and>
     (\<forall>r w. out (rows_Close drv r w) = out w)"

text \<open>The connections \<open>C\<close> are those that the handles \<open>H\<close> name, each by one handle.\<close>

fun is_conn :: "('c, 'x, 'r) sql_handle \<Rightarrow> bool" where
  "is_conn (ConnHandle _) = True"
| "is_conn _ = False"

definition owned :: "('k \<rightharpoonup> ('c, 'x, 'r) sql_handle) \<Rightarrow> 'c set \<Rightarrow> bool" where
  "owned H C \<longleftrightarrow> (\<forall>c. c \<in> C \<longleftrightarrow> (\<exists>k. H k = Some (ConnHandle c))) \<and>
     (\<forall>k k' c. H k = Some (ConnHandle c) \<longrightarrow> H k' = Some (ConnHandle c) \<longrightarrow> k = k')"

lemma owned_put: "owned H C \<Longrightarrow> H k = None \<Longrightarrow> \<not> is_conn h \<Longrightarrow> owned (H(k \<mapsto> h)) C"
  unfolding owned_def by (cases h) (simp_all, metis option.distinct(1), metis option.distinct(1))

lemma owned_open: "owned H C \<Longrightarrow> H k = None \<Longrightarrow> c \<notin> C \<Longrightarrow> owned (H(k \<mapsto> ConnHandle c)) (insert c C)"
  unfolding owned_def by (auto split: if_splits) (metis option.distinct(1))

lemma owned_drop: "owned H C \<Longrightarrow> H k = Some h \<Longrightarrow> \<not> is_conn h \<Longrightarrow> owned (H(k := None)) C"
  unfolding owned_def by (cases h) (simp_all, metis option.inject sql_handle.distinct(1), metis option.inject sql_handle.distinct(3))

lemma owned_ex1: "owned H C \<Longrightarrow> c \<in> C \<longleftrightarrow> (\<exists>!k. H k = Some (ConnHandle c))"
  unfolding owned_def by metis

lemma owned_release: "owned H C \<Longrightarrow> H k = Some (ConnHandle c) \<Longrightarrow> owned (H(k := None)) (C - {c})"
  unfolding owned_def by (auto split: if_splits) (metis option.inject sql_handle.inject(1))

definition conns_ok :: "('w \<Rightarrow> 'c set) \<Rightarrow> ('p, 'c, 'x, 'r) sql_store \<times> 'w \<Rightarrow> bool" where
  "conns_ok out sw \<longleftrightarrow> store_wf (fst sw) \<and> owned (handle_at (fst sw)) (out (snd sw))"

text \<open>
  Handles are used for what they are when a transaction is ended and a cursor is closed by these
  calls: neither is called on the handle of a connection.
\<close>

fun used_as_meant :: "('p, 'c, 'x, 'r) sql_store \<Rightarrow> string \<Rightarrow> string \<Rightarrow> sql_call \<Rightarrow> bool" where
  "used_as_meant s p e (CallEnd (Inr (i, _))) = (case handle_at s (p, e, i) of Some h \<Rightarrow> \<not> is_conn h | None \<Rightarrow> True)"
| "used_as_meant s p e (CallRowsClose (Inr i)) = (case handle_at s (p, e, i) of Some h \<Rightarrow> \<not> is_conn h | None \<Rightarrow> True)"
| "used_as_meant s p e _ = True"

lemma conns_same:
  "conns_ok out (s, w) \<Longrightarrow> store_wf s1 \<Longrightarrow> handle_at s1 = handle_at s \<Longrightarrow> out w1 = out w \<Longrightarrow> conns_ok out (s1, w1)"
  by (simp add: conns_ok_def)

lemma conns_Get:
  "conns_ok out (s, w) \<Longrightarrow> Get_handle p e i s = (s1, r) \<Longrightarrow> out w1 = out w \<Longrightarrow> conns_ok out (s1, w1)"
  using Get_frame [of p e i s] Get_wf [of s p e i] by (simp add: conns_ok_def)

lemma conns_Remove_err:
  "conns_ok out (s, w) \<Longrightarrow> Remove_handle p e i s = (s1, Inl err) \<Longrightarrow> out w1 = out w \<Longrightarrow> conns_ok out (s1, w1)"
  using Remove_frame [of p e i s s1 err] Remove_wf [of s p e i] by (simp add: conns_ok_def)

lemma conns_Remove:
  assumes "conns_ok out (s, w)" "Remove_handle p e i s = (s1, Inr h)"
    "out w1 = (case h of ConnHandle c \<Rightarrow> out w - {c} | _ \<Rightarrow> out w)"
  shows "conns_ok out (s1, w1)"
proof -
  have own: "owned (handle_at s) (out w)" and wf: "store_wf s1"
    using assms(1,2) Remove_wf [of s p e i] by (simp_all add: conns_ok_def)
  note r = Remove_result [OF assms(2)]
  show ?thesis
    using own wf r assms(3) owned_drop [OF own r(1)] owned_release [OF own, of "(p, e, i)"]
    by (cases h) (simp_all add: conns_ok_def)
qed

lemma conns_Alloc_err:
  "conns_ok out (s, w) \<Longrightarrow> ids_left s p e \<Longrightarrow> Alloc p e h s = (s1, Inl err) \<Longrightarrow> out w1 = out w \<Longrightarrow> conns_ok out (s1, w1)"
  using Alloc_frame [of p e h s s1 err] Alloc_wf [of p e h s s1 "Inl err"] by (simp add: conns_ok_def)

lemma conns_Alloc:
  assumes "conns_ok out (s, w)" "ids_left s p e" "Alloc p e h s = (s1, Inr i)"
    "case h of ConnHandle c \<Rightarrow> c \<notin> out w \<and> out w1 = insert c (out w) | _ \<Rightarrow> out w1 = out w"
  shows "conns_ok out (s1, w1)"
proof -
  have wf: "store_wf s" and own: "owned (handle_at s) (out w)" using assms(1) by (simp_all add: conns_ok_def)
  note new = Alloc_new [OF assms(3) wf] and wf1 = Alloc_wf [OF assms(3) wf assms(2)]
  show ?thesis
    using own wf1 new(1) assms(4) owned_put [OF own new(2)] owned_open [OF own new(2)]
    by (cases h) (simp_all add: conns_ok_def)
qed

lemma Get_ids:
  assumes "Get_handle p e i s = (s1, r)"
  shows "ids_left s1 p e = ids_left s p e"
proof -
  have "ids_left (fst (getExecHandles p e s)) p e = ids_left s p e"
    unfolding getExec_new putExecHandles_def ids_left_def by (auto simp: update_conv' split: option.split)
  moreover have "s1 = fst (getExecHandles p e s)"
    using assms unfolding Get_handle_def by (auto split: prod.splits sum.splits option.splits)
  ultimately show ?thesis by simp
qed

lemma preamble_Inr: "sql_preamble perms p q (Some s) = Inr (r, s1) \<Longrightarrow> s1 = s \<and> q = Inr r"
  by (auto simp: sql_preamble_def split: option.splits sum.splits)

definition state_ok :: "('w \<Rightarrow> 'c set) \<Rightarrow> ('w, 'p, 'c, 'x, 'r) sql_state \<Rightarrow> bool" where
  "state_ok out sw \<longleftrightarrow> (case fst sw of None \<Rightarrow> False | Some s \<Rightarrow> conns_ok out (s, snd sw))"

lemma state_ok_Some [simp]: "state_ok out (Some s, w) = conns_ok out (s, w)"
  by (simp add: state_ok_def)

lemma driver_acquire:
  assumes "driver_ok drv out"
  shows "pool_Acquire drv p w = (w1, Inl err) \<Longrightarrow> out w1 = out w"
    and "pool_Acquire drv p w = (w1, Inr c) \<Longrightarrow> c \<notin> out w \<and> out w1 = insert c (out w)"
  using conjunct1 [OF assms [unfolded driver_ok_def]]
    conjunct1 [OF conjunct2 [OF assms [unfolded driver_ok_def]]] by blast+

lemma driver_okD:
  assumes "driver_ok drv out"
  shows "pool_Acquire drv p w = (w1, Inl err) \<Longrightarrow> out w1 = out w"
    and "pool_Acquire drv p w = (w1, Inr c) \<Longrightarrow> c \<notin> out w \<and> out w1 = insert c (out w)"
    and "out (conn_Release drv c w) = out w - {c}"
    and "out (fst (pool_New drv d w)) = out w"
    and "out (fst (pool_Exec drv p q w)) = out w"
    and "out (pool_Close drv p w) = out w"
    and "out (fst (conn_Exec drv c q a w)) = out w"
    and "out (fst (conn_Query drv c q a w)) = out w"
    and "out (fst (conn_BeginTx drv c b i w)) = out w"
    and "out (fst (tx_Exec drv x q a w)) = out w"
    and "out (fst (tx_Query drv x q a w)) = out w"
    and "out (fst (tx_Commit drv x w)) = out w"
    and "out (fst (tx_Rollback drv x w)) = out w"
    and "out (fst (rows_Next drv r w)) = out w"
    and "out (rows_Close drv r w) = out w"
  using assms driver_acquire [OF assms, of p w w1] by (blast, blast, simp_all add: driver_ok_def)

lemma getOrCreatePool_out:
  assumes "driver_ok drv out"
  shows "out (snd (fst (getOrCreatePool drv p db (s, w)))) = out w"
proof -
  obtain w1 r1 where n: "pool_New drv (DSN s p db) w = (w1, r1)" by fastforce
  have w1: "out w1 = out w" using driver_okD(4) [OF assms] n by (metis fst_conv)
  have "out (fst (pool_Exec drv pl q w1)) = out w" "out (pool_Close drv pl w2) = out w2" for pl q w2
    using driver_okD(5,6) [OF assms] w1 by simp_all
  then show ?thesis
    using n w1 by (auto simp: getOrCreatePool_def case_prod_unfold split: sum.split option.split)
qed

lemma Open_ok:
  assumes d: "driver_ok drv out" and ok: "conns_ok out (s, w)" and ids: "ids_left s p e"
  shows "state_ok out (fst (sqlOpenFunc drv perms p e q (Some s, w)))"
proof (cases "sql_preamble perms p q (Some s)")
  case (Inl err)
  then show ?thesis using ok by (simp add: sqlOpenFunc_def)
next
  case (Inr r)
  then obtain name where pre: "sql_preamble perms p q (Some s) = Inr (name, s)"
    using preamble_Inr [of perms p q s "fst r" "snd r"] by (cases r) auto
  let ?db = "if name = '''' then ''default'' else name"
  obtain s1 w1 r1 where pool: "getOrCreatePool drv p ?db (s, w) = ((s1, w1), r1)" by (metis surj_pair)
  have "out w1 = out w" using getOrCreatePool_out [OF d, of p ?db s w] pool by simp
  then have ok1: "conns_ok out (s1, w1)" and ids1: "ids_left s1 p e"
    using ok ids getOrCreatePool_frame [OF pool] by (auto simp: conns_ok_def)
  show ?thesis
  proof (cases r1)
    case (Inl err)
    then show ?thesis using pre pool ok1 by (simp add: sqlOpenFunc_def Let_def)
  next
    case pl: (Inr pool1)
    obtain w2 r2 where acq: "pool_Acquire drv pool1 w1 = (w2, r2)" by fastforce
    show ?thesis
    proof (cases r2)
      case (Inl err)
      then show ?thesis
        using pre pool pl acq ok1 driver_okD(1) [OF d, of pool1 w1 w2 err] by (simp add: sqlOpenFunc_def Let_def conns_ok_def)
    next
      case (Inr c)
      have c: "c \<notin> out w1" "out w2 = insert c (out w1)" using driver_okD(2) [OF d acq [unfolded Inr]] by auto
      obtain s2 r3 where al: "Alloc p e (ConnHandle c) s1 = (s2, r3)" by fastforce
      show ?thesis
      proof (cases r3)
        case (Inl err)
        have "out (conn_Release drv c w2) = out w1" using c driver_okD(3) [OF d] by auto
        then show ?thesis
          using pre pool pl acq Inr al Inl conns_Alloc_err [OF ok1 ids1 al [unfolded Inl]] by (simp add: sqlOpenFunc_def Let_def)
      next
        case h: (Inr i)
        then show ?thesis
          using pre pool pl acq Inr al c conns_Alloc [OF ok1 ids1 al [unfolded h]] by (simp add: sqlOpenFunc_def Let_def)
      qed
    qed
  qed
qed

lemma preamble_cases:
  obtains (err) err where "sql_preamble perms p q (Some s) = Inl err"
  | (req) r where "sql_preamble perms p q (Some s) = Inr (r, s)" "q = Inr r"
proof (cases "sql_preamble perms p q (Some s)")
  case (Inr r)
  then show ?thesis using preamble_Inr [of perms p q s "fst r" "snd r"] that(2) [of "fst r"] by (cases r) auto
qed (rule that(1))

lemma Close_ok:
  assumes d: "driver_ok drv out" and ok: "conns_ok out (s, w)"
  shows "state_ok out (fst (sqlCloseFunc drv perms p e q (Some s, w)))"
proof (cases rule: preamble_cases [of perms p q s])
  case (req i)
  obtain s1 r where rm: "Remove_handle p e i s = (s1, r)" by fastforce
  have "conns_ok out (s1, w)" if "r = Inl err" for err using conns_Remove_err [OF ok rm [unfolded that]] by simp
  moreover have "conns_ok out (s1, release_conn drv h w)" if "r = Inr h" for h
    by (rule conns_Remove [OF ok rm [unfolded that]]) (simp add: release_conn_def driver_okD(3) [OF d] split: sql_handle.split)
  ultimately show ?thesis using req rm by (cases r) (simp_all add: sqlCloseFunc_def)
qed (use ok in \<open>simp add: sqlCloseFunc_def\<close>)

lemma RowsClose_ok:
  assumes d: "driver_ok drv out" and ok: "conns_ok out (s, w)" and u: "used_as_meant s p e (CallRowsClose q)"
  shows "state_ok out (fst (sqlRowsCloseFunc drv perms p e q (Some s, w)))"
proof (cases rule: preamble_cases [of perms p q s])
  case (req i)
  obtain s1 r where rm: "Remove_handle p e i s = (s1, r)" by fastforce
  have "conns_ok out (s1, w)" if "r = Inl err" for err using conns_Remove_err [OF ok rm [unfolded that]] by simp
  moreover have "conns_ok out (s1, close_rows drv h w)" if "r = Inr h" for h
    using u req Remove_result(1) [OF rm [unfolded that]]
    by (intro conns_Remove [OF ok rm [unfolded that]]) (cases h; simp add: close_rows_def driver_okD(15) [OF d])
  ultimately show ?thesis using req rm by (cases r) (simp_all add: sqlRowsCloseFunc_def)
qed (use ok in \<open>simp add: sqlRowsCloseFunc_def\<close>)

lemma End_ok:
  assumes d: "driver_ok drv out" and ok: "conns_ok out (s, w)" and u: "used_as_meant s p e (CallEnd q)"
  shows "state_ok out (fst (sqlEndFunc drv perms p e q (Some s, w)))"
proof (cases rule: preamble_cases [of perms p q s])
  case (req r0)
  obtain i b where r0: "r0 = (i, b)" by fastforce
  obtain s1 r where rm: "Remove_handle p e i s = (s1, r)" by fastforce
  show ?thesis
  proof (cases r)
    case (Inl err)
    then show ?thesis using req r0 rm conns_Remove_err [OF ok rm [unfolded Inl]] by (simp add: sqlEndFunc_def)
  next
    case (Inr h)
    have kept: "conns_ok out (s1, w1)" if "out w1 = out w" for w1
      using u req r0 that Remove_result(1) [OF rm [unfolded Inr]]
      by (intro conns_Remove [OF ok rm [unfolded Inr]]) (cases h; simp)
    show ?thesis
    proof (cases h)
      case (TxHandle tx k)
      obtain w1 r1 where w1: "(if b then tx_Commit drv tx w else tx_Rollback drv tx w) = (w1, r1)" by fastforce
      have "out w1 = out w" using w1 driver_okD(12,13) [OF d] by (cases b; simp; metis fst_conv)
      then show ?thesis using req r0 rm Inr TxHandle w1 kept by (cases b; cases r1) (simp_all add: sqlEndFunc_def)
    qed (use req r0 rm Inr kept in \<open>simp_all add: sqlEndFunc_def\<close>)
  qed
qed (use ok in \<open>simp add: sqlEndFunc_def\<close>)

lemma Exec_ok:
  assumes d: "driver_ok drv out" and ok: "conns_ok out (s, w)"
  shows "state_ok out (fst (sqlExecFunc drv perms p e q (Some s, w)))"
proof (cases rule: preamble_cases [of perms p q s])
  case (req r0)
  obtain i sql a where r0: "r0 = (i, sql, a)" by (cases r0)
  obtain s1 r where g: "Get_handle p e i s = (s1, r)" by fastforce
  note ok1 = conns_Get [OF ok g]
  show ?thesis
    using req r0 g ok1 driver_okD(7,10) [OF d]
    by (auto simp: sqlExecFunc_def Let_def split: sum.split sql_handle.split prod.split; metis fst_conv)
qed (use ok in \<open>simp add: sqlExecFunc_def\<close>)

lemma opened_ok:
  assumes "driver_ok drv out" "conns_ok out (s, w)" "ids_left s p e" "out w1 = out w"
  shows "state_ok out (fst (case Alloc p e (RowsHandle rows cols i) s of
           (s2, Inl err) \<Rightarrow> ((Some s2, rows_Close drv rows w1), HostError err)
         | (s2, Inr cursorID) \<Rightarrow> ((Some s2, w1), HostAnswer (SqlCursor cursorID cols))))"
  using assms driver_okD(15) [OF assms(1)]
  by (auto split: prod.split sum.split intro: conns_Alloc_err conns_Alloc)

lemma Query_ok:
  assumes d: "driver_ok drv out" and ok: "conns_ok out (s, w)" and ids: "ids_left s p e"
  shows "state_ok out (fst (sqlQueryFunc drv perms p e q (Some s, w)))"
proof (cases rule: preamble_cases [of perms p q s])
  case (req r0)
  obtain i sql a where r0: "r0 = (i, sql, a)" by (cases r0)
  obtain s1 r where g: "Get_handle p e i s = (s1, r)" by fastforce
  have ok1: "conns_ok out (s1, w)" using conns_Get [OF ok g] by simp
  have ids1: "ids_left s1 p e" using Get_ids [OF g] ids by simp
  show ?thesis
  proof (cases r)
    case (Inl err)
    then show ?thesis using req r0 g ok1 by (simp add: sqlQueryFunc_def)
  next
    case (Inr h)
    have run: "state_ok out (fst (case z of (w1, r1) \<Rightarrow> (case r1 of
                 Inl err \<Rightarrow> ((Some s1, w1), HostError (Wrap ''sql query: '' err ''''))
               | Inr rows \<Rightarrow>
                   (case Alloc p e (RowsHandle rows (rows_Columns drv rows w1) i) s1 of
                      (s2, Inl err) \<Rightarrow> ((Some s2, rows_Close drv rows w1), HostError err)
                    | (s2, Inr c) \<Rightarrow> ((Some s2, w1), HostAnswer (SqlCursor c (rows_Columns drv rows w1)))))))"
      if "out (fst z) = out w" for z
      using ok1 that opened_ok [OF d ok1 ids1, of "fst z"]
      by (cases z; cases "snd z") (simp_all add: conns_ok_def)
    show ?thesis
      using req r0 g Inr ok1 run driver_okD(8,11) [OF d] by (cases h) (simp_all add: sqlQueryFunc_def Let_def)
  qed
qed (use ok in \<open>simp add: sqlQueryFunc_def\<close>)

lemma Begin_ok:
  assumes d: "driver_ok drv out" and ok: "conns_ok out (s, w)" and ids: "ids_left s p e"
  shows "state_ok out (fst (sqlBeginFunc drv perms p e q (Some s, w)))"
proof (cases rule: preamble_cases [of perms p q s])
  case (req r0)
  obtain i ro iso where r0: "r0 = (i, ro, iso)" by (cases r0)
  obtain s1 r where g: "Get_handle p e i s = (s1, r)" by fastforce
  have ok1: "conns_ok out (s1, w)" using conns_Get [OF ok g] by simp
  have ids1: "ids_left s1 p e" using Get_ids [OF g] ids by simp
  show ?thesis
  proof (cases r)
    case (Inl err)
    then show ?thesis using req r0 g ok1 by (simp add: sqlBeginFunc_def)
  next
    case (Inr h)
    show ?thesis
    proof (cases h)
      case (ConnHandle c)
      obtain w1 r1 where b: "conn_BeginTx drv c ro (isolation_of iso) w = (w1, r1)" by fastforce
      have w1: "out w1 = out w" using driver_okD(9) [OF d] b by (metis fst_conv)
      show ?thesis
      proof (cases r1)
        case (Inl err)
        then show ?thesis using req r0 g Inr ConnHandle b w1 ok1 by (simp add: sqlBeginFunc_def conns_ok_def)
      next
        case tx: (Inr tx)
        obtain s2 r2 where al: "Alloc p e (TxHandle tx i) s1 = (s2, r2)" by fastforce
        have "conns_ok out (s2, fst (tx_Rollback drv tx w1))" if "r2 = Inl err" for err
          using conns_Alloc_err [OF ok1 ids1 al [unfolded that]] driver_okD(13) [OF d] w1 by simp
        moreover have "conns_ok out (s2, w1)" if "r2 = Inr k" for k
          using conns_Alloc [OF ok1 ids1 al [unfolded that]] w1 by simp
        ultimately show ?thesis
          using req r0 g Inr ConnHandle b tx al by (cases r2) (simp_all add: sqlBeginFunc_def)
      qed
    qed (use req r0 g Inr ok1 in \<open>simp_all add: sqlBeginFunc_def\<close>)
  qed
qed (use ok in \<open>simp add: sqlBeginFunc_def\<close>)

lemma Next_ok:
  assumes d: "driver_ok drv out" and ok: "conns_ok out (s, w)"
  shows "state_ok out (fst (sqlNextFunc fm drv perms p e q (Some s, w)))"
proof (cases rule: preamble_cases [of perms p q s])
  case (req i)
  obtain s1 r where g: "Get_handle p e i s = (s1, r)" by fastforce
  have ok1: "conns_ok out (s1, w)" using conns_Get [OF ok g] by simp
  show ?thesis
  proof (cases r)
    case (Inl err)
    then show ?thesis using req g ok1 by (simp add: sqlNextFunc_def)
  next
    case (Inr h)
    show ?thesis
    proof (cases h)
      case (RowsHandle rows cols k)
      obtain w1 more where nx: "rows_Next drv rows w = (w1, more)" by fastforce
      have w1: "out w1 = out w" using driver_okD(14) [OF d] nx by (metis fst_conv)
      then have okw: "conns_ok out (s1, w1)" using ok1 by (simp add: conns_ok_def)
      obtain s2 r2 where rm: "Remove_handle p e i s1 = (s2, r2)" by fastforce
      have at: "handle_at s1 (p, e, i) = Some h"
        using Get_result [of p e i s s1 h] Get_frame [of p e i s] g Inr by simp
      have "conns_ok out (s2, rows_Close drv rows w1)"
      proof (cases r2)
        case (Inl err)
        then show ?thesis using conns_Remove_err [OF ok1 rm [unfolded Inl]] w1 driver_okD(15) [OF d] by simp
      next
        case h2: (Inr h2)
        then have "h2 = h" using Remove_result(1) [OF rm [unfolded h2]] at by simp
        then show ?thesis
          using conns_Remove [OF ok1 rm [unfolded h2]] w1 driver_okD(15) [OF d] RowsHandle by simp
      qed
      then show ?thesis
        using req g Inr RowsHandle nx okw rm
        by (cases more) (simp_all add: sqlNextFunc_def split: option.split sum.split)
    qed (use req g Inr ok1 in \<open>simp_all add: sqlNextFunc_def\<close>)
  qed
qed (use ok in \<open>simp add: sqlNextFunc_def\<close>)

lemma sql_host_call_ok:
  assumes "driver_ok drv out" "conns_ok out (s, w)" "ids_left s p e" "used_as_meant s p e call"
  shows "state_ok out (fst (sql_host_call fm drv perms p e call (Some s, w)))"
  using assms Open_ok Close_ok Exec_ok Query_ok Next_ok RowsClose_ok Begin_ok End_ok
  by (cases call) (simp_all only: sql_host_call.simps)

text \<open>Ending an execution, and unloading a plugin.\<close>

lemma fold_out:
  assumes "\<And>h w. out (f h w) = out w"
  shows "out (fold f hs w) = out w"
  using assms by (induction hs arbitrary: w) auto

lemma fold_release:
  assumes "driver_ok drv out"
  shows "out (fold (release_conn drv) hs w) = out w - {c. ConnHandle c \<in> set hs}"
  using assms by (induction hs arbitrary: w) (auto simp: release_conn_def driver_okD(3) split: sql_handle.splits)

lemma owned_restrict:
  assumes "owned H C" "\<And>k. H' k = (if k \<in> K then None else H k)" "C' = C - {c. \<exists>k \<in> K. H k = Some (ConnHandle c)}"
  shows "owned H' C'"
  using assms unfolding owned_def by (auto split: if_splits) metis

lemma cleanup_out:
  assumes "driver_ok drv out" "store_wf s" "s p = Some ps"
  shows "out (snd (cleanupExecutionLocked drv e ps w)) =
           out w - {c. \<exists>i. handle_at s (p, e, i) = Some (ConnHandle c)}"
proof (cases "map_of (ps_executions ps) e")
  case None
  then show ?thesis using assms by (simp add: cleanupExecutionLocked_def handle_at_def)
next
  case (Some eh)
  have d: "distinct (map fst (eh_handles eh))"
    using store_wfD(2) [of s p ps] assms(2,3) Some by (auto simp: handles_wf_def dest: map_of_SomeD)
  have cr: "out (close_rows drv h v) = out v" "out (rollback_tx drv h v) = out v" for h v
    using driver_okD(13,15) [OF assms(1)] by (simp_all add: close_rows_def rollback_tx_def split: sql_handle.split)
  have "ConnHandle c \<in> snd ` set (eh_handles eh) \<longleftrightarrow> (\<exists>i. map_of (eh_handles eh) i = Some (ConnHandle c))" for c
    using map_of_eq_Some_iff [OF d] by force
  then show ?thesis
    using assms Some fold_release [OF assms(1), of "map snd (eh_handles eh)"] cr
    by (auto simp: cleanupExecutionLocked_def Let_def handle_at_def fold_out)
qed

lemma cleanup_execs: "ps_executions (fst (cleanupExecutionLocked drv e ps w)) = AList.delete e (ps_executions ps)"
  by (auto simp: cleanupExecutionLocked_def Let_def AList.delete_id map_of_eq_None_iff split: option.split)

lemma delete_subset: "set (AList.delete k xs) \<subseteq> set xs"
  by (auto simp: AList.delete_eq)

lemma cleanup_store:
  assumes "store_wf s" "s p = Some ps"
  shows "store_wf (s(p \<mapsto> fst (cleanupExecutionLocked drv e ps w)))"
  using store_wfD [OF assms] delete_subset [of e "ps_executions ps"] assms(1)
  by (intro store_wf_upd) (auto simp: cleanup_execs distinct_delete)

lemma Cleanup_ok:
  assumes d: "driver_ok drv out" and ok: "conns_ok out (s, w)"
  shows "conns_ok out (CleanupExecution drv p e (s, w))"
proof (cases "s p")
  case None
  then show ?thesis using ok by (simp add: CleanupExecution_def)
next
  case (Some ps)
  obtain ps' w' where c: "cleanupExecutionLocked drv e ps w = (ps', w')" by fastforce
  have wf: "store_wf s" using ok by (simp add: conns_ok_def)
  let ?K = "{k. \<exists>i. k = (p, e, i)}"
  have H: "handle_at (s(p \<mapsto> ps')) k = (if k \<in> ?K then None else handle_at s k)" for k
    using Some cleanup_execs [of drv e ps w] c
    by (cases k) (auto simp: handle_at_def delete_conv' split: option.splits)
  have O: "out w' = out w - {x. \<exists>k \<in> ?K. handle_at s k = Some (ConnHandle x)}"
    using cleanup_out [of drv out s p ps e w] d wf Some c by auto
  show ?thesis
    using Some c cleanup_store [OF wf Some, of drv e w] owned_restrict [OF _ H O] ok
    by (simp add: CleanupExecution_def conns_ok_def)
qed

lemma cleanup_fold:
  assumes "s p = Some ps"
  shows "fold (\<lambda>e (ps, w). cleanupExecutionLocked drv e ps w) es (ps, w) = (ps1, w1) \<Longrightarrow>
    fold (CleanupExecution drv p) es (s, w) = (s(p \<mapsto> ps1), w1) \<and>
    ps_executions ps1 = fold AList.delete es (ps_executions ps)"
  using assms
proof (induction es arbitrary: s ps w)
  case Nil
  then show ?case by (auto simp: fun_upd_idem)
next
  case (Cons e es)
  obtain ps' w' where c: "cleanupExecutionLocked drv e ps w = (ps', w')" by fastforce
  have "CleanupExecution drv p e (s, w) = (s(p \<mapsto> ps'), w')" using Cons.prems(2) c by (simp add: CleanupExecution_def)
  moreover have "ps_executions ps' = AList.delete e (ps_executions ps)" using cleanup_execs [of drv e ps w] c by simp
  moreover have "fold (CleanupExecution drv p) es (s(p \<mapsto> ps'), w') = (s(p \<mapsto> ps', p \<mapsto> ps1), w1) \<and>
      ps_executions ps1 = fold AList.delete es (ps_executions ps')"
    by (rule Cons.IH) (use Cons.prems(1) c in simp_all)
  ultimately show ?case by (simp only: fold_simps fun_upd_upd)
qed

lemma delete_all: "fst ` set xs \<subseteq> set ks \<Longrightarrow> fold AList.delete ks xs = []"
proof (induction ks arbitrary: xs)
  case (Cons k ks)
  have "fst ` set (AList.delete k xs) \<subseteq> set ks" using Cons.prems by (auto simp: AList.delete_eq)
  then show ?case using Cons.IH by simp
qed simp

lemma Cleanups_ok:
  assumes "driver_ok drv out" "conns_ok out sw"
  shows "conns_ok out (fold (CleanupExecution drv p) es sw)"
  using assms(2)
proof (induction es arbitrary: sw)
  case (Cons e es)
  have "conns_ok out (CleanupExecution drv p e sw)"
    using Cleanup_ok [OF assms(1), of "fst sw" "snd sw"] Cons.prems by simp
  then show ?case using Cons.IH by simp
qed simp

lemma Unregister_ok:
  assumes d: "driver_ok drv out" and ok: "conns_ok out (s, w)"
  shows "conns_ok out (UnregisterPlugin drv p (s, w))"
proof (cases "s p")
  case None
  then show ?thesis using ok by (simp add: UnregisterPlugin_def)
next
  case (Some ps)
  let ?es = "map fst (ps_executions ps)"
  obtain ps1 w1 where f: "fold (\<lambda>e (ps, w). cleanupExecutionLocked drv e ps w) ?es (ps, w) = (ps1, w1)" by fastforce
  have st: "fold (CleanupExecution drv p) ?es (s, w) = (s(p \<mapsto> ps1), w1)" and none: "ps_executions ps1 = []"
    using cleanup_fold [of s p ps drv ?es w ps1 w1] Some f delete_all [of "ps_executions ps" ?es] by auto
  have ok1: "conns_ok out (s(p \<mapsto> ps1), w1)" using Cleanups_ok [OF d ok, of p ?es] st by simp
  have "handle_at (s(p := None)) = handle_at (s(p \<mapsto> ps1))" using none by (auto simp: handle_at_def fun_eq_iff)
  moreover have "store_wf (s(p := None))" using ok by (auto simp: conns_ok_def store_wf_def ran_def)
  moreover have "out (fold (pool_Close drv) pools w1) = out w1" for pools
    using driver_okD(6) [OF d] by (rule fold_out)
  ultimately have "conns_ok out (s(p := None), fold (pool_Close drv) (map snd (ps_pools ps1)) w1)"
    by (intro conns_same [OF ok1])
  then show ?thesis using Some f by (simp add: UnregisterPlugin_def)
qed

lemma RegisterDSN_ok:
  assumes ok: "conns_ok out (s, w)"
  shows "conns_ok out (RegisterDSN p name dsn s, w)"
proof (rule conns_same [OF ok])
  show "handle_at (RegisterDSN p name dsn s) = handle_at s"
    by (auto simp: RegisterDSN_def handle_at_def fun_eq_iff split: option.split)
  show "store_wf (RegisterDSN p name dsn s)"
    using ok store_wfD [of s p]
    by (auto simp: RegisterDSN_def conns_ok_def Let_def intro!: store_wf_upd split: option.split)
qed simp

text \<open>
  The runs of the store: databases are registered, plugins call, executions end, plugins are
  unloaded. An execution never runs out of 32-bit identifiers, which it could only do after four
  billion calls within its time limit.
\<close>

inductive sql_run ::
    "formatters \<Rightarrow> ('w, 'p, 'c, 'x, 'r) sql_driver \<Rightarrow> 'w \<Rightarrow> ('p, 'c, 'x, 'r) sql_store \<times> 'w \<Rightarrow> bool"
  for fm drv w0 where
  run_start: "sql_run fm drv w0 (NewSQLHandleStore, w0)"
| run_dsn: "sql_run fm drv w0 (s, w) \<Longrightarrow> sql_run fm drv w0 (RegisterDSN p name dsn s, w)"
| run_call: "sql_run fm drv w0 (s, w) \<Longrightarrow> ids_left s p e \<Longrightarrow> used_as_meant s p e call \<Longrightarrow>
    sql_host_call fm drv perms p e call (Some s, w) = ((Some s', w'), answer) \<Longrightarrow> sql_run fm drv w0 (s', w')"
| run_end: "sql_run fm drv w0 sw \<Longrightarrow> sql_run fm drv w0 (CleanupExecution drv p e sw)"
| run_unload: "sql_run fm drv w0 sw \<Longrightarrow> sql_run fm drv w0 (UnregisterPlugin drv p sw)"

lemma sql_run_ok:
  assumes "sql_run fm drv w0 sw" "driver_ok drv out" "out w0 = {}"
  shows "conns_ok out sw"
  using assms
proof (induction rule: sql_run.induct)
  case run_start
  then show ?case
    by (simp add: conns_ok_def owned_def handle_at_def NewSQLHandleStore_def store_wf_def)
next
  case (run_call s w p e call perms s' w' answer)
  then show ?case using sql_host_call_ok [of drv out s w p e call fm perms] by simp
next
  case (run_end sw p e)
  then show ?case using Cleanup_ok [of drv out "fst sw" "snd sw" p e] by simp
next
  case (run_unload sw p)
  then show ?case using Unregister_ok [of drv out "fst sw" "snd sw" p] by simp
qed (simp add: RegisterDSN_ok)

text \<open>
  A driver whose world is the list of connections that are checked out, for the example below.
\<close>

definition demo_driver :: "(nat list, unit, nat, unit, unit) sql_driver" where
  "demo_driver =
     \<lparr>id_Sanitize = (\<lambda>s. s), pool_New = (\<lambda>_ w. (w, Inr ())), pool_Exec = (\<lambda>_ _ w. (w, None)), pool_Close = (\<lambda>_ w. w),
      pool_Acquire = (\<lambda>_ w. let c = foldr max w 0 + 1 in (c # w, Inr c)),
      conn_Release = (\<lambda>c w. removeAll c w),
      conn_Exec = (\<lambda>_ _ _ w. (w, Inr 0)), conn_Query = (\<lambda>_ _ _ w. (w, Inr ())), conn_BeginTx = (\<lambda>_ _ _ w. (w, Inr ())),
      tx_Exec = (\<lambda>_ _ _ w. (w, Inr 0)), tx_Query = (\<lambda>_ _ _ w. (w, Inr ())), tx_Commit = (\<lambda>_ w. (w, None)),
      tx_Rollback = (\<lambda>_ w. (w, None)), rows_Columns = (\<lambda>_ _. []), rows_Next = (\<lambda>_ w. (w, False)),
      rows_Err = (\<lambda>_ _. None), rows_Values = (\<lambda>_ _. Inr []), rows_Close = (\<lambda>_ w. w)\<rparr>"

lemma foldr_max_fresh: "x \<in> set w \<Longrightarrow> x \<le> foldr max w (0 :: nat)"
  by (induction w) auto

lemma demo_driver_ok: "driver_ok demo_driver set"
proof -
  have "Suc (foldr max w 0) \<notin> set w" for w using foldr_max_fresh [of "Suc (foldr max w 0)" w] by auto
  then show ?thesis by (auto simp: driver_ok_def demo_driver_def Let_def)
qed

definition demo_formatters :: formatters where
  "demo_formatters = \<lparr>fm_widen = ucast, fm_float = id, fm_time = (\<lambda>_. [])\<rparr>"

definition demo_sql_store :: "(unit, nat, unit, unit) sql_store" where
  "demo_sql_store = RegisterDSN ''p'' ''default'' ''d'' NewSQLHandleStore"


lemma demo_sql_run: "sql_run demo_formatters demo_driver [] (demo_sql_store, [])"
  unfolding demo_sql_store_def by (intro run_dsn run_start)

definition demo_opened :: "(unit, nat, unit, unit) sql_store" where
  "demo_opened = the (fst (fst (sqlOpenFunc demo_driver (Grant ''p'' [''sql''] newPermissionStore) ''p'' ''e'' (Inr [])
     (Some demo_sql_store, []))))"

lemma demo_open_call:
  "sqlOpenFunc demo_driver (Grant ''p'' [''sql''] newPermissionStore) ''p'' ''e'' (Inr []) (Some demo_sql_store, []) =
     ((Some demo_opened, [1]), HostAnswer (SqlHandle 1))"
  "handle_at demo_opened (''p'', ''e'', 1) = Some (ConnHandle 1)"
  unfolding demo_opened_def
  by (simp_all add: sqlOpenFunc_def sql_preamble_def CheckPermission_def Grant_def getOrCreatePool_def
      getPluginState_def demo_sql_store_def RegisterDSN_def DSN_def NewSQLHandleStore_def injectSearchPath_def
      demo_driver_def Alloc_def getExec_new putExecHandles_def handle_at_def SQLMaxHandlesPerExecution_def Let_def)

lemma demo_opened_run: "sql_run demo_formatters demo_driver [] (demo_opened, [1])"
proof (rule run_call [OF demo_sql_run])
  show "sql_host_call demo_formatters demo_driver (Grant ''p'' [''sql''] newPermissionStore) ''p'' ''e''
          (CallOpen (Inr [])) (Some demo_sql_store, []) = ((Some demo_opened, [1]), HostAnswer (SqlHandle 1))"
    by (simp only: sql_host_call.simps demo_open_call)
qed (simp_all add: ids_left_def demo_sql_store_def RegisterDSN_def NewSQLHandleStore_def)


lemma sql_handles_bounded:
  assumes "sql_run fm drv w0 (s, w)" "driver_ok drv out" "out w0 = {}" "s p = Some ps" "(e, eh) \<in> set (ps_executions ps)"
  shows "length (eh_handles eh) \<le> SQLMaxHandlesPerExecution"
  using store_wfD(2) [of s p ps] sql_run_ok [OF assms(1,2,3)] assms(4,5) by (auto simp: conns_ok_def handles_wf_def)

text \<open>
  The restriction to calls on handles of their own kind is needed: \<^verbatim>\<open>sql_end\<close> takes the handle out of
  the table before it looks at its kind, so a connection's handle is lost and the connection is
  neither released then nor when the execution ends.
\<close>

lemma sql_end_loses_connection:
  assumes "CheckPermission perms p ''sql'' = None" "handle_at s (p, e, i) = Some (ConnHandle c)"
  shows "\<exists>s'. sqlEndFunc drv perms p e (Inr (i, commit)) (Some s, w) =
           ((Some s', w), HostError (Plain (''handle '' @ FormatInt (uint i) @ '' is not a transaction''))) \<and>
         handle_at s' = (handle_at s)((p, e, i) := None)"
proof -
  obtain s' r where rm: "Remove_handle p e i s = (s', r)" by fastforce
  have "r = Inr (ConnHandle c)"
  proof (cases r)
    case (Inl err)
    obtain s2 q where g: "getExecHandles p e s = (s2, q)" by fastforce
    have False
    proof (cases q)
      case (Inl x)
      then show ?thesis using g assms(2) by (auto simp: getExec_new handle_at_def split: option.splits)
    next
      case eh: (Inr eh)
      then show ?thesis using rm g Inl getExec_handle_at [of p e s s2 eh i] assms(2)
        by (auto simp: Remove_handle_def split: option.splits)
    qed
    then show ?thesis ..
  next
    case (Inr h)
    then show ?thesis using Remove_result(1) [of p e i s s' h] rm assms(2) by simp
  qed
  then show ?thesis
    using rm assms(1) Remove_result(2) [of p e i s s' "ConnHandle c"]
    by (simp add: sqlEndFunc_def sql_preamble_def)
qed

end
