(* ===== verification/Wasm_Loader.thy ===== *)
theory Wasm_Loader
  imports Wasm_Module Sql_Store
begin

text \<open>
  The loader of WebAssembly plugins: \<^verbatim>\<open>internal/wasm/adapter/loader.go\<close>, \<^verbatim>\<open>loader_lifecycle.go\<close>,
  \<^verbatim>\<open>validate.go\<close> and \<^verbatim>\<open>plugin_migrate.go\<close>. Loading, reloading, reconfiguring and
  unloading a plugin change the table of loaded plugins, the host's permissions, HTTP policies and
  data sources, the triggers, and the registry of versions; all of them are fields of the loader
  here.

  Operations run one after another in this model; requests that run while a plugin is drained are
  the step relation at the end. The JSON documents of a configuration, the schema validator, goose
  and the clock are parameters. A raw JSON message is a string, the empty one standing for nil, which
  \<^verbatim>\<open>cloneRawMessage\<close> makes of an empty message.
\<close>

subsection \<open>Validation of configurations (validate.go)\<close>

datatype validation_error =
  ValidationError (ve_InstanceLocation: "string list") (ve_Message: string) (ve_Causes: "validation_error list")

datatype schema_verdict = SchemaOK | SchemaViolation validation_error string | SchemaFailure go_error

text \<open>The schema library: errors of parsing, adding and compiling a schema, and its verdict.\<close>

record json_schema =
  js_parse :: "string \<Rightarrow> go_error option"
  js_add :: "string \<Rightarrow> go_error option"
  js_compile :: "string \<Rightarrow> go_error option"
  js_validate :: "string \<Rightarrow> string \<Rightarrow> schema_verdict"

definition fieldLocation :: "string list \<Rightarrow> string" where
  "fieldLocation parts = (if length parts = 0 then '''' else Join parts ''.'')"

fun collectValidationDetails :: "validation_error \<Rightarrow> string list" where
  "collectValidationDetails (ValidationError location msg causes) =
     (if causes = []
      then (let loc = fieldLocation location
            in if loc = '''' then [msg] else [''field '' @ [CHR 0x27] @ loc @ [CHR 0x27] @ '': '' @ msg])
      else concat (map collectValidationDetails causes))"

definition formatValidationError :: "validation_error \<Rightarrow> string \<Rightarrow> go_error" where
  "formatValidationError ve txt =
     (let details = collectValidationDetails ve
      in if length details = 0 then Plain (''plugin config validation failed: '' @ txt)
         else Plain (''plugin config validation failed: '' @ Join details ''; ''))"

definition ValidateConfigAgainstSchema :: "json_schema \<Rightarrow> string \<Rightarrow> string \<Rightarrow> go_error option" where
  "ValidateConfigAgainstSchema js schema config =
     (if length schema = 0 then None
      else case js_parse js schema of
             Some err \<Rightarrow> Some (Wrap ''plugin config_schema is not valid JSON: '' err '''')
           | None \<Rightarrow>
      (case js_add js schema of
             Some err \<Rightarrow> Some (Wrap ''plugin config_schema is invalid: '' err '''')
           | None \<Rightarrow>
      (case js_compile js schema of
             Some err \<Rightarrow> Some (Wrap ''plugin config_schema compilation failed: '' err '''')
           | None \<Rightarrow>
      (case js_parse js config of
             Some err \<Rightarrow> Some (Wrap ''plugin config is not valid JSON: '' err '''')
           | None \<Rightarrow>
      (case js_validate js schema config of
             SchemaOK \<Rightarrow> None
           | SchemaViolation ve txt \<Rightarrow> Some (formatValidationError ve txt)
           | SchemaFailure err \<Rightarrow> Some (Wrap ''plugin config validation failed: '' err ''''))))))"

subsection \<open>Migrations of plugins (plugin\_migrate.go)\<close>

text \<open>
  goose and the connection it uses are a record of functions: opening, executing a statement, making
  a store and a provider over the files, applying all migrations and reverting all. Descriptions and
  identifiers are ASCII, as for schema names.
\<close>

record 'w goose =
  gs_Sanitize :: "string \<Rightarrow> string"
  gs_Open :: "string \<Rightarrow> go_error option"
  gs_Exec :: "string \<Rightarrow> string \<Rightarrow> 'w \<Rightarrow> 'w \<times> go_error option"
  gs_NewStore :: "string \<Rightarrow> go_error option"
  gs_NewProvider :: "string \<Rightarrow> string \<Rightarrow> (string \<times> string) list \<Rightarrow> 'w \<Rightarrow> 'w \<times> go_error option"
  gs_Up :: "string \<Rightarrow> string \<Rightarrow> (string \<times> string) list \<Rightarrow> 'w \<Rightarrow> 'w \<times> go_error option"
  gs_DownToZero :: "string \<Rightarrow> string \<Rightarrow> (string \<times> string) list \<Rightarrow> 'w \<Rightarrow> 'w \<times> go_error option"

definition sanitizeDescription :: "string \<Rightarrow> string" where
  "sanitizeDescription desc =
     (let s1 = ToLower (TrimSpace desc);
          s2 = map (\<lambda>c. if c = CHR '' '' then CHR ''_'' else c) s1;
          s3 = filter schema_char s2
      in if s3 = '''' then ''migration'' else s3)"

definition pluginMigrationTableName :: "string \<Rightarrow> string" where
  "pluginMigrationTableName pluginID =
     (let s1 = ToLower (TrimSpace pluginID);
          s2 = map (\<lambda>c. if schema_char c then c else CHR ''_'') s1;
          s3 = trim_chars (CHR ''_'') s2
      in ''_goose_plugin_'' @ (if s3 = '''' then ''plugin'' else s3))"

text \<open>The verb \<^verbatim>\<open>%06d\<close>.\<close>

definition pad6 :: "int \<Rightarrow> string" where
  "pad6 n = (if n < 0 then (let d = FormatInt (- n) in CHR ''-'' # replicate (5 - length d) (CHR ''0'') @ d)
             else (let d = FormatInt n in replicate (6 - length d) (CHR ''0'') @ d))"

definition migration_file :: "migration_def \<Rightarrow> string \<times> string" where
  "migration_file m =
     (let nl = [CHR 0x0A]
      in (pad6 (mg_Version m) @ ''_'' @ sanitizeDescription (mg_Description m) @ ''.sql'',
          ''-- +goose Up'' @ nl @ mg_Up m @ nl @
          (if mg_Down m \<noteq> '''' then nl @ ''-- +goose Down'' @ nl @ mg_Down m @ nl else '''')))"

definition migration_files :: "migration_def list \<Rightarrow> (string \<times> string) list" where
  "migration_files migrations = fold (\<lambda>m fs. AList.update (fst (migration_file m)) (snd (migration_file m)) fs) migrations []"

definition run_migrations ::
    "'w goose \<Rightarrow> string \<Rightarrow> string \<Rightarrow> migration_def list \<Rightarrow> 'w \<Rightarrow> 'w \<times> go_error option" where
  "run_migrations G pluginID dsn migrations w =
     (if length migrations = 0 then (w, None)
      else let fsys = migration_files migrations;
               tableName = pluginMigrationTableName pluginID
           in case gs_Open G dsn of
                Some err \<Rightarrow> (w, Some (Wrap ''open db for migrations: '' err ''''))
              | None \<Rightarrow>
           (case gs_Exec G dsn (''CREATE SCHEMA IF NOT EXISTS '' @ gs_Sanitize G (pluginSchemaName pluginID)) w of
                (w1, Some err) \<Rightarrow> (w1, Some (Wrap ''create plugin schema: '' err ''''))
              | (w1, None) \<Rightarrow>
           (case gs_NewStore G tableName of
                Some err \<Rightarrow> (w1, Some (Wrap ''create goose store: '' err ''''))
              | None \<Rightarrow>
           (case gs_NewProvider G dsn tableName fsys w1 of
                (w2, Some err) \<Rightarrow> (w2, Some (Wrap ''create goose provider: '' err ''''))
              | (w2, None) \<Rightarrow>
           (case gs_Up G dsn tableName fsys w2 of
                (w3, Some err) \<Rightarrow> (w3, Some (Wrap ''run migrations: '' err ''''))
              | (w3, None) \<Rightarrow> (w3, None))))))"

definition dropPluginMigrations ::
    "'w goose \<Rightarrow> string \<Rightarrow> string \<Rightarrow> migration_def list \<Rightarrow> 'w \<Rightarrow> 'w \<times> go_error option" where
  "dropPluginMigrations G pluginID dsn migrations w =
     (if length migrations = 0 then (w, None)
      else let fsys = migration_files migrations;
               tableName = pluginMigrationTableName pluginID
           in case gs_Open G dsn of
                Some err \<Rightarrow> (w, Some (Wrap ''open db for migrations: '' err ''''))
              | None \<Rightarrow>
           (case gs_NewStore G tableName of
                Some err \<Rightarrow> (w, Some (Wrap ''create goose store: '' err ''''))
              | None \<Rightarrow>
           (case gs_NewProvider G dsn tableName fsys w of
                (w1, Some err) \<Rightarrow> (w1, Some (Wrap ''create goose provider: '' err ''''))
              | (w1, None) \<Rightarrow>
           (case gs_DownToZero G dsn tableName fsys w1 of
                (w2, Some err) \<Rightarrow> (w2, Some (Wrap ''run down migrations: '' err ''''))
              | (w2, None) \<Rightarrow>
           (case gs_Exec G dsn (''DROP TABLE IF EXISTS '' @ gs_Sanitize G tableName) w2 of
                (w3, Some err) \<Rightarrow> (w3, Some (Wrap ''drop goose tracking table: '' err ''''))
              | (w3, None) \<Rightarrow>
           (case gs_Exec G dsn (''DROP SCHEMA IF EXISTS '' @ gs_Sanitize G (pluginSchemaName pluginID) @ '' CASCADE'') w3 of
                (w4, Some err) \<Rightarrow> (w4, Some (Wrap ''drop plugin schema: '' err ''''))
              | (w4, None) \<Rightarrow> (w4, None)))))))"

text \<open>
  Names are not injective: plugins whose identifiers differ only in case or punctuation share the
  schema and the table of applied migrations, and removing one drops the other's data.
\<close>

lemma schema_names_collide:
  "pluginSchemaName ''a-b'' = pluginSchemaName ''a.b''" "pluginSchemaName ''a-b'' = pluginSchemaName ''a_b''"
  "pluginMigrationTableName ''a-b'' = pluginMigrationTableName ''a_b''"
  by code_simp+

subsection \<open>The loader (loader.go)\<close>

record 'm wasm_plugin =
  wp_compiled :: "'m compiled_module"
  wp_meta :: plugin_meta
  wp_config :: string

record 'm loaded_plugin =
  lp_plugin :: "'m wasm_plugin"
  lp_compiled :: "'m compiled_module"
  lp_config :: string
  lp_draining :: bool
  lp_active :: int
  lp_drained :: bool

record 'm prepared_plugin =
  pp_meta :: plugin_meta
  pp_compiled :: "'m compiled_module"
  pp_config :: string
  pp_plugin :: "'m wasm_plugin"
  pp_wasmBytes :: string

record 'm reload_plan =
  rp_pluginID :: string
  rp_old :: "'m loaded_plugin"
  rp_config :: string
  rp_oldVersion :: string
  rp_oldPermissions :: "string list"

record loader_metrics =
  lm_loaded :: int
  lm_reloads :: "(string \<times> string) list"
  lm_reconfigures :: "(string \<times> string) list"

text \<open>
  What the loader uses: the runtime, the SQL driver, goose, the schema library, the data sources and HTTP policies that a configuration decodes to (an entry of
  \<^verbatim>\<open>databases\<close> that is not a string has no value), \<^verbatim>\<open>sort.Slice\<close>, the cron library and the clock.
\<close>

record ('w, 'm, 'p, 'c, 'x, 'r) loader_env =
  le_rt :: "('w, 'm) wasm_runtime"
  le_drv :: "('w, 'p, 'c, 'x, 'r) sql_driver"
  le_goose :: "'w goose"
  le_schema :: json_schema
  le_databases :: "string \<Rightarrow> (string \<times> string option) list option"
  le_policies :: "string \<Rightarrow> go_error + (string \<rightharpoonup> http_policy_config)"
  le_srt :: "version_entry sorter"
  le_cron_add :: "string \<Rightarrow> go_error option"
  le_now :: instant

record ('w, 'm, 'p, 'c, 'x, 'r) loader =
  ld_plugins :: "(string \<times> 'm loaded_plugin) list"
  ld_perms :: permission_store
  ld_policies :: "string \<rightharpoonup> http_policies"
  ld_sql :: "('p, 'c, 'x, 'r) sql_store option"
  ld_rpc :: bool
  ld_triggers :: "trigger_registry option"
  ld_registry :: "plugin_registry option"
  ld_strictMigrate :: bool
  ld_metrics :: "loader_metrics option"
  ld_world :: 'w

definition NewLoader :: "bool \<Rightarrow> 'w \<Rightarrow> ('w, 'm, 'p, 'c, 'x, 'r) loader" where
  "NewLoader rpc w =
     \<lparr>ld_plugins = [], ld_perms = newPermissionStore, ld_policies = Map.empty, ld_sql = Some NewSQLHandleStore,
      ld_rpc = rpc, ld_triggers = None, ld_registry = None, ld_strictMigrate = True, ld_metrics = None, ld_world = w\<rparr>"

text \<open>The host's operations, on the loader.\<close>

definition GrantPermissions ::
    "string \<Rightarrow> string list \<Rightarrow> ('w, 'm, 'p, 'c, 'x, 'r) loader \<Rightarrow> ('w, 'm, 'p, 'c, 'x, 'r) loader" where
  "GrantPermissions pluginID permissions l = l\<lparr>ld_perms := Grant pluginID permissions (ld_perms l)\<rparr>"

definition RevokePermissions ::
    "string \<Rightarrow> ('w, 'm, 'p, 'c, 'x, 'r) loader \<Rightarrow> ('w, 'm, 'p, 'c, 'x, 'r) loader" where
  "RevokePermissions pluginID l =
     l\<lparr>ld_perms := Revoke pluginID (ld_perms l), ld_policies := policies_Delete pluginID (ld_policies l)\<rparr>"

definition sql_unregister ::
    "('w, 'm, 'p, 'c, 'x, 'r) loader_env \<Rightarrow> string \<Rightarrow> ('w, 'm, 'p, 'c, 'x, 'r) loader \<Rightarrow> ('w, 'm, 'p, 'c, 'x, 'r) loader" where
  "sql_unregister E pluginID l =
     (case ld_sql l of
        None \<Rightarrow> l
      | Some s \<Rightarrow> (case UnregisterPlugin (le_drv E) pluginID (s, ld_world l) of
                   (s', w') \<Rightarrow> l\<lparr>ld_sql := Some s', ld_world := w'\<rparr>))"

definition module_close ::
    "('w, 'm, 'p, 'c, 'x, 'r) loader_env \<Rightarrow> 'm compiled_module \<Rightarrow> ('w, 'm, 'p, 'c, 'x, 'r) loader \<Rightarrow>
     ('w, 'm, 'p, 'c, 'x, 'r) loader" where
  "module_close E cm l = l\<lparr>ld_world := fst (module_Close (le_rt E) cm (ld_world l))\<rparr>"

definition GetPlugin :: "('w, 'm, 'p, 'c, 'x, 'r) loader \<Rightarrow> string \<Rightarrow> 'm wasm_plugin option" where
  "GetPlugin l pluginID = map_option lp_plugin (map_of (ld_plugins l) pluginID)"

definition AllPlugins :: "('w, 'm, 'p, 'c, 'x, 'r) loader \<Rightarrow> 'm wasm_plugin list" where
  "AllPlugins l = map (lp_plugin \<circ> snd) (ld_plugins l)"

definition probeID :: string where "probeID = ''_temp_probe''"

definition probePlugin ::
    "('w, 'm, 'p, 'c, 'x, 'r) loader_env \<Rightarrow> 'm compiled_module \<Rightarrow> ('w, 'm, 'p, 'c, 'x, 'r) loader \<Rightarrow>
     ('w, 'm, 'p, 'c, 'x, 'r) loader \<times> (go_error + plugin_meta \<times> string list)" where
  "probePlugin E compiled l =
     (let l1 = GrantPermissions probeID [] l
      in case CallMeta (le_rt E) (compiled\<lparr>cm_ID := probeID\<rparr>) (ld_world l1) of
           (w, r) \<Rightarrow>
             (let l2 = RevokePermissions probeID (l1\<lparr>ld_world := w\<rparr>)
              in (l2, case r of
                        Inl err \<Rightarrow> Inl (Wrap ''call meta: '' err '''')
                      | Inr meta \<Rightarrow> Inr (meta, PermissionsFromRequirements (pm_Requirements meta)))))"

definition convertDependencies :: "dependency_def list \<Rightarrow> dependency list" where
  "convertDependencies deps =
     map (\<lambda>d. \<lparr>dep_PluginID = dd_PluginID d, dep_VersionConstraint = dd_VersionConstraint d\<rparr>) deps"

definition installedPlugins :: "('w, 'm, 'p, 'c, 'x, 'r) loader \<Rightarrow> (string \<times> string) list" where
  "installedPlugins l = map (\<lambda>(i, lp). (i, pm_Version (wp_meta (lp_plugin lp)))) (ld_plugins l)"

text \<open>The integrity check of \<^verbatim>\<open>checkDependencies\<close>, when the version is known with a hash.\<close>

definition integrity_error ::
    "('w, 'm, 'p, 'c, 'x, 'r) loader_env \<Rightarrow> plugin_registry \<Rightarrow> plugin_meta \<Rightarrow> string \<Rightarrow> go_error option" where
  "integrity_error E reg meta wasmBytes =
     (case GetVersion reg (pm_ID meta) (pm_Version meta) of
        Inl _ \<Rightarrow> None
      | Inr ve \<Rightarrow>
          if ve_WasmHash ve \<noteq> ''''
          then map_option (\<lambda>err. Wrap (''plugin '' @ quote (pm_ID meta) @ '': '') err '''')
                 (VerifyOrError (we_sha256 (rt_engine (le_rt E))) wasmBytes (ve_WasmHash ve))
          else None)"

definition temp_entry :: "plugin_meta \<Rightarrow> plugin_entry" where
  "temp_entry meta =
     \<lparr>pe_ID = pm_ID meta, pe_Name = pm_Name meta,
      pe_Versions = [\<lparr>ve_Version = pm_Version meta, ve_WasmHash = '''', ve_UploadedAt = 0, ve_Changelog = '''', ve_MinSDKVersion = 0\<rparr>],
      pe_Dependencies = convertDependencies (pm_Dependencies meta), pe_Signature = ''''\<rparr>"

definition checkDependencies ::
    "('w, 'm, 'p, 'c, 'x, 'r) loader_env \<Rightarrow> 'm compiled_module \<Rightarrow> plugin_meta \<Rightarrow> string \<Rightarrow>
     ('w, 'm, 'p, 'c, 'x, 'r) loader \<Rightarrow> ('w, 'm, 'p, 'c, 'x, 'r) loader \<times> go_error option" where
  "checkDependencies E compiled meta wasmBytes l =
     (case ld_registry l of
        None \<Rightarrow> (l, None)
      | Some reg \<Rightarrow>
          let (reg1, unmet) =
                (if length (pm_Dependencies meta) > 0
                 then (let r = Register_entry (le_srt E) (temp_entry meta) reg
                       in (r, ResolveDependencies r (pm_ID meta) (pm_Version meta) (installedPlugins l)))
                 else (reg, None));
              l1 = l\<lparr>ld_registry := Some reg1\<rparr>
          in case unmet of
               Some err \<Rightarrow>
                 (module_close E compiled l1,
                  Some (Plain (''plugin '' @ quote (pm_ID meta) @ '' dependency check failed: '' @ dependency_error_text err)))
             | None \<Rightarrow>
                 (case integrity_error E reg1 meta wasmBytes of
                    Some err \<Rightarrow> (module_close E compiled l1, Some err)
                  | None \<Rightarrow> (l1, None)))"

fun register_dsns :: "string \<Rightarrow> (string \<times> string option) list \<Rightarrow> ('p, 'c, 'x, 'r) sql_store \<Rightarrow> ('p, 'c, 'x, 'r) sql_store" where
  "register_dsns pluginID [] s = s"
| "register_dsns pluginID ((name, v) # dbs) s =
     register_dsns pluginID dbs
       (case v of Some dsn \<Rightarrow> if dsn \<noteq> '''' then RegisterDSN pluginID name dsn s else s | None \<Rightarrow> s)"

definition registerDatabases ::
    "('w, 'm, 'p, 'c, 'x, 'r) loader_env \<Rightarrow> string \<Rightarrow> string \<Rightarrow> ('w, 'm, 'p, 'c, 'x, 'r) loader \<Rightarrow> ('w, 'm, 'p, 'c, 'x, 'r) loader" where
  "registerDatabases E pluginID config l =
     (case ld_sql l of
        None \<Rightarrow> l
      | Some s \<Rightarrow>
          if length config = 0 then l
          else (case le_databases E config of
                  None \<Rightarrow> l
                | Some dbs \<Rightarrow> l\<lparr>ld_sql := Some (register_dsns pluginID dbs s)\<rparr>))"

definition registerHTTPPolicies ::
    "('w, 'm, 'p, 'c, 'x, 'r) loader_env \<Rightarrow> string \<Rightarrow> requirement_def list \<Rightarrow> string \<Rightarrow>
     ('w, 'm, 'p, 'c, 'x, 'r) loader \<Rightarrow> ('w, 'm, 'p, 'c, 'x, 'r) loader \<times> go_error option" where
  "registerHTTPPolicies E pluginID requirements config l =
     (case ResolveHTTPPolicies requirements (le_policies E config) of
        Inl err \<Rightarrow> (l, Some (Wrap (''plugin '' @ quote pluginID @ '' http policy: '') err ''''))
      | Inr policies \<Rightarrow> (l\<lparr>ld_policies := policies_Set pluginID policies (ld_policies l)\<rparr>, None))"

fun unmet_requirement :: "('p, 'c, 'x, 'r) sql_store option \<Rightarrow> bool \<Rightarrow> string \<Rightarrow> requirement_def list \<Rightarrow> go_error option" where
  "unmet_requirement sql rpc pluginID [] = None"
| "unmet_requirement sql rpc pluginID (req # reqs) =
     (if rq_Type req = ''database'' then
        (let dbName = (if rq_Name req = '''' then ''default'' else rq_Name req)
         in if (case sql of None \<Rightarrow> True | Some s \<Rightarrow> \<not> HasDSN s pluginID dbName)
            then Some (Plain (''plugin '' @ quote pluginID @ '' requires database '' @ quote dbName @
                              '' but its connection string is not configured''))
            else unmet_requirement sql rpc pluginID reqs)
      else if rq_Type req = ''plugin'' then
        (if rq_Target req = ''''
         then Some (Plain (''plugin '' @ quote pluginID @ '' declares plugin requirement without target''))
         else if \<not> rpc
         then Some (Plain (''plugin '' @ quote pluginID @ '' requires inter-plugin RPC but it is disabled''))
         else unmet_requirement sql rpc pluginID reqs)
      else unmet_requirement sql rpc pluginID reqs)"

definition validateDatabaseRequirements :: "plugin_meta \<Rightarrow> ('w, 'm, 'p, 'c, 'x, 'r) loader \<Rightarrow> go_error option" where
  "validateDatabaseRequirements meta l = unmet_requirement (ld_sql l) (ld_rpc l) (pm_ID meta) (pm_Requirements meta)"

definition runPluginMigrations ::
    "('w, 'm, 'p, 'c, 'x, 'r) loader_env \<Rightarrow> plugin_meta \<Rightarrow> ('w, 'm, 'p, 'c, 'x, 'r) loader \<Rightarrow>
     ('w, 'm, 'p, 'c, 'x, 'r) loader \<times> go_error option" where
  "runPluginMigrations E meta l =
     (if length (pm_Migrations meta) = 0 then (l, None)
      else case ld_sql l of
             None \<Rightarrow> (l, None)
           | Some s \<Rightarrow>
               let dsn = DSN s (pm_ID meta) ''default''
               in if dsn = '''' then (l, None)
                  else case run_migrations (le_goose E) (pm_ID meta) dsn (pm_Migrations meta) (ld_world l) of
                         (w, err) \<Rightarrow>
                           (l\<lparr>ld_world := w\<rparr>,
                            map_option (\<lambda>e. Wrap (''plugin '' @ quote (pm_ID meta) @ '' migrations: '') e '''') err))"

definition closeActivatedPlugin ::
    "('w, 'm, 'p, 'c, 'x, 'r) loader_env \<Rightarrow> string \<Rightarrow> 'm compiled_module \<Rightarrow> ('w, 'm, 'p, 'c, 'x, 'r) loader \<Rightarrow>
     ('w, 'm, 'p, 'c, 'x, 'r) loader" where
  "closeActivatedPlugin E pluginID compiled l =
     RevokePermissions pluginID (sql_unregister E pluginID (module_close E compiled l))"

text \<open>
  Activation and its abort. Every failure after the permissions were granted closes the module and
  takes permissions, policies and data sources of the identifier away again.
\<close>

definition activatePlugin ::
    "('w, 'm, 'p, 'c, 'x, 'r) loader_env \<Rightarrow> 'm compiled_module \<Rightarrow> plugin_meta \<Rightarrow> string \<Rightarrow> string list \<Rightarrow>
     ('w, 'm, 'p, 'c, 'x, 'r) loader \<Rightarrow> ('w, 'm, 'p, 'c, 'x, 'r) loader \<times> go_error option" where
  "activatePlugin E compiled meta config permissions l =
     (let i = pm_ID meta;
          l1 = GrantPermissions i permissions l;
          cm = compiled\<lparr>cm_ID := i, cm_Version := pm_Version meta\<rparr>;
          abort = (\<lambda>l'. closeActivatedPlugin E i cm l')
      in case (if length config > 0 then ValidateConfigAgainstSchema (le_schema E) (pm_ConfigSchema meta) config else None) of
           Some err \<Rightarrow> (abort l1, Some (Wrap (''plugin '' @ quote i @ '': '') err ''''))
         | None \<Rightarrow>
             (case registerHTTPPolicies E i (pm_Requirements meta) config (registerDatabases E i config l1) of
                (l2, Some err) \<Rightarrow> (abort l2, Some err)
              | (l2, None) \<Rightarrow>
                  (case validateDatabaseRequirements meta l2 of
                     Some err \<Rightarrow> (abort l2, Some err)
                   | None \<Rightarrow>
                       (case runPluginMigrations E meta l2 of
                          (l3, Some err) \<Rightarrow> (abort l3, Some err)
                        | (l3, None) \<Rightarrow>
                            if length config > 0
                            then (case CallConfigure (le_rt E) cm config (ld_world l3) of
                                    (w, Some err) \<Rightarrow>
                                      (abort (l3\<lparr>ld_world := w\<rparr>), Some (Wrap (''configure plugin '' @ quote i @ '': '') err ''''))
                                  | (w, None) \<Rightarrow> (l3\<lparr>ld_world := w\<rparr>, None))
                            else (l3, None)))))"

definition preparePlugin ::
    "('w, 'm, 'p, 'c, 'x, 'r) loader_env \<Rightarrow> string \<Rightarrow> string \<Rightarrow> ('w, 'm, 'p, 'c, 'x, 'r) loader \<Rightarrow>
     ('w, 'm, 'p, 'c, 'x, 'r) loader \<times> (go_error + 'm prepared_plugin)" where
  "preparePlugin E wasmBytes config l =
     (case CompileModule (le_rt E) wasmBytes (ld_world l) of
        (w, Inl err) \<Rightarrow> (l\<lparr>ld_world := w\<rparr>, Inl (Wrap ''compile wasm plugin: '' err ''''))
      | (w, Inr compiled) \<Rightarrow>
          (case probePlugin E compiled (l\<lparr>ld_world := w\<rparr>) of
             (l1, Inl err) \<Rightarrow> (module_close E compiled l1, Inl err)
           | (l1, Inr (meta, permissions)) \<Rightarrow>
               (case checkDependencies E compiled meta wasmBytes l1 of
                  (l2, Some err) \<Rightarrow> (l2, Inl err)
                | (l2, None) \<Rightarrow>
                    (case activatePlugin E compiled meta config permissions l2 of
                       (l3, Some err) \<Rightarrow> (l3, Inl err)
                     | (l3, None) \<Rightarrow>
                         let cm = EnablePool (PoolConfig (rt_config (le_rt E)))
                                    (compiled\<lparr>cm_ID := pm_ID meta, cm_Version := pm_Version meta\<rparr>)
                         in (l3, Inr \<lparr>pp_meta = meta, pp_compiled = cm, pp_config = config,
                                      pp_plugin = \<lparr>wp_compiled = cm, wp_meta = meta, wp_config = config\<rparr>,
                                      pp_wasmBytes = wasmBytes\<rparr>)))))"

definition registerInRegistry ::
    "('w, 'm, 'p, 'c, 'x, 'r) loader_env \<Rightarrow> plugin_meta \<Rightarrow> string \<Rightarrow> ('w, 'm, 'p, 'c, 'x, 'r) loader \<Rightarrow>
     ('w, 'm, 'p, 'c, 'x, 'r) loader" where
  "registerInRegistry E meta wasmBytes l =
     (case ld_registry l of
        None \<Rightarrow> l
      | Some reg \<Rightarrow>
          let hash = SignModule (we_sha256 (rt_engine (le_rt E))) wasmBytes
          in l\<lparr>ld_registry := Some (Register_entry (le_srt E)
               \<lparr>pe_ID = pm_ID meta, pe_Name = pm_Name meta,
                pe_Versions = [\<lparr>ve_Version = pm_Version meta, ve_WasmHash = hash, ve_UploadedAt = le_now E,
                               ve_Changelog = '''', ve_MinSDKVersion = pm_SDKVersion meta\<rparr>],
                pe_Dependencies = convertDependencies (pm_Dependencies meta), pe_Signature = hash\<rparr> reg)\<rparr>)"

text \<open>Entering a prepared plugin into the table, with its triggers.\<close>

definition loaded_metric :: "bool \<Rightarrow> loader_metrics option \<Rightarrow> loader_metrics option" where
  "loaded_metric counted ms = (if counted then map_option (\<lambda>m. m\<lparr>lm_loaded := lm_loaded m + 1\<rparr>) ms else ms)"

definition replace_triggers ::
    "('w, 'm, 'p, 'c, 'x, 'r) loader_env \<Rightarrow> bool \<Rightarrow> string \<Rightarrow> wasm_trigger list \<Rightarrow> trigger_registry \<Rightarrow> trigger_registry" where
  "replace_triggers E replace i triggers tg =
     (let tg1 = (if replace then UnregisterTriggers i tg else tg)
      in if length triggers > 0 then RegisterTriggers (le_cron_add E) i (map trigger_def.truncate triggers) tg1 else tg1)"

definition registerLoadedPlugin ::
    "('w, 'm, 'p, 'c, 'x, 'r) loader_env \<Rightarrow> 'm prepared_plugin \<Rightarrow> bool \<Rightarrow> ('w, 'm, 'p, 'c, 'x, 'r) loader \<Rightarrow>
     ('w, 'm, 'p, 'c, 'x, 'r) loader" where
  "registerLoadedPlugin E prepared replace l =
     (let i = pm_ID (pp_meta prepared);
          existed = map_of (ld_plugins l) i \<noteq> None;
          lp = \<lparr>lp_plugin = pp_plugin prepared, lp_compiled = pp_compiled prepared, lp_config = pp_config prepared,
                lp_draining = False, lp_active = 0, lp_drained = False\<rparr>;
          l1 = l\<lparr>ld_plugins := AList.update i lp (ld_plugins l),
                 ld_metrics := loaded_metric (\<not> (replace \<and> existed)) (ld_metrics l),
                 ld_triggers := map_option (replace_triggers E replace i (pm_Triggers (pp_meta prepared))) (ld_triggers l)\<rparr>
      in registerInRegistry E (pp_meta prepared) (pp_wasmBytes prepared) l1)"

definition LoadPluginFromBytes ::
    "('w, 'm, 'p, 'c, 'x, 'r) loader_env \<Rightarrow> string \<Rightarrow> string \<Rightarrow> ('w, 'm, 'p, 'c, 'x, 'r) loader \<Rightarrow>
     ('w, 'm, 'p, 'c, 'x, 'r) loader \<times> (go_error + 'm wasm_plugin)" where
  "LoadPluginFromBytes E wasmBytes config l =
     (case preparePlugin E wasmBytes config l of
        (l1, Inl err) \<Rightarrow> (l1, Inl err)
      | (l1, Inr prepared) \<Rightarrow> (registerLoadedPlugin E prepared False l1, Inr (pp_plugin prepared)))"

definition LoadPlugin ::
    "('w, 'm, 'p, 'c, 'x, 'r) loader_env \<Rightarrow> (string \<Rightarrow> go_error + string) \<Rightarrow> string \<Rightarrow> string \<Rightarrow>
     ('w, 'm, 'p, 'c, 'x, 'r) loader \<Rightarrow> ('w, 'm, 'p, 'c, 'x, 'r) loader \<times> (go_error + 'm wasm_plugin)" where
  "LoadPlugin E readFile wasmPath config l =
     (case readFile wasmPath of
        Inl err \<Rightarrow> (l, Inl (Wrap (''read wasm file '' @ quote wasmPath @ '': '') err ''''))
      | Inr data \<Rightarrow> LoadPluginFromBytes E data config l)"

subsection \<open>Reloading and reconfiguring (loader.go)\<close>

definition not_loaded :: "string \<Rightarrow> go_error" where
  "not_loaded pluginID = Plain (''plugin '' @ quote pluginID @ '' not loaded'')"

definition set_draining :: "string \<Rightarrow> bool \<Rightarrow> ('w, 'm, 'p, 'c, 'x, 'r) loader \<Rightarrow> ('w, 'm, 'p, 'c, 'x, 'r) loader" where
  "set_draining pluginID b l =
     (case map_of (ld_plugins l) pluginID of
        None \<Rightarrow> l
      | Some lp \<Rightarrow> l\<lparr>ld_plugins := AList.update pluginID (lp\<lparr>lp_draining := b\<rparr>) (ld_plugins l)\<rparr>)"

definition beginReload ::
    "string \<Rightarrow> string \<Rightarrow> ('w, 'm, 'p, 'c, 'x, 'r) loader \<Rightarrow>
     ('w, 'm, 'p, 'c, 'x, 'r) loader \<times> (go_error + 'm reload_plan)" where
  "beginReload pluginID newConfig l =
     (case map_of (ld_plugins l) pluginID of
        None \<Rightarrow> (l, Inl (not_loaded pluginID))
      | Some old \<Rightarrow>
          (set_draining pluginID True l,
           Inr \<lparr>rp_pluginID = pluginID, rp_old = old,
                rp_config = (if newConfig = '''' then lp_config old else newConfig),
                rp_oldVersion = pm_Version (wp_meta (lp_plugin old)),
                rp_oldPermissions = PermissionsFromRequirements (pm_Requirements (wp_meta (lp_plugin old)))\<rparr>))"

definition restoreLoadedPluginState ::
    "('w, 'm, 'p, 'c, 'x, 'r) loader_env \<Rightarrow> string \<Rightarrow> string \<Rightarrow> string list \<Rightarrow> ('w, 'm, 'p, 'c, 'x, 'r) loader \<Rightarrow>
     ('w, 'm, 'p, 'c, 'x, 'r) loader" where
  "restoreLoadedPluginState E pluginID config permissions l =
     (let l1 = registerDatabases E pluginID config (sql_unregister E pluginID (GrantPermissions pluginID permissions l))
      in case GetPlugin l1 pluginID of
           None \<Rightarrow> l1
         | Some wp \<Rightarrow> fst (registerHTTPPolicies E pluginID (pm_Requirements (wp_meta wp)) config l1))"

definition abortReload ::
    "('w, 'm, 'p, 'c, 'x, 'r) loader_env \<Rightarrow> 'm reload_plan \<Rightarrow> 'm prepared_plugin \<Rightarrow> ('w, 'm, 'p, 'c, 'x, 'r) loader \<Rightarrow>
     ('w, 'm, 'p, 'c, 'x, 'r) loader" where
  "abortReload E plan prepared l =
     set_draining (rp_pluginID plan) False
       (restoreLoadedPluginState E (rp_pluginID plan) (lp_config (rp_old plan)) (rp_oldPermissions plan)
         (closeActivatedPlugin E (pm_ID (pp_meta prepared)) (pp_compiled prepared) l))"

definition maybeRunReloadMigration ::
    "('w, 'm, 'p, 'c, 'x, 'r) loader_env \<Rightarrow> 'm reload_plan \<Rightarrow> 'm prepared_plugin \<Rightarrow> ('w, 'm, 'p, 'c, 'x, 'r) loader \<Rightarrow>
     ('w, 'm, 'p, 'c, 'x, 'r) loader \<times> go_error option" where
  "maybeRunReloadMigration E plan prepared l =
     (let newVersion = pm_Version (wp_meta (pp_plugin prepared))
      in if rp_oldVersion plan = newVersion then (l, None)
         else case CallMigrate (le_rt E) (pp_compiled prepared) (rp_oldVersion plan) newVersion (ld_world l) of
                (w, Some err) \<Rightarrow>
                  (l\<lparr>ld_world := w\<rparr>,
                   if ld_strictMigrate l
                   then Some (Wrap (''reload plugin '' @ quote (rp_pluginID plan) @ '': migration failed: '') err '''')
                   else None)
              | (w, None) \<Rightarrow> (l\<lparr>ld_world := w\<rparr>, None))"

text \<open>
  Draining a plugin that is out of the table: after the timeout it is closed even when requests are
  still running. The state is that of the plugin alone.
\<close>

definition drainPlugin :: "'m loaded_plugin \<Rightarrow> 'm loaded_plugin" where
  "drainPlugin lp = lp\<lparr>lp_draining := True, lp_drained := lp_drained lp \<or> lp_active lp \<le> 0\<rparr>"

definition reload_metric :: "string \<Rightarrow> string \<Rightarrow> ('w, 'm, 'p, 'c, 'x, 'r) loader \<Rightarrow> ('w, 'm, 'p, 'c, 'x, 'r) loader" where
  "reload_metric pluginID status l =
     l\<lparr>ld_metrics := map_option (\<lambda>m. m\<lparr>lm_reloads := lm_reloads m @ [(pluginID, status)]\<rparr>) (ld_metrics l)\<rparr>"

definition ReloadPluginFromBytes ::
    "('w, 'm, 'p, 'c, 'x, 'r) loader_env \<Rightarrow> string \<Rightarrow> string \<Rightarrow> string \<Rightarrow> ('w, 'm, 'p, 'c, 'x, 'r) loader \<Rightarrow>
     ('w, 'm, 'p, 'c, 'x, 'r) loader \<times> go_error option" where
  "ReloadPluginFromBytes E pluginID wasmBytes newConfig l =
     (let failed = (\<lambda>l' err. (reload_metric pluginID ''error'' l', Some err))
      in case beginReload pluginID newConfig l of
           (l1, Inl err) \<Rightarrow> failed l1 err
         | (l1, Inr plan) \<Rightarrow>
             (case preparePlugin E wasmBytes (rp_config plan) l1 of
                (l2, Inl err) \<Rightarrow>
                  failed (set_draining pluginID False l2) (Wrap (''reload plugin '' @ quote pluginID @ '': load new version: '') err '''')
              | (l2, Inr prepared) \<Rightarrow>
                  if pm_ID (pp_meta prepared) \<noteq> pluginID
                  then failed (abortReload E plan prepared l2)
                         (Plain (''reload plugin '' @ quote pluginID @ '': new module declares ID '' @ quote (pm_ID (pp_meta prepared))))
                  else (case maybeRunReloadMigration E plan prepared l2 of
                          (l3, Some err) \<Rightarrow> failed (abortReload E plan prepared l3) err
                        | (l3, None) \<Rightarrow>
                            (reload_metric pluginID ''ok''
                               (module_close E (lp_compiled (rp_old plan)) (registerLoadedPlugin E prepared True l3)), None))))"

definition ReloadPlugin ::
    "('w, 'm, 'p, 'c, 'x, 'r) loader_env \<Rightarrow> (string \<Rightarrow> go_error + string) \<Rightarrow> string \<Rightarrow> string \<Rightarrow> string \<Rightarrow>
     ('w, 'm, 'p, 'c, 'x, 'r) loader \<Rightarrow> ('w, 'm, 'p, 'c, 'x, 'r) loader \<times> go_error option" where
  "ReloadPlugin E readFile pluginID newWasmPath newConfig l =
     (case readFile newWasmPath of
        Inl err \<Rightarrow> (l, Some (Wrap (''read wasm file '' @ quote newWasmPath @ '': '') err ''''))
      | Inr data \<Rightarrow> ReloadPluginFromBytes E pluginID data newConfig l)"

definition ProbeMetadataFromBytes ::
    "('w, 'm, 'p, 'c, 'x, 'r) loader_env \<Rightarrow> string \<Rightarrow> ('w, 'm, 'p, 'c, 'x, 'r) loader \<Rightarrow>
     ('w, 'm, 'p, 'c, 'x, 'r) loader \<times> (go_error + plugin_meta)" where
  "ProbeMetadataFromBytes E wasmBytes l =
     (case CompileModule (le_rt E) wasmBytes (ld_world l) of
        (w, Inl err) \<Rightarrow> (l\<lparr>ld_world := w\<rparr>, Inl (Wrap ''compile wasm plugin: '' err ''''))
      | (w, Inr compiled) \<Rightarrow>
          (case probePlugin E compiled (l\<lparr>ld_world := w\<rparr>) of
             (l1, Inl err) \<Rightarrow> (module_close E compiled l1, Inl err)
           | (l1, Inr (meta, _)) \<Rightarrow> (module_close E compiled l1, Inr meta)))"

definition SetConfig :: "string \<Rightarrow> string \<Rightarrow> ('w, 'm, 'p, 'c, 'x, 'r) loader \<Rightarrow> ('w, 'm, 'p, 'c, 'x, 'r) loader" where
  "SetConfig pluginID config l =
     (case map_of (ld_plugins l) pluginID of
        None \<Rightarrow> l
      | Some lp \<Rightarrow> l\<lparr>ld_plugins := AList.update pluginID (lp\<lparr>lp_plugin := (lp_plugin lp)\<lparr>wp_config := config\<rparr>\<rparr>) (ld_plugins l)\<rparr>)"

definition reconfigure_metric :: "string \<Rightarrow> string \<Rightarrow> ('w, 'm, 'p, 'c, 'x, 'r) loader \<Rightarrow> ('w, 'm, 'p, 'c, 'x, 'r) loader" where
  "reconfigure_metric pluginID status l =
     l\<lparr>ld_metrics := map_option (\<lambda>m. m\<lparr>lm_reconfigures := lm_reconfigures m @ [(pluginID, status)]\<rparr>) (ld_metrics l)\<rparr>"

definition ReconfigurePlugin ::
    "('w, 'm, 'p, 'c, 'x, 'r) loader_env \<Rightarrow> string \<Rightarrow> string \<Rightarrow> ('w, 'm, 'p, 'c, 'x, 'r) loader \<Rightarrow>
     ('w, 'm, 'p, 'c, 'x, 'r) loader \<times> go_error option" where
  "ReconfigurePlugin E pluginID config l =
     (let failed = (\<lambda>status l' err. (reconfigure_metric pluginID status l', Some err))
      in case map_of (ld_plugins l) pluginID of
           None \<Rightarrow> failed ''error'' l (not_loaded pluginID)
         | Some lp \<Rightarrow>
             (let meta = wp_meta (lp_plugin lp);
                  restore = restoreLoadedPluginState E pluginID (lp_config lp) (PermissionsFromRequirements (pm_Requirements meta))
              in if \<not> pm_SupportsReconfigure meta
                 then failed ''unsupported'' l (Plain (''plugin '' @ quote pluginID @ '' does not support reconfigure''))
                 else case ValidateConfigAgainstSchema (le_schema E) (pm_ConfigSchema meta) config of
                        Some err \<Rightarrow> failed ''invalid_config'' l err
                      | None \<Rightarrow>
                 (case registerHTTPPolicies E pluginID (pm_Requirements meta) config
                         (registerDatabases E pluginID config (sql_unregister E pluginID l)) of
                        (l1, Some err) \<Rightarrow> failed ''invalid_config'' (restore l1) err
                      | (l1, None) \<Rightarrow>
                 (case validateDatabaseRequirements meta l1 of
                        Some err \<Rightarrow> failed ''missing_dependency'' (restore l1) err
                      | None \<Rightarrow>
                 (case CallReconfigure (le_rt E) (lp_compiled lp) (lp_config lp) config (ld_world l1) of
                        (w, Some err) \<Rightarrow>
                          failed ''error'' (restore (l1\<lparr>ld_world := w\<rparr>)) (Wrap (''reconfigure plugin '' @ quote pluginID @ '': '') err '''')
                      | (w, None) \<Rightarrow>
                          (reconfigure_metric pluginID ''ok''
                             (SetConfig pluginID config
                                (l1\<lparr>ld_world := w,
                                    ld_plugins := AList.update pluginID (lp\<lparr>lp_config := config\<rparr>) (ld_plugins l1)\<rparr>)), None))))))"

subsection \<open>Using, dropping and unloading plugins (loader.go, loader\_lifecycle.go)\<close>

text \<open>
  \<^verbatim>\<open>AcquirePlugin\<close> with its release, which runs at most once for each acquisition.
\<close>

definition AcquirePlugin ::
    "string \<Rightarrow> ('w, 'm, 'p, 'c, 'x, 'r) loader \<Rightarrow> ('w, 'm, 'p, 'c, 'x, 'r) loader \<times> 'm wasm_plugin option" where
  "AcquirePlugin pluginID l =
     (case map_of (ld_plugins l) pluginID of
        None \<Rightarrow> (l, None)
      | Some lp \<Rightarrow>
          if lp_draining lp then (l, None)
          else (l\<lparr>ld_plugins := AList.update pluginID (lp\<lparr>lp_active := lp_active lp + 1\<rparr>) (ld_plugins l)\<rparr>, Some (lp_plugin lp)))"

definition release_plugin :: "'m loaded_plugin \<Rightarrow> 'm loaded_plugin" where
  "release_plugin lp =
     (let lp1 = lp\<lparr>lp_active := lp_active lp - 1\<rparr>
      in if lp_active lp1 \<le> 0 \<and> lp_draining lp1 then lp1\<lparr>lp_drained := True\<rparr> else lp1)"

definition ReleasePlugin :: "string \<Rightarrow> ('w, 'm, 'p, 'c, 'x, 'r) loader \<Rightarrow> ('w, 'm, 'p, 'c, 'x, 'r) loader" where
  "ReleasePlugin pluginID l =
     (case map_of (ld_plugins l) pluginID of
        None \<Rightarrow> l
      | Some lp \<Rightarrow> l\<lparr>ld_plugins := AList.update pluginID (release_plugin lp) (ld_plugins l)\<rparr>)"

definition Loader_CheckVisibility ::
    "('w, 'm, 'p, 'c, 'x, 'r) loader_env \<Rightarrow> int \<Rightarrow> string \<Rightarrow> ('w, 'm, 'p, 'c, 'x, 'r) loader \<Rightarrow>
     ('w, 'm, 'p, 'c, 'x, 'r) loader \<times> string list option" where
  "Loader_CheckVisibility E userID pluginID l =
     (case AcquirePlugin pluginID l of
        (l1, None) \<Rightarrow> (l1, None)
      | (l1, Some wp) \<Rightarrow>
          if \<not> pm_SupportsVisibility (wp_meta wp) then (ReleasePlugin pluginID l1, None)
          else (case CallCheckVisibility (le_rt E) (wp_compiled wp) userID (ld_world l1) of
                  (w, Inl err) \<Rightarrow> (ReleasePlugin pluginID (l1\<lparr>ld_world := w\<rparr>), None)
                | (w, Inr names) \<Rightarrow> (ReleasePlugin pluginID (l1\<lparr>ld_world := w\<rparr>), Some names)))"

definition SupportsRPCMethod :: "'m wasm_plugin \<Rightarrow> string \<Rightarrow> bool" where
  "SupportsRPCMethod wp meth = list_ex (\<lambda>c. fst c = meth) (pm_RPCMethods (wp_meta wp))"

definition CallPlugin ::
    "('w, 'm, 'p, 'c, 'x, 'r) loader_env \<Rightarrow> string \<Rightarrow> string \<Rightarrow> string \<Rightarrow> string \<Rightarrow> ('w, 'm, 'p, 'c, 'x, 'r) loader \<Rightarrow>
     ('w, 'm, 'p, 'c, 'x, 'r) loader \<times> (go_error + string)" where
  "CallPlugin E caller target meth params l =
     (case AcquirePlugin target l of
        (l1, None) \<Rightarrow> (l1, Inl (Plain (''plugin '' @ quote target @ '' is not loaded'')))
      | (l1, Some wp) \<Rightarrow>
          if \<not> SupportsRPCMethod wp meth
          then (ReleasePlugin target l1,
                Inl (Plain (''plugin '' @ quote target @ '' does not expose rpc method '' @ quote meth)))
          else (case CallRPC (le_rt E) (wp_compiled wp) caller meth params (wp_config wp) (ld_world l1) of
                  (w, r) \<Rightarrow> (ReleasePlugin target (l1\<lparr>ld_world := w\<rparr>), r)))"

definition DropPluginData ::
    "('w, 'm, 'p, 'c, 'x, 'r) loader_env \<Rightarrow> string \<Rightarrow> ('w, 'm, 'p, 'c, 'x, 'r) loader \<Rightarrow>
     ('w, 'm, 'p, 'c, 'x, 'r) loader \<times> go_error option" where
  "DropPluginData E pluginID l =
     (case map_of (ld_plugins l) pluginID of
        None \<Rightarrow> (l, Some (not_loaded pluginID))
      | Some lp \<Rightarrow>
          let meta = wp_meta (lp_plugin lp)
          in if length (pm_Migrations meta) = 0 then (l, None)
             else case ld_sql l of
                    None \<Rightarrow> (l, None)
                  | Some s \<Rightarrow>
                      let dsn = DSN s pluginID ''default''
                      in if dsn = '''' then (l, None)
                         else case dropPluginMigrations (le_goose E) pluginID dsn (pm_Migrations meta) (ld_world l) of
                                (w, err) \<Rightarrow> (l\<lparr>ld_world := w\<rparr>, err))"

definition unregisterPluginRegistry :: "string \<Rightarrow> ('w, 'm, 'p, 'c, 'x, 'r) loader \<Rightarrow> ('w, 'm, 'p, 'c, 'x, 'r) loader" where
  "unregisterPluginRegistry pluginID l = l\<lparr>ld_registry := map_option (Remove_entry pluginID) (ld_registry l)\<rparr>"

definition UnloadPlugin ::
    "('w, 'm, 'p, 'c, 'x, 'r) loader_env \<Rightarrow> string \<Rightarrow> ('w, 'm, 'p, 'c, 'x, 'r) loader \<Rightarrow>
     ('w, 'm, 'p, 'c, 'x, 'r) loader \<times> go_error option" where
  "UnloadPlugin E pluginID l =
     (case map_of (ld_plugins l) pluginID of
        None \<Rightarrow> (l, Some (not_loaded pluginID))
      | Some lp \<Rightarrow>
          let l1 = l\<lparr>ld_plugins := AList.delete pluginID (ld_plugins l),
                     ld_metrics := map_option (\<lambda>m. m\<lparr>lm_loaded := lm_loaded m - 1\<rparr>) (ld_metrics l)\<rparr>;
              l2 = sql_unregister E pluginID (RevokePermissions pluginID l1);
              l3 = unregisterPluginRegistry pluginID (l2\<lparr>ld_triggers := map_option (UnregisterTriggers pluginID) (ld_triggers l2)\<rparr>)
          in (module_close E (lp_compiled lp) l3, None))"

text \<open>The first error of closing modules is kept; the order of the loop is that of the table.\<close>

definition close_one ::
    "('w, 'm, 'p, 'c, 'x, 'r) loader_env \<Rightarrow> string \<times> 'm loaded_plugin \<Rightarrow>
     ('w, 'm, 'p, 'c, 'x, 'r) loader \<times> go_error option \<Rightarrow> ('w, 'm, 'p, 'c, 'x, 'r) loader \<times> go_error option" where
  "close_one E entry st =
     (case entry of (i, lp) \<Rightarrow> (case st of (l, firstErr) \<Rightarrow>
        (case module_Close (le_rt E) (lp_compiled lp) (ld_world l) of
           (w, err) \<Rightarrow>
             (unregisterPluginRegistry i (sql_unregister E i (RevokePermissions i (l\<lparr>ld_world := w\<rparr>))),
              case firstErr of None \<Rightarrow> err | Some e \<Rightarrow> Some e))))"

definition Loader_Close ::
    "('w, 'm, 'p, 'c, 'x, 'r) loader_env \<Rightarrow> ('w, 'm, 'p, 'c, 'x, 'r) loader \<Rightarrow>
     ('w, 'm, 'p, 'c, 'x, 'r) loader \<times> go_error option" where
  "Loader_Close E l =
     (case fold (close_one E) (ld_plugins l) (l\<lparr>ld_plugins := []\<rparr>, None) of
        (l1, firstErr) \<Rightarrow> (l1\<lparr>ld_metrics := map_option (\<lambda>m. m\<lparr>lm_loaded := 0\<rparr>) (ld_metrics l1)\<rparr>, firstErr))"

definition Loader_ValidateConfig ::
    "('w, 'm, 'p, 'c, 'x, 'r) loader_env \<Rightarrow> string \<Rightarrow> string \<Rightarrow> ('w, 'm, 'p, 'c, 'x, 'r) loader \<Rightarrow> go_error option" where
  "Loader_ValidateConfig E pluginID config l =
     (case map_of (ld_plugins l) pluginID of
        None \<Rightarrow> Some (not_loaded pluginID)
      | Some lp \<Rightarrow> ValidateConfigAgainstSchema (le_schema E) (pm_ConfigSchema (wp_meta (lp_plugin lp))) config)"

subsection \<open>What each step leaves unchanged\<close>

lemma host_frames [simp]:
  "ld_plugins (GrantPermissions i ps l) = ld_plugins l" "ld_plugins (RevokePermissions i l) = ld_plugins l"
  "ld_triggers (GrantPermissions i ps l) = ld_triggers l" "ld_triggers (RevokePermissions i l) = ld_triggers l"
  "ld_registry (GrantPermissions i ps l) = ld_registry l" "ld_registry (RevokePermissions i l) = ld_registry l"
  "ld_perms (GrantPermissions i ps l) = (ld_perms l)(i \<mapsto> remdups ps)" "ld_perms (RevokePermissions i l) = (ld_perms l)(i := None)"
  by (simp_all add: GrantPermissions_def RevokePermissions_def Grant_def Revoke_def)

lemma sql_unregister_frame [simp]:
  "ld_plugins (sql_unregister E i l) = ld_plugins l" "ld_triggers (sql_unregister E i l) = ld_triggers l"
  "ld_perms (sql_unregister E i l) = ld_perms l" "ld_registry (sql_unregister E i l) = ld_registry l"
  by (simp_all add: sql_unregister_def split: option.split prod.split)

lemma module_close_frame [simp]:
  "ld_plugins (module_close E cm l) = ld_plugins l" "ld_triggers (module_close E cm l) = ld_triggers l"
  "ld_perms (module_close E cm l) = ld_perms l" "ld_registry (module_close E cm l) = ld_registry l"
  by (simp_all add: module_close_def)

lemma registerDatabases_frame [simp]:
  "ld_plugins (registerDatabases E i c l) = ld_plugins l" "ld_triggers (registerDatabases E i c l) = ld_triggers l"
  "ld_perms (registerDatabases E i c l) = ld_perms l" "ld_registry (registerDatabases E i c l) = ld_registry l"
  by (simp_all add: registerDatabases_def split: option.split)

lemma registerHTTPPolicies_frame [simp]:
  "ld_plugins (fst (registerHTTPPolicies E i reqs c l)) = ld_plugins l"
  "ld_triggers (fst (registerHTTPPolicies E i reqs c l)) = ld_triggers l"
  "ld_perms (fst (registerHTTPPolicies E i reqs c l)) = ld_perms l"
  "ld_registry (fst (registerHTTPPolicies E i reqs c l)) = ld_registry l"
  by (simp_all add: registerHTTPPolicies_def split: sum.split)

lemma closeActivated_frame [simp]:
  "ld_plugins (closeActivatedPlugin E i cm l) = ld_plugins l" "ld_triggers (closeActivatedPlugin E i cm l) = ld_triggers l"
  "ld_perms (closeActivatedPlugin E i cm l) = (ld_perms l)(i := None)"
  "ld_registry (closeActivatedPlugin E i cm l) = ld_registry l"
  by (simp_all add: closeActivatedPlugin_def)

lemma migrations_frame [simp]:
  "ld_plugins (fst (runPluginMigrations E meta l)) = ld_plugins l"
  "ld_triggers (fst (runPluginMigrations E meta l)) = ld_triggers l"
  "ld_perms (fst (runPluginMigrations E meta l)) = ld_perms l"
  "ld_registry (fst (runPluginMigrations E meta l)) = ld_registry l"
  by (auto simp: runPluginMigrations_def Let_def split: option.split prod.split)

lemma metric_frames [simp]:
  "ld_plugins (reload_metric i st l) = ld_plugins l" "ld_triggers (reload_metric i st l) = ld_triggers l"
  "ld_perms (reload_metric i st l) = ld_perms l" "ld_registry (reload_metric i st l) = ld_registry l"
  "ld_plugins (reconfigure_metric i st l) = ld_plugins l" "ld_triggers (reconfigure_metric i st l) = ld_triggers l"
  "ld_perms (reconfigure_metric i st l) = ld_perms l" "ld_registry (reconfigure_metric i st l) = ld_registry l"
  by (simp_all add: reload_metric_def reconfigure_metric_def)

lemma registerInRegistry_frame [simp]:
  "ld_plugins (registerInRegistry E meta b l) = ld_plugins l" "ld_triggers (registerInRegistry E meta b l) = ld_triggers l"
  "ld_perms (registerInRegistry E meta b l) = ld_perms l"
  by (simp_all add: registerInRegistry_def Let_def split: option.split)

lemma probePlugin_frame:
  assumes "probePlugin E cm l = (l1, r)"
  shows "ld_plugins l1 = ld_plugins l" "ld_triggers l1 = ld_triggers l" "ld_registry l1 = ld_registry l"
    "ld_perms l1 = (ld_perms l)(probeID := None)"
  using assms by (auto simp: probePlugin_def Let_def split: prod.splits)

lemma probe_permissions:
  "probePlugin E cm l = (l1, Inr (meta, ps)) \<Longrightarrow> ps = PermissionsFromRequirements (pm_Requirements meta)"
  by (auto simp: probePlugin_def Let_def split: prod.splits sum.splits)

lemma checkDependencies_frame:
  assumes "checkDependencies E cm meta b l = (l1, r)"
  shows "ld_plugins l1 = ld_plugins l" "ld_triggers l1 = ld_triggers l" "ld_perms l1 = ld_perms l"
  using assms by (auto simp: checkDependencies_def Let_def split: option.splits prod.splits if_splits)

lemma activatePlugin_frame:
  assumes "activatePlugin E cm meta c ps l = (l1, r)"
  shows "ld_plugins l1 = ld_plugins l" "ld_triggers l1 = ld_triggers l" "ld_registry l1 = ld_registry l"
    "ld_perms l1 = (ld_perms l)(pm_ID meta := (if r = None then Some (remdups ps) else None))"
proof -
  let ?i = "pm_ID meta"
  obtain l2 r2 where h: "registerHTTPPolicies E ?i (pm_Requirements meta) c (registerDatabases E ?i c (GrantPermissions ?i ps l)) = (l2, r2)"
    by fastforce
  obtain l3 r3 where m: "runPluginMigrations E meta l2 = (l3, r3)" by fastforce
  have l2: "ld_plugins l2 = ld_plugins l" "ld_triggers l2 = ld_triggers l" "ld_registry l2 = ld_registry l"
    "ld_perms l2 = (ld_perms l)(?i \<mapsto> remdups ps)"
    using registerHTTPPolicies_frame [of E ?i "pm_Requirements meta" c "registerDatabases E ?i c (GrantPermissions ?i ps l)"] h
    by simp_all
  have l3: "ld_plugins l3 = ld_plugins l2" "ld_triggers l3 = ld_triggers l2" "ld_registry l3 = ld_registry l2" "ld_perms l3 = ld_perms l2"
    using migrations_frame [of E meta l2] m by simp_all
  show "ld_plugins l1 = ld_plugins l" "ld_triggers l1 = ld_triggers l" "ld_registry l1 = ld_registry l"
    "ld_perms l1 = (ld_perms l)(?i := (if r = None then Some (remdups ps) else None))"
    using assms h m l2 l3
    by (auto simp: activatePlugin_def Let_def split: option.splits prod.splits if_splits)
qed

lemma step_frames:
  "probePlugin E cm l = (l1, r) \<Longrightarrow> ld_plugins l1 = ld_plugins l \<and> ld_triggers l1 = ld_triggers l \<and>
     ld_registry l1 = ld_registry l \<and> ld_perms l1 = (ld_perms l)(probeID := None)"
  "checkDependencies E cm meta b l = (l1, r') \<Longrightarrow>
     ld_plugins l1 = ld_plugins l \<and> ld_triggers l1 = ld_triggers l \<and> ld_perms l1 = ld_perms l"
  "activatePlugin E cm meta c ps l = (l1, r') \<Longrightarrow> ld_plugins l1 = ld_plugins l \<and> ld_triggers l1 = ld_triggers l \<and>
     ld_registry l1 = ld_registry l \<and> ld_perms l1 = (ld_perms l)(pm_ID meta := (if r' = None then Some (remdups ps) else None))"
  by (simp_all add: probePlugin_frame checkDependencies_frame activatePlugin_frame)

lemma preparePlugin_ok:
  assumes "preparePlugin E b c l = (l3, Inr p)"
  shows "\<exists>w cm l1 l2. CompileModule (le_rt E) b (ld_world l) = (w, Inr cm) \<and>
    probePlugin E cm (l\<lparr>ld_world := w\<rparr>) = (l1, Inr (pp_meta p, PermissionsFromRequirements (pm_Requirements (pp_meta p)))) \<and>
    checkDependencies E cm (pp_meta p) b l1 = (l2, None) \<and>
    activatePlugin E cm (pp_meta p) c (PermissionsFromRequirements (pm_Requirements (pp_meta p))) l2 = (l3, None) \<and>
    pp_config p = c \<and> pp_wasmBytes p = b \<and> wp_meta (pp_plugin p) = pp_meta p \<and> wp_config (pp_plugin p) = c"
  using assms probe_permissions unfolding preparePlugin_def Let_def
  by (auto split: prod.splits sum.splits option.splits dest: probe_permissions)

lemma preparePlugin_success:
  assumes "preparePlugin E b c l = (l3, Inr p)"
  shows "ld_plugins l3 = ld_plugins l" "ld_triggers l3 = ld_triggers l"
    "ld_perms l3 = (ld_perms l)(probeID := None,
       pm_ID (pp_meta p) \<mapsto> remdups (PermissionsFromRequirements (pm_Requirements (pp_meta p))))"
proof -
  obtain w cm l1 l2 where
    "probePlugin E cm (l\<lparr>ld_world := w\<rparr>) = (l1, Inr (pp_meta p, PermissionsFromRequirements (pm_Requirements (pp_meta p))))"
    "checkDependencies E cm (pp_meta p) b l1 = (l2, None)"
    "activatePlugin E cm (pp_meta p) c (PermissionsFromRequirements (pm_Requirements (pp_meta p))) l2 = (l3, None)"
    using preparePlugin_ok [OF assms] by blast
  then show "ld_plugins l3 = ld_plugins l" "ld_triggers l3 = ld_triggers l"
    "ld_perms l3 = (ld_perms l)(probeID := None,
       pm_ID (pp_meta p) \<mapsto> remdups (PermissionsFromRequirements (pm_Requirements (pp_meta p))))"
    by (auto dest!: step_frames)
qed

lemma preparePlugin_failure:
  assumes "preparePlugin E b c l = (l3, Inl err)"
  shows "ld_plugins l3 = ld_plugins l" "ld_triggers l3 = ld_triggers l" "ld_perms l3 i = None \<or> ld_perms l3 i = ld_perms l i"
  using assms unfolding preparePlugin_def Let_def
  by (auto split: prod.splits sum.splits option.splits
      dest!: step_frames)


lemma restore_frame [simp]:
  "ld_plugins (restoreLoadedPluginState E i c ps l) = ld_plugins l"
  "ld_triggers (restoreLoadedPluginState E i c ps l) = ld_triggers l"
  "ld_registry (restoreLoadedPluginState E i c ps l) = ld_registry l"
  "ld_perms (restoreLoadedPluginState E i c ps l) = (ld_perms l)(i \<mapsto> remdups ps)"
  by (simp_all add: restoreLoadedPluginState_def Let_def split: option.split)

lemma set_draining_frame [simp]:
  "ld_triggers (set_draining i b l) = ld_triggers l" "ld_perms (set_draining i b l) = ld_perms l"
  "ld_registry (set_draining i b l) = ld_registry l"
  by (simp_all add: set_draining_def split: option.split)

lemma migration_frame:
  assumes "maybeRunReloadMigration E plan p l = (l1, r)"
  shows "ld_plugins l1 = ld_plugins l \<and> ld_triggers l1 = ld_triggers l \<and> ld_perms l1 = ld_perms l"
  using assms by (auto simp: maybeRunReloadMigration_def Let_def split: if_splits prod.splits option.splits)

lemma SetConfig_frame [simp]:
  "ld_triggers (SetConfig i c l) = ld_triggers l" "ld_perms (SetConfig i c l) = ld_perms l"
  by (simp_all add: SetConfig_def split: option.split)

subsection \<open>The table of plugins as a map\<close>

text \<open>The abstract state: the metadata and configuration of every loaded plugin.\<close>

definition table :: "('w, 'm, 'p, 'c, 'x, 'r) loader \<Rightarrow> string \<rightharpoonup> plugin_meta \<times> string" where
  "table l = (\<lambda>i. map_option (\<lambda>lp. (wp_meta (lp_plugin lp), lp_config lp)) (map_of (ld_plugins l) i))"

lemma table_cong: "ld_plugins l1 = ld_plugins l2 \<Longrightarrow> table l1 = table l2"
  by (simp add: table_def)

lemma table_draining [simp]: "table (set_draining i b l) = table l"
  by (auto simp: table_def set_draining_def update_conv' fun_eq_iff split: option.split)

lemma table_metric [simp]:
  "table (reload_metric i st l) = table l" "table (reconfigure_metric i st l) = table l"
  "table (module_close E cm l) = table l" "table (closeActivatedPlugin E i cm l) = table l"
  "table (restoreLoadedPluginState E i c ps l) = table l"
  by (simp_all add: table_def)

lemma table_register:
  "table (registerLoadedPlugin E p rep l) = (table l)(pm_ID (pp_meta p) \<mapsto> (wp_meta (pp_plugin p), pp_config p))"
  by (auto simp: table_def registerLoadedPlugin_def Let_def update_conv' fun_eq_iff)

lemma Load_table:
  "case LoadPluginFromBytes E b c l of
     (l', Inl _) \<Rightarrow> table l' = table l
   | (l', Inr wp) \<Rightarrow> table l' = (table l)(pm_ID (wp_meta wp) \<mapsto> (wp_meta wp, c))"
proof -
  obtain l1 r where p: "preparePlugin E b c l = (l1, r)" by fastforce
  show ?thesis
  proof (cases r)
    case (Inl err)
    then show ?thesis
      using p table_cong [OF preparePlugin_failure(1) [OF p [unfolded Inl]]] by (simp add: LoadPluginFromBytes_def)
  next
    case (Inr q)
    have "pp_config q = c" "wp_meta (pp_plugin q) = pp_meta q" using preparePlugin_ok [OF p [unfolded Inr]] by auto
    then show ?thesis
      using p Inr table_cong [OF preparePlugin_success(1) [OF p [unfolded Inr]]] by (simp add: LoadPluginFromBytes_def table_register)
  qed
qed

lemma beginReload_cases:
  "beginReload i c l =
     (case map_of (ld_plugins l) i of
        None \<Rightarrow> (l, Inl (not_loaded i))
      | Some old \<Rightarrow> (set_draining i True l,
          Inr \<lparr>rp_pluginID = i, rp_old = old, rp_config = (if c = '''' then lp_config old else c),
               rp_oldVersion = pm_Version (wp_meta (lp_plugin old)),
               rp_oldPermissions = PermissionsFromRequirements (pm_Requirements (wp_meta (lp_plugin old)))\<rparr>))"
  by (simp add: beginReload_def)

lemma Reload_table:
  "case ReloadPluginFromBytes E i b c l of
     (l', Some _) \<Rightarrow> table l' = table l
   | (l', None) \<Rightarrow> (\<exists>old meta. table l i = Some old \<and> pm_ID meta = i \<and>
       table l' = (table l)(i \<mapsto> (meta, if c = '''' then snd old else c)))"
proof (cases "map_of (ld_plugins l) i")
  case None
  then show ?thesis by (simp add: ReloadPluginFromBytes_def beginReload_def)
next
  case (Some old)
  let ?c = "if c = '''' then lp_config old else c"
  obtain plan where bgn: "beginReload i c l = (set_draining i True l, Inr plan)"
    and plan: "rp_pluginID plan = i" "rp_old plan = old" "rp_config plan = ?c"
    using Some by (simp add: beginReload_def)
  obtain l2 r where p: "preparePlugin E b ?c (set_draining i True l) = (l2, r)" by fastforce
  show ?thesis
  proof (cases r)
    case (Inl err)
    then show ?thesis
      using bgn plan p table_cong [OF preparePlugin_failure(1) [OF p [unfolded Inl]]]
      by (simp add: ReloadPluginFromBytes_def)
  next
    case (Inr q)
    have q: "pp_config q = ?c" "wp_meta (pp_plugin q) = pp_meta q" using preparePlugin_ok [OF p [unfolded Inr]] by auto
    have t2: "table l2 = table l" using table_cong [OF preparePlugin_success(1) [OF p [unfolded Inr]]] by simp
    obtain l3 e where m: "maybeRunReloadMigration E plan q l2 = (l3, e)" by fastforce
    have t3: "table l3 = table l" using table_cong [of l3 l2] migration_frame [OF m] t2 by simp
    have "table l i = Some (wp_meta (lp_plugin old), lp_config old)" using Some by (simp add: table_def)
    then show ?thesis
      using bgn plan p Inr q t2 t3 m
      by (cases e) (auto simp: ReloadPluginFromBytes_def abortReload_def table_register)
  qed
qed

lemma Reconfigure_table:
  "case ReconfigurePlugin E i c l of
     (l', Some _) \<Rightarrow> table l' = table l
   | (l', None) \<Rightarrow> (\<exists>old. table l i = Some old \<and> table l' = (table l)(i \<mapsto> (fst old, c)))"
proof (cases "map_of (ld_plugins l) i")
  case None
  then show ?thesis by (simp add: ReconfigurePlugin_def)
next
  case (Some lp)
  let ?m = "wp_meta (lp_plugin lp)" and ?l0 = "registerDatabases E i c (sql_unregister E i l)"
  obtain l1 e where h: "registerHTTPPolicies E i (pm_Requirements ?m) c ?l0 = (l1, e)" by fastforce
  have l1: "ld_plugins l1 = ld_plugins l"
    using registerHTTPPolicies_frame(1) [of E i "pm_Requirements ?m" c ?l0] h by simp
  have t1: "table l1 = table l" by (rule table_cong [OF l1])
  have w: "table (l1\<lparr>ld_world := w\<rparr>) = table l" for w using l1 by (simp add: table_def)
  have fin: "table (SetConfig i c (l1\<lparr>ld_world := w, ld_plugins := AList.update i (lp\<lparr>lp_config := c\<rparr>) (ld_plugins l1)\<rparr>)) =
      (table l)(i \<mapsto> (?m, c))" for w
    using Some l1 by (auto simp: table_def SetConfig_def update_conv' fun_eq_iff)
  have old: "table l i = Some (?m, lp_config lp)" using Some by (simp add: table_def)
  show ?thesis
    using Some h t1 w fin old unfolding ReconfigurePlugin_def
    by (auto simp: Let_def split: option.split prod.split)
qed

lemma Unload_table:
  "case UnloadPlugin E i l of
     (l', Some _) \<Rightarrow> table l' = table l \<and> table l i = None
   | (l', None) \<Rightarrow> table l' = (table l)(i := None) \<and> table l i \<noteq> None"
  by (auto simp: UnloadPlugin_def Let_def table_def unregisterPluginRegistry_def delete_conv' fun_eq_iff split: option.split)

text \<open>
  C21. The loader refines a map from identifiers to metadata and configuration: a successful load
  enters what the module declares, a successful reload replaces the entry of the plugin by that of a
  module with the same identifier, a successful reconfiguration changes the configuration only, and
  unloading removes the entry; every operation that returns an error leaves the map as it was.
\<close>

theorem loader_refines_table:
  "(case LoadPluginFromBytes E b c l of
      (l', Inl _) \<Rightarrow> table l' = table l
    | (l', Inr wp) \<Rightarrow> table l' = (table l)(pm_ID (wp_meta wp) \<mapsto> (wp_meta wp, c))) \<and>
   (case ReloadPluginFromBytes E i b c l of
      (l', Some _) \<Rightarrow> table l' = table l
    | (l', None) \<Rightarrow> (\<exists>old meta. table l i = Some old \<and> pm_ID meta = i \<and>
        table l' = (table l)(i \<mapsto> (meta, if c = '''' then snd old else c)))) \<and>
   (case ReconfigurePlugin E i c l of
      (l', Some _) \<Rightarrow> table l' = table l
    | (l', None) \<Rightarrow> (\<exists>old. table l i = Some old \<and> table l' = (table l)(i \<mapsto> (fst old, c)))) \<and>
   (case UnloadPlugin E i l of
      (l', Some _) \<Rightarrow> table l' = table l \<and> table l i = None
    | (l', None) \<Rightarrow> table l' = (table l)(i := None) \<and> table l i \<noteq> None)"
  by (intro conjI Load_table Reload_table Reconfigure_table Unload_table)

subsection \<open>Rights and routes belong to loaded plugins\<close>

definition event_owners :: "(string \<times> event_route list) list \<Rightarrow> string set" where
  "event_owners routes = (\<Union>p \<in> set routes. er_PluginID ` set (snd p))"

definition http_owners :: "(string \<times> http_route) list \<Rightarrow> string set" where
  "http_owners routes = (\<lambda>p. ht_PluginID (snd p)) ` set routes"

definition route_owners :: "trigger_registry \<Rightarrow> string set" where
  "route_owners tg = http_owners (tr_httpRoutes tg) \<union> event_owners (tr_eventRoutes tg)"

lemma event_owners_update: "event_owners (AList.update t rs routes) \<subseteq> event_owners routes \<union> er_PluginID ` set rs"
  using set_update_subset [of t rs routes] by (fastforce simp: event_owners_def)

lemma event_owners_lookup: "map_of routes t = Some rs \<Longrightarrow> er_PluginID ` set rs \<subseteq> event_owners routes"
  by (force simp: event_owners_def dest: map_of_SomeD)

lemma http_owners_update: "http_owners (AList.update k r routes) \<subseteq> insert (ht_PluginID r) (http_owners routes)"
  using set_update_subset [of k r routes] by (fastforce simp: http_owners_def)

lemma register_trigger_owners: "route_owners (register_trigger add i tg t) \<subseteq> insert i (route_owners tg)"
proof -
  let ?old = "case map_of (tr_eventRoutes tg) (td_Topic t) of Some rs \<Rightarrow> rs | None \<Rightarrow> []"
  let ?new = "AList.update (td_Topic t) (?old @ [\<lparr>er_PluginID = i, er_TriggerName = td_Name t\<rparr>]) (tr_eventRoutes tg)"
  let ?http = "\<lparr>ht_PluginID = i, ht_TriggerName = td_Name t, ht_Methods = route_methods (td_Methods t)\<rparr>"
  have "er_PluginID ` set ?old \<subseteq> event_owners (tr_eventRoutes tg)"
    using event_owners_lookup [of "tr_eventRoutes tg" "td_Topic t"]
    by (cases "map_of (tr_eventRoutes tg) (td_Topic t)") simp_all
  then have new: "event_owners ?new \<subseteq> insert i (event_owners (tr_eventRoutes tg))"
    using event_owners_update [of "td_Topic t" "?old @ [\<lparr>er_PluginID = i, er_TriggerName = td_Name t\<rparr>]" "tr_eventRoutes tg"]
    by (simp only: set_append image_Un list.set image_insert image_empty event_route.simps) blast
  have "route_owners (tg\<lparr>tr_httpRoutes := AList.update (httpRouteKey i (td_Path t)) ?http (tr_httpRoutes tg)\<rparr>) \<subseteq> insert i (route_owners tg)"
    using http_owners_update [of "httpRouteKey i (td_Path t)" ?http "tr_httpRoutes tg"]
    by (auto simp: route_owners_def)
  moreover have "route_owners (tg\<lparr>tr_eventRoutes := ?new\<rparr>) \<subseteq> insert i (route_owners tg)"
    using new by (auto simp: route_owners_def)
  moreover have "route_owners (tg\<lparr>tr_cron := cs\<rparr>) = route_owners tg" for cs by (simp add: route_owners_def)
  ultimately show ?thesis unfolding register_trigger_def by (simp split: option.split) blast
qed

lemma RegisterTriggers_owners: "route_owners (RegisterTriggers add i ts tg) \<subseteq> insert i (route_owners tg)"
proof (induction ts arbitrary: tg)
  case (Cons t ts)
  then show ?case using register_trigger_owners [of add i tg t] by (fastforce simp: RegisterTriggers_def)
qed (auto simp: RegisterTriggers_def)

lemma UnregisterTriggers_owners: "route_owners (UnregisterTriggers i tg) \<subseteq> route_owners tg - {i}"
  unfolding route_owners_def UnregisterTriggers_def other_routes_def event_owners_def http_owners_def by fastforce

lemma replace_triggers_owners: "route_owners (replace_triggers E rep i ts tg) \<subseteq> insert i (route_owners tg)"
  using RegisterTriggers_owners [of "le_cron_add E" i "map trigger_def.truncate ts" tg]
    RegisterTriggers_owners [of "le_cron_add E" i "map trigger_def.truncate ts" "UnregisterTriggers i tg"]
    UnregisterTriggers_owners [of i tg]
  unfolding replace_triggers_def Let_def by auto

definition rights :: "plugin_meta \<Rightarrow> string list" where
  "rights meta = remdups (PermissionsFromRequirements (pm_Requirements meta))"

definition loader_ok :: "('w, 'm, 'p, 'c, 'x, 'r) loader \<Rightarrow> bool" where
  "loader_ok l \<longleftrightarrow>
     (\<forall>i ps. ld_perms l i = Some ps \<longrightarrow> (\<exists>meta c. table l i = Some (meta, c) \<and> ps = rights meta)) \<and>
     (\<forall>tg. ld_triggers l = Some tg \<longrightarrow> route_owners tg \<subseteq> dom (table l))"

lemma loader_okD: "loader_ok l \<Longrightarrow> ld_perms l i = Some ps \<Longrightarrow> \<exists>meta c. table l i = Some (meta, c) \<and> ps = rights meta"
  unfolding loader_ok_def by blast

lemma ok_fewer:
  assumes "loader_ok l" "table l' = table l" "ld_triggers l' = ld_triggers l"
    "\<And>i. ld_perms l' i = None \<or> ld_perms l' i = ld_perms l i \<or> (\<exists>meta c. table l i = Some (meta, c) \<and> ld_perms l' i = Some (rights meta))"
  shows "loader_ok l'"
  using assms unfolding loader_ok_def by (metis option.distinct(1) option.inject)

lemma ok_register:
  assumes "loader_ok l" "table l' = (table l)(i \<mapsto> (meta, c))"
    "\<And>tg'. ld_triggers l' = Some tg' \<Longrightarrow> \<exists>tg. ld_triggers l = Some tg \<and> route_owners tg' \<subseteq> insert i (route_owners tg)"
    "ld_perms l' i = Some (rights meta)"
    "\<And>j. j \<noteq> i \<Longrightarrow> ld_perms l' j = None \<or> ld_perms l' j = ld_perms l j"
  shows "loader_ok l'"
  unfolding loader_ok_def
proof (intro conjI allI impI)
  fix j ps assume "ld_perms l' j = Some ps"
  then show "\<exists>meta c. table l' j = Some (meta, c) \<and> ps = rights meta"
    using assms(1,2,4) assms(5) [of j] unfolding loader_ok_def by (cases "j = i") auto
next
  fix tg' assume "ld_triggers l' = Some tg'"
  then obtain tg where "ld_triggers l = Some tg" "route_owners tg' \<subseteq> insert i (route_owners tg)" using assms(3) by blast
  then show "route_owners tg' \<subseteq> dom (table l')" using assms(1,2) unfolding loader_ok_def by fastforce
qed

lemma ok_config:
  assumes "loader_ok l" "table l' = (table l)(i \<mapsto> (meta, c'))" "table l i = Some (meta, c)"
    "ld_triggers l' = ld_triggers l" "ld_perms l' = ld_perms l"
  shows "loader_ok l'"
  unfolding loader_ok_def
proof (intro conjI allI impI)
  fix j ps assume "ld_perms l' j = Some ps"
  then obtain m d where "table l j = Some (m, d)" "ps = rights m" using loader_okD [OF assms(1)] assms(5) by fastforce
  then show "\<exists>meta c. table l' j = Some (meta, c) \<and> ps = rights meta"
    using assms(2,3) by (cases "j = i") auto
next
  fix tg assume "ld_triggers l' = Some tg"
  then show "route_owners tg \<subseteq> dom (table l')" using assms unfolding loader_ok_def by fastforce
qed

lemma registered_frame:
  "ld_perms (registerLoadedPlugin E p rep l) = ld_perms l"
  "ld_triggers (registerLoadedPlugin E p rep l) =
     map_option (replace_triggers E rep (pm_ID (pp_meta p)) (pm_Triggers (pp_meta p))) (ld_triggers l)"
  by (simp_all add: registerLoadedPlugin_def Let_def)

lemma ok_registered:
  assumes ok: "loader_ok l" and p: "preparePlugin E b c (l0 :: ('w, 'm, 'p, 'c, 'x, 'r) loader) = (l2, Inr q)"
    and l0: "table l0 = table l" "ld_triggers l0 = ld_triggers l" "ld_perms l0 = ld_perms l"
    and l3: "ld_plugins l3 = ld_plugins l2" "ld_triggers l3 = ld_triggers l2" "ld_perms l3 = ld_perms l2"
  shows "loader_ok (registerLoadedPlugin E q rep l3)"
proof (rule ok_register [OF ok, where i = "pm_ID (pp_meta q)" and meta = "pp_meta q" and c = "pp_config q"])
  note s = preparePlugin_success [OF p]
  have "table l3 = table l" using table_cong [of l3 l0] l3 s l0 by simp
  moreover have "wp_meta (pp_plugin q) = pp_meta q" using preparePlugin_ok [OF p] by blast
  ultimately show "table (registerLoadedPlugin E q rep l3) = (table l)(pm_ID (pp_meta q) \<mapsto> (pp_meta q, pp_config q))"
    by (simp add: table_register)
  show "\<exists>tg. ld_triggers l = Some tg \<and> route_owners tg' \<subseteq> insert (pm_ID (pp_meta q)) (route_owners tg)"
    if "ld_triggers (registerLoadedPlugin E q rep l3) = Some tg'" for tg'
    using that l3 s l0 replace_triggers_owners [of E rep "pm_ID (pp_meta q)" "pm_Triggers (pp_meta q)"]
    by (auto simp only: registered_frame map_option_eq_Some)
  show "ld_perms (registerLoadedPlugin E q rep l3) (pm_ID (pp_meta q)) = Some (rights (pp_meta q))"
    using l3 s by (simp add: registered_frame rights_def)
  show "ld_perms (registerLoadedPlugin E q rep l3) j = None \<or> ld_perms (registerLoadedPlugin E q rep l3) j = ld_perms l j"
    if "j \<noteq> pm_ID (pp_meta q)" for j
    using that l3 s l0 by (simp add: registered_frame)
qed

lemma Load_ok: "loader_ok l \<Longrightarrow> loader_ok (fst (LoadPluginFromBytes E b c l))"
proof -
  assume ok: "loader_ok l"
  obtain l1 r where p: "preparePlugin E b c l = (l1, r)" by fastforce
  show ?thesis
  proof (cases r)
    case (Inl err)
    note f = preparePlugin_failure [OF p [unfolded Inl]]
    have "loader_ok l1" using ok_fewer [OF ok table_cong [OF f(1)] f(2)] f(3) by blast
    then show ?thesis using p Inl by (simp add: LoadPluginFromBytes_def)
  next
    case (Inr q)
    have "loader_ok (registerLoadedPlugin E q False l1)" by (rule ok_registered [OF ok p [unfolded Inr]]) simp_all
    then show ?thesis using p Inr by (simp add: LoadPluginFromBytes_def)
  qed
qed

lemma metric_ok [simp]:
  "loader_ok (reload_metric i st l) = loader_ok l" "loader_ok (reconfigure_metric i st l) = loader_ok l"
  "loader_ok (module_close E cm l) = loader_ok l" "loader_ok (l\<lparr>ld_world := w\<rparr>) = loader_ok l"
  by (simp_all add: loader_ok_def table_def)

lemma Reload_ok:
  assumes ok: "loader_ok l"
  shows "loader_ok (fst (ReloadPluginFromBytes E i b c l))"
proof (cases "map_of (ld_plugins l) i")
  case None
  then show ?thesis using ok by (simp add: ReloadPluginFromBytes_def beginReload_def)
next
  case (Some old)
  let ?c = "if c = '''' then lp_config old else c" and ?l0 = "set_draining i True l"
  let ?ps = "PermissionsFromRequirements (pm_Requirements (wp_meta (lp_plugin old)))"
  obtain plan where bgn: "beginReload i c l = (?l0, Inr plan)"
    and plan: "rp_pluginID plan = i" "rp_old plan = old" "rp_config plan = ?c" "rp_oldPermissions plan = ?ps"
    using Some by (simp add: beginReload_def)
  have old: "table l i = Some (wp_meta (lp_plugin old), lp_config old)" using Some by (simp add: table_def)
  obtain l2 r where p: "preparePlugin E b ?c ?l0 = (l2, r)" by fastforce
  show ?thesis
  proof (cases r)
    case (Inl err)
    note f = preparePlugin_failure [OF p [unfolded Inl]]
    have "loader_ok (set_draining i False l2)"
    proof (rule ok_fewer [OF ok])
      show "ld_perms (set_draining i False l2) j = None \<or> ld_perms (set_draining i False l2) j = ld_perms l j \<or>
            (\<exists>meta c. table l j = Some (meta, c) \<and> ld_perms (set_draining i False l2) j = Some (rights meta))" for j
        using f(3) [of j] by auto
    qed (use table_cong [OF f(1)] f(2) in simp_all)
    then show ?thesis using bgn plan p Inl by (simp add: ReloadPluginFromBytes_def)
  next
    case (Inr q)
    note s = preparePlugin_success [OF p [unfolded Inr]]
    obtain l3 e where m: "maybeRunReloadMigration E plan q l2 = (l3, e)" by fastforce
    note mf = migration_frame [OF m]
    have abort: "loader_ok (abortReload E plan q l')"
      if "ld_plugins l' = ld_plugins l2" "ld_triggers l' = ld_triggers l2" "ld_perms l' = ld_perms l2" for l'
    proof (rule ok_fewer [OF ok])
      show "table (abortReload E plan q l') = table l"
        using table_cong [of l' ?l0] that s by (simp add: abortReload_def)
      show "ld_triggers (abortReload E plan q l') = ld_triggers l" using that s by (simp add: abortReload_def)
      show "ld_perms (abortReload E plan q l') j = None \<or> ld_perms (abortReload E plan q l') j = ld_perms l j \<or>
            (\<exists>meta c. table l j = Some (meta, c) \<and> ld_perms (abortReload E plan q l') j = Some (rights meta))" for j
        using that s plan old by (auto simp: abortReload_def rights_def)
    qed
    have "loader_ok (registerLoadedPlugin E q True l3)"
      by (rule ok_registered [OF ok p [unfolded Inr]]) (use mf in simp_all)
    then show ?thesis
      using bgn plan p Inr m mf abort [of l2] abort [of l3]
      by (cases e) (auto simp: ReloadPluginFromBytes_def)
  qed
qed

lemma Reconfigure_ok:
  assumes ok: "loader_ok l"
  shows "loader_ok (fst (ReconfigurePlugin E i c l))"
proof (cases "map_of (ld_plugins l) i")
  case None
  then show ?thesis using ok by (simp add: ReconfigurePlugin_def)
next
  case (Some lp)
  let ?m = "wp_meta (lp_plugin lp)" and ?l0 = "registerDatabases E i c (sql_unregister E i l)"
  obtain l1 e where h: "registerHTTPPolicies E i (pm_Requirements ?m) c ?l0 = (l1, e)" by fastforce
  have l1: "ld_plugins l1 = ld_plugins l" "ld_triggers l1 = ld_triggers l" "ld_perms l1 = ld_perms l"
    using registerHTTPPolicies_frame [of E i "pm_Requirements ?m" c ?l0] h by simp_all
  have old: "table l i = Some (?m, lp_config lp)" using Some by (simp add: table_def)
  have restore: "loader_ok (restoreLoadedPluginState E i (lp_config lp) (PermissionsFromRequirements (pm_Requirements ?m)) l')"
    if "ld_plugins l' = ld_plugins l" "ld_triggers l' = ld_triggers l" "ld_perms l' = ld_perms l" for l'
    by (rule ok_fewer [OF ok]) (use that old table_cong [of l' l] in \<open>auto simp: rights_def\<close>)
  have fin: "loader_ok (SetConfig i c (l1\<lparr>ld_world := w, ld_plugins := AList.update i (lp\<lparr>lp_config := c\<rparr>) (ld_plugins l1)\<rparr>))"
    (is "loader_ok ?l'") for w
  proof -
    have "table ?l' = (table l)(i \<mapsto> (?m, c))"
      using Some l1 by (auto simp: table_def SetConfig_def update_conv' fun_eq_iff)
    then show ?thesis by (rule ok_config [OF ok _ old]) (use l1 in simp_all)
  qed
  show ?thesis
    using Some h l1 restore fin ok unfolding ReconfigurePlugin_def
    by (auto simp: Let_def split: option.split prod.split)
qed

lemma Unload_ok: "loader_ok l \<Longrightarrow> loader_ok (fst (UnloadPlugin E i l))"
  using UnregisterTriggers_owners [of i] unfolding UnloadPlugin_def
  by (fastforce simp: Let_def loader_ok_def unregisterPluginRegistry_def table_def delete_conv' dom_def
      split: option.splits)

text \<open>The runs of a loader; closing it ends the run.\<close>

datatype loader_op =
    OpLoad string string
  | OpReload string string string
  | OpReconfigure string string
  | OpUnload string
  | OpProbe string
  | OpSetConfig string string
  | OpCall string string string string
  | OpVisibility int string
  | OpDropData string

fun run_op ::
    "('w, 'm, 'p, 'c, 'x, 'r) loader_env \<Rightarrow> loader_op \<Rightarrow> ('w, 'm, 'p, 'c, 'x, 'r) loader \<Rightarrow> ('w, 'm, 'p, 'c, 'x, 'r) loader" where
  "run_op E (OpLoad b c) l = fst (LoadPluginFromBytes E b c l)"
| "run_op E (OpReload i b c) l = fst (ReloadPluginFromBytes E i b c l)"
| "run_op E (OpReconfigure i c) l = fst (ReconfigurePlugin E i c l)"
| "run_op E (OpUnload i) l = fst (UnloadPlugin E i l)"
| "run_op E (OpProbe b) l = fst (ProbeMetadataFromBytes E b l)"
| "run_op E (OpSetConfig i c) l = SetConfig i c l"
| "run_op E (OpCall caller target meth params) l = fst (CallPlugin E caller target meth params l)"
| "run_op E (OpVisibility u i) l = fst (Loader_CheckVisibility E u i l)"
| "run_op E (OpDropData i) l = fst (DropPluginData E i l)"

lemma Probe_ok: "loader_ok l \<Longrightarrow> loader_ok (fst (ProbeMetadataFromBytes E b l))"
proof -
  assume ok: "loader_ok l"
  obtain w r where c: "CompileModule (le_rt E) b (ld_world l) = (w, r)" by fastforce
  have "loader_ok l1" if "probePlugin E cm (l\<lparr>ld_world := w\<rparr>) = (l1, r1)" for cm l1 r1
    using ok_fewer [OF ok, of l1] table_cong [of l1 l] step_frames(1) [OF that] by simp
  then show ?thesis
    using ok c by (auto simp: ProbeMetadataFromBytes_def split: sum.split prod.split)
qed

lemma table_acquire [simp]:
  "table (fst (AcquirePlugin i l)) = table l" "table (ReleasePlugin i l) = table l" "table (SetConfig i c l) = table l"
  "ld_triggers (fst (AcquirePlugin i l)) = ld_triggers l" "ld_triggers (ReleasePlugin i l) = ld_triggers l"
  "ld_perms (fst (AcquirePlugin i l)) = ld_perms l" "ld_perms (ReleasePlugin i l) = ld_perms l"
  by (auto simp: table_def AcquirePlugin_def ReleasePlugin_def SetConfig_def release_plugin_def Let_def update_conv' fun_eq_iff
      split: option.split)

lemma acquire_ok [simp]:
  "loader_ok (fst (AcquirePlugin i l)) = loader_ok l" "loader_ok (ReleasePlugin i l) = loader_ok l"
  "loader_ok (SetConfig i c l) = loader_ok l"
  by (simp_all add: loader_ok_def)

lemma run_op_ok: "loader_ok l \<Longrightarrow> loader_ok (run_op E op l)"
proof (cases op)
  case (OpCall caller target meth params)
  obtain l1 r where a: "AcquirePlugin target l = (l1, r)" by fastforce
  assume "loader_ok l"
  then have "loader_ok l1" using acquire_ok(1) [of target l] a by simp
  then show ?thesis using OpCall a by (auto simp: CallPlugin_def split: option.split prod.split)
next
  case (OpVisibility u i)
  obtain l1 r where a: "AcquirePlugin i l = (l1, r)" by fastforce
  assume "loader_ok l"
  then have "loader_ok l1" using acquire_ok(1) [of i l] a by simp
  then show ?thesis using OpVisibility a by (auto simp: Loader_CheckVisibility_def split: option.split prod.split sum.split)
next
  case (OpDropData i)
  assume "loader_ok l"
  then show ?thesis using OpDropData by (auto simp: DropPluginData_def Let_def split: option.split prod.split)
qed (simp_all add: Load_ok Reload_ok Reconfigure_ok Unload_ok Probe_ok)

text \<open>A module whose metadata asks for the key-value store, for the examples.\<close>

definition demo_meta :: plugin_meta where
  "demo_meta =
     \<lparr>pm_ID = ''p'', pm_Name = ''P'', pm_Version = ''1'', pm_SDKVersion = 4, pm_SupportsReconfigure = False,
      pm_SupportsVisibility = False, pm_RPCMethods = [], pm_Triggers = [],
      pm_Requirements = [\<lparr>rq_Type = ''kv'', rq_Description = [], rq_Name = [], rq_Target = [], rq_Config = []\<rparr>],
      pm_ConfigSchema = [], pm_Dependencies = [], pm_Migrations = []\<rparr>"

definition demo_runtime :: "(unit, unit) wasm_runtime" where
  "demo_runtime =
     \<lparr>rt_engine = \<lparr>we_Compile = (\<lambda>_ w. (w, Inr ())), we_Exports = (\<lambda>_. [''alloc'']), we_Close = (\<lambda>_ w. (w, None)),
        we_Instantiate = (\<lambda>_ _ _ _ _ w. (w, Exited 0 [])), we_Slot = (\<lambda>_ w. (w, None)), we_sha256 = id\<rparr>,
      rt_config = \<lparr>rc_CacheDir = [], rc_DefaultMemoryLimitPages = 0, rc_DefaultTimeoutSeconds = 0, rc_PoolMaxConcurrency = 0\<rparr>,
      rt_wire = \<lparr>wc_meta = (\<lambda>_. Inr demo_meta), wc_error = (\<lambda>_. None), wc_reconfigure = (\<lambda>_. Inr []),
        wc_rpc_request = (\<lambda>_. Inr []), wc_rpc_response = (\<lambda>_. Inl (Plain [])), wc_migrate_request = (\<lambda>_. Inr []),
        wc_migrate_response = (\<lambda>_. None), wc_visibility_request = (\<lambda>_. []), wc_visible = (\<lambda>_. Inr [])\<rparr>,
      rt_override = None\<rparr>"

definition demo_loader_env :: "(unit, unit, unit, unit, unit, unit) loader_env" where
  "demo_loader_env =
     \<lparr>le_rt = demo_runtime,
      le_drv = \<lparr>id_Sanitize = id, pool_New = (\<lambda>_ w. (w, Inr ())), pool_Exec = (\<lambda>_ _ w. (w, None)), pool_Close = (\<lambda>_ w. w),
        pool_Acquire = (\<lambda>_ w. (w, Inr ())), conn_Release = (\<lambda>_ w. w),
        conn_Exec = (\<lambda>_ _ _ w. (w, Inr 0)), conn_Query = (\<lambda>_ _ _ w. (w, Inr ())), conn_BeginTx = (\<lambda>_ _ _ w. (w, Inr ())),
        tx_Exec = (\<lambda>_ _ _ w. (w, Inr 0)), tx_Query = (\<lambda>_ _ _ w. (w, Inr ())), tx_Commit = (\<lambda>_ w. (w, None)),
        tx_Rollback = (\<lambda>_ w. (w, None)), rows_Columns = (\<lambda>_ _. []), rows_Next = (\<lambda>_ w. (w, False)),
        rows_Err = (\<lambda>_ _. None), rows_Values = (\<lambda>_ _. Inr []), rows_Close = (\<lambda>_ w. w)\<rparr>,
      le_goose = \<lparr>gs_Sanitize = id, gs_Open = (\<lambda>_. None), gs_Exec = (\<lambda>_ _ w. (w, None)), gs_NewStore = (\<lambda>_. None),
        gs_NewProvider = (\<lambda>_ _ _ w. (w, None)), gs_Up = (\<lambda>_ _ _ w. (w, None)), gs_DownToZero = (\<lambda>_ _ _ w. (w, None))\<rparr>,
      le_schema = \<lparr>js_parse = (\<lambda>_. None), js_add = (\<lambda>_. None), js_compile = (\<lambda>_. None), js_validate = (\<lambda>_ _. SchemaOK)\<rparr>,
      le_databases = (\<lambda>_. None), le_policies = (\<lambda>_. Inr Map.empty), le_srt = insertionSort, le_cron_add = (\<lambda>_. None),
      le_now = 0\<rparr>"

definition demo_loader :: "(unit, unit, unit, unit, unit, unit) loader" where
  "demo_loader = (NewLoader False ())\<lparr>ld_registry := Some (\<lambda>i. None)\<rparr>"

lemma demo_probe:
  "probePlugin demo_loader_env cm l = (RevokePermissions probeID ((GrantPermissions probeID [] l)\<lparr>ld_world := ()\<rparr>),
     Inr (demo_meta, [''kv'']))"
  by (simp add: probePlugin_def CallMeta_def RunAction_def RunActionWithConfig_def runActionDirect_def instantiate_def demo_loader_env_def
      demo_runtime_def demo_meta_def MaxSupportedSDKVersion_def PermissionsFromRequirements_def requirement_permission_def Let_def
      split: option.split)

lemma demo_loader_load:
  "\<exists>l' wp. LoadPluginFromBytes demo_loader_env ''w'' [] demo_loader = (l', Inr wp) \<and> wp_meta wp = demo_meta \<and>
     ld_perms l' ''p'' = Some [''kv'']"
proof -
  have "\<exists>l' q. preparePlugin demo_loader_env ''w'' [] demo_loader = (l', Inr q) \<and> pp_meta q = demo_meta"
    unfolding preparePlugin_def demo_probe
    by (simp add: demo_loader_def NewLoader_def CompileModule_def requiredExports_def
        checkDependencies_def integrity_error_def GetVersion_def activatePlugin_def registerHTTPPolicies_def ResolveHTTPPolicies_def
        registerDatabases_def validateDatabaseRequirements_def runPluginMigrations_def GrantPermissions_def RevokePermissions_def
        demo_loader_env_def demo_runtime_def demo_meta_def Let_def)
  then obtain l' q where p: "preparePlugin demo_loader_env ''w'' [] demo_loader = (l', Inr q)" and q: "pp_meta q = demo_meta"
    by blast
  have "wp_meta (pp_plugin q) = demo_meta" using preparePlugin_ok [OF p] q by auto
  moreover have "ld_perms l' ''p'' = Some [''kv'']"
    using preparePlugin_success(3) [OF p] q
    by (simp add: demo_meta_def PermissionsFromRequirements_def requirement_permission_def)
  ultimately show ?thesis using p by (simp add: LoadPluginFromBytes_def registered_frame)
qed



subsection \<open>What is checked before a plugin is loaded\<close>

lemma ResolveDependencies_met:
  assumes "ResolveDependencies r p v installed = None" "r p = Some e"
  shows "list_all (dependency_met installed) (pe_Dependencies e)"
  using assms by (auto simp: ResolveDependencies_def Get_entry_def Let_def list_all_iff unmet_of_met split: if_splits)

lemma Register_dependencies:
  "\<exists>e. Register_entry srt (temp_entry meta) r (pm_ID meta) = Some e \<and> pe_Dependencies e = convertDependencies (pm_Dependencies meta)"
  by (auto simp: Register_entry_def temp_entry_def sortVersions_def Let_def split: option.split)

lemma checkDependencies_ok:
  assumes "checkDependencies E cm meta b l = (l1, None)" "ld_registry l = Some reg"
  shows "list_all (dependency_met (installedPlugins l)) (convertDependencies (pm_Dependencies meta)) \<and>
    (pm_Dependencies meta = [] \<longrightarrow> integrity_error E reg meta b = None)"
proof (cases "pm_Dependencies meta = []")
  case True
  then show ?thesis
    using assms by (auto simp: checkDependencies_def Let_def convertDependencies_def split: option.splits)
next
  case False
  let ?r = "Register_entry (le_srt E) (temp_entry meta) reg"
  have "ResolveDependencies ?r (pm_ID meta) (pm_Version meta) (installedPlugins l) = None"
    using assms False by (auto simp: checkDependencies_def Let_def split: option.splits)
  moreover obtain e where "?r (pm_ID meta) = Some e" "pe_Dependencies e = convertDependencies (pm_Dependencies meta)"
    using Register_dependencies [of "le_srt E" meta reg] by blast
  ultimately show ?thesis using False ResolveDependencies_met by metis
qed

lemma probe_version:
  "probePlugin E cm l = (l1, Inr (meta, ps)) \<Longrightarrow> pm_SDKVersion meta \<le> MaxSupportedSDKVersion"
  by (auto simp: probePlugin_def CallMeta_def Let_def split: prod.splits sum.splits if_splits)



text \<open>
  For a plugin with dependencies the check of integrity never fails: resolving them first enters the
  version into the registry without a hash, over the entry that had one.
\<close>

lemma dependencies_skip_integrity:
  assumes "slice_sort srt" "versions_distinct reg"
  shows "integrity_error E (Register_entry srt (temp_entry meta) reg) meta b = None"
proof -
  let ?t = "temp_entry meta"
  obtain e where e: "Register_entry srt ?t reg = reg(pm_ID meta \<mapsto> e)" "pe_Versions e = srt newer (merged_versions ?t reg)"
    using Register_stores [of srt ?t reg] by (auto simp: temp_entry_def)
  have d: "distinct (map ve_Version (merged_versions ?t reg))"
    using merged_distinct [OF assms(2)] by (simp add: temp_entry_def)
  have "versions_map (merged_versions ?t reg) (pm_Version meta) = Some (hd (pe_Versions ?t))"
    by (auto simp: merged_versions_def temp_entry_def versions_map_def split: option.split) (simp add: versions_map_put [unfolded versions_map_def])
  then have "versions_map (pe_Versions e) (pm_Version meta) = Some (hd (pe_Versions ?t))"
    using e(2) sorted_versions_map [OF assms(1) d] by simp
  then have "GetVersion (reg(pm_ID meta \<mapsto> e)) (pm_ID meta) (pm_Version meta) = Inr (hd (pe_Versions ?t))"
    by (simp add: GetVersion_map)
  then show ?thesis unfolding integrity_error_def e(1) by (simp add: temp_entry_def)
qed

text \<open>
  A reload whose new module fails to activate leaves the old plugin in the table, serving, but
  without its permissions and data sources: \<^verbatim>\<open>preparePlugin\<close> has taken them away, and only the
  aborts after it restore them.
\<close>

lemma failed_activation_revokes:
  assumes "activatePlugin E cm meta c ps l = (l1, Some err)"
  shows "ld_perms l1 (pm_ID meta) = None \<and> CheckPermission (ld_perms l1) (pm_ID meta) need \<noteq> None"
  using step_frames(3) [OF assms] by (simp add: CheckPermission_def)

lemma failed_reload_revokes:
  assumes "map_of (ld_plugins l) i = Some old"
    and "CompileModule (le_rt E) b (ld_world (set_draining i True l)) = (w, Inr cm)"
    and "probePlugin E cm ((set_draining i True l)\<lparr>ld_world := w\<rparr>) = (l1, Inr (meta, ps))" "pm_ID meta = i"
    and "checkDependencies E cm meta b l1 = (l2, None)"
    and "activatePlugin E cm meta (if c = '''' then lp_config old else c) ps l2 = (l3, Some err)"
  shows "table (fst (ReloadPluginFromBytes E i b c l)) i = Some (wp_meta (lp_plugin old), lp_config old) \<and>
    CheckPermission (ld_perms (fst (ReloadPluginFromBytes E i b c l))) i need \<noteq> None"
proof -
  have p: "preparePlugin E b (if c = '''' then lp_config old else c) (set_draining i True l) = (l3, Inl err)"
    using assms(2,3,5,6) by (simp add: preparePlugin_def)
  have t: "table l3 = table l" using table_cong [OF preparePlugin_failure(1) [OF p]] by simp
  have "ReloadPluginFromBytes E i b c l =
      (reload_metric i ''error'' (set_draining i False l3), Some (Wrap (''reload plugin '' @ quote i @ '': load new version: '') err ''''))"
    using assms(1) p by (simp add: ReloadPluginFromBytes_def beginReload_def)
  moreover have "table l i = Some (wp_meta (lp_plugin old), lp_config old)" using assms(1) by (simp add: table_def)
  ultimately show ?thesis using failed_activation_revokes [OF assms(6)] assms(4) t by simp
qed

text \<open>
  The channel that reports the end of draining is made once per loaded plugin. When the last request
  ends during a reload that then fails, it is closed and stays closed: a later drain of the plugin,
  which serves requests again, is over at once although requests are running.
\<close>

lemma drained_outlives_failed_reload:
  assumes "lp_active lp = 1" "lp1 = release_plugin (lp\<lparr>lp_draining := True\<rparr>)"
    "lp2 = lp1\<lparr>lp_draining := False\<rparr>" "lp3 = lp2\<lparr>lp_active := lp_active lp2 + 1\<rparr>"
  shows "lp_drained (drainPlugin lp3) \<and> lp_active (drainPlugin lp3) = 1"
  using assms by (simp add: release_plugin_def drainPlugin_def Let_def)

end
