(* ===== verification/Wasm_Adapter.thy ===== *)
theory Wasm_Adapter
  imports Wasm_Loader
begin

text \<open>
  A WebAssembly plugin as a plugin of the bot (\<^verbatim>\<open>adapter.go\<close>, \<^verbatim>\<open>prompt.go\<close> and \<^verbatim>\<open>locale.go\<close> of
  \<^verbatim>\<open>internal/wasm/adapter\<close>): the commands that its metadata declare as trees of the dialog DSL with
  steps that call back into the module, the conditions of steps and branches, and the events it
  handles with the replies that are sent back to the chat.

  The regular expressions of package regexp and the JSON codec are parameters.
\<close>

subsection \<open>Localised texts (locale.go)\<close>

definition ResolveLocalizedText :: "string \<Rightarrow> (string \<times> string) list \<Rightarrow> string \<Rightarrow> string" where
  "ResolveLocalizedText deflt texts loc = ResolveText deflt texts loc"

definition resolveLocalized :: "string \<Rightarrow> string \<Rightarrow> (string \<times> string) list \<Rightarrow> string \<Rightarrow> string" where
  "resolveLocalized deflt fallback texts loc =
     (if length texts > 0
      then (let resolved = ResolveLocalizedText deflt texts loc in if resolved \<noteq> '''' then resolved else fallback)
      else fallback)"

definition parseTextStyle :: "string \<Rightarrow> text_style" where
  "parseTextStyle s =
     (if s = ''header'' then StyleHeader
      else if s = ''subheader'' then StyleSubheader
      else if s = ''code'' then StyleCode
      else if s = ''quote'' then StyleQuote
      else StylePlain)"

definition convertOptions :: "string \<Rightarrow> option_def list \<Rightarrow> string \<Rightarrow> option_item list" where
  "convertOptions deflt defs loc =
     map (\<lambda>od. mk_option (resolveLocalized deflt (od_Label od) (od_Labels od) loc) (od_Value od)) defs"

subsection \<open>Conditions\<close>

text \<open>
  \<open>regexp.Compile\<close> with \<open>MatchString\<close>: no matcher for an expression that does not compile.
\<close>

type_synonym regex = "string \<Rightarrow> (string \<Rightarrow> bool) option"

text \<open>
  What a condition without connectives tests. The tests are tried in this order, the first that is
  present decides.
\<close>

definition eval_test ::
    "regex \<Rightarrow> string \<Rightarrow> string option \<Rightarrow> string option \<Rightarrow> string \<Rightarrow> bool option \<Rightarrow> option_map \<Rightarrow> bool" where
  "eval_test rx p eq neq pattern isset params =
     (let val = option_get params p
      in case isset of
           Some b \<Rightarrow> if b then params p \<noteq> None else params p = None
         | None \<Rightarrow>
             (case eq of
                Some v \<Rightarrow> val = v
              | None \<Rightarrow>
                  (case neq of
                     Some v \<Rightarrow> val \<noteq> v
                   | None \<Rightarrow>
                       if pattern \<noteq> ''''
                       then (case rx pattern of None \<Rightarrow> True | Some matches \<Rightarrow> matches val)
                       else True)))"

text \<open>
  \<^verbatim>\<open>evalCondition\<close> of a pointer that is not nil; a nil element of a list of conditions holds.
\<close>

definition holds :: "bool option \<Rightarrow> bool" where
  "holds r = (case r of None \<Rightarrow> True | Some b \<Rightarrow> b)"

primrec eval_condition :: "regex \<Rightarrow> option_map \<Rightarrow> condition_def \<Rightarrow> bool" where
  "eval_condition rx params (ConditionDef p eq neq pattern isset ands ors neg) =
     (if length ands > 0
      then list_all (\<lambda>r. r) (map holds (map (map_option (eval_condition rx params)) ands))
      else if length ors > 0
      then list_ex (\<lambda>r. r) (map holds (map (map_option (eval_condition rx params)) ors))
      else case map_option (eval_condition rx params) neg of
             Some r \<Rightarrow> \<not> r
           | None \<Rightarrow> eval_test rx p eq neq pattern isset params)"

definition evalCondition :: "regex \<Rightarrow> condition_def option \<Rightarrow> option_map \<Rightarrow> bool" where
  "evalCondition rx cond params = (case cond of None \<Rightarrow> True | Some c \<Rightarrow> eval_condition rx params c)"

subsection \<open>Callbacks of steps\<close>

text \<open>
  The environment of a plugin: its runtime, the default locale, regular expressions, the encoding of
  a callback's request and response, and the function that sends a message to a chat, if any.
\<close>

record ('w, 'm) adapter_env =
  ad_rt :: "('w, 'm) wasm_runtime"
  ad_deflt :: string
  ad_regex :: regex
  ad_callback_request :: "step_callback_request \<Rightarrow> go_error + string"
  ad_callback_response :: "string \<Rightarrow> go_error + step_callback_response"
  ad_send :: "(channel_type \<Rightarrow> string \<Rightarrow> message \<Rightarrow> 'w \<Rightarrow> 'w \<times> go_error option) option"

definition callStepCallback ::
    "('w, 'm) adapter_env \<Rightarrow> 'm wasm_plugin \<Rightarrow> string \<Rightarrow> step_callback_request \<Rightarrow> 'w \<Rightarrow>
     'w \<times> (go_error + step_callback_response)" where
  "callStepCallback A wp cbName req w =
     (case ad_callback_request A (req\<lparr>sq_Callback := cbName\<rparr>) of
        Inl err \<Rightarrow> (w, Inl (Wrap ''marshal request: '' err ''''))
      | Inr reqJSON \<Rightarrow>
          (case CallStepCallback (ad_rt A) (wp_compiled wp) reqJSON (wp_config wp) w of
             (w1, Inl err) \<Rightarrow> (w1, Inl err)
           | (w1, Inr result) \<Rightarrow>
               (w1, case ad_callback_response A result of
                      Inl err \<Rightarrow> Inl (Wrap ''unmarshal response: '' err '''')
                    | Inr resp \<Rightarrow>
                        if sr_Error resp \<noteq> '''' then Inl (Plain (''plugin error: '' @ sr_Error resp)) else Inr resp)))"

text \<open>
  The functions of a command's tree are functions of the step's context alone (theory Dialog\_DSL): a
  tree that is evaluated at one state of the world uses the answers the module gives there.
\<close>

type_synonym callback = "string \<Rightarrow> step_callback_request \<Rightarrow> go_error + step_callback_response"

definition callback_at :: "('w, 'm) adapter_env \<Rightarrow> 'm wasm_plugin \<Rightarrow> 'w \<Rightarrow> callback" where
  "callback_at A wp w cbName req = snd (callStepCallback A wp cbName req w)"

definition callback_request :: "step_context \<Rightarrow> option_map \<Rightarrow> int \<Rightarrow> string \<Rightarrow> step_callback_request" where
  "callback_request ctx params page input =
     \<lparr>sq_Callback = '''', sq_UserID = ctx_UserID ctx, sq_Locale = ctx_Locale ctx, sq_Params = params,
      sq_Page = page, sq_Input = input\<rparr>"

definition callOptionsCallback :: "string \<Rightarrow> callback \<Rightarrow> string \<Rightarrow> step_context \<Rightarrow> option_item list" where
  "callOptionsCallback deflt call cbName ctx =
     (case call cbName (callback_request ctx (ctx_Params ctx) 0 '''') of
        Inl err \<Rightarrow> []
      | Inr resp \<Rightarrow> convertOptions deflt (sr_Options resp) (ctx_Locale ctx))"

definition callValidateCallback :: "callback \<Rightarrow> step_context \<Rightarrow> string \<Rightarrow> string \<Rightarrow> bool" where
  "callValidateCallback call ctx cbName inputText =
     (case call cbName (callback_request ctx (ctx_Params ctx) 0 inputText) of
        Inl err \<Rightarrow> False
      | Inr resp \<Rightarrow> (case sr_Result resp of Some r \<Rightarrow> r | None \<Rightarrow> False))"

definition callConditionCallback :: "callback \<Rightarrow> step_context \<Rightarrow> string \<Rightarrow> option_map \<Rightarrow> bool" where
  "callConditionCallback call ctx cbName params =
     (case call cbName (callback_request ctx params 0 '''') of
        Inl err \<Rightarrow> False
      | Inr resp \<Rightarrow> (case sr_Result resp of Some r \<Rightarrow> r | None \<Rightarrow> False))"

definition russian_pagination_error :: string where
  "russian_pagination_error =
     [CHR 0xD0, CHR 0x9D, CHR 0xD0, CHR 0xB5, CHR 0x20, CHR 0xD1, CHR 0x83, CHR 0xD0, CHR 0xB4, CHR 0xD0,
      CHR 0xB0, CHR 0xD0, CHR 0xBB, CHR 0xD0, CHR 0xBE, CHR 0xD1, CHR 0x81, CHR 0xD1, CHR 0x8C, CHR 0x20,
      CHR 0xD0, CHR 0xB7, CHR 0xD0, CHR 0xB0, CHR 0xD0, CHR 0xB3, CHR 0xD1, CHR 0x80, CHR 0xD1, CHR 0x83,
      CHR 0xD0, CHR 0xB7, CHR 0xD0, CHR 0xB8, CHR 0xD1, CHR 0x82, CHR 0xD1, CHR 0x8C, CHR 0x20, CHR 0xD0,
      CHR 0xB2, CHR 0xD0, CHR 0xB0, CHR 0xD1, CHR 0x80, CHR 0xD0, CHR 0xB8, CHR 0xD0, CHR 0xB0, CHR 0xD0,
      CHR 0xBD, CHR 0xD1, CHR 0x82, CHR 0xD1, CHR 0x8B, CHR 0x2E, CHR 0x20, CHR 0xD0, CHR 0x9F, CHR 0xD0,
      CHR 0xBE, CHR 0xD0, CHR 0xBF, CHR 0xD1, CHR 0x80, CHR 0xD0, CHR 0xBE, CHR 0xD0, CHR 0xB1, CHR 0xD1,
      CHR 0x83, CHR 0xD0, CHR 0xB9, CHR 0xD1, CHR 0x82, CHR 0xD0, CHR 0xB5, CHR 0x20, CHR 0xD0, CHR 0xB5,
      CHR 0xD1, CHR 0x89, CHR 0xD1, CHR 0x91, CHR 0x20, CHR 0xD1, CHR 0x80, CHR 0xD0, CHR 0xB0, CHR 0xD0,
      CHR 0xB7, CHR 0x2E]"

definition paginationErrorMessage :: "string \<Rightarrow> string" where
  "paginationErrorMessage loc =
     (if HasPrefix loc ''ru'' then russian_pagination_error
      else ''Failed to load options. Please try again.'')"

definition callPaginationCallback :: "string \<Rightarrow> callback \<Rightarrow> string \<Rightarrow> step_context \<Rightarrow> int \<Rightarrow> options_page" where
  "callPaginationCallback deflt call cbName ctx page =
     (let failed = \<lparr>op_Options = [], op_HasMore = False, op_Error = paginationErrorMessage (ctx_Locale ctx)\<rparr>
      in case call cbName (callback_request ctx (ctx_Params ctx) page '''') of
           Inl err \<Rightarrow> failed
         | Inr resp \<Rightarrow>
             if TrimSpace (sr_Error resp) \<noteq> '''' then failed
             else \<lparr>op_Options = convertOptions deflt (sr_Options resp) (ctx_Locale ctx),
                   op_HasMore = sr_HasMore resp, op_Error = ''''\<rparr>)"

text \<open>The prompt of a block is resolved on every rendering.\<close>

definition resolvePromptBlock :: "block_def \<Rightarrow> step_context \<Rightarrow> callback \<Rightarrow> block_def" where
  "resolvePromptBlock block ctx call =
     (if bd_PromptsFn block = '''' then block
      else case call (bd_PromptsFn block) (callback_request ctx (ctx_Params ctx) 0 '''') of
             Inl err \<Rightarrow> block
           | Inr resp \<Rightarrow>
               if sr_Error resp \<noteq> '''' \<or> length (sr_Prompts resp) = 0 then block
               else if bd_Type block = ''text'' then block\<lparr>bd_Texts := sr_Prompts resp\<rparr>
               else block\<lparr>bd_Prompts := sr_Prompts resp\<rparr>)"

subsection \<open>Steps\<close>

definition renderStepBlock :: "string \<Rightarrow> callback \<Rightarrow> block_def \<Rightarrow> step_context \<Rightarrow> content_block option" where
  "renderStepBlock deflt call block0 ctx =
     (let block = (if bd_Type block0 = ''text'' \<or> bd_Type block0 = ''options'' \<or> bd_Type block0 = ''dynamic_options''
                   then resolvePromptBlock block0 ctx call else block0);
          loc = ctx_Locale ctx;
          ty = bd_Type block
      in if ty = ''text''
         then Some (TextBlock (resolveLocalized deflt (bd_Text block) (bd_Texts block) loc) (parseTextStyle (bd_Style block)))
         else if ty = ''options''
         then Some (OptionsBlock (resolveLocalized deflt (bd_Prompt block) (bd_Prompts block) loc)
                      (convertOptions deflt (bd_Options block) loc))
         else if ty = ''dynamic_options''
         then Some (OptionsBlock (resolveLocalized deflt (bd_Prompt block) (bd_Prompts block) loc)
                      (callOptionsCallback deflt call (bd_OptionsFn block) ctx))
         else if ty = ''link'' then Some (LinkBlock (bd_URL block) (bd_Label block))
         else if ty = ''image'' then Some (ImageBlock (bd_URL block))
         else None)"

definition buildStepMessage :: "string \<Rightarrow> callback \<Rightarrow> block_def list \<Rightarrow> step_context \<Rightarrow> message" where
  "buildStepMessage deflt call blocks =
     (if length blocks = 0 then (\<lambda>_. empty_message)
      else (\<lambda>ctx. \<lparr>Blocks = List.map_filter (\<lambda>block. renderStepBlock deflt call block ctx) blocks\<rparr>))"

definition buildStepValidator ::
    "regex \<Rightarrow> callback \<Rightarrow> string \<Rightarrow> string \<Rightarrow> (step_context \<Rightarrow> user_input \<Rightarrow> bool) option" where
  "buildStepValidator rx call validation validateFn =
     (if validateFn \<noteq> ''''
      then Some (\<lambda>ctx input. callValidateCallback call ctx validateFn (TextValue input))
      else if validation = '''' then None
      else Some (\<lambda>_ input. case rx validation of None \<Rightarrow> False | Some matches \<Rightarrow> matches (TextValue input)))"

definition buildStepCondition ::
    "regex \<Rightarrow> callback \<Rightarrow> condition_def option \<Rightarrow> string \<Rightarrow> (step_context \<Rightarrow> bool) option" where
  "buildStepCondition rx call visibleWhen conditionFn =
     (if conditionFn \<noteq> ''''
      then Some (\<lambda>ctx. callConditionCallback call ctx conditionFn (ctx_Params ctx))
      else case visibleWhen of
             None \<Rightarrow> None
           | Some cond \<Rightarrow> Some (\<lambda>ctx. evalCondition rx (Some cond) (ctx_Params ctx)))"

definition buildStepPagination :: "string \<Rightarrow> callback \<Rightarrow> pagination_node_def option \<Rightarrow> pagination_config option" where
  "buildStepPagination deflt call pagination =
     (case pagination of
        None \<Rightarrow> None
      | Some pag \<Rightarrow>
          Some \<lparr>pc_Prompt = pn_Prompt pag, pc_Prompts = pn_Prompts pag, pc_PromptProvider = None,
                pc_PageSize = pn_PageSize pag,
                pc_PageProvider = (\<lambda>ctx page. callPaginationCallback deflt call (pn_Provider pag) ctx page)\<rparr>)"

text \<open>
  The predicate of a conditional case. A predicate that has only the answers calls the module without
  a user and without a locale.
\<close>

definition params_context :: "option_map \<Rightarrow> step_context" where
  "params_context params = \<lparr>ctx_UserID = 0, ctx_Locale = '''', ctx_Params = params, ctx_Page = 0\<rparr>"

definition conditionalPredicate ::
    "regex \<Rightarrow> callback \<Rightarrow> condition_def option \<Rightarrow> string \<Rightarrow> (option_map \<Rightarrow> bool) option" where
  "conditionalPredicate rx call cond callbackName =
     (if callbackName \<noteq> ''''
      then Some (\<lambda>params. callConditionCallback call (params_context params) callbackName params)
      else case cond of
             None \<Rightarrow> None
           | Some c \<Rightarrow> Some (\<lambda>params. evalCondition rx (Some c) params))"

subsection \<open>Trees of commands\<close>

text \<open>
  The nodes of a command. What a converted node contains is given as the converted children, so that
  the recursion over the metadata is structural; unknown nodes and conditional cases without any
  condition are left out.
\<close>

definition catOptions :: "'a option list \<Rightarrow> 'a list" where
  "catOptions xs = List.map_filter (\<lambda>x. x) xs"

definition stepNodeDefToStepNode ::
    "string \<Rightarrow> regex \<Rightarrow> callback \<Rightarrow> string \<Rightarrow> block_def list \<Rightarrow> string \<Rightarrow> string \<Rightarrow> condition_def option \<Rightarrow> string \<Rightarrow>
     pagination_node_def option \<Rightarrow> step_node" where
  "stepNodeDefToStepNode deflt rx call param blocks validation validateFn visibleWhen conditionFn pagination =
     \<lparr>ParamName = param, MessageBuilder = buildStepMessage deflt call blocks, Validate = None,
      ValidateWithContext = buildStepValidator rx call validation validateFn, Condition = None,
      ConditionWithContext = buildStepCondition rx call visibleWhen conditionFn,
      Pagination = buildStepPagination deflt call pagination\<rparr>"

definition default_nodes :: "command_node option list \<Rightarrow> command_node list option" where
  "default_nodes children = (if length children > 0 then Some (catOptions children) else None)"

definition branchNodeDefToBranchNode ::
    "string \<Rightarrow> (string \<times> command_node option list) list \<Rightarrow> command_node option list \<Rightarrow> command_node" where
  "branchNodeDefToBranchNode onParam cases deflt =
     BranchNode onParam (map (map_prod id (\<lambda>children. Some (catOptions children))) cases) (default_nodes deflt)"

definition conditional_case ::
    "regex \<Rightarrow> callback \<Rightarrow> condition_def option \<Rightarrow> string \<Rightarrow> command_node option list \<Rightarrow>
     (case_predicate \<times> command_node list option) option" where
  "conditional_case rx call cond conditionFn children =
     (case conditionalPredicate rx call cond conditionFn of
        None \<Rightarrow> None
      | Some predicate \<Rightarrow>
          Some (\<lparr>Predicate = Some predicate,
                 PredicateWithContext =
                   (if conditionFn \<noteq> ''''
                    then Some (\<lambda>ctx. callConditionCallback call ctx conditionFn (ctx_Params ctx)) else None)\<rparr>,
                Some (catOptions children)))"

definition condBranchNodeDefToCondBranchNode ::
    "(case_predicate \<times> command_node list option) option list \<Rightarrow> command_node option list \<Rightarrow> command_node" where
  "condBranchNodeDefToCondBranchNode cases deflt = ConditionalBranchNode (catOptions cases) (default_nodes deflt)"

primrec nodeDefToCommandNode :: "string \<Rightarrow> regex \<Rightarrow> callback \<Rightarrow> node_def \<Rightarrow> command_node option"
  and condCaseToCase ::
    "string \<Rightarrow> regex \<Rightarrow> callback \<Rightarrow> cond_case_def \<Rightarrow> (case_predicate \<times> command_node list option) option" where
  "nodeDefToCommandNode deflt rx call
     (NodeDef type param blocks validation validateFn visibleWhen conditionFn pagination onParam cases condCases dfl) =
     (if type = ''step''
      then Some (StepNode (stepNodeDefToStepNode deflt rx call param blocks validation validateFn visibleWhen conditionFn pagination))
      else if type = ''branch''
      then Some (branchNodeDefToBranchNode onParam (map (map_prod id (map (nodeDefToCommandNode deflt rx call))) cases)
                   (map (nodeDefToCommandNode deflt rx call) dfl))
      else if type = ''conditional_branch''
      then Some (condBranchNodeDefToCondBranchNode (map (condCaseToCase deflt rx call) condCases)
                   (map (nodeDefToCommandNode deflt rx call) dfl))
      else None)"
| "condCaseToCase deflt rx call (CondCaseDef cond conditionFn nodes) =
     conditional_case rx call cond conditionFn (map (nodeDefToCommandNode deflt rx call) nodes)"

definition commandNodes :: "string \<Rightarrow> regex \<Rightarrow> callback \<Rightarrow> node_def list \<Rightarrow> command_node list" where
  "commandNodes deflt rx call defs = catOptions (map (nodeDefToCommandNode deflt rx call) defs)"

text \<open>The commands of the plugin, one for each trigger of a messenger.\<close>

definition trigger_command :: "string \<Rightarrow> regex \<Rightarrow> callback \<Rightarrow> wasm_trigger \<Rightarrow> command_definition" where
  "trigger_command deflt rx call t =
     \<lparr>cd_Name = td_Name t, cd_Descriptions = wt_Descriptions t, cd_Description = wt_Description t,
      cd_Requirements = None, cd_Nodes = commandNodes deflt rx call (wt_Nodes t), cd_PreservesDialog = False,
      cd_AllowBack = wt_AllowBack t\<rparr>"

definition Wasm_Commands :: "('w, 'm) adapter_env \<Rightarrow> 'm wasm_plugin \<Rightarrow> 'w \<Rightarrow> command_definition list" where
  "Wasm_Commands A wp w =
     map (trigger_command (ad_deflt A) (ad_regex A) (callback_at A wp w))
       (filter (\<lambda>t. td_Type t = ''messenger'') (pm_Triggers (wp_meta wp)))"

subsection \<open>Events of the core and of the protocol (event.go)\<close>

record contract_event =
  ce_ID :: string
  ce_TriggerType :: string
  ce_TriggerName :: string
  ce_PluginID :: string
  ce_Timestamp :: int
  ce_Data :: string

text \<open>The data of an event of the core, decoded; that of a messenger event is a command's request.\<close>

record event_trigger_data =
  ed_Topic :: string
  ed_Payload :: string
  ed_Source :: string

record cron_trigger_data =
  ct_ScheduleName :: string
  ct_FireTime :: int

text \<open>The data of the protocol.\<close>

record event_request =
  wq_ID :: string
  wq_TriggerType :: string
  wq_TriggerName :: string
  wq_PluginID :: string
  wq_Timestamp :: int
  wq_Data :: string

record wasm_messenger_data =
  wd_UserID :: int
  wd_ChannelType :: string
  wd_ChatID :: string
  wd_ChatGroupID :: string
  wd_CommandName :: string
  wd_Params :: option_map
  wd_Locale :: string
  wd_Files :: "file_ref list"

record wasm_auth_data =
  wa_Kind :: string
  wa_UserID :: int
  wa_ServiceKeyID :: int

record wasm_http_data =
  wh_Method :: string
  wh_Path :: string
  wh_Query :: "(string \<times> string) list"
  wh_Headers :: "(string \<times> string) list"
  wh_Body :: string
  wh_RemoteAddr :: string
  wh_Auth :: "wasm_auth_data option"

text \<open>
  Reply blocks, logs and responses have the same fields in the protocol and in the contract; the
  conversion copies them, so both are one record here, and so are cron and event data.
\<close>

record reply_block =
  rb_Type :: string
  rb_Text :: string
  rb_Texts :: "(string \<times> string) list"
  rb_Style :: string
  rb_UserID :: string
  rb_FileID :: string
  rb_Caption :: string
  rb_URL :: string
  rb_Label :: string
  rb_Prompt :: string
  rb_Options :: "(string \<times> string) list"

record plugin_response =
  pr_Status :: string
  pr_Error :: string
  pr_ReplyBlocks :: "reply_block list"
  pr_Data :: string
  pr_Logs :: "(string \<times> string) list"

definition empty_plugin_response :: plugin_response where
  "empty_plugin_response = \<lparr>pr_Status = '''', pr_Error = '''', pr_ReplyBlocks = [], pr_Data = '''', pr_Logs = []\<rparr>"

text \<open>The JSON codec of these data.\<close>

record event_codec =
  ek_messenger :: "string \<Rightarrow> go_error + command_request"
  ek_http :: "string \<Rightarrow> go_error + http_trigger_data"
  ek_cron :: "string \<Rightarrow> go_error + cron_trigger_data"
  ek_event :: "string \<Rightarrow> go_error + event_trigger_data"
  ek_put_messenger :: "wasm_messenger_data \<Rightarrow> go_error + string"
  ek_put_http :: "wasm_http_data \<Rightarrow> go_error + string"
  ek_put_cron :: "cron_trigger_data \<Rightarrow> go_error + string"
  ek_put_event :: "event_trigger_data \<Rightarrow> go_error + string"
  ek_put_request :: "event_request \<Rightarrow> go_error + string"
  ek_response :: "string \<Rightarrow> go_error + plugin_response"

definition wasmMessengerTriggerDataFromContract :: "command_request \<Rightarrow> wasm_messenger_data" where
  "wasmMessengerTriggerDataFromContract d =
     \<lparr>wd_UserID = cr_UserID d, wd_ChannelType = cr_ChannelType d, wd_ChatID = cr_ChatID d,
      wd_ChatGroupID = cr_ChatGroupID d, wd_CommandName = cr_CommandName d, wd_Params = cr_Params d,
      wd_Locale = cr_Locale d, wd_Files = cr_Files d\<rparr>"

definition wasmHTTPAuthDataFromContract :: "http_auth option \<Rightarrow> wasm_auth_data option" where
  "wasmHTTPAuthDataFromContract a =
     (case a of
        None \<Rightarrow> None
      | Some (AuthUser u) \<Rightarrow> Some \<lparr>wa_Kind = ''user'', wa_UserID = u, wa_ServiceKeyID = 0\<rparr>
      | Some (AuthService k) \<Rightarrow> Some \<lparr>wa_Kind = ''service'', wa_UserID = 0, wa_ServiceKeyID = k\<rparr>)"

definition wasmHTTPTriggerDataFromContract :: "http_trigger_data \<Rightarrow> wasm_http_data" where
  "wasmHTTPTriggerDataFromContract d =
     \<lparr>wh_Method = hd_Method d, wh_Path = hd_Path d, wh_Query = hd_Query d, wh_Headers = hd_Headers d,
      wh_Body = hd_Body d, wh_RemoteAddr = hd_RemoteAddr d, wh_Auth = wasmHTTPAuthDataFromContract (hd_Auth d)\<rparr>"

text \<open>One case of the switch: decode the core's data, encode the protocol's.\<close>

definition transcode ::
    "string \<Rightarrow> (string \<Rightarrow> go_error + 'a) \<Rightarrow> ('a \<Rightarrow> go_error + string) \<Rightarrow> event_request \<Rightarrow> go_error + event_request" where
  "transcode kind decode encode req =
     (case decode (wq_Data req) of
        Inl err \<Rightarrow> Inl (Wrap (''decode '' @ kind @ '' trigger data: '') err '''')
      | Inr data \<Rightarrow>
          (case encode data of
             Inl err \<Rightarrow> Inl (Wrap (''encode '' @ kind @ '' trigger data: '') err '''')
           | Inr bytes \<Rightarrow> Inr (req\<lparr>wq_Data := bytes\<rparr>)))"

definition wasmEventRequestFromContract :: "event_codec \<Rightarrow> contract_event \<Rightarrow> go_error + event_request" where
  "wasmEventRequestFromContract K event =
     (let req = \<lparr>wq_ID = ce_ID event, wq_TriggerType = ce_TriggerType event, wq_TriggerName = ce_TriggerName event,
                 wq_PluginID = ce_PluginID event, wq_Timestamp = ce_Timestamp event, wq_Data = ce_Data event\<rparr>;
          ty = ce_TriggerType event
      in if ty = ''messenger''
         then transcode ''messenger'' (ek_messenger K) (\<lambda>d. ek_put_messenger K (wasmMessengerTriggerDataFromContract d)) req
         else if ty = ''http''
         then transcode ''http'' (ek_http K) (\<lambda>d. ek_put_http K (wasmHTTPTriggerDataFromContract d)) req
         else if ty = ''cron'' then transcode ''cron'' (ek_cron K) (ek_put_cron K) req
         else if ty = ''event'' then transcode ''event'' (ek_event K) (ek_put_event K) req
         else Inr req)"

definition reply_content :: "string \<Rightarrow> string \<Rightarrow> reply_block \<Rightarrow> content_block option" where
  "reply_content deflt loc b =
     (let ty = rb_Type b
      in if ty = ''text''
         then Some (TextBlock (resolveLocalized deflt (rb_Text b) (rb_Texts b) loc) (parseTextStyle (rb_Style b)))
         else if ty = ''mention'' then Some (MentionBlock (rb_UserID b) '''')
         else if ty = ''file''
         then Some (FileBlock \<lparr>fr_ID = rb_FileID b, fr_Name = '''', fr_MIMEType = '''', fr_Size = 0, fr_FileType = ''''\<rparr>
                      (rb_Caption b))
         else if ty = ''options''
         then Some (OptionsBlock (rb_Prompt b) (map (\<lambda>(label, value). mk_option label value) (rb_Options b)))
         else if ty = ''link'' then Some (LinkBlock (rb_URL b) (rb_Label b))
         else if ty = ''image'' then Some (ImageBlock (rb_URL b))
         else None)"

definition replyBlocksToMessage :: "string \<Rightarrow> reply_block list \<Rightarrow> string \<Rightarrow> message" where
  "replyBlocksToMessage deflt blocks loc = \<lparr>Blocks = List.map_filter (reply_content deflt loc) blocks\<rparr>"

definition wasm_error :: "'m wasm_plugin \<Rightarrow> string \<Rightarrow> go_error \<Rightarrow> go_error" where
  "wasm_error wp what err = Wrap (''wasm plugin '' @ quote (pm_ID (wp_meta wp)) @ what) err ''''"

text \<open>Handling an event. The response comes with an error when the reply could not be sent.\<close>

definition send_reply ::
    "('w, 'm) adapter_env \<Rightarrow> event_codec \<Rightarrow> 'm wasm_plugin \<Rightarrow> contract_event \<Rightarrow> plugin_response \<Rightarrow> 'w \<Rightarrow>
     'w \<times> go_error option" where
  "send_reply A K wp event resp w =
     (case ad_send A of
        None \<Rightarrow> (w, None)
      | Some send \<Rightarrow>
          if length (pr_ReplyBlocks resp) > 0 \<and> ce_TriggerType event = ''messenger''
          then (case ek_messenger K (ce_Data event) of
                  Inl err \<Rightarrow> (w, None)
                | Inr m \<Rightarrow>
                    (case send (cr_ChannelType m) (cr_ChatID m)
                            (replyBlocksToMessage (ad_deflt A) (pr_ReplyBlocks resp) (cr_Locale m)) w of
                       (w1, None) \<Rightarrow> (w1, None)
                     | (w1, Some err) \<Rightarrow> (w1, Some (wasm_error wp '' reply send: '' err))))
          else (w, None))"

definition Wasm_HandleEvent ::
    "('w, 'm) adapter_env \<Rightarrow> event_codec \<Rightarrow> 'm wasm_plugin \<Rightarrow> contract_event \<Rightarrow> 'w \<Rightarrow>
     'w \<times> plugin_response option \<times> go_error option" where
  "Wasm_HandleEvent A K wp event w =
     (case wasmEventRequestFromContract K event of
        Inl err \<Rightarrow> (w, None, Some (wasm_error wp '': prepare event: '' err))
      | Inr wasmEvent \<Rightarrow>
          (case ek_put_request K wasmEvent of
             Inl err \<Rightarrow> (w, None, Some (wasm_error wp '': marshal event: '' err))
           | Inr eventJSON \<Rightarrow>
               (case CallHandleEvent (ad_rt A) (wp_compiled wp) eventJSON (wp_config wp) w of
                  (w1, Inl err) \<Rightarrow> (w1, None, Some (wasm_error wp '' handle_event: '' err))
                | (w1, Inr result) \<Rightarrow>
                    if length result > 0
                    then (case ek_response K result of
                            Inl err \<Rightarrow> (w1, None, Some (wasm_error wp '' handle_event: unmarshal response: '' err))
                          | Inr resp \<Rightarrow>
                              (case send_reply A K wp event resp w1 of (w2, err) \<Rightarrow> (w2, Some resp, err)))
                    else (w1, Some empty_plugin_response, None))))"

definition Wasm_CheckVisibility ::
    "('w, 'm) adapter_env \<Rightarrow> 'm wasm_plugin \<Rightarrow> int \<Rightarrow> 'w \<Rightarrow> 'w \<times> (go_error + string list)" where
  "Wasm_CheckVisibility A wp userID w = CallCheckVisibility (ad_rt A) (wp_compiled wp) userID w"

subsection \<open>The trees of commands are what the metadata say\<close>

lemma catOptions_simps [simp]:
  "catOptions [] = []" "catOptions (None # xs) = catOptions xs" "catOptions (Some x # xs) = x # catOptions xs"
  by (simp_all add: catOptions_def List.map_filter_def)

lemma in_catOptions [simp]: "x \<in> set (catOptions xs) \<longleftrightarrow> Some x \<in> set xs"
  by (induction xs) (auto simp: catOptions_def List.map_filter_def split: option.splits)

text \<open>
  A tree as the adapter builds it: every case of a branch has its list of nodes, every conditional
  case a predicate, steps have no conditions or validators but those with the context, and paging
  has no provider of its prompt.
\<close>

inductive wasm_node :: "command_node \<Rightarrow> bool" where
  wn_step: "Validate n = None \<Longrightarrow> Condition n = None \<Longrightarrow> (\<And>p. Pagination n = Some p \<Longrightarrow> pc_PromptProvider p = None) \<Longrightarrow>
     wasm_node (StepNode n)"
| wn_branch: "(\<And>v c. (v, c) \<in> set cases \<Longrightarrow> \<exists>ns. c = Some ns \<and> (\<forall>n\<in>set ns. wasm_node n)) \<Longrightarrow>
     (\<And>ns n. d = Some ns \<Longrightarrow> n \<in> set ns \<Longrightarrow> wasm_node n) \<Longrightarrow> wasm_node (BranchNode p cases d)"
| wn_cond: "(\<And>q c. (q, c) \<in> set ccs \<Longrightarrow> Predicate q \<noteq> None \<and> (\<exists>ns. c = Some ns \<and> (\<forall>n\<in>set ns. wasm_node n))) \<Longrightarrow>
     (\<And>ns n. d = Some ns \<Longrightarrow> n \<in> set ns \<Longrightarrow> wasm_node n) \<Longrightarrow> wasm_node (ConditionalBranchNode ccs d)"

inductive_simps wasm_node_simps:
  "wasm_node (StepNode n)" "wasm_node (BranchNode p cases d)" "wasm_node (ConditionalBranchNode ccs d)"

lemma default_nodes_Some: "default_nodes children = Some ns \<Longrightarrow> n \<in> set ns \<Longrightarrow> Some n \<in> set children"
  by (auto simp: default_nodes_def split: if_splits)

lemma step_node_ok: "wasm_node (StepNode (stepNodeDefToStepNode deflt rx call p bs v vf vis cf pag))"
  by (rule wn_step) (auto simp: stepNodeDefToStepNode_def buildStepPagination_def split: option.splits)

lemma conditional_case_Some:
  "conditional_case rx call cond cf children = Some (q, c) \<Longrightarrow> Predicate q \<noteq> None \<and> c = Some (catOptions children)"
  by (auto simp: conditional_case_def split: option.splits)

lemma node_ok:
  "nodeDefToCommandNode deflt rx call nd = Some n \<Longrightarrow> wasm_node n"
  "condCaseToCase deflt rx call cc = Some (q, c) \<Longrightarrow>
     Predicate q \<noteq> None \<and> (\<exists>ns. c = Some ns \<and> (\<forall>n\<in>set ns. wasm_node n))"
proof (induction nd and cc arbitrary: n and q c)
  case (NodeDef ty p bs v vf vis cf pag onp cases ccs dfl)
  have dfl: "wasm_node n" if "default_nodes (map (nodeDefToCommandNode deflt rx call) dfl) = Some ns" "n \<in> set ns" for ns n
    using default_nodes_Some [OF that] NodeDef.IH(3) by auto
  have branch: "wasm_node (branchNodeDefToBranchNode onp (map (map_prod id (map (nodeDefToCommandNode deflt rx call))) cases)
      (map (nodeDefToCommandNode deflt rx call) dfl))"
    unfolding branchNodeDefToBranchNode_def
    using dfl NodeDef.IH(1) by (intro wn_branch) (fastforce+)
  have cond: "wasm_node (condBranchNodeDefToCondBranchNode (map (condCaseToCase deflt rx call) ccs)
      (map (nodeDefToCommandNode deflt rx call) dfl))"
    unfolding condBranchNodeDefToCondBranchNode_def
    by (rule wn_cond) (use dfl NodeDef.IH(2) in \<open>auto dest: sym\<close>)
  show ?case using NodeDef.prems branch cond step_node_ok by (auto split: if_splits)
next
  case (CondCaseDef cond cf nodes)
  then show ?case by (auto dest!: conditional_case_Some)
qed


text \<open>
  The reference: the metadata of the steps that are active under a context, read off the metadata
  themselves. A step is shown by its condition's callback, else by its condition; a branch continues
  with the case of the parameter's answer; a conditional branch with the first case that holds,
  where a case without any condition never does.
\<close>

definition step_shown :: "regex \<Rightarrow> callback \<Rightarrow> step_context \<Rightarrow> node_def \<Rightarrow> bool" where
  "step_shown rx call ctx nd =
     (if nd_ConditionFn nd \<noteq> '''' then callConditionCallback call ctx (nd_ConditionFn nd) (ctx_Params ctx)
      else evalCondition rx (nd_VisibleWhen nd) (ctx_Params ctx))"

definition case_holds :: "regex \<Rightarrow> callback \<Rightarrow> step_context \<Rightarrow> cond_case_def \<Rightarrow> bool" where
  "case_holds rx call ctx cc =
     (if cc_ConditionFn cc \<noteq> '''' then callConditionCallback call ctx (cc_ConditionFn cc) (ctx_Params ctx)
      else cc_Condition cc \<noteq> None \<and> evalCondition rx (cc_Condition cc) (ctx_Params ctx))"

definition chosen_children :: "regex \<Rightarrow> callback \<Rightarrow> step_context \<Rightarrow> node_def \<Rightarrow> node_def list" where
  "chosen_children rx call ctx nd =
     (if nd_Type nd = ''branch''
      then (case Option.bind (ctx_Params ctx (nd_OnParam nd)) (map_of (nd_Cases nd)) of
              Some children \<Rightarrow> children | None \<Rightarrow> nd_Default nd)
      else if nd_Type nd = ''conditional_branch''
      then (case find (case_holds rx call ctx) (nd_ConditionalCases nd) of
              Some cc \<Rightarrow> cc_Nodes cc | None \<Rightarrow> nd_Default nd)
      else [])"

lemma size_in_cases: "(v, ns) \<in> set cs \<Longrightarrow> size_list size ns < size_list (size_prod (\<lambda>_. 0) (size_list size)) cs"
proof (induction cs)
  case (Cons c cs)
  then show ?case by (cases "c = (v, ns)") auto
qed simp

lemma size_in_conds: "cc \<in> set ccs \<Longrightarrow> size_list size (cc_Nodes cc) < size_list size ccs"
proof (induction ccs)
  case (Cons c ccs)
  then show ?case by (cases c) fastforce
qed simp

lemma chosen_children_size: "size_list size (chosen_children rx call ctx nd) < size nd"
  by (cases nd)
    (auto simp: chosen_children_def split: option.splits
       dest!: find_Some_in size_in_conds map_of_SomeD size_in_cases simp: Option.bind_eq_Some_conv)

function active_steps :: "regex \<Rightarrow> callback \<Rightarrow> step_context \<Rightarrow> node_def list \<Rightarrow> node_def list" where
  "active_steps rx call ctx [] = []"
| "active_steps rx call ctx (nd # nds) =
     (if nd_Type nd = ''step'' then (if step_shown rx call ctx nd then [nd] else [])
      else active_steps rx call ctx (chosen_children rx call ctx nd)) @ active_steps rx call ctx nds"
  by pat_completeness auto
termination
  by (relation "measure (\<lambda>(rx, call, ctx, nds). size_list size nds)")
    (auto intro: less_le_trans [OF chosen_children_size] less_SucI trans_less_add1 chosen_children_size)

definition step_of :: "string \<Rightarrow> regex \<Rightarrow> callback \<Rightarrow> node_def \<Rightarrow> step_node" where
  "step_of deflt rx call nd =
     stepNodeDefToStepNode deflt rx call (nd_Param nd) (nd_Blocks nd) (nd_Validation nd) (nd_ValidateFn nd)
       (nd_VisibleWhen nd) (nd_ConditionFn nd) (nd_Pagination nd)"

lemma step_visible_of: "step_visible (step_of deflt rx call nd) ctx = step_shown rx call ctx nd"
  by (simp add: step_visible_def step_of_def stepNodeDefToStepNode_def buildStepCondition_def step_shown_def
      evalCondition_def split: option.splits)

lemma map_of_map_prod: "map_of (map (map_prod id f) xs) k = map_option f (map_of xs k)"
  by (induction xs) auto

lemma branch_choice_converted:
  "branch_choice ctx p (map (map_prod id (\<lambda>c. Some (catOptions c))) (map (map_prod id (map f)) cases)) d =
     (case Option.bind (ctx_Params ctx p) (map_of cases) of Some ns \<Rightarrow> Some (catOptions (map f ns)) | None \<Rightarrow> d)"
  by (auto simp: branch_choice_def map_prod.comp map_of_map_prod split: option.splits)

lemma case_matches_converted:
  "condCaseToCase deflt rx call cc = Some (q, c) \<Longrightarrow>
     case_matches ctx q = case_holds rx call ctx cc \<and> c = Some (commandNodes deflt rx call (cc_Nodes cc))"
  by (cases cc) (auto simp: conditional_case_def conditionalPredicate_def case_matches_def case_holds_def
      commandNodes_def split: if_splits option.splits)

lemma case_dropped: "condCaseToCase deflt rx call cc = None \<Longrightarrow> \<not> case_holds rx call ctx cc"
  by (cases cc) (auto simp: conditional_case_def conditionalPredicate_def case_holds_def split: if_splits option.splits)

lemma cond_choice_converted:
  "cond_choice ctx (catOptions (map (condCaseToCase deflt rx call) ccs)) d =
     (case find (case_holds rx call ctx) ccs of
        Some cc \<Rightarrow> Some (commandNodes deflt rx call (cc_Nodes cc)) | None \<Rightarrow> d)"
proof (induction ccs)
  case (Cons cc ccs)
  show ?case
  proof (cases "condCaseToCase deflt rx call cc")
    case None
    then show ?thesis using Cons case_dropped [OF None, of ctx] by simp
  next
    case (Some qc)
    then show ?thesis
      using Cons case_matches_converted [of deflt rx call cc "fst qc" "snd qc" ctx]
      by (cases qc) (auto simp: cond_choice_def split: if_splits)
  qed
qed (simp add: cond_choice_def)

lemma flatten_default: "default_nodes (map f ns) = (if ns = [] then None else Some (catOptions (map f ns)))"
  by (simp add: default_nodes_def)

lemma flatten_inner:
  assumes "nd_Type nd \<noteq> ''step''"
  shows "flattenNodes (commandNodes deflt rx call [nd]) ctx =
    flattenNodes (commandNodes deflt rx call (chosen_children rx call ctx nd)) ctx"
proof (cases nd)
  case (NodeDef ty p bs v vf vis cf pag onp cases ccs dfl)
  have none: "commandNodes deflt rx call [] = []" by (simp add: commandNodes_def)
  consider "ty = ''branch''" | "ty = ''conditional_branch''" | "ty \<noteq> ''branch''" "ty \<noteq> ''conditional_branch''" by blast
  then show ?thesis
  proof cases
    case 1
    show ?thesis
    proof (cases "Option.bind (ctx_Params ctx onp) (map_of cases)")
      case None
      then show ?thesis
        by (simp add: 1 NodeDef chosen_children_def commandNodes_def branchNodeDefToBranchNode_def branch_choice_converted
            flatten_default del: map_map)
    next
      case (Some children)
      then show ?thesis
        by (simp add: 1 NodeDef chosen_children_def commandNodes_def branchNodeDefToBranchNode_def branch_choice_converted
            del: map_map)
    qed
  next
    case 2
    show ?thesis
    proof (cases "find (case_holds rx call ctx) ccs")
      case None
      then show ?thesis
        by (simp add: 2 NodeDef chosen_children_def commandNodes_def condBranchNodeDefToCondBranchNode_def
            cond_choice_converted flatten_default)
    next
      case (Some cc)
      then show ?thesis
        by (simp add: 2 NodeDef chosen_children_def commandNodes_def condBranchNodeDefToCondBranchNode_def
            cond_choice_converted)
    qed
  next
    case 3
    then show ?thesis using assms NodeDef by (simp add: chosen_children_def commandNodes_def)
  qed
qed

lemma flattenNodes_converted:
  "flattenNodes (commandNodes deflt rx call nds) ctx = map (step_of deflt rx call) (active_steps rx call ctx nds)"
proof (induction rx call ctx nds rule: active_steps.induct)
  case (2 rx call ctx nd nds)
  note IH = 2(2)
  have head: "flattenNodes (commandNodes deflt rx call [nd]) ctx =
      map (step_of deflt rx call) (active_steps rx call ctx [nd])"
  proof (cases "nd_Type nd = ''step''")
    case True
    then show ?thesis
      using step_visible_of [of deflt rx call nd ctx]
      by (cases nd) (simp add: commandNodes_def step_of_def)
  next
    case False
    then have children: "flattenNodes (commandNodes deflt rx call (chosen_children rx call ctx nd)) ctx =
        map (step_of deflt rx call) (active_steps rx call ctx (chosen_children rx call ctx nd))"
      by (rule 2(1))
    with False flatten_inner [OF False, of deflt rx call ctx] show ?thesis by simp
  qed
  have "commandNodes deflt rx call (nd # nds) = commandNodes deflt rx call [nd] @ commandNodes deflt rx call nds"
    by (cases "nodeDefToCommandNode deflt rx call nd") (simp_all add: commandNodes_def)
  then show ?case using head IH by (simp add: flattenNodes_append)
qed (simp add: commandNodes_def)

text \<open>
  C25. The commands of a plugin are its messenger triggers, and under any answers, user and locale the
  active steps of a command are exactly the steps that the metadata declare for them, in their order
  and with their own texts, options, validation and paging: converting the metadata to a tree and
  flattening the tree loses and adds nothing.
\<close>

theorem commands_interpret_metadata:
  "map (\<lambda>cd. (cd_Name cd, ResolveActiveSteps cd ctx)) (Wasm_Commands A wp w) =
   map (\<lambda>t. (td_Name t, map (step_of (ad_deflt A) (ad_regex A) (callback_at A wp w))
                            (active_steps (ad_regex A) (callback_at A wp w) ctx (wt_Nodes t))))
     (filter (\<lambda>t. td_Type t = ''messenger'') (pm_Triggers (wp_meta wp)))"
  by (simp add: Wasm_Commands_def ResolveActiveSteps_def trigger_command_def flattenNodes_converted)

text \<open>
  Handling an event changes the world by one call of the module and by at most one message, which
  goes to the chat of a messenger event and holds the blocks of the module's own reply.
\<close>

lemma reply_goes_to_the_events_chat:
  assumes "Wasm_HandleEvent A K wp ev w = (w', resp, err)"
  obtains (unsent) "w' = w" "resp = None" "err \<noteq> None"
  | (quiet) json where "w' = fst (CallHandleEvent (ad_rt A) (wp_compiled wp) json (wp_config wp) w)"
  | (replied) json send m r where "ad_send A = Some send" "ce_TriggerType ev = ''messenger''"
      "ek_messenger K (ce_Data ev) = Inr m" "resp = Some r" "pr_ReplyBlocks r \<noteq> []"
      "w' = fst (send (cr_ChannelType m) (cr_ChatID m) (replyBlocksToMessage (ad_deflt A) (pr_ReplyBlocks r) (cr_Locale m))
              (fst (CallHandleEvent (ad_rt A) (wp_compiled wp) json (wp_config wp) w)))"
proof -
  have reply: "fst (send_reply A K wp ev r w1) = w1 \<or>
      (\<exists>send m. ad_send A = Some send \<and> ce_TriggerType ev = ''messenger'' \<and> ek_messenger K (ce_Data ev) = Inr m \<and>
         pr_ReplyBlocks r \<noteq> [] \<and> fst (send_reply A K wp ev r w1) =
           fst (send (cr_ChannelType m) (cr_ChatID m) (replyBlocksToMessage (ad_deflt A) (pr_ReplyBlocks r) (cr_Locale m)) w1))"
    for r w1
    by (auto simp: send_reply_def split: option.splits sum.splits prod.splits)
  show thesis
  proof (cases "wasmEventRequestFromContract K ev")
    case (Inl e)
    then show thesis using assms by (intro unsent) (auto simp: Wasm_HandleEvent_def)
  next
    case req: (Inr e)
    show thesis
    proof (cases "ek_put_request K e")
      case (Inl x)
      then show thesis using assms req by (intro unsent) (auto simp: Wasm_HandleEvent_def)
    next
      case (Inr json)
      obtain w1 r1 where call: "CallHandleEvent (ad_rt A) (wp_compiled wp) json (wp_config wp) w = (w1, r1)" by fastforce
      show thesis
      proof (cases "w' = w1")
        case True
        then show thesis using call quiet [of json] by simp
      next
        case False
        then obtain r where "resp = Some r" "w' = fst (send_reply A K wp ev r w1)"
          using assms req Inr call by (auto simp: Wasm_HandleEvent_def split: sum.splits if_splits prod.splits)
        with reply [of r w1] False call show thesis using replied [of _ _ r json] by auto
      qed
    qed
  qed
qed

end
