(* ===== verification/Plugin_Bundle.thy ===== *)
theory Plugin_Bundle
  imports Bot_Model
begin

text \<open>
  Uploads of plugins: a module or a zip archive with a module and a web frontend
  (\<^verbatim>\<open>internal/admin/api/plugin_bundle.go\<close>), and the paths under which the frontend is served
  (\<^verbatim>\<open>plugin_frontend_handler.go\<close>). The decoder of zip archives, the table of media types and the
  detection of a type from content are parameters.
\<close>

subsection \<open>Package path\<close>

text \<open>
  \<^verbatim>\<open>path.Clean\<close>: the segments, with the kept ones in reverse as a stack.
\<close>

fun clean_segs :: "bool \<Rightarrow> string list \<Rightarrow> string list \<Rightarrow> string list" where
  "clean_segs rooted st [] = rev st"
| "clean_segs rooted st (seg # segs) =
     (if seg = '''' \<or> seg = ''.'' then clean_segs rooted st segs
      else if seg = ''..''
      then (case st of
              [] \<Rightarrow> clean_segs rooted (if rooted then [] else [seg]) segs
            | t # st' \<Rightarrow> clean_segs rooted (if t = ''..'' then seg # st else st') segs)
      else clean_segs rooted (seg # st) segs)"

definition path_IsAbs :: "string \<Rightarrow> bool" where
  "path_IsAbs s = HasPrefix s ''/''"

definition path_Clean :: "string \<Rightarrow> string" where
  "path_Clean s =
     (let out = Join (clean_segs (path_IsAbs s) [] (SplitOn (CHR ''/'') s)) ''/''
      in if path_IsAbs s then ''/'' @ out else if out = '''' then ''.'' else out)"

text \<open>The part after the last slash, and what is before it, with the slash.\<close>

definition path_last :: "string \<Rightarrow> string" where
  "path_last s = rev (takeWhile (\<lambda>c. c \<noteq> CHR ''/'') (rev s))"

definition path_Dir :: "string \<Rightarrow> string" where
  "path_Dir s = path_Clean (take (length s - length (path_last s)) s)"

definition path_Base :: "string \<Rightarrow> string" where
  "path_Base s =
     (if s = '''' then ''.''
      else let b = path_last (rev (dropWhile (\<lambda>c. c = CHR ''/'') (rev s))) in if b = '''' then ''/'' else b)"

definition path_Ext :: "string \<Rightarrow> string" where
  "path_Ext s =
     (let b = path_last s
      in if CHR ''.'' \<in> set b then CHR ''.'' # rev (takeWhile (\<lambda>c. c \<noteq> CHR ''.'') (rev b)) else '''')"

subsection \<open>Paths in bundles\<close>

definition has_parent_segment :: "string \<Rightarrow> bool" where
  "has_parent_segment s = (''..'' \<in> set (SplitOn (CHR ''/'') s))"

definition bad_path_bytes :: "string \<Rightarrow> bool" where
  "bad_path_bytes s \<longleftrightarrow> CHR 0x00 \<in> set s \<or> CHR 0x5C \<in> set s \<or> path_IsAbs s"

definition cleanBundlePath :: "string \<Rightarrow> go_error + string" where
  "cleanBundlePath name =
     (let invalid = Plain (''invalid bundle path '' @ quote name);
          cleanName = path_Clean name
      in if name = '''' \<or> bad_path_bytes name \<or> has_parent_segment name then Inl invalid
         else if cleanName = ''.'' \<or> cleanName = ''..'' \<or> HasPrefix cleanName ''../'' then Inl invalid
         else Inr cleanName)"

definition cleanFrontendAssetPath :: "string \<Rightarrow> string option" where
  "cleanFrontendAssetPath assetPath =
     (if assetPath = '''' then Some ''''
      else if bad_path_bytes assetPath \<or> has_parent_segment assetPath then None
      else let cleanPath = path_Clean assetPath
           in if cleanPath = ''.'' then Some ''''
              else if cleanPath = ''..'' \<or> HasPrefix cleanPath ''../'' then None
              else Some cleanPath)"

definition shouldIgnoreBundleEntry :: "string \<Rightarrow> bool" where
  "shouldIgnoreBundleEntry name \<longleftrightarrow>
     name = ''__MACOSX'' \<or> HasPrefix name ''__MACOSX/'' \<or> path_Base name = ''.DS_Store''"

subsection \<open>Reading an archive\<close>

text \<open>
  An entry of an archive: its name, what its mode says, the sizes that its header claims, and what
  opening and reading it gives: an error, or the bytes of its content with the error that ends them,
  if any.
\<close>

record zip_entry =
  ze_Name :: string
  ze_IsDir :: bool
  ze_IsRegular :: bool
  ze_Uncompressed :: nat
  ze_Compressed :: nat
  ze_Open :: "go_error + string \<times> go_error option"

record frontend_file =
  pf_Path :: string
  pf_Data :: string
  pf_ContentType :: string
  pf_Size :: int

record plugin_upload =
  pu_Filename :: string
  pu_WasmBytes :: string
  pu_FrontendFiles :: "frontend_file list"

definition pluginBundleWasmName :: string where "pluginBundleWasmName = ''plugin.wasm''"
definition pluginBundleFrontendPrefix :: string where "pluginBundleFrontendPrefix = ''frontend/''"
definition maxPluginFrontendAssets :: nat where "maxPluginFrontendAssets = 512"
definition maxPluginFrontendAssetSize :: nat where "maxPluginFrontendAssetSize = 10 * 2 ^ 20"
definition maxPluginFrontendTotalSize :: int where "maxPluginFrontendTotalSize = 25 * 2 ^ 20"
definition maxPluginBundleCompressionRatio :: nat where "maxPluginBundleCompressionRatio = 100"
definition maxUploadSize :: nat where "maxUploadSize = 50 * 2 ^ 20"

definition validateZipCompressionRatio :: "zip_entry \<Rightarrow> go_error option" where
  "validateZipCompressionRatio e =
     (if ze_Uncompressed e = 0 then None
      else if ze_Compressed e = 0 then Some (Plain ''invalid compressed size'')
      else let ratio = ze_Uncompressed e div ze_Compressed e;
               hasRemainder = ze_Uncompressed e mod ze_Compressed e > 0
           in if ratio > maxPluginBundleCompressionRatio \<or> ratio = maxPluginBundleCompressionRatio \<and> hasRemainder
              then Some (Plain (''compression ratio exceeds '' @ FormatInt (int maxPluginBundleCompressionRatio) @ '':1''))
              else None)"

text \<open>\<^verbatim>\<open>io.ReadAll\<close> over \<^verbatim>\<open>io.LimitReader\<close>: an error that comes after the limit is not seen.\<close>

definition read_limited :: "nat \<Rightarrow> string \<times> go_error option \<Rightarrow> go_error + string" where
  "read_limited n src =
     (case src of (content, err) \<Rightarrow>
        if length content \<ge> n then Inr (take n content)
        else (case err of Some e \<Rightarrow> Inl e | None \<Rightarrow> Inr content))"

definition readZipFile :: "zip_entry \<Rightarrow> nat \<Rightarrow> go_error + string" where
  "readZipFile e limit =
     (if ze_Uncompressed e > limit then Inl (Plain ''file exceeds size limit'')
      else case ze_Open e of
             Inl err \<Rightarrow> Inl err
           | Inr src \<Rightarrow>
               (case read_limited (limit + 1) src of
                  Inl err \<Rightarrow> Inl err
                | Inr data \<Rightarrow> if length data > limit then Inl (Plain ''file exceeds size limit'') else Inr data))"

fun selectBundleWasm_from :: "(string \<times> string) list \<Rightarrow> string option" where
  "selectBundleWasm_from [] = None"
| "selectBundleWasm_from ((p, data) # cs) = (if p = pluginBundleWasmName then Some data else selectBundleWasm_from cs)"

definition selectBundleWasm :: "(string \<times> string) list \<Rightarrow> go_error + string" where
  "selectBundleWasm candidates =
     (case candidates of
        [] \<Rightarrow> Inl (Plain (''plugin bundle must contain '' @ pluginBundleWasmName @ '' or one root .wasm file''))
      | _ \<Rightarrow>
          (case selectBundleWasm_from candidates of
             Some data \<Rightarrow> Inr data
           | None \<Rightarrow>
               if length candidates = 1 then Inr (snd (last candidates))
               else Inl (Plain (''plugin bundle contains multiple root .wasm files; name the main one '' @ pluginBundleWasmName))))"

record media_types =
  mt_byExtension :: "string \<Rightarrow> string"
  mt_detect :: "string \<Rightarrow> string"

definition detectFrontendContentType :: "media_types \<Rightarrow> string \<Rightarrow> string \<Rightarrow> string" where
  "detectFrontendContentType mt filePath data =
     (let contentType = mt_byExtension mt (path_Ext filePath)
      in if contentType \<noteq> '''' then contentType else mt_detect mt (take 512 data))"

text \<open>
  The loop over the entries: modules found at the root, frontend files, and the total size of these.
\<close>

record bundle_state =
  bs_wasm :: "(string \<times> string) list"
  bs_files :: "frontend_file list"
  bs_total :: int

definition add_frontend_file ::
    "media_types \<Rightarrow> zip_entry \<Rightarrow> string \<Rightarrow> bundle_state \<Rightarrow> go_error + bundle_state" where
  "add_frontend_file mt e assetPath st =
     (if assetPath = '''' then Inr st
      else if assetPath \<in> pf_Path ` set (bs_files st) then Inl (Plain (''duplicate frontend asset '' @ quote assetPath))
      else if length (bs_files st) \<ge> maxPluginFrontendAssets then Inl (Plain ''frontend contains too many files'')
      else case readZipFile e maxPluginFrontendAssetSize of
             Inl err \<Rightarrow> Inl (Wrap (''read frontend asset '' @ quote assetPath @ '': '') err '''')
           | Inr data \<Rightarrow>
               let total = bs_total st + int (length data)
               in if total > maxPluginFrontendTotalSize then Inl (Plain ''frontend assets are too large'')
                  else Inr (st\<lparr>bs_total := total,
                               bs_files := bs_files st @
                                 [\<lparr>pf_Path = assetPath, pf_Data = data,
                                   pf_ContentType = detectFrontendContentType mt assetPath data,
                                   pf_Size = int (length data)\<rparr>]\<rparr>))"

definition bundle_entry :: "media_types \<Rightarrow> zip_entry \<Rightarrow> bundle_state \<Rightarrow> go_error + bundle_state" where
  "bundle_entry mt e st =
     (case cleanBundlePath (ze_Name e) of
        Inl err \<Rightarrow> Inl err
      | Inr cleanName \<Rightarrow>
          if shouldIgnoreBundleEntry cleanName \<or> ze_IsDir e then Inr st
          else if \<not> ze_IsRegular e
          then Inl (Plain (''bundle entry '' @ quote cleanName @ '' must be a regular file''))
          else case validateZipCompressionRatio e of
                 Some err \<Rightarrow> Inl (Wrap (''bundle entry '' @ quote cleanName @ '': '') err '''')
               | None \<Rightarrow>
                   if HasPrefix cleanName pluginBundleFrontendPrefix
                   then add_frontend_file mt e (TrimPrefix cleanName pluginBundleFrontendPrefix) st
                   else if path_Dir cleanName = ''.'' \<and> HasSuffix (ToLower cleanName) ''.wasm''
                   then (case readZipFile e maxUploadSize of
                           Inl err \<Rightarrow> Inl (Wrap (''read wasm module '' @ quote cleanName @ '': '') err '''')
                         | Inr data \<Rightarrow> Inr (st\<lparr>bs_wasm := bs_wasm st @ [(cleanName, data)]\<rparr>))
                   else Inr st)"

fun bundle_entries :: "media_types \<Rightarrow> zip_entry list \<Rightarrow> bundle_state \<Rightarrow> go_error + bundle_state" where
  "bundle_entries mt [] st = Inr st"
| "bundle_entries mt (e # es) st =
     (case bundle_entry mt e st of Inl err \<Rightarrow> Inl err | Inr st' \<Rightarrow> bundle_entries mt es st')"

definition parsePluginBundle ::
    "media_types \<Rightarrow> (string \<Rightarrow> zip_entry list option) \<Rightarrow> string \<Rightarrow> string \<Rightarrow> go_error + plugin_upload" where
  "parsePluginBundle mt unzip filename raw =
     (case unzip raw of
        None \<Rightarrow> Inl (Plain ''invalid plugin bundle zip'')
      | Some entries \<Rightarrow>
          (case bundle_entries mt entries \<lparr>bs_wasm = [], bs_files = [], bs_total = 0\<rparr> of
             Inl err \<Rightarrow> Inl err
           | Inr st \<Rightarrow>
               (case selectBundleWasm (bs_wasm st) of
                  Inl err \<Rightarrow> Inl err
                | Inr wasmBytes \<Rightarrow>
                    if length (bs_files st) > 0 \<and> ''index.html'' \<notin> pf_Path ` set (bs_files st)
                    then Inl (Plain ''frontend/index.html is required in plugin bundle'')
                    else Inr \<lparr>pu_Filename = filename, pu_WasmBytes = wasmBytes, pu_FrontendFiles = bs_files st\<rparr>)))"

definition parsePluginUpload ::
    "media_types \<Rightarrow> (string \<Rightarrow> zip_entry list option) \<Rightarrow> string \<Rightarrow> go_error + string \<Rightarrow> go_error + plugin_upload" where
  "parsePluginUpload mt unzip filename src =
     (case src of
        Inl _ \<Rightarrow> Inl (Plain ''failed to read uploaded file'')
      | Inr raw \<Rightarrow>
          let lowerName = ToLower filename
          in if HasSuffix lowerName ''.wasm''
             then Inr \<lparr>pu_Filename = filename, pu_WasmBytes = raw, pu_FrontendFiles = []\<rparr>
             else if HasSuffix lowerName ''.zip'' then parsePluginBundle mt unzip filename raw
             else Inl (Plain ''file must have .wasm or .zip extension''))"

subsection \<open>Paths of served frontends (plugin\_frontend\_handler.go)\<close>

text \<open>Plugin, path of the asset, and whether the request lacks the final slash.\<close>

definition parsePluginFrontendRequestPath :: "string \<Rightarrow> (string \<times> string \<times> bool) option" where
  "parsePluginFrontendRequestPath requestPath =
     (if \<not> HasPrefix requestPath ''/plugins/'' then None
      else case SplitN 2 (CHR ''/'') (TrimPrefix requestPath ''/plugins/'') of
             [i, route] \<Rightarrow>
               if i = '''' then None
               else if route = ''app'' then Some (i, '''', True)
               else if \<not> HasPrefix route ''app/'' then None
               else map_option (\<lambda>p. (i, p, False)) (cleanFrontendAssetPath (TrimPrefix route ''app/''))
           | _ \<Rightarrow> None)"

record frontend_asset =
  fa_Path :: string
  fa_Key :: string
  fa_ContentType :: string
  fa_Checksum :: string
  fa_Size :: int

definition pluginFrontendEntrypoint :: string where "pluginFrontendEntrypoint = ''index.html''"

definition selectPluginFrontendAsset :: "string \<Rightarrow> frontend_asset list \<Rightarrow> string \<Rightarrow> frontend_asset option" where
  "selectPluginFrontendAsset entrypoint0 assets assetPath =
     (let entrypoint = (if entrypoint0 = '''' then pluginFrontendEntrypoint else entrypoint0);
          wantPath = (if assetPath = '''' then entrypoint else assetPath)
      in case find (\<lambda>a. fa_Path a = wantPath) assets of
           Some a \<Rightarrow> Some a
         | None \<Rightarrow>
             if path_Ext wantPath \<noteq> '''' then None
             else find (\<lambda>a. fa_Path a = entrypoint) assets)"

definition requestHasETag :: "string \<Rightarrow> string \<Rightarrow> bool" where
  "requestHasETag ifNoneMatch etag =
     list_ex (\<lambda>candidate. TrimSpace candidate = etag) (SplitOn (CHR '','') ifNoneMatch)"

subsection \<open>Clean paths\<close>

lemma Join_SplitOn [simp]: "Join (SplitOn c s) [c] = s"
proof (induction s)
  case (Cons x xs)
  then show ?case by (cases "SplitOn c xs"; cases "tl (SplitOn c xs)") (auto simp: Join_Cons_append)
qed simp

lemma SplitOn_part: "p \<in> set (SplitOn c s) \<Longrightarrow> c \<notin> set p \<and> set p \<subseteq> set s"
proof (induction s arbitrary: p)
  case (Cons x xs)
  obtain q qs where split: "SplitOn c xs = q # qs" by (cases "SplitOn c xs") auto
  have IH: "c \<notin> set r \<and> set r \<subseteq> set xs" if "r \<in> set (q # qs)" for r using Cons.IH [of r] that by (simp add: split)
  consider "p = []" | "p = x # q" "x \<noteq> c" | "p \<in> set (q # qs)"
    using Cons.prems by (auto simp: split split: if_splits)
  then show ?case using IH by cases (auto dest: IH)
qed simp

lemma clean_segs_no_parent:
  "''..'' \<notin> set segs \<Longrightarrow> clean_segs rooted st segs = rev st @ filter (\<lambda>s. s \<noteq> '''' \<and> s \<noteq> ''.'') segs"
  by (induction rooted st segs rule: clean_segs.induct) auto

lemma set_Join: "set (Join ss sep) \<subseteq> (\<Union>s\<in>set ss. set s) \<union> set sep"
  by (induction ss sep rule: Join.induct) auto

text \<open>A clean relative path: at least one segment, none of them empty or a dot or two.\<close>

definition clean_path :: "string \<Rightarrow> bool" where
  "clean_path p \<longleftrightarrow> (\<forall>s\<in>set (SplitOn (CHR ''/'') p). s \<noteq> '''' \<and> s \<noteq> ''.'' \<and> s \<noteq> ''..'') \<and> \<not> bad_path_bytes p"

lemma path_IsAbs_split: "path_IsAbs s \<Longrightarrow> hd (SplitOn (CHR ''/'') s) = ''''"
  by (cases s) (auto simp: path_IsAbs_def)

lemma clean_path_fixed:
  assumes "clean_path p"
  shows "path_Clean p = p" "p \<noteq> ''''" "\<not> has_parent_segment p"
    "p \<noteq> ''.''" "p \<noteq> ''..''" "\<not> HasPrefix p ''../''"
proof -
  have segs: "s \<noteq> '''' \<and> s \<noteq> ''.'' \<and> s \<noteq> ''..''" if "s \<in> set (SplitOn (CHR ''/'') p)" for s
    using assms that by (auto simp: clean_path_def)
  then show parent: "\<not> has_parent_segment p" by (auto simp: has_parent_segment_def)
  have "filter (\<lambda>s. s \<noteq> '''' \<and> s \<noteq> ''.'') (SplitOn (CHR ''/'') p) = SplitOn (CHR ''/'') p"
    using segs by (auto simp: filter_id_conv)
  moreover show "p \<noteq> ''''" using segs [of "''''"] by (cases p) auto
  moreover have "\<not> path_IsAbs p" using assms by (simp add: clean_path_def bad_path_bytes_def)
  ultimately show "path_Clean p = p"
    using parent by (simp add: path_Clean_def clean_segs_no_parent has_parent_segment_def)
  show "p \<noteq> ''.''" "p \<noteq> ''..''" using segs by (auto simp: SplitOn_no_sep)
  show "\<not> HasPrefix p ''../''"
  proof
    assume "HasPrefix p ''../''"
    then obtain q where "p = ''..'' @ CHR ''/'' # q" by (auto simp: prefix_def)
    then have "''..'' \<in> set (SplitOn (CHR ''/'') p)" by (simp only: SplitOn_append_sep) (simp add: SplitOn_append_sep)
    then show False using segs by blast
  qed
qed

lemma clean_path_accepted: "clean_path p \<Longrightarrow> cleanFrontendAssetPath p = Some p"
  using clean_path_fixed [of p] by (auto simp: cleanFrontendAssetPath_def clean_path_def)

lemma cleanBundlePath_Inr:
  assumes "cleanBundlePath name = Inr c"
  shows "clean_path c"
proof -
  let ?segs = "filter (\<lambda>s. s \<noteq> '''' \<and> s \<noteq> ''.'') (SplitOn (CHR ''/'') name)"
  have ok: "name \<noteq> ''''" "\<not> bad_path_bytes name" "\<not> has_parent_segment name" "c = path_Clean name" "c \<noteq> ''.''"
    using assms by (auto simp: cleanBundlePath_def Let_def split: if_splits)
  then have c: "c = Join ?segs ''/''" "?segs \<noteq> []"
    by (auto simp: path_Clean_def clean_segs_no_parent has_parent_segment_def bad_path_bytes_def Let_def split: if_splits)
  have seg: "CHR ''/'' \<notin> set s \<and> set s \<subseteq> set name" if "s \<in> set ?segs" for s
    using that SplitOn_part [of s "CHR ''/''" name] by auto
  then have split: "SplitOn (CHR ''/'') c = ?segs"
    using c SplitOn_Join [of "hd ?segs" "tl ?segs" "CHR ''/''"] by (cases ?segs) auto
  have "\<Union> (set ` set ?segs) \<subseteq> set name" using seg by blast
  then have bytes: "set c \<subseteq> set name \<union> {CHR ''/''}"
    by (subst c(1)) (rule order_trans [OF set_Join], auto)
  have "\<not> path_IsAbs c"
    using path_IsAbs_split [of c] list.set_sel(1) [OF c(2)] by (auto simp: split)
  moreover have "''..'' \<notin> set ?segs" using ok(3) by (auto simp: has_parent_segment_def)
  ultimately show ?thesis
    using ok(2) bytes by (auto simp: clean_path_def split bad_path_bytes_def)
qed

lemma frontend_part_clean:
  assumes "clean_path c" "HasPrefix c ''frontend/''"
  shows "clean_path (TrimPrefix c ''frontend/'')"
proof -
  obtain p where c: "c = ''frontend'' @ CHR ''/'' # p" using assms(2) by (auto simp: prefix_def)
  then have "SplitOn (CHR ''/'') c = ''frontend'' # SplitOn (CHR ''/'') p" by (simp only: c) (rule SplitOn_append_sep; simp)
  moreover have "TrimPrefix c ''frontend/'' = p" using TrimPrefix_append [of "''frontend/''" p] c by simp
  moreover have "\<not> path_IsAbs p"
    using assms(1) calculation(1) path_IsAbs_split [of p] list.set_sel(1) [OF SplitOn_not_Nil, of "CHR ''/''" p]
    by (auto simp: clean_path_def)
  ultimately show ?thesis using assms(1) by (auto simp: clean_path_def bad_path_bytes_def c)
qed

subsection \<open>What an accepted bundle contains\<close>

definition files_ok :: "frontend_file list \<Rightarrow> bool" where
  "files_ok fs \<longleftrightarrow>
     (\<forall>f\<in>set fs. clean_path (pf_Path f) \<and> pf_Size f = int (length (pf_Data f)) \<and> length (pf_Data f) \<le> maxPluginFrontendAssetSize) \<and>
     distinct (map pf_Path fs) \<and> length fs \<le> maxPluginFrontendAssets \<and>
     (\<Sum>f\<leftarrow>fs. pf_Size f) \<le> maxPluginFrontendTotalSize"

lemma readZipFile_length: "readZipFile e n = Inr data \<Longrightarrow> length data \<le> n"
  by (auto simp: readZipFile_def split: if_splits sum.splits)

definition bundle_ok :: "bundle_state \<Rightarrow> bool" where
  "bundle_ok st \<longleftrightarrow> files_ok (bs_files st) \<and> bs_total st = (\<Sum>f\<leftarrow>bs_files st. pf_Size f)"

lemma add_frontend_file_ok:
  assumes "add_frontend_file mt e p st = Inr st'" "bundle_ok st" "clean_path p"
  shows "bundle_ok st'"
proof -
  consider "st' = st"
    | data where "p \<notin> pf_Path ` set (bs_files st)" "length (bs_files st) < maxPluginFrontendAssets"
        "readZipFile e maxPluginFrontendAssetSize = Inr data" "bs_total st + int (length data) \<le> maxPluginFrontendTotalSize"
        "bs_total st' = bs_total st + int (length data)"
        "bs_files st' = bs_files st @ [\<lparr>pf_Path = p, pf_Data = data, pf_ContentType = detectFrontendContentType mt p data,
            pf_Size = int (length data)\<rparr>]"
    using assms(1) by (fastforce simp: add_frontend_file_def Let_def split: if_splits sum.splits)
  then show ?thesis
  proof cases
    case 2
    then show ?thesis using assms(2,3) readZipFile_length [OF 2(3)] by (auto simp: bundle_ok_def files_ok_def)
  qed (use assms in simp)
qed

lemma bundle_entry_ok:
  assumes "bundle_entry mt e st = Inr st'" "bundle_ok st"
  shows "bundle_ok st'"
proof -
  obtain c where c: "cleanBundlePath (ze_Name e) = Inr c"
    using assms(1) by (cases "cleanBundlePath (ze_Name e)") (auto simp: bundle_entry_def)
  consider "bs_files st' = bs_files st" "bs_total st' = bs_total st"
    | "HasPrefix c pluginBundleFrontendPrefix" "add_frontend_file mt e (TrimPrefix c pluginBundleFrontendPrefix) st = Inr st'"
    using assms(1) c by (auto simp: bundle_entry_def split: if_splits sum.splits option.splits)
  then show ?thesis
  proof cases
    case 2
    then show ?thesis
      using add_frontend_file_ok assms(2) frontend_part_clean cleanBundlePath_Inr [OF c]
      by (auto simp: pluginBundleFrontendPrefix_def)
  qed (use assms(2) in \<open>simp add: bundle_ok_def\<close>)
qed

lemma bundle_entries_ok: "bundle_entries mt es st = Inr st' \<Longrightarrow> bundle_ok st \<Longrightarrow> bundle_ok st'"
  by (induction es arbitrary: st) (auto split: sum.splits dest: bundle_entry_ok)

lemma parsePluginUpload_files:
  assumes "parsePluginUpload mt unzip filename src = Inr u"
  shows "files_ok (pu_FrontendFiles u)" "pu_FrontendFiles u = [] \<or> ''index.html'' \<in> pf_Path ` set (pu_FrontendFiles u)"
proof -
  have start: "bundle_ok \<lparr>bs_wasm = [], bs_files = [], bs_total = 0\<rparr>"
    by (simp add: bundle_ok_def files_ok_def maxPluginFrontendTotalSize_def)
  consider "pu_FrontendFiles u = []"
    | es st where "bundle_entries mt es \<lparr>bs_wasm = [], bs_files = [], bs_total = 0\<rparr> = Inr st" "pu_FrontendFiles u = bs_files st"
        "bs_files st = [] \<or> ''index.html'' \<in> pf_Path ` set (bs_files st)"
    using assms by (auto simp: parsePluginUpload_def parsePluginBundle_def Let_def split: sum.splits if_splits option.splits)
  then have "files_ok (pu_FrontendFiles u) \<and>
      (pu_FrontendFiles u = [] \<or> ''index.html'' \<in> pf_Path ` set (pu_FrontendFiles u))"
  proof cases
    case 1
    then show ?thesis by (simp add: files_ok_def maxPluginFrontendTotalSize_def)
  next
    case 2
    then show ?thesis using bundle_entries_ok [OF 2(1) start] by (auto simp: bundle_ok_def)
  qed
  then show "files_ok (pu_FrontendFiles u)" "pu_FrontendFiles u = [] \<or> ''index.html'' \<in> pf_Path ` set (pu_FrontendFiles u)"
    by blast+
qed

text \<open>
  C26. Whatever archive is uploaded, with whatever sizes its headers claim: the frontend of an
  accepted upload has at most 512 files with different names, each of at most 10 MiB and together of
  at most 25 MiB; every name is a relative path without empty, dot and parent segments, that the
  check of frontend paths leaves as it is; and there is an \<^verbatim>\<open>index.html\<close> when there is any file.
\<close>

theorem accepted_bundle_confined:
  assumes "parsePluginUpload mt unzip filename src = Inr u"
  shows "length (pu_FrontendFiles u) \<le> 512 \<and> distinct (map pf_Path (pu_FrontendFiles u)) \<and>
    (\<Sum>f\<leftarrow>pu_FrontendFiles u. int (length (pf_Data f))) \<le> 25 * 2 ^ 20 \<and>
    list_all (\<lambda>f. length (pf_Data f) \<le> 10 * 2 ^ 20 \<and> cleanFrontendAssetPath (pf_Path f) = Some (pf_Path f) \<and>
        ''..'' \<notin> set (SplitOn (CHR ''/'') (pf_Path f)) \<and> \<not> path_IsAbs (pf_Path f)) (pu_FrontendFiles u) \<and>
    (pu_FrontendFiles u = [] \<or> list_ex (\<lambda>f. pf_Path f = ''index.html'') (pu_FrontendFiles u))"
proof -
  have ok: "files_ok (pu_FrontendFiles u)" by (rule parsePluginUpload_files [OF assms])
  then have sizes: "map pf_Size (pu_FrontendFiles u) = map (\<lambda>f. int (length (pf_Data f))) (pu_FrontendFiles u)"
    by (simp add: files_ok_def)
  have "list_ex (\<lambda>f. pf_Path f = ''index.html'') (pu_FrontendFiles u)" if "pu_FrontendFiles u \<noteq> []"
    using parsePluginUpload_files(2) [OF assms] that by (auto simp: list_ex_iff)
  then show ?thesis
    using ok clean_path_accepted clean_path_fixed(3)
    by (auto simp: files_ok_def sizes list_all_iff maxPluginFrontendAssets_def maxPluginFrontendTotalSize_def
        maxPluginFrontendAssetSize_def has_parent_segment_def clean_path_def bad_path_bytes_def)
qed

definition demo_media :: media_types where
  "demo_media = \<lparr>mt_byExtension = (\<lambda>_. ''text/html''), mt_detect = (\<lambda>_. '''')\<rparr>"

definition demo_entries :: "zip_entry list" where
  "demo_entries =
     [\<lparr>ze_Name = ''plugin.wasm'', ze_IsDir = False, ze_IsRegular = True, ze_Uncompressed = 3, ze_Compressed = 3,
       ze_Open = Inr (''abc'', None)\<rparr>,
      \<lparr>ze_Name = ''frontend/./index.html'', ze_IsDir = False, ze_IsRegular = True, ze_Uncompressed = 2, ze_Compressed = 2,
       ze_Open = Inr (''hi'', None)\<rparr>]"

definition demo_upload :: plugin_upload where
  "demo_upload = \<lparr>pu_Filename = ''p.zip'', pu_WasmBytes = ''abc'',
     pu_FrontendFiles = [\<lparr>pf_Path = ''index.html'', pf_Data = ''hi'', pf_ContentType = ''text/html'', pf_Size = 2\<rparr>]\<rparr>"

lemma demo_paths:
  "path_Clean ''plugin.wasm'' = ''plugin.wasm'' \<and> path_Clean ''frontend/./index.html'' = ''frontend/index.html'' \<and>
   path_Dir ''plugin.wasm'' = ''.'' \<and> \<not> shouldIgnoreBundleEntry ''plugin.wasm'' \<and>
   \<not> shouldIgnoreBundleEntry ''frontend/index.html'' \<and> \<not> has_parent_segment ''frontend/./index.html'' \<and>
   \<not> has_parent_segment ''plugin.wasm'' \<and> \<not> bad_path_bytes ''frontend/./index.html'' \<and> \<not> bad_path_bytes ''plugin.wasm'' \<and>
   ToLower ''plugin.wasm'' = ''plugin.wasm'' \<and> ToLower ''p.zip'' = ''p.zip''"
  by code_simp

lemma demo_bundle_parsed:
  "parsePluginUpload demo_media (\<lambda>_. Some demo_entries) ''p.zip'' (Inr ''raw'') = Inr demo_upload"
  by (simp add: parsePluginUpload_def parsePluginBundle_def demo_entries_def bundle_entry_def cleanBundlePath_def demo_paths
      validateZipCompressionRatio_def maxPluginBundleCompressionRatio_def pluginBundleFrontendPrefix_def readZipFile_def
      maxUploadSize_def read_limited_def add_frontend_file_def TrimPrefix_def maxPluginFrontendAssets_def
      maxPluginFrontendAssetSize_def maxPluginFrontendTotalSize_def detectFrontendContentType_def demo_media_def
      selectBundleWasm_def pluginBundleWasmName_def demo_upload_def suffix_def Let_def)

theorem accepted_bundle_confined_witness:
  "parsePluginUpload demo_media (\<lambda>_. Some demo_entries) ''p.zip'' (Inr ''raw'') = Inr demo_upload \<and>
   pu_FrontendFiles demo_upload \<noteq> [] \<and> list_ex (\<lambda>f. pf_Path f = ''index.html'') (pu_FrontendFiles demo_upload)"
  using accepted_bundle_confined [OF demo_bundle_parsed] by (simp add: demo_bundle_parsed demo_upload_def)

text \<open>A clean path is served: the request for it is parsed to it.\<close>

lemma SplitN_2_found: "c \<notin> set p \<Longrightarrow> SplitN 2 c (p @ c # q) = [p, q]"
  by (induction p) (cases q, auto split: list.splits)

lemma frontend_request_path:
  assumes "clean_path p" "i \<noteq> ''''" "CHR ''/'' \<notin> set i"
  shows "parsePluginFrontendRequestPath (''/plugins/'' @ i @ ''/app/'' @ p) = Some (i, p, False)"
proof -
  have "SplitN 2 (CHR ''/'') (i @ CHR ''/'' # (''app/'' @ p)) = [i, ''app/'' @ p]"
    using assms(3) by (rule SplitN_2_found)
  moreover have "TrimPrefix (''/plugins/'' @ i @ ''/app/'' @ p) ''/plugins/'' = i @ CHR ''/'' # (''app/'' @ p)"
    using TrimPrefix_append [of "''/plugins/''"] by simp
  moreover have "TrimPrefix (''app/'' @ p) ''app/'' = p" by (rule TrimPrefix_append)
  ultimately show ?thesis
    using assms(2) clean_path_accepted [OF assms(1)]
    by (simp only: parsePluginFrontendRequestPath_def) simp
qed

end
