(* ===== verification/Plugin_Store.thy ===== *)
theory Plugin_Store
  imports Plugin_Bundle Triggers Wasm_Registry
begin

text \<open>
  What the administration of plugins stores (\<^verbatim>\<open>storage.go\<close>, \<^verbatim>\<open>pg_store.go\<close>, \<^verbatim>\<open>pg_version_store.go\<close>,
  \<^verbatim>\<open>cmd_perm_store.go\<close>, \<^verbatim>\<open>blob_store_localfs.go\<close> and \<^verbatim>\<open>plugin_frontend_assets.go\<close> of
  \<^verbatim>\<open>internal/admin/api\<close>): tables of a PostgreSQL database, whose statements are functions on the rows,
  with the foreign keys of the migrations, and files under a directory. Every call to the database
  or to the file system takes the next of the given outcomes: an error leaves everything unchanged.
  The clock is a field of the state.
\<close>

subsection \<open>Records (storage.go)\<close>

record plugin_record =
  prc_ID :: string
  prc_WasmKey :: string
  prc_ConfigJSON :: string
  prc_Enabled :: bool
  prc_WasmHash :: string
  prc_InstalledAt :: instant
  prc_UpdatedAt :: instant

record plugin_metadata_record =
  pmr_PluginID :: string
  pmr_Name :: string
  pmr_Version :: string
  pmr_SDKVersion :: int
  pmr_MetaJSON :: string
  pmr_ConfigSchema :: string
  pmr_Requirements :: string
  pmr_Triggers :: string
  pmr_UpdatedAt :: instant

record frontend_record =
  fro_PluginID :: string
  fro_Entrypoint :: string
  fro_Assets :: "frontend_asset list"
  fro_CreatedAt :: instant
  fro_UpdatedAt :: instant

record version_record =
  vr_ID :: int
  vr_PluginID :: string
  vr_Version :: string
  vr_WasmKey :: string
  vr_WasmHash :: string
  vr_ConfigJSON :: string
  vr_Changelog :: string
  vr_CreatedAt :: instant

record command_setting =
  cst_ID :: int
  cst_PluginID :: string
  cst_CommandName :: string
  cst_Enabled :: bool
  cst_AllowUserKeys :: bool
  cst_AllowServiceKeys :: bool
  cst_PolicyExpression :: "string option"
  cst_AllowedOrigins :: "string list"
  cst_CreatedAt :: instant
  cst_UpdatedAt :: instant

record frontend_origins =
  fo_PluginID :: string
  fo_AllowedOrigins :: "string list"
  fo_CreatedAt :: instant
  fo_UpdatedAt :: instant

subsection \<open>The database and the files\<close>

text \<open>
  \<open>sto_jsonb\<close> is what PostgreSQL stores for a text in a column of type jsonb, nothing for a text that
  is not JSON. Files are keyed by their path; directories are left out.
\<close>

record admin_db =
  sto_plugins :: "(string \<times> plugin_record) list"
  sto_metadata :: "string \<rightharpoonup> plugin_metadata_record"
  sto_frontends :: "string \<rightharpoonup> frontend_record"
  sto_versions :: "version_record list"
  sto_nextVersion :: int
  sto_settings :: "command_setting list"
  sto_nextSetting :: int
  sto_origins :: "string \<rightharpoonup> frontend_origins"
  sto_policies :: "string \<rightharpoonup> string"
  sto_base :: string
  sto_files :: "string \<rightharpoonup> string"
  sto_outcomes :: "go_error option list"
  sto_now :: instant
  sto_jsonb :: "string \<rightharpoonup> string"

definition ErrNoRows :: go_error where "ErrNoRows = Plain ''no rows in result set''"

definition next_outcome :: "admin_db \<Rightarrow> admin_db \<times> go_error option" where
  "next_outcome d =
     (case sto_outcomes d of [] \<Rightarrow> (d, None) | out # outs \<Rightarrow> (d\<lparr>sto_outcomes := outs\<rparr>, out))"

text \<open>One call: the outcome of the connection, then that of the statement.\<close>

definition db_call :: "(admin_db \<Rightarrow> go_error + admin_db \<times> 'a) \<Rightarrow> admin_db \<Rightarrow> admin_db \<times> (go_error + 'a)" where
  "db_call stmt d =
     (case next_outcome d of
        (d1, Some err) \<Rightarrow> (d1, Inl err)
      | (d1, None) \<Rightarrow> (case stmt d1 of Inl err \<Rightarrow> (d1, Inl err) | Inr (d2, x) \<Rightarrow> (d2, Inr x)))"

definition wrap_result :: "string \<Rightarrow> admin_db \<times> (go_error + 'a) \<Rightarrow> admin_db \<times> (go_error + 'a)" where
  "wrap_result what dr = (case dr of (d, Inl err) \<Rightarrow> (d, Inl (Wrap what err '''')) | (d, Inr x) \<Rightarrow> (d, Inr x))"

definition as_error :: "admin_db \<times> (go_error + 'a) \<Rightarrow> admin_db \<times> go_error option" where
  "as_error dr = (case dr of (d, Inl err) \<Rightarrow> (d, Some err) | (d, Inr _) \<Rightarrow> (d, None))"

definition db_exec :: "string \<Rightarrow> (admin_db \<Rightarrow> go_error + admin_db) \<Rightarrow> admin_db \<Rightarrow> admin_db \<times> go_error option" where
  "db_exec what stmt d =
     as_error (wrap_result what (db_call (\<lambda>d. case stmt d of Inl err \<Rightarrow> Inl err | Inr d' \<Rightarrow> Inr (d', ())) d))"

definition db_query :: "string \<Rightarrow> (admin_db \<Rightarrow> go_error + 'a) \<Rightarrow> admin_db \<Rightarrow> admin_db \<times> (go_error + 'a)" where
  "db_query what stmt d =
     wrap_result what (db_call (\<lambda>d. case stmt d of Inl err \<Rightarrow> Inl err | Inr x \<Rightarrow> Inr (d, x)) d)"

definition json_or_null :: "string \<Rightarrow> string" where
  "json_or_null j = (if length j > 0 then j else ''null'')"

definition to_jsonb :: "admin_db \<Rightarrow> string \<Rightarrow> go_error + string" where
  "to_jsonb d j = (case sto_jsonb d (json_or_null j) of None \<Rightarrow> Inl (Plain ''invalid input syntax for type json'') | Some x \<Rightarrow> Inr x)"

subsection \<open>Plugins (pg\_store.go)\<close>

text \<open>An existing row keeps the time of its installation.\<close>

definition upsert_plugin :: "plugin_record \<Rightarrow> admin_db \<Rightarrow> go_error + admin_db" where
  "upsert_plugin rec d =
     (case to_jsonb d (prc_ConfigJSON rec) of
        Inl err \<Rightarrow> Inl err
      | Inr j \<Rightarrow>
          let installed = (case map_of (sto_plugins d) (prc_ID rec) of
                             None \<Rightarrow> prc_InstalledAt rec | Some old \<Rightarrow> prc_InstalledAt old)
          in Inr (d\<lparr>sto_plugins := AList.update (prc_ID rec)
                       (rec\<lparr>prc_ConfigJSON := j, prc_InstalledAt := installed\<rparr>) (sto_plugins d)\<rparr>))"

definition SavePlugin :: "plugin_record \<Rightarrow> admin_db \<Rightarrow> admin_db \<times> go_error option" where
  "SavePlugin rec = db_exec (''upsert plugin '' @ quote (prc_ID rec) @ '': '') (upsert_plugin rec)"

definition GetPluginRecord :: "string \<Rightarrow> admin_db \<Rightarrow> admin_db \<times> (go_error + plugin_record)" where
  "GetPluginRecord i =
     db_query (''get plugin '' @ quote i @ '': '')
       (\<lambda>d. case map_of (sto_plugins d) i of None \<Rightarrow> Inl ErrNoRows | Some rec \<Rightarrow> Inr rec)"

definition ListPlugins :: "admin_db \<Rightarrow> admin_db \<times> (go_error + plugin_record list)" where
  "ListPlugins = db_query ''list plugins: '' (\<lambda>d. Inr (sort_key prc_InstalledAt (map snd (sto_plugins d))))"

text \<open>Deleting a plugin deletes its metadata, versions and frontend, which reference it.\<close>

definition delete_plugin :: "string \<Rightarrow> admin_db \<Rightarrow> admin_db" where
  "delete_plugin i d =
     d\<lparr>sto_plugins := AList.delete i (sto_plugins d), sto_metadata := (sto_metadata d)(i := None),
       sto_frontends := (sto_frontends d)(i := None), sto_versions := filter (\<lambda>v. vr_PluginID v \<noteq> i) (sto_versions d)\<rparr>"

text \<open>The error of a deletion that affected no row is not wrapped.\<close>

definition delete_or_missing ::
    "string \<Rightarrow> go_error \<Rightarrow> (admin_db \<Rightarrow> bool) \<Rightarrow> (admin_db \<Rightarrow> admin_db) \<Rightarrow> admin_db \<Rightarrow> admin_db \<times> go_error option" where
  "delete_or_missing what missing present del d =
     (case wrap_result what (db_call (\<lambda>d. Inr (del d, present d)) d) of
        (d1, Inl err) \<Rightarrow> (d1, Some err)
      | (d1, Inr affected) \<Rightarrow> (d1, if affected then None else Some missing))"

definition DeletePluginRecord :: "string \<Rightarrow> admin_db \<Rightarrow> admin_db \<times> go_error option" where
  "DeletePluginRecord i =
     delete_or_missing (''delete plugin '' @ quote i @ '': '') (Plain (''plugin '' @ quote i @ '' not found''))
       (\<lambda>d. map_of (sto_plugins d) i \<noteq> None) (delete_plugin i)"

definition missing_parent :: "string \<Rightarrow> go_error" where
  "missing_parent table = Plain (''insert or update on table '' @ quote table @ '' violates foreign key constraint'')"

definition upsert_metadata :: "plugin_metadata_record \<Rightarrow> admin_db \<Rightarrow> go_error + admin_db" where
  "upsert_metadata rec d =
     (case (to_jsonb d (pmr_MetaJSON rec), to_jsonb d (pmr_ConfigSchema rec),
            to_jsonb d (pmr_Requirements rec), to_jsonb d (pmr_Triggers rec)) of
        (Inr meta, Inr schema, Inr reqs, Inr triggers) \<Rightarrow>
          if map_of (sto_plugins d) (pmr_PluginID rec) = None then Inl (missing_parent ''wasm_plugin_metadata'')
          else Inr (d\<lparr>sto_metadata := (sto_metadata d)(pmr_PluginID rec \<mapsto>
                 rec\<lparr>pmr_MetaJSON := meta, pmr_ConfigSchema := schema, pmr_Requirements := reqs, pmr_Triggers := triggers\<rparr>)\<rparr>)
      | _ \<Rightarrow> Inl (Plain ''invalid input syntax for type json''))"

definition SavePluginMetadata :: "plugin_metadata_record \<Rightarrow> admin_db \<Rightarrow> admin_db \<times> go_error option" where
  "SavePluginMetadata rec = db_exec (''upsert plugin metadata '' @ quote (pmr_PluginID rec) @ '': '') (upsert_metadata rec)"

definition GetPluginMetadata :: "string \<Rightarrow> admin_db \<Rightarrow> admin_db \<times> (go_error + plugin_metadata_record)" where
  "GetPluginMetadata i =
     db_query (''get plugin metadata '' @ quote i @ '': '')
       (\<lambda>d. case sto_metadata d i of None \<Rightarrow> Inl ErrNoRows | Some rec \<Rightarrow> Inr rec)"

definition DeletePluginMetadata :: "string \<Rightarrow> admin_db \<Rightarrow> admin_db \<times> go_error option" where
  "DeletePluginMetadata i =
     delete_or_missing (''delete plugin metadata '' @ quote i @ '': '') (Plain (''plugin metadata '' @ quote i @ '' not found''))
       (\<lambda>d. sto_metadata d i \<noteq> None) (\<lambda>d. d\<lparr>sto_metadata := (sto_metadata d)(i := None)\<rparr>)"

text \<open>Assets are stored as JSON and read back; the column holds the list itself here.\<close>

definition upsert_frontend :: "frontend_record \<Rightarrow> admin_db \<Rightarrow> go_error + admin_db" where
  "upsert_frontend rec d =
     (if map_of (sto_plugins d) (fro_PluginID rec) = None then Inl (missing_parent ''plugin_frontends'')
      else let entrypoint = (if fro_Entrypoint rec = '''' then ''index.html'' else fro_Entrypoint rec);
               created = (case sto_frontends d (fro_PluginID rec) of None \<Rightarrow> sto_now d | Some old \<Rightarrow> fro_CreatedAt old)
           in Inr (d\<lparr>sto_frontends := (sto_frontends d)(fro_PluginID rec \<mapsto>
                rec\<lparr>fro_Entrypoint := entrypoint, fro_CreatedAt := created, fro_UpdatedAt := sto_now d\<rparr>)\<rparr>))"

definition SavePluginFrontend :: "frontend_record \<Rightarrow> admin_db \<Rightarrow> admin_db \<times> go_error option" where
  "SavePluginFrontend rec = db_exec (''upsert plugin frontend '' @ quote (fro_PluginID rec) @ '': '') (upsert_frontend rec)"

definition GetPluginFrontend :: "string \<Rightarrow> admin_db \<Rightarrow> admin_db \<times> (go_error + frontend_record)" where
  "GetPluginFrontend i =
     db_query (''get plugin frontend '' @ quote i @ '': '')
       (\<lambda>d. case sto_frontends d i of None \<Rightarrow> Inl ErrNoRows | Some rec \<Rightarrow> Inr rec)"

definition DeletePluginFrontend :: "string \<Rightarrow> admin_db \<Rightarrow> admin_db \<times> go_error option" where
  "DeletePluginFrontend i =
     db_exec (''delete plugin frontend '' @ quote i @ '': '')
       (\<lambda>d. Inr (d\<lparr>sto_frontends := (sto_frontends d)(i := None)\<rparr>))"

subsection \<open>Versions (pg\_version\_store.go)\<close>

definition insert_version :: "version_record \<Rightarrow> admin_db \<Rightarrow> go_error + admin_db \<times> int" where
  "insert_version rec d =
     (case to_jsonb d (vr_ConfigJSON rec) of
        Inl err \<Rightarrow> Inl err
      | Inr j \<Rightarrow>
          if map_of (sto_plugins d) (vr_PluginID rec) = None then Inl (missing_parent ''wasm_plugin_versions'')
          else Inr (d\<lparr>sto_versions := sto_versions d @
                        [rec\<lparr>vr_ID := sto_nextVersion d, vr_ConfigJSON := j, vr_CreatedAt := sto_now d\<rparr>],
                      sto_nextVersion := sto_nextVersion d + 1\<rparr>, sto_nextVersion d))"

definition SaveVersion :: "version_record \<Rightarrow> admin_db \<Rightarrow> admin_db \<times> (go_error + int)" where
  "SaveVersion rec d = wrap_result ''insert plugin version: '' (db_call (insert_version rec) d)"

definition ListVersions_of :: "string \<Rightarrow> admin_db \<Rightarrow> admin_db \<times> (go_error + version_record list)" where
  "ListVersions_of i =
     db_query (''list versions for '' @ quote i @ '': '')
       (\<lambda>d. Inr (sort_key (\<lambda>v. - vr_CreatedAt v) (filter (\<lambda>v. vr_PluginID v = i) (sto_versions d))))"

definition GetVersionRecord :: "int \<Rightarrow> admin_db \<Rightarrow> admin_db \<times> (go_error + version_record)" where
  "GetVersionRecord i =
     db_query (''get version '' @ FormatInt i @ '': '')
       (\<lambda>d. case find (\<lambda>v. vr_ID v = i) (sto_versions d) of None \<Rightarrow> Inl ErrNoRows | Some v \<Rightarrow> Inr v)"

definition DeleteVersion :: "int \<Rightarrow> admin_db \<Rightarrow> admin_db \<times> go_error option" where
  "DeleteVersion i =
     delete_or_missing (''delete version '' @ FormatInt i @ '': '') (Plain (''version '' @ FormatInt i @ '' not found''))
       (\<lambda>d. i \<in> vr_ID ` set (sto_versions d)) (\<lambda>d. d\<lparr>sto_versions := filter (\<lambda>v. vr_ID v \<noteq> i) (sto_versions d)\<rparr>)"

definition DeleteVersionsByPlugin :: "string \<Rightarrow> admin_db \<Rightarrow> admin_db \<times> go_error option" where
  "DeleteVersionsByPlugin i =
     db_exec (''delete versions for plugin '' @ quote i @ '': '')
       (\<lambda>d. Inr (d\<lparr>sto_versions := filter (\<lambda>v. vr_PluginID v \<noteq> i) (sto_versions d)\<rparr>))"

subsection \<open>Settings of commands (cmd\_perm\_store.go)\<close>

text \<open>
  A row of \<^verbatim>\<open>plugin_command_settings\<close> is inserted with the defaults of its columns or updated. The
  column of the policy may be null and is read as an empty text.
\<close>

definition new_setting :: "admin_db \<Rightarrow> string \<Rightarrow> string \<Rightarrow> bool \<Rightarrow> command_setting" where
  "new_setting d i c enabled =
     \<lparr>cst_ID = sto_nextSetting d, cst_PluginID = i, cst_CommandName = c, cst_Enabled = enabled, cst_AllowUserKeys = True,
      cst_AllowServiceKeys = False, cst_PolicyExpression = None, cst_AllowedOrigins = [], cst_CreatedAt = sto_now d,
      cst_UpdatedAt = sto_now d\<rparr>"

definition find_setting :: "string \<Rightarrow> string \<Rightarrow> admin_db \<Rightarrow> command_setting option" where
  "find_setting i c d = find (\<lambda>s. cst_PluginID s = i \<and> cst_CommandName s = c) (sto_settings d)"

definition upsert_setting ::
    "string \<Rightarrow> string \<Rightarrow> bool \<Rightarrow> (command_setting \<Rightarrow> command_setting) \<Rightarrow> admin_db \<Rightarrow> go_error + admin_db" where
  "upsert_setting i c enabled upd d =
     Inr (if find_setting i c d = None
          then d\<lparr>sto_settings := sto_settings d @ [upd (new_setting d i c enabled)], sto_nextSetting := sto_nextSetting d + 1\<rparr>
          else d\<lparr>sto_settings := map (\<lambda>s. if cst_PluginID s = i \<and> cst_CommandName s = c
                                         then (upd s)\<lparr>cst_UpdatedAt := sto_now d\<rparr> else s) (sto_settings d)\<rparr>)"

definition setting_what :: "string \<Rightarrow> string \<Rightarrow> string \<Rightarrow> string" where
  "setting_what what i c = what @ '' '' @ quote i @ ''/'' @ quote c @ '': ''"

definition SetCommandEnabled :: "string \<Rightarrow> string \<Rightarrow> bool \<Rightarrow> admin_db \<Rightarrow> admin_db \<times> go_error option" where
  "SetCommandEnabled i c enabled =
     db_exec (setting_what ''set command enabled'' i c) (upsert_setting i c enabled (\<lambda>s. s\<lparr>cst_Enabled := enabled\<rparr>))"

definition SetTriggerAccess :: "string \<Rightarrow> string \<Rightarrow> bool \<Rightarrow> bool \<Rightarrow> admin_db \<Rightarrow> admin_db \<times> go_error option" where
  "SetTriggerAccess i c userKeys serviceKeys =
     db_exec (setting_what ''set trigger access'' i c)
       (upsert_setting i c True (\<lambda>s. s\<lparr>cst_AllowUserKeys := userKeys, cst_AllowServiceKeys := serviceKeys\<rparr>))"

definition SetPolicyExpression :: "string \<Rightarrow> string \<Rightarrow> string \<Rightarrow> admin_db \<Rightarrow> admin_db \<times> go_error option" where
  "SetPolicyExpression i c expression =
     db_exec (setting_what ''set policy expression'' i c)
       (upsert_setting i c True (\<lambda>s. s\<lparr>cst_PolicyExpression := (if expression \<noteq> '''' then Some expression else None)\<rparr>))"

definition SetAllowedOrigins ::
    "url_parser \<Rightarrow> string \<Rightarrow> string \<Rightarrow> string list \<Rightarrow> admin_db \<Rightarrow> admin_db \<times> go_error option" where
  "SetAllowedOrigins parse i c origins d =
     (case CanonicalizeList parse origins of
        Inl err \<Rightarrow> (d, Some err)
      | Inr canonical \<Rightarrow>
          db_exec (setting_what ''set allowed origins'' i c)
            (upsert_setting i c True (\<lambda>s. s\<lparr>cst_AllowedOrigins := canonical\<rparr>)) d)"

definition SetPluginFrontendOrigins ::
    "url_parser \<Rightarrow> string \<Rightarrow> string list \<Rightarrow> admin_db \<Rightarrow> admin_db \<times> go_error option" where
  "SetPluginFrontendOrigins parse i origins d =
     (case CanonicalizeList parse origins of
        Inl err \<Rightarrow> (d, Some err)
      | Inr canonical \<Rightarrow>
          db_exec (''set plugin frontend origins '' @ quote i @ '': '')
            (\<lambda>d. let created = (case sto_origins d i of None \<Rightarrow> sto_now d | Some old \<Rightarrow> fo_CreatedAt old)
                 in Inr (d\<lparr>sto_origins := (sto_origins d)(i \<mapsto>
                      \<lparr>fo_PluginID = i, fo_AllowedOrigins = canonical, fo_CreatedAt = created, fo_UpdatedAt = sto_now d\<rparr>)\<rparr>)) d)"

definition read_setting :: "command_setting \<Rightarrow> command_setting" where
  "read_setting s = s\<lparr>cst_PolicyExpression := Some (case cst_PolicyExpression s of None \<Rightarrow> '''' | Some e \<Rightarrow> e)\<rparr>"

definition ListCommandSettings :: "string \<Rightarrow> admin_db \<Rightarrow> admin_db \<times> (go_error + command_setting list)" where
  "ListCommandSettings i =
     db_query (''list command settings for '' @ quote i @ '': '')
       (\<lambda>d. Inr (map read_setting (sort_key (\<lambda>s. map (of_char :: char \<Rightarrow> nat) (cst_CommandName s)) (filter (\<lambda>s. cst_PluginID s = i) (sto_settings d)))))"

definition GetCommandSetting :: "string \<Rightarrow> string \<Rightarrow> admin_db \<Rightarrow> admin_db \<times> (go_error + command_setting option)" where
  "GetCommandSetting i c =
     db_query (setting_what ''get command setting'' i c) (\<lambda>d. Inr (map_option read_setting (find_setting i c d)))"

definition GetPluginFrontendOrigins :: "string \<Rightarrow> admin_db \<Rightarrow> admin_db \<times> (go_error + frontend_origins option)" where
  "GetPluginFrontendOrigins i =
     db_query (''get plugin frontend origins '' @ quote i @ '': '') (\<lambda>d. Inr (sto_origins d i))"

text \<open>An expression that cannot be read is an empty one, without an error.\<close>

definition ignore_error :: "admin_db \<times> (go_error + string) \<Rightarrow> admin_db \<times> string" where
  "ignore_error dr = (case dr of (d, Inl _) \<Rightarrow> (d, '''') | (d, Inr e) \<Rightarrow> (d, e))"

definition GetPolicyExpression :: "string \<Rightarrow> string \<Rightarrow> admin_db \<Rightarrow> admin_db \<times> string" where
  "GetPolicyExpression i c d =
     ignore_error (db_query '''' (\<lambda>d. case find_setting i c d of
        None \<Rightarrow> Inl ErrNoRows | Some s \<Rightarrow> Inr (case cst_PolicyExpression s of None \<Rightarrow> '''' | Some e \<Rightarrow> e)) d)"

definition GetPluginPolicyExpression :: "string \<Rightarrow> admin_db \<Rightarrow> admin_db \<times> string" where
  "GetPluginPolicyExpression i d =
     ignore_error (db_query '''' (\<lambda>d. case sto_policies d i of None \<Rightarrow> Inl ErrNoRows | Some e \<Rightarrow> Inr e) d)"

definition SetPluginPolicyExpression :: "string \<Rightarrow> string \<Rightarrow> admin_db \<Rightarrow> admin_db \<times> go_error option" where
  "SetPluginPolicyExpression i expression =
     db_exec (''set plugin policy expression '' @ quote i @ '': '')
       (\<lambda>d. Inr (d\<lparr>sto_policies := (sto_policies d)(i \<mapsto> expression)\<rparr>))"

definition IsAllowedFrontendOrigin :: "url_parser \<Rightarrow> string \<Rightarrow> admin_db \<Rightarrow> admin_db \<times> (go_error + bool)" where
  "IsAllowedFrontendOrigin parse origin0 d =
     (case Canonicalize parse origin0 of
        Inl err \<Rightarrow> (d, Inl err)
      | Inr origin \<Rightarrow>
          db_query (''check allowed frontend origin '' @ quote origin @ '': '')
            (\<lambda>d. Inr ((\<exists>fo\<in>ran (sto_origins d). origin \<in> set (fo_AllowedOrigins fo)) \<or>
                      list_ex (\<lambda>s. origin \<in> set (cst_AllowedOrigins s)) (sto_settings d))) d)"

definition delete_settings :: "string \<Rightarrow> (string \<Rightarrow> bool) \<Rightarrow> admin_db \<Rightarrow> admin_db" where
  "delete_settings i names d =
     d\<lparr>sto_settings := filter (\<lambda>s. \<not> (cst_PluginID s = i \<and> names (cst_CommandName s))) (sto_settings d)\<rparr>"

definition DeleteCommandSettings :: "string \<Rightarrow> string list \<Rightarrow> admin_db \<Rightarrow> admin_db \<times> go_error option" where
  "DeleteCommandSettings i names d =
     (if length names = 0 then (d, None)
      else db_exec (''delete command settings for '' @ quote i @ '': '')
             (\<lambda>d. Inr (delete_settings i (\<lambda>c. c \<in> set names) d)) d)"

text \<open>
  One transaction: the state before it is restored when a call fails. The error of the commit is
  returned as it is.
\<close>

definition DeleteAllPluginCommandSettings :: "string \<Rightarrow> admin_db \<Rightarrow> admin_db \<times> go_error option" where
  "DeleteAllPluginCommandSettings i d =
     (case next_outcome d of
        (d1, Some err) \<Rightarrow> (d1, Some (Wrap (''begin delete all command settings for '' @ quote i @ '': '') err ''''))
      | (d1, None) \<Rightarrow>
          (case next_outcome d1 of
             (d2, Some err) \<Rightarrow> (d2, Some (Wrap (''delete all command settings for '' @ quote i @ '': '') err ''''))
           | (d2, None) \<Rightarrow>
               (case next_outcome d2 of
                  (d3, Some err) \<Rightarrow> (d3, Some (Wrap (''delete plugin frontend origins for '' @ quote i @ '': '') err ''''))
                | (d3, None) \<Rightarrow>
                    (case next_outcome d3 of
                       (d4, Some err) \<Rightarrow> (d4, Some err)
                     | (d4, None) \<Rightarrow>
                         ((delete_settings i (\<lambda>_. True) d4)\<lparr>sto_origins := (sto_origins d4)(i := None)\<rparr>, None)))))"

subsection \<open>Files (blob\_store\_localfs.go)\<close>

text \<open>\<^verbatim>\<open>filepath.Join\<close> of the base directory and a key.\<close>

definition blob_path :: "admin_db \<Rightarrow> string \<Rightarrow> string" where
  "blob_path d key =
     (if sto_base d = '''' then (if key = '''' then '''' else path_Clean key)
      else path_Clean (sto_base d @ (if key = '''' then '''' else ''/'' @ key)))"

definition blob_Put :: "string \<Rightarrow> string \<Rightarrow> admin_db \<Rightarrow> admin_db \<times> go_error option" where
  "blob_Put key data d =
     (let p = blob_path d key
      in case next_outcome d of
           (d1, Some err) \<Rightarrow> (d1, Some (Wrap (''create parent dir for '' @ quote key @ '': '') err ''''))
         | (d1, None) \<Rightarrow>
             (case next_outcome d1 of
                (d2, Some err) \<Rightarrow> (d2, Some (Wrap (''create blob file '' @ quote key @ '': '') err ''''))
              | (d2, None) \<Rightarrow>
                  (case next_outcome d2 of
                     (d3, Some err) \<Rightarrow>
                       (d3\<lparr>sto_files := (sto_files d3)(p := None)\<rparr>, Some (Wrap (''write blob '' @ quote key @ '': '') err ''''))
                   | (d3, None) \<Rightarrow> (d3\<lparr>sto_files := (sto_files d3)(p \<mapsto> data)\<rparr>, None))))"

text \<open>Opening a file and reading it to its end.\<close>

definition blob_Open :: "string \<Rightarrow> admin_db \<Rightarrow> admin_db \<times> (go_error + string)" where
  "blob_Open key =
     db_query (''open blob '' @ quote key @ '': '')
       (\<lambda>d. case sto_files d (blob_path d key) of
              None \<Rightarrow> Inl (Plain (''open '' @ blob_path d key @ '': no such file or directory'')) | Some data \<Rightarrow> Inr data)"

definition blob_Read :: "string \<Rightarrow> admin_db \<Rightarrow> admin_db \<times> (go_error + string)" where
  "blob_Read data d = (case next_outcome d of (d1, Some err) \<Rightarrow> (d1, Inl err) | (d1, None) \<Rightarrow> (d1, Inr data))"

definition blob_Delete :: "string \<Rightarrow> admin_db \<Rightarrow> admin_db \<times> go_error option" where
  "blob_Delete key =
     db_exec (''delete blob '' @ quote key @ '': '')
       (\<lambda>d. Inr (d\<lparr>sto_files := (sto_files d)(blob_path d key := None)\<rparr>))"

definition blob_Exists :: "string \<Rightarrow> admin_db \<Rightarrow> admin_db \<times> (go_error + bool)" where
  "blob_Exists key = db_query (''stat blob '' @ quote key @ '': '') (\<lambda>d. Inr (sto_files d (blob_path d key) \<noteq> None))"

subsection \<open>Frontends of plugins (plugin\_frontend\_assets.go)\<close>

record staged_frontend =
  sf_PluginID :: string
  sf_Entrypoint :: string
  sf_Assets :: "frontend_asset list"

record asset_env =
  ae_sha256 :: "string \<Rightarrow> string"
  ae_put_manifest :: "staged_frontend \<Rightarrow> string"
  ae_manifest :: "string \<Rightarrow> go_error + staged_frontend"

definition pluginFrontendManifestMaxSize :: nat where "pluginFrontendManifestMaxSize = 2 ^ 20"

definition pluginFrontendManifestKey :: "string \<Rightarrow> string" where
  "pluginFrontendManifestKey wasmKey = wasmKey @ ''.frontend.json''"

definition frontendAssetChecksum :: "asset_env \<Rightarrow> string \<Rightarrow> string" where
  "frontendAssetChecksum AE data = hex_encode (ae_sha256 AE data)"

definition frontendAssetReuseKey :: "string \<Rightarrow> string \<Rightarrow> string" where
  "frontendAssetReuseKey assetPath checksum = assetPath @ [CHR 0x00] @ checksum"

text \<open>Runes outside ASCII are several bytes, each of which becomes an underscore here.\<close>

definition safe_char :: "char \<Rightarrow> bool" where
  "safe_char c \<longleftrightarrow>
     (let n = (of_char c :: nat)
      in (97 \<le> n \<and> n \<le> 122) \<or> (65 \<le> n \<and> n \<le> 90) \<or> (48 \<le> n \<and> n \<le> 57) \<or> c = CHR ''-'' \<or> c = CHR ''_'' \<or> c = CHR ''.'')"

definition safeBlobPathSegment :: "string \<Rightarrow> string" where
  "safeBlobPathSegment value =
     (let b = map (\<lambda>c. if safe_char c then c else CHR ''_'') value in if b = '''' then ''plugin'' else b)"

fun delete_assets :: "frontend_asset list \<Rightarrow> admin_db \<Rightarrow> admin_db" where
  "delete_assets [] d = d"
| "delete_assets (a # as) d =
     delete_assets as (if fa_Key a = '''' then d else fst (blob_Delete (fa_Key a) d))"

definition deleteUnreferencedFrontendAssets :: "frontend_asset list \<Rightarrow> frontend_asset list \<Rightarrow> admin_db \<Rightarrow> admin_db" where
  "deleteUnreferencedFrontendAssets previous next d =
     (if length previous = 0 then d
      else let nextKeys = filter (\<lambda>k. k \<noteq> '''') (map fa_Key next)
           in delete_assets (filter (\<lambda>a. fa_Key a \<notin> set nextKeys) previous) d)"

text \<open>An asset with the same path and checksum is reused; a later one of the previous wins.\<close>

definition reusable_assets :: "frontend_asset list \<Rightarrow> (string \<times> frontend_asset) list" where
  "reusable_assets previous =
     rev (map (\<lambda>a. (frontendAssetReuseKey (fa_Path a) (fa_Checksum a), a))
            (filter (\<lambda>a. fa_Path a \<noteq> '''' \<and> fa_Checksum a \<noteq> '''' \<and> fa_Key a \<noteq> '''') previous))"

fun put_assets ::
    "asset_env \<Rightarrow> (string \<times> frontend_asset) list \<Rightarrow> string \<Rightarrow> frontend_file list \<Rightarrow> frontend_asset list \<Rightarrow> admin_db \<Rightarrow>
     admin_db \<times> (go_error + frontend_asset list)" where
  "put_assets AE reusable pre [] staged d = (d, Inr staged)"
| "put_assets AE reusable pre (f # fs) staged d =
     (let checksum = frontendAssetChecksum AE (pf_Data f)
      in case map_of reusable (frontendAssetReuseKey (pf_Path f) checksum) of
           Some a \<Rightarrow>
             put_assets AE reusable pre fs (staged @ [a\<lparr>fa_ContentType := pf_ContentType f, fa_Size := pf_Size f\<rparr>]) d
         | None \<Rightarrow>
             let assetKey = pre @ ''/'' @ pf_Path f
             in case blob_Put assetKey (pf_Data f) d of
                  (d1, Some err) \<Rightarrow>
                    (delete_assets staged d1, Inl (Wrap (''save frontend asset '' @ quote (pf_Path f) @ '': '') err ''''))
                | (d1, None) \<Rightarrow>
                    put_assets AE reusable pre fs
                      (staged @ [\<lparr>fa_Path = pf_Path f, fa_Key = assetKey, fa_ContentType = pf_ContentType f,
                                  fa_Checksum = checksum, fa_Size = pf_Size f\<rparr>]) d1)"

definition putPluginFrontendAssetsReusing ::
    "asset_env \<Rightarrow> string \<Rightarrow> frontend_file list \<Rightarrow> frontend_asset list \<Rightarrow> admin_db \<Rightarrow>
     admin_db \<times> (go_error + staged_frontend)" where
  "putPluginFrontendAssetsReusing AE pluginID files previous d =
     (let staged = \<lparr>sf_PluginID = pluginID, sf_Entrypoint = pluginFrontendEntrypoint, sf_Assets = []\<rparr>
      in if length files = 0 then (d, Inr staged)
         else case put_assets AE (reusable_assets previous)
                     (''plugin-frontends/'' @ safeBlobPathSegment pluginID @ ''/'' @ FormatInt (sto_now d)) files [] d of
                (d1, Inl err) \<Rightarrow> (d1, Inl err)
              | (d1, Inr assets) \<Rightarrow> (d1, Inr (staged\<lparr>sf_Assets := assets\<rparr>)))"

definition saveStagedPluginFrontendManifest ::
    "asset_env \<Rightarrow> string \<Rightarrow> staged_frontend \<Rightarrow> admin_db \<Rightarrow> admin_db \<times> go_error option" where
  "saveStagedPluginFrontendManifest AE wasmKey staged d =
     (case blob_Put (pluginFrontendManifestKey wasmKey) (ae_put_manifest AE staged) d of
        (d1, Some err) \<Rightarrow> (d1, Some (Wrap ''save frontend manifest: '' err ''''))
      | (d1, None) \<Rightarrow> (d1, None))"

definition valid_asset :: "frontend_asset \<Rightarrow> bool" where
  "valid_asset a \<longleftrightarrow>
     (case cleanFrontendAssetPath (fa_Path a) of
        None \<Rightarrow> False | Some cleanPath \<Rightarrow> cleanPath \<noteq> '''' \<and> cleanPath = fa_Path a \<and> fa_Key a \<noteq> '''')"

definition readStagedPluginFrontendManifest ::
    "asset_env \<Rightarrow> string \<Rightarrow> admin_db \<Rightarrow> admin_db \<times> (go_error + staged_frontend option)" where
  "readStagedPluginFrontendManifest AE wasmKey d =
     (let key = pluginFrontendManifestKey wasmKey
      in case wrap_result (''check frontend manifest '' @ quote key @ '': '') (blob_Exists key d) of
           (d1, Inl err) \<Rightarrow> (d1, Inl err)
         | (d1, Inr exists) \<Rightarrow>
             if \<not> exists then (d1, Inr None)
             else case wrap_result (''get frontend manifest '' @ quote key @ '': '') (blob_Open key d1) of
                    (d2, Inl err) \<Rightarrow> (d2, Inl err)
                  | (d2, Inr content) \<Rightarrow>
                      (case wrap_result (''read frontend manifest '' @ quote key @ '': '')
                              (blob_Read (take (pluginFrontendManifestMaxSize + 1) content) d2) of
                         (d3, Inl err) \<Rightarrow> (d3, Inl err)
                       | (d3, Inr raw) \<Rightarrow>
                           (d3,
                            if length raw > pluginFrontendManifestMaxSize
                            then Inl (Plain (''frontend manifest '' @ quote key @ '' is too large''))
                            else case ae_manifest AE raw of
                                   Inl err \<Rightarrow> Inl (Wrap (''decode frontend manifest '' @ quote key @ '': '') err '''')
                                 | Inr staged \<Rightarrow>
                                     let staged1 = (if sf_Entrypoint staged = ''''
                                                    then staged\<lparr>sf_Entrypoint := pluginFrontendEntrypoint\<rparr> else staged)
                                     in if list_all valid_asset (sf_Assets staged) then Inr (Some staged1)
                                        else Inl (Plain (''frontend manifest '' @ quote key @ '' contains invalid asset'')))))"

subsection \<open>Operations concern one plugin\<close>

text \<open>
  What is stored about plugins other than the given one: rows of all tables. The rows of plugins are
  keyed by their identifiers.
\<close>

definition keys_ok :: "admin_db \<Rightarrow> bool" where
  "keys_ok d \<longleftrightarrow> (\<forall>i rec. map_of (sto_plugins d) i = Some rec \<longrightarrow> prc_ID rec = i)"

definition stored :: "admin_db \<Rightarrow> string \<Rightarrow>
    plugin_record option \<times> plugin_metadata_record option \<times> frontend_record option \<times> version_record list \<times>
    command_setting list \<times> frontend_origins option \<times> string option" where
  "stored d j =
     (map_of (sto_plugins d) j, sto_metadata d j, sto_frontends d j, filter (\<lambda>v. vr_PluginID v = j) (sto_versions d),
      filter (\<lambda>s. cst_PluginID s = j) (sto_settings d), sto_origins d j, sto_policies d j)"

definition touches :: "string \<Rightarrow> admin_db \<Rightarrow> admin_db \<Rightarrow> bool" where
  "touches i d d' \<longleftrightarrow> (keys_ok d \<longrightarrow> keys_ok d') \<and> (\<forall>j. j \<noteq> i \<longrightarrow> stored d' j = stored d j)"

named_theorems touching

lemma touches_refl [touching, simp]: "touches i d d"
  by (simp add: touches_def)

lemma touches_trans: "touches i d d1 \<Longrightarrow> touches i d1 d2 \<Longrightarrow> touches i d d2"
  by (simp add: touches_def)

lemma touches_outcomes [simp]: "touches i d (d'\<lparr>sto_outcomes := os\<rparr>) = touches i d d'"
  by (simp add: touches_def keys_ok_def stored_def)

lemma touches_files [simp]: "touches i d (d'\<lparr>sto_files := fs\<rparr>) = touches i d d'"
  by (simp add: touches_def keys_ok_def stored_def)

lemma touches_fresh:
  "touches i d (d\<lparr>sto_outcomes := os, sto_plugins := p\<rparr>) = touches i d (d\<lparr>sto_plugins := p\<rparr>)"
  by (simp add: touches_def keys_ok_def stored_def)

lemma next_outcome_touches [touching, simp]: "touches i d (fst (next_outcome d))"
  by (auto simp: next_outcome_def split: list.split)

lemma next_outcome_eq: "next_outcome d = (d', out) \<Longrightarrow> \<exists>os. d' = d\<lparr>sto_outcomes := os\<rparr>"
proof -
  assume *: "next_outcome d = (d', out)"
  have "\<exists>os. d = d\<lparr>sto_outcomes := os\<rparr>" by (rule exI [of _ "sto_outcomes d"]) simp
  with * show ?thesis by (auto simp: next_outcome_def split: list.splits)
qed

lemma touches_next: "next_outcome d = (d', out) \<Longrightarrow> touches i d d'"
  using next_outcome_touches [of i d] by simp

lemma db_call_touches:
  assumes "\<And>d d' x. stmt d = Inr (d', x) \<Longrightarrow> touches i d d'"
  shows "touches i d (fst (db_call stmt d))"
proof -
  obtain d1 out where n: "next_outcome d = (d1, out)" by fastforce
  have d1: "touches i d d1" by (rule touches_next [OF n])
  show ?thesis
  proof (cases out)
    case None
    have "touches i d d2" if "stmt d1 = Inr (d2, x)" for d2 x using touches_trans [OF d1 assms [OF that]] .
    then show ?thesis using None d1 by (auto simp: db_call_def n split: sum.split)
  qed (simp add: db_call_def n d1)
qed

lemma fst_wrap_result [simp]: "fst (wrap_result what dr) = fst dr"
  by (auto simp: wrap_result_def split: prod.split sum.split)

lemma fst_as_error [simp]: "fst (as_error dr) = fst dr"
  by (auto simp: as_error_def split: prod.split sum.split)

lemma db_exec_touches:
  assumes "\<And>d d'. stmt d = Inr d' \<Longrightarrow> touches i d d'"
  shows "touches i d (fst (db_exec what stmt d))"
  unfolding db_exec_def by (simp, rule db_call_touches) (auto split: sum.splits intro: assms)

lemma db_query_touches [touching, simp]: "touches i d (fst (db_query what stmt d))"
  unfolding db_query_def by (simp, rule db_call_touches) (auto split: sum.splits)

lemma delete_or_missing_touches:
  assumes "\<And>d. touches i d (del d)"
  shows "touches i d (fst (delete_or_missing what missing present del d))"
proof -
  obtain d1 r where w: "wrap_result what (db_call (\<lambda>d. Inr (del d, present d)) d) = (d1, r)" by fastforce
  have "touches i d (fst (wrap_result what (db_call (\<lambda>d. Inr (del d, present d)) d)))"
    by (simp, rule db_call_touches) (auto simp: assms)
  then have "touches i d d1" unfolding w by simp
  then show ?thesis by (auto simp: delete_or_missing_def w split: sum.split)
qed

lemma keys_ok_update: "keys_ok d \<Longrightarrow> prc_ID rec = i \<Longrightarrow> keys_ok (d\<lparr>sto_plugins := AList.update i rec (sto_plugins d)\<rparr>)"
  by (simp add: keys_ok_def update_conv')

lemma SavePlugin_touches [touching]: "prc_ID rec = i \<Longrightarrow> touches i d (fst (SavePlugin rec d))"
  unfolding SavePlugin_def
  by (rule db_exec_touches)
    (auto simp: upsert_plugin_def touches_def stored_def Let_def update_conv' keys_ok_update split: sum.splits)

lemma GetPluginRecord_touches [touching, simp]: "touches i d (fst (GetPluginRecord j d))"
  by (simp add: GetPluginRecord_def)

lemma GetPluginRecord_key:
  assumes "GetPluginRecord i d = (d', Inr rec)" "keys_ok d"
  shows "prc_ID rec = i"
proof -
  obtain d1 out where n: "next_outcome d = (d1, out)" by fastforce
  obtain os where d1: "d1 = d\<lparr>sto_outcomes := os\<rparr>" using next_outcome_eq [OF n] by blast
  show ?thesis
    using assms n
    by (auto simp: GetPluginRecord_def db_query_def wrap_result_def db_call_def d1 keys_ok_def split: option.splits sum.splits)
qed

lemma map_of_delete_other: "j \<noteq> i \<Longrightarrow> map_of (AList.delete i xs) j = map_of xs j"
  by (simp add: delete_conv')

lemma filter_other:
  "j \<noteq> i \<Longrightarrow> filter (\<lambda>x. f x \<noteq> i \<and> f x = j) xs = filter (\<lambda>x. f x = j) xs"
  "j \<noteq> i \<Longrightarrow> filter (\<lambda>x. (f x = i \<longrightarrow> P x) \<and> f x = j) xs = filter (\<lambda>x. f x = j) xs"
  by (auto intro: filter_cong)

lemma delete_plugin_touches: "touches i d (delete_plugin i d)"
  by (auto simp: touches_def delete_plugin_def stored_def keys_ok_def delete_conv' filter_other)

lemma DeletePluginRecord_touches [touching]: "touches i d (fst (DeletePluginRecord i d))"
  unfolding DeletePluginRecord_def by (rule delete_or_missing_touches) (rule delete_plugin_touches)

lemma SavePluginMetadata_touches [touching]: "pmr_PluginID rec = i \<Longrightarrow> touches i d (fst (SavePluginMetadata rec d))"
  unfolding SavePluginMetadata_def
  by (rule db_exec_touches) (auto simp: upsert_metadata_def touches_def stored_def keys_ok_def split: sum.splits if_splits)

lemma GetPluginMetadata_touches [touching, simp]: "touches i d (fst (GetPluginMetadata j d))"
  by (simp add: GetPluginMetadata_def)

lemma DeletePluginMetadata_touches [touching]: "touches i d (fst (DeletePluginMetadata i d))"
  unfolding DeletePluginMetadata_def by (rule delete_or_missing_touches) (auto simp: touches_def stored_def keys_ok_def)

lemma SavePluginFrontend_touches [touching]: "fro_PluginID rec = i \<Longrightarrow> touches i d (fst (SavePluginFrontend rec d))"
  unfolding SavePluginFrontend_def
  by (rule db_exec_touches) (auto simp: upsert_frontend_def touches_def stored_def keys_ok_def Let_def split: if_splits)

lemma GetPluginFrontend_touches [touching, simp]: "touches i d (fst (GetPluginFrontend j d))"
  by (simp add: GetPluginFrontend_def)

lemma DeletePluginFrontend_touches [touching]: "touches i d (fst (DeletePluginFrontend i d))"
  unfolding DeletePluginFrontend_def by (rule db_exec_touches) (auto simp: touches_def stored_def keys_ok_def)

lemma SaveVersion_touches [touching]: "vr_PluginID rec = i \<Longrightarrow> touches i d (fst (SaveVersion rec d))"
  unfolding SaveVersion_def
  by (simp, rule db_call_touches)
    (auto simp: insert_version_def touches_def stored_def keys_ok_def split: sum.splits if_splits)

lemma ListVersions_touches [touching, simp]: "touches i d (fst (ListVersions_of j d))"
  by (simp add: ListVersions_of_def)

lemma GetVersionRecord_touches [touching, simp]: "touches i d (fst (GetVersionRecord v d))"
  by (simp add: GetVersionRecord_def)


lemma DeleteVersionsByPlugin_touches [touching]: "touches i d (fst (DeleteVersionsByPlugin i d))"
  unfolding DeleteVersionsByPlugin_def
  by (rule db_exec_touches) (auto simp: touches_def stored_def keys_ok_def filter_other)

lemma delete_settings_touches: "touches i d (delete_settings i names d)"
  by (auto simp: touches_def stored_def keys_ok_def delete_settings_def filter_other)

lemma DeleteCommandSettings_touches [touching]: "touches i d (fst (DeleteCommandSettings i names d))"
  by (auto simp: DeleteCommandSettings_def intro!: db_exec_touches delete_settings_touches)

lemma DeleteAllPluginCommandSettings_touches [touching]: "touches i d (fst (DeleteAllPluginCommandSettings i d))"
proof -
  have "touches i d ((delete_settings i names d)\<lparr>sto_origins := (sto_origins d)(i := None)\<rparr>)" for d names
    by (simp add: touches_def stored_def keys_ok_def delete_settings_def filter_other)
  note del = this
  obtain d1 o1 where n1: "next_outcome d = (d1, o1)" by fastforce
  obtain d2 o2 where n2: "next_outcome d1 = (d2, o2)" by fastforce
  obtain d3 o3 where n3: "next_outcome d2 = (d3, o3)" by fastforce
  obtain d4 o4 where n4: "next_outcome d3 = (d4, o4)" by fastforce
  have t1: "touches i d d1" by (rule touches_next [OF n1])
  have t2: "touches i d d2" by (rule touches_trans [OF t1 touches_next [OF n2]])
  have t3: "touches i d d3" by (rule touches_trans [OF t2 touches_next [OF n3]])
  have t4: "touches i d d4" by (rule touches_trans [OF t3 touches_next [OF n4]])
  show ?thesis
    unfolding DeleteAllPluginCommandSettings_def
    using t1 t2 t3 t4 touches_trans [OF t4 del] by (simp add: n1 n2 n3 n4 split: option.split)
qed

lemma blob_touches [touching, simp]:
  "touches i d (fst (blob_Put key data d))" "touches i d (fst (blob_Open key d))" "touches i d (fst (blob_Read data d))"
  "touches i d (fst (blob_Delete key d))" "touches i d (fst (blob_Exists key d))"
proof -
  show "touches i d (fst (blob_Put key data d))"
  proof -
    obtain d1 o1 where n1: "next_outcome d = (d1, o1)" by fastforce
    obtain d2 o2 where n2: "next_outcome d1 = (d2, o2)" by fastforce
    obtain d3 o3 where n3: "next_outcome d2 = (d3, o3)" by fastforce
    have t1: "touches i d d1" by (rule touches_next [OF n1])
    have t2: "touches i d d2" by (rule touches_trans [OF t1 touches_next [OF n2]])
    have t3: "touches i d d3" by (rule touches_trans [OF t2 touches_next [OF n3]])
    show ?thesis using t1 t2 t3 by (simp add: blob_Put_def Let_def n1 n2 n3 split: option.split)
  qed
  show "touches i d (fst (blob_Read data d))"
    by (auto simp: blob_Read_def split: prod.split option.split dest: touches_next [where i = i])
  show "touches i d (fst (blob_Delete key d))" unfolding blob_Delete_def by (rule db_exec_touches) auto
qed (simp_all add: blob_Open_def blob_Exists_def)

lemma delete_assets_touches [touching, simp]: "touches i d (delete_assets as d)"
proof (induction as d rule: delete_assets.induct)
  case (2 a as d)
  then show ?case using touches_trans [where i = i and d = d, OF blob_touches(4)] by (simp split: if_splits)
qed simp

lemma deleteUnreferenced_touches [touching, simp]: "touches i d (deleteUnreferencedFrontendAssets p n d)"
  by (simp add: deleteUnreferencedFrontendAssets_def Let_def)

lemma put_assets_touches [touching, simp]: "touches i d (fst (put_assets AE reusable pre fs staged d))"
proof (induction AE reusable pre fs staged d rule: put_assets.induct)
  case (2 AE reusable pre f fs staged d)
  obtain d1 e where b: "blob_Put (pre @ ''/'' @ pf_Path f) (pf_Data f) d = (d1, e)" by fastforce
  have d1: "touches i d d1"    using blob_touches(1) [of i d "pre @ ''/'' @ pf_Path f" "pf_Data f"] unfolding b by simp
  have rest: "touches i d (fst r)" if "touches i d1 (fst r)" for r :: "admin_db \<times> (go_error + frontend_asset list)"
    using touches_trans [OF d1 that] .
  have del: "touches i d (delete_assets staged d1)" by (rule touches_trans [OF d1 delete_assets_touches])
  show ?case
    using 2 b del by (cases e) (auto simp: Let_def intro!: rest split: option.split)
qed simp

lemma putPluginFrontendAssets_touches [touching, simp]: "touches i d (fst (putPluginFrontendAssetsReusing AE j fs p d))"
proof -
  have "fst (case x of (d1, Inl err) \<Rightarrow> (d1, Inl err) | (d1, Inr assets) \<Rightarrow> (d1, Inr (g assets))) = fst x"
    for x :: "admin_db \<times> (go_error + frontend_asset list)" and g :: "frontend_asset list \<Rightarrow> staged_frontend"
    by (auto split: prod.split sum.split)
  then show ?thesis by (simp add: putPluginFrontendAssetsReusing_def Let_def)
qed

lemma saveManifest_touches [touching, simp]: "touches i d (fst (saveStagedPluginFrontendManifest AE k st d))"
proof -
  have "fst (saveStagedPluginFrontendManifest AE k st d) = fst (blob_Put (pluginFrontendManifestKey k) (ae_put_manifest AE st) d)"
    by (auto simp: saveStagedPluginFrontendManifest_def split: prod.split option.split)
  then show ?thesis by simp
qed

lemma readManifest_touches [touching, simp]: "touches i d (fst (readStagedPluginFrontendManifest AE k d))"
proof -
  let ?key = "pluginFrontendManifestKey k"
  obtain d1 r1 where e: "blob_Exists ?key d = (d1, r1)" by fastforce
  obtain d2 r2 where o: "blob_Open ?key d1 = (d2, r2)" by fastforce
  have t1: "touches i d d1" and t2: "touches i d1 d2"
    using blob_touches(5) [of i d ?key] blob_touches(2) [of i d1 ?key] unfolding e o by simp_all
  have t3: "touches i d2 d3" if "blob_Read x d2 = (d3, r)" for x d3 r
    using blob_touches(3) [of i d2 x] unfolding that by simp
  show ?thesis
    unfolding readStagedPluginFrontendManifest_def
    using t1 touches_trans [OF t1 t2] touches_trans [OF touches_trans [OF t1 t2] t3]
    by (auto simp: e o Let_def wrap_result_def split: prod.split sum.split)
qed

subsection \<open>What a successful call did\<close>

text \<open>Calls use up outcomes; a query does nothing else, and neither does a statement that failed.\<close>

definition used_up :: "admin_db \<Rightarrow> admin_db \<Rightarrow> bool" where
  "used_up d d' \<longleftrightarrow> (\<exists>os. d' = d\<lparr>sto_outcomes := os\<rparr>)"

named_theorems db_ok

lemma used_up_refl: "used_up d d"
  unfolding used_up_def by (rule exI [of _ "sto_outcomes d"]) simp

lemma used_up_trans: "used_up d d1 \<Longrightarrow> used_up d1 d2 \<Longrightarrow> used_up d d2"
  by (auto simp: used_up_def)

lemma used_up_next: "next_outcome d = (d', out) \<Longrightarrow> used_up d d'"
  using next_outcome_eq unfolding used_up_def .

lemma used_up_frame:
  "used_up d d' \<Longrightarrow> sto_plugins d' = sto_plugins d \<and> sto_metadata d' = sto_metadata d \<and> sto_frontends d' = sto_frontends d \<and>
     sto_versions d' = sto_versions d \<and> sto_files d' = sto_files d \<and> sto_jsonb d' = sto_jsonb d \<and> sto_base d' = sto_base d \<and>
     sto_now d' = sto_now d \<and> sto_policies d' = sto_policies d \<and> sto_settings d' = sto_settings d \<and> blob_path d' = blob_path d"
  by (auto simp: used_up_def blob_path_def fun_eq_iff)

lemma db_call_cases:
  assumes "db_call stmt d = (d', r)"
  shows "\<exists>d1. used_up d d1 \<and> (case r of Inl _ \<Rightarrow> d' = d1 | Inr x \<Rightarrow> stmt d1 = Inr (d', x))"
proof -
  obtain d1 out where n: "next_outcome d = (d1, out)" by fastforce
  show ?thesis
    using assms used_up_next [OF n] by (auto simp: db_call_def n split: option.splits sum.splits intro!: exI [of _ d1])
qed

lemma db_query_cases:
  assumes "db_query what stmt d = (d', r)"
  shows "used_up d d' \<and> (case r of Inl _ \<Rightarrow> True | Inr x \<Rightarrow> stmt d' = Inr x)"
proof -
  obtain r0 where c: "db_call (\<lambda>d. case stmt d of Inl err \<Rightarrow> Inl err | Inr x \<Rightarrow> Inr (d, x)) d = (d', r0)"
    and r: "case r0 of Inl _ \<Rightarrow> \<exists>e. r = Inl e | Inr x \<Rightarrow> r = Inr x"
    using assms by (fastforce simp: db_query_def wrap_result_def split: prod.splits sum.splits)
  show ?thesis using db_call_cases [OF c] r by (auto split: sum.splits)
qed

lemma db_exec_cases:
  assumes "db_exec what stmt d = (d', out)"
  shows "\<exists>d1. used_up d d1 \<and> (case out of Some _ \<Rightarrow> d' = d1 | None \<Rightarrow> stmt d1 = Inr d')"
proof -
  obtain r0 where c: "db_call (\<lambda>d. case stmt d of Inl err \<Rightarrow> Inl err | Inr d' \<Rightarrow> Inr (d', ())) d = (d', r0)"
    and r: "case r0 of Inl _ \<Rightarrow> \<exists>e. out = Some e | Inr _ \<Rightarrow> out = None"
    using assms by (fastforce simp: db_exec_def as_error_def wrap_result_def split: prod.splits sum.splits)
  obtain d1 where "used_up d d1" "case r0 of Inl _ \<Rightarrow> d' = d1 | Inr x \<Rightarrow> (case stmt d1 of Inl err \<Rightarrow> Inl err | Inr d' \<Rightarrow> Inr (d', ())) = Inr (d', x)"
    using db_call_cases [OF c] by blast
  then show ?thesis using r by (intro exI [of _ d1]) (auto split: sum.splits)
qed

lemma GetPluginRecord_ok [db_ok]:
  "GetPluginRecord i d = (d', r) \<Longrightarrow> used_up d d' \<and> (case r of Inl _ \<Rightarrow> True | Inr rec \<Rightarrow> map_of (sto_plugins d) i = Some rec)"
  using db_query_cases [of _ _ d d' r] used_up_frame [of d d']
  by (fastforce simp: GetPluginRecord_def split: sum.splits option.splits)

lemma GetPluginMetadata_ok [db_ok]: "GetPluginMetadata i d = (d', r) \<Longrightarrow> used_up d d'"
  unfolding GetPluginMetadata_def by (drule db_query_cases) simp

lemma GetVersionRecord_ok [db_ok]:
  "GetVersionRecord v d = (d', r) \<Longrightarrow>
     used_up d d' \<and> (case r of Inl _ \<Rightarrow> True | Inr ver \<Rightarrow> find (\<lambda>x. vr_ID x = v) (sto_versions d) = Some ver)"
  using db_query_cases [of _ _ d d' r] used_up_frame [of d d']
  by (fastforce simp: GetVersionRecord_def split: sum.splits option.splits)

lemma blob_Open_ok [db_ok]:
  "blob_Open key d = (d', r) \<Longrightarrow>
     used_up d d' \<and> (case r of Inl _ \<Rightarrow> True | Inr b \<Rightarrow> sto_files d (blob_path d key) = Some b)"
  using db_query_cases [of _ _ d d' r] used_up_frame [of d d']
  by (fastforce simp: blob_Open_def split: sum.splits option.splits)

lemma blob_Read_ok [db_ok]:
  "blob_Read b d = (d', r) \<Longrightarrow> used_up d d' \<and> (case r of Inl _ \<Rightarrow> True | Inr b' \<Rightarrow> b' = b)"
  by (auto simp: blob_Read_def split: prod.splits option.splits dest: used_up_next)

lemma SavePlugin_ok [db_ok]:
  assumes "SavePlugin rec d = (d', out)"
  shows "case out of
      Some _ \<Rightarrow> used_up d d'
    | None \<Rightarrow> \<exists>d1 j installed. used_up d d1 \<and> sto_jsonb d (json_or_null (prc_ConfigJSON rec)) = Some j \<and>
        d' = d1\<lparr>sto_plugins := AList.update (prc_ID rec) (rec\<lparr>prc_ConfigJSON := j, prc_InstalledAt := installed\<rparr>) (sto_plugins d1)\<rparr>"
proof -
  obtain d1 where d1: "used_up d d1" "case out of Some _ \<Rightarrow> d' = d1 | None \<Rightarrow> upsert_plugin rec d1 = Inr d'"
    using db_exec_cases [OF assms [unfolded SavePlugin_def]] by blast
  show ?thesis
  proof (cases out)
    case None
    obtain j where j: "sto_jsonb d1 (json_or_null (prc_ConfigJSON rec)) = Some j"
      using d1(2) None by (auto simp: upsert_plugin_def to_jsonb_def split: option.splits)
    have "d' = d1\<lparr>sto_plugins := AList.update (prc_ID rec) (rec\<lparr>prc_ConfigJSON := j, prc_InstalledAt :=
        (case map_of (sto_plugins d1) (prc_ID rec) of None \<Rightarrow> prc_InstalledAt rec | Some old \<Rightarrow> prc_InstalledAt old)\<rparr>) (sto_plugins d1)\<rparr>"
      using d1(2) None by (simp add: upsert_plugin_def to_jsonb_def j Let_def)
    moreover have "sto_jsonb d (json_or_null (prc_ConfigJSON rec)) = Some j" using j used_up_frame [OF d1(1)] by simp
    ultimately show ?thesis unfolding None option.case using d1(1) by blast
  qed (use d1 in simp)
qed

lemma SavePluginMetadata_ok [db_ok]:
  assumes "SavePluginMetadata rec d = (d', out)"
  shows "case out of
      Some _ \<Rightarrow> used_up d d'
    | None \<Rightarrow> \<exists>d1 row. used_up d d1 \<and> d' = d1\<lparr>sto_metadata := (sto_metadata d1)(pmr_PluginID rec \<mapsto> row)\<rparr> \<and>
        pmr_Name row = pmr_Name rec \<and> pmr_Version row = pmr_Version rec"
  using db_exec_cases [OF assms [unfolded SavePluginMetadata_def]]
  by (fastforce simp: upsert_metadata_def split: option.splits sum.splits if_splits)

lemma DeletePluginRecord_ok [db_ok]:
  assumes "DeletePluginRecord i d = (d', None)"
  shows "\<exists>d1. used_up d d1 \<and> d' = delete_plugin i d1"
proof -
  obtain r0 where c: "db_call (\<lambda>d. Inr (delete_plugin i d, map_of (sto_plugins d) i \<noteq> None)) d = (d', Inr r0)"
    using assms
    by (fastforce simp: DeletePluginRecord_def delete_or_missing_def wrap_result_def split: prod.splits sum.splits if_splits)
  show ?thesis using db_call_cases [OF c] by auto
qed

end
