(* ===== verification/Plugin_Lifecycle.thy ===== *)
theory Plugin_Lifecycle
  imports Wasm_Adapter Plugin_Store Plugin_Registry Dialog_Manager
begin

text \<open>
  The life of a plugin in the administration (\<^verbatim>\<open>internal/admin/api/lifecycle_service.go\<close>, with
  \<^verbatim>\<open>startup.go\<close> and the handlers of uploads and versions): installing, enabling, disabling, updating,
  rolling back, configuring and deleting it, over the stores, the loader, the plugins of the bot, the
  registered commands and the events to the other instances.
\<close>

subsection \<open>State\<close>

text \<open>
  A plugin of the bot is a module, of which its metadata matter here and never change, or it is
  compiled in. The loader's plugins and the bot's share the module's configuration, which only the
  loader's copy holds.
\<close>

datatype managed = WasmManaged plugin_meta | NativeManaged plugin string

fun managed_ID :: "managed \<Rightarrow> string" where
  "managed_ID (WasmManaged meta) = pm_ID meta"
| "managed_ID (NativeManaged p v) = pl_ID p"

fun managed_Version :: "managed \<Rightarrow> string" where
  "managed_Version (WasmManaged meta) = pm_Version meta"
| "managed_Version (NativeManaged p v) = v"

definition messenger_names :: "plugin_meta \<Rightarrow> string list" where
  "messenger_names meta = map td_Name (filter (\<lambda>t. td_Type t = ''messenger'') (pm_Triggers meta))"

fun managed_CommandNames :: "managed \<Rightarrow> string list" where
  "managed_CommandNames (WasmManaged meta) = messenger_names meta"
| "managed_CommandNames (NativeManaged p v) = CommandNames p"

record lifecycle_result =
  lr_PluginID :: string
  lr_Name :: string
  lr_Version :: string
  lr_OldVersion :: string
  lr_NewVersion :: string
  lr_Status :: string

definition status_result :: "string \<Rightarrow> string \<Rightarrow> lifecycle_result" where
  "status_result i status =
     \<lparr>lr_PluginID = i, lr_Name = '''', lr_Version = '''', lr_OldVersion = '''', lr_NewVersion = '''', lr_Status = status\<rparr>"

text \<open>
  The service's dependencies: the loader's, the adapter's, assets, how metadata are encoded, and which
  of the optional ones are there.
\<close>

record ('w, 'm, 'p, 'c, 'x, 'r) lifecycle_env =
  lv_loader :: "('w, 'm, 'p, 'c, 'x, 'r) loader_env"
  lv_adapter :: "('w, 'm) adapter_env"
  lv_assets :: asset_env
  lv_meta_json :: "plugin_meta \<Rightarrow> string"
  lv_requirements_json :: "requirement_def list \<Rightarrow> string"
  lv_triggers_json :: "wasm_trigger list \<Rightarrow> string"
  lv_reconfigure :: bool
  lv_cmdStore :: bool
  lv_versions :: bool
  lv_frontends :: bool

record ('w, 'm, 'p, 'c, 'x, 'r, 's) lifecycle =
  lc_db :: admin_db
  lc_loader :: "('w, 'm, 'p, 'c, 'x, 'r) loader"
  lc_manager :: "(string \<times> managed) list"
  lc_state :: "'s manager option"
  lc_kv :: "kv_store option"
  lc_published :: "(string \<times> string) list option"
  lc_invalidated :: "(string \<times> string) list option"

type_synonym ('w, 'm, 'p, 'c, 'x, 'r, 's, 'a) lc_step =
  "('w, 'm, 'p, 'c, 'x, 'r, 's) lifecycle \<Rightarrow> ('w, 'm, 'p, 'c, 'x, 'r, 's) lifecycle \<times> 'a"

definition on_db :: "(admin_db \<Rightarrow> admin_db \<times> 'a) \<Rightarrow> ('w, 'm, 'p, 'c, 'x, 'r, 's, 'a) lc_step" where
  "on_db f s = (case f (lc_db s) of (d, x) \<Rightarrow> (s\<lparr>lc_db := d\<rparr>, x))"

definition on_loader ::
    "(('w, 'm, 'p, 'c, 'x, 'r) loader \<Rightarrow> ('w, 'm, 'p, 'c, 'x, 'r) loader \<times> 'a) \<Rightarrow> ('w, 'm, 'p, 'c, 'x, 'r, 's, 'a) lc_step" where
  "on_loader f s = (case f (lc_loader s) of (l, x) \<Rightarrow> (s\<lparr>lc_loader := l\<rparr>, x))"

subsection \<open>Helpers\<close>

definition hashWASM :: "('w, 'm, 'p, 'c, 'x, 'r) lifecycle_env \<Rightarrow> string \<Rightarrow> string" where
  "hashWASM V wasmBytes = hex_encode (we_sha256 (rt_engine (le_rt (lv_loader V))) wasmBytes)"

definition readBlob :: "string \<Rightarrow> admin_db \<Rightarrow> admin_db \<times> (go_error + string)" where
  "readBlob key d =
     (case wrap_result (''get blob '' @ quote key @ '': '') (blob_Open key d) of
        (d1, Inl err) \<Rightarrow> (d1, Inl err)
      | (d1, Inr content) \<Rightarrow> wrap_result (''read blob '' @ quote key @ '': '') (blob_Read content d1))"

definition metadataRecordFromMeta ::
    "('w, 'm, 'p, 'c, 'x, 'r) lifecycle_env \<Rightarrow> instant \<Rightarrow> plugin_meta \<Rightarrow> plugin_metadata_record" where
  "metadataRecordFromMeta V now meta =
     \<lparr>pmr_PluginID = pm_ID meta, pmr_Name = pm_Name meta, pmr_Version = pm_Version meta,
      pmr_SDKVersion = pm_SDKVersion meta, pmr_MetaJSON = lv_meta_json V meta, pmr_ConfigSchema = pm_ConfigSchema meta,
      pmr_Requirements = lv_requirements_json V (pm_Requirements meta),
      pmr_Triggers = lv_triggers_json V (pm_Triggers meta), pmr_UpdatedAt = now\<rparr>"

definition persistPluginState ::
    "plugin_record \<Rightarrow> plugin_metadata_record \<Rightarrow> admin_db \<Rightarrow> admin_db \<times> go_error option" where
  "persistPluginState record meta d =
     (case SavePlugin record d of
        (d1, Some err) \<Rightarrow> (d1, Some (Wrap ''save plugin record: '' err ''''))
      | (d1, None) \<Rightarrow>
          (case SavePluginMetadata meta d1 of
             (d2, Some err) \<Rightarrow> (d2, Some (Wrap ''save plugin metadata: '' err ''''))
           | (d2, None) \<Rightarrow> (d2, None)))"

definition saveVersionBestEffort ::
    "('w, 'm, 'p, 'c, 'x, 'r) lifecycle_env \<Rightarrow> version_record \<Rightarrow> admin_db \<Rightarrow> admin_db" where
  "saveVersionBestEffort V rec d = (if lv_versions V then fst (SaveVersion rec d) else d)"

definition lc_publish :: "string \<Rightarrow> string \<Rightarrow> ('w, 'm, 'p, 'c, 'x, 'r, 's) lifecycle \<Rightarrow> ('w, 'm, 'p, 'c, 'x, 'r, 's) lifecycle" where
  "lc_publish eventType pluginID s =
     (case lc_published s of
        None \<Rightarrow> s
      | Some log \<Rightarrow>
          (case next_outcome (lc_db s) of
             (d, Some err) \<Rightarrow> s\<lparr>lc_db := d\<rparr>
           | (d, None) \<Rightarrow> s\<lparr>lc_db := d, lc_published := Some (log @ [(eventType, pluginID)])\<rparr>))"

subsection \<open>Plugins of the bot and their commands\<close>

definition manager_Get :: "string \<Rightarrow> ('w, 'm, 'p, 'c, 'x, 'r, 's) lifecycle \<Rightarrow> managed option" where
  "manager_Get pluginID s = map_of (lc_manager s) pluginID"

definition manager_Register :: "managed \<Rightarrow> ('w, 'm, 'p, 'c, 'x, 'r, 's) lifecycle \<Rightarrow> ('w, 'm, 'p, 'c, 'x, 'r, 's) lifecycle" where
  "manager_Register p s = s\<lparr>lc_manager := AList.update (managed_ID p) p (lc_manager s)\<rparr>"

definition manager_Remove :: "string \<Rightarrow> ('w, 'm, 'p, 'c, 'x, 'r, 's) lifecycle \<Rightarrow> ('w, 'm, 'p, 'c, 'x, 'r, 's) lifecycle" where
  "manager_Remove pluginID s = s\<lparr>lc_manager := AList.delete pluginID (lc_manager s)\<rparr>"

definition registerPluginCommands ::
    "('w, 'm, 'p, 'c, 'x, 'r) lifecycle_env \<Rightarrow> 'm wasm_plugin \<Rightarrow> ('w, 'm, 'p, 'c, 'x, 'r, 's) lifecycle \<Rightarrow>
     ('w, 'm, 'p, 'c, 'x, 'r, 's) lifecycle" where
  "registerPluginCommands V wp s =
     s\<lparr>lc_state := map_option
         (fold (RegisterCommand (pm_ID (wp_meta wp))) (Wasm_Commands (lv_adapter V) wp (ld_world (lc_loader s)))) (lc_state s)\<rparr>"

definition unregisterPluginCommands ::
    "string \<Rightarrow> ('w, 'm, 'p, 'c, 'x, 'r, 's) lifecycle \<Rightarrow> ('w, 'm, 'p, 'c, 'x, 'r, 's) lifecycle" where
  "unregisterPluginCommands pluginID s =
     s\<lparr>lc_state := map_option
         (case manager_Get pluginID s of
            Some p \<Rightarrow> fold (UnregisterCommand pluginID) (managed_CommandNames p)
          | None \<Rightarrow> UnregisterAllCommands pluginID) (lc_state s)\<rparr>"

definition invalidatePluginPolicies ::
    "string \<Rightarrow> ('w, 'm, 'p, 'c, 'x, 'r, 's) lifecycle \<Rightarrow> ('w, 'm, 'p, 'c, 'x, 'r, 's) lifecycle" where
  "invalidatePluginPolicies pluginID s =
     s\<lparr>lc_invalidated := map_option
         (\<lambda>log. log @ (case manager_Get pluginID s of
                         None \<Rightarrow> [] | Some p \<Rightarrow> map (\<lambda>c. (pluginID, c)) (managed_CommandNames p))) (lc_invalidated s)\<rparr>"

definition collectConfigurableTriggers ::
    "string \<Rightarrow> ('w, 'm, 'p, 'c, 'x, 'r, 's) lifecycle \<Rightarrow> string list" where
  "collectConfigurableTriggers pluginID s =
     (case manager_Get pluginID s of
        None \<Rightarrow> []
      | Some (WasmManaged meta) \<Rightarrow> remdups (map td_Name (filter (\<lambda>t. td_Type t \<noteq> ''cron'') (pm_Triggers meta)))
      | Some (NativeManaged p v) \<Rightarrow> remdups (CommandNames p))"

definition syncPluginAfterReload ::
    "('w, 'm, 'p, 'c, 'x, 'r) lifecycle_env \<Rightarrow> string \<Rightarrow> string list \<Rightarrow> 'm wasm_plugin \<Rightarrow>
     ('w, 'm, 'p, 'c, 'x, 'r, 's) lifecycle \<Rightarrow> ('w, 'm, 'p, 'c, 'x, 'r, 's) lifecycle" where
  "syncPluginAfterReload V pluginID oldTriggers next s =
     (let s1 = registerPluginCommands V next (manager_Register (WasmManaged (wp_meta next)) (manager_Remove pluginID s));
          newTriggers = collectConfigurableTriggers pluginID s1;
          removed = filter (\<lambda>name. name \<notin> set newTriggers) oldTriggers;
          s2 = s1\<lparr>lc_state := map_option (fold (UnregisterCommand pluginID) removed) (lc_state s1)\<rparr>
      in if lv_cmdStore V \<and> length removed > 0 then fst (on_db (DeleteCommandSettings pluginID removed) s2) else s2)"

definition currentVersion :: "string \<Rightarrow> ('w, 'm, 'p, 'c, 'x, 'r, 's, string) lc_step" where
  "currentVersion pluginID s =
     (case manager_Get pluginID s of
        Some p \<Rightarrow> (s, managed_Version p)
      | None \<Rightarrow>
          (case on_db (GetPluginMetadata pluginID) s of
             (s1, Inr meta) \<Rightarrow> (s1, pmr_Version meta) | (s1, Inl _) \<Rightarrow> (s1, '''')))"

subsection \<open>Loading\<close>

definition lc_unload ::
    "('w, 'm, 'p, 'c, 'x, 'r) lifecycle_env \<Rightarrow> string \<Rightarrow> ('w, 'm, 'p, 'c, 'x, 'r, 's) lifecycle \<Rightarrow>
     ('w, 'm, 'p, 'c, 'x, 'r, 's) lifecycle" where
  "lc_unload V pluginID s = fst (on_loader (UnloadPlugin (lv_loader V) pluginID) s)"

text \<open>A plugin under another identifier than the wanted one is unloaded, whoever loaded it.\<close>

definition ensurePluginID ::
    "('w, 'm, 'p, 'c, 'x, 'r) lifecycle_env \<Rightarrow> string \<Rightarrow> string \<Rightarrow> ('w, 'm, 'p, 'c, 'x, 'r, 's, go_error option) lc_step" where
  "ensurePluginID V wantID gotID s =
     (if gotID = wantID then (s, None)
      else (if gotID \<noteq> '''' then lc_unload V gotID s else s,
            Some (Plain (''plugin ID mismatch: expected '' @ quote wantID @ '', got '' @ quote gotID))))"

definition loadPluginBytes ::
    "('w, 'm, 'p, 'c, 'x, 'r) lifecycle_env \<Rightarrow> string \<Rightarrow> string \<Rightarrow> string \<Rightarrow>
     ('w, 'm, 'p, 'c, 'x, 'r, 's, go_error + 'm wasm_plugin) lc_step" where
  "loadPluginBytes V pluginID wasmBytes config s =
     (case on_loader (LoadPluginFromBytes (lv_loader V) wasmBytes config) s of
        (s1, Inl err) \<Rightarrow> (s1, Inl (Wrap ''load plugin: '' err ''''))
      | (s1, Inr wp) \<Rightarrow>
          (case ensurePluginID V pluginID (pm_ID (wp_meta wp)) s1 of
             (s2, Some err) \<Rightarrow> (s2, Inl err)
           | (s2, None) \<Rightarrow> (s2, Inr wp)))"

definition reloadOrProbePlugin ::
    "('w, 'm, 'p, 'c, 'x, 'r) lifecycle_env \<Rightarrow> string \<Rightarrow> bool \<Rightarrow> string \<Rightarrow> string \<Rightarrow> string list \<Rightarrow>
     ('w, 'm, 'p, 'c, 'x, 'r, 's, go_error + plugin_meta) lc_step" where
  "reloadOrProbePlugin V pluginID enabled wasmBytes config oldTriggers s =
     (if enabled
      then (case on_loader (ReloadPluginFromBytes (lv_loader V) pluginID wasmBytes config) s of
              (s1, Some err) \<Rightarrow> (s1, Inl (Wrap ''reload plugin: '' err ''''))
            | (s1, None) \<Rightarrow>
                (case GetPlugin (lc_loader s1) pluginID of
                   None \<Rightarrow> (s1, Inl (Plain (''plugin '' @ quote pluginID @ '' missing after reload'')))
                 | Some wp \<Rightarrow> (syncPluginAfterReload V pluginID oldTriggers wp s1, Inr (wp_meta wp))))
      else (case on_loader (ProbeMetadataFromBytes (lv_loader V) wasmBytes) s of
              (s1, Inl err) \<Rightarrow> (s1, Inl (Wrap ''probe plugin metadata: '' err ''''))
            | (s1, Inr meta) \<Rightarrow>
                (case ensurePluginID V pluginID (pm_ID meta) s1 of
                   (s2, Some err) \<Rightarrow> (s2, Inl err)
                 | (s2, None) \<Rightarrow>
                     (s2, case ValidateConfigAgainstSchema (le_schema (lv_loader V)) (pm_ConfigSchema meta) config of
                            Some err \<Rightarrow> Inl err | None \<Rightarrow> Inr meta))))"

text \<open>
  Rolling back to the record's blob; the whole attempt is abandoned at the first error.
\<close>

definition rollbackRuntimeIfNeeded ::
    "('w, 'm, 'p, 'c, 'x, 'r) lifecycle_env \<Rightarrow> plugin_record \<Rightarrow> bool \<Rightarrow> string list \<Rightarrow>
     ('w, 'm, 'p, 'c, 'x, 'r, 's) lifecycle \<Rightarrow> ('w, 'm, 'p, 'c, 'x, 'r, 's) lifecycle" where
  "rollbackRuntimeIfNeeded V record enabled oldTriggers s =
     (if \<not> enabled then s
      else case on_db (readBlob (prc_WasmKey record)) s of
             (s1, Inl err) \<Rightarrow> s1
           | (s1, Inr wasmBytes) \<Rightarrow>
               (case on_loader (ReloadPluginFromBytes (lv_loader V) (prc_ID record) wasmBytes (prc_ConfigJSON record)) s1 of
                  (s2, Some err) \<Rightarrow> s2
                | (s2, None) \<Rightarrow>
                    (case GetPlugin (lc_loader s2) (prc_ID record) of
                       None \<Rightarrow> s2
                     | Some wp \<Rightarrow> syncPluginAfterReload V (prc_ID record) oldTriggers wp s2)))"

subsection \<open>Frontends\<close>

definition replacePluginFrontend ::
    "('w, 'm, 'p, 'c, 'x, 'r) lifecycle_env \<Rightarrow> string \<Rightarrow> staged_frontend \<Rightarrow> admin_db \<Rightarrow> admin_db \<times> go_error option" where
  "replacePluginFrontend V pluginID staged d =
     (if \<not> lv_frontends V then (d, Some (Plain ''plugin frontend store is not configured''))
      else case GetPluginFrontend pluginID d of
             (d1, previous) \<Rightarrow>
               let previousAssets = (case previous of Inr rec \<Rightarrow> fro_Assets rec | Inl _ \<Rightarrow> []);
                   record = \<lparr>fro_PluginID = pluginID,
                             fro_Entrypoint = (if sf_Entrypoint staged = '''' then pluginFrontendEntrypoint else sf_Entrypoint staged),
                             fro_Assets = sf_Assets staged, fro_CreatedAt = 0, fro_UpdatedAt = 0\<rparr>
               in case SavePluginFrontend record d1 of
                    (d2, Some err) \<Rightarrow> (d2, Some err)
                  | (d2, None) \<Rightarrow> (deleteUnreferencedFrontendAssets previousAssets (fro_Assets record) d2, None))"

definition installStagedFrontend ::
    "('w, 'm, 'p, 'c, 'x, 'r) lifecycle_env \<Rightarrow> string \<Rightarrow> string \<Rightarrow> admin_db \<Rightarrow> admin_db \<times> go_error option" where
  "installStagedFrontend V pluginID wasmKey d =
     (case readStagedPluginFrontendManifest (lv_assets V) wasmKey d of
        (d1, Inl err) \<Rightarrow> (d1, Some err)
      | (d1, Inr None) \<Rightarrow> (d1, None)
      | (d1, Inr (Some staged)) \<Rightarrow>
          if sf_PluginID staged \<noteq> '''' \<and> sf_PluginID staged \<noteq> pluginID
          then (d1, Some (Plain (''frontend plugin ID mismatch: expected '' @ quote pluginID @ '', got '' @ quote (sf_PluginID staged))))
          else (case replacePluginFrontend V pluginID staged d1 of
                  (d2, Some err) \<Rightarrow> (d2, Some err)
                | (d2, None) \<Rightarrow> (fst (blob_Delete (pluginFrontendManifestKey wasmKey) d2), None)))"

definition currentPluginFrontendAssets ::
    "('w, 'm, 'p, 'c, 'x, 'r) lifecycle_env \<Rightarrow> string \<Rightarrow> admin_db \<Rightarrow> admin_db \<times> frontend_asset list" where
  "currentPluginFrontendAssets V pluginID d =
     (if \<not> lv_frontends V then (d, [])
      else case GetPluginFrontend pluginID d of (d1, Inl _) \<Rightarrow> (d1, []) | (d1, Inr rec) \<Rightarrow> (d1, fro_Assets rec))"

definition deletePluginFrontend_of ::
    "('w, 'm, 'p, 'c, 'x, 'r) lifecycle_env \<Rightarrow> string \<Rightarrow> admin_db \<Rightarrow> admin_db" where
  "deletePluginFrontend_of V pluginID d =
     (if \<not> lv_frontends V then d
      else case GetPluginFrontend pluginID d of
             (d1, r) \<Rightarrow> fst (DeletePluginFrontend pluginID (case r of Inr rec \<Rightarrow> delete_assets (fro_Assets rec) d1 | Inl _ \<Rightarrow> d1)))"

subsection \<open>Operations\<close>

definition ValidateConfig ::
    "('w, 'm, 'p, 'c, 'x, 'r) lifecycle_env \<Rightarrow> string \<Rightarrow> string \<Rightarrow> ('w, 'm, 'p, 'c, 'x, 'r, 's, go_error option) lc_step" where
  "ValidateConfig V pluginID config s =
     (case GetPlugin (lc_loader s) pluginID of
        Some wp \<Rightarrow> (s, ValidateConfigAgainstSchema (le_schema (lv_loader V)) (pm_ConfigSchema (wp_meta wp)) config)
      | None \<Rightarrow>
          (case on_db (GetPluginMetadata pluginID) s of
             (s1, Inl err) \<Rightarrow> (s1, Some (Wrap (''plugin '' @ quote pluginID @ '' metadata not found: '') err ''''))
           | (s1, Inr meta) \<Rightarrow>
               (s1, ValidateConfigAgainstSchema (le_schema (lv_loader V)) (pmr_ConfigSchema meta) config)))"

text \<open>Installing undoes its own steps when storing fails; the errors of the undoing are ignored.\<close>

definition undo_install ::
    "('w, 'm, 'p, 'c, 'x, 'r) lifecycle_env \<Rightarrow> string \<Rightarrow> ('w, 'm, 'p, 'c, 'x, 'r, 's) lifecycle \<Rightarrow>
     ('w, 'm, 'p, 'c, 'x, 'r, 's) lifecycle" where
  "undo_install V i s =
     lc_unload V i (fst (on_db (DeletePluginMetadata i) (fst (on_db (DeletePluginRecord i) s))))"

definition Install ::
    "('w, 'm, 'p, 'c, 'x, 'r) lifecycle_env \<Rightarrow> string \<Rightarrow> string \<Rightarrow> string \<Rightarrow>
     ('w, 'm, 'p, 'c, 'x, 'r, 's, go_error + lifecycle_result) lc_step" where
  "Install V pluginID wasmKey config s =
     (case on_db (GetPluginRecord pluginID) s of
        (s1, Inr _) \<Rightarrow> (s1, Inl (Plain (''plugin '' @ quote pluginID @ '' already installed'')))
      | (s1, Inl _) \<Rightarrow>
     (case on_db (readBlob wasmKey) s1 of
        (s2, Inl err) \<Rightarrow> (s2, Inl err)
      | (s2, Inr wasmBytes) \<Rightarrow>
     (case loadPluginBytes V pluginID wasmBytes config s2 of
        (s3, Inl err) \<Rightarrow> (s3, Inl err)
      | (s3, Inr wp) \<Rightarrow>
          let i = pm_ID (wp_meta wp);
              now = sto_now (lc_db s3);
              record = \<lparr>prc_ID = i, prc_WasmKey = wasmKey, prc_ConfigJSON = config, prc_Enabled = True,
                        prc_WasmHash = hashWASM V wasmBytes, prc_InstalledAt = now, prc_UpdatedAt = now\<rparr>
          in case on_db (persistPluginState record (metadataRecordFromMeta V now (wp_meta wp))) s3 of
               (s4, Some err) \<Rightarrow> (undo_install V i s4, Inl err)
             | (s4, None) \<Rightarrow>
          (case on_db (installStagedFrontend V i wasmKey) s4 of
               (s5, Some err) \<Rightarrow> (undo_install V i s5, Inl err)
             | (s5, None) \<Rightarrow>
                 let s6 = registerPluginCommands V wp (manager_Register (WasmManaged (wp_meta wp)) s5);
                     ver = \<lparr>vr_ID = 0, vr_PluginID = i, vr_Version = pm_Version (wp_meta wp), vr_WasmKey = wasmKey,
                            vr_WasmHash = prc_WasmHash record, vr_ConfigJSON = config, vr_Changelog = ''initial install'',
                            vr_CreatedAt = 0\<rparr>;
                     s7 = s6\<lparr>lc_db := saveVersionBestEffort V ver (lc_db s6)\<rparr>
                 in (lc_publish ''plugin_installed'' i s7,
                     Inr ((status_result i ''installed'')\<lparr>lr_Name := pm_Name (wp_meta wp), lr_Version := pm_Version (wp_meta wp)\<rparr>))))))"

definition Enable ::
    "('w, 'm, 'p, 'c, 'x, 'r) lifecycle_env \<Rightarrow> string \<Rightarrow> ('w, 'm, 'p, 'c, 'x, 'r, 's, go_error + lifecycle_result) lc_step" where
  "Enable V pluginID s =
     (case on_db (GetPluginRecord pluginID) s of
        (s1, Inl err) \<Rightarrow> (s1, Inl err)
      | (s1, Inr record) \<Rightarrow>
     (if prc_Enabled record then (s1, Inr (status_result pluginID ''already_enabled''))
      else case on_db (readBlob (prc_WasmKey record)) s1 of
        (s2, Inl err) \<Rightarrow> (s2, Inl err)
      | (s2, Inr wasmBytes) \<Rightarrow>
     (case loadPluginBytes V pluginID wasmBytes (prc_ConfigJSON record) s2 of
        (s3, Inl err) \<Rightarrow> (s3, Inl err)
      | (s3, Inr wp) \<Rightarrow>
          let now = sto_now (lc_db s3)
          in case on_db (persistPluginState (record\<lparr>prc_Enabled := True, prc_UpdatedAt := now\<rparr>)
                           (metadataRecordFromMeta V now (wp_meta wp))) s3 of
               (s4, Some err) \<Rightarrow> (lc_unload V (pm_ID (wp_meta wp)) s4, Inl err)
             | (s4, None) \<Rightarrow>
                 (lc_publish ''plugin_enabled'' pluginID
                    (registerPluginCommands V wp (manager_Register (WasmManaged (wp_meta wp)) s4)),
                  Inr ((status_result pluginID ''enabled'')\<lparr>lr_Name := pm_Name (wp_meta wp), lr_Version := pm_Version (wp_meta wp)\<rparr>)))))"

definition Disable ::
    "('w, 'm, 'p, 'c, 'x, 'r) lifecycle_env \<Rightarrow> string \<Rightarrow> ('w, 'm, 'p, 'c, 'x, 'r, 's, go_error + lifecycle_result) lc_step" where
  "Disable V pluginID s =
     (case on_db (GetPluginRecord pluginID) s of
        (s1, Inl err) \<Rightarrow> (s1, Inl err)
      | (s1, Inr record) \<Rightarrow>
          if \<not> prc_Enabled record then (s1, Inr (status_result pluginID ''already_disabled''))
          else case on_db (SavePlugin (record\<lparr>prc_Enabled := False, prc_UpdatedAt := sto_now (lc_db s1)\<rparr>)) s1 of
                 (s2, Some err) \<Rightarrow> (s2, Inl (Wrap ''update plugin record: '' err ''''))
               | (s2, None) \<Rightarrow>
                   (lc_publish ''plugin_disabled'' pluginID
                      (manager_Remove pluginID
                        (lc_unload V pluginID (unregisterPluginCommands pluginID (invalidatePluginPolicies pluginID s2)))),
                    Inr (status_result pluginID ''disabled'')))"

definition cleanupVersionBlobs ::
    "('w, 'm, 'p, 'c, 'x, 'r) lifecycle_env \<Rightarrow> string \<Rightarrow> string \<Rightarrow> admin_db \<Rightarrow> admin_db" where
  "cleanupVersionBlobs V pluginID activeWasmKey d =
     (if \<not> lv_versions V then d
      else case ListVersions_of pluginID d of
             (d1, Inl _) \<Rightarrow> d1
           | (d1, Inr vs) \<Rightarrow>
               fold (\<lambda>v d. if vr_WasmKey v = '''' \<or> vr_WasmKey v = activeWasmKey then d else fst (blob_Delete (vr_WasmKey v) d)) vs d1)"

text \<open>
  A disabled plugin is loaded once more, so that its data can be dropped; whether it must be unloaded
  is part of the result.
\<close>

definition load_for_cleanup ::
    "('w, 'm, 'p, 'c, 'x, 'r) lifecycle_env \<Rightarrow> plugin_record \<Rightarrow> ('w, 'm, 'p, 'c, 'x, 'r, 's, bool) lc_step" where
  "load_for_cleanup V record s =
     (if prc_Enabled record then (s, True)
      else if prc_WasmKey record = '''' then (s, False)
      else case on_db (readBlob (prc_WasmKey record)) s of
             (s1, Inl _) \<Rightarrow> (s1, False)
           | (s1, Inr wasmBytes) \<Rightarrow>
               (case on_loader (LoadPluginFromBytes (lv_loader V) wasmBytes (prc_ConfigJSON record)) s1 of
                  (s2, Inl _) \<Rightarrow> (s2, False) | (s2, Inr _) \<Rightarrow> (s2, True)))"

definition delete_files ::
    "('w, 'm, 'p, 'c, 'x, 'r) lifecycle_env \<Rightarrow> string \<Rightarrow> string \<Rightarrow> admin_db \<Rightarrow> admin_db" where
  "delete_files V pluginID wasmKey d =
     (let d1 = cleanupVersionBlobs V pluginID wasmKey d;
          d2 = (if wasmKey \<noteq> '''' then fst (blob_Delete (pluginFrontendManifestKey wasmKey) (fst (blob_Delete wasmKey d1))) else d1);
          d3 = deletePluginFrontend_of V pluginID d2
      in if lv_cmdStore V then fst (DeleteAllPluginCommandSettings pluginID d3) else d3)"

definition Delete ::
    "('w, 'm, 'p, 'c, 'x, 'r) lifecycle_env \<Rightarrow> string \<Rightarrow> ('w, 'm, 'p, 'c, 'x, 'r, 's, go_error + lifecycle_result) lc_step" where
  "Delete V pluginID s =
     (case on_db (GetPluginRecord pluginID) s of
        (s1, Inl err) \<Rightarrow> (s1, Inl err)
      | (s1, Inr record) \<Rightarrow>
          (case load_for_cleanup V record (unregisterPluginCommands pluginID (invalidatePluginPolicies pluginID s1)) of
             (s2, mustUnload) \<Rightarrow>
               let s3 = fst (on_loader (DropPluginData (lv_loader V) pluginID) s2);
                   s4 = s3\<lparr>lc_kv := map_option (DropPlugin pluginID) (lc_kv s3)\<rparr>;
                   s5 = manager_Remove pluginID (if mustUnload then lc_unload V pluginID s4 else s4);
                   s6 = s5\<lparr>lc_db := delete_files V pluginID (prc_WasmKey record) (lc_db s5)\<rparr>
               in case on_db (DeletePluginRecord pluginID) s6 of
                    (s7, Some err) \<Rightarrow> (s7, Inl (Wrap ''delete plugin record: '' err ''''))
                  | (s7, None) \<Rightarrow>
                      let s8 = fst (on_db (DeletePluginMetadata pluginID) s7);
                          s9 = (if lv_versions V then fst (on_db (DeleteVersionsByPlugin pluginID) s8) else s8)
                      in (lc_publish ''plugin_uninstalled'' pluginID s9, Inr (status_result pluginID ''deleted''))))"

text \<open>The key of an update has the seconds of the clock.\<close>

definition update_key :: "string \<Rightarrow> instant \<Rightarrow> string" where
  "update_key pluginID now = pluginID @ ''_update_'' @ FormatInt (now div Second) @ ''.wasm''"

definition stage_frontend ::
    "('w, 'm, 'p, 'c, 'x, 'r) lifecycle_env \<Rightarrow> string \<Rightarrow> frontend_file list \<Rightarrow> admin_db \<Rightarrow>
     admin_db \<times> (go_error + staged_frontend)" where
  "stage_frontend V pluginID files d =
     (if length files > 0
      then (case currentPluginFrontendAssets V pluginID d of
              (d1, previous) \<Rightarrow> putPluginFrontendAssetsReusing (lv_assets V) pluginID files previous d1)
      else (d, Inr \<lparr>sf_PluginID = '''', sf_Entrypoint = '''', sf_Assets = []\<rparr>))"

text \<open>An update that fails deletes the blob and the assets that it has stored.\<close>

definition discard_update ::
    "string \<Rightarrow> staged_frontend \<Rightarrow> ('w, 'm, 'p, 'c, 'x, 'r, 's) lifecycle \<Rightarrow> ('w, 'm, 'p, 'c, 'x, 'r, 's) lifecycle" where
  "discard_update newKey staged s =
     s\<lparr>lc_db := delete_assets (sf_Assets staged) (fst (blob_Delete newKey (lc_db s)))\<rparr>"

definition finish_update ::
    "('w, 'm, 'p, 'c, 'x, 'r) lifecycle_env \<Rightarrow> string \<Rightarrow> plugin_record \<Rightarrow> string \<Rightarrow> string \<Rightarrow> string \<Rightarrow> plugin_meta \<Rightarrow>
     ('w, 'm, 'p, 'c, 'x, 'r, 's, go_error + lifecycle_result) lc_step" where
  "finish_update V i record changelog newKey oldVersion meta s =
     (let ver = \<lparr>vr_ID = 0, vr_PluginID = i, vr_Version = pm_Version meta, vr_WasmKey = newKey,
                 vr_WasmHash = prc_WasmHash record, vr_ConfigJSON = prc_ConfigJSON record, vr_Changelog = changelog, vr_CreatedAt = 0\<rparr>
      in (lc_publish ''plugin_updated'' i (s\<lparr>lc_db := saveVersionBestEffort V ver (lc_db s)\<rparr>),
          Inr \<lparr>lr_PluginID = i, lr_Name = '''', lr_Version = pm_Version meta, lr_OldVersion = oldVersion,
               lr_NewVersion = pm_Version meta, lr_Status = ''updated''\<rparr>))"

definition UpdateWithFrontend ::
    "('w, 'm, 'p, 'c, 'x, 'r) lifecycle_env \<Rightarrow> string \<Rightarrow> string \<Rightarrow> frontend_file list \<Rightarrow> string \<Rightarrow>
     ('w, 'm, 'p, 'c, 'x, 'r, 's, go_error + lifecycle_result) lc_step" where
  "UpdateWithFrontend V pluginID wasmBytes files changelog s =
     (case on_db (GetPluginRecord pluginID) s of
        (s1, Inl err) \<Rightarrow> (s1, Inl err)
      | (s1, Inr oldRecord) \<Rightarrow>
     (let newKey = update_key pluginID (sto_now (lc_db s1))
      in case on_db (blob_Put newKey wasmBytes) s1 of
        (s2, Some err) \<Rightarrow> (s2, Inl (Wrap ''save wasm blob: '' err ''''))
      | (s2, None) \<Rightarrow>
     (case on_db (stage_frontend V pluginID files) s2 of
        (s3, Inl err) \<Rightarrow> (fst (on_db (blob_Delete newKey) s3), Inl err)
      | (s3, Inr staged) \<Rightarrow>
     (let oldTriggers = collectConfigurableTriggers pluginID s3
      in case currentVersion pluginID s3 of (s4, oldVersion) \<Rightarrow>
     (case reloadOrProbePlugin V pluginID (prc_Enabled oldRecord) wasmBytes (prc_ConfigJSON oldRecord) oldTriggers s4 of
        (s5, Inl err) \<Rightarrow> (discard_update newKey staged s5, Inl err)
      | (s5, Inr meta) \<Rightarrow>
     (let now = sto_now (lc_db s5);
          record = oldRecord\<lparr>prc_WasmKey := newKey, prc_WasmHash := hashWASM V wasmBytes, prc_UpdatedAt := now\<rparr>
      in case on_db (persistPluginState record (metadataRecordFromMeta V now meta)) s5 of
        (s6, Some err) \<Rightarrow>
          (discard_update newKey staged (rollbackRuntimeIfNeeded V oldRecord (prc_Enabled record) oldTriggers s6), Inl err)
      | (s6, None) \<Rightarrow>
     (if length files > 0
      then (case on_db (replacePluginFrontend V pluginID staged) s6 of
              (s7, Some err) \<Rightarrow>
                (discard_update newKey staged (rollbackRuntimeIfNeeded V oldRecord (prc_Enabled record) oldTriggers s7), Inl err)
            | (s7, None) \<Rightarrow> finish_update V pluginID record changelog newKey oldVersion meta s7)
      else finish_update V pluginID record changelog newKey oldVersion meta s6)))))))"

definition Update ::
    "('w, 'm, 'p, 'c, 'x, 'r) lifecycle_env \<Rightarrow> string \<Rightarrow> string \<Rightarrow> string \<Rightarrow>
     ('w, 'm, 'p, 'c, 'x, 'r, 's, go_error + lifecycle_result) lc_step" where
  "Update V pluginID wasmBytes changelog s = UpdateWithFrontend V pluginID wasmBytes [] changelog s"

definition Rollback ::
    "('w, 'm, 'p, 'c, 'x, 'r) lifecycle_env \<Rightarrow> string \<Rightarrow> int \<Rightarrow>
     ('w, 'm, 'p, 'c, 'x, 'r, 's, go_error + lifecycle_result) lc_step" where
  "Rollback V pluginID versionID s =
     (if \<not> lv_versions V then (s, Inl (Plain ''version store not configured''))
      else case on_db (GetPluginRecord pluginID) s of
        (s1, Inl err) \<Rightarrow> (s1, Inl err)
      | (s1, Inr oldRecord) \<Rightarrow>
     (case on_db (GetVersionRecord versionID) s1 of
        (s2, Inl err) \<Rightarrow> (s2, Inl err)
      | (s2, Inr ver) \<Rightarrow>
     (if vr_PluginID ver \<noteq> pluginID
      then (s2, Inl (Plain (''version '' @ FormatInt versionID @ '' does not belong to plugin '' @ quote pluginID)))
      else case on_db (readBlob (vr_WasmKey ver)) s2 of
        (s3, Inl err) \<Rightarrow> (s3, Inl err)
      | (s3, Inr wasmBytes) \<Rightarrow>
     (if hashWASM V wasmBytes \<noteq> vr_WasmHash ver
      then (s3, Inl (Plain (''wasm binary integrity check failed for '' @ quote (vr_WasmKey ver))))
      else let oldTriggers = collectConfigurableTriggers pluginID s3
           in case currentVersion pluginID s3 of (s4, oldVersion) \<Rightarrow>
     (case reloadOrProbePlugin V pluginID (prc_Enabled oldRecord) wasmBytes (vr_ConfigJSON ver) oldTriggers s4 of
        (s5, Inl err) \<Rightarrow> (s5, Inl err)
      | (s5, Inr meta) \<Rightarrow>
          let now = sto_now (lc_db s5);
              record = oldRecord\<lparr>prc_WasmKey := vr_WasmKey ver, prc_WasmHash := vr_WasmHash ver,
                                 prc_ConfigJSON := vr_ConfigJSON ver, prc_UpdatedAt := now\<rparr>
          in case on_db (persistPluginState record (metadataRecordFromMeta V now meta)) s5 of
               (s6, Some err) \<Rightarrow> (rollbackRuntimeIfNeeded V oldRecord (prc_Enabled record) oldTriggers s6, Inl err)
             | (s6, None) \<Rightarrow>
                 (lc_publish ''plugin_updated'' pluginID s6,
                  Inr \<lparr>lr_PluginID = pluginID, lr_Name = '''', lr_Version = vr_Version ver, lr_OldVersion = oldVersion,
                       lr_NewVersion = vr_Version ver, lr_Status = ''rolled_back''\<rparr>))))))"

subsection \<open>Configuration, events of other instances, start\<close>

definition applyConfigToLoadedPlugin ::
    "('w, 'm, 'p, 'c, 'x, 'r) lifecycle_env \<Rightarrow> string \<Rightarrow> string \<Rightarrow> string \<Rightarrow>
     ('w, 'm, 'p, 'c, 'x, 'r, 's, go_error option) lc_step" where
  "applyConfigToLoadedPlugin V pluginID wasmKey config s =
     (case GetPlugin (lc_loader s) pluginID of
        None \<Rightarrow> (s, Some (Plain (''plugin '' @ quote pluginID @ '' not loaded'')))
      | Some wp \<Rightarrow>
          if lv_reconfigure V \<and> pm_SupportsReconfigure (wp_meta wp)
          then on_loader (ReconfigurePlugin (lv_loader V) pluginID config) s
          else case on_db (readBlob wasmKey) s of
                 (s1, Inl err) \<Rightarrow> (s1, Some err)
               | (s1, Inr wasmBytes) \<Rightarrow>
                   let oldTriggers = collectConfigurableTriggers pluginID s1
                   in case on_loader (ReloadPluginFromBytes (lv_loader V) pluginID wasmBytes config) s1 of
                        (s2, Some err) \<Rightarrow> (s2, Some err)
                      | (s2, None) \<Rightarrow>
                          (case GetPlugin (lc_loader s2) pluginID of
                             None \<Rightarrow> (s2, Some (Plain (''plugin '' @ quote pluginID @ '' missing after config reload'')))
                           | Some next \<Rightarrow> (syncPluginAfterReload V pluginID oldTriggers next s2, None)))"

definition UpdateConfig ::
    "('w, 'm, 'p, 'c, 'x, 'r) lifecycle_env \<Rightarrow> string \<Rightarrow> string \<Rightarrow>
     ('w, 'm, 'p, 'c, 'x, 'r, 's, go_error + lifecycle_result) lc_step" where
  "UpdateConfig V pluginID config s =
     (case on_db (GetPluginRecord pluginID) s of
        (s1, Inl err) \<Rightarrow> (s1, Inl err)
      | (s1, Inr record) \<Rightarrow>
     (case ValidateConfig V pluginID config s1 of
        (s2, Some err) \<Rightarrow> (s2, Inl err)
      | (s2, None) \<Rightarrow>
     (case (if prc_Enabled record then applyConfigToLoadedPlugin V pluginID (prc_WasmKey record) config s2 else (s2, None)) of
        (s3, Some err) \<Rightarrow> (s3, Inl err)
      | (s3, None) \<Rightarrow>
     (case on_db (SavePlugin (record\<lparr>prc_ConfigJSON := config, prc_UpdatedAt := sto_now (lc_db s3)\<rparr>)) s3 of
        (s4, Some err) \<Rightarrow>
          (if prc_Enabled record
           then fst (applyConfigToLoadedPlugin V pluginID (prc_WasmKey record) (prc_ConfigJSON record) s4) else s4,
           Inl (Wrap ''update plugin record: '' err ''''))
      | (s4, None) \<Rightarrow> (lc_publish ''config_changed'' pluginID s4, Inr (status_result pluginID ''updated''))))))"

definition loadFromStore ::
    "('w, 'm, 'p, 'c, 'x, 'r) lifecycle_env \<Rightarrow> string \<Rightarrow> ('w, 'm, 'p, 'c, 'x, 'r, 's, go_error option) lc_step" where
  "loadFromStore V pluginID s =
     (case on_db (GetPluginRecord pluginID) s of
        (s1, Inl err) \<Rightarrow> (s1, Some err)
      | (s1, Inr record) \<Rightarrow>
     (if \<not> prc_Enabled record then (s1, None)
      else case on_db (readBlob (prc_WasmKey record)) s1 of
        (s2, Inl err) \<Rightarrow> (s2, Some err)
      | (s2, Inr wasmBytes) \<Rightarrow>
     (case GetPlugin (lc_loader s2) pluginID of
        Some _ \<Rightarrow>
          (let oldTriggers = collectConfigurableTriggers pluginID s2
           in case on_loader (ReloadPluginFromBytes (lv_loader V) pluginID wasmBytes (prc_ConfigJSON record)) s2 of
                (s3, Some err) \<Rightarrow> (s3, Some err)
              | (s3, None) \<Rightarrow>
                  (case GetPlugin (lc_loader s3) pluginID of
                     None \<Rightarrow> s3 | Some wp \<Rightarrow> syncPluginAfterReload V pluginID oldTriggers wp s3, None))
      | None \<Rightarrow>
          (case on_loader (LoadPluginFromBytes (lv_loader V) wasmBytes (prc_ConfigJSON record)) s2 of
             (s3, Inl err) \<Rightarrow> (s3, Some err)
           | (s3, Inr wp) \<Rightarrow> (registerPluginCommands V wp (manager_Register (WasmManaged (wp_meta wp)) s3), None)))))"

definition reloadFromStore ::
    "('w, 'm, 'p, 'c, 'x, 'r) lifecycle_env \<Rightarrow> string \<Rightarrow> ('w, 'm, 'p, 'c, 'x, 'r, 's, go_error option) lc_step" where
  "reloadFromStore V pluginID s =
     (case on_db (GetPluginRecord pluginID) s of
        (s1, Inl err) \<Rightarrow> (s1, Some err)
      | (s1, Inr record) \<Rightarrow> if \<not> prc_Enabled record then (s1, None) else loadFromStore V pluginID s1)"

definition applyStoredConfig ::
    "('w, 'm, 'p, 'c, 'x, 'r) lifecycle_env \<Rightarrow> string \<Rightarrow> ('w, 'm, 'p, 'c, 'x, 'r, 's, go_error option) lc_step" where
  "applyStoredConfig V pluginID s =
     (case on_db (GetPluginRecord pluginID) s of
        (s1, Inl err) \<Rightarrow> (s1, Some err)
      | (s1, Inr record) \<Rightarrow>
          if \<not> prc_Enabled record \<or> GetPlugin (lc_loader s1) pluginID = None then (s1, None)
          else applyConfigToLoadedPlugin V pluginID (prc_WasmKey record) (prc_ConfigJSON record) s1)"

definition removeLocal ::
    "('w, 'm, 'p, 'c, 'x, 'r) lifecycle_env \<Rightarrow> string \<Rightarrow> ('w, 'm, 'p, 'c, 'x, 'r, 's) lifecycle \<Rightarrow>
     ('w, 'm, 'p, 'c, 'x, 'r, 's) lifecycle" where
  "removeLocal V pluginID s = manager_Remove pluginID (lc_unload V pluginID (unregisterPluginCommands pluginID s))"

text \<open>An event of another instance; errors are logged.\<close>

definition Lifecycle_HandleEvent ::
    "('w, 'm, 'p, 'c, 'x, 'r) lifecycle_env \<Rightarrow> string \<Rightarrow> string \<Rightarrow> ('w, 'm, 'p, 'c, 'x, 'r, 's) lifecycle \<Rightarrow>
     ('w, 'm, 'p, 'c, 'x, 'r, 's) lifecycle" where
  "Lifecycle_HandleEvent V eventType pluginID s =
     (if eventType = ''plugin_installed'' \<or> eventType = ''plugin_enabled'' then fst (loadFromStore V pluginID s)
      else if eventType = ''plugin_disabled'' \<or> eventType = ''plugin_uninstalled'' then removeLocal V pluginID s
      else if eventType = ''plugin_updated'' then fst (reloadFromStore V pluginID s)
      else if eventType = ''config_changed'' then fst (applyStoredConfig V pluginID s)
      else s)"

text \<open>Loading the enabled plugins at the start (startup.go); commands are registered later.\<close>

definition autoload_one ::
    "('w, 'm, 'p, 'c, 'x, 'r) lifecycle_env \<Rightarrow> plugin_record \<Rightarrow> ('w, 'm, 'p, 'c, 'x, 'r, 's) lifecycle \<Rightarrow>
     ('w, 'm, 'p, 'c, 'x, 'r, 's) lifecycle" where
  "autoload_one V rec s =
     (if \<not> prc_Enabled rec then s
      else case on_db (blob_Open (prc_WasmKey rec)) s of
             (s1, Inl _) \<Rightarrow> s1
           | (s1, Inr content) \<Rightarrow>
               (case on_db (blob_Read content) s1 of
                  (s2, Inl _) \<Rightarrow> s2
                | (s2, Inr wasmBytes) \<Rightarrow>
                    (case on_loader (LoadPluginFromBytes (lv_loader V) wasmBytes (prc_ConfigJSON rec)) s2 of
                       (s3, Inl _) \<Rightarrow> s3
                     | (s3, Inr wp) \<Rightarrow> manager_Register (WasmManaged (wp_meta wp)) s3)))"

definition AutoloadPlugins ::
    "('w, 'm, 'p, 'c, 'x, 'r) lifecycle_env \<Rightarrow> ('w, 'm, 'p, 'c, 'x, 'r, 's, go_error option) lc_step" where
  "AutoloadPlugins V s =
     (case on_db ListPlugins s of
        (s1, Inl err) \<Rightarrow> (s1, Some err)
      | (s1, Inr records) \<Rightarrow> (fold (autoload_one V) records s1, None))"

subsection \<open>Handlers of uploads and versions\<close>

text \<open>The answer of a handler is its status and the text of its error, if it is one.\<close>

type_synonym http_answer = "int \<times> string"

definition validateBlobKey :: "string \<Rightarrow> bool" where
  "validateBlobKey key \<longleftrightarrow>
     key \<noteq> '''' \<and> \<not> Contains key ''..'' \<and> \<not> Contains key ''/'' \<and> \<not> Contains key [CHR 0x5C] \<and> \<not> ContainsAny key [CHR 0x00]"

definition handleInstall ::
    "('w, 'm, 'p, 'c, 'x, 'r) lifecycle_env \<Rightarrow> string \<Rightarrow> string \<times> string \<Rightarrow> ('w, 'm, 'p, 'c, 'x, 'r, 's, http_answer) lc_step" where
  "handleInstall V pluginID body s =
     (case body of (config, wasmKey) \<Rightarrow>
        if wasmKey = '''' then (s, (400, ''wasm_key is required''))
        else if \<not> validateBlobKey wasmKey then (s, (400, ''invalid wasm_key''))
        else case Install V pluginID wasmKey config s of
               (s1, Inl err) \<Rightarrow> (s1, (500, error_text err))
             | (s1, Inr r) \<Rightarrow> (s1, (200, '''')))"

definition upload_key :: "plugin_meta \<Rightarrow> string" where
  "upload_key meta = pm_ID meta @ ''_'' @ pm_Version meta @ ''.wasm''"

text \<open>Storing the frontend of an upload; on an error the module's blob is deleted.\<close>

definition upload_frontend ::
    "('w, 'm, 'p, 'c, 'x, 'r) lifecycle_env \<Rightarrow> string \<Rightarrow> string \<Rightarrow> frontend_file list \<Rightarrow> admin_db \<Rightarrow> admin_db \<times> bool" where
  "upload_frontend V pluginID wasmKey files d =
     (if length files > 0
      then (case putPluginFrontendAssetsReusing (lv_assets V) pluginID files [] d of
              (d1, Inl err) \<Rightarrow> (fst (blob_Delete wasmKey d1), False)
            | (d1, Inr staged) \<Rightarrow>
                (case saveStagedPluginFrontendManifest (lv_assets V) wasmKey staged d1 of
                   (d2, Some err) \<Rightarrow> (delete_assets (sf_Assets staged) (fst (blob_Delete wasmKey d2)), False)
                 | (d2, None) \<Rightarrow> (d2, True)))
      else (fst (blob_Delete (pluginFrontendManifestKey wasmKey) d), True))"

definition handleUpload ::
    "('w, 'm, 'p, 'c, 'x, 'r) lifecycle_env \<Rightarrow> plugin_upload \<Rightarrow>
     ('w, 'm, 'p, 'c, 'x, 'r, 's, http_answer + plugin_meta \<times> string) lc_step" where
  "handleUpload V upload s =
     (case on_loader (ProbeMetadataFromBytes (lv_loader V) (pu_WasmBytes upload)) s of
        (s1, Inl err) \<Rightarrow> (s1, Inl (400, ''invalid wasm module''))
      | (s1, Inr meta) \<Rightarrow>
          (let s2 = (if GetPlugin (lc_loader s1) (pm_ID meta) = None \<and> lv_versions V
                     then fst (on_db (ListVersions_of (pm_ID meta)) s1) else s1);
               wasmKey = upload_key meta
           in case on_db (blob_Put wasmKey (pu_WasmBytes upload)) s2 of
                (s3, Some err) \<Rightarrow> (s3, Inl (500, ''failed to save wasm file''))
              | (s3, None) \<Rightarrow>
                  (case on_db (upload_frontend V (pm_ID meta) wasmKey (pu_FrontendFiles upload)) s3 of
                     (s4, False) \<Rightarrow> (s4, Inl (500, ''failed to save plugin frontend''))
                   | (s4, True) \<Rightarrow> (s4, Inr (meta, wasmKey)))))"

definition blob_in_use ::
    "string \<Rightarrow> int \<Rightarrow> string \<Rightarrow> admin_db \<Rightarrow> admin_db \<times> bool" where
  "blob_in_use pluginID versionID wasmKey d =
     (case ListVersions_of pluginID d of
        (d1, Inl _) \<Rightarrow> (d1, False)
      | (d1, Inr vs) \<Rightarrow> (d1, list_ex (\<lambda>v. vr_ID v \<noteq> versionID \<and> vr_WasmKey v = wasmKey) vs))"

definition handleDeleteVersion ::
    "('w, 'm, 'p, 'c, 'x, 'r) lifecycle_env \<Rightarrow> string \<Rightarrow> int \<Rightarrow> admin_db \<Rightarrow> admin_db \<times> http_answer" where
  "handleDeleteVersion V pluginID versionID d =
     (if \<not> lv_versions V then (d, (501, ''version store not configured''))
      else case GetPluginRecord pluginID d of
        (d1, Inl _) \<Rightarrow> (d1, (404, ''plugin not found''))
      | (d1, Inr record) \<Rightarrow>
     (case GetVersionRecord versionID d1 of
        (d2, Inl _) \<Rightarrow> (d2, (404, ''version not found''))
      | (d2, Inr ver) \<Rightarrow>
          if vr_PluginID ver \<noteq> pluginID then (d2, (400, ''version does not belong to this plugin''))
          else if vr_WasmKey ver = prc_WasmKey record then (d2, (409, ''cannot delete the currently active version''))
          else case blob_in_use pluginID versionID (vr_WasmKey ver) d2 of
                 (d3, inUse) \<Rightarrow>
                   (case DeleteVersion versionID (if inUse then d3 else fst (blob_Delete (vr_WasmKey ver) d3)) of
                      (d4, Some _) \<Rightarrow> (d4, (500, ''failed to delete version''))
                    | (d4, None) \<Rightarrow> (d4, (200, '''')))))"

subsection \<open>What an operation keeps\<close>

text \<open>
  Of one plugin: what is stored about the others, and the others among the plugins of the bot, is as
  before, if the rows of plugins are kept under their identifiers.
\<close>

definition stays ::
    "string \<Rightarrow> ('w, 'm, 'p, 'c, 'x, 'r, 's) lifecycle \<Rightarrow> ('w, 'm, 'p, 'c, 'x, 'r, 's) lifecycle \<Rightarrow> bool" where
  "stays i s s' \<longleftrightarrow>
     keys_ok (lc_db s) \<longrightarrow>
     touches i (lc_db s) (lc_db s') \<and> (\<forall>j. j \<noteq> i \<longrightarrow> map_of (lc_manager s') j = map_of (lc_manager s) j)"

interpretation tch: kept "touches i" for i
  by unfold_locales (auto intro: touches_trans)

interpretation stays: kept "stays i" for i
  by unfold_locales (auto simp: stays_def touches_def)

subsection \<open>Helpers keep the other plugins\<close>

text \<open>The operations of the stores in sequence.\<close>

lemmas chained =
  SavePlugin_touches [THEN [2] touches_trans] GetPluginRecord_touches [THEN [2] touches_trans]
  DeletePluginRecord_touches [THEN [2] touches_trans] SavePluginMetadata_touches [THEN [2] touches_trans]
  GetPluginMetadata_touches [THEN [2] touches_trans] DeletePluginMetadata_touches [THEN [2] touches_trans]
  SavePluginFrontend_touches [THEN [2] touches_trans] GetPluginFrontend_touches [THEN [2] touches_trans]
  DeletePluginFrontend_touches [THEN [2] touches_trans] SaveVersion_touches [THEN [2] touches_trans]
  ListVersions_touches [THEN [2] touches_trans] DeleteVersionsByPlugin_touches [THEN [2] touches_trans]
  DeleteCommandSettings_touches [THEN [2] touches_trans] DeleteAllPluginCommandSettings_touches [THEN [2] touches_trans]
  blob_touches [THEN [2] touches_trans] delete_assets_touches [THEN [2] touches_trans]
  deleteUnreferenced_touches [THEN [2] touches_trans] putPluginFrontendAssets_touches [THEN [2] touches_trans]
  readManifest_touches [THEN [2] touches_trans] next_outcome_touches [THEN [2] touches_trans]

lemma readBlob_touches [touching, simp]: "touches i d (fst (readBlob key d))"
  unfolding readBlob_def by (intro tch.kept_rules; (unfold fst_wrap_result)?; (intro chained)?) simp_all

lemma persist_touches [touching]:
  "prc_ID record = i \<Longrightarrow> pmr_PluginID meta = i \<Longrightarrow> touches i d (fst (persistPluginState record meta d))"
  unfolding persistPluginState_def by (intro tch.kept_rules chained) simp_all

lemma saveVersion_touches [touching]: "vr_PluginID rec = i \<Longrightarrow> touches i d (saveVersionBestEffort V rec d)"
  by (simp add: saveVersionBestEffort_def SaveVersion_touches)

lemma replaceFrontend_touches [touching, simp]: "touches i d (fst (replacePluginFrontend V i staged d))"
  unfolding replacePluginFrontend_def by (intro tch.kept_if tch.kept_prod tch.kept_rules chained) simp_all

lemma installFrontend_touches [touching, simp]: "touches i d (fst (installStagedFrontend V i key d))"
  unfolding installStagedFrontend_def
  by (intro tch.kept_prod tch.kept_rules chained replaceFrontend_touches [THEN [2] touches_trans]) simp_all

lemma currentAssets_touches [touching, simp]: "touches i d (fst (currentPluginFrontendAssets V i d))"
  unfolding currentPluginFrontendAssets_def by (intro tch.kept_rules chained) simp_all

lemma stage_frontend_touches [touching, simp]: "touches i d (fst (stage_frontend V i files d))"
  unfolding stage_frontend_def
  by (intro tch.kept_prod tch.kept_rules chained currentAssets_touches [THEN [2] touches_trans]) simp_all

lemma deleteFrontend_touches [touching, simp]: "touches i d (deletePluginFrontend_of V i d)"
proof -
  obtain d1 r where g: "GetPluginFrontend i d = (d1, r)" by fastforce
  have "touches i d d1" using GetPluginFrontend_touches [of i d i] unfolding g by simp
  then have "touches i d (case r of Inr rec \<Rightarrow> delete_assets (fro_Assets rec) d1 | Inl _ \<Rightarrow> d1)"
    by (cases r) (auto intro: chained)
  then show ?thesis by (simp add: deletePluginFrontend_of_def g DeletePluginFrontend_touches [THEN [2] touches_trans])
qed

lemma cleanupVersions_touches [touching, simp]: "touches i d (cleanupVersionBlobs V i key d)"
proof -
  obtain d1 r where g: "ListVersions_of i d = (d1, r)" by fastforce
  have d1: "touches i d d1" using ListVersions_touches [of i d i] unfolding g by simp
  have "touches i d1 (fold (\<lambda>v d. if vr_WasmKey v = '''' \<or> vr_WasmKey v = key then d
      else fst (blob_Delete (vr_WasmKey v) d)) vs d1)" for vs :: "version_record list"
    by (rule tch.kept_fold) simp
  then have "touches i d (fold (\<lambda>v d. if vr_WasmKey v = '''' \<or> vr_WasmKey v = key then d
      else fst (blob_Delete (vr_WasmKey v) d)) vs d1)" for vs :: "version_record list"
    by (rule touches_trans [OF d1])
  then show ?thesis using d1 by (simp add: cleanupVersionBlobs_def g split: sum.split)
qed

lemma delete_files_touches [touching, simp]: "touches i d (delete_files V i key d)"
  unfolding delete_files_def Let_def
  by (auto intro!: chained deleteFrontend_touches [THEN [2] touches_trans] cleanupVersions_touches)

text \<open>The same for steps of the service.\<close>

lemma stays_keys: "(keys_ok (lc_db s) \<Longrightarrow> stays i s s') \<Longrightarrow> stays i s s'"
  by (simp add: stays_def)

lemma keys_still_ok: "stays i s s' \<Longrightarrow> keys_ok (lc_db s) \<Longrightarrow> keys_ok (lc_db s')"
  by (simp add: stays_def touches_def)

lemma stays_db:
  "stays i s s1 \<Longrightarrow> touches i (lc_db s1) (fst (f (lc_db s1))) \<Longrightarrow> stays i s (fst (on_db f s1))"
  by (rule stays.kept_trans) (auto simp: stays_def on_db_def split: prod.split)

lemma stays_set_db: "stays i s s1 \<Longrightarrow> touches i (lc_db s1) d \<Longrightarrow> stays i s (s1\<lparr>lc_db := d\<rparr>)"
  by (rule stays.kept_trans) (auto simp: stays_def)

lemma stays_loader: "stays i s s1 \<Longrightarrow> stays i s (fst (on_loader f s1))"
  by (rule stays.kept_trans) (auto simp: stays_def on_loader_def split: prod.split)

lemma stays_unload: "stays i s s1 \<Longrightarrow> stays i s (lc_unload V j s1)"
  by (simp add: lc_unload_def stays_loader)

lemma stays_same:
  "lc_db s' = lc_db s1 \<Longrightarrow> lc_manager s' = lc_manager s1 \<Longrightarrow> stays i s s1 \<Longrightarrow> stays i s s'"
  by (simp add: stays_def)

lemma stays_commands:
  "stays i s s1 \<Longrightarrow> stays i s (registerPluginCommands V wp s1)"
  "stays i s s1 \<Longrightarrow> stays i s (unregisterPluginCommands j s1)"
  "stays i s s1 \<Longrightarrow> stays i s (invalidatePluginPolicies j s1)"
  "stays i s s1 \<Longrightarrow> stays i s (s1\<lparr>lc_kv := kv\<rparr>)"
  "stays i s s1 \<Longrightarrow> stays i s (s1\<lparr>lc_state := m\<rparr>)"
  by (auto simp: registerPluginCommands_def unregisterPluginCommands_def invalidatePluginPolicies_def elim!: stays_same [rotated 2])

lemma stays_manager:
  "stays i s s1 \<Longrightarrow> stays i s (manager_Remove i s1)"
  "stays i s s1 \<Longrightarrow> managed_ID p = i \<Longrightarrow> stays i s (manager_Register p s1)"
  by (auto simp: manager_Remove_def manager_Register_def stays_def touches_def map_of_delete_other update_conv')

lemma stays_publish: "stays i s s1 \<Longrightarrow> stays i s (lc_publish e j s1)"
proof (erule stays.kept_trans)
  obtain d out where n: "next_outcome (lc_db s1) = (d, out)" by fastforce
  have "touches i (lc_db s1) d" by (rule touches_next [OF n])
  then show "stays i s1 (lc_publish e j s1)"
    by (auto simp: lc_publish_def n stays_def split: option.split)
qed

lemma stays_version:
  "stays i s s1 \<Longrightarrow> vr_PluginID rec = i \<Longrightarrow> stays i s (s1\<lparr>lc_db := saveVersionBestEffort V rec (lc_db s1)\<rparr>)"
  by (simp add: stays_set_db saveVersion_touches)

lemma stays_sync:
  "stays i s s1 \<Longrightarrow> pm_ID (wp_meta wp) = i \<Longrightarrow> stays i s (syncPluginAfterReload V i old wp s1)"
  unfolding syncPluginAfterReload_def Let_def
  by (auto intro!: stays_db stays_commands stays_manager DeleteCommandSettings_touches)

lemma stays_currentVersion: "stays i s s1 \<Longrightarrow> stays i s (fst (currentVersion j s1))"
  unfolding currentVersion_def by (intro stays.kept_choice stays.kept_rules stays_db) simp_all

lemma stays_ensure: "stays i s s1 \<Longrightarrow> stays i s (fst (ensurePluginID V j k s1))"
  unfolding ensurePluginID_def by (simp add: stays_unload)

lemma stays_load: "stays i s s1 \<Longrightarrow> stays i s (fst (loadPluginBytes V j b c s1))"
  unfolding loadPluginBytes_def by (intro stays.kept_rules stays_loader stays_ensure) simp_all

text \<open>What is loaded has the wanted identifier.\<close>

lemma ensurePluginID_ok: "ensurePluginID V j k s = (s', None) \<Longrightarrow> k = j \<and> s' = s"
  by (simp add: ensurePluginID_def split: if_splits)

lemma loadPluginBytes_ok: "loadPluginBytes V i b c s = (s', Inr wp) \<Longrightarrow> pm_ID (wp_meta wp) = i"
  by (auto simp: loadPluginBytes_def dest: ensurePluginID_ok split: prod.splits sum.splits option.splits)

lemma reloaded_ID:
  assumes "on_loader (ReloadPluginFromBytes E i b c) s = (s1, None)" "GetPlugin (lc_loader s1) i = Some wp"
  shows "pm_ID (wp_meta wp) = i"
proof -
  obtain l' out where r: "ReloadPluginFromBytes E i b c (lc_loader s) = (l', out)" by fastforce
  then have out: "out = None" and l': "lc_loader s1 = l'" using assms(1) by (auto simp: on_loader_def)
  obtain meta c' where "pm_ID meta = i" "Wasm_Loader.table l' i = Some (meta, c')"
    using Reload_table [where E = E and i = i and b = b and c = c and l = "lc_loader s"] by (auto simp: r out)
  then show ?thesis using assms(2) l' by (auto simp: GetPlugin_def table_def)
qed

lemma stays_reload_or_probe: "stays i s s1 \<Longrightarrow> stays i s (fst (reloadOrProbePlugin V i enabled b c old s1))"
  unfolding reloadOrProbePlugin_def
  by (intro stays.kept_if stays.kept_choice stays.kept_sum stays.kept_option stays.kept_pair stays_loader stays_sync stays_ensure
      stays.kept_refl) (auto intro: reloaded_ID)

lemma reloadOrProbe_ok:
  assumes "reloadOrProbePlugin V i enabled b c old s = (s', Inr meta)"
  shows "pm_ID meta = i"
proof (cases enabled)
  case True
  obtain s1 out where r: "on_loader (ReloadPluginFromBytes (lv_loader V) i b c) s = (s1, out)" by fastforce
  show ?thesis
  proof (cases out)
    case None
    with True assms show ?thesis
      using reloaded_ID [OF r [unfolded None]] by (auto simp: reloadOrProbePlugin_def r split: option.splits)
  qed (use True assms in \<open>simp add: reloadOrProbePlugin_def r\<close>)
next
  case False
  with assms show ?thesis
    by (auto simp: reloadOrProbePlugin_def dest: ensurePluginID_ok split: prod.splits sum.splits option.splits)
qed

lemma stays_rollback:
  assumes "prc_ID record = i" "stays i s s1"
  shows "stays i s (rollbackRuntimeIfNeeded V record enabled old s1)"
proof (cases enabled)
  case True
  then show ?thesis
    unfolding rollbackRuntimeIfNeeded_def using assms
    by simp (intro stays.kept_sum_state stays.kept_option_state stays.kept_choice_state stays_db stays_loader stays_sync;
      auto intro: stays_sync reloaded_ID)
qed (simp add: rollbackRuntimeIfNeeded_def assms)

lemma stays_undo: "j = i \<Longrightarrow> stays i s s1 \<Longrightarrow> stays i s (undo_install V j s1)"
  unfolding undo_install_def by (simp, intro stays_unload stays_db DeletePluginRecord_touches DeletePluginMetadata_touches)

lemma stays_discard: "stays i s s1 \<Longrightarrow> stays i s (discard_update key staged s1)"
  unfolding discard_update_def by (rule stays_set_db) (auto intro: delete_assets_touches [THEN [2] touches_trans])

subsection \<open>Operations keep the other plugins\<close>

lemma record_key: "on_db (GetPluginRecord i) s = (s1, Inr rec) \<Longrightarrow> keys_ok (lc_db s) \<Longrightarrow> prc_ID rec = i"
  by (auto simp: on_db_def dest: GetPluginRecord_key split: prod.splits)

lemmas keeping =
  stays.kept_sum stays.kept_option stays.kept_choice stays.kept_pair stays.kept_if stays_db stays_loader stays_load stays_sync
  stays_reload_or_probe stays_rollback stays_undo stays_discard stays_publish stays_version stays_commands stays_manager
  stays_unload stays_currentVersion stays_set_db stays.kept_refl

lemma metadata_ID [simp]: "pmr_PluginID (metadataRecordFromMeta V now meta) = pm_ID meta"
  by (simp add: metadataRecordFromMeta_def)

lemma Install_stays: "stays i s (fst (Install V i key config s))"
  unfolding Install_def Let_def
  by (intro keeping persist_touches installFrontend_touches) (auto dest: loadPluginBytes_ok)

lemma Enable_stays: "stays i s (fst (Enable V i s))"
proof (rule stays_keys)
  assume ok: "keys_ok (lc_db s)"
  show ?thesis
    unfolding Enable_def Let_def
    by (intro keeping persist_touches) (use ok in \<open>auto dest: loadPluginBytes_ok record_key\<close>)
qed

lemma Disable_stays: "stays i s (fst (Disable V i s))"
proof (rule stays_keys)
  assume ok: "keys_ok (lc_db s)"
  show ?thesis
    unfolding Disable_def by (intro keeping SavePlugin_touches) (use ok in \<open>auto dest: record_key\<close>)
qed

lemma stays_load_for_cleanup: "stays i s s1 \<Longrightarrow> stays i s (fst (load_for_cleanup V record s1))"
  unfolding load_for_cleanup_def by (intro keeping) simp_all

lemma Delete_stays: "stays i s (fst (Delete V i s))"
  unfolding Delete_def Let_def
  by (intro keeping stays.kept_prod stays_load_for_cleanup DeletePluginRecord_touches DeletePluginMetadata_touches
      DeleteVersionsByPlugin_touches)
    (auto intro!: keeping DeleteVersionsByPlugin_touches DeletePluginMetadata_touches)

lemma finish_update_stays: "stays i s s1 \<Longrightarrow> stays i s (fst (finish_update V i record changelog key old meta s1))"
  unfolding finish_update_def Let_def by (simp, intro stays_publish stays_version) simp_all

lemma Update_stays: "stays i s (fst (UpdateWithFrontend V i b files changelog s))"
proof (rule stays_keys)
  assume ok: "keys_ok (lc_db s)"
  show ?thesis
    unfolding UpdateWithFrontend_def Let_def
    by (intro keeping stays.kept_prod finish_update_stays persist_touches)
      (use ok in \<open>auto intro!: keeping finish_update_stays dest: record_key reloadOrProbe_ok\<close>)
qed

lemma Rollback_stays: "stays i s (fst (Rollback V i v s))"
proof (rule stays_keys)
  assume ok: "keys_ok (lc_db s)"
  show ?thesis
    unfolding Rollback_def Let_def
    by (intro keeping stays.kept_prod persist_touches)
      (use ok in \<open>auto intro!: keeping dest: record_key reloadOrProbe_ok\<close>)
qed

lemma apply_config_stays: "stays i s s1 \<Longrightarrow> stays i s (fst (applyConfigToLoadedPlugin V i key config s1))"
  unfolding applyConfigToLoadedPlugin_def Let_def by (intro keeping) (auto intro: reloaded_ID)

lemma ValidateConfig_stays: "stays i s s1 \<Longrightarrow> stays i s (fst (ValidateConfig V i config s1))"
  unfolding ValidateConfig_def by (intro keeping) simp_all

lemma UpdateConfig_stays: "stays i s (fst (UpdateConfig V i config s))"
proof (rule stays_keys)
  assume ok: "keys_ok (lc_db s)"
  show ?thesis
    unfolding UpdateConfig_def
    by (intro keeping apply_config_stays ValidateConfig_stays SavePlugin_touches)
      (use ok in \<open>auto intro!: keeping apply_config_stays dest: record_key\<close>)
qed

subsection \<open>Other plugins are not concerned\<close>

text \<open>An operation of the administration on one plugin.\<close>

datatype admin_op =
    OpInstall string string
  | OpEnable
  | OpDisable
  | OpDelete
  | OpUpdate string "frontend_file list" string
  | OpRollback int
  | OpUpdateConfig string

fun run_admin ::
    "('w, 'm, 'p, 'c, 'x, 'r) lifecycle_env \<Rightarrow> string \<times> admin_op \<Rightarrow> ('w, 'm, 'p, 'c, 'x, 'r, 's) lifecycle \<Rightarrow>
     ('w, 'm, 'p, 'c, 'x, 'r, 's) lifecycle" where
  "run_admin V (i, OpInstall key config) s = fst (Install V i key config s)"
| "run_admin V (i, OpEnable) s = fst (Enable V i s)"
| "run_admin V (i, OpDisable) s = fst (Disable V i s)"
| "run_admin V (i, OpDelete) s = fst (Delete V i s)"
| "run_admin V (i, OpUpdate b files changelog) s = fst (UpdateWithFrontend V i b files changelog s)"
| "run_admin V (i, OpRollback v) s = fst (Rollback V i v s)"
| "run_admin V (i, OpUpdateConfig config) s = fst (UpdateConfig V i config s)"

lemma run_admin_stays: "stays i s (run_admin V (i, op) s)"
  by (cases op) (simp_all add: Install_stays Enable_stays Disable_stays Delete_stays Update_stays Rollback_stays UpdateConfig_stays)


definition demo_db :: admin_db where
  "demo_db =
     \<lparr>sto_plugins = [(''q'', \<lparr>prc_ID = ''q'', prc_WasmKey = ''q.wasm'', prc_ConfigJSON = ''null'', prc_Enabled = False,
                              prc_WasmHash = [], prc_InstalledAt = 0, prc_UpdatedAt = 0\<rparr>)],
      sto_metadata = Map.empty, sto_frontends = Map.empty, sto_versions = [], sto_nextVersion = 1, sto_settings = [],
      sto_nextSetting = 1, sto_origins = Map.empty, sto_policies = Map.empty, sto_base = ''/b'',
      sto_files = [''/b/p.wasm'' \<mapsto> ''w''], sto_outcomes = [], sto_now = 5, sto_jsonb = Some\<rparr>"

definition demo_admin_env :: "(unit, unit, unit, unit, unit, unit) lifecycle_env" where
  "demo_admin_env =
     \<lparr>lv_loader = demo_loader_env,
      lv_adapter = \<lparr>ad_rt = demo_runtime, ad_deflt = ''en'', ad_regex = (\<lambda>_. None), ad_callback_request = (\<lambda>_. Inr []),
        ad_callback_response = (\<lambda>_. Inl (Plain [])), ad_send = None\<rparr>,
      lv_assets = \<lparr>ae_sha256 = id, ae_put_manifest = (\<lambda>_. []), ae_manifest = (\<lambda>_. Inl (Plain []))\<rparr>,
      lv_meta_json = (\<lambda>_. ''{}''), lv_requirements_json = (\<lambda>_. ''[]''), lv_triggers_json = (\<lambda>_. ''[]''),
      lv_reconfigure = True, lv_cmdStore = True, lv_versions = True, lv_frontends = True\<rparr>"

definition demo_admin :: "(unit, unit, unit, unit, unit, unit, unit) lifecycle" where
  "demo_admin =
     \<lparr>lc_db = demo_db, lc_loader = demo_loader, lc_manager = [], lc_state = None, lc_kv = None, lc_published = Some [],
      lc_invalidated = None\<rparr>"


subsection \<open>What successful operations did\<close>

lemma on_db_cases: "on_db f s = (s', x) \<Longrightarrow> f (lc_db s) = (lc_db s', x) \<and> s' = s\<lparr>lc_db := lc_db s'\<rparr>"
  by (auto simp: on_db_def split: prod.splits)

lemma on_loader_cases: "on_loader f s = (s', x) \<Longrightarrow> f (lc_loader s) = (lc_loader s', x) \<and> s' = s\<lparr>lc_loader := lc_loader s'\<rparr>"
  by (auto simp: on_loader_def split: prod.splits)

lemma readBlob_ok:
  assumes "readBlob key d = (d', r)"
  shows "used_up d d' \<and> (case r of Inl _ \<Rightarrow> True | Inr b \<Rightarrow> sto_files d (blob_path d key) = Some b)"
proof -
  obtain d1 r1 where o: "blob_Open key d = (d1, r1)" by fastforce
  have d1: "used_up d d1" using blob_Open_ok [OF o] by simp
  show ?thesis
  proof (cases r1)
    case (Inr b)
    obtain d2 r2 where rd: "blob_Read b d1 = (d2, r2)" by fastforce
    have "used_up d d2" using blob_Read_ok [OF rd] used_up_trans [OF d1] by blast
    then show ?thesis
      using assms blob_Open_ok [OF o] blob_Read_ok [OF rd]
      by (auto simp: readBlob_def wrap_result_def o Inr rd split: sum.splits)
  qed (use assms o d1 in \<open>auto simp: readBlob_def wrap_result_def\<close>)
qed

lemma persist_ok:
  assumes "persistPluginState record meta d = (d', None)"
  shows "\<exists>rec row. map_of (sto_plugins d') (prc_ID record) = Some rec \<and> prc_WasmKey rec = prc_WasmKey record \<and>
    prc_WasmHash rec = prc_WasmHash record \<and> prc_Enabled rec = prc_Enabled record \<and>
    sto_jsonb d (json_or_null (prc_ConfigJSON record)) = Some (prc_ConfigJSON rec) \<and>
    sto_metadata d' (pmr_PluginID meta) = Some row \<and> pmr_Version row = pmr_Version meta"
proof -
  obtain d1 where p: "SavePlugin record d = (d1, None)" and m: "SavePluginMetadata meta d1 = (d', None)"
    using assms by (auto simp: persistPluginState_def split: prod.splits option.splits)
  obtain d0 j inst where "used_up d d0" and j: "sto_jsonb d (json_or_null (prc_ConfigJSON record)) = Some j"
    and d1: "d1 = d0\<lparr>sto_plugins := AList.update (prc_ID record) (record\<lparr>prc_ConfigJSON := j, prc_InstalledAt := inst\<rparr>) (sto_plugins d0)\<rparr>"
    using SavePlugin_ok [OF p] by auto
  obtain d2 row where d2: "used_up d1 d2" "d' = d2\<lparr>sto_metadata := (sto_metadata d2)(pmr_PluginID meta \<mapsto> row)\<rparr>"
    and row: "pmr_Version row = pmr_Version meta"
    using SavePluginMetadata_ok [OF m] by auto
  have "map_of (sto_plugins d') (prc_ID record) = Some (record\<lparr>prc_ConfigJSON := j, prc_InstalledAt := inst\<rparr>)"
    using used_up_frame [OF d2(1)] by (simp add: d2(2) d1 update_conv')
  then show ?thesis using j row d2(2) by auto
qed

text \<open>Operations that leave the records and the metadata of all plugins.\<close>

definition keeps_rows :: "admin_db \<Rightarrow> admin_db \<Rightarrow> bool" where
  "keeps_rows d d' \<longleftrightarrow> sto_plugins d' = sto_plugins d \<and> sto_metadata d' = sto_metadata d \<and> sto_jsonb d' = sto_jsonb d"

interpretation rows: kept keeps_rows
  by unfold_locales (auto simp: keeps_rows_def)

lemma used_up_rows: "used_up d d' \<Longrightarrow> keeps_rows d d'"
  by (auto simp: used_up_def keeps_rows_def)

lemma db_exec_rows:
  assumes "\<And>d d'. stmt d = Inr d' \<Longrightarrow> keeps_rows d d'"
  shows "keeps_rows d (fst (db_exec what stmt d))"
proof -
  obtain d' out where e: "db_exec what stmt d = (d', out)" by fastforce
  obtain d1 where d1: "used_up d d1" "case out of Some _ \<Rightarrow> d' = d1 | None \<Rightarrow> stmt d1 = Inr d'" using db_exec_cases [OF e] by blast
  show ?thesis
  proof (cases out)
    case None
    then have "stmt d1 = Inr d'" using d1(2) by simp
    then show ?thesis using rows.kept_trans [OF used_up_rows [OF d1(1)] assms] by (simp add: e)
  qed (use d1 used_up_rows [OF d1(1)] e in simp)
qed

lemma query_rows: "keeps_rows d (fst (db_query what stmt d))"
  using db_query_cases [of what stmt d "fst (db_query what stmt d)" "snd (db_query what stmt d)"]
  by (simp add: used_up_rows)

lemma next_rows: "next_outcome d = (d', out) \<Longrightarrow> keeps_rows d d'"
  by (rule used_up_rows [OF used_up_next])

lemma store_rows:
  "keeps_rows d (fst (SavePluginFrontend rec d))" "keeps_rows d (fst (GetPluginFrontend i d))"
  "keeps_rows d (fst (blob_Delete key d))" "keeps_rows d (fst (blob_Exists key d))" "keeps_rows d (fst (blob_Open key d))"
  "keeps_rows d (fst (blob_Read b d))" "keeps_rows d (fst (readBlob key d))" "keeps_rows d (fst (DeleteCommandSettings i names d))"
  "keeps_rows d (fst (GetPluginMetadata i d))"
proof -
  show "keeps_rows d (fst (blob_Read b d))"
    by (auto simp: blob_Read_def split: prod.split option.split dest: next_rows)
  show "keeps_rows d (fst (readBlob key d))"
    using readBlob_ok [of key d "fst (readBlob key d)" "snd (readBlob key d)"] by (simp add: used_up_rows)
  show "keeps_rows d (fst (SavePluginFrontend rec d))"
    unfolding SavePluginFrontend_def
    by (rule db_exec_rows) (auto simp: upsert_frontend_def Let_def keeps_rows_def split: if_splits)
  show "keeps_rows d (fst (DeleteCommandSettings i names d))"
    unfolding DeleteCommandSettings_def
    by (intro rows.kept_if rows.kept_pair db_exec_rows) (auto simp: delete_settings_def keeps_rows_def)
  show "keeps_rows d (fst (blob_Delete key d))" unfolding blob_Delete_def by (rule db_exec_rows) (auto simp: keeps_rows_def)
qed (simp_all add: GetPluginFrontend_def blob_Exists_def blob_Open_def GetPluginMetadata_def query_rows)

lemmas rows_chained = store_rows [THEN [2] rows.kept_trans]

lemma delete_assets_rows: "keeps_rows d (delete_assets as d)"
proof (induction as d rule: delete_assets.induct)
  case (2 a as d)
  show ?case
    using 2 rows.kept_trans [where s = d, OF store_rows(3)] by (simp split: if_splits)
qed (simp add: rows.kept_refl)

lemma deleteUnreferenced_rows: "keeps_rows d (deleteUnreferencedFrontendAssets p n d)"
  by (simp add: deleteUnreferencedFrontendAssets_def Let_def delete_assets_rows rows.kept_refl)

lemma replaceFrontend_rows: "keeps_rows d (fst (replacePluginFrontend V i staged d))"
  unfolding replacePluginFrontend_def
  by (intro rows.kept_if rows.kept_prod rows.kept_rules rows_chained deleteUnreferenced_rows [THEN [2] rows.kept_trans])
    (simp_all add: rows.kept_refl)

lemma installFrontend_rows: "keeps_rows d (fst (installStagedFrontend V i key d))"
proof -
  have read: "keeps_rows d (fst (readStagedPluginFrontendManifest AE k d))" for AE k
    unfolding readStagedPluginFrontendManifest_def Let_def
    by (intro rows.kept_prod rows.kept_rules rows_chained)
      (auto intro: rows.kept_refl rows_chained split: sum.split if_split option.split)
  show ?thesis
    unfolding installStagedFrontend_def
    by (intro rows.kept_prod rows.kept_rules rows_chained replaceFrontend_rows [THEN [2] rows.kept_trans] read
        rows.kept_refl)
qed

lemma version_rows: "keeps_rows d (saveVersionBestEffort V rec d)"
proof -
  obtain d' r0 where c: "db_call (insert_version rec) d = (d', r0)" by fastforce
  obtain d1 where d1: "used_up d d1" "case r0 of Inl _ \<Rightarrow> d' = d1 | Inr x \<Rightarrow> insert_version rec d1 = Inr (d', x)"
    using db_call_cases [OF c] by blast
  have "keeps_rows d d'"
  proof (cases r0)
    case (Inr x)
    then have "keeps_rows d1 d'" using d1(2) by (auto simp: insert_version_def keeps_rows_def split: sum.splits if_splits)
    then show ?thesis by (rule rows.kept_trans [OF used_up_rows [OF d1(1)]])
  qed (use d1 used_up_rows [OF d1(1)] in simp)
  then show ?thesis by (simp add: saveVersionBestEffort_def SaveVersion_def c rows.kept_refl)
qed

lemma publish_frame [simp]:
  "lc_loader (lc_publish e i s) = lc_loader s" "lc_manager (lc_publish e i s) = lc_manager s" "lc_kv (lc_publish e i s) = lc_kv s"
  "lc_state (lc_publish e i s) = lc_state s"
  by (auto simp: lc_publish_def split: option.split prod.split)

lemma publish_used: "used_up (lc_db s) (lc_db (lc_publish e i s))"
  by (auto simp: lc_publish_def used_up_refl split: option.split prod.split dest: used_up_next)

lemma command_frames [simp]:
  "lc_db (registerPluginCommands V wp s) = lc_db s" "lc_loader (registerPluginCommands V wp s) = lc_loader s"
  "lc_manager (registerPluginCommands V wp s) = lc_manager s" "lc_db (unregisterPluginCommands i s) = lc_db s"
  "lc_loader (unregisterPluginCommands i s) = lc_loader s" "lc_manager (unregisterPluginCommands i s) = lc_manager s"
  "lc_db (invalidatePluginPolicies i s) = lc_db s" "lc_loader (invalidatePluginPolicies i s) = lc_loader s"
  "lc_manager (invalidatePluginPolicies i s) = lc_manager s" "lc_db (manager_Register p s) = lc_db s"
  "lc_loader (manager_Register p s) = lc_loader s" "lc_db (manager_Remove i s) = lc_db s"
  "lc_loader (manager_Remove i s) = lc_loader s" "lc_db (lc_unload V i s) = lc_db s" "lc_manager (lc_unload V i s) = lc_manager s"
  by (simp_all add: registerPluginCommands_def unregisterPluginCommands_def invalidatePluginPolicies_def manager_Register_def
      manager_Remove_def lc_unload_def on_loader_def split: prod.split)

lemma manager_lookup [simp]:
  "map_of (lc_manager (manager_Remove i s)) i = None"
  "map_of (lc_manager (manager_Register p s)) (managed_ID p) = Some p"
  by (simp_all add: manager_Remove_def manager_Register_def delete_conv' update_conv')

lemma unload_table [simp]: "table (lc_loader (lc_unload V i s)) = (table (lc_loader s))(i := None)"
  using Unload_table [where E = "lv_loader V" and i = i and l = "lc_loader s"]
  by (auto simp: lc_unload_def on_loader_def split: prod.splits option.splits)

lemma drop_table: "table (fst (DropPluginData E i l)) = table l"
  by (auto simp: DropPluginData_def Let_def table_def split: option.split prod.split)

lemma loaded:
  assumes "loadPluginBytes V i b c s = (s', Inr wp)"
  shows "table (lc_loader s') = (table (lc_loader s))(i \<mapsto> (wp_meta wp, c)) \<and> lc_db s' = lc_db s \<and> lc_manager s' = lc_manager s"
proof -
  obtain s1 where l: "on_loader (LoadPluginFromBytes (lv_loader V) b c) s = (s1, Inr wp)"
    and e: "ensurePluginID V i (pm_ID (wp_meta wp)) s1 = (s', None)"
    using assms by (auto simp: loadPluginBytes_def split: prod.splits sum.splits option.splits)
  have "pm_ID (wp_meta wp) = i" "s' = s1" using ensurePluginID_ok [OF e] by auto
  moreover have "LoadPluginFromBytes (lv_loader V) b c (lc_loader s) = (lc_loader s1, Inr wp)" "lc_db s1 = lc_db s" "lc_manager s1 = lc_manager s"
    using l by (auto simp: on_loader_def split: prod.splits)
  ultimately show ?thesis
    using Load_table [where E = "lv_loader V" and b = b and c = c and l = "lc_loader s"] by simp
qed

lemma on_db_frame: "on_db f s = (s', x) \<Longrightarrow> lc_manager s' = lc_manager s \<and> lc_loader s' = lc_loader s"
  by (auto simp: on_db_def split: prod.splits)

lemma load_frame: "loadPluginBytes V i b c s = (s', r) \<Longrightarrow> lc_manager s' = lc_manager s \<and> lc_db s' = lc_db s"
  by (auto simp: loadPluginBytes_def on_loader_def ensurePluginID_def split: prod.splits sum.splits option.splits if_splits)

lemma undo_frame [simp]: "lc_manager (undo_install V i s) = lc_manager s"
  by (simp add: undo_install_def on_db_def split: prod.split)

lemma installed_frame:
  assumes "on_db (installStagedFrontend V i key) s = (s', None)"
  shows "keeps_rows (lc_db s) (lc_db s')"
  using on_db_cases [OF assms] installFrontend_rows [where d = "lc_db s" and V = V and i = i and key = key] by simp

lemma Install_failed:
  assumes "Install V i key config s = (s', Inl err)"
  shows "lc_manager s' = lc_manager s"
proof -
  obtain s1 r1 where g: "on_db (GetPluginRecord i) s = (s1, r1)" by fastforce
  obtain s2 r2 where rb: "on_db (readBlob key) s1 = (s2, r2)" by fastforce
  note frames = on_db_frame [OF g] on_db_frame [OF rb]
  show ?thesis
  proof (cases r1)
    case (Inl e)
    note r1 = this
    show ?thesis
    proof (cases r2)
      case (Inr b)
      obtain s3 r3 where l: "loadPluginBytes V i b config s2 = (s3, r3)" by fastforce
      show ?thesis
        using assms frames load_frame [OF l]
        by (auto simp: Install_def g r1 rb Inr l Let_def split: sum.splits prod.splits option.splits dest!: on_db_frame)
    qed (use assms frames g r1 rb in \<open>auto simp: Install_def\<close>)
  qed (use assms frames g in \<open>auto simp: Install_def\<close>)
qed

lemma Install_done:
  assumes "Install V i key config s = (s', Inr r)"
  shows "\<exists>b meta rec row.
       sto_files (lc_db s) (blob_path (lc_db s) key) = Some b \<and> pm_ID meta = i \<and>
       table (lc_loader s') = (table (lc_loader s))(i \<mapsto> (meta, config)) \<and>
       map_of (lc_manager s') i = Some (WasmManaged meta) \<and>
       map_of (sto_plugins (lc_db s')) i = Some rec \<and> prc_Enabled rec \<and> prc_WasmKey rec = key \<and>
       prc_WasmHash rec = hashWASM V b \<and> sto_jsonb (lc_db s) (json_or_null config) = Some (prc_ConfigJSON rec) \<and>
       sto_metadata (lc_db s') i = Some row \<and> pmr_Version row = pm_Version meta \<and> lr_Version r = pm_Version meta"
proof -
  obtain s1 e1 where g: "on_db (GetPluginRecord i) s = (s1, Inl e1)"
    using assms by (auto simp: Install_def split: prod.splits sum.splits)
  obtain s2 b where rb: "on_db (readBlob key) s1 = (s2, Inr b)"
    using assms by (auto simp: Install_def g split: prod.splits sum.splits)
  obtain s3 wp where l: "loadPluginBytes V i b config s2 = (s3, Inr wp)"
    using assms by (auto simp: Install_def g rb split: prod.splits sum.splits)
  let ?meta = "wp_meta wp" and ?now = "sto_now (lc_db s3)"
  have i: "pm_ID ?meta = i" by (rule loadPluginBytes_ok [OF l])
  define rec where "rec = \<lparr>prc_ID = i, prc_WasmKey = key, prc_ConfigJSON = config, prc_Enabled = True,
    prc_WasmHash = hashWASM V b, prc_InstalledAt = ?now, prc_UpdatedAt = ?now\<rparr>"
  obtain s4 where p: "on_db (persistPluginState rec (metadataRecordFromMeta V ?now ?meta)) s3 = (s4, None)"
    using assms by (auto simp: Install_def g rb l i Let_def rec_def split: prod.splits sum.splits option.splits)
  obtain s5 where f: "on_db (installStagedFrontend V i key) s4 = (s5, None)"
    using assms p by (auto simp: Install_def g rb l i Let_def rec_def [symmetric] split: prod.splits sum.splits option.splits)
  define ver where "ver = \<lparr>vr_ID = 0, vr_PluginID = i, vr_Version = pm_Version ?meta, vr_WasmKey = key,
    vr_WasmHash = hashWASM V b, vr_ConfigJSON = config, vr_Changelog = ''initial install'', vr_CreatedAt = 0\<rparr>"
  define s6 where "s6 = registerPluginCommands V wp (manager_Register (WasmManaged ?meta) s5)"
  have s': "s' = lc_publish ''plugin_installed'' i (s6\<lparr>lc_db := saveVersionBestEffort V ver (lc_db s5)\<rparr>)"
    and r: "lr_Version r = pm_Version ?meta"
    using assms p f by (auto simp: Install_def g rb l i Let_def rec_def ver_def s6_def)
  have d2: "used_up (lc_db s) (lc_db s2)"
    using GetPluginRecord_ok readBlob_ok on_db_cases [OF g] on_db_cases [OF rb] used_up_trans by blast
  have b: "sto_files (lc_db s) (blob_path (lc_db s) key) = Some b"
    using readBlob_ok [of key "lc_db s1"] on_db_cases [OF rb] GetPluginRecord_ok [of i "lc_db s"] on_db_cases [OF g]
      used_up_frame [of "lc_db s" "lc_db s1"] by fastforce
  have ld: "table (lc_loader s3) = (table (lc_loader s))(i \<mapsto> (?meta, config))" "lc_db s3 = lc_db s2"
    using loaded [OF l] on_db_frame [OF g] on_db_frame [OF rb] by simp_all
  obtain rec' row where rec': "map_of (sto_plugins (lc_db s4)) i = Some rec'" "prc_WasmKey rec' = key"
      "prc_WasmHash rec' = hashWASM V b" "prc_Enabled rec'" "sto_jsonb (lc_db s) (json_or_null config) = Some (prc_ConfigJSON rec')"
      "sto_metadata (lc_db s4) i = Some row" "pmr_Version row = pm_Version ?meta"
    using persist_ok [of rec "metadataRecordFromMeta V ?now ?meta" "lc_db s3" "lc_db s4"] on_db_cases [OF p] used_up_frame [OF d2]
    by (auto simp: rec_def i ld(2) metadataRecordFromMeta_def)
  have "keeps_rows (lc_db s4) (lc_db s')"
    using rows.kept_trans [OF rows.kept_trans [OF installed_frame [OF f] version_rows]
        used_up_rows [OF publish_used [of "s6\<lparr>lc_db := saveVersionBestEffort V ver (lc_db s5)\<rparr>" "''plugin_installed''" i,
          simplified]]]
    by (simp add: s')
  moreover have "map_of (lc_manager s') i = Some (WasmManaged ?meta)"
    using manager_lookup(2) [of "WasmManaged ?meta" s5] by (simp add: s' s6_def i)
  moreover have "table (lc_loader s') = (table (lc_loader s))(i \<mapsto> (?meta, config))"
    using ld(1) on_db_frame [OF p] on_db_frame [OF f] by (simp add: s' s6_def)
  ultimately show ?thesis using b i rec' r by (auto simp: keeps_rows_def)
qed


subsection \<open>Disabled and deleted plugins\<close>

lemma lc_db_on_db: "lc_db (fst (on_db f s)) = fst (f (lc_db s))"
  by (simp add: on_db_def split: prod.split)

definition row_gone :: "string \<Rightarrow> admin_db \<Rightarrow> bool" where
  "row_gone i d \<longleftrightarrow> map_of (sto_plugins d) i = None \<and> sto_metadata d i = None \<and> sto_frontends d i = None \<and>
     list_all (\<lambda>v. vr_PluginID v \<noteq> i) (sto_versions d)"

lemma row_gone_used: "used_up d d' \<Longrightarrow> row_gone i d \<Longrightarrow> row_gone i d'"
  using used_up_frame [of d d'] by (simp add: row_gone_def)

lemma row_gone_delete: "row_gone i (delete_plugin i d)"
  by (simp add: row_gone_def delete_plugin_def delete_conv' list_all_iff)

lemma row_gone_metadata: "row_gone i d \<Longrightarrow> row_gone i (fst (DeletePluginMetadata i d))"
proof -
  assume gone: "row_gone i d"
  let ?del = "\<lambda>d. (d\<lparr>sto_metadata := (sto_metadata d)(i := None)\<rparr>, sto_metadata d i \<noteq> None)"
  obtain d' r where c: "db_call (\<lambda>d. Inr (?del d)) d = (d', r)" by fastforce
  obtain d1 where d1: "used_up d d1" "case r of Inl _ \<Rightarrow> d' = d1 | Inr x \<Rightarrow> ?del d1 = (d', x)"
    using db_call_cases [OF c] by (cases r) auto
  have "row_gone i d1" by (rule row_gone_used [OF d1(1) gone])
  then have "row_gone i d'" using d1(2) by (cases r) (auto simp: row_gone_def)
  moreover have "fst (DeletePluginMetadata i d) = d'"
    unfolding DeletePluginMetadata_def delete_or_missing_def c by (simp add: wrap_result_def split: sum.split)
  ultimately show ?thesis by simp
qed

lemma row_gone_versions: "row_gone i d \<Longrightarrow> row_gone i (fst (DeleteVersionsByPlugin i d))"
proof -
  assume gone: "row_gone i d"
  obtain d' out where e: "DeleteVersionsByPlugin i d = (d', out)" by fastforce
  obtain d1 where d1: "used_up d d1"
    "case out of Some _ \<Rightarrow> d' = d1 | None \<Rightarrow> d1\<lparr>sto_versions := filter (\<lambda>v. vr_PluginID v \<noteq> i) (sto_versions d1)\<rparr> = d'"
    using db_exec_cases [OF e [unfolded DeleteVersionsByPlugin_def]] by (cases out) auto
  have "row_gone i d1" by (rule row_gone_used [OF d1(1) gone])
  then show ?thesis using d1(2) by (cases out) (auto simp: e row_gone_def list_all_iff)
qed

lemma Disable_done:
  assumes "keys_ok (lc_db s)" "Disable V i s = (s', Inr r)"
  shows "(\<exists>rec. map_of (sto_plugins (lc_db s')) i = Some rec \<and> \<not> prc_Enabled rec) \<and>
    (lr_Status r = ''already_disabled'' \<and> lc_manager s' = lc_manager s \<and> lc_loader s' = lc_loader s \<or>
     lr_Status r = ''disabled'' \<and> table (lc_loader s') = (table (lc_loader s))(i := None) \<and> map_of (lc_manager s') i = None)"
proof -
  obtain s1 rec where g: "on_db (GetPluginRecord i) s = (s1, Inr rec)"
    using assms(2) by (auto simp: Disable_def split: prod.splits sum.splits)
  have rec: "map_of (sto_plugins (lc_db s)) i = Some rec" "used_up (lc_db s) (lc_db s1)" and i: "prc_ID rec = i"
    using GetPluginRecord_ok on_db_cases [OF g] record_key [OF g assms(1)] by fastforce+
  show ?thesis
  proof (cases "prc_Enabled rec")
    case False
    then show ?thesis
      using assms(2) rec on_db_frame [OF g] used_up_frame [OF rec(2)] by (auto simp: Disable_def g status_result_def)
  next
    case True
    let ?rec = "rec\<lparr>prc_Enabled := False, prc_UpdatedAt := sto_now (lc_db s1)\<rparr>"
    obtain s2 where sv: "on_db (SavePlugin ?rec) s1 = (s2, None)"
      using assms(2) True by (auto simp: Disable_def g split: prod.splits option.splits)
    obtain d1 j inst where d1: "used_up (lc_db s1) d1"
      "lc_db s2 = d1\<lparr>sto_plugins := AList.update i (?rec\<lparr>prc_ConfigJSON := j, prc_InstalledAt := inst\<rparr>) (sto_plugins d1)\<rparr>"
      using SavePlugin_ok [of ?rec "lc_db s1"] on_db_cases [OF sv] i by auto
    let ?s3 = "manager_Remove i (lc_unload V i (unregisterPluginCommands i (invalidatePluginPolicies i s2)))"
    have s': "s' = lc_publish ''plugin_disabled'' i ?s3" "lr_Status r = ''disabled''"
      using assms(2) True by (auto simp: Disable_def g sv status_result_def)
    have "map_of (sto_plugins (lc_db s')) i = Some (?rec\<lparr>prc_ConfigJSON := j, prc_InstalledAt := inst\<rparr>)"
      using used_up_frame [OF publish_used [of ?s3 "''plugin_disabled''" i]] by (simp add: s'(1) d1(2) update_conv')
    moreover have "table (lc_loader s') = (table (lc_loader s))(i := None)" "map_of (lc_manager s') i = None"
      using on_db_frame [OF g] on_db_frame [OF sv] by (simp_all add: s'(1))
    ultimately show ?thesis using s'(2) by auto
  qed
qed

lemma Delete_done:
  assumes "Delete V i s = (s', Inr r)"
  shows "\<exists>rec. map_of (sto_plugins (lc_db s)) i = Some rec \<and> row_gone i (lc_db s') \<and> map_of (lc_manager s') i = None \<and>
    lc_kv s' = map_option (DropPlugin i) (lc_kv s) \<and> (if prc_Enabled rec then table (lc_loader s') i = None else True)"
proof -
  obtain s1 rec where g: "on_db (GetPluginRecord i) s = (s1, Inr rec)"
    using assms by (auto simp: Delete_def split: prod.splits sum.splits)
  let ?s1 = "unregisterPluginCommands i (invalidatePluginPolicies i s1)"
  obtain s2 mustUnload where l: "load_for_cleanup V rec ?s1 = (s2, mustUnload)" by fastforce
  define s4 where "s4 = (fst (on_loader (DropPluginData (lv_loader V) i) s2))\<lparr>lc_kv :=
      map_option (DropPlugin i) (lc_kv (fst (on_loader (DropPluginData (lv_loader V) i) s2)))\<rparr>"
  define s5 where "s5 = manager_Remove i (if mustUnload then lc_unload V i s4 else s4)"
  define s6 where "s6 = s5\<lparr>lc_db := delete_files V i (prc_WasmKey rec) (lc_db s5)\<rparr>"
  have del: "Delete V i s =
      (case on_db (DeletePluginRecord i) s6 of
         (s7, Some err) \<Rightarrow> (s7, Inl (Wrap ''delete plugin record: '' err ''''))
       | (s7, None) \<Rightarrow>
           (lc_publish ''plugin_uninstalled'' i
              (if lv_versions V then fst (on_db (DeleteVersionsByPlugin i) (fst (on_db (DeletePluginMetadata i) s7)))
               else fst (on_db (DeletePluginMetadata i) s7)), Inr (status_result i ''deleted'')))"
    unfolding Delete_def g l Let_def s4_def s5_def s6_def by (simp add: l)
  obtain s7 where d: "on_db (DeletePluginRecord i) s6 = (s7, None)"
    using assms by (auto simp: del split: prod.splits option.splits)
  let ?s8 = "fst (on_db (DeletePluginMetadata i) s7)"
  define s9 where "s9 = (if lv_versions V then fst (on_db (DeleteVersionsByPlugin i) ?s8) else ?s8)"
  have s': "s' = lc_publish ''plugin_uninstalled'' i s9"
    using assms d by (simp add: del s9_def)
  have rec: "map_of (sto_plugins (lc_db s)) i = Some rec" using GetPluginRecord_ok on_db_cases [OF g] by fastforce
  have "row_gone i (lc_db s7)" using DeletePluginRecord_ok on_db_cases [OF d] row_gone_delete by metis
  then have "row_gone i (lc_db s9)"
    using row_gone_metadata row_gone_versions by (simp add: s9_def lc_db_on_db)
  then have gone: "row_gone i (lc_db s')" unfolding s' by (rule row_gone_used [OF publish_used])
  have frame: "lc_manager s9 = lc_manager s5 \<and> lc_loader s9 = lc_loader s5 \<and> lc_kv s9 = lc_kv s5"
    using d by (auto simp: s9_def on_db_def s6_def split: prod.splits)
  have "lc_kv s2 = lc_kv s"
    using l g by (auto simp: load_for_cleanup_def on_db_def on_loader_def unregisterPluginCommands_def invalidatePluginPolicies_def
        split: if_splits prod.splits sum.splits)
  then have kv: "lc_kv s' = map_option (DropPlugin i) (lc_kv s)"
    by (simp add: s' frame s5_def s4_def manager_Remove_def lc_unload_def on_loader_def split: prod.split)
  have "table (lc_loader s') i = None" if "prc_Enabled rec"
    using l that by (simp add: s' frame s5_def load_for_cleanup_def)
  then show ?thesis using rec gone kv frame by (auto simp: s' s5_def)
qed


definition demo_running :: "(unit, unit, unit, unit, unit, unit, unit) lifecycle" where
  "demo_running =
     demo_admin\<lparr>lc_db := demo_db\<lparr>sto_plugins := map (\<lambda>(i, rec). (i, rec\<lparr>prc_Enabled := True\<rparr>)) (sto_plugins demo_db)\<rparr>\<rparr>"

lemma demo_disable: "\<exists>s'. Disable demo_admin_env ''q'' demo_running = (s', Inr (status_result ''q'' ''disabled''))"
  by (simp add: Disable_def on_db_def GetPluginRecord_def db_query_def db_call_def wrap_result_def next_outcome_def
      demo_running_def demo_admin_def demo_db_def SavePlugin_def db_exec_def as_error_def upsert_plugin_def to_jsonb_def)


subsection \<open>Rolling back\<close>

lemma sync_rows: "keeps_rows (lc_db s) (lc_db (syncPluginAfterReload V i old wp s))"
  unfolding syncPluginAfterReload_def Let_def
  by (simp add: lc_db_on_db store_rows rows.kept_refl)

lemma reload_rows:
  assumes "reloadOrProbePlugin V i enabled b c old s = (s', r)"
  shows "keeps_rows (lc_db s) (lc_db s')"
proof -
  have frame: "lc_db s1 = lc_db s" if "on_loader f s = (s1, x)" for f :: "_ \<Rightarrow> _ \<times> 'y" and s1 x
    using that by (auto simp: on_loader_def split: prod.splits)
  have sync: "keeps_rows (lc_db s) (lc_db (syncPluginAfterReload V i old wp s1))" if "lc_db s1 = lc_db s" for wp s1
    using sync_rows [of s1 V i old wp] that by simp
  show ?thesis
    using assms
    by (auto simp: reloadOrProbePlugin_def rows.kept_refl ensurePluginID_def split: if_splits prod.splits sum.splits option.splits
        dest!: frame intro: sync)
qed

lemma reload_runs:
  assumes "reloadOrProbePlugin V i True b c old s = (s', Inr meta)"
  shows "\<exists>c'. table (lc_loader s') i = Some (meta, if c = '''' then c' else c) \<and> pm_ID meta = i \<and>
    map_of (lc_manager s') i = Some (WasmManaged meta)"
proof -
  obtain s1 where r: "on_loader (ReloadPluginFromBytes (lv_loader V) i b c) s = (s1, None)"
    using assms by (auto simp: reloadOrProbePlugin_def split: prod.splits option.splits)
  obtain wp where wp: "GetPlugin (lc_loader s1) i = Some wp" "s' = syncPluginAfterReload V i old wp s1" "meta = wp_meta wp"
    using assms by (auto simp: reloadOrProbePlugin_def r split: option.splits)
  have i: "pm_ID meta = i" unfolding wp(3) by (rule reloaded_ID [OF r wp(1)])
  have "\<exists>c0 meta'. table (lc_loader s1) = (table (lc_loader s))(i \<mapsto> (meta', if c = '''' then c0 else c))"
    using Reload_table [where E = "lv_loader V" and i = i and b = b and c = c and l = "lc_loader s"]
    unfolding conjunct1 [OF on_loader_cases [OF r]] prod.case option.case by blast
  then obtain c0 meta' where t: "table (lc_loader s1) = (table (lc_loader s))(i \<mapsto> (meta', if c = '''' then c0 else c))"
    by blast
  have "meta' = meta" using wp(1,3) fun_cong [OF t, of i] by (auto simp: GetPlugin_def table_def)
  then have "table (lc_loader s1) i = Some (meta, if c = '''' then c0 else c)" using t by simp
  moreover have "lc_loader s' = lc_loader s1"
    unfolding wp(2) syncPluginAfterReload_def Let_def by (simp add: on_db_def split: prod.split)
  moreover have "map_of (lc_manager s') i = Some (WasmManaged meta)"
    using i unfolding wp(2) syncPluginAfterReload_def Let_def
    by (simp add: on_db_def wp(3) manager_Register_def update_conv' split: prod.split)
  ultimately show ?thesis using i by auto
qed

lemma currentVersion_used: "currentVersion i s = (s', x) \<Longrightarrow> used_up (lc_db s) (lc_db s') \<and> lc_loader s' = lc_loader s"
  using GetPluginMetadata_ok [of i "lc_db s"]
  by (auto simp: currentVersion_def on_db_def used_up_refl split: option.splits prod.splits sum.splits)

lemma Rollback_done:
  assumes "keys_ok (lc_db s)" "Rollback V i v s = (s', Inr r)"
  shows "\<exists>old ver b rec. map_of (sto_plugins (lc_db s)) i = Some old \<and>
    find (\<lambda>x. vr_ID x = v) (sto_versions (lc_db s)) = Some ver \<and> vr_PluginID ver = i \<and>
    sto_files (lc_db s) (blob_path (lc_db s) (vr_WasmKey ver)) = Some b \<and> hashWASM V b = vr_WasmHash ver \<and>
    map_of (sto_plugins (lc_db s')) i = Some rec \<and> prc_WasmKey rec = vr_WasmKey ver \<and> prc_WasmHash rec = hashWASM V b \<and>
    prc_Enabled rec = prc_Enabled old \<and> sto_jsonb (lc_db s) (json_or_null (vr_ConfigJSON ver)) = Some (prc_ConfigJSON rec) \<and>
    lr_NewVersion r = vr_Version ver \<and>
    (if prc_Enabled old
     then \<exists>meta c. table (lc_loader s') i = Some (meta, if vr_ConfigJSON ver = '''' then c else vr_ConfigJSON ver) \<and>
       pm_ID meta = i \<and> map_of (lc_manager s') i = Some (WasmManaged meta)
     else True)"
proof -
  have vs: "lv_versions V" using assms(2) by (auto simp: Rollback_def split: if_splits)
  obtain s1 old where g: "on_db (GetPluginRecord i) s = (s1, Inr old)"
    using assms(2) vs by (auto simp: Rollback_def split: prod.splits sum.splits)
  obtain s2 ver where gv: "on_db (GetVersionRecord v) s1 = (s2, Inr ver)"
    using assms(2) vs g by (auto simp: Rollback_def split: prod.splits sum.splits)
  have ver: "vr_PluginID ver = i" using assms(2) vs g gv by (auto simp: Rollback_def split: if_splits)
  obtain s3 b where rb: "on_db (readBlob (vr_WasmKey ver)) s2 = (s3, Inr b)"
    using assms(2) vs g gv ver by (auto simp: Rollback_def split: prod.splits sum.splits)
  have hash: "hashWASM V b = vr_WasmHash ver" using assms(2) vs g gv ver rb by (auto simp: Rollback_def split: if_splits)
  obtain s4 oldV where cv: "currentVersion i s3 = (s4, oldV)" by fastforce
  let ?old = "collectConfigurableTriggers i s3"
  obtain s5 meta where rl: "reloadOrProbePlugin V i (prc_Enabled old) b (vr_ConfigJSON ver) ?old s4 = (s5, Inr meta)"
    using assms(2) vs g gv ver rb hash cv by (auto simp: Rollback_def Let_def split: prod.splits sum.splits)
  define nrec where "nrec = old\<lparr>prc_WasmKey := vr_WasmKey ver, prc_WasmHash := vr_WasmHash ver,
    prc_ConfigJSON := vr_ConfigJSON ver, prc_UpdatedAt := sto_now (lc_db s5)\<rparr>"
  obtain s6 where p: "on_db (persistPluginState nrec (metadataRecordFromMeta V (sto_now (lc_db s5)) meta)) s5 = (s6, None)"
    using assms(2) vs g gv ver rb hash cv rl
    by (auto simp: Rollback_def Let_def nrec_def split: prod.splits option.splits)
  have s': "s' = lc_publish ''plugin_updated'' i s6" and r: "lr_NewVersion r = vr_Version ver"
    using assms(2) vs g gv ver rb hash cv rl p by (auto simp: Rollback_def Let_def nrec_def)
  have i: "prc_ID old = i" by (rule record_key [OF g assms(1)])
  have u1: "used_up (lc_db s) (lc_db s1)" and old: "map_of (sto_plugins (lc_db s)) i = Some old"
    using GetPluginRecord_ok [of i "lc_db s"] on_db_cases [OF g] by fastforce+
  have u2: "used_up (lc_db s) (lc_db s2)" and fv: "find (\<lambda>x. vr_ID x = v) (sto_versions (lc_db s)) = Some ver"
    using GetVersionRecord_ok [of v "lc_db s1"] on_db_cases [OF gv] used_up_trans [OF u1] used_up_frame [OF u1] by fastforce+
  have u3: "used_up (lc_db s) (lc_db s3)" and b: "sto_files (lc_db s) (blob_path (lc_db s) (vr_WasmKey ver)) = Some b"
    using readBlob_ok [of "vr_WasmKey ver" "lc_db s2"] on_db_cases [OF rb] used_up_trans [OF u2] used_up_frame [OF u2] by fastforce+
  have "keeps_rows (lc_db s) (lc_db s5)"
    using rows.kept_trans [OF used_up_rows [OF u3] rows.kept_trans [OF used_up_rows reload_rows [OF rl]]] currentVersion_used [OF cv]
    by blast
  then have j: "sto_jsonb (lc_db s5) = sto_jsonb (lc_db s)" by (simp add: keeps_rows_def)
  obtain rec where rec: "map_of (sto_plugins (lc_db s6)) i = Some rec" "prc_WasmKey rec = vr_WasmKey ver"
      "prc_WasmHash rec = vr_WasmHash ver" "prc_Enabled rec = prc_Enabled old"
      "sto_jsonb (lc_db s) (json_or_null (vr_ConfigJSON ver)) = Some (prc_ConfigJSON rec)"
    using persist_ok [of nrec "metadataRecordFromMeta V (sto_now (lc_db s5)) meta" "lc_db s5" "lc_db s6"] on_db_cases [OF p]
    by (auto simp: nrec_def i j)
  have "map_of (sto_plugins (lc_db s')) i = Some rec" using rec(1) used_up_frame [OF publish_used [of s6]] by (simp add: s')
  moreover have "if prc_Enabled old
     then \<exists>meta c. table (lc_loader s') i = Some (meta, if vr_ConfigJSON ver = '''' then c else vr_ConfigJSON ver) \<and>
       pm_ID meta = i \<and> map_of (lc_manager s') i = Some (WasmManaged meta) else True"
  proof (cases "prc_Enabled old")
    case True
    have "\<exists>c. table (lc_loader s5) i = Some (meta, if vr_ConfigJSON ver = '''' then c else vr_ConfigJSON ver) \<and>
       pm_ID meta = i \<and> map_of (lc_manager s5) i = Some (WasmManaged meta)"
      by (rule reload_runs) (use rl True in simp)
    then show ?thesis using True on_db_frame [OF p] unfolding s' publish_frame by auto
  qed simp
  ultimately show ?thesis using old fv ver b hash rec(2-5) r by auto
qed


definition demo_version :: version_record where
  "demo_version = \<lparr>vr_ID = 1, vr_PluginID = ''p'', vr_Version = ''0'', vr_WasmKey = ''p.wasm'', vr_WasmHash = hex_encode ''w'',
     vr_ConfigJSON = [], vr_Changelog = [], vr_CreatedAt = 0\<rparr>"

definition demo_updated :: "(unit, unit, unit, unit, unit, unit, unit) lifecycle" where
  "demo_updated =
     demo_admin\<lparr>lc_db := demo_db\<lparr>sto_versions := [demo_version],
       sto_plugins := [(''p'', \<lparr>prc_ID = ''p'', prc_WasmKey = ''new.wasm'', prc_ConfigJSON = ''null'', prc_Enabled = False,
                               prc_WasmHash = [], prc_InstalledAt = 0, prc_UpdatedAt = 0\<rparr>)]\<rparr>\<rparr>"

lemma demo_paths_admin: "path_Clean ''/b/p.wasm'' = ''/b/p.wasm''"
  by code_simp

lemma demo_probe_bytes: "\<exists>l. ProbeMetadataFromBytes demo_loader_env ''w'' demo_loader = (l, Inr demo_meta)"
  unfolding ProbeMetadataFromBytes_def demo_probe
  by (simp add: CompileModule_def requiredExports_def demo_loader_env_def demo_runtime_def Let_def)

lemma demo_rollback: "\<exists>s' r. Rollback demo_admin_env ''p'' 1 demo_updated = (s', Inr r)"
proof -
  obtain l where l: "ProbeMetadataFromBytes demo_loader_env ''w'' demo_loader = (l, Inr demo_meta)" using demo_probe_bytes by blast
  have env: "we_sha256 (rt_engine (le_rt demo_loader_env)) = id" "pm_ID demo_meta = ''p''" "pm_ConfigSchema demo_meta = []"
    by (simp_all add: demo_loader_env_def demo_runtime_def demo_meta_def)
  show ?thesis
    by (simp add: Rollback_def on_db_def on_loader_def GetPluginRecord_def GetVersionRecord_def db_query_def db_call_def wrap_result_def
      next_outcome_def demo_updated_def demo_admin_def demo_db_def demo_version_def readBlob_def blob_Open_def blob_Read_def blob_path_def
      demo_paths_admin hashWASM_def demo_admin_env_def currentVersion_def manager_Get_def GetPluginMetadata_def
      reloadOrProbePlugin_def l env ValidateConfigAgainstSchema_def metadataRecordFromMeta_def ensurePluginID_def Let_def persistPluginState_def SavePlugin_def db_exec_def as_error_def
      upsert_plugin_def to_jsonb_def SavePluginMetadata_def upsert_metadata_def)
qed


subsection \<open>Where operations fall short\<close>

text \<open>
  Record and metadata are not stored together: an enabling whose second statement fails reports an
  error and unloads the plugin, but its record says it is enabled, so enabling again does nothing.
\<close>

definition demo_flaky :: "(unit, unit, unit, unit, unit, unit, unit) lifecycle" where
  "demo_flaky =
     demo_updated\<lparr>lc_db := demo_db\<lparr>
       sto_plugins := [(''p'', \<lparr>prc_ID = ''p'', prc_WasmKey = ''p.wasm'', prc_ConfigJSON = [], prc_Enabled = False,
                               prc_WasmHash = [], prc_InstalledAt = 0, prc_UpdatedAt = 0\<rparr>)],
       sto_outcomes := [None, None, None, None, Some (Plain ''timeout'')]\<rparr>\<rparr>"

lemma failed_enable_stays_enabled:
  "\<exists>s' err rec. Enable demo_admin_env ''p'' demo_flaky = (s', Inl err) \<and> map_of (sto_plugins (lc_db s')) ''p'' = Some rec \<and>
     prc_Enabled rec \<and> table (lc_loader s') ''p'' = None \<and>
     (\<exists>s''. Enable demo_admin_env ''p'' s' = (s'', Inr (status_result ''p'' ''already_enabled'')))"
proof -
  obtain l wp where l: "LoadPluginFromBytes demo_loader_env ''w'' [] demo_loader = (l, Inr wp)" and wp: "wp_meta wp = demo_meta"
    using demo_loader_load by blast
  have env: "pm_ID demo_meta = ''p''" by (simp add: demo_meta_def)
  let ?fail = "\<lambda>s'. \<exists>err rec. Enable demo_admin_env ''p'' demo_flaky = (s', Inl err) \<and>
    map_of (sto_plugins (lc_db s')) ''p'' = Some rec \<and> prc_Enabled rec \<and> sto_outcomes (lc_db s') = [] \<and>
    table (lc_loader s') ''p'' = None"
  have "\<exists>s'. ?fail s'"
    by (simp add: Enable_def on_db_def on_loader_def GetPluginRecord_def db_query_def db_call_def wrap_result_def
      next_outcome_def demo_flaky_def demo_updated_def demo_admin_def demo_db_def readBlob_def blob_Open_def blob_Read_def
      blob_path_def demo_paths_admin demo_admin_env_def loadPluginBytes_def l wp env ensurePluginID_def Let_def
      persistPluginState_def SavePlugin_def db_exec_def as_error_def upsert_plugin_def to_jsonb_def SavePluginMetadata_def
      split: prod.split)
  then obtain s' err rec where s': "Enable demo_admin_env ''p'' demo_flaky = (s', Inl err)"
      "map_of (sto_plugins (lc_db s')) ''p'' = Some rec" "prc_Enabled rec" "sto_outcomes (lc_db s') = []"
      "table (lc_loader s') ''p'' = None" by blast
  have "\<exists>s''. Enable demo_admin_env ''p'' s' = (s'', Inr (status_result ''p'' ''already_enabled''))"
    by (simp add: Enable_def on_db_def GetPluginRecord_def db_query_def db_call_def wrap_result_def next_outcome_def s'(2-4))
  then show ?thesis using s'(1-3,5) by blast
qed

text \<open>
  The key under which an upload is stored determines neither plugin nor version, and is used as it is:
  a module that declares a name with parent segments is stored outside of the directory of the blobs,
  under a key that installing would refuse.
\<close>

lemma upload_key_collides:
  "upload_key (demo_meta\<lparr>pm_ID := ''a_1'', pm_Version := ''2''\<rparr>) = upload_key (demo_meta\<lparr>pm_ID := ''a'', pm_Version := ''1_2''\<rparr>)"
  by (simp add: upload_key_def)

lemma upload_escapes:
  "blob_path demo_db (upload_key (demo_meta\<lparr>pm_ID := ''../../etc/x''\<rparr>)) = ''/etc/x_1.wasm'' \<and>
   \<not> validateBlobKey (upload_key (demo_meta\<lparr>pm_ID := ''../../etc/x''\<rparr>))"
  by code_simp

text \<open>Two updates within a second share their key.\<close>

lemma update_key_collides: "t div Second = t' div Second \<Longrightarrow> update_key i t = update_key i t'"
  by (simp add: update_key_def)

text \<open>When the versions cannot be listed, the blob of a deleted version is taken for unused.\<close>

lemma unlisted_blob_unused: "ListVersions_of i d = (d', Inl err) \<Longrightarrow> blob_in_use i v key d = (d', False)"
  by (simp add: blob_in_use_def)

text \<open>
  A module that declares another plugin's identifier unloads that plugin when it is offered as an
  update of a disabled one: the probe loads nothing, but what is loaded under the identifier goes.
\<close>

lemma wrong_probe_unloads:
  assumes "ProbeMetadataFromBytes (lv_loader V) b (lc_loader s) = (l, Inr meta)" "pm_ID meta \<noteq> i" "pm_ID meta \<noteq> ''''"
  shows "table (lc_loader (fst (reloadOrProbePlugin V i False b c old s))) (pm_ID meta) = None \<and>
    lc_manager (fst (reloadOrProbePlugin V i False b c old s)) = lc_manager s"
  using assms by (simp add: reloadOrProbePlugin_def on_loader_def ensurePluginID_def)

end
