(* ===== verification/Users.thy ===== *)
theory Users
  imports Bot_Model
begin

text \<open>
  Users and their accounts in the messengers (\<^verbatim>\<open>internal/user\<close>): the repositories over PostgreSQL,
  the service that finds the user of an update or creates one, and the linking of accounts, by a code
  (\<^verbatim>\<open>linker.go\<close>) and by an account of the university (\<^verbatim>\<open>internal/auth/tsu/linker.go\<close>).
\<close>

subsection \<open>Tables\<close>

text \<open>
  Rows are in the order of their insertion. Only the columns that this part of the program writes are
  there. Profiles are JSON texts; \<open>ud_profile\<close> is the error of decoding one. The outcomes are those
  of the calls of the database to come, \<open>None\<close> for one that reaches it; afterwards all do.
\<close>

record user_row =
  ur_ID :: user_id
  ur_TsuAccountsID :: "string option"
  ur_PrimaryChannel :: channel_type
  ur_ProfileData :: "string option"
  ur_Locale :: "string option"
  ur_Role :: string

record account_row =
  ar_ID :: int
  ar_ChannelType :: channel_type
  ar_ChannelUserID :: string
  ar_GlobalUserID :: user_id
  ar_Username :: "string option"

record person_row =
  pe_ExternalID :: "string option"
  pe_GlobalUserID :: "user_id option"

record user_db =
  ud_users :: "user_row list"
  ud_accounts :: "account_row list"
  ud_persons :: "person_row list"
  ud_nextUser :: user_id
  ud_nextAccount :: int
  ud_outcomes :: "go_error option list"
  ud_profile :: "string \<Rightarrow> go_error option"
  ud_locale :: string

text \<open>A user as the program has it: with the identifier at the university and the profile.\<close>

record stored_user = global_user +
  su_TsuAccountsID :: "string option"
  su_ProfileData :: "string option"

definition user_outcome :: "user_db \<Rightarrow> user_db \<times> go_error option" where
  "user_outcome d =
     (case ud_outcomes d of [] \<Rightarrow> (d, None) | out # outs \<Rightarrow> (d\<lparr>ud_outcomes := outs\<rparr>, out))"

text \<open>A statement: the outcome of reaching the database, then its own.\<close>

definition ud_stmt ::
    "string \<Rightarrow> (user_db \<Rightarrow> go_error + user_db \<times> 'a) \<Rightarrow> user_db \<Rightarrow> user_db \<times> (go_error + 'a)" where
  "ud_stmt what stmt d =
     (case user_outcome d of
        (d1, Some err) \<Rightarrow> (d1, Inl (Wrap what err ''''))
      | (d1, None) \<Rightarrow>
          (case stmt d1 of Inl err \<Rightarrow> (d1, Inl (Wrap what err '''')) | Inr (d2, x) \<Rightarrow> (d2, Inr x)))"

definition violates :: "string \<Rightarrow> go_error" where
  "violates constraint = Plain (''violates constraint '' @ quote constraint)"

subsection \<open>Repository of users (pg\_store.go)\<close>

text \<open>
  The loop over rows ends at the first error of the cursor, which nobody asks for: what was read so
  far is the result. The username is not among the columns.
\<close>

fun read_accounts :: "account_row list \<Rightarrow> user_db \<Rightarrow> user_db \<times> channel_account list" where
  "read_accounts [] d = (d, [])"
| "read_accounts (r # rs) d =
     (case user_outcome d of
        (d1, Some _) \<Rightarrow> (d1, [])
      | (d1, None) \<Rightarrow>
          (case read_accounts rs d1 of
             (d2, accs) \<Rightarrow>
               (d2, \<lparr>ca_ID = ar_ID r, ca_ChannelType = ar_ChannelType r, ca_ChannelUserID = ar_ChannelUserID r,
                     ca_GlobalUserID = ar_GlobalUserID r, ca_Username = ''''\<rparr> # accs)))"

definition accounts_of :: "user_id \<Rightarrow> user_db \<Rightarrow> account_row list" where
  "accounts_of u d = filter (\<lambda>r. ar_GlobalUserID r = u) (ud_accounts d)"

definition FindByGlobalUserID :: "user_id \<Rightarrow> user_db \<Rightarrow> user_db \<times> (go_error + channel_account list)" where
  "FindByGlobalUserID u d =
     (case ud_stmt (''find accounts for user '' @ FormatInt u @ '': '') (\<lambda>d. Inr (d, accounts_of u d)) d of
        (d1, Inl err) \<Rightarrow> (d1, Inl err)
      | (d1, Inr rows) \<Rightarrow> (case read_accounts rows d1 of (d2, accs) \<Rightarrow> (d2, Inr accs)))"

definition profile_error :: "user_id \<Rightarrow> string option \<Rightarrow> user_db \<Rightarrow> go_error option" where
  "profile_error u prof d =
     (case prof of
        None \<Rightarrow> None
      | Some p \<Rightarrow>
          if p = '''' then None
          else map_option (\<lambda>err. Wrap (''unmarshal profile data for user '' @ FormatInt u @ '': '') err '''') (ud_profile d p))"

definition FindByID :: "user_id \<Rightarrow> user_db \<Rightarrow> user_db \<times> (go_error + stored_user option)" where
  "FindByID u d =
     (case ud_stmt (''find user '' @ FormatInt u @ '': '') (\<lambda>d. Inr (d, find (\<lambda>r. ur_ID r = u) (ud_users d))) d of
        (d1, Inl err) \<Rightarrow> (d1, Inl err)
      | (d1, Inr None) \<Rightarrow> (d1, Inr None)
      | (d1, Inr (Some r)) \<Rightarrow>
          (case profile_error u (ur_ProfileData r) d1 of
             Some err \<Rightarrow> (d1, Inl err)
           | None \<Rightarrow>
               (case FindByGlobalUserID u d1 of
                  (d2, Inl err) \<Rightarrow> (d2, Inl err)
                | (d2, Inr accs) \<Rightarrow>
                    (d2, Inr (Some \<lparr>gu_ID = ur_ID r, gu_PrimaryChannel = ur_PrimaryChannel r,
                       gu_Locale = (case ur_Locale r of None \<Rightarrow> '''' | Some l \<Rightarrow> l), gu_Role = ur_Role r, gu_Accounts = accs,
                       su_TsuAccountsID = ur_TsuAccountsID r, su_ProfileData = ur_ProfileData r\<rparr>)))))"

definition or_default :: "string \<Rightarrow> string \<Rightarrow> string" where
  "or_default dflt s = (if s = '''' then dflt else s)"

definition SaveUser :: "stored_user \<Rightarrow> user_db \<Rightarrow> user_db \<times> (go_error + stored_user)" where
  "SaveUser u d =
     (let role = or_default ''USER'' (gu_Role u);
          loc = or_default (ud_locale d) (gu_Locale u)
      in if gu_ID u = 0
         then ud_stmt ''insert user: ''
                (\<lambda>d. Inr (d\<lparr>ud_users := ud_users d @
                            [\<lparr>ur_ID = ud_nextUser d, ur_TsuAccountsID = None, ur_PrimaryChannel = gu_PrimaryChannel u,
                              ur_ProfileData = su_ProfileData u, ur_Locale = Some loc, ur_Role = role\<rparr>],
                            ud_nextUser := ud_nextUser d + 1\<rparr>, u\<lparr>gu_ID := ud_nextUser d\<rparr>)) d
         else ud_stmt (''update user '' @ FormatInt (gu_ID u) @ '': '')
                (\<lambda>d. Inr (d\<lparr>ud_users := map (\<lambda>r. if ur_ID r = gu_ID u
                       then r\<lparr>ur_PrimaryChannel := gu_PrimaryChannel u, ur_ProfileData := su_ProfileData u,
                              ur_Locale := Some loc, ur_Role := role\<rparr> else r) (ud_users d)\<rparr>, u)) d)"

definition FindByTsuAccountsID :: "string \<Rightarrow> user_db \<Rightarrow> user_db \<times> (go_error + stored_user option)" where
  "FindByTsuAccountsID tsu d =
     (case ud_stmt (''find user by tsu_accounts_id '' @ tsu @ '': '')
             (\<lambda>d. Inr (d, find (\<lambda>r. ur_TsuAccountsID r = Some tsu) (ud_users d))) d of
        (d1, Inl err) \<Rightarrow> (d1, Inl err)
      | (d1, Inr None) \<Rightarrow> (d1, Inr None)
      | (d1, Inr (Some r)) \<Rightarrow> FindByID (ur_ID r) d1)"

text \<open>A user with accounts cannot be deleted; persons forget their user.\<close>

definition DeleteUser :: "user_id \<Rightarrow> user_db \<Rightarrow> user_db \<times> go_error option" where
  "DeleteUser u d =
     (case ud_stmt (''delete user '' @ FormatInt u @ '': '')
             (\<lambda>d. if accounts_of u d \<noteq> [] then Inl (violates ''fk_channel_accounts_global_user'')
                  else Inr (d\<lparr>ud_users := filter (\<lambda>r. ur_ID r \<noteq> u) (ud_users d),
                              ud_persons := map (\<lambda>p. if pe_GlobalUserID p = Some u then p\<lparr>pe_GlobalUserID := None\<rparr> else p)
                                (ud_persons d)\<rparr>, ())) d of
        (d1, Inl err) \<Rightarrow> (d1, Some err) | (d1, Inr _) \<Rightarrow> (d1, None))"

text \<open>An update that concerns no row is an error.\<close>

definition update_user ::
    "string \<Rightarrow> user_id \<Rightarrow> (user_row \<Rightarrow> user_row) \<Rightarrow> user_db \<Rightarrow> user_db \<times> go_error option" where
  "update_user what u f d =
     (case ud_stmt (what @ FormatInt u @ '': '')
             (\<lambda>d. Inr (d\<lparr>ud_users := map (\<lambda>r. if ur_ID r = u then f r else r) (ud_users d)\<rparr>,
                       list_ex (\<lambda>r. ur_ID r = u) (ud_users d))) d of
        (d1, Inl err) \<Rightarrow> (d1, Some err)
      | (d1, Inr affected) \<Rightarrow> (d1, if affected then None else Some (Plain (''user '' @ FormatInt u @ '' not found''))))"

definition SetTsuAccountsID :: "user_id \<Rightarrow> string \<Rightarrow> user_db \<Rightarrow> user_db \<times> go_error option" where
  "SetTsuAccountsID u tsu = update_user ''set tsu_accounts_id for user '' u (\<lambda>r. r\<lparr>ur_TsuAccountsID := Some tsu\<rparr>)"

definition UpdateLocale :: "user_id \<Rightarrow> string \<Rightarrow> user_db \<Rightarrow> user_db \<times> go_error option" where
  "UpdateLocale u loc = update_user ''update locale for user '' u (\<lambda>r. r\<lparr>ur_Locale := Some loc\<rparr>)"

subsection \<open>Repository of accounts (pg\_store.go)\<close>

definition FindByChannelAndPlatformID ::
    "channel_type \<Rightarrow> string \<Rightarrow> user_db \<Rightarrow> user_db \<times> (go_error + channel_account option)" where
  "FindByChannelAndPlatformID ct pid d =
     ud_stmt (''find account '' @ ct @ ''/'' @ pid @ '': '')
       (\<lambda>d. Inr (d, map_option (\<lambda>r. \<lparr>ca_ID = ar_ID r, ca_ChannelType = ar_ChannelType r, ca_ChannelUserID = ar_ChannelUserID r,
                                 ca_GlobalUserID = ar_GlobalUserID r,
                                 ca_Username = (case ar_Username r of None \<Rightarrow> '''' | Some n \<Rightarrow> n)\<rparr>)
                   (find (\<lambda>r. ar_ChannelType r = ct \<and> ar_ChannelUserID r = pid) (ud_accounts d)))) d"

definition null_if_empty :: "string \<Rightarrow> string option" where
  "null_if_empty s = (if s = '''' then None else Some s)"

text \<open>A channel has a platform's user once, and an account has an existing user.\<close>

definition insert_account :: "channel_account \<Rightarrow> user_db \<Rightarrow> go_error + user_db \<times> channel_account" where
  "insert_account a d =
     (if list_ex (\<lambda>r. ar_ChannelType r = ca_ChannelType a \<and> ar_ChannelUserID r = ca_ChannelUserID a) (ud_accounts d)
      then Inl (violates ''uq_channel_accounts_type_user_id'')
      else if \<not> list_ex (\<lambda>r. ur_ID r = ca_GlobalUserID a) (ud_users d)
      then Inl (violates ''fk_channel_accounts_global_user'')
      else Inr (d\<lparr>ud_accounts := ud_accounts d @
                  [\<lparr>ar_ID = ud_nextAccount d, ar_ChannelType = ca_ChannelType a, ar_ChannelUserID = ca_ChannelUserID a,
                    ar_GlobalUserID = ca_GlobalUserID a, ar_Username = null_if_empty (ca_Username a)\<rparr>],
                  ud_nextAccount := ud_nextAccount d + 1\<rparr>, a\<lparr>ca_ID := ud_nextAccount d\<rparr>))"

definition update_account :: "channel_account \<Rightarrow> user_db \<Rightarrow> go_error + user_db \<times> channel_account" where
  "update_account a d =
     (if \<not> list_ex (\<lambda>r. ar_ID r = ca_ID a) (ud_accounts d) then Inr (d, a)
      else if list_ex (\<lambda>r. ar_ID r \<noteq> ca_ID a \<and> ar_ChannelType r = ca_ChannelType a \<and> ar_ChannelUserID r = ca_ChannelUserID a)
                (ud_accounts d)
      then Inl (violates ''uq_channel_accounts_type_user_id'')
      else if \<not> list_ex (\<lambda>r. ur_ID r = ca_GlobalUserID a) (ud_users d)
      then Inl (violates ''fk_channel_accounts_global_user'')
      else Inr (d\<lparr>ud_accounts := map (\<lambda>r. if ar_ID r = ca_ID a
                   then r\<lparr>ar_ChannelType := ca_ChannelType a, ar_ChannelUserID := ca_ChannelUserID a,
                          ar_GlobalUserID := ca_GlobalUserID a,
                          ar_Username := (case null_if_empty (ca_Username a) of Some n \<Rightarrow> Some n | None \<Rightarrow> ar_Username r)\<rparr>
                   else r) (ud_accounts d)\<rparr>, a))"

definition SaveAccount :: "channel_account \<Rightarrow> user_db \<Rightarrow> user_db \<times> (go_error + channel_account)" where
  "SaveAccount a d =
     (if ca_ID a = 0 then ud_stmt ''insert account: '' (insert_account a) d
      else ud_stmt (''update account '' @ FormatInt (ca_ID a) @ '': '') (update_account a) d)"

subsection \<open>Service (service.go)\<close>

definition new_user :: "channel_type \<Rightarrow> string \<Rightarrow> stored_user" where
  "new_user ct loc =
     \<lparr>gu_ID = 0, gu_PrimaryChannel = ct, gu_Locale = loc, gu_Role = '''', gu_Accounts = [],
      su_TsuAccountsID = None, su_ProfileData = None\<rparr>"

text \<open>Creating the user of an account, the account last.\<close>

definition create_user :: "channel_type \<Rightarrow> string \<Rightarrow> string \<Rightarrow> user_db \<Rightarrow> user_db \<times> (go_error + stored_user)" where
  "create_user ct pid uname d =
     (case SaveUser (new_user ct (ud_locale d)) d of
        (d1, Inl err) \<Rightarrow> (d1, Inl err)
      | (d1, Inr saved) \<Rightarrow>
          (case SaveAccount \<lparr>ca_ID = 0, ca_ChannelType = ct, ca_ChannelUserID = pid, ca_GlobalUserID = gu_ID saved,
                              ca_Username = uname\<rparr> d1 of
             (d2, Inl err) \<Rightarrow> (d2, Inl err)
           | (d2, Inr account) \<Rightarrow> (d2, Inr (saved\<lparr>gu_Accounts := [account]\<rparr>))))"

definition FindOrCreateUser ::
    "channel_type \<Rightarrow> string \<Rightarrow> string \<Rightarrow> user_db \<Rightarrow> user_db \<times> (go_error + stored_user)" where
  "FindOrCreateUser ct pid uname d =
     (case FindByChannelAndPlatformID ct pid d of
        (d1, Inl err) \<Rightarrow> (d1, Inl err)
      | (d1, Inr None) \<Rightarrow> create_user ct pid uname d1
      | (d1, Inr (Some account)) \<Rightarrow>
          (let d2 = (if uname \<noteq> '''' \<and> ca_Username account \<noteq> uname
                     then fst (SaveAccount (account\<lparr>ca_Username := uname\<rparr>) d1) else d1)
           in case FindByID (ca_GlobalUserID account) d2 of
                (d3, Inl err) \<Rightarrow> (d3, Inl err)
              | (d3, Inr (Some user)) \<Rightarrow> (d3, Inr user)
              | (d3, Inr None) \<Rightarrow> create_user ct pid uname d3))"

subsection \<open>Linking by a code (linker.go)\<close>

definition codeTTL :: duration where "codeTTL = 5 * Minute"
definition codeLength :: nat where "codeLength = 6"
definition codeChars :: string where "codeChars = ''ABCDEFGHJKLMNPQRSTUVWXYZ23456789''"

text \<open>The draws of the random generator, each below the number of characters, or its error.\<close>

definition generateCode :: "go_error option \<times> nat list \<Rightarrow> go_error + string" where
  "generateCode draws =
     (case draws of
        (Some err, _) \<Rightarrow> Inl err
      | (None, ns) \<Rightarrow> Inr (map (\<lambda>n. codeChars ! (n mod length codeChars)) (take codeLength ns)))"

datatype link_result = LinkError string | LinkCodeGenerated string | LinkLinked string

type_synonym link_codes = "string \<rightharpoonup> user_id \<times> instant"

definition InitiateLinking ::
    "go_error option \<times> nat list \<Rightarrow> instant \<Rightarrow> user_id \<Rightarrow> link_codes \<Rightarrow> link_codes \<times> link_result" where
  "InitiateLinking draws now u codes =
     (let codes1 = (\<lambda>c. case codes c of Some (v, t) \<Rightarrow> if v = u then None else Some (v, t) | None \<Rightarrow> None)
      in case generateCode draws of
           Inl _ \<Rightarrow> (codes1, LinkError ''Failed to generate link code.'')
         | Inr code \<Rightarrow> (codes1(code \<mapsto> (u, now + codeTTL)), LinkCodeGenerated code))"

text \<open>Giving accounts to another user one by one, up to the first error.\<close>

fun move_accounts :: "user_id \<Rightarrow> channel_account list \<Rightarrow> user_db \<Rightarrow> user_db \<times> go_error option" where
  "move_accounts u [] d = (d, None)"
| "move_accounts u (a # as) d =
     (case SaveAccount (a\<lparr>ca_GlobalUserID := u\<rparr>) d of
        (d1, Inl err) \<Rightarrow> (d1, Some err) | (d1, Inr _) \<Rightarrow> move_accounts u as d1)"

definition CompleteLinking ::
    "instant \<Rightarrow> user_id \<Rightarrow> string \<Rightarrow> link_codes \<times> user_db \<Rightarrow> (link_codes \<times> user_db) \<times> link_result" where
  "CompleteLinking now u code st =
     (case st of (codes, d) \<Rightarrow>
        case codes code of
          None \<Rightarrow> ((codes, d), LinkError ''Invalid link code.'')
        | Some (src, expires) \<Rightarrow>
            (let codes1 = codes(code := None)
             in if now > expires
                then ((codes1, d), LinkError ''Link code has expired. Please generate a new one.'')
                else if src = u
                then ((codes1, d), LinkError ''Cannot link to yourself. Use the code from a different platform.'')
                else case FindByGlobalUserID src d of
                       (d1, Inl err) \<Rightarrow> ((codes1, d1), LinkError (''Failed to find accounts: '' @ error_text err))
                     | (d1, Inr accounts) \<Rightarrow>
                         (case move_accounts u accounts d1 of
                            (d2, Some err) \<Rightarrow> ((codes1, d2), LinkError (''Failed to link account: '' @ error_text err))
                          | (d2, None) \<Rightarrow>
                              ((codes1, d2), LinkLinked (''Accounts linked successfully! '' @
                                 FormatInt (int (length accounts)) @ '' account(s) merged.'')))))"

subsection \<open>Linking by an account of the university (person\_linker.go, tsu/linker.go)\<close>

definition LinkByExternalID :: "user_id \<Rightarrow> string \<Rightarrow> user_db \<Rightarrow> user_db \<times> go_error option" where
  "LinkByExternalID u ext d =
     (case ud_stmt (''auto-link person by external_id '' @ ext @ '': '')
             (\<lambda>d. Inr (d\<lparr>ud_persons := map (\<lambda>p. if pe_ExternalID p = Some ext \<and> pe_GlobalUserID p = None
                          then p\<lparr>pe_GlobalUserID := Some u\<rparr> else p) (ud_persons d)\<rparr>, ())) d of
        (d1, Inl err) \<Rightarrow> (d1, Some err) | (d1, Inr _) \<Rightarrow> (d1, None))"

text \<open>
  The notifier sends to an account of a channel; the world has the messages. Its errors are logged.
\<close>

type_synonym 'w tsu_notifier = "channel_type \<Rightarrow> string \<Rightarrow> string \<Rightarrow> 'w \<Rightarrow> 'w"

definition ChannelWeb :: channel_type where "ChannelWeb = ''WEB''"

definition notifyLinked :: "(string \<Rightarrow> string) \<Rightarrow> 'w tsu_notifier option \<Rightarrow> user_id \<Rightarrow> user_db \<times> 'w \<Rightarrow> user_db \<times> 'w" where
  "notifyLinked linked_text notifier u st =
     (case (notifier, st) of
        (None, _) \<Rightarrow> st
      | (Some send, (d, w)) \<Rightarrow>
          (case FindByID u d of (d1, r) \<Rightarrow>
             let loc = (case r of Inr (Some user) \<Rightarrow> or_default ''ru'' (gu_Locale user) | _ \<Rightarrow> ''ru'')
             in case FindByGlobalUserID u d1 of
                  (d2, Inl _) \<Rightarrow> (d2, w)
                | (d2, Inr accounts) \<Rightarrow>
                    (d2, fold (\<lambda>a. send (ca_ChannelType a) (ca_ChannelUserID a) (linked_text loc))
                           (filter (\<lambda>a. ca_ChannelType a \<noteq> ChannelWeb) accounts) w)))"

definition linkSameUser ::
    "(string \<Rightarrow> string) \<Rightarrow> 'w tsu_notifier option \<Rightarrow> user_id \<Rightarrow> string \<Rightarrow> user_db \<times> 'w \<Rightarrow> (user_db \<times> 'w) \<times> go_error option" where
  "linkSameUser txt notifier u tsu st =
     (case st of (d, w) \<Rightarrow>
        case SetTsuAccountsID u tsu (fst (LinkByExternalID u tsu d)) of
          (d1, Some err) \<Rightarrow> ((d1, w), Some err)
        | (d1, None) \<Rightarrow> (notifyLinked txt notifier u (d1, w), None))"

definition linkNewAccount ::
    "(string \<Rightarrow> string) \<Rightarrow> 'w tsu_notifier option \<Rightarrow> user_id \<Rightarrow> string \<Rightarrow> user_db \<times> 'w \<Rightarrow> (user_db \<times> 'w) \<times> go_error option" where
  "linkNewAccount txt notifier u tsu st =
     (case st of (d, w) \<Rightarrow>
        case SetTsuAccountsID u tsu d of
          (d1, Some err) \<Rightarrow> ((d1, w), Some err)
        | (d1, None) \<Rightarrow> (notifyLinked txt notifier u (fst (LinkByExternalID u tsu d1), w), None))"

definition mergeInto ::
    "(string \<Rightarrow> string) \<Rightarrow> 'w tsu_notifier option \<Rightarrow> user_id \<Rightarrow> user_id \<Rightarrow> string \<Rightarrow> user_db \<times> 'w \<Rightarrow>
     (user_db \<times> 'w) \<times> go_error option" where
  "mergeInto txt notifier src dst tsu st =
     (case st of (d, w) \<Rightarrow>
        case FindByGlobalUserID src d of
          (d1, Inl err) \<Rightarrow> ((d1, w), Some err)
        | (d1, Inr accounts) \<Rightarrow>
            (case move_accounts dst accounts d1 of
               (d2, Some err) \<Rightarrow> ((d2, w), Some err)
             | (d2, None) \<Rightarrow>
                 (notifyLinked txt notifier dst (fst (LinkByExternalID dst tsu (fst (DeleteUser src d2))), w), None)))"

definition Tsu_Link ::
    "(string \<Rightarrow> string) \<Rightarrow> 'w tsu_notifier option \<Rightarrow> user_id \<Rightarrow> string \<Rightarrow> user_db \<times> 'w \<Rightarrow> (user_db \<times> 'w) \<times> go_error option" where
  "Tsu_Link txt notifier u tsu st =
     (case st of (d, w) \<Rightarrow>
        case FindByTsuAccountsID tsu d of
          (d1, Inl err) \<Rightarrow> ((d1, w), Some err)
        | (d1, Inr (Some existing)) \<Rightarrow>
            if gu_ID existing = u then linkSameUser txt notifier u tsu (d1, w)
            else mergeInto txt notifier u (gu_ID existing) tsu (d1, w)
        | (d1, Inr None) \<Rightarrow> linkNewAccount txt notifier u tsu (d1, w))"

text \<open>The user of a login in the browser (\<^verbatim>\<open>ensureWebUser\<close> of tsu/handler.go).\<close>

definition ensureWebUser :: "bool \<Rightarrow> string \<Rightarrow> user_db \<Rightarrow> user_db \<times> (go_error + user_id)" where
  "ensureWebUser personLinker tsu d =
     (let autolink = (\<lambda>u d. if personLinker then fst (LinkByExternalID u tsu d) else d)
      in case FindByTsuAccountsID tsu d of
           (d1, Inl err) \<Rightarrow> (d1, Inl err)
         | (d1, Inr (Some existing)) \<Rightarrow> (autolink (gu_ID existing) d1, Inr (gu_ID existing))
         | (d1, Inr None) \<Rightarrow>
             (case SaveUser (new_user ChannelWeb (ud_locale d1)) d1 of
                (d2, Inl err) \<Rightarrow> (d2, Inl err)
              | (d2, Inr saved) \<Rightarrow>
                  (case SetTsuAccountsID (gu_ID saved) tsu d2 of
                     (d3, Some err) \<Rightarrow> (d3, Inl err)
                   | (d3, None) \<Rightarrow> (autolink (gu_ID saved) d3, Inr (gu_ID saved)))))"

subsection \<open>Accounts and their owners\<close>

text \<open>
  Identifiers are unique and already given out, a channel has a platform's user once, and every
  account belongs to a user.
\<close>

definition users_ok :: "user_db \<Rightarrow> bool" where
  "users_ok d \<longleftrightarrow>
     distinct (map ur_ID (ud_users d)) \<and> (\<forall>r\<in>set (ud_users d). 0 < ur_ID r \<and> ur_ID r < ud_nextUser d) \<and> 0 < ud_nextUser d \<and>
     distinct (map ar_ID (ud_accounts d)) \<and> (\<forall>r\<in>set (ud_accounts d). 0 < ar_ID r \<and> ar_ID r < ud_nextAccount d) \<and>
     0 < ud_nextAccount d \<and>
     distinct (map (\<lambda>r. (ar_ChannelType r, ar_ChannelUserID r)) (ud_accounts d)) \<and>
     (\<forall>r\<in>set (ud_accounts d). ar_GlobalUserID r \<in> ur_ID ` set (ud_users d))"

definition owner :: "user_db \<Rightarrow> channel_type \<Rightarrow> string \<Rightarrow> user_id option" where
  "owner d ct pid =
     map_option ar_GlobalUserID (find (\<lambda>r. ar_ChannelType r = ct \<and> ar_ChannelUserID r = pid) (ud_accounts d))"

text \<open>From one state to another: no account is lost, and an owner changes only to one of the targets.\<close>

definition keeps_owners :: "user_id set \<Rightarrow> user_db \<Rightarrow> user_db \<Rightarrow> bool" where
  "keeps_owners targets d d' \<longleftrightarrow>
     (users_ok d \<longrightarrow> users_ok d' \<and>
      (\<forall>ct pid v. owner d ct pid = Some v \<longrightarrow> (\<exists>v'. owner d' ct pid = Some v' \<and> (v' = v \<or> v' \<in> targets))))"

lemma keeps_refl [simp]: "keeps_owners T d d"
  by (auto simp: keeps_owners_def)

lemma keeps_trans: "keeps_owners T d d1 \<Longrightarrow> keeps_owners T d1 d2 \<Longrightarrow> keeps_owners T d d2"
  unfolding keeps_owners_def by (metis (no_types, lifting))

lemma keeps_more: "keeps_owners T d d' \<Longrightarrow> T \<subseteq> T' \<Longrightarrow> keeps_owners T' d d'"
  unfolding keeps_owners_def by blast

lemma users_ok_outcomes [simp]: "users_ok (d\<lparr>ud_outcomes := os\<rparr>) = users_ok d"
  by (simp add: users_ok_def)

lemma owner_outcomes [simp]: "owner (d\<lparr>ud_outcomes := os\<rparr>) = owner d"
  by (simp add: owner_def fun_eq_iff)

lemma keeps_same: "ud_accounts d' = ud_accounts d \<Longrightarrow> (users_ok d \<Longrightarrow> users_ok d') \<Longrightarrow> keeps_owners T d d'"
  by (auto simp: keeps_owners_def owner_def)

definition ud_used :: "user_db \<Rightarrow> user_db \<Rightarrow> bool" where
  "ud_used d d' \<longleftrightarrow> (\<exists>os. d' = d\<lparr>ud_outcomes := os\<rparr>)"

lemma ud_used_refl [simp]: "ud_used d d"
  unfolding ud_used_def by (rule exI [of _ "ud_outcomes d"]) simp

lemma ud_used_trans: "ud_used d d1 \<Longrightarrow> ud_used d1 d2 \<Longrightarrow> ud_used d d2"
  by (auto simp: ud_used_def)

lemma ud_used_keeps: "ud_used d d' \<Longrightarrow> keeps_owners T d d'"
  by (auto simp: ud_used_def keeps_owners_def)

lemma outcome_used: "user_outcome d = (d', out) \<Longrightarrow> ud_used d d'"
proof -
  assume "user_outcome d = (d', out)"
  then show "ud_used d d'"
    by (cases "ud_outcomes d") (auto simp: user_outcome_def ud_used_def intro: exI [of _ "tl (ud_outcomes d)"])
qed

lemma ud_stmt_cases:
  assumes "ud_stmt what stmt d = (d', r)"
  shows "\<exists>d1. ud_used d d1 \<and> (case r of Inl _ \<Rightarrow> d' = d1 | Inr x \<Rightarrow> stmt d1 = Inr (d', x))"
proof -
  obtain d1 out where n: "user_outcome d = (d1, out)" by fastforce
  show ?thesis
    using assms outcome_used [OF n] by (auto simp: ud_stmt_def n split: option.splits sum.splits intro!: exI [of _ d1])
qed

lemma ud_stmt_keeps:
  assumes "\<And>d d' x. stmt d = Inr (d', x) \<Longrightarrow> keeps_owners T d d'"
  shows "keeps_owners T d (fst (ud_stmt what stmt d))"
proof -
  obtain d' r where e: "ud_stmt what stmt d = (d', r)" by fastforce
  obtain d1 where d1: "ud_used d d1" "case r of Inl _ \<Rightarrow> d' = d1 | Inr x \<Rightarrow> stmt d1 = Inr (d', x)"
    using ud_stmt_cases [OF e] by blast
  show ?thesis
  proof (cases r)
    case (Inr x)
    then show ?thesis using keeps_trans [OF ud_used_keeps [OF d1(1)] assms] d1(2) by (simp add: e)
  qed (use d1 ud_used_keeps in \<open>simp add: e\<close>)
qed

text \<open>Queries change nothing.\<close>

lemma read_accounts_used: "ud_used d (fst (read_accounts rs d))"
proof (induction rs d rule: read_accounts.induct)
  case (2 r rs d)
  obtain d1 out where n: "user_outcome d = (d1, out)" by fastforce
  show ?case
    using 2 [OF n [symmetric]] outcome_used [OF n] ud_used_trans by (auto simp: n split: option.split prod.split)
qed simp

interpretation used: kept ud_used
  by unfold_locales (auto intro: ud_used_trans)

lemma ud_query_used: "ud_used d (fst (ud_stmt what (\<lambda>d. Inr (d, f d)) d))"
proof -
  obtain d' r where e: "ud_stmt what (\<lambda>d. Inr (d, f d)) d = (d', r)" by fastforce
  show ?thesis using ud_stmt_cases [OF e] by (cases r) (auto simp: e)
qed

lemmas used_rules = used.kept_sum used.kept_choice used.kept_prod used.kept_option used.kept_pair used.kept_if
  ud_query_used [THEN [2] used.kept_trans] read_accounts_used [THEN [2] used.kept_trans] used.kept_refl

lemma FindByGlobalUserID_used: "ud_used d (fst (FindByGlobalUserID u d))"
  unfolding FindByGlobalUserID_def by (intro used_rules)

lemma FindByID_used: "ud_used d (fst (FindByID u d))"
  unfolding FindByID_def by (intro used_rules FindByGlobalUserID_used [THEN [2] used.kept_trans])

lemma FindByTsu_used: "ud_used d (fst (FindByTsuAccountsID tsu d))"
  unfolding FindByTsuAccountsID_def by (intro used_rules FindByID_used [THEN [2] used.kept_trans])

lemma FindByChannel_used: "ud_used d (fst (FindByChannelAndPlatformID ct pid d))"
  unfolding FindByChannelAndPlatformID_def by (rule ud_query_used)

text \<open>What a query found.\<close>

lemma find_mem: "find P xs = Some x \<Longrightarrow> x \<in> set xs \<and> P x"
  by (induction xs) (auto split: if_splits)

lemma ud_query_found: "ud_stmt what (\<lambda>d. Inr (d, f d)) d = (d', Inr x) \<Longrightarrow> \<exists>os. x = f (d\<lparr>ud_outcomes := os\<rparr>)"
  using ud_stmt_cases [of what "\<lambda>d. Inr (d, f d)" d d' "Inr x"] by (auto simp: ud_used_def)

lemma FindByChannel_found:
  "FindByChannelAndPlatformID ct pid d = (d', Inr r) \<Longrightarrow> map_option ca_GlobalUserID r = owner d ct pid \<and>
     (\<forall>a. r = Some a \<longrightarrow> ca_ChannelType a = ct \<and> ca_ChannelUserID a = pid \<and>
        (\<exists>row \<in> set (ud_accounts d). ar_ID row = ca_ID a \<and> ar_ChannelType row = ct \<and> ar_ChannelUserID row = pid))"
  unfolding FindByChannelAndPlatformID_def
  by (drule ud_query_found) (auto simp: owner_def option.map_comp o_def dest!: find_mem)

lemma read_accounts_rows: "a \<in> set (snd (read_accounts rs d)) \<Longrightarrow>
  \<exists>r \<in> set rs. ca_ID a = ar_ID r \<and> ca_ChannelType a = ar_ChannelType r \<and> ca_ChannelUserID a = ar_ChannelUserID r"
  by (induction rs d rule: read_accounts.induct) (auto split: prod.splits option.splits)

lemma FindByGlobalUserID_rows:
  assumes "FindByGlobalUserID u d = (d', Inr accs)" "a \<in> set accs"
  shows "\<exists>r \<in> set (accounts_of u d). ca_ID a = ar_ID r \<and> ca_ChannelType a = ar_ChannelType r \<and> ca_ChannelUserID a = ar_ChannelUserID r"
proof -
  obtain d1 rows where q: "ud_stmt (''find accounts for user '' @ FormatInt u @ '': '') (\<lambda>d. Inr (d, accounts_of u d)) d = (d1, Inr rows)"
    and rd: "read_accounts rows d1 = (d', accs)"
    using assms(1) by (auto simp: FindByGlobalUserID_def split: prod.splits sum.splits)
  have "rows = accounts_of u d" using ud_query_found [OF q] by (auto simp: accounts_of_def)
  then show ?thesis using read_accounts_rows [of a rows d1] assms(2) rd by auto
qed
subsection \<open>Statements keep the owners\<close>

lemma owner_iff:
  assumes "users_ok d"
  shows "owner d ct pid = Some v \<longleftrightarrow>
    (\<exists>r\<in>set (ud_accounts d). ar_ChannelType r = ct \<and> ar_ChannelUserID r = pid \<and> ar_GlobalUserID r = v)"
proof -
  let ?key = "\<lambda>r. (ar_ChannelType r, ar_ChannelUserID r)"
  have "map_option ar_GlobalUserID (find (\<lambda>r. ar_ChannelType r = ct \<and> ar_ChannelUserID r = pid) rs) =
      map_of (map (\<lambda>r. (?key r, ar_GlobalUserID r)) rs) (ct, pid)" for rs
    by (induction rs) auto
  then have "owner d ct pid = map_of (map (\<lambda>r. (?key r, ar_GlobalUserID r)) (ud_accounts d)) (ct, pid)"
    by (simp add: owner_def)
  moreover have "distinct (map fst (map (\<lambda>r. (?key r, ar_GlobalUserID r)) (ud_accounts d)))"
    using assms by (simp add: users_ok_def o_def)
  ultimately show ?thesis using map_of_eq_Some_iff by (fastforce simp del: map_map)
qed

lemma keeps_rowwise:
  assumes "users_ok d \<Longrightarrow> users_ok d'"
    and "\<And>r. users_ok d \<Longrightarrow> r \<in> set (ud_accounts d) \<Longrightarrow>
      \<exists>r'\<in>set (ud_accounts d'). ar_ChannelType r' = ar_ChannelType r \<and> ar_ChannelUserID r' = ar_ChannelUserID r \<and>
        (ar_GlobalUserID r' = ar_GlobalUserID r \<or> ar_GlobalUserID r' \<in> T)"
  shows "keeps_owners T d d'"
  unfolding keeps_owners_def
proof (intro impI conjI allI)
  assume ok: "users_ok d"
  then show ok': "users_ok d'" by (rule assms(1))
  fix ct pid v
  assume "owner d ct pid = Some v"
  then obtain r where r: "r \<in> set (ud_accounts d)" "ar_ChannelType r = ct" "ar_ChannelUserID r = pid" "ar_GlobalUserID r = v"
    by (auto simp: owner_iff [OF ok])
  then show "\<exists>v'. owner d' ct pid = Some v' \<and> (v' = v \<or> v' \<in> T)"
    using assms(2) [OF ok r(1)] owner_iff [OF ok'] by (metis (no_types, lifting))
qed

text \<open>Changing users but not their identifiers.\<close>

lemma users_ok_ids:
  assumes "map ur_ID (ud_users d') = map ur_ID (ud_users d)" "ud_accounts d' = ud_accounts d" "ud_nextUser d' = ud_nextUser d"
    "ud_nextAccount d' = ud_nextAccount d"
  shows "users_ok d' = users_ok d"
proof -
  have ids: "ur_ID ` set (ud_users d') = ur_ID ` set (ud_users d)" using assms(1) by (metis list.set_map)
  have ball: "(\<forall>r\<in>set rs. 0 < ur_ID r \<and> ur_ID r < n) = (\<forall>i\<in>ur_ID ` set rs. 0 < i \<and> i < n)" for rs :: "user_row list" and n
    by blast
  show ?thesis unfolding users_ok_def ball by (simp add: assms ids)
qed

definition map_user :: "user_id \<Rightarrow> (user_row \<Rightarrow> user_row) \<Rightarrow> user_db \<Rightarrow> user_db" where
  "map_user u f d = d\<lparr>ud_users := map (\<lambda>r. if ur_ID r = u then f r else r) (ud_users d)\<rparr>"

lemma map_user_keeps: "(\<And>r. ur_ID (f r) = ur_ID r) \<Longrightarrow> keeps_owners T d (map_user u f d)"
proof (rule keeps_same)
  assume f: "\<And>r. ur_ID (f r) = ur_ID r"
  have "map ur_ID (map (\<lambda>r. if ur_ID r = u then f r else r) rs) = map ur_ID rs" for rs
    using f by (induction rs) auto
  then show "users_ok (map_user u f d)" if "users_ok d"
    using that users_ok_ids [of "map_user u f d" d] by (simp add: map_user_def)
qed (simp add: map_user_def)

lemma fst_case_result [simp]:
  "fst (case p of (d1, Inl e) \<Rightarrow> (d1, F d1 e) | (d1, Inr x) \<Rightarrow> (d1, G d1 x)) = fst p"
  by (simp split: prod.split sum.split)

lemma add_user_keeps:
  assumes "ur_ID r = ud_nextUser d"
  shows "keeps_owners T d (d\<lparr>ud_users := ud_users d @ [r], ud_nextUser := ud_nextUser d + 1\<rparr>)"
proof (rule keeps_same)
  assume ok: "users_ok d"
  then have "\<forall>x\<in>set (ud_users d). 0 < ur_ID x \<and> ur_ID x < ud_nextUser d + 1"
    and "ud_nextUser d \<notin> ur_ID ` set (ud_users d)"
    by (force simp: users_ok_def)+
  then show "users_ok (d\<lparr>ud_users := ud_users d @ [r], ud_nextUser := ud_nextUser d + 1\<rparr>)"
    using ok assms by (simp add: users_ok_def)
qed simp

lemma SaveUser_keeps: "keeps_owners T d (fst (SaveUser u d))"
proof (cases "gu_ID u = 0")
  case True
  then show ?thesis
    unfolding SaveUser_def Let_def by (simp, intro ud_stmt_keeps) (auto intro!: add_user_keeps)
next
  case False
  then show ?thesis
    unfolding SaveUser_def Let_def by (simp, intro ud_stmt_keeps) (auto simp: map_user_def [symmetric] intro: map_user_keeps)
qed

lemma drop_user_keeps:
  assumes "accounts_of u d = []"
  shows "keeps_owners T d (d\<lparr>ud_users := filter (\<lambda>r. ur_ID r \<noteq> u) (ud_users d), ud_persons := ps\<rparr>)"
proof (rule keeps_same)
  have none: "\<forall>r\<in>set (ud_accounts d). ar_GlobalUserID r \<noteq> u"
    using assms by (auto simp: accounts_of_def filter_empty_conv)
  assume ok: "users_ok d"
  then have "\<forall>r\<in>set (ud_accounts d). ar_GlobalUserID r \<in> ur_ID ` set (filter (\<lambda>r. ur_ID r \<noteq> u) (ud_users d))"
    using none by (force simp: users_ok_def)
  then show "users_ok (d\<lparr>ud_users := filter (\<lambda>r. ur_ID r \<noteq> u) (ud_users d), ud_persons := ps\<rparr>)"
    using ok by (simp add: users_ok_def distinct_map_filter)
qed simp

lemma DeleteUser_keeps: "keeps_owners T d (fst (DeleteUser u d))"
  unfolding DeleteUser_def fst_case_result
  by (rule ud_stmt_keeps) (auto intro!: drop_user_keeps split: if_splits)

lemma update_user_keeps:
  assumes "\<And>r. ur_ID (f r) = ur_ID r"
  shows "keeps_owners T d (fst (update_user what u f d))"
  unfolding update_user_def fst_case_result map_user_def [symmetric]
  by (rule ud_stmt_keeps) (auto intro: map_user_keeps assms)

lemma SetTsu_keeps: "keeps_owners T d (fst (SetTsuAccountsID u tsu d))"
  unfolding SetTsuAccountsID_def by (rule update_user_keeps) simp

lemma UpdateLocale_keeps: "keeps_owners T d (fst (UpdateLocale u loc d))"
  unfolding UpdateLocale_def by (rule update_user_keeps) simp

lemma LinkByExternalID_keeps: "keeps_owners T d (fst (LinkByExternalID u ext d))"
  unfolding LinkByExternalID_def fst_case_result
  by (rule ud_stmt_keeps) (auto intro!: keeps_same simp: users_ok_def)

lemma add_account_keeps:
  assumes "ar_ID r = ud_nextAccount d" "ar_GlobalUserID r \<in> ur_ID ` set (ud_users d)"
    and "\<And>x. x \<in> set (ud_accounts d) \<Longrightarrow> \<not> (ar_ChannelType x = ar_ChannelType r \<and> ar_ChannelUserID x = ar_ChannelUserID r)"
  shows "keeps_owners T d (d\<lparr>ud_accounts := ud_accounts d @ [r], ud_nextAccount := ud_nextAccount d + 1\<rparr>)"
proof (rule keeps_rowwise)
  assume ok: "users_ok d"
  then have "\<forall>x\<in>set (ud_accounts d). 0 < ar_ID x \<and> ar_ID x < ud_nextAccount d + 1"
    and "ud_nextAccount d \<notin> ar_ID ` set (ud_accounts d)"
    by (force simp: users_ok_def)+
  moreover have "(ar_ChannelType r, ar_ChannelUserID r) \<notin> (\<lambda>r. (ar_ChannelType r, ar_ChannelUserID r)) ` set (ud_accounts d)"
    using assms(3) by fastforce
  ultimately show "users_ok (d\<lparr>ud_accounts := ud_accounts d @ [r], ud_nextAccount := ud_nextAccount d + 1\<rparr>)"
    using ok assms(1,2) by (simp add: users_ok_def)
qed auto

lemma list_ex_user: "list_ex (\<lambda>r. ur_ID r = u) rs \<longleftrightarrow> u \<in> ur_ID ` set rs"
  by (auto simp: list_ex_iff)

lemma list_ex_account: "list_ex P (rs :: account_row list) \<longleftrightarrow> (\<exists>r\<in>set rs. P r)"
  by (auto simp: list_ex_iff)

lemma insert_account_keeps: "insert_account a d = Inr (d', x) \<Longrightarrow> keeps_owners T d d'"
  by (auto simp: insert_account_def list_ex_user list_ex_account split: if_splits intro!: add_account_keeps)

text \<open>
  Saving an account that was read from a row and given to a target.
\<close>

definition from_row :: "user_db \<Rightarrow> channel_account \<Rightarrow> bool" where
  "from_row d a \<longleftrightarrow> (\<forall>r\<in>set (ud_accounts d). ar_ID r = ca_ID a \<longrightarrow>
     ar_ChannelType r = ca_ChannelType a \<and> ar_ChannelUserID r = ca_ChannelUserID a)"

lemma update_account_keeps:
  assumes "update_account a d = Inr (d', x)" "from_row d a"
    and "ca_GlobalUserID a \<in> T \<or> (\<forall>r\<in>set (ud_accounts d). ar_ID r = ca_ID a \<longrightarrow> ar_GlobalUserID r = ca_GlobalUserID a)"
  shows "keeps_owners T d d'"
proof (cases "d' = d")
  case False
  let ?f = "\<lambda>r. if ar_ID r = ca_ID a
      then r\<lparr>ar_ChannelType := ca_ChannelType a, ar_ChannelUserID := ca_ChannelUserID a, ar_GlobalUserID := ca_GlobalUserID a,
             ar_Username := (case null_if_empty (ca_Username a) of Some n \<Rightarrow> Some n | None \<Rightarrow> ar_Username r)\<rparr>
      else r"
  have d': "d' = d\<lparr>ud_accounts := map ?f (ud_accounts d)\<rparr>" and u: "ca_GlobalUserID a \<in> ur_ID ` set (ud_users d)"
    using assms(1) False by (auto simp: update_account_def list_ex_user split: if_splits)
  have key: "ar_ChannelType (?f r) = ar_ChannelType r" "ar_ChannelUserID (?f r) = ar_ChannelUserID r" "ar_ID (?f r) = ar_ID r"
    if "r \<in> set (ud_accounts d)" for r
    using assms(2) that by (auto simp: from_row_def)
  have ids: "map ar_ID (map ?f (ud_accounts d)) = map ar_ID (ud_accounts d)"
    "map (\<lambda>r. (ar_ChannelType r, ar_ChannelUserID r)) (map ?f (ud_accounts d)) =
     map (\<lambda>r. (ar_ChannelType r, ar_ChannelUserID r)) (ud_accounts d)"
    using key by (auto simp del: if_split intro!: map_cong)
  show ?thesis
  proof (rule keeps_rowwise)
    show "users_ok d'" if "users_ok d"
      using that ids u unfolding users_ok_def d' by (simp del: map_map) (auto split: if_splits)
    show "\<exists>r'\<in>set (ud_accounts d'). ar_ChannelType r' = ar_ChannelType r \<and> ar_ChannelUserID r' = ar_ChannelUserID r \<and>
        (ar_GlobalUserID r' = ar_GlobalUserID r \<or> ar_GlobalUserID r' \<in> T)" if "r \<in> set (ud_accounts d)" for r
    proof
      show "?f r \<in> set (ud_accounts d')" using that by (simp add: d')
      show "ar_ChannelType (?f r) = ar_ChannelType r \<and> ar_ChannelUserID (?f r) = ar_ChannelUserID r \<and>
        (ar_GlobalUserID (?f r) = ar_GlobalUserID r \<or> ar_GlobalUserID (?f r) \<in> T)"
        using key [OF that] assms(3) that by auto
    qed
  qed
qed simp

subsection \<open>Operations keep the owners\<close>

definition account_keys :: "user_db \<Rightarrow> (int \<times> channel_type \<times> string) list" where
  "account_keys d = map (\<lambda>r. (ar_ID r, ar_ChannelType r, ar_ChannelUserID r)) (ud_accounts d)"

lemma from_row_keys:
  "from_row d a \<longleftrightarrow> (\<forall>(i, k, p)\<in>set (account_keys d). i = ca_ID a \<longrightarrow> k = ca_ChannelType a \<and> p = ca_ChannelUserID a)"
  by (auto simp: from_row_def account_keys_def)

lemma from_row_given [simp]: "from_row d (a\<lparr>ca_GlobalUserID := u\<rparr>) = from_row d a"
  "from_row d (a\<lparr>ca_Username := n\<rparr>) = from_row d a"
  by (simp_all add: from_row_def)

lemma ud_used_keys: "ud_used d d' \<Longrightarrow> account_keys d' = account_keys d"
  by (auto simp: ud_used_def account_keys_def)

lemma update_account_keys:
  assumes "update_account a d = Inr (d', x)" "from_row d a"
  shows "account_keys d' = account_keys d"
  using assms by (auto simp: update_account_def account_keys_def from_row_def split: if_splits)

lemma SaveAccount_row:
  assumes "ca_ID a \<noteq> 0" "from_row d a"
    and "ca_GlobalUserID a \<in> T \<or> (\<forall>r\<in>set (ud_accounts d). ar_ID r = ca_ID a \<longrightarrow> ar_GlobalUserID r = ca_GlobalUserID a)"
    and "SaveAccount a d = (d', r)"
  shows "keeps_owners T d d' \<and> account_keys d' = account_keys d"
proof -
  have "ud_stmt (''update account '' @ FormatInt (ca_ID a) @ '': '') (update_account a) d = (d', r)"
    using assms(1,4) by (simp add: SaveAccount_def)
  from ud_stmt_cases [OF this] obtain d1 where d1: "ud_used d d1"
    and c: "case r of Inl _ \<Rightarrow> d' = d1 | Inr x \<Rightarrow> update_account a d1 = Inr (d', x)" by blast
  have acc: "ud_accounts d1 = ud_accounts d" using d1 by (auto simp: ud_used_def)
  have row: "from_row d1 a" using assms(2) by (simp add: from_row_def acc)
  show ?thesis
  proof (cases r)
    case (Inr x)
    then have u: "update_account a d1 = Inr (d', x)" using c by simp
    show ?thesis
      using keeps_trans [OF ud_used_keeps [OF d1] update_account_keeps [OF u row, of T]] update_account_keys [OF u row]
        ud_used_keys [OF d1] assms(3) by (simp add: acc)
  qed (use c d1 ud_used_keeps ud_used_keys in simp)
qed

lemma move_accounts_keeps:
  assumes "list_all (\<lambda>a. from_row d a \<and> ca_ID a \<noteq> 0) as"
  shows "keeps_owners {u} d (fst (move_accounts u as d))"
  using assms
proof (induction as arbitrary: d)
  case (Cons a as)
  obtain d1 r where s: "SaveAccount (a\<lparr>ca_GlobalUserID := u\<rparr>) d = (d1, r)" by fastforce
  have k: "keeps_owners {u} d d1" "account_keys d1 = account_keys d"
    using SaveAccount_row [OF _ _ _ s, of "{u}"] Cons.prems by simp_all
  have "list_all (\<lambda>a. from_row d1 a \<and> ca_ID a \<noteq> 0) as" using Cons.prems k(2) by (simp add: from_row_keys)
  then have "keeps_owners {u} d (fst (move_accounts u as d1))" using keeps_trans [OF k(1)] Cons.IH by blast
  then show ?case using k(1) by (cases r) (simp_all add: s)
qed simp

text \<open>What was found among the accounts of a user can be given away.\<close>

lemma found_from_rows:
  assumes "users_ok d" "FindByGlobalUserID u d = (d', Inr accs)"
  shows "list_all (\<lambda>a. from_row d' a \<and> ca_ID a \<noteq> 0) accs"
proof -
  have acc: "ud_accounts d' = ud_accounts d" using FindByGlobalUserID_used [of d u] assms(2) by (auto simp: ud_used_def)
  have "from_row d' a \<and> ca_ID a \<noteq> 0" if a: "a \<in> set accs" for a
  proof -
    obtain r where r: "r \<in> set (ud_accounts d)" "ca_ID a = ar_ID r" "ca_ChannelType a = ar_ChannelType r"
      "ca_ChannelUserID a = ar_ChannelUserID r"
      using FindByGlobalUserID_rows [OF assms(2) a] by (auto simp: accounts_of_def)
    have "r' = r" if "r' \<in> set (ud_accounts d)" "ar_ID r' = ar_ID r" for r'
      using assms(1) r(1) that by (auto simp: users_ok_def distinct_map dest: inj_onD)
    then show ?thesis using r assms(1) by (auto simp: from_row_def acc users_ok_def)
  qed
  then show ?thesis by (simp add: list_all_iff)
qed

lemma keeps_when_ok: "(users_ok d \<Longrightarrow> keeps_owners T d d') \<Longrightarrow> keeps_owners T d d'"
  by (auto simp: keeps_owners_def)

lemma merge_keeps:
  assumes "FindByGlobalUserID src d = (d1, r)"
  shows "keeps_owners {u} d (case r of Inl _ \<Rightarrow> d1 | Inr accs \<Rightarrow> fst (move_accounts u accs d1))"
proof (rule keeps_when_ok)
  assume ok: "users_ok d"
  have d1: "keeps_owners {u} d d1" using FindByGlobalUserID_used [of d src] assms ud_used_keeps by simp
  show "keeps_owners {u} d (case r of Inl _ \<Rightarrow> d1 | Inr accs \<Rightarrow> fst (move_accounts u accs d1))"
  proof (cases r)
    case (Inr accs)
    then show ?thesis
      using found_from_rows [OF ok] assms keeps_trans [OF d1 move_accounts_keeps] by simp
  qed (use d1 in simp)
qed

lemma fst_case_error [simp]:
  "fst (case p of (d1, Some e) \<Rightarrow> (d1, F e) | (d1, None) \<Rightarrow> (d1, G)) = fst p"
  by (simp split: prod.split option.split)

lemma CompleteLinking_keeps: "keeps_owners {u} (snd st) (snd (fst (CompleteLinking now u code st)))"
proof -
  obtain codes d where st: "st = (codes, d)" by fastforce
  show ?thesis
  proof (cases "snd (fst (CompleteLinking now u code st)) = d")
    case False
    then obtain src t where c: "codes code = Some (src, t)" "\<not> now > t" "src \<noteq> u"
      by (cases "codes code") (auto simp: CompleteLinking_def st Let_def split: if_splits)
    obtain d1 r where f: "FindByGlobalUserID src d = (d1, r)" by fastforce
    have "snd (fst (CompleteLinking now u code st)) = (case r of Inl _ \<Rightarrow> d1 | Inr accs \<Rightarrow> fst (move_accounts u accs d1))"
      using c by (auto simp: CompleteLinking_def st Let_def f split: sum.split prod.split option.split)
    then show ?thesis using merge_keeps [OF f] by (simp add: st)
  qed (simp add: st)
qed

lemma notifyLinked_keeps: "keeps_owners T (fst st) (fst (notifyLinked txts notifier u st))"
proof -
  obtain d w where st: "st = (d, w)" by fastforce
  obtain d1 r where f: "FindByID u d = (d1, r)" by fastforce
  obtain d2 q where g: "FindByGlobalUserID u d1 = (d2, q)" by fastforce
  have "ud_used d d2" using FindByID_used [of d u] FindByGlobalUserID_used [of d1 u] ud_used_trans by (simp add: f g)
  then show ?thesis
    using ud_used_keeps by (cases notifier; cases q) (simp_all add: notifyLinked_def st f g Let_def)
qed

lemma linkSameUser_keeps: "keeps_owners T (fst st) (fst (fst (linkSameUser txts notifier u tsu st)))"
proof -
  obtain d w where st: "st = (d, w)" by fastforce
  obtain d1 r where s: "SetTsuAccountsID u tsu (fst (LinkByExternalID u tsu d)) = (d1, r)" by fastforce
  have "keeps_owners T d d1"
    using keeps_trans [OF LinkByExternalID_keeps SetTsu_keeps] by (metis fst_conv s)
  then show ?thesis
    using keeps_trans notifyLinked_keeps [of T "(d1, w)"] by (cases r) (auto simp: linkSameUser_def st s)
qed

lemma linkNewAccount_keeps: "keeps_owners T (fst st) (fst (fst (linkNewAccount txts notifier u tsu st)))"
proof -
  obtain d w where st: "st = (d, w)" by fastforce
  obtain d1 r where s: "SetTsuAccountsID u tsu d = (d1, r)" by fastforce
  have 1: "keeps_owners T d d1" using SetTsu_keeps [of T d u tsu] by (simp add: s)
  have "keeps_owners T d (fst (LinkByExternalID u tsu d1))" by (rule keeps_trans [OF 1 LinkByExternalID_keeps])
  then show ?thesis
    using 1 keeps_trans notifyLinked_keeps [of T "(fst (LinkByExternalID u tsu d1), w)"]
    by (cases r) (auto simp: linkNewAccount_def st s)
qed

lemma mergeInto_keeps: "keeps_owners {dst} (fst st) (fst (fst (mergeInto txts notifier src dst tsu st)))"
proof -
  obtain d w where st: "st = (d, w)" by fastforce
  obtain d1 r where f: "FindByGlobalUserID src d = (d1, r)" by fastforce
  show ?thesis
  proof (cases r)
    case (Inr accs)
    obtain d2 e where m: "move_accounts dst accs d1 = (d2, e)" by fastforce
    have 1: "keeps_owners {dst} d d2" using merge_keeps [OF f, of dst] by (simp add: Inr m)
    let ?d3 = "fst (LinkByExternalID dst tsu (fst (DeleteUser src d2)))"
    have "keeps_owners {dst} d ?d3"
      by (rule keeps_trans [OF keeps_trans [OF 1 DeleteUser_keeps] LinkByExternalID_keeps])
    then have "keeps_owners {dst} d (fst (notifyLinked txts notifier dst (?d3, w)))"
      by (rule keeps_trans) (use notifyLinked_keeps [of "{dst}" "(?d3, w)"] in simp)
    then show ?thesis using 1 by (cases e) (simp_all add: mergeInto_def st f Inr m)
  qed (use merge_keeps [OF f, of dst] in \<open>simp add: mergeInto_def st f\<close>)
qed

text \<open>The users who have an account of the university.\<close>

definition tsu_users :: "string \<Rightarrow> user_db \<Rightarrow> user_id list" where
  "tsu_users tsu d = map ur_ID (filter (\<lambda>r. ur_TsuAccountsID r = Some tsu) (ud_users d))"

lemma FindByID_found: "FindByID u d = (d', Inr (Some user)) \<Longrightarrow> gu_ID user = u"
proof -
  assume f: "FindByID u d = (d', Inr (Some user))"
  obtain d1 r where q: "ud_stmt (''find user '' @ FormatInt u @ '': '') (\<lambda>d. Inr (d, find (\<lambda>r. ur_ID r = u) (ud_users d))) d = (d1, Inr (Some r))"
    and id: "gu_ID user = ur_ID r"
    using f by (auto simp: FindByID_def split: prod.splits sum.splits option.splits)
  show ?thesis using ud_query_found [OF q] id by (auto dest!: find_mem [OF sym])
qed

lemma FindByTsu_found: "FindByTsuAccountsID tsu d = (d', Inr (Some user)) \<Longrightarrow> gu_ID user \<in> set (tsu_users tsu d)"
proof -
  assume f: "FindByTsuAccountsID tsu d = (d', Inr (Some user))"
  obtain d1 r where q: "ud_stmt (''find user by tsu_accounts_id '' @ tsu @ '': '')
      (\<lambda>d. Inr (d, find (\<lambda>r. ur_TsuAccountsID r = Some tsu) (ud_users d))) d = (d1, Inr (Some r))"
    and id: "FindByID (ur_ID r) d1 = (d', Inr (Some user))"
    using f by (auto simp: FindByTsuAccountsID_def split: prod.splits sum.splits option.splits)
  show ?thesis using ud_query_found [OF q] FindByID_found [OF id]
    by (auto simp: tsu_users_def dest!: find_mem [OF sym])
qed

lemma Tsu_Link_keeps: "keeps_owners (set (tsu_users tsu (fst st))) (fst st) (fst (fst (Tsu_Link txts notifier u tsu st)))"
proof -
  obtain d w where st: "st = (d, w)" by fastforce
  obtain d1 r where f: "FindByTsuAccountsID tsu d = (d1, r)" by fastforce
  have 1: "keeps_owners T d d1" for T using FindByTsu_used [of d tsu] ud_used_keeps by (simp add: f)
  consider err where "r = Inl err" | "r = Inr None" | user where "r = Inr (Some user)" by (cases r) auto
  then show ?thesis
  proof cases
    case 2
    then show ?thesis
      using keeps_trans [OF 1] linkNewAccount_keeps [of _ "(d1, w)"] by (simp add: Tsu_Link_def st f)
  next
    case 3
    have m: "gu_ID user \<in> set (tsu_users tsu d)" using FindByTsu_found f 3 by simp
    have "keeps_owners {gu_ID user} d (fst (fst (mergeInto txts notifier u (gu_ID user) tsu (d1, w))))"
      by (rule keeps_trans [OF 1]) (use mergeInto_keeps [of "gu_ID user" "(d1, w)"] in simp)
    then show ?thesis
      using keeps_trans [OF 1] linkSameUser_keeps [of _ "(d1, w)"] keeps_more [of "{gu_ID user}" d _ "set (tsu_users tsu d)"] m
      by (simp add: Tsu_Link_def st f 3)
  qed (use 1 in \<open>simp add: Tsu_Link_def st f\<close>)
qed

lemma ensureWebUser_keeps: "keeps_owners T d (fst (ensureWebUser pl tsu d))"
proof -
  obtain d1 r where f: "FindByTsuAccountsID tsu d = (d1, r)" by fastforce
  have 1: "keeps_owners T d d1" using FindByTsu_used [of d tsu] ud_used_keeps by (simp add: f)
  have auto: "keeps_owners T d x \<Longrightarrow> keeps_owners T d (if pl then fst (LinkByExternalID u tsu x) else x)" for u x
    using keeps_trans [OF _ LinkByExternalID_keeps] by auto
  consider err where "r = Inl err" | "r = Inr None" | user where "r = Inr (Some user)" by (cases r) auto
  then show ?thesis
  proof cases
    case 2
    obtain d2 q where s: "SaveUser (new_user ChannelWeb (ud_locale d1)) d1 = (d2, q)" by fastforce
    have d2: "keeps_owners T d d2" using keeps_trans [OF 1 SaveUser_keeps] by (metis fst_conv s)
    obtain d3 e where t: "SetTsuAccountsID (gu_ID (projr q)) tsu d2 = (d3, e)" by fastforce
    have d3: "keeps_owners T d d3" using keeps_trans [OF d2 SetTsu_keeps] by (metis fst_conv t)
    show ?thesis using d2 d3 auto [OF d3] t by (cases q; cases e) (simp_all add: ensureWebUser_def Let_def f 2 s)
  next
    case 3
    then show ?thesis using auto [OF 1] by (simp add: ensureWebUser_def Let_def f)
  qed (use 1 in \<open>simp add: ensureWebUser_def Let_def f\<close>)
qed

lemma create_user_keeps: "keeps_owners T d (fst (create_user ct pid uname d))"
proof -
  obtain d1 r where s: "SaveUser (new_user ct (ud_locale d)) d = (d1, r)" by fastforce
  have 1: "keeps_owners T d d1" using SaveUser_keeps [of T d "new_user ct (ud_locale d)"] by (simp add: s)
  let ?a = "\<lparr>ca_ID = 0, ca_ChannelType = ct, ca_ChannelUserID = pid, ca_GlobalUserID = gu_ID (projr r), ca_Username = uname\<rparr>"
  obtain d2 q where i: "SaveAccount ?a d1 = (d2, q)" by fastforce
  have "keeps_owners T d1 (fst (SaveAccount ?a d1))"
    unfolding SaveAccount_def by (simp, rule ud_stmt_keeps) (rule insert_account_keeps)
  then have 2: "keeps_owners T d d2" using keeps_trans [OF 1] by (simp add: i)
  show ?thesis using 1 2 i by (cases r; cases q) (simp_all add: create_user_def s)
qed

lemma row_unique: "users_ok d \<Longrightarrow> r \<in> set (ud_accounts d) \<Longrightarrow> r' \<in> set (ud_accounts d) \<Longrightarrow> ar_ID r' = ar_ID r \<Longrightarrow> r' = r"
  unfolding users_ok_def distinct_map by (blast dest: inj_onD)

lemma key_unique:
  assumes "users_ok d" "r \<in> set (ud_accounts d)" "r' \<in> set (ud_accounts d)"
    and "ar_ChannelType r' = ar_ChannelType r" "ar_ChannelUserID r' = ar_ChannelUserID r"
  shows "r' = r"
proof -
  have "inj_on (\<lambda>r. (ar_ChannelType r, ar_ChannelUserID r)) (set (ud_accounts d))"
    using assms(1) by (simp add: users_ok_def distinct_map)
  from inj_onD [OF this] show ?thesis using assms by simp
qed

lemma found_row:
  assumes "users_ok d" "FindByChannelAndPlatformID ct pid d = (d', Inr (Some a))"
  shows "ca_ID a \<noteq> 0" "from_row d a" "\<forall>r\<in>set (ud_accounts d). ar_ID r = ca_ID a \<longrightarrow> ar_GlobalUserID r = ca_GlobalUserID a"
    "owner d ct pid = Some (ca_GlobalUserID a)"
proof -
  show own: "owner d ct pid = Some (ca_GlobalUserID a)" using FindByChannel_found [OF assms(2)] by simp
  obtain r where r: "r \<in> set (ud_accounts d)" "ar_ID r = ca_ID a" "ar_ChannelType r = ct" "ar_ChannelUserID r = pid"
    and key: "ca_ChannelType a = ct" "ca_ChannelUserID a = pid"
    using FindByChannel_found [OF assms(2)] by auto
  obtain r1 where r1: "r1 \<in> set (ud_accounts d)" "ar_ChannelType r1 = ct" "ar_ChannelUserID r1 = pid"
    "ar_GlobalUserID r1 = ca_GlobalUserID a"
    using own owner_iff [OF assms(1)] by auto
  have "r1 = r" using key_unique [OF assms(1) r(1) r1(1)] r r1 by simp
  moreover have "r' = r" if "r' \<in> set (ud_accounts d)" "ar_ID r' = ca_ID a" for r'
    using row_unique [OF assms(1) r(1)] r(2) that by simp
  ultimately have same: "r' = r \<and> ar_GlobalUserID r = ca_GlobalUserID a" if "r' \<in> set (ud_accounts d)" "ar_ID r' = ca_ID a" for r'
    using r1(4) that by blast
  have "ar_ChannelType r' = ca_ChannelType a \<and> ar_ChannelUserID r' = ca_ChannelUserID a"
    if "r' \<in> set (ud_accounts d)" "ar_ID r' = ca_ID a" for r'
    using same [OF that] r(3,4) key by simp
  then show "from_row d a" unfolding from_row_def by blast
  show "\<forall>r\<in>set (ud_accounts d). ar_ID r = ca_ID a \<longrightarrow> ar_GlobalUserID r = ca_GlobalUserID a"
    using same by blast
  show "ca_ID a \<noteq> 0" using assms(1) r(1,2) by (auto simp: users_ok_def)
qed

text \<open>A created user has the account.\<close>

lemma create_user_owner:
  assumes "users_ok d" "create_user ct pid uname d = (d', Inr user)"
  shows "owner d' ct pid = Some (gu_ID user)"
proof -
  obtain d1 saved d2 acc where s: "SaveUser (new_user ct (ud_locale d)) d = (d1, Inr saved)"
    and i: "ud_stmt ''insert account: '' (insert_account \<lparr>ca_ID = 0, ca_ChannelType = ct, ca_ChannelUserID = pid,
        ca_GlobalUserID = gu_ID saved, ca_Username = uname\<rparr>) d1 = (d2, Inr acc)"
    and u: "d' = d2" "user = saved\<lparr>gu_Accounts := [acc]\<rparr>"
    using assms(2) by (auto simp: create_user_def SaveAccount_def split: prod.splits sum.splits)
  have "users_ok d2"
    using create_user_keeps [of "{}" d ct pid uname] assms u by (simp add: keeps_owners_def)
  moreover obtain d3 where "ud_used d1 d3" "insert_account \<lparr>ca_ID = 0, ca_ChannelType = ct, ca_ChannelUserID = pid,
        ca_GlobalUserID = gu_ID saved, ca_Username = uname\<rparr> d3 = Inr (d2, acc)"
    using ud_stmt_cases [OF i] by auto
  ultimately show ?thesis
    unfolding u using owner_iff [of d2 ct pid "gu_ID saved"] by (auto simp: insert_account_def split: if_splits)
qed

lemma FindByID_none: "FindByID u d = (d', Inr None) \<Longrightarrow> u \<notin> ur_ID ` set (ud_users d)"
proof -
  assume f: "FindByID u d = (d', Inr None)"
  obtain d1 where q: "ud_stmt (''find user '' @ FormatInt u @ '': '') (\<lambda>d. Inr (d, find (\<lambda>r. ur_ID r = u) (ud_users d))) d = (d1, Inr None)"
    using f by (auto simp: FindByID_def split: prod.splits sum.splits option.splits)
  show ?thesis using ud_query_found [OF q] by (auto simp: find_None_iff2)
qed

lemma owner_exists: "users_ok d \<Longrightarrow> owner d ct pid = Some v \<Longrightarrow> v \<in> ur_ID ` set (ud_users d)"
  by (auto simp: owner_iff users_ok_def)

lemma FindOrCreate_spec:
  assumes ok: "users_ok d" and run: "FindOrCreateUser ct pid uname d = (d', r)"
  shows "keeps_owners {} d d' \<and> (\<forall>user. r = Inr user \<longrightarrow> owner d' ct pid = Some (gu_ID user))"
proof -
  obtain d1 q where f: "FindByChannelAndPlatformID ct pid d = (d1, q)" by fastforce
  have used: "ud_used d d1" using FindByChannel_used [of d ct pid] by (simp add: f)
  have ok1: "users_ok d1" and own1: "owner d1 = owner d" using used ok by (auto simp: ud_used_def)
  have k1: "keeps_owners {} d d1" by (rule ud_used_keeps [OF used])
  consider err where "q = Inl err" | "q = Inr None" | a where "q = Inr (Some a)" by (cases q) auto
  then show ?thesis
  proof cases
    case 1
    then show ?thesis using run k1 by (auto simp: FindOrCreateUser_def f)
  next
    case 2
    then have c: "create_user ct pid uname d1 = (d', r)" using run by (simp add: FindOrCreateUser_def f)
    then show ?thesis
      using create_user_owner [OF ok1, of ct pid uname d'] keeps_trans [OF k1 create_user_keeps [of "{}" d1 ct pid uname]] by auto
  next
    case (3 a)
    define d2 where "d2 = (if uname \<noteq> '''' \<and> ca_Username a \<noteq> uname then fst (SaveAccount (a\<lparr>ca_Username := uname\<rparr>) d1) else d1)"
    have acc: "ud_accounts d1 = ud_accounts d" using used by (auto simp: ud_used_def)
    note row = found_row [OF ok f [unfolded 3]]
    have "keeps_owners {} d1 d2"
      using SaveAccount_row [of "a\<lparr>ca_Username := uname\<rparr>" d1 "{}"] row
      by (cases "SaveAccount (a\<lparr>ca_Username := uname\<rparr>) d1") (auto simp: d2_def from_row_def acc)
    then have ok2: "users_ok d2" "owner d2 ct pid = Some (ca_GlobalUserID a)" and k2: "keeps_owners {} d d2"
      using ok1 row(4) own1 keeps_trans [OF k1] by (auto simp: keeps_owners_def)
    obtain d3 p where g: "FindByID (ca_GlobalUserID a) d2 = (d3, p)" by fastforce
    have used3: "ud_used d2 d3" using FindByID_used [of d2 "ca_GlobalUserID a"] by (simp add: g)
    then have own3: "owner d3 ct pid = Some (ca_GlobalUserID a)" using ok2(2) by (auto simp: ud_used_def)
    have k3: "keeps_owners {} d d3" using keeps_trans [OF k2 ud_used_keeps [OF used3]] .
    have "p \<noteq> Inr None" using FindByID_none g owner_exists [OF ok2] by blast
    then show ?thesis
      using run k3 own3 FindByID_found [of "ca_GlobalUserID a" d2 d3] g
      by (cases p) (auto simp: FindOrCreateUser_def f 3 d2_def [symmetric] split: option.splits)
  qed
qed

subsection \<open>Histories\<close>

text \<open>
  What happens to users: an update arrives, a code is asked for or entered, an account of the university
  is linked, a login in the browser, another language.
\<close>

datatype user_action =
  Update_Of channel_type string string
| Code_Asked "go_error option \<times> nat list" instant user_id
| Code_Entered instant user_id string
| Tsu_Linked user_id string
| Web_Login string
| Locale_Chosen user_id string

type_synonym 'w user_world = "link_codes \<times> user_db \<times> 'w"

definition user_step ::
    "(string \<Rightarrow> string) \<Rightarrow> 'w tsu_notifier option \<Rightarrow> bool \<Rightarrow> user_action \<Rightarrow> 'w user_world \<Rightarrow> 'w user_world" where
  "user_step txts notifier pl act st =
     (case st of (codes, d, w) \<Rightarrow>
        case act of
          Update_Of ct pid uname \<Rightarrow> (codes, fst (FindOrCreateUser ct pid uname d), w)
        | Code_Asked draws now u \<Rightarrow> (fst (InitiateLinking draws now u codes), d, w)
        | Code_Entered now u code \<Rightarrow> (case fst (CompleteLinking now u code (codes, d)) of (codes1, d1) \<Rightarrow> (codes1, d1, w))
        | Tsu_Linked u tsu \<Rightarrow> (codes, fst (Tsu_Link txts notifier u tsu (d, w)))
        | Web_Login tsu \<Rightarrow> (codes, fst (ensureWebUser pl tsu d), w)
        | Locale_Chosen u loc \<Rightarrow> (codes, fst (UpdateLocale u loc d), w))"

text \<open>The users to whom an action may give accounts.\<close>

definition link_targets :: "user_action \<Rightarrow> 'w user_world \<Rightarrow> user_id list" where
  "link_targets act st =
     (case act of Code_Entered now u code \<Rightarrow> [u] | Tsu_Linked u tsu \<Rightarrow> tsu_users tsu (fst (snd st)) | _ \<Rightarrow> [])"

definition user_run ::
    "(string \<Rightarrow> string) \<Rightarrow> 'w tsu_notifier option \<Rightarrow> bool \<Rightarrow> user_action list \<Rightarrow> 'w user_world \<Rightarrow> 'w user_world" where
  "user_run txts notifier pl acts st = fold (user_step txts notifier pl) acts st"

fun run_targets ::
    "(string \<Rightarrow> string) \<Rightarrow> 'w tsu_notifier option \<Rightarrow> bool \<Rightarrow> user_action list \<Rightarrow> 'w user_world \<Rightarrow> user_id list" where
  "run_targets txts notifier pl [] st = []"
| "run_targets txts notifier pl (act # acts) st =
     link_targets act st @ run_targets txts notifier pl acts (user_step txts notifier pl act st)"

lemma user_step_keeps:
  "keeps_owners (set (link_targets act st)) (fst (snd st)) (fst (snd (user_step txts notifier pl act st)))"
proof -
  obtain codes d w where st: "st = (codes, d, w)" by (cases st) auto
  show ?thesis
  proof (cases act)
    case (Update_Of ct pid uname)
    have "keeps_owners {} d (fst (FindOrCreateUser ct pid uname d))"
      by (rule keeps_when_ok) (use FindOrCreate_spec in \<open>metis fst_conv surj_pair\<close>)
    then show ?thesis by (simp add: user_step_def link_targets_def st Update_Of)
  next
    case (Code_Entered now u code)
    then show ?thesis using CompleteLinking_keeps [of u "(codes, d)" now code]
      by (cases "fst (CompleteLinking now u code (codes, d))") (simp add: user_step_def link_targets_def st)
  next
    case (Tsu_Linked u tsu)
    then show ?thesis using Tsu_Link_keeps [of tsu "(d, w)" txts notifier u]
      by (simp add: user_step_def link_targets_def st)
  qed (simp_all add: user_step_def link_targets_def st ensureWebUser_keeps UpdateLocale_keeps)
qed

lemma user_run_keeps:
  "keeps_owners (set (run_targets txts notifier pl acts st)) (fst (snd st)) (fst (snd (user_run txts notifier pl acts st)))"
proof (induction acts arbitrary: st)
  case (Cons act acts)
  let ?T = "set (run_targets txts notifier pl (act # acts) st)"
  let ?st1 = "user_step txts notifier pl act st"
  have "keeps_owners ?T (fst (snd st)) (fst (snd ?st1))"
    by (rule keeps_more [OF user_step_keeps]) simp
  moreover have "keeps_owners ?T (fst (snd ?st1)) (fst (snd (user_run txts notifier pl acts ?st1)))"
    by (rule keeps_more [OF Cons.IH]) simp
  ultimately show ?case using keeps_trans by (fastforce simp: user_run_def)
qed (simp add: user_run_def)

text \<open>C31. Linking never loses an account. Over any sequence of updates, codes, links of accounts of the university,
  logins in the browser and changes of language, whatever the failures of the database, the tables stay
  well formed (identifiers and the keys of accounts are unique, every account belongs to a user that exists), and an account
  that belonged to a user belongs to the same one afterwards, or to a user who was the target of a link.\<close>

theorem accounts_never_lost:
  assumes "users_ok d" "user_run txts notifier pl acts (codes, d, w) = (codes', d', w')"
  shows "users_ok d' \<and>
    (\<forall>ct pid v. owner d ct pid = Some v \<longrightarrow>
       (\<exists>v'. owner d' ct pid = Some v' \<and> (v' = v \<or> v' \<in> set (run_targets txts notifier pl acts (codes, d, w)))))"
  using user_run_keeps [of txts notifier pl acts "(codes, d, w)"] assms by (simp add: keeps_owners_def)

definition demo_users :: user_db where
  "demo_users = \<lparr>ud_users = [\<lparr>ur_ID = 1, ur_TsuAccountsID = Some ''t1'', ur_PrimaryChannel = ''VK'', ur_ProfileData = None,
       ur_Locale = Some ''ru'', ur_Role = ''USER''\<rparr>,
      \<lparr>ur_ID = 2, ur_TsuAccountsID = None, ur_PrimaryChannel = ''TELEGRAM'', ur_ProfileData = None,
       ur_Locale = None, ur_Role = ''USER''\<rparr>],
    ud_accounts = [\<lparr>ar_ID = 1, ar_ChannelType = ''VK'', ar_ChannelUserID = ''v'', ar_GlobalUserID = 1, ar_Username = None\<rparr>,
      \<lparr>ar_ID = 2, ar_ChannelType = ''TELEGRAM'', ar_ChannelUserID = ''t'', ar_GlobalUserID = 2, ar_Username = Some ''n''\<rparr>],
    ud_persons = [], ud_nextUser = 3, ud_nextAccount = 3, ud_outcomes = [], ud_profile = (\<lambda>_. None), ud_locale = ''ru''\<rparr>"

lemma demo_users_ok: "users_ok demo_users"
  by (simp add: users_ok_def demo_users_def)

lemma demo_merge:
  "owner (fst (snd (user_run (\<lambda>_. []) None True [Tsu_Linked 2 ''t1''] (Map.empty, demo_users, ())))) ''TELEGRAM'' ''t'' = Some 1"
  by code_simp

theorem accounts_never_lost_witness:
  "\<exists>codes d w. user_run (\<lambda>_. []) None True [Tsu_Linked 2 ''t1''] (Map.empty, demo_users, ()) = (codes, d, w) \<and>
     users_ok d \<and> owner d ''TELEGRAM'' ''t'' = Some 1"
proof -
  obtain codes d w where r: "user_run (\<lambda>_. []) None True [Tsu_Linked 2 ''t1''] (Map.empty, demo_users, ()) = (codes, d, w)"
    by (metis prod_cases3)
  show ?thesis using accounts_never_lost [OF demo_users_ok r] demo_merge r by (auto simp: r)
qed

text \<open>C32. A platform's user is the same user of the system at every update. When an update of a
  platform's user was given a user, and then anything happened to users, the next update of that platform's user
  is given the same one, or one who was the target of a link in between; with no link in between, the same one.\<close>

theorem same_user_every_time:
  assumes "users_ok d" "FindOrCreateUser ct pid uname d = (d1, Inr user)"
    and "user_run txts notifier pl acts (codes, d1, w) = (codes', d2, w')"
    and "FindOrCreateUser ct pid uname' d2 = (d3, Inr user')"
  shows "gu_ID user' = gu_ID user \<or> gu_ID user' \<in> set (run_targets txts notifier pl acts (codes, d1, w))"
proof -
  have 1: "users_ok d1" "owner d1 ct pid = Some (gu_ID user)"
    using FindOrCreate_spec [OF assms(1,2)] assms(1) by (auto simp: keeps_owners_def)
  obtain v where v: "users_ok d2" "owner d2 ct pid = Some v"
    "v = gu_ID user \<or> v \<in> set (run_targets txts notifier pl acts (codes, d1, w))"
    using user_run_keeps [of txts notifier pl acts "(codes, d1, w)"] 1 assms(3) by (fastforce simp: keeps_owners_def)
  have "owner d3 ct pid = Some (gu_ID user')" "keeps_owners {} d2 d3" using FindOrCreate_spec [OF v(1) assms(4)] by auto
  then show ?thesis using v by (auto simp: keeps_owners_def)
qed

definition demo_acts :: "user_action list" where
  "demo_acts = [Update_Of ''TELEGRAM'' ''x'' ''nick'', Web_Login ''t9'', Locale_Chosen 1 ''en'']"

lemma demo_again:
  "let r1 = FindOrCreateUser ''VK'' ''v'' ''n'' demo_users;
       st = user_run (\<lambda>_. []) None True demo_acts (Map.empty, fst r1, ());
       r2 = FindOrCreateUser ''VK'' ''v'' '''' (fst (snd st))
   in \<not> isl (snd r1) \<and> \<not> isl (snd r2) \<and> run_targets (\<lambda>_. []) None True demo_acts (Map.empty, fst r1, ()) = []"
  by code_simp

theorem same_user_every_time_witness:
  "\<exists>d1 user codes d2 d3 user'. FindOrCreateUser ''VK'' ''v'' ''n'' demo_users = (d1, Inr user) \<and>
     user_run (\<lambda>_. []) None True demo_acts (Map.empty, d1, ()) = (codes, d2, ()) \<and>
     FindOrCreateUser ''VK'' ''v'' '''' d2 = (d3, Inr user') \<and> gu_ID user' = gu_ID user"
proof -
  obtain d1 user where 1: "FindOrCreateUser ''VK'' ''v'' ''n'' demo_users = (d1, Inr user)"
    using demo_again by (cases "FindOrCreateUser ''VK'' ''v'' ''n'' demo_users") (rename_tac d1 r, case_tac r, auto simp: Let_def)
  obtain codes d2 where 2: "user_run (\<lambda>_. []) None True demo_acts (Map.empty, d1, ()) = (codes, d2, ())"
    by (metis (full_types) prod_cases3 old.unit.exhaust)
  obtain d3 user' where 3: "FindOrCreateUser ''VK'' ''v'' '''' d2 = (d3, Inr user')"
    using demo_again by (cases "FindOrCreateUser ''VK'' ''v'' '''' d2"; cases "snd (FindOrCreateUser ''VK'' ''v'' '''' d2)")
      (auto simp: Let_def 1 2)
  show ?thesis using same_user_every_time [OF demo_users_ok 1 2 3] demo_again 1 2 3 by (auto simp: Let_def 1)
qed

text \<open>An error of the cursor ends the list of accounts without a word, and the rest is not given away.\<close>

lemma linking_truncated:
  "case CompleteLinking 0 1 ''ABCDEF'' ([''ABCDEF'' \<mapsto> (2, codeTTL)], demo_users\<lparr>ud_outcomes := [None, Some (Plain ''broken'')]\<rparr>) of
     (st, res) \<Rightarrow> (case res of LinkLinked _ \<Rightarrow> True | _ \<Rightarrow> False) \<and> owner (snd st) ''TELEGRAM'' ''t'' = Some 2"
  by code_simp

text \<open>When the account cannot be stored, the user that was created for it stays, with no account.\<close>

lemma orphan_user_left:
  "case FindOrCreateUser ''VK'' ''new'' '''' (demo_users\<lparr>ud_outcomes := [None, None, Some (Plain ''broken'')]\<rparr>) of
     (d, r) \<Rightarrow> isl r \<and> length (ud_users d) = 3 \<and> accounts_of 3 d = []"
  by code_simp

end
