(* ===== verification/Sessions.thy ===== *)
theory Sessions
  imports Users Triggers
begin

text \<open>
  Who a request comes from: session tokens signed with a key (\<^verbatim>\<open>internal/auth/session\<close>), sessions in
  cookies and tokens of users with their handlers (\<^verbatim>\<open>internal/auth/userhttp\<close>), keys of services with
  theirs (\<^verbatim>\<open>internal/admin/api/http\_service\_key\_*.go\<close>), and what the HTTP triggers make of them.
  The signature of a text under a key and the hash of a secret are parameters (\<open>mac\<close> and \<open>sha\<close>, in
  hexadecimal), as are the cookies that the HTTP library finds in a request.
\<close>

subsection \<open>Numbers and random texts\<close>

text \<open>\<^verbatim>\<open>strconv.ParseInt(s, 10, 64)\<close>, \<open>None\<close> for its errors.\<close>

definition ParseInt :: "string \<Rightarrow> int option" where
  "ParseInt s =
     (let neg = (case s of c # _ \<Rightarrow> c = CHR ''-'' | [] \<Rightarrow> False);
          body = (case s of c # cs \<Rightarrow> if c = CHR ''-'' \<or> c = CHR ''+'' then cs else s | [] \<Rightarrow> s)
      in if body = [] then None
         else (case digits_val 0 body of
                 None \<Rightarrow> None
               | Some n \<Rightarrow> if neg then (if n \<le> 2 ^ 63 then Some (- n) else None)
                           else (if n < 2 ^ 63 then Some n else None)))"

text \<open>\<^verbatim>\<open>hex.EncodeToString\<close>.\<close>

definition hexString :: "nat list \<Rightarrow> string" where
  "hexString bs = concat (map (\<lambda>b. [hex_digit (b div 16 mod 16), hex_digit (b mod 16)]) bs)"

text \<open>What reading random bytes gives: an error or bytes, at least as many as are asked for.\<close>

type_synonym random_bytes = "go_error + nat list"

definition randomHex :: "nat \<Rightarrow> random_bytes \<Rightarrow> go_error + string" where
  "randomHex n draws = (case draws of Inl err \<Rightarrow> Inl err | Inr bs \<Rightarrow> Inr (hexString (take n bs)))"

subsection \<open>Signed tokens (session/signer.go)\<close>

text \<open>A signer is its key; without a configured secret the key is random, and the program panics (\<open>None\<close>) when there is none.\<close>

definition NewSigner :: "random_bytes \<Rightarrow> string \<Rightarrow> string option" where
  "NewSigner draws secret =
     (if secret = ''''
      then (case draws of Inl _ \<Rightarrow> None | Inr bs \<Rightarrow> Some (map char_of (take 32 bs)))
      else Some secret)"

type_synonym mac = "string \<Rightarrow> string \<Rightarrow> string"

definition Unix :: "instant \<Rightarrow> int" where "Unix t = t div Second"

definition CreateToken :: "mac \<Rightarrow> string \<Rightarrow> instant \<Rightarrow> user_id \<Rightarrow> duration \<Rightarrow> string" where
  "CreateToken mac key now u ttl =
     (let expiry = FormatInt (Unix (now + ttl));
          uid = FormatInt u;
          payload = uid @ '':'' @ expiry
      in payload @ '':'' @ mac key payload)"

definition Validate :: "mac \<Rightarrow> string \<Rightarrow> instant \<Rightarrow> string \<Rightarrow> user_id option" where
  "Validate mac key now token =
     (case SplitN 3 (CHR '':'') token of
        [uidStr, expiryStr, sig] \<Rightarrow>
          (case ParseInt expiryStr of
             None \<Rightarrow> None
           | Some expiry \<Rightarrow>
               if Unix now > expiry then None
               else (case ParseInt uidStr of
                       None \<Rightarrow> None
                     | Some u \<Rightarrow> if sig = mac key (uidStr @ '':'' @ expiryStr) then Some u else None))
      | _ \<Rightarrow> None)"

subsection \<open>Sessions in cookies (userhttp/session.go)\<close>

datatype same_site = SameSiteLax | SameSiteStrict | SameSiteNone

text \<open>A cookie as it is set.\<close>

record set_cookie =
  sc_Name :: string
  sc_Value :: string
  sc_Path :: string
  sc_MaxAge :: int
  sc_HttpOnly :: bool
  sc_Secure :: bool
  sc_SameSite :: same_site

type_synonym cookie_reader = "http_req \<Rightarrow> string \<Rightarrow> string option"

record session_manager =
  sm_key :: string
  sm_secureCookie :: bool
  sm_sameSite :: same_site

definition SessionCookieName :: string where "SessionCookieName = ''user_session''"
definition SessionTTL :: duration where "SessionTTL = 24 * Hour"

text \<open>No mode given (the zero value) is \<open>None\<close>.\<close>

definition NewSessionManagerWithSameSite ::
    "random_bytes \<Rightarrow> string \<Rightarrow> bool \<Rightarrow> same_site option \<Rightarrow> session_manager option" where
  "NewSessionManagerWithSameSite draws secret secureCookie sameSite =
     map_option (\<lambda>key. \<lparr>sm_key = key, sm_secureCookie = secureCookie,
                        sm_sameSite = (case sameSite of None \<Rightarrow> SameSiteLax | Some m \<Rightarrow> m)\<rparr>)
       (NewSigner draws secret)"

definition NewSessionManager :: "random_bytes \<Rightarrow> string \<Rightarrow> bool \<Rightarrow> session_manager option" where
  "NewSessionManager draws secret secureCookie = NewSessionManagerWithSameSite draws secret secureCookie (Some SameSiteLax)"

definition SameSiteMode :: "string \<Rightarrow> same_site" where
  "SameSiteMode v =
     (let mode = ToLower (TrimSpace v)
      in if mode = ''strict'' then SameSiteStrict else if mode = ''none'' then SameSiteNone else SameSiteLax)"

definition Session_Authenticate ::
    "mac \<Rightarrow> cookie_reader \<Rightarrow> session_manager \<Rightarrow> instant \<Rightarrow> http_req \<Rightarrow> user_id option" where
  "Session_Authenticate mac cookie m now r =
     (case cookie r SessionCookieName of None \<Rightarrow> None | Some v \<Rightarrow> Validate mac (sm_key m) now v)"

definition SetSession :: "mac \<Rightarrow> session_manager \<Rightarrow> instant \<Rightarrow> user_id \<Rightarrow> set_cookie" where
  "SetSession mac m now u =
     \<lparr>sc_Name = SessionCookieName, sc_Value = CreateToken mac (sm_key m) now u SessionTTL, sc_Path = ''/'',
      sc_MaxAge = SessionTTL div Second, sc_HttpOnly = True, sc_Secure = sm_secureCookie m, sc_SameSite = sm_sameSite m\<rparr>"

definition ClearSession :: "session_manager \<Rightarrow> set_cookie" where
  "ClearSession m =
     \<lparr>sc_Name = SessionCookieName, sc_Value = '''', sc_Path = ''/'', sc_MaxAge = -1, sc_HttpOnly = True,
      sc_Secure = sm_secureCookie m, sc_SameSite = sm_sameSite m\<rparr>"

subsection \<open>Tables of tokens and keys\<close>

text \<open>
  What is told of a token or key (\<^verbatim>\<open>UserTokenRecord\<close>), and of a key with its scopes, pairs of a plugin and
  a trigger (\<^verbatim>\<open>ServiceKeyRecord\<close>); then the rows of the tables \<^verbatim>\<open>http\_service\_keys\<close> and
  \<^verbatim>\<open>http\_user\_tokens\<close>, in the order of their insertion. Each call of the database has an outcome to
  come as in the theory of users; errors that depend on lengths of columns are among them.
\<close>

record key_info =
  ki_ID :: int
  ki_PublicID :: string
  ki_Name :: string
  ki_Active :: bool
  ki_ExpiresAt :: "instant option"
  ki_LastUsedAt :: "instant option"
  ki_CreatedAt :: instant
  ki_UpdatedAt :: instant

record service_key_info = key_info +
  ki_Scopes :: "(string \<times> string) list"

record key_row = key_info +
  kr_SecretHash :: string

record token_row = key_row +
  tr_UserID :: user_id

record auth_db =
  ad_users :: "user_id list"
  ad_tokens :: "token_row list"
  ad_keys :: "key_row list"
  ad_scopes :: "(int \<times> string \<times> string) list"
  ad_nextToken :: int
  ad_nextKey :: int
  ad_outcomes :: "go_error option list"

definition ad_outcome :: "auth_db \<Rightarrow> auth_db \<times> go_error option" where
  "ad_outcome d =
     (case ad_outcomes d of [] \<Rightarrow> (d, None) | out # outs \<Rightarrow> (d\<lparr>ad_outcomes := outs\<rparr>, out))"

definition ad_stmt ::
    "string \<Rightarrow> (auth_db \<Rightarrow> go_error + auth_db \<times> 'a) \<Rightarrow> auth_db \<Rightarrow> auth_db \<times> (go_error + 'a)" where
  "ad_stmt what stmt d =
     (case ad_outcome d of
        (d1, Some err) \<Rightarrow> (d1, Inl (Wrap what err ''''))
      | (d1, None) \<Rightarrow>
          (case stmt d1 of Inl err \<Rightarrow> (d1, Inl (Wrap what err '''')) | Inr (d2, x) \<Rightarrow> (d2, Inr x)))"

text \<open>\<^verbatim>\<open>ORDER BY created\_at DESC\<close>; rows of the same instant come in the order of insertion.\<close>

definition newest_first :: "'a key_info_scheme list \<Rightarrow> 'a key_info_scheme list" where
  "newest_first rows = sort_key (\<lambda>r. - ki_CreatedAt r) rows"

text \<open>The row of a public identifier that is active.\<close>

definition active_row :: "string \<Rightarrow> 'a key_info_scheme list \<Rightarrow> 'a key_info_scheme option" where
  "active_row publicID rows = find (\<lambda>r. ki_PublicID r = publicID \<and> ki_Active r) rows"

definition key_expired :: "instant \<Rightarrow> 'a key_info_scheme \<Rightarrow> bool" where
  "key_expired now r \<longleftrightarrow> (case ki_ExpiresAt r of None \<Rightarrow> False | Some t \<Rightarrow> now > t)"

definition touch :: "instant \<Rightarrow> 'a key_info_scheme \<Rightarrow> 'a key_info_scheme" where
  "touch now r = r\<lparr>ki_LastUsedAt := Some now, ki_UpdatedAt := now\<rparr>"

text \<open>\<^verbatim>\<open>strings.Cut\<close> at a point, for a text with a prefix.\<close>

definition parse_key :: "string \<Rightarrow> string \<Rightarrow> (string \<times> string) option" where
  "parse_key pre raw =
     (if \<not> HasPrefix raw pre then None
      else let payload = TrimPrefix raw pre
           in case IndexByte payload (CHR ''.'') of
                None \<Rightarrow> None
              | Some i \<Rightarrow>
                  let publicID = take i payload; secret = drop (i + 1) payload
                  in if publicID = '''' \<or> secret = '''' then None else Some (publicID, secret))"

subsection \<open>Tokens of users (userhttp/token\_store.go)\<close>

definition userTokenPrefix :: string where "userTokenPrefix = ''sbuk_''"

definition parseUserToken :: "string \<Rightarrow> (string \<times> string) option" where
  "parseUserToken = parse_key userTokenPrefix"

definition ListUserTokens :: "user_id \<Rightarrow> auth_db \<Rightarrow> auth_db \<times> (go_error + key_info list)" where
  "ListUserTokens u d =
     (case ad_stmt ''list user tokens: ''
             (\<lambda>d. Inr (d, map key_info.truncate (newest_first (filter (\<lambda>r. tr_UserID r = u) (ad_tokens d))))) d of
        (d1, Inl err) \<Rightarrow> (d1, Inl err)
      | (d1, Inr rows) \<Rightarrow> ad_stmt ''iterate user tokens: '' (\<lambda>d. Inr (d, rows)) d1)"

definition insert_token ::
    "user_id \<Rightarrow> string \<Rightarrow> string \<Rightarrow> string \<Rightarrow> instant option \<Rightarrow> instant \<Rightarrow> auth_db \<Rightarrow> go_error + auth_db \<times> key_info" where
  "insert_token u publicID name hash expiresAt now d =
     (if list_ex (\<lambda>r. ki_PublicID r = publicID) (ad_tokens d) then Inl (violates ''http_user_tokens_public_id_key'')
      else if u \<notin> set (ad_users d) then Inl (violates ''http_user_tokens_user_id_fkey'')
      else let row = \<lparr>ki_ID = ad_nextToken d, ki_PublicID = publicID, ki_Name = name, ki_Active = True, ki_ExpiresAt = expiresAt,
                       ki_LastUsedAt = None, ki_CreatedAt = now, ki_UpdatedAt = now, kr_SecretHash = hash, tr_UserID = u\<rparr>
           in Inr (d\<lparr>ad_tokens := ad_tokens d @ [row], ad_nextToken := ad_nextToken d + 1\<rparr>, key_info.truncate row))"

text \<open>The record of the token with the token itself, which is told only now.\<close>

definition CreateUserToken ::
    "(string \<Rightarrow> string) \<Rightarrow> random_bytes \<Rightarrow> random_bytes \<Rightarrow> instant \<Rightarrow> user_id \<Rightarrow> string \<Rightarrow> instant option \<Rightarrow> auth_db \<Rightarrow>
     auth_db \<times> (go_error + key_info \<times> string)" where
  "CreateUserToken sha draws1 draws2 now u name expiresAt d =
     (case randomHex 12 draws1 of
        Inl err \<Rightarrow> (d, Inl (Wrap ''generate public id: '' err ''''))
      | Inr publicID \<Rightarrow>
          (case randomHex 32 draws2 of
             Inl err \<Rightarrow> (d, Inl (Wrap ''generate secret: '' err ''''))
           | Inr secret \<Rightarrow>
               (case ad_stmt ''insert user token: '' (insert_token u publicID name (sha secret) expiresAt now) d of
                  (d1, Inl err) \<Rightarrow> (d1, Inl err)
                | (d1, Inr info) \<Rightarrow> (d1, Inr (info, userTokenPrefix @ publicID @ ''.'' @ secret)))))"

definition DeleteUserToken :: "user_id \<Rightarrow> int \<Rightarrow> auth_db \<Rightarrow> auth_db \<times> go_error option" where
  "DeleteUserToken u i d =
     (case ad_stmt (''delete user token '' @ FormatInt i @ '': '')
             (\<lambda>d. Inr (d\<lparr>ad_tokens := filter (\<lambda>r. \<not> (ki_ID r = i \<and> tr_UserID r = u)) (ad_tokens d)\<rparr>,
                       list_ex (\<lambda>r. ki_ID r = i \<and> tr_UserID r = u) (ad_tokens d))) d of
        (d1, Inl err) \<Rightarrow> (d1, Some err)
      | (d1, Inr affected) \<Rightarrow> (d1, if affected then None else Some (Plain (''token '' @ FormatInt i @ '' not found''))))"

definition AuthenticateUserToken ::
    "(string \<Rightarrow> string) \<Rightarrow> instant \<Rightarrow> string \<Rightarrow> auth_db \<Rightarrow> auth_db \<times> (go_error + user_id option)" where
  "AuthenticateUserToken sha now rawToken d =
     (case parseUserToken rawToken of
        None \<Rightarrow> (d, Inr None)
      | Some (publicID, secret) \<Rightarrow>
          (case ad_stmt (''find user token '' @ quote publicID @ '': '') (\<lambda>d. Inr (d, active_row publicID (ad_tokens d))) d of
             (d1, Inl err) \<Rightarrow> (d1, Inl err)
           | (d1, Inr None) \<Rightarrow> (d1, Inr None)
           | (d1, Inr (Some row)) \<Rightarrow>
               if key_expired now row then (d1, Inr None)
               else if kr_SecretHash row \<noteq> sha secret then (d1, Inr None)
               else (case ad_stmt ''update user token last_used_at: ''
                            (\<lambda>d. Inr (d\<lparr>ad_tokens := map (\<lambda>r. if ki_PublicID r = publicID then touch now r else r) (ad_tokens d)\<rparr>, ())) d1 of
                       (d2, Inl err) \<Rightarrow> (d2, Inl err)
                     | (d2, Inr _) \<Rightarrow> (d2, Inr (Some (tr_UserID row))))))"

subsection \<open>Keys of services (admin/api/http\_service\_key\_store.go)\<close>

definition serviceKeyPrefix :: string where "serviceKeyPrefix = ''sbsk_''"

definition parseServiceKey :: "string \<Rightarrow> (string \<times> string) option" where
  "parseServiceKey = parse_key serviceKeyPrefix"

text \<open>\<^verbatim>\<open>ORDER BY plugin\_id, trigger\_name\<close>.\<close>

definition scopes_of :: "int \<Rightarrow> auth_db \<Rightarrow> (string \<times> string) list" where
  "scopes_of i d = sort_key fst (sort_key snd (map snd (filter (\<lambda>(k, sc). k = i) (ad_scopes d))))"

definition with_scopes :: "(string \<times> string) list \<Rightarrow> key_info \<Rightarrow> service_key_info" where
  "with_scopes scopes k =
     \<lparr>ki_ID = ki_ID k, ki_PublicID = ki_PublicID k, ki_Name = ki_Name k, ki_Active = ki_Active k, ki_ExpiresAt = ki_ExpiresAt k,
      ki_LastUsedAt = ki_LastUsedAt k, ki_CreatedAt = ki_CreatedAt k, ki_UpdatedAt = ki_UpdatedAt k, ki_Scopes = scopes\<rparr>"

definition ListServiceKeys :: "auth_db \<Rightarrow> auth_db \<times> (go_error + service_key_info list)" where
  "ListServiceKeys d =
     (case ad_stmt ''list service keys: '' (\<lambda>d. Inr (d, map key_info.truncate (newest_first (ad_keys d)))) d of
        (d1, Inl err) \<Rightarrow> (d1, Inl err)
      | (d1, Inr rows) \<Rightarrow>
          (case ad_stmt ''iterate service keys: '' (\<lambda>d. Inr (d, ())) d1 of
             (d2, Inl err) \<Rightarrow> (d2, Inl err)
           | (d2, Inr _) \<Rightarrow>
               if rows = [] then (d2, Inr [])
               else (case ad_stmt ''list service key scopes: ''
                            (\<lambda>d. Inr (d, map (\<lambda>k. with_scopes (scopes_of (ki_ID k) d) k) rows)) d2 of
                       (d3, Inl err) \<Rightarrow> (d3, Inl err)
                     | (d3, Inr infos) \<Rightarrow> ad_stmt ''iterate service key scopes: '' (\<lambda>d. Inr (d, infos)) d3)))"

definition insert_key ::
    "string \<Rightarrow> string \<Rightarrow> string \<Rightarrow> instant option \<Rightarrow> instant \<Rightarrow> auth_db \<Rightarrow> go_error + auth_db \<times> key_info" where
  "insert_key publicID name hash expiresAt now d =
     (if list_ex (\<lambda>r. ki_PublicID r = publicID) (ad_keys d) then Inl (violates ''http_service_keys_public_id_key'')
      else let row = \<lparr>ki_ID = ad_nextKey d, ki_PublicID = publicID, ki_Name = name, ki_Active = True, ki_ExpiresAt = expiresAt,
                       ki_LastUsedAt = None, ki_CreatedAt = now, ki_UpdatedAt = now, kr_SecretHash = hash\<rparr>
           in Inr (d\<lparr>ad_keys := ad_keys d @ [row], ad_nextKey := ad_nextKey d + 1\<rparr>, key_info.truncate row))"

fun insert_scopes :: "int \<Rightarrow> (string \<times> string) list \<Rightarrow> auth_db \<Rightarrow> auth_db \<times> go_error option" where
  "insert_scopes i [] d = (d, None)"
| "insert_scopes i (sc # scs) d =
     (case ad_stmt ''insert service key scope: ''
             (\<lambda>d. if (i, sc) \<in> set (ad_scopes d) then Inl (violates ''http_service_key_scopes_pkey'')
                  else Inr (d\<lparr>ad_scopes := ad_scopes d @ [(i, sc)]\<rparr>, ())) d of
        (d1, Inl err) \<Rightarrow> (d1, Some err)
      | (d1, Inr _) \<Rightarrow> insert_scopes i scs d1)"

text \<open>A transaction that is not committed leaves no rows; a sequence is not set back.\<close>

definition rolled_back :: "auth_db \<Rightarrow> auth_db \<Rightarrow> auth_db" where
  "rolled_back d d' = d'\<lparr>ad_keys := ad_keys d, ad_scopes := ad_scopes d\<rparr>"

definition key_tx ::
    "(auth_db \<Rightarrow> auth_db \<times> (go_error + key_info)) \<Rightarrow> (string \<times> string) list \<Rightarrow> auth_db \<Rightarrow> auth_db \<times> (go_error + service_key_info)" where
  "key_tx ins scopes d =
     (case ins d of
        (d1, Inl err) \<Rightarrow> (rolled_back d d1, Inl err)
      | (d1, Inr info) \<Rightarrow>
          (case insert_scopes (ki_ID info) scopes d1 of
             (d2, Some err) \<Rightarrow> (rolled_back d d2, Inl err)
           | (d2, None) \<Rightarrow>
               (case ad_stmt ''commit service key tx: '' (\<lambda>d. Inr (d, ())) d2 of
                  (d3, Inl err) \<Rightarrow> (rolled_back d d3, Inl err)
                | (d3, Inr _) \<Rightarrow> (d3, Inr (with_scopes scopes info)))))"

definition CreateServiceKey ::
    "(string \<Rightarrow> string) \<Rightarrow> random_bytes \<Rightarrow> random_bytes \<Rightarrow> instant \<Rightarrow> string \<Rightarrow> (string \<times> string) list \<Rightarrow> instant option \<Rightarrow> auth_db \<Rightarrow>
     auth_db \<times> (go_error + service_key_info \<times> string)" where
  "CreateServiceKey sha draws1 draws2 now name scopes expiresAt d =
     (case randomHex 12 draws1 of
        Inl err \<Rightarrow> (d, Inl (Wrap ''generate public id: '' err ''''))
      | Inr publicID \<Rightarrow>
          (case randomHex 32 draws2 of
             Inl err \<Rightarrow> (d, Inl (Wrap ''generate secret: '' err ''''))
           | Inr secret \<Rightarrow>
               (case ad_stmt ''begin tx: '' (\<lambda>d. Inr (d, ())) d of
                  (d1, Inl err) \<Rightarrow> (d1, Inl err)
                | (d1, Inr _) \<Rightarrow>
                    (case key_tx (ad_stmt ''insert service key: '' (insert_key publicID name (sha secret) expiresAt now)) scopes d1 of
                       (d2, Inl err) \<Rightarrow> (d2, Inl err)
                     | (d2, Inr info) \<Rightarrow> (d2, Inr (info, serviceKeyPrefix @ publicID @ ''.'' @ secret))))))"

text \<open>The scopes of a key go with it.\<close>

definition DeleteServiceKey :: "int \<Rightarrow> auth_db \<Rightarrow> auth_db \<times> go_error option" where
  "DeleteServiceKey i d =
     (case ad_stmt (''delete service key '' @ FormatInt i @ '': '')
             (\<lambda>d. Inr (d\<lparr>ad_keys := filter (\<lambda>r. ki_ID r \<noteq> i) (ad_keys d), ad_scopes := filter (\<lambda>(k, sc). k \<noteq> i) (ad_scopes d)\<rparr>,
                       list_ex (\<lambda>r. ki_ID r = i) (ad_keys d))) d of
        (d1, Inl err) \<Rightarrow> (d1, Some err)
      | (d1, Inr affected) \<Rightarrow> (d1, if affected then None else Some (Plain (''service key '' @ FormatInt i @ '' not found''))))"

definition AuthenticateServiceKey ::
    "(string \<Rightarrow> string) \<Rightarrow> instant \<Rightarrow> string \<Rightarrow> string \<Rightarrow> string \<Rightarrow> auth_db \<Rightarrow> auth_db \<times> (go_error + (int \<times> string \<times> string) option)" where
  "AuthenticateServiceKey sha now rawToken pluginID triggerName d =
     (case parseServiceKey rawToken of
        None \<Rightarrow> (d, Inr None)
      | Some (publicID, secret) \<Rightarrow>
          (case ad_stmt (''find service key '' @ quote publicID @ '': '') (\<lambda>d. Inr (d, active_row publicID (ad_keys d))) d of
             (d1, Inl err) \<Rightarrow> (d1, Inl err)
           | (d1, Inr None) \<Rightarrow> (d1, Inr None)
           | (d1, Inr (Some row)) \<Rightarrow>
               if key_expired now row then (d1, Inr None)
               else if kr_SecretHash row \<noteq> sha secret then (d1, Inr None)
               else (case ad_stmt ''check service key scope: ''
                            (\<lambda>d. Inr (d, (ki_ID row, pluginID, triggerName) \<in> set (ad_scopes d))) d1 of
                       (d2, Inl err) \<Rightarrow> (d2, Inl err)
                     | (d2, Inr exists) \<Rightarrow>
                         if \<not> exists then (d2, Inr None)
                         else (case ad_stmt ''update service key last_used_at: ''
                                      (\<lambda>d. Inr (d\<lparr>ad_keys := map (\<lambda>r. if ki_ID r = ki_ID row then touch now r else r) (ad_keys d)\<rparr>, ())) d2 of
                                 (d3, Inl err) \<Rightarrow> (d3, Inl err)
                               | (d3, Inr _) \<Rightarrow> (d3, Inr (Some (ki_ID row, ki_PublicID row, ki_Name row)))))))"

subsection \<open>Answers (http\_helpers.go)\<close>

datatype 'b answer_body = ErrorJSON string | JSONBody 'b

record 'b http_answer =
  an_Cookies :: "set_cookie list"
  an_Status :: int
  an_Body :: "'b answer_body"

definition writeJSON :: "int \<Rightarrow> 'b \<Rightarrow> 'b http_answer" where
  "writeJSON status v = \<lparr>an_Cookies = [], an_Status = status, an_Body = JSONBody v\<rparr>"

definition writeError :: "int \<Rightarrow> string \<Rightarrow> 'b http_answer" where
  "writeError status message = \<lparr>an_Cookies = [], an_Status = status, an_Body = ErrorJSON message\<rparr>"

text \<open>The decoder with its limit of bytes is a parameter.\<close>

definition decodeJSONBody :: "(string \<Rightarrow> go_error + 'a) \<Rightarrow> http_req \<Rightarrow> 'b http_answer + 'a" where
  "decodeJSONBody decode r =
     (case (case q_Body r of Inl err \<Rightarrow> Inl err | Inr body \<Rightarrow> decode body) of
        Inl _ \<Rightarrow> Inl (writeError 400 ''invalid JSON body'')
      | Inr v \<Rightarrow> Inr v)"

text \<open>A date of expiry as text, empty for none; \<open>rfc3339\<close> is \<^verbatim>\<open>time.Parse(time.RFC3339, \<dots>)\<close>.\<close>

definition parse_expiry :: "(string \<Rightarrow> instant option) \<Rightarrow> string \<Rightarrow> 'b http_answer + instant option" where
  "parse_expiry rfc3339 s =
     (if s = '''' then Inr None
      else case rfc3339 s of
             None \<Rightarrow> Inl (writeError 400 ''expires_at must be RFC3339'')
           | Some t \<Rightarrow> Inr (Some t))"

subsection \<open>Handlers of sessions and tokens (userhttp/handler.go)\<close>

text \<open>
  The session manager may be absent, and so may the store of tokens; an authenticator is a function of
  the instant and the request.
\<close>

record user_handler =
  uh_sessions :: "session_manager option"
  uh_tokens :: bool
  uh_authenticators :: "(instant \<Rightarrow> http_req \<Rightarrow> user_id option) list"

definition NewUserHandler :: "mac \<Rightarrow> cookie_reader \<Rightarrow> session_manager option \<Rightarrow> bool \<Rightarrow> user_handler" where
  "NewUserHandler mac cookie sessions tokens =
     \<lparr>uh_sessions = sessions, uh_tokens = tokens,
      uh_authenticators = (case sessions of None \<Rightarrow> [] | Some m \<Rightarrow> [Session_Authenticate mac cookie m])\<rparr>"

definition AddAuthenticator :: "(instant \<Rightarrow> http_req \<Rightarrow> user_id option) option \<Rightarrow> user_handler \<Rightarrow> user_handler" where
  "AddAuthenticator f h =
     (case f of None \<Rightarrow> h | Some g \<Rightarrow> h\<lparr>uh_authenticators := uh_authenticators h @ [g]\<rparr>)"

fun first_user :: "('x \<Rightarrow> user_id option) list \<Rightarrow> 'x \<Rightarrow> user_id option" where
  "first_user [] x = None"
| "first_user (f # fs) x = (case f x of Some u \<Rightarrow> Some u | None \<Rightarrow> first_user fs x)"

definition requireSessionUser :: "user_handler \<Rightarrow> instant \<Rightarrow> http_req \<Rightarrow> 'b http_answer + user_id" where
  "requireSessionUser h now r =
     (case first_user (map (\<lambda>f. f now) (uh_authenticators h)) r of
        Some u \<Rightarrow> Inr u
      | None \<Rightarrow> Inl (writeError 401 ''authentication required''))"

datatype user_auth_json =
  Session_Is "user_id option"
| Logged_Out
| Token_List "key_info list"
| New_Token key_info string
| Token_Deleted

definition handleSession :: "mac \<Rightarrow> cookie_reader \<Rightarrow> user_handler \<Rightarrow> instant \<Rightarrow> http_req \<Rightarrow> user_auth_json http_answer" where
  "handleSession mac cookie h now r =
     (case uh_sessions h of
        None \<Rightarrow> writeJSON 200 (Session_Is None)
      | Some m \<Rightarrow> writeJSON 200 (Session_Is (Session_Authenticate mac cookie m now r)))"

definition handleUserLogout :: "user_handler \<Rightarrow> user_auth_json http_answer" where
  "handleUserLogout h =
     (writeJSON 200 Logged_Out)\<lparr>an_Cookies := (case uh_sessions h of None \<Rightarrow> [] | Some m \<Rightarrow> [ClearSession m])\<rparr>"

text \<open>What the three handlers of tokens begin with.\<close>

definition with_token_user ::
    "user_handler \<Rightarrow> instant \<Rightarrow> http_req \<Rightarrow> (user_id \<Rightarrow> auth_db \<Rightarrow> auth_db \<times> user_auth_json http_answer) \<Rightarrow> auth_db \<Rightarrow>
     auth_db \<times> user_auth_json http_answer" where
  "with_token_user h now r f d =
     (case requireSessionUser h now r of
        Inl ans \<Rightarrow> (d, ans)
      | Inr u \<Rightarrow> if \<not> uh_tokens h then (d, writeError 503 ''requires PostgreSQL'') else f u d)"

definition handleListTokens :: "user_handler \<Rightarrow> instant \<Rightarrow> http_req \<Rightarrow> auth_db \<Rightarrow> auth_db \<times> user_auth_json http_answer" where
  "handleListTokens h now r =
     with_token_user h now r (\<lambda>u d.
       case ListUserTokens u d of
         (d1, Inl _) \<Rightarrow> (d1, writeError 500 ''failed to list user tokens'')
       | (d1, Inr tokens) \<Rightarrow> (d1, writeJSON 200 (Token_List tokens)))"

definition handleCreateToken ::
    "(string \<Rightarrow> string) \<Rightarrow> (string \<Rightarrow> instant option) \<Rightarrow> (string \<Rightarrow> go_error + string \<times> string) \<Rightarrow> random_bytes \<Rightarrow> random_bytes \<Rightarrow>
     user_handler \<Rightarrow> instant \<Rightarrow> http_req \<Rightarrow> auth_db \<Rightarrow> auth_db \<times> user_auth_json http_answer" where
  "handleCreateToken sha rfc3339 decode draws1 draws2 h now r =
     with_token_user h now r (\<lambda>u d.
       case decodeJSONBody decode r of
         Inl ans \<Rightarrow> (d, ans)
       | Inr (name0, expires) \<Rightarrow>
           (let name = TrimSpace name0
            in if name = '''' then (d, writeError 400 ''name is required'')
               else case parse_expiry rfc3339 expires of
                      Inl ans \<Rightarrow> (d, ans)
                    | Inr expiresAt \<Rightarrow>
                        (case CreateUserToken sha draws1 draws2 now u name expiresAt d of
                           (d1, Inl _) \<Rightarrow> (d1, writeError 500 ''failed to create user token'')
                         | (d1, Inr (info, token)) \<Rightarrow> (d1, writeJSON 201 (New_Token info token)))))"

definition handleDeleteToken ::
    "user_handler \<Rightarrow> instant \<Rightarrow> http_req \<Rightarrow> string \<Rightarrow> auth_db \<Rightarrow> auth_db \<times> user_auth_json http_answer" where
  "handleDeleteToken h now r pathID =
     with_token_user h now r (\<lambda>u d.
       case ParseInt pathID of
         None \<Rightarrow> (d, writeError 400 ''invalid token ID'')
       | Some i \<Rightarrow>
           if i \<le> 0 then (d, writeError 400 ''invalid token ID'')
           else case DeleteUserToken u i d of
                  (d1, Some err) \<Rightarrow> (d1, writeError 404 (error_text err))
                | (d1, None) \<Rightarrow> (d1, writeJSON 200 Token_Deleted))"

subsection \<open>Handlers of service keys (http\_service\_key\_handlers.go)\<close>

datatype service_key_json =
  Key_List "service_key_info list"
| New_Key service_key_info string
| Key_Deleted

text \<open>\<open>store\<close> tells whether there is one. A request has a name, the scopes and the text of the expiry.\<close>

definition handleListKeys :: "bool \<Rightarrow> auth_db \<Rightarrow> auth_db \<times> service_key_json http_answer" where
  "handleListKeys store d =
     (if \<not> store then (d, writeJSON 200 (Key_List []))
      else case ListServiceKeys d of
             (d1, Inl _) \<Rightarrow> (d1, writeError 500 ''failed to list service keys'')
           | (d1, Inr ks) \<Rightarrow> (d1, writeJSON 200 (Key_List ks)))"

definition handleCreateKey ::
    "(string \<Rightarrow> string) \<Rightarrow> (string \<Rightarrow> instant option) \<Rightarrow> (string \<Rightarrow> go_error + string \<times> (string \<times> string) list \<times> string) \<Rightarrow>
     random_bytes \<Rightarrow> random_bytes \<Rightarrow> bool \<Rightarrow> instant \<Rightarrow> http_req \<Rightarrow> auth_db \<Rightarrow> auth_db \<times> service_key_json http_answer" where
  "handleCreateKey sha rfc3339 decode draws1 draws2 store now r d =
     (if \<not> store then (d, writeError 503 ''requires PostgreSQL'')
      else case decodeJSONBody decode r of
             Inl ans \<Rightarrow> (d, ans)
           | Inr (name, scopes, expires) \<Rightarrow>
               if name = '''' then (d, writeError 400 ''name is required'')
               else if scopes = [] then (d, writeError 400 ''at least one scope is required'')
               else case parse_expiry rfc3339 expires of
                      Inl ans \<Rightarrow> (d, ans)
                    | Inr expiresAt \<Rightarrow>
                        (case CreateServiceKey sha draws1 draws2 now name scopes expiresAt d of
                           (d1, Inl _) \<Rightarrow> (d1, writeError 500 ''failed to create service key'')
                         | (d1, Inr (info, token)) \<Rightarrow> (d1, writeJSON 201 (New_Key info token))))"

definition handleDeleteKey :: "bool \<Rightarrow> string \<Rightarrow> auth_db \<Rightarrow> auth_db \<times> service_key_json http_answer" where
  "handleDeleteKey store pathID d =
     (if \<not> store then (d, writeError 503 ''requires PostgreSQL'')
      else case ParseInt pathID of
             None \<Rightarrow> (d, writeError 400 ''invalid service key ID'')
           | Some i \<Rightarrow>
               if i \<le> 0 then (d, writeError 400 ''invalid service key ID'')
               else case DeleteServiceKey i d of
                      (d1, Some err) \<Rightarrow> (d1, writeError 404 (error_text err))
                    | (d1, None) \<Rightarrow> (d1, writeJSON 200 Key_Deleted))"

subsection \<open>Numbers are read back\<close>

lemma nat_digits_chars: "set (nat_digits n) \<subseteq> {c. 48 \<le> (of_char c :: nat) \<and> (of_char c :: nat) \<le> 57}"
proof (induction n rule: nat_digits.induct)
  case (1 n)
  have "(of_char (char_of (48 + k :: nat) :: char) :: nat) = 48 + k" if "k < 10" for k
    using that by (intro of_char_char_of_small) simp
  then show ?case using 1 by (subst nat_digits.simps) (auto simp: subset_iff)
qed

lemma digit_val_digit: "k < 10 \<Longrightarrow> digit_val (char_of (48 + k :: nat)) = Some (int k)"
  using of_char_char_of_small [of "48 + k"] by (simp add: digit_val_def)

lemma digits_val_append:
  "digits_val acc (xs @ ys) = (case digits_val acc xs of None \<Rightarrow> None | Some a \<Rightarrow> digits_val a ys)"
  by (induction xs arbitrary: acc) (auto split: option.split)

lemma digits_val_digits: "digits_val 0 (nat_digits n) = Some (int n)"
proof (induction n rule: nat_digits.induct)
  case (1 n)
  show ?case
  proof (cases "n < 10")
    case True
    then show ?thesis by (simp add: nat_digits.simps [of n] digit_val_digit)
  next
    case False
    have "int (n div 10) * 10 + int (n mod 10) = int n"
      by (metis div_mult_mod_eq of_nat_add of_nat_mult of_nat_numeral)
    then show ?thesis using 1 False
      by (simp add: nat_digits.simps [of n] digits_val_append digit_val_digit)
  qed
qed

lemma nat_digits_first: "nat_digits n = c # cs \<Longrightarrow> c \<noteq> CHR ''-'' \<and> c \<noteq> CHR ''+''"
  using nat_digits_chars [of n] by auto

lemma ParseInt_FormatInt:
  assumes "- (2 ^ 63) \<le> i" "i < 2 ^ 63"
  shows "ParseInt (FormatInt i) = Some i"
proof (cases "i < 0")
  case True
  then show ?thesis using assms by (simp add: FormatInt_def ParseInt_def Let_def digits_val_digits)
next
  case False
  obtain c cs where n: "nat_digits (nat i) = c # cs" by (cases "nat_digits (nat i)") auto
  have "digits_val 0 (c # cs) = Some i" using digits_val_digits [of "nat i"] False n by simp
  then show ?thesis using False assms nat_digits_first [OF n] by (simp add: FormatInt_def ParseInt_def Let_def n del: digits_val.simps)
qed

lemma FormatInt_no_colon: "CHR '':'' \<notin> set (FormatInt i)"
proof -
  have "CHR '':'' \<notin> set (nat_digits n)" for n using nat_digits_chars [of n] by auto
  then show ?thesis by (simp add: FormatInt_def)
qed

lemma SplitN_sep: "c \<notin> set p \<Longrightarrow> 2 \<le> n \<Longrightarrow> SplitN n c (p @ c # q) = p # SplitN (n - 1) c q"
  by (induction p) auto

lemma SplitN_one: "SplitN (Suc 0) c s = [s]"
  by (cases s) auto

lemma SplitN_three:
  "c \<notin> set a \<Longrightarrow> c \<notin> set b \<Longrightarrow> SplitN 3 c (a @ c # b @ c # q) = [a, b, q]"
  by (simp add: SplitN_sep SplitN_one numeral_3_eq_3)

subsection \<open>Session tokens\<close>

text \<open>C33. A session token is read back. The token that is made for a user is valid for that user, at every
  instant up to the second of its expiry and at none after it.\<close>

theorem session_token_roundtrip:
  assumes "- (2 ^ 63) \<le> u" "u < 2 ^ 63" "- (2 ^ 63) \<le> Unix (now + ttl)" "Unix (now + ttl) < 2 ^ 63"
  shows "Validate mac key now' (CreateToken mac key now u ttl) = (if Unix now' \<le> Unix (now + ttl) then Some u else None)"
proof -
  let ?p = "FormatInt u @ '':'' @ FormatInt (Unix (now + ttl))"
  have "SplitN 3 (CHR '':'') (CreateToken mac key now u ttl) = [FormatInt u, FormatInt (Unix (now + ttl)), mac key ?p]"
    using SplitN_three [OF FormatInt_no_colon FormatInt_no_colon, of u "Unix (now + ttl)"] by (simp add: CreateToken_def Let_def)
  then show ?thesis using assms by (simp add: Validate_def ParseInt_FormatInt)
qed

theorem session_token_roundtrip_witness:
  "Validate (\<lambda>k t. k @ t) ''key'' (3 * Second) (CreateToken (\<lambda>k t. k @ t) ''key'' 0 (-7) (5 * Second)) = Some (-7)"
  by (subst session_token_roundtrip) (simp_all add: Unix_def duration_defs)

lemma SplitN_Join: "n \<ge> 1 \<Longrightarrow> Join (SplitN n c s) [c] = s"
proof (induction n c s rule: SplitN.induct)
  case (2 n c x xs)
  show ?case
  proof (cases "n \<le> 1")
    case False
    show ?thesis
    proof (cases "x = c")
      case True
      have "SplitN (n - 1) c xs \<noteq> []" by (cases xs) (auto split: list.splits)
      then show ?thesis using 2 False True by (simp add: Join_Cons_append)
    next
      case neq: False
      obtain p ps where s: "SplitN n c xs = p # ps" by (cases "SplitN n c xs"; cases xs) (auto split: if_splits list.splits)
      have "Join ((x # p) # ps) [c] = x # Join (p # ps) [c]" by (cases ps) auto
      then show ?thesis using 2 False neq s by simp
    qed
  qed simp
qed simp

text \<open>Only texts with the signature of their own user and expiry are valid.\<close>

lemma Validate_signed:
  assumes "Validate mac key now token = Some u"
  shows "\<exists>uid expiry e. token = uid @ '':'' @ expiry @ '':'' @ mac key (uid @ '':'' @ expiry) \<and>
    ParseInt uid = Some u \<and> ParseInt expiry = Some e \<and> Unix now \<le> e"
proof -
  obtain uid expiry sig where s: "SplitN 3 (CHR '':'') token = [uid, expiry, sig]"
    using assms by (auto simp: Validate_def split: list.splits)
  have "token = uid @ '':'' @ expiry @ '':'' @ sig" using SplitN_Join [of 3 "CHR '':''" token] s by simp
  moreover obtain e where "ParseInt expiry = Some e" "Unix now \<le> e" "ParseInt uid = Some u" "sig = mac key (uid @ '':'' @ expiry)"
    using assms s by (auto simp: Validate_def split: option.splits if_splits)
  ultimately show ?thesis by blast
qed

subsection \<open>Well-formed tables\<close>

definition tokens_ok :: "auth_db \<Rightarrow> bool" where
  "tokens_ok d \<longleftrightarrow>
     distinct (map ki_PublicID (ad_tokens d)) \<and> distinct (map ki_ID (ad_tokens d)) \<and> (\<forall>r\<in>set (ad_tokens d). ki_ID r < ad_nextToken d)"

definition keys_ok :: "auth_db \<Rightarrow> bool" where
  "keys_ok d \<longleftrightarrow>
     distinct (map ki_PublicID (ad_keys d)) \<and> distinct (map ki_ID (ad_keys d)) \<and> (\<forall>r\<in>set (ad_keys d). ki_ID r < ad_nextKey d) \<and>
     (\<forall>x\<in>set (ad_scopes d). fst x \<in> ki_ID ` set (ad_keys d))"

text \<open>A statement that consumes an outcome.\<close>

definition ad_used :: "auth_db \<Rightarrow> auth_db \<Rightarrow> bool" where
  "ad_used d d' \<longleftrightarrow> (\<exists>os. d' = d\<lparr>ad_outcomes := os\<rparr>)"

lemma ad_used_refl [simp]: "ad_used d d"
  unfolding ad_used_def by (rule exI [of _ "ad_outcomes d"]) simp

lemma ad_used_trans: "ad_used d d1 \<Longrightarrow> ad_used d1 d2 \<Longrightarrow> ad_used d d2"
  by (auto simp: ad_used_def)

lemma ad_used_tables:
  "ad_used d d' \<Longrightarrow> ad_users d' = ad_users d \<and> ad_tokens d' = ad_tokens d \<and> ad_keys d' = ad_keys d \<and> ad_scopes d' = ad_scopes d \<and>
     ad_nextToken d' = ad_nextToken d \<and> ad_nextKey d' = ad_nextKey d"
  by (auto simp: ad_used_def)

lemma ad_outcome_used: "ad_outcome d = (d', out) \<Longrightarrow> ad_used d d'"
proof -
  assume "ad_outcome d = (d', out)"
  then show "ad_used d d'"
    by (cases "ad_outcomes d") (auto simp: ad_outcome_def ad_used_def intro: exI [of _ "tl (ad_outcomes d)"])
qed

lemma ad_stmt_cases:
  assumes "ad_stmt what stmt d = (d', r)"
  shows "\<exists>d1. ad_used d d1 \<and> (case r of Inl _ \<Rightarrow> d' = d1 | Inr x \<Rightarrow> stmt d1 = Inr (d', x))"
proof -
  obtain d1 out where n: "ad_outcome d = (d1, out)" by fastforce
  show ?thesis
    using assms ad_outcome_used [OF n] by (auto simp: ad_stmt_def n split: option.splits sum.splits intro!: exI [of _ d1])
qed

lemma ad_stmt_no_outcomes [simp]:
  "ad_outcomes d = [] \<Longrightarrow> ad_stmt what stmt d =
     (case stmt d of Inl err \<Rightarrow> (d, Inl (Wrap what err '''')) | Inr (d2, x) \<Rightarrow> (d2, Inr x))"
  by (simp add: ad_stmt_def ad_outcome_def)

lemma ad_query_used:
  assumes "ad_stmt what (\<lambda>d. Inr (d, f d)) d = (d', r)"
  shows "ad_used d d'" "\<And>x. r = Inr x \<Longrightarrow> x = f d'"
  using ad_stmt_cases [OF assms] by (cases r; auto)+

text \<open>A sequence that succeeds, step by step.\<close>

lemma and_then_ok:
  "(case p of (d1, Inl e) \<Rightarrow> (d1, Inl e) | (d1, Inr x) \<Rightarrow> f d1 x) = (d', Inr y) \<longleftrightarrow> (\<exists>d1 x. p = (d1, Inr x) \<and> f d1 x = (d', Inr y))"
  by (cases p; cases "snd p") auto

lemma or_nothing_ok:
  "(case x of None \<Rightarrow> (d, Inr None) | Some z \<Rightarrow> f z) = (d', Inr (Some y)) \<longleftrightarrow> (\<exists>z. x = Some z \<and> f z = (d', Inr (Some y)))"
  by (cases x) auto

lemma unless_ok: "(if b then (d, Inr None) else f) = (d', Inr (Some y)) \<longleftrightarrow> \<not> b \<and> f = (d', Inr (Some y))"
  by auto

lemmas ok_steps = and_then_ok or_nothing_ok unless_ok

text \<open>A relation that holds for the statements holds for what is made of them.\<close>

lemma ad_stmt_rel:
  assumes "\<And>d d' x. stmt d = Inr (d', x) \<Longrightarrow> R d d'" "\<And>d d1 d2. ad_used d d1 \<Longrightarrow> R d1 d2 \<Longrightarrow> R d d2" "\<And>d. R d d"
  shows "R d (fst (ad_stmt what stmt d))"
proof -
  obtain d' r where e: "ad_stmt what stmt d = (d', r)" by fastforce
  obtain d1 where d1: "ad_used d d1" "case r of Inl _ \<Rightarrow> d' = d1 | Inr x \<Rightarrow> stmt d1 = Inr (d', x)"
    using ad_stmt_cases [OF e] by blast
  show ?thesis
  proof (cases r)
    case (Inl err)
    then show ?thesis using d1 assms(2) [OF d1(1) assms(3)] by (simp add: e)
  next
    case (Inr x)
    then show ?thesis using d1(2) assms(2) [OF d1(1) assms(1)] by (simp add: e)
  qed
qed

subsection \<open>Who a token or a key authenticates\<close>

lemma parse_key_text: "parse_key pre raw = Some (publicID, secret) \<Longrightarrow> raw = pre @ publicID @ ''.'' @ secret"
proof -
  assume p: "parse_key pre raw = Some (publicID, secret)"
  then have pre: "raw = pre @ TrimPrefix raw pre" by (auto simp: parse_key_def TrimPrefix_def prefix_def split: if_splits)
  obtain i where i: "IndexByte (TrimPrefix raw pre) (CHR ''.'') = Some i"
    "publicID = take i (TrimPrefix raw pre)" "secret = drop (i + 1) (TrimPrefix raw pre)"
    using p by (auto simp: parse_key_def Let_def split: if_splits option.splits)
  have "TrimPrefix raw pre = publicID @ ''.'' @ secret"
    using IndexByte_Some_nth [OF i(1)] i(2,3) id_take_nth_drop [of i "TrimPrefix raw pre"] by simp
  then show ?thesis using pre by simp
qed

lemma parse_key_print:
  "CHR ''.'' \<notin> set publicID \<Longrightarrow> publicID \<noteq> '''' \<Longrightarrow> secret \<noteq> '''' \<Longrightarrow>
   parse_key pre (pre @ publicID @ ''.'' @ secret) = Some (publicID, secret)"
  by (simp add: parse_key_def IndexByte_append_first Let_def)

lemma AuthenticateUserToken_row:
  assumes "AuthenticateUserToken sha now raw d = (d', Inr (Some u))"
  shows "\<exists>row\<in>set (ad_tokens d). \<exists>secret. raw = userTokenPrefix @ ki_PublicID row @ ''.'' @ secret \<and> ki_Active row \<and>
    \<not> key_expired now row \<and> kr_SecretHash row = sha secret \<and> tr_UserID row = u"
proof -
  obtain publicID secret d1 row where p: "parseUserToken raw = Some (publicID, secret)"
    and q: "ad_stmt (''find user token '' @ quote publicID @ '': '') (\<lambda>d. Inr (d, active_row publicID (ad_tokens d))) d = (d1, Inr (Some row))"
    and ok: "\<not> key_expired now row" "kr_SecretHash row = sha secret" "tr_UserID row = u"
    using assms unfolding AuthenticateUserToken_def by (auto simp only: ok_steps split_paired_Ex prod.case prod.inject sum.inject option.inject)
  have "active_row publicID (ad_tokens d) = Some row"
    using ad_query_used [OF q] ad_used_tables by auto
  then have "row \<in> set (ad_tokens d)" "ki_PublicID row = publicID" "ki_Active row"
    by (auto simp: active_row_def dest!: find_mem)
  moreover have "raw = userTokenPrefix @ publicID @ ''.'' @ secret" using parse_key_text p by (simp add: parseUserToken_def)
  ultimately show ?thesis using ok by blast
qed

lemma AuthenticateServiceKey_row:
  assumes "AuthenticateServiceKey sha now raw p t d = (d', Inr (Some (i, pub, name)))"
  shows "\<exists>row\<in>set (ad_keys d). \<exists>secret. raw = serviceKeyPrefix @ ki_PublicID row @ ''.'' @ secret \<and> ki_Active row \<and>
    \<not> key_expired now row \<and> kr_SecretHash row = sha secret \<and> ki_ID row = i \<and> (i, p, t) \<in> set (ad_scopes d)"
proof -
  obtain publicID secret d1 row d2 x where k: "parseServiceKey raw = Some (publicID, secret)"
    and q: "ad_stmt (''find service key '' @ quote publicID @ '': '') (\<lambda>d. Inr (d, active_row publicID (ad_keys d))) d = (d1, Inr (Some row))"
    and ok: "\<not> key_expired now row" "kr_SecretHash row = sha secret" "ki_ID row = i"
    and s: "ad_stmt ''check service key scope: '' (\<lambda>d. Inr (d, (ki_ID row, p, t) \<in> set (ad_scopes d))) d1 = (d2, Inr x)" "x"
    using assms unfolding AuthenticateServiceKey_def ok_steps split_paired_Ex prod.case prod.inject sum.inject option.inject not_not
    by blast
  have "active_row publicID (ad_keys d) = Some row"
    using ad_query_used [OF q] ad_used_tables by auto
  then have "row \<in> set (ad_keys d)" "ki_PublicID row = publicID" "ki_Active row"
    by (auto simp: active_row_def dest!: find_mem)
  moreover have "(i, p, t) \<in> set (ad_scopes d)"
    using ad_query_used(2) [OF s(1) refl] ad_used_tables [OF ad_query_used(1) [OF s(1)]] ad_used_tables [OF ad_query_used(1) [OF q]] s(2) ok(3)
    by simp
  moreover have "raw = serviceKeyPrefix @ publicID @ ''.'' @ secret" using parse_key_text k by (simp add: parseServiceKey_def)
  ultimately show ?thesis using ok by blast
qed

subsection \<open>What happens to tokens and keys\<close>

text \<open>What of a token never changes: all but when it was used.\<close>

definition token_core :: "token_row \<Rightarrow> (user_id \<times> int) \<times> string \<times> bool \<times> instant option \<times> string" where
  "token_core r = ((tr_UserID r, ki_ID r), ki_PublicID r, ki_Active r, ki_ExpiresAt r, kr_SecretHash r)"

lemma token_core_touch [simp]: "token_core (touch now r) = token_core r" "ki_PublicID (touch now r) = ki_PublicID r" "ki_ID (touch now r) = ki_ID r"
  by (simp_all add: token_core_def touch_def)

lemma key_touch [simp]: "ki_PublicID (touch now (r :: key_row)) = ki_PublicID r" "ki_ID (touch now r) = ki_ID r"
  by (simp_all add: touch_def)

text \<open>From one state to another: the tables stay well formed, and only the tokens given by \<open>gone\<close> may go.\<close>

definition keeps_tokens :: "(user_id \<times> int) set \<Rightarrow> auth_db \<Rightarrow> auth_db \<Rightarrow> bool" where
  "keeps_tokens gone d d' \<longleftrightarrow>
     (keys_ok d \<longrightarrow> keys_ok d' \<and> ad_nextKey d \<le> ad_nextKey d') \<and>
     (tokens_ok d \<longrightarrow> tokens_ok d' \<and> (\<forall>c\<in>token_core ` set (ad_tokens d). fst c \<in> gone \<or> c \<in> token_core ` set (ad_tokens d')))"

lemma keeps_tokens_refl [simp]: "keeps_tokens X d d"
  by (auto simp: keeps_tokens_def)

lemma keeps_tokens_trans: "keeps_tokens X d d1 \<Longrightarrow> keeps_tokens X d1 d2 \<Longrightarrow> keeps_tokens X d d2"
  unfolding keeps_tokens_def by (meson order_trans)

lemma keeps_tokens_mono: "keeps_tokens X d d' \<Longrightarrow> X \<subseteq> Y \<Longrightarrow> keeps_tokens Y d d'"
  unfolding keeps_tokens_def by blast

lemma tokens_ok_outcomes [simp]: "tokens_ok (d\<lparr>ad_outcomes := os\<rparr>) = tokens_ok d"
  by (simp add: tokens_ok_def)

lemma keys_ok_outcomes [simp]: "keys_ok (d\<lparr>ad_outcomes := os\<rparr>) = keys_ok d"
  by (simp add: keys_ok_def)

lemma keeps_tokens_used: "ad_used d d1 \<Longrightarrow> keeps_tokens X d1 d2 \<Longrightarrow> keeps_tokens X d d2"
  unfolding ad_used_def by (elim exE) (simp add: keeps_tokens_def)

interpretation auth: kept "keeps_tokens X" for X
  by unfold_locales (auto intro: keeps_tokens_trans)

lemma keeps_stmt:
  "(\<And>d d' x. stmt d = Inr (d', x) \<Longrightarrow> keeps_tokens X d d') \<Longrightarrow> keeps_tokens X d (fst (ad_stmt what stmt d))"
  by (rule ad_stmt_rel) (auto intro: keeps_tokens_used)

lemma keeps_query: "keeps_tokens X d (fst (ad_stmt what (\<lambda>d. Inr (d, f d)) d))"
  by (rule keeps_stmt) simp

text \<open>Changing one of the two kinds leaves the other.\<close>

lemma keeps_tokens_only:
  assumes "ad_keys d' = ad_keys d" "ad_scopes d' = ad_scopes d" "ad_nextKey d' = ad_nextKey d"
    and "tokens_ok d \<Longrightarrow> tokens_ok d'"
    and "\<And>r. r \<in> set (ad_tokens d) \<Longrightarrow> (tr_UserID r, ki_ID r) \<in> X \<or> token_core r \<in> token_core ` set (ad_tokens d')"
  shows "keeps_tokens X d d'"
proof -
  have "keys_ok d' = keys_ok d" unfolding keys_ok_def assms(1-3) ..
  moreover have "fst c \<in> X \<or> c \<in> token_core ` set (ad_tokens d')" if c: "c \<in> token_core ` set (ad_tokens d)" for c
  proof -
    obtain r where "r \<in> set (ad_tokens d)" "c = token_core r" using c by blast
    then show ?thesis using assms(5) [of r] by (simp add: token_core_def)
  qed
  ultimately show ?thesis using assms(3,4) by (simp add: keeps_tokens_def)
qed

lemma keeps_keys_only:
  assumes "ad_tokens d' = ad_tokens d" "ad_nextToken d' = ad_nextToken d"
    and "keys_ok d \<Longrightarrow> keys_ok d' \<and> ad_nextKey d \<le> ad_nextKey d'"
  shows "keeps_tokens X d d'"
proof -
  have "tokens_ok d' = tokens_ok d" unfolding tokens_ok_def assms(1,2) ..
  then show ?thesis using assms by (simp add: keeps_tokens_def)
qed

lemma keeps_map_tokens:
  assumes "\<And>r. token_core (f r) = token_core r"
  shows "keeps_tokens X d (d\<lparr>ad_tokens := map f (ad_tokens d)\<rparr>)"
proof (rule keeps_tokens_only)
  have core: "ki_PublicID (f r) = ki_PublicID r" "ki_ID (f r) = ki_ID r" for r using assms [of r] by (simp_all add: token_core_def)
  show "tokens_ok (d\<lparr>ad_tokens := map f (ad_tokens d)\<rparr>)" if "tokens_ok d"
    using that by (simp add: tokens_ok_def core o_def)
  show "(tr_UserID r, ki_ID r) \<in> X \<or> token_core r \<in> token_core ` set (ad_tokens (d\<lparr>ad_tokens := map f (ad_tokens d)\<rparr>))"
    if "r \<in> set (ad_tokens d)" for r
    using that by (simp add: image_image assms)
qed simp_all

lemma keeps_map_keys:
  assumes "\<And>r. ki_PublicID (f r) = ki_PublicID r" "\<And>r. ki_ID (f r) = ki_ID r"
  shows "keeps_tokens X d (d\<lparr>ad_keys := map f (ad_keys d)\<rparr>)"
  using assms by (intro keeps_keys_only) (simp_all add: keys_ok_def o_def image_image)

lemma keeps_filter_tokens:
  assumes "\<And>r. \<not> P r \<Longrightarrow> (tr_UserID r, ki_ID r) \<in> X"
  shows "keeps_tokens X d (d\<lparr>ad_tokens := filter P (ad_tokens d)\<rparr>)"
  using assms by (intro keeps_tokens_only) (auto simp: tokens_ok_def distinct_map_filter)

lemma keeps_drop_key:
  "keeps_tokens X d (d\<lparr>ad_keys := filter (\<lambda>r. ki_ID r \<noteq> i) (ad_keys d), ad_scopes := filter (\<lambda>(k, sc). k \<noteq> i) (ad_scopes d)\<rparr>)"
proof (rule keeps_keys_only)
  assume ok: "keys_ok d"
  have "fst x \<in> ki_ID ` set (filter (\<lambda>r. ki_ID r \<noteq> i) (ad_keys d))" if "x \<in> set (ad_scopes d)" "fst x \<noteq> i" for x
    using ok that by (force simp: keys_ok_def)
  then show "keys_ok (d\<lparr>ad_keys := filter (\<lambda>r. ki_ID r \<noteq> i) (ad_keys d), ad_scopes := filter (\<lambda>(k, sc). k \<noteq> i) (ad_scopes d)\<rparr>) \<and>
      ad_nextKey d \<le> ad_nextKey (d\<lparr>ad_keys := filter (\<lambda>r. ki_ID r \<noteq> i) (ad_keys d), ad_scopes := filter (\<lambda>(k, sc). k \<noteq> i) (ad_scopes d)\<rparr>)"
    using ok by (auto simp: keys_ok_def distinct_map_filter)
qed simp_all

lemma list_ex_public: "list_ex (\<lambda>r. ki_PublicID r = p) rs \<longleftrightarrow> p \<in> ki_PublicID ` set rs"
  by (auto simp: list_ex_iff)

lemma next_id:
  assumes "\<forall>r\<in>set rs. ki_ID r < n"
  shows "\<forall>r\<in>set rs. ki_ID r < n + 1" "n \<notin> ki_ID ` set rs"
  using assms by force+

lemma insert_token_keeps:
  assumes "insert_token u publicID name hash expiresAt now d = Inr (d', info)"
  shows "keeps_tokens X d d'"
proof (rule keeps_tokens_only)
  obtain r where r: "ad_tokens d' = ad_tokens d @ [r]" "ki_ID r = ad_nextToken d" "ki_PublicID r = publicID"
    and new: "publicID \<notin> ki_PublicID ` set (ad_tokens d)" and n: "ad_nextToken d' = ad_nextToken d + 1"
    using assms by (auto simp: insert_token_def list_ex_public Let_def split: if_splits)
  show "tokens_ok d'" if "tokens_ok d"
    using that new next_id [of "ad_tokens d" "ad_nextToken d"] by (simp add: tokens_ok_def r n)
  show "(tr_UserID r, ki_ID r) \<in> X \<or> token_core r \<in> token_core ` set (ad_tokens d')" if "r \<in> set (ad_tokens d)" for r
    using that r by simp
qed (use assms in \<open>auto simp: insert_token_def Let_def split: if_splits\<close>)

lemma insert_key_keeps:
  assumes "insert_key publicID name hash expiresAt now d = Inr (d', info)"
  shows "keeps_tokens X d d'" "ki_ID info \<in> ki_ID ` set (ad_keys d')"
proof -
  obtain r where r: "ad_keys d' = ad_keys d @ [r]" "ki_ID r = ad_nextKey d" "ki_PublicID r = publicID" "info = key_info.truncate r"
    and new: "publicID \<notin> ki_PublicID ` set (ad_keys d)" and n: "ad_nextKey d' = ad_nextKey d + 1" "ad_scopes d' = ad_scopes d"
    using assms by (auto simp: insert_key_def list_ex_public Let_def split: if_splits)
  show "ki_ID info \<in> ki_ID ` set (ad_keys d')" using r by (simp add: key_info.truncate_def)
  show "keeps_tokens X d d'"
  proof (rule keeps_keys_only)
    show "keys_ok d' \<and> ad_nextKey d \<le> ad_nextKey d'" if "keys_ok d"
      using that new next_id [of "ad_keys d" "ad_nextKey d"] by (auto simp: keys_ok_def r n)
  qed (use assms in \<open>auto simp: insert_key_def Let_def split: if_splits\<close>)
qed

lemma insert_scopes_keeps:
  "i \<in> ki_ID ` set (ad_keys d) \<Longrightarrow> keeps_tokens X d (fst (insert_scopes i scs d))"
proof (induction scs arbitrary: d)
  case (Cons sc scs)
  let ?stmt = "\<lambda>d. if (i, sc) \<in> set (ad_scopes d) then Inl (violates ''http_service_key_scopes_pkey'')
      else Inr (d\<lparr>ad_scopes := ad_scopes d @ [(i, sc)]\<rparr>, ())"
  obtain d1 r where s: "ad_stmt ''insert service key scope: '' ?stmt d = (d1, r)" by fastforce
  obtain d0 where d0: "ad_used d d0" "case r of Inl _ \<Rightarrow> d1 = d0 | Inr x \<Rightarrow> ?stmt d0 = Inr (d1, x)"
    using ad_stmt_cases [OF s] by blast
  have "ad_keys d1 = ad_keys d \<and> keeps_tokens X d d1"
  proof (cases r)
    case (Inl e)
    then show ?thesis using d0 keeps_tokens_used [OF d0(1) keeps_tokens_refl] ad_used_tables by simp
  next
    case (Inr x)
    then have d1: "d1 = d0\<lparr>ad_scopes := ad_scopes d0 @ [(i, sc)]\<rparr>" using d0(2) by (simp split: if_splits)
    have "i \<in> ki_ID ` set (ad_keys d0)" using Cons.prems ad_used_tables [OF d0(1)] by simp
    then have "keeps_tokens X d0 d1" by (intro keeps_keys_only) (auto simp: d1 keys_ok_def)
    then show ?thesis using keeps_tokens_used [OF d0(1)] ad_used_tables [OF d0(1)] d1 by simp
  qed
  then have "keeps_tokens X d d1" "keeps_tokens X d1 (fst (insert_scopes i scs d1))"
    using Cons by auto
  then show ?case using keeps_tokens_trans by (cases r) (auto simp: s)
qed simp

lemma rolled_back_keeps: "keeps_tokens X d d1 \<Longrightarrow> keeps_tokens X d (rolled_back d d1)"
  by (force simp: keeps_tokens_def rolled_back_def keys_ok_def tokens_ok_def)

lemma key_tx_keeps: "keeps_tokens X d (fst (key_tx (ad_stmt what (insert_key publicID name hash expiresAt now)) scopes d))"
proof -
  obtain d1 r where i: "ad_stmt what (insert_key publicID name hash expiresAt now) d = (d1, r)" by fastforce
  have k1: "keeps_tokens X d d1"
    using keeps_stmt [of "insert_key publicID name hash expiresAt now" X d what] insert_key_keeps(1) by (simp add: i)
  show ?thesis
  proof (cases r)
    case (Inr info)
    obtain d2 e where s: "insert_scopes (ki_ID info) scopes d1 = (d2, e)" by fastforce
    obtain d3 q where c: "ad_stmt ''commit service key tx: '' (\<lambda>d. Inr (d, ())) d2 = (d3, q)" by fastforce
    have "ki_ID info \<in> ki_ID ` set (ad_keys d1)"
      using ad_stmt_cases [OF i] Inr insert_key_keeps(2) by auto
    then have k2: "keeps_tokens X d d2"
      using keeps_tokens_trans [OF k1] insert_scopes_keeps [of "ki_ID info" d1 X scopes] by (simp add: s)
    have k3: "keeps_tokens X d d3"
      using keeps_tokens_trans [OF k2] keeps_query [of X d2 "''commit service key tx: ''" "\<lambda>_. ()"] by (simp add: c)
    show ?thesis
      using rolled_back_keeps [OF k2] rolled_back_keeps [OF k3] k3 by (cases e; cases q) (simp_all add: key_tx_def i Inr s c)
  qed (use rolled_back_keeps [OF k1] in \<open>simp add: key_tx_def i\<close>)
qed

lemmas auth_rules = auth.kept_sum auth.kept_choice auth.kept_prod auth.kept_option auth.kept_pair auth.kept_if auth.kept_refl
  keeps_query [THEN [2] auth.kept_trans]

lemma CreateUserToken_keeps: "keeps_tokens X d (fst (CreateUserToken sha draws1 draws2 now u name expiresAt d))"
  unfolding CreateUserToken_def
  by (cases "randomHex 12 draws1"; cases "randomHex 32 draws2"; simp) (intro auth_rules keeps_stmt insert_token_keeps)

lemma DeleteUserToken_keeps: "(u, i) \<in> X \<Longrightarrow> keeps_tokens X d (fst (DeleteUserToken u i d))"
  unfolding DeleteUserToken_def fst_case_result by (rule keeps_stmt) (auto intro: keeps_filter_tokens)

lemma AuthenticateUserToken_keeps: "keeps_tokens X d (fst (AuthenticateUserToken sha now raw d))"
proof -
  have touched: "keeps_tokens X d (fst (ad_stmt w (\<lambda>d. Inr (d\<lparr>ad_tokens := map (\<lambda>r. if ki_PublicID r = p then touch now r else r) (ad_tokens d)\<rparr>, ())) d))" for d w p
    by (rule keeps_stmt) (auto intro: keeps_map_tokens)
  show ?thesis
  proof (cases "parseUserToken raw")
    case (Some key)
    then obtain publicID secret where key: "parseUserToken raw = Some (publicID, secret)" by (cases key) auto
    show ?thesis
      unfolding AuthenticateUserToken_def key option.case prod.case
      by (intro auth_rules touched [THEN [2] auth.kept_trans])
  qed (simp add: AuthenticateUserToken_def)
qed

lemma CreateServiceKey_keeps: "keeps_tokens X d (fst (CreateServiceKey sha draws1 draws2 now name scopes expiresAt d))"
  unfolding CreateServiceKey_def
  by (cases "randomHex 12 draws1"; cases "randomHex 32 draws2"; simp) (intro auth_rules key_tx_keeps [THEN [2] auth.kept_trans])

lemma DeleteServiceKey_keeps: "keeps_tokens X d (fst (DeleteServiceKey i d))"
  unfolding DeleteServiceKey_def fst_case_result by (rule keeps_stmt) (auto intro: keeps_drop_key)

lemma AuthenticateServiceKey_keeps: "keeps_tokens X d (fst (AuthenticateServiceKey sha now raw p t d))"
proof -
  have touched: "keeps_tokens X d (fst (ad_stmt w (\<lambda>d. Inr (d\<lparr>ad_keys := map (\<lambda>r. if ki_ID r = i then touch now r else r) (ad_keys d)\<rparr>, ())) d))" for d w i
    by (rule keeps_stmt) (auto intro: keeps_map_keys)
  show ?thesis
  proof (cases "parseServiceKey raw")
    case (Some key)
    then obtain publicID secret where key: "parseServiceKey raw = Some (publicID, secret)" by (cases key) auto
    show ?thesis
      unfolding AuthenticateServiceKey_def key option.case prod.case
      by (intro auth_rules touched [THEN [2] auth.kept_trans])
  qed (simp add: AuthenticateServiceKey_def)
qed

subsection \<open>Histories of tokens and keys\<close>

datatype auth_action =
  Token_Created random_bytes random_bytes instant user_id string "instant option"
| Token_Removed user_id int
| Token_Used instant string
| Key_Created random_bytes random_bytes instant string "(string \<times> string) list" "instant option"
| Key_Removed int
| Key_Used instant string string string

definition auth_step :: "(string \<Rightarrow> string) \<Rightarrow> auth_action \<Rightarrow> auth_db \<Rightarrow> auth_db" where
  "auth_step sha act d =
     (case act of
        Token_Created r1 r2 now u name e \<Rightarrow> fst (CreateUserToken sha r1 r2 now u name e d)
      | Token_Removed u i \<Rightarrow> fst (DeleteUserToken u i d)
      | Token_Used now raw \<Rightarrow> fst (AuthenticateUserToken sha now raw d)
      | Key_Created r1 r2 now name scopes e \<Rightarrow> fst (CreateServiceKey sha r1 r2 now name scopes e d)
      | Key_Removed i \<Rightarrow> fst (DeleteServiceKey i d)
      | Key_Used now raw p t \<Rightarrow> fst (AuthenticateServiceKey sha now raw p t d))"

definition removals :: "auth_action list \<Rightarrow> (user_id \<times> int) list" where
  "removals acts = concat (map (\<lambda>act. case act of Token_Removed u i \<Rightarrow> [(u, i)] | _ \<Rightarrow> []) acts)"

definition auth_run :: "(string \<Rightarrow> string) \<Rightarrow> auth_action list \<Rightarrow> auth_db \<Rightarrow> auth_db" where
  "auth_run sha acts d = fold (auth_step sha) acts d"

lemma auth_step_keeps: "set (removals [act]) \<subseteq> X \<Longrightarrow> keeps_tokens X d (auth_step sha act d)"
  by (cases act) (auto simp: auth_step_def removals_def CreateUserToken_keeps DeleteUserToken_keeps AuthenticateUserToken_keeps
      CreateServiceKey_keeps DeleteServiceKey_keeps AuthenticateServiceKey_keeps)

lemma auth_run_keeps: "set (removals acts) \<subseteq> X \<Longrightarrow> keeps_tokens X d (auth_run sha acts d)"
proof (induction acts arbitrary: d)
  case (Cons act acts)
  have "set (removals [act]) \<subseteq> X" "set (removals acts) \<subseteq> X" using Cons.prems by (auto simp: removals_def)
  then show ?case
    using keeps_tokens_trans [OF auth_step_keeps [of act X d sha] Cons.IH] by (simp add: auth_run_def)
qed (simp add: auth_run_def)

lemma hexString_no_dot: "CHR ''.'' \<notin> set (hexString bs)"
proof -
  have "CHR ''.'' \<noteq> hex_digit n" if "n < 16" for n
  proof -
    have "(of_char (hex_digit n) :: nat) \<noteq> 46"
    proof (cases "n < 10")
      case True
      then show ?thesis using of_char_char_of_small [of "48 + n"] by (simp add: hex_digit_def)
    next
      case False
      then show ?thesis using of_char_char_of_small [of "87 + n"] that by (simp add: hex_digit_def)
    qed
    moreover have "(of_char (CHR ''.'') :: nat) = 46" by simp
    ultimately show ?thesis by metis
  qed
  then show ?thesis by (auto simp: hexString_def)
qed

lemma hexString_not_empty: "bs \<noteq> [] \<Longrightarrow> hexString bs \<noteq> ''''"
  by (cases bs) (auto simp: hexString_def)

lemma created_token:
  assumes "CreateUserToken sha (Inr bs1) (Inr bs2) now u name expiresAt d = (d1, Inr (info, token))"
    and "bs1 \<noteq> []" "bs2 \<noteq> []"
  shows "\<exists>publicID secret. parseUserToken token = Some (publicID, secret) \<and>
    ((u, ki_ID info), publicID, True, expiresAt, sha secret) \<in> token_core ` set (ad_tokens d1)"
proof -
  define publicID secret where "publicID = hexString (take 12 bs1)" and "secret = hexString (take 32 bs2)"
  have i: "ad_stmt ''insert user token: '' (insert_token u publicID name (sha secret) expiresAt now) d = (d1, Inr info)"
    and t: "token = userTokenPrefix @ publicID @ ''.'' @ secret"
    using assms(1) by (auto simp: CreateUserToken_def randomHex_def publicID_def secret_def split: prod.splits sum.splits)
  have "parseUserToken token = Some (publicID, secret)"
    unfolding t parseUserToken_def using assms(2,3)
    by (intro parse_key_print) (simp_all add: publicID_def secret_def hexString_no_dot hexString_not_empty)
  moreover obtain d0 where "insert_token u publicID name (sha secret) expiresAt now d0 = Inr (d1, info)"
    using ad_stmt_cases [OF i] by auto
  ultimately show ?thesis
    by (auto simp: insert_token_def Let_def token_core_def key_info.truncate_def split: if_splits)
qed

lemma active_row_core:
  assumes "tokens_ok d" "((u, i), publicID, True, expiresAt, h) \<in> token_core ` set (ad_tokens d)"
  shows "\<exists>row. active_row publicID (ad_tokens d) = Some row \<and> tr_UserID row = u \<and> ki_ExpiresAt row = expiresAt \<and> kr_SecretHash row = h"
proof -
  obtain r where r: "r \<in> set (ad_tokens d)" "token_core r = ((u, i), publicID, True, expiresAt, h)" using assms(2) by auto
  then have "active_row publicID (ad_tokens d) \<noteq> None" by (auto simp: active_row_def find_None_iff token_core_def)
  then obtain row where row: "active_row publicID (ad_tokens d) = Some row" by auto
  then have "row \<in> set (ad_tokens d)" "ki_PublicID row = publicID" by (auto simp: active_row_def dest!: find_mem)
  moreover have "inj_on ki_PublicID (set (ad_tokens d))" using assms(1) by (simp add: tokens_ok_def distinct_map)
  ultimately have "row = r" using r by (auto simp: token_core_def dest: inj_onD)
  then show ?thesis using row r(2) by (auto simp: token_core_def)
qed

text \<open>C34. A token of a user works until it is removed or expires, and never longer than that. After the
  token was made, whatever is done with other tokens and with keys of services, it authenticates the
  user it was made for at every instant up to its expiry, and nobody afterwards, as long as that user
  did not remove it; a removal under another user's name does nothing to it.\<close>

theorem token_works_until_removed:
  assumes "tokens_ok d" "CreateUserToken sha (Inr bs1) (Inr bs2) now u name expiresAt d = (d1, Inr (info, token))"
    and "bs1 \<noteq> []" "bs2 \<noteq> []" "(u, ki_ID info) \<notin> set (removals acts)" "ad_outcomes (auth_run sha acts d1) = []"
  shows "snd (AuthenticateUserToken sha now' token (auth_run sha acts d1)) =
    Inr (case expiresAt of Some t \<Rightarrow> if now' > t then None else Some u | None \<Rightarrow> Some u)"
proof -
  let ?d = "auth_run sha acts d1"
  obtain publicID secret where p: "parseUserToken token = Some (publicID, secret)"
    and core: "((u, ki_ID info), publicID, True, expiresAt, sha secret) \<in> token_core ` set (ad_tokens d1)"
    using created_token [OF assms(2-4)] by blast
  have "tokens_ok d1" using CreateUserToken_keeps [of "{}" d sha "Inr bs1" "Inr bs2" now u name expiresAt] assms(1,2)
    by (simp add: keeps_tokens_def)
  then have ok: "tokens_ok ?d"
    and kept: "\<forall>c\<in>token_core ` set (ad_tokens d1). fst c \<in> set (removals acts) \<or> c \<in> token_core ` set (ad_tokens ?d)"
    using auth_run_keeps [OF subset_refl, of acts d1 sha] unfolding keeps_tokens_def by blast+
  have "((u, ki_ID info), publicID, True, expiresAt, sha secret) \<in> token_core ` set (ad_tokens ?d)"
    using bspec [OF kept core] assms(5) by simp
  from active_row_core [OF ok this] obtain row where "active_row publicID (ad_tokens ?d) = Some row" "tr_UserID row = u"
    "ki_ExpiresAt row = expiresAt" "kr_SecretHash row = sha secret" by blast
  then show ?thesis using assms(6) by (auto simp: AuthenticateUserToken_def p key_expired_def split: option.split)
qed

definition demo_auth :: auth_db where
  "demo_auth = \<lparr>ad_users = [1, 2], ad_tokens = [], ad_keys = [], ad_scopes = [], ad_nextToken = 1, ad_nextKey = 1, ad_outcomes = []\<rparr>"

definition demo_auth_acts :: "auth_action list" where
  "demo_auth_acts = [Token_Created (Inr [9]) (Inr [8]) 1 2 ''other'' None, Token_Removed 2 1, Token_Removed 2 2,
     Key_Created (Inr [7]) (Inr [6]) 1 ''svc'' [(''p'', ''hook'')] None]"

lemma demo_token:
  "let r = CreateUserToken (\<lambda>s. s) (Inr [171, 205]) (Inr [1, 35]) 0 1 ''cli'' (Some 10) demo_auth
   in \<not> isl (snd r) \<and> (case snd r of Inr (info, token) \<Rightarrow> ki_ID info = 1 \<and> token = ''sbuk_abcd.0123'' | Inl _ \<Rightarrow> False) \<and>
      ad_outcomes (auth_run (\<lambda>s. s) demo_auth_acts (fst r)) = []"
  by code_simp

theorem token_works_until_removed_witness:
  "\<exists>d1 info. CreateUserToken (\<lambda>s. s) (Inr [171, 205]) (Inr [1, 35]) 0 1 ''cli'' (Some 10) demo_auth =
       (d1, Inr (info, ''sbuk_abcd.0123'')) \<and>
     snd (AuthenticateUserToken (\<lambda>s. s) 10 ''sbuk_abcd.0123'' (auth_run (\<lambda>s. s) demo_auth_acts d1)) = Inr (Some 1)"
proof -
  obtain d1 info where c: "CreateUserToken (\<lambda>s. s) (Inr [171, 205]) (Inr [1, 35]) 0 1 ''cli'' (Some 10) demo_auth =
      (d1, Inr (info, ''sbuk_abcd.0123''))" and i: "ki_ID info = 1" "ad_outcomes (auth_run (\<lambda>s. s) demo_auth_acts d1) = []"
    using demo_token by (cases "CreateUserToken (\<lambda>s. s) (Inr [171, 205]) (Inr [1, 35]) 0 1 ''cli'' (Some 10) demo_auth")
      (auto simp: Let_def split: sum.splits)
  have "tokens_ok demo_auth" by (simp add: tokens_ok_def demo_auth_def)
  from token_works_until_removed [OF this c] i c show ?thesis
    by (simp add: removals_def demo_auth_acts_def)
qed

subsection \<open>Who may call HTTP triggers\<close>

text \<open>The services that the program gives to the HTTP triggers (bootstrap.go).\<close>

definition db_services ::
    "mac \<Rightarrow> cookie_reader \<Rightarrow> session_manager option \<Rightarrow> (string \<Rightarrow> string) \<Rightarrow> instant \<Rightarrow> auth_db \<Rightarrow> http_services \<Rightarrow> http_services" where
  "db_services mac cookie sessions sha now d V =
     V\<lparr>hv_authUser := map_option (\<lambda>m. Session_Authenticate mac cookie m now) sessions,
       hv_authToken := Some (\<lambda>raw. snd (AuthenticateUserToken sha now raw d)),
       hv_authService := Some (\<lambda>raw p t.
         case snd (AuthenticateServiceKey sha now raw p t d) of
           Inl err \<Rightarrow> Inl err | Inr None \<Rightarrow> Inr None | Inr (Some (i, pub, name)) \<Rightarrow> Inr (Some i))\<rparr>"

text \<open>C35. Nobody calls a plugin over HTTP without a credential of the program. When a request reaches the plugin as
  a service, it carried the token of an active key that is not expired, whose secret has the stored
  hash and whose scopes have just this plugin and trigger; as a user, the token of an active token
  of that user that is not expired, or, with no bearer token, a session cookie with a
  signature under the key of the program for that user and an expiry that is not over.\<close>

theorem http_principal_is_proven:
  assumes "admit_http (db_services mac cookie sessions sha now d V) escape reg r = Inr (h, p, t, Some who, data)"
  shows "case who of
      AuthService i \<Rightarrow> \<exists>row\<in>set (ad_keys d). \<exists>secret. ki_ID row = i \<and> (i, p, t) \<in> set (ad_scopes d) \<and> ki_Active row \<and>
        \<not> key_expired now row \<and> bearerToken r = Some (serviceKeyPrefix @ ki_PublicID row @ ''.'' @ secret) \<and> kr_SecretHash row = sha secret
    | AuthUser u \<Rightarrow>
        (\<exists>row\<in>set (ad_tokens d). \<exists>secret. tr_UserID row = u \<and> ki_Active row \<and> \<not> key_expired now row \<and>
           bearerToken r = Some (userTokenPrefix @ ki_PublicID row @ ''.'' @ secret) \<and> kr_SecretHash row = sha secret) \<or>
        (\<exists>m uid expiry e. sessions = Some m \<and> bearerToken r = None \<and>
           cookie r SessionCookieName = Some (uid @ '':'' @ expiry @ '':'' @ mac (sm_key m) (uid @ '':'' @ expiry)) \<and>
           ParseInt uid = Some u \<and> ParseInt expiry = Some e \<and> Unix now \<le> e)"
proof -
  obtain s where g: "grants (db_services mac cookie sessions sha now d V) r p t s (Some who)"
    using admit_http_granted [OF assms] by blast
  show ?thesis
  proof (cases who)
    case (AuthService i)
    then obtain raw where raw: "bearerToken r = Some raw"
      and a: "(case snd (AuthenticateServiceKey sha now raw p t d) of
           Inl err \<Rightarrow> Inl err | Inr None \<Rightarrow> Inr None | Inr (Some (i, pub, name)) \<Rightarrow> Inr (Some i)) = Inr (Some i)"
      using g by (auto simp: grants_def db_services_def)
    then obtain d' pub name where "AuthenticateServiceKey sha now raw p t d = (d', Inr (Some (i, pub, name)))"
      by (cases "AuthenticateServiceKey sha now raw p t d") (auto split: sum.splits option.splits)
    from AuthenticateServiceKey_row [OF this] show ?thesis using raw AuthService by auto
  next
    case (AuthUser u)
    show ?thesis
    proof (cases "bearerToken r")
      case None
      then obtain m v where m: "sessions = Some m" "cookie r SessionCookieName = Some v" "Validate mac (sm_key m) now v = Some u"
        using g AuthUser by (auto simp: grants_def db_services_def Session_Authenticate_def split: option.splits)
      from Validate_signed [OF m(3)] show ?thesis using None AuthUser m by auto
    next
      case (Some raw)
      then obtain d' where "AuthenticateUserToken sha now raw d = (d', Inr (Some u))"
        using g AuthUser by (cases "AuthenticateUserToken sha now raw d") (auto simp: grants_def db_services_def)
      from AuthenticateUserToken_row [OF this] show ?thesis using Some AuthUser by auto
    qed
  qed
qed

definition demo_key_db :: auth_db where
  "demo_key_db = demo_auth\<lparr>ad_keys := [\<lparr>ki_ID = 1, ki_PublicID = ''ab'', ki_Name = ''svc'', ki_Active = True, ki_ExpiresAt = Some 10,
     ki_LastUsedAt = None, ki_CreatedAt = 0, ki_UpdatedAt = 0, kr_SecretHash = ''01''\<rparr>], ad_scopes := [(1, ''p'', ''hook'')]\<rparr>"

definition demo_key_services :: http_services where
  "demo_key_services = db_services (\<lambda>k t. t) (\<lambda>_ _. None) None (\<lambda>s. s) 5 demo_key_db
     (demo_http_services\<lparr>hv_loadSetting := Some (\<lambda>_ _. Inr (Some \<lparr>hs_Enabled = True, hs_AllowUserKeys = False, hs_AllowServiceKeys = True,
        hs_PolicyExpression = '''', hs_AllowedOrigins = []\<rparr>))\<rparr>)"

definition demo_key_req :: http_req where
  "demo_key_req = demo_http_req\<lparr>q_Header := [(''Authorization'', [''Bearer sbsk_ab.01''])]\<rparr>"

lemma demo_key_admitted:
  "\<exists>data. admit_http demo_key_services (\<lambda>u. u) demo_triggers demo_key_req = Inr ([], ''p'', ''hook'', Some (AuthService 1), data)"
proof -
  let ?st = "\<lparr>hs_Enabled = True, hs_AllowUserKeys = False, hs_AllowServiceKeys = True, hs_PolicyExpression = '''', hs_AllowedOrigins = []\<rparr>"
  have route: "resolveRoute (q_Path demo_key_req) = Inr (''p'', ''x'')"
    by (simp add: resolveRoute_def demo_key_req_def demo_http_req_def basePath_def TrimPrefix_def)
  have m: "routeLookupMethod demo_key_req = ''GET''" by code_simp
  have upper: "ToUpper ''GET'' = ''GET''" by code_simp
  have look: "LookupHTTP demo_triggers ''p'' ''x'' ''GET'' = Inr ''hook''"
    by (simp add: demo_triggers_def RegisterTriggers_def register_trigger_def NewRegistry_def LookupHTTP_def httpRouteKey_def
        TrimPrefix_def route_methods_def upper)
  have setting: "resolveSetting demo_key_services ''p'' ''hook'' = Inr ?st"
    by (simp add: resolveSetting_def demo_key_services_def db_services_def)
  have origin: "TrimSpace (header_Get demo_key_req ''Origin'') = ''''" by code_simp
  have cors: "applyHTTPTriggerCORS parse demo_key_req st m1 [] = Inr ([], False)" for parse st m1
    by (simp add: applyHTTPTriggerCORS_def origin)
  have bearer: "bearerToken demo_key_req = Some ''sbsk_ab.01''" by code_simp
  have tok: "parseUserToken ''sbsk_ab.01'' = None" "parseServiceKey ''sbsk_ab.01'' = Some (''ab'', ''01'')" by code_simp+
  have user: "snd (AuthenticateUserToken (\<lambda>s. s) 5 ''sbsk_ab.01'' demo_key_db) = Inr None"
    by (simp add: AuthenticateUserToken_def tok)
  have "snd (AuthenticateServiceKey (\<lambda>s. s) 5 ''sbsk_ab.01'' ''p'' ''hook'' demo_key_db) = Inr (Some (1, ''ab'', ''svc''))"
    by (simp add: AuthenticateServiceKey_def tok demo_key_db_def demo_auth_def active_row_def key_expired_def)
  then have who: "resolvePrincipal demo_key_services demo_key_req ''p'' ''hook'' ?st = Inr (Some (AuthService 1))"
    using user by (simp add: resolvePrincipal_def bearer resolveBearerPrincipal_def or_anonymous_def Let_def demo_key_services_def db_services_def)
  have "q_Body demo_key_req = Inr ''''" by (simp add: demo_key_req_def demo_http_req_def)
  then show ?thesis
    by (simp add: admit_http_def route m look setting cors who buildHTTPRequestData_def)
qed

theorem http_principal_is_proven_witness:
  "\<exists>row\<in>set (ad_keys demo_key_db). \<exists>secret. ki_ID row = 1 \<and> (1, ''p'', ''hook'') \<in> set (ad_scopes demo_key_db) \<and> ki_Active row \<and>
     \<not> key_expired 5 row \<and> bearerToken demo_key_req = Some (serviceKeyPrefix @ ki_PublicID row @ ''.'' @ secret) \<and> kr_SecretHash row = secret"
proof -
  obtain data where "admit_http demo_key_services (\<lambda>u. u) demo_triggers demo_key_req = Inr ([], ''p'', ''hook'', Some (AuthService 1), data)"
    using demo_key_admitted ..
  from http_principal_is_proven [OF this [unfolded demo_key_services_def]] show ?thesis by simp
qed

end
