(* ===== verification/Admin_Auth.thy ===== *)
theory Admin_Auth
  imports Sessions
begin

text \<open>
  The administrators (\<^verbatim>\<open>internal/admin/api\<close>): their credentials in the database, signing in and out, the
  handlers that manage credentials, and the middleware in front of the administration. Hashing of
  passwords is third-party code: \<open>generate\<close> makes the hash of a password, and \<open>compare\<close> gives the error
  of comparing a hash with a password, \<open>None\<close> when they belong together.
\<close>

subsection \<open>Credentials (admin\_cred\_store.go)\<close>

record admin_credential =
  cr_ID :: int
  cr_UserID :: user_id
  cr_Email :: string
  cr_CreatedAt :: instant
  cr_UpdatedAt :: instant

record cred_row = admin_credential +
  cr_Hash :: string

text \<open>The table, the users that exist, and the outcomes of the calls of the database to come.\<close>

record cred_db =
  kd_users :: "user_id list"
  kd_creds :: "cred_row list"
  kd_next :: int
  kd_outcomes :: "go_error option list"

type_synonym hash_compare = "string \<Rightarrow> string \<Rightarrow> go_error option"
type_synonym hash_generate = "string \<Rightarrow> go_error + string"

text \<open>A call of the database with its own error; the message around it is the caller's.\<close>

definition kd_call :: "(cred_db \<Rightarrow> go_error + cred_db \<times> 'a) \<Rightarrow> cred_db \<Rightarrow> cred_db \<times> (go_error + 'a)" where
  "kd_call stmt d =
     (let (d1, out) = (case kd_outcomes d of [] \<Rightarrow> (d, None) | out # outs \<Rightarrow> (d\<lparr>kd_outcomes := outs\<rparr>, out))
      in case out of
           Some err \<Rightarrow> (d1, Inl err)
         | None \<Rightarrow> (case stmt d1 of Inl err \<Rightarrow> (d1, Inl err) | Inr (d2, x) \<Rightarrow> (d2, Inr x)))"

definition Cred_Authenticate :: "hash_compare \<Rightarrow> string \<Rightarrow> string \<Rightarrow> cred_db \<Rightarrow> cred_db \<times> (go_error + user_id)" where
  "Cred_Authenticate compare email password d =
     (case kd_call (\<lambda>d. Inr (d, find (\<lambda>r. cr_Email r = email) (kd_creds d))) d of
        (d1, Inl err) \<Rightarrow> (d1, Inl (Wrap ''query credentials: '' err ''''))
      | (d1, Inr None) \<Rightarrow> (d1, Inl (Plain ''invalid credentials''))
      | (d1, Inr (Some r)) \<Rightarrow>
          (d1, case compare (cr_Hash r) password of
                 Some _ \<Rightarrow> Inl (Plain ''invalid credentials'')
               | None \<Rightarrow> Inr (cr_UserID r)))"

text \<open>A broken constraint of the table is known by its name.\<close>

definition user_key :: string where "user_key = ''admin_credentials_global_user_id_key''"
definition email_key :: string where "email_key = ''admin_credentials_email_key''"

datatype cred_error = ErrAdminCredentialsAlreadyExist | ErrAdminEmailAlreadyUsed | OtherCredError go_error

definition classifyAdminCredentialError :: "go_error \<Rightarrow> cred_error option" where
  "classifyAdminCredentialError err =
     (case err of
        Plain t \<Rightarrow>
          if Plain t = violates user_key then Some ErrAdminCredentialsAlreadyExist
          else if Plain t = violates email_key then Some ErrAdminEmailAlreadyUsed
          else None
      | _ \<Rightarrow> None)"

definition Cred_Create ::
    "hash_generate \<Rightarrow> instant \<Rightarrow> user_id \<Rightarrow> string \<Rightarrow> string \<Rightarrow> cred_db \<Rightarrow> cred_db \<times> (cred_error + admin_credential)" where
  "Cred_Create generate now u email password d =
     (case generate password of
        Inl err \<Rightarrow> (d, Inl (OtherCredError (Wrap ''hash password: '' err '''')))
      | Inr hash \<Rightarrow>
          (case kd_call (\<lambda>d.
                   if list_ex (\<lambda>r. cr_UserID r = u) (kd_creds d) then Inl (violates user_key)
                   else if list_ex (\<lambda>r. cr_Email r = email) (kd_creds d) then Inl (violates email_key)
                   else if u \<notin> set (kd_users d) then Inl (violates ''admin_credentials_global_user_id_fkey'')
                   else let row = \<lparr>cr_ID = kd_next d, cr_UserID = u, cr_Email = email, cr_CreatedAt = now, cr_UpdatedAt = now, cr_Hash = hash\<rparr>
                        in Inr (d\<lparr>kd_creds := kd_creds d @ [row], kd_next := kd_next d + 1\<rparr>, admin_credential.truncate row)) d of
             (d1, Inl err) \<Rightarrow>
               (d1, Inl (case classifyAdminCredentialError err of
                           Some c \<Rightarrow> c
                         | None \<Rightarrow> OtherCredError (Wrap ''create admin credentials: '' err '''')))
           | (d1, Inr cred) \<Rightarrow> (d1, Inr cred)))"

definition VerifyPassword :: "hash_compare \<Rightarrow> user_id \<Rightarrow> string \<Rightarrow> cred_db \<Rightarrow> cred_db \<times> go_error option" where
  "VerifyPassword compare u password d =
     (case kd_call (\<lambda>d. Inr (d, find (\<lambda>r. cr_UserID r = u) (kd_creds d))) d of
        (d1, Inl _) \<Rightarrow> (d1, Some (Plain ''credentials not found''))
      | (d1, Inr None) \<Rightarrow> (d1, Some (Plain ''credentials not found''))
      | (d1, Inr (Some r)) \<Rightarrow>
          (d1, case compare (cr_Hash r) password of None \<Rightarrow> None | Some _ \<Rightarrow> Some (Plain ''invalid password'')))"

text \<open>The statements on the row of a user tell whether there was one.\<close>

definition update_cred :: "user_id \<Rightarrow> (cred_row \<Rightarrow> cred_row) \<Rightarrow> cred_db \<Rightarrow> cred_db \<times> bool" where
  "update_cred u f d =
     (d\<lparr>kd_creds := map (\<lambda>r. if cr_UserID r = u then f r else r) (kd_creds d)\<rparr>, list_ex (\<lambda>r. cr_UserID r = u) (kd_creds d))"

definition not_found :: go_error where "not_found = Plain ''admin credentials not found''"

definition UpdatePassword :: "hash_generate \<Rightarrow> instant \<Rightarrow> user_id \<Rightarrow> string \<Rightarrow> cred_db \<Rightarrow> cred_db \<times> go_error option" where
  "UpdatePassword generate now u newPassword d =
     (case generate newPassword of
        Inl err \<Rightarrow> (d, Some (Wrap ''hash password: '' err ''''))
      | Inr hash \<Rightarrow>
          (case kd_call (\<lambda>d. Inr (update_cred u (\<lambda>r. r\<lparr>cr_Hash := hash, cr_UpdatedAt := now\<rparr>) d)) d of
             (d1, Inl err) \<Rightarrow> (d1, Some (Wrap ''update password: '' err ''''))
           | (d1, Inr affected) \<Rightarrow> (d1, if affected then None else Some not_found)))"

definition UpdateEmail :: "instant \<Rightarrow> user_id \<Rightarrow> string \<Rightarrow> cred_db \<Rightarrow> cred_db \<times> cred_error option" where
  "UpdateEmail now u newEmail d =
     (case kd_call (\<lambda>d.
              if list_ex (\<lambda>r. cr_UserID r = u) (kd_creds d) \<and> list_ex (\<lambda>r. cr_UserID r \<noteq> u \<and> cr_Email r = newEmail) (kd_creds d)
              then Inl (violates email_key)
              else Inr (update_cred u (\<lambda>r. r\<lparr>cr_Email := newEmail, cr_UpdatedAt := now\<rparr>) d)) d of
        (d1, Inl err) \<Rightarrow>
          (d1, Some (case classifyAdminCredentialError err of
                       Some c \<Rightarrow> c | None \<Rightarrow> OtherCredError (Wrap ''update email: '' err '''')))
      | (d1, Inr affected) \<Rightarrow> (d1, if affected then None else Some (OtherCredError not_found)))"

definition Cred_Delete :: "user_id \<Rightarrow> cred_db \<Rightarrow> cred_db \<times> go_error option" where
  "Cred_Delete u d =
     (case kd_call (\<lambda>d. Inr (d\<lparr>kd_creds := filter (\<lambda>r. cr_UserID r \<noteq> u) (kd_creds d)\<rparr>, list_ex (\<lambda>r. cr_UserID r = u) (kd_creds d))) d of
        (d1, Inl err) \<Rightarrow> (d1, Some (Wrap ''delete admin credentials: '' err ''''))
      | (d1, Inr affected) \<Rightarrow> (d1, if affected then None else Some not_found))"

text \<open>Reading the rows ends at the first error of the cursor, without an error.\<close>

fun read_creds :: "cred_row list \<Rightarrow> cred_db \<Rightarrow> cred_db \<times> admin_credential list" where
  "read_creds [] d = (d, [])"
| "read_creds (r # rs) d =
     (case kd_call (\<lambda>d. Inr (d, ())) d of
        (d1, Inl _) \<Rightarrow> (d1, [])
      | (d1, Inr _) \<Rightarrow> (case read_creds rs d1 of (d2, cs) \<Rightarrow> (d2, admin_credential.truncate r # cs)))"

definition Cred_List :: "cred_db \<Rightarrow> cred_db \<times> (go_error + admin_credential list)" where
  "Cred_List d =
     (case kd_call (\<lambda>d. Inr (d, sort_key cr_CreatedAt (kd_creds d))) d of
        (d1, Inl err) \<Rightarrow> (d1, Inl (Wrap ''list admin credentials: '' err ''''))
      | (d1, Inr rows) \<Rightarrow> (case read_creds rows d1 of (d2, cs) \<Rightarrow> (d2, Inr cs)))"

definition GetByUserID :: "user_id \<Rightarrow> cred_db \<Rightarrow> cred_db \<times> (go_error + admin_credential option)" where
  "GetByUserID u d =
     (case kd_call (\<lambda>d. Inr (d, map_option admin_credential.truncate (find (\<lambda>r. cr_UserID r = u) (kd_creds d)))) d of
        (d1, Inl err) \<Rightarrow> (d1, Inl (Wrap ''get admin credential: '' err ''''))
      | (d1, Inr c) \<Rightarrow> (d1, Inr c))"

definition HasAny :: "cred_db \<Rightarrow> cred_db \<times> (go_error + bool)" where
  "HasAny d = kd_call (\<lambda>d. Inr (d, kd_creds d \<noteq> [])) d"

definition HasUser :: "user_id \<Rightarrow> cred_db \<Rightarrow> cred_db \<times> (go_error + bool)" where
  "HasUser u d = kd_call (\<lambda>d. Inr (d, list_ex (\<lambda>r. cr_UserID r = u) (kd_creds d))) d"

subsection \<open>Signing in (auth.go)\<close>

record auth_handler =
  ah_apiKey :: string
  ah_key :: string
  ah_userAuth :: "session_manager option"
  ah_tsuEnabled :: bool

definition NewAuthHandler :: "random_bytes \<Rightarrow> string \<Rightarrow> session_manager option \<Rightarrow> bool \<Rightarrow> auth_handler option" where
  "NewAuthHandler draws apiKey userAuth tsuEnabled =
     map_option (\<lambda>key. \<lparr>ah_apiKey = apiKey, ah_key = key, ah_userAuth = userAuth, ah_tsuEnabled = tsuEnabled\<rparr>) (NewSigner draws apiKey)"

definition adminCookieName :: string where "adminCookieName = ''admin_session''"
definition adminTTL :: duration where "adminTTL = 24 * Hour"

definition setSessionCookie :: "string \<Rightarrow> int \<Rightarrow> set_cookie" where
  "setSessionCookie v maxAge =
     \<lparr>sc_Name = adminCookieName, sc_Value = v, sc_Path = ''/'', sc_MaxAge = maxAge, sc_HttpOnly = True, sc_Secure = False,
      sc_SameSite = SameSiteLax\<rparr>"

definition Admin_SetSession :: "mac \<Rightarrow> auth_handler \<Rightarrow> instant \<Rightarrow> user_id \<Rightarrow> set_cookie" where
  "Admin_SetSession mac h now u = setSessionCookie (CreateToken mac (ah_key h) now u adminTTL) (adminTTL div Second)"

definition Admin_ClearSession :: set_cookie where
  "Admin_ClearSession = setSessionCookie '''' (-1)"

definition AuthenticateSession :: "mac \<Rightarrow> cookie_reader \<Rightarrow> auth_handler \<Rightarrow> instant \<Rightarrow> http_req \<Rightarrow> user_id option" where
  "AuthenticateSession mac cookie h now r =
     (case cookie r adminCookieName of None \<Rightarrow> None | Some v \<Rightarrow> Validate mac (ah_key h) now v)"

definition setAuthenticatedSessions :: "mac \<Rightarrow> auth_handler \<Rightarrow> instant \<Rightarrow> user_id \<Rightarrow> set_cookie list" where
  "setAuthenticatedSessions mac h now u =
     Admin_SetSession mac h now u # (case ah_userAuth h of None \<Rightarrow> [] | Some m \<Rightarrow> [SetSession mac m now u])"

datatype admin_auth_json =
  Login_Ok user_id
| Admin_Logged_Out
| Setup_Required bool
| Signed_In user_id bool
| Signed_Out "bool option"
| Password_Updated

definition handleLogin ::
    "mac \<Rightarrow> hash_compare \<Rightarrow> (string \<Rightarrow> go_error + string \<times> string) \<Rightarrow> auth_handler \<Rightarrow> instant \<Rightarrow> http_req \<Rightarrow> cred_db \<Rightarrow>
     cred_db \<times> admin_auth_json http_answer" where
  "handleLogin mac compare decode h now r d =
     (case (case q_Body r of Inl err \<Rightarrow> Inl err | Inr body \<Rightarrow> decode body) of
        Inl _ \<Rightarrow> (d, writeError 400 ''invalid request body'')
      | Inr (email, password) \<Rightarrow>
          if email = '''' \<or> password = '''' then (d, writeError 400 ''email and password are required'')
          else case Cred_Authenticate compare email password d of
                 (d1, Inl _) \<Rightarrow> (d1, writeError 401 ''invalid email or password'')
               | (d1, Inr u) \<Rightarrow>
                   (d1, (writeJSON 200 (Login_Ok u))\<lparr>an_Cookies := setAuthenticatedSessions mac h now u\<rparr>))"

definition handleLogout :: "auth_handler \<Rightarrow> admin_auth_json http_answer" where
  "handleLogout h =
     (writeJSON 200 Admin_Logged_Out)
       \<lparr>an_Cookies := Admin_ClearSession # (case ah_userAuth h of None \<Rightarrow> [] | Some m \<Rightarrow> [ClearSession m])\<rparr>"

definition handleCheck ::
    "mac \<Rightarrow> cookie_reader \<Rightarrow> auth_handler \<Rightarrow> instant \<Rightarrow> http_req \<Rightarrow> cred_db \<Rightarrow> cred_db \<times> admin_auth_json http_answer" where
  "handleCheck mac cookie h now r d =
     (case HasAny d of
        (d1, Inl _) \<Rightarrow> (d1, writeJSON 200 (Signed_Out None))
      | (d1, Inr hasAdmins) \<Rightarrow>
          (d1, if \<not> hasAdmins then writeJSON 200 (Setup_Required (ah_tsuEnabled h))
               else case AuthenticateSession mac cookie h now r of
                      Some u \<Rightarrow> writeJSON 200 (Signed_In u (ah_tsuEnabled h))
                    | None \<Rightarrow> writeJSON 200 (Signed_Out (Some (ah_tsuEnabled h)))))"

definition handleChangePassword ::
    "mac \<Rightarrow> hash_compare \<Rightarrow> hash_generate \<Rightarrow> cookie_reader \<Rightarrow> (string \<Rightarrow> go_error + string \<times> string) \<Rightarrow> auth_handler \<Rightarrow> instant \<Rightarrow>
     http_req \<Rightarrow> cred_db \<Rightarrow> cred_db \<times> admin_auth_json http_answer" where
  "handleChangePassword mac compare generate cookie decode h now r d =
     (case AuthenticateSession mac cookie h now r of
        None \<Rightarrow> (d, writeError 401 ''session expired'')
      | Some u \<Rightarrow>
          (case (case q_Body r of Inl err \<Rightarrow> Inl err | Inr body \<Rightarrow> decode body) of
             Inl _ \<Rightarrow> (d, writeError 400 ''invalid request body'')
           | Inr (current, new) \<Rightarrow>
               if length new < 8 then (d, writeError 400 ''new password must be at least 8 characters'')
               else case VerifyPassword compare u current d of
                      (d1, Some _) \<Rightarrow> (d1, writeError 403 ''current password is incorrect'')
                    | (d1, None) \<Rightarrow>
                        (case UpdatePassword generate now u new d1 of
                           (d2, Some _) \<Rightarrow> (d2, writeError 500 ''failed to update password'')
                         | (d2, None) \<Rightarrow> (d2, writeJSON 200 Password_Updated))))"

subsection \<open>The middleware (auth\_middleware.go)\<close>

definition open_path :: "string \<Rightarrow> bool" where
  "open_path path \<longleftrightarrow>
     HasPrefix path ''/api/admin/auth/'' \<or> HasPrefix path ''/api/auth/'' \<or> HasPrefix path ''/api/files/'' \<or>
     HasPrefix path ''/api/triggers/http/'' \<or> HasPrefix path ''/oauth/'' \<or> HasPrefix path ''/admin/'' \<or> path = ''/admin'' \<or>
     \<not> HasPrefix path ''/api/'' \<and> \<not> HasPrefix path ''/plugins/''"

definition has_api_key :: "auth_handler \<Rightarrow> http_req \<Rightarrow> bool" where
  "has_api_key h r \<longleftrightarrow>
     ah_apiKey h \<noteq> '''' \<and> HasPrefix (header_Get r ''Authorization'') ''Bearer '' \<and>
     TrimPrefix (header_Get r ''Authorization'') ''Bearer '' = ah_apiKey h"

text \<open>\<open>None\<close> is the call of the next handler.\<close>

definition Admin_Wrap ::
    "mac \<Rightarrow> cookie_reader \<Rightarrow> auth_handler \<Rightarrow> instant \<Rightarrow> http_req \<Rightarrow> cred_db \<Rightarrow> cred_db \<times> unit http_answer option" where
  "Admin_Wrap mac cookie h now r d =
     (if open_path (q_Path r) then (d, None)
      else case HasAny d of
             (d1, hasAdmins) \<Rightarrow>
               (d1, if (case hasAdmins of Inr b \<Rightarrow> \<not> b | Inl _ \<Rightarrow> False) then None
                    else if AuthenticateSession mac cookie h now r \<noteq> None then None
                    else if has_api_key h r then None
                    else Some (writeError 401 ''authentication required'')))"

subsection \<open>Handlers of credentials (admin\_cred\_handlers.go)\<close>

text \<open>The two Russian messages, in UTF-8.\<close>

definition access_already_given :: string where
  "access_already_given =
     [CHR 0xD0, CHR 0xB4, CHR 0xD0, CHR 0xBE, CHR 0xD1, CHR 0x81, CHR 0xD1, CHR 0x82, CHR 0xD1, CHR 0x83,
      CHR 0xD0, CHR 0xBF, CHR 0x20, CHR 0xD0, CHR 0xB2, CHR 0x20, CHR 0xD0, CHR 0xB0, CHR 0xD0, CHR 0xB4,
      CHR 0xD0, CHR 0xBC, CHR 0xD0, CHR 0xB8, CHR 0xD0, CHR 0xBD, CHR 0xD0, CHR 0xBA, CHR 0xD1, CHR 0x83,
      CHR 0x20, CHR 0xD1, CHR 0x83, CHR 0xD0, CHR 0xB6, CHR 0xD0, CHR 0xB5, CHR 0x20, CHR 0xD0, CHR 0xB2,
      CHR 0xD1, CHR 0x8B, CHR 0xD0, CHR 0xB4, CHR 0xD0, CHR 0xB0, CHR 0xD0, CHR 0xBD, CHR 0x20, CHR 0xD1,
      CHR 0x8D, CHR 0xD1, CHR 0x82, CHR 0xD0, CHR 0xBE, CHR 0xD0, CHR 0xBC, CHR 0xD1, CHR 0x83, CHR 0x20,
      CHR 0xD0, CHR 0xBF, CHR 0xD0, CHR 0xBE, CHR 0xD0, CHR 0xBB, CHR 0xD1, CHR 0x8C, CHR 0xD0, CHR 0xB7,
      CHR 0xD0, CHR 0xBE, CHR 0xD0, CHR 0xB2, CHR 0xD0, CHR 0xB0, CHR 0xD1, CHR 0x82, CHR 0xD0, CHR 0xB5,
      CHR 0xD0, CHR 0xBB, CHR 0xD1, CHR 0x8E]"

definition email_already_used :: string where
  "email_already_used =
     [CHR 0xD1, CHR 0x8D, CHR 0xD1, CHR 0x82, CHR 0xD0, CHR 0xBE, CHR 0xD1, CHR 0x82, CHR 0x20, CHR 0x65,
      CHR 0x6D, CHR 0x61, CHR 0x69, CHR 0x6C, CHR 0x20, CHR 0xD1, CHR 0x83, CHR 0xD0, CHR 0xB6, CHR 0xD0,
      CHR 0xB5, CHR 0x20, CHR 0xD0, CHR 0xB8, CHR 0xD1, CHR 0x81, CHR 0xD0, CHR 0xBF, CHR 0xD0, CHR 0xBE,
      CHR 0xD0, CHR 0xBB, CHR 0xD1, CHR 0x8C, CHR 0xD0, CHR 0xB7, CHR 0xD1, CHR 0x83, CHR 0xD0, CHR 0xB5,
      CHR 0xD1, CHR 0x82, CHR 0xD1, CHR 0x81, CHR 0xD1, CHR 0x8F, CHR 0x20, CHR 0xD0, CHR 0xB4, CHR 0xD1,
      CHR 0x80, CHR 0xD1, CHR 0x83, CHR 0xD0, CHR 0xB3, CHR 0xD0, CHR 0xB8, CHR 0xD0, CHR 0xBC, CHR 0x20,
      CHR 0xD0, CHR 0xB0, CHR 0xD0, CHR 0xB4, CHR 0xD0, CHR 0xBC, CHR 0xD0, CHR 0xB8, CHR 0xD0, CHR 0xBD,
      CHR 0xD0, CHR 0xB8, CHR 0xD1, CHR 0x81, CHR 0xD1, CHR 0x82, CHR 0xD1, CHR 0x80, CHR 0xD0, CHR 0xB0,
      CHR 0xD1, CHR 0x82, CHR 0xD0, CHR 0xBE, CHR 0xD1, CHR 0x80, CHR 0xD0, CHR 0xBE, CHR 0xD0, CHR 0xBC]"

text \<open>\<^verbatim>\<open>base64.RawURLEncoding\<close>: groups of three bytes, no padding.\<close>

definition b64_char :: "nat \<Rightarrow> char" where
  "b64_char n = ''ABCDEFGHIJKLMNOPQRSTUVWXYZabcdefghijklmnopqrstuvwxyz0123456789-_'' ! (n mod 64)"

fun b64_encode :: "nat list \<Rightarrow> string" where
  "b64_encode [] = []"
| "b64_encode [a] = [b64_char (a div 4), b64_char (a * 16)]"
| "b64_encode [a, b] = [b64_char (a div 4), b64_char (a * 16 + b div 16), b64_char (b * 4)]"
| "b64_encode (a # b # c # bs) =
     b64_char (a div 4) # b64_char (a * 16 + b div 16) # b64_char (b * 4 + c div 64) # b64_char c # b64_encode bs"

definition generateTemporaryPassword :: "random_bytes \<Rightarrow> go_error + string" where
  "generateTemporaryPassword draws =
     (case draws of
        Inl err \<Rightarrow> Inl (Wrap ''generate temporary password: '' err '''')
      | Inr bs \<Rightarrow> Inr (b64_encode (take 18 bs)))"

datatype cred_json =
  No_Access
| Has_Access admin_credential
| Cred_List_JSON "admin_credential list"
| Cred_JSON admin_credential
| Status_JSON string

text \<open>\<open>auth\<close> is the authenticator of the session of an administrator; without one nothing is allowed.\<close>

definition requireSameAdminUser :: "(http_req \<Rightarrow> user_id option) option \<Rightarrow> http_req \<Rightarrow> user_id \<Rightarrow> cred_json http_answer option" where
  "requireSameAdminUser auth r target =
     (case auth of
        None \<Rightarrow> Some (writeError 403 ''operation is not allowed'')
      | Some f \<Rightarrow>
          (case f r of
             None \<Rightarrow> Some (writeError 401 ''session expired'')
           | Some u \<Rightarrow> if u \<noteq> target then Some (writeError 403 ''operation is only allowed for your own admin account'') else None))"

definition handleGetCred :: "string \<Rightarrow> cred_db \<Rightarrow> cred_db \<times> cred_json http_answer" where
  "handleGetCred pathID d =
     (case ParseInt pathID of
        None \<Rightarrow> (d, writeError 400 ''invalid user ID'')
      | Some u \<Rightarrow>
          (case GetByUserID u d of
             (d1, Inl _) \<Rightarrow> (d1, writeError 500 ''failed to get admin credentials'')
           | (d1, Inr None) \<Rightarrow> (d1, writeJSON 200 No_Access)
           | (d1, Inr (Some c)) \<Rightarrow> (d1, writeJSON 200 (Has_Access c))))"

definition handleListCreds :: "cred_db \<Rightarrow> cred_db \<times> cred_json http_answer" where
  "handleListCreds d =
     (case Cred_List d of
        (d1, Inl _) \<Rightarrow> (d1, writeError 500 ''failed to list admin credentials'')
      | (d1, Inr cs) \<Rightarrow> (d1, writeJSON 200 (Cred_List_JSON cs)))"

text \<open>The mailer, which may be absent, acts on the world.\<close>

type_synonym 'w mailer = "string \<Rightarrow> string \<Rightarrow> 'w \<Rightarrow> 'w \<times> go_error option"

definition chosen_password :: "random_bytes \<Rightarrow> bool \<Rightarrow> string \<Rightarrow> cred_json http_answer + string \<times> bool" where
  "chosen_password draws mailer password =
     (if password \<noteq> '''' then Inr (password, False)
      else if \<not> mailer then Inl (writeError 400 ''password is required when SMTP is not configured'')
      else case generateTemporaryPassword draws of
             Inl _ \<Rightarrow> Inl (writeError 500 ''failed to generate temporary password'')
           | Inr p \<Rightarrow> Inr (p, True))"

definition handleCreateCred ::
    "hash_generate \<Rightarrow> (string \<Rightarrow> go_error + user_id \<times> string \<times> string) \<Rightarrow> random_bytes \<Rightarrow> 'w mailer option \<Rightarrow> instant \<Rightarrow> http_req \<Rightarrow>
     cred_db \<times> 'w \<Rightarrow> (cred_db \<times> 'w) \<times> cred_json http_answer" where
  "handleCreateCred generate decode draws mailer now r st =
     (case decodeJSONBody decode r of
        Inl ans \<Rightarrow> (st, ans)
      | Inr (u, email, password0) \<Rightarrow>
          if u = 0 \<or> email = '''' then (st, writeError 400 ''global_user_id and email are required'')
          else case chosen_password draws (mailer \<noteq> None) password0 of
                 Inl ans \<Rightarrow> (st, ans)
               | Inr (password, generated) \<Rightarrow>
                   if length password < 8 then (st, writeError 400 ''password must be at least 8 characters'')
                   else case Cred_Create generate now u email password (fst st) of
                          (d1, Inl ErrAdminCredentialsAlreadyExist) \<Rightarrow> ((d1, snd st), writeError 409 access_already_given)
                        | (d1, Inl ErrAdminEmailAlreadyUsed) \<Rightarrow> ((d1, snd st), writeError 409 email_already_used)
                        | (d1, Inl (OtherCredError _)) \<Rightarrow> ((d1, snd st), writeError 409 ''failed to create admin credentials'')
                        | (d1, Inr cred) \<Rightarrow>
                            (case (if generated then mailer else None) of
                               None \<Rightarrow> ((d1, snd st), writeJSON 201 (Cred_JSON cred))
                             | Some send \<Rightarrow>
                                 (case send email password (snd st) of
                                    (w1, None) \<Rightarrow> ((d1, w1), writeJSON 201 (Cred_JSON cred))
                                  | (w1, Some _) \<Rightarrow>
                                      ((fst (Cred_Delete u d1), w1), writeError 502 ''failed to send admin credentials email''))))"

text \<open>What the three handlers of one's own credentials begin with.\<close>

definition own_cred ::
    "(http_req \<Rightarrow> user_id option) option \<Rightarrow> http_req \<Rightarrow> string \<Rightarrow> (user_id \<Rightarrow> cred_db \<Rightarrow> cred_db \<times> cred_json http_answer) \<Rightarrow>
     cred_db \<Rightarrow> cred_db \<times> cred_json http_answer" where
  "own_cred auth r pathID f d =
     (case ParseInt pathID of
        None \<Rightarrow> (d, writeError 400 ''invalid user ID'')
      | Some u \<Rightarrow> (case requireSameAdminUser auth r u of Some ans \<Rightarrow> (d, ans) | None \<Rightarrow> f u d))"

definition handleUpdatePassword ::
    "hash_generate \<Rightarrow> (string \<Rightarrow> go_error + string) \<Rightarrow> (http_req \<Rightarrow> user_id option) option \<Rightarrow> instant \<Rightarrow> http_req \<Rightarrow> string \<Rightarrow>
     cred_db \<Rightarrow> cred_db \<times> cred_json http_answer" where
  "handleUpdatePassword generate decode auth now r pathID =
     own_cred auth r pathID (\<lambda>u d.
       case decodeJSONBody decode r of
         Inl ans \<Rightarrow> (d, ans)
       | Inr password \<Rightarrow>
           if length password < 8 then (d, writeError 400 ''password must be at least 8 characters'')
           else case UpdatePassword generate now u password d of
                  (d1, Some err) \<Rightarrow> (d1, writeError 404 (error_text err))
                | (d1, None) \<Rightarrow> (d1, writeJSON 200 (Status_JSON ''updated'')))"

definition handleUpdateEmail ::
    "(string \<Rightarrow> go_error + string) \<Rightarrow> (http_req \<Rightarrow> user_id option) option \<Rightarrow> instant \<Rightarrow> http_req \<Rightarrow> string \<Rightarrow>
     cred_db \<Rightarrow> cred_db \<times> cred_json http_answer" where
  "handleUpdateEmail decode auth now r pathID =
     own_cred auth r pathID (\<lambda>u d.
       case decodeJSONBody decode r of
         Inl ans \<Rightarrow> (d, ans)
       | Inr email \<Rightarrow>
           if email = '''' then (d, writeError 400 ''email is required'')
           else case UpdateEmail now u email d of
                  (d1, Some ErrAdminEmailAlreadyUsed) \<Rightarrow> (d1, writeError 409 email_already_used)
                | (d1, Some ErrAdminCredentialsAlreadyExist) \<Rightarrow>
                    (d1, writeError 404 ''admin credentials already exist for this user'')
                | (d1, Some (OtherCredError err)) \<Rightarrow> (d1, writeError 404 (error_text err))
                | (d1, None) \<Rightarrow> (d1, writeJSON 200 (Status_JSON ''updated'')))"

definition handleDeleteCred ::
    "(http_req \<Rightarrow> user_id option) option \<Rightarrow> http_req \<Rightarrow> string \<Rightarrow> cred_db \<Rightarrow> cred_db \<times> cred_json http_answer" where
  "handleDeleteCred auth r pathID =
     own_cred auth r pathID (\<lambda>u d.
       case Cred_Delete u d of
         (d1, Some err) \<Rightarrow> (d1, writeError 404 (error_text err))
       | (d1, None) \<Rightarrow> (d1, writeJSON 200 (Status_JSON ''deleted'')))"

subsection \<open>Calls of the database\<close>

lemma kd_call_cases:
  assumes "kd_call stmt d = (d', r)"
  shows "\<exists>os. case r of Inl _ \<Rightarrow> d' = d\<lparr>kd_outcomes := os\<rparr> | Inr x \<Rightarrow> stmt (d\<lparr>kd_outcomes := os\<rparr>) = Inr (d', x)"
proof (cases "kd_outcomes d")
  case Nil
  then have same: "d\<lparr>kd_outcomes := []\<rparr> = d" by simp
  have "case r of Inl _ \<Rightarrow> d' = d | Inr x \<Rightarrow> stmt d = Inr (d', x)"
    using assms Nil by (auto simp: kd_call_def split: sum.splits)
  then have "case r of Inl _ \<Rightarrow> d' = d\<lparr>kd_outcomes := []\<rparr> | Inr x \<Rightarrow> stmt (d\<lparr>kd_outcomes := []\<rparr>) = Inr (d', x)"
    by (simp only: same)
  then show ?thesis by blast
next
  case (Cons out outs)
  then show ?thesis using assms by (auto simp: kd_call_def split: sum.splits option.splits intro!: exI [of _ outs])
qed

lemma kd_call_no_outcomes [simp]:
  "kd_outcomes d = [] \<Longrightarrow> kd_call stmt d = (case stmt d of Inl err \<Rightarrow> (d, Inl err) | Inr (d2, x) \<Rightarrow> (d2, Inr x))"
  by (simp add: kd_call_def)

lemma kd_query:
  assumes "kd_call (\<lambda>d. Inr (d, f d)) d = (d', r)"
  shows "\<exists>os. d' = d\<lparr>kd_outcomes := os\<rparr> \<and> (case r of Inl _ \<Rightarrow> True | Inr x \<Rightarrow> x = f d')"
  using kd_call_cases [OF assms] by (auto split: sum.splits)

subsection \<open>Who passes the middleware\<close>


subsection \<open>Whose credentials change\<close>

text \<open>The rows of all but one user stay.\<close>

definition others_stay :: "user_id option \<Rightarrow> cred_db \<Rightarrow> cred_db \<Rightarrow> bool" where
  "others_stay who d d' \<longleftrightarrow> (\<forall>row\<in>set (kd_creds d). Some (cr_UserID row) \<noteq> who \<longrightarrow> row \<in> set (kd_creds d'))"

interpretation others: kept "others_stay who" for who
  by unfold_locales (auto simp: others_stay_def)

lemma others_call:
  assumes "\<And>d d' x. stmt d = Inr (d', x) \<Longrightarrow> others_stay who d d'"
  shows "others_stay who d (fst (kd_call stmt d))"
proof -
  obtain d' r where c: "kd_call stmt d = (d', r)" by fastforce
  obtain os where os: "case r of Inl _ \<Rightarrow> d' = d\<lparr>kd_outcomes := os\<rparr> | Inr x \<Rightarrow> stmt (d\<lparr>kd_outcomes := os\<rparr>) = Inr (d', x)"
    using kd_call_cases [OF c] by blast
  show ?thesis
  proof (cases r)
    case (Inr x)
    then have "others_stay who (d\<lparr>kd_outcomes := os\<rparr>) d'" using os assms by simp
    then show ?thesis by (simp add: c others_stay_def)
  qed (use os in \<open>simp add: c others_stay_def\<close>)
qed

lemma update_cred_others: "update_cred u f d = (d', b) \<Longrightarrow> others_stay (Some u) d d'"
  by (force simp: update_cred_def others_stay_def)

lemma UpdatePassword_others: "others_stay (Some u) d (fst (UpdatePassword generate now u p d))"
proof (cases "generate p")
  case (Inr hash)
  show ?thesis
    unfolding UpdatePassword_def Inr sum.case fst_case_result
    by (rule others_call, rule update_cred_others) simp
qed (simp add: UpdatePassword_def others.kept_refl)

lemma UpdateEmail_others: "others_stay (Some u) d (fst (UpdateEmail now u email d))"
  unfolding UpdateEmail_def fst_case_result
  by (rule others_call) (auto intro: update_cred_others split: if_splits)

lemma Cred_Delete_others: "others_stay (Some u) d (fst (Cred_Delete u d))"
  unfolding Cred_Delete_def fst_case_result
  by (rule others_call) (auto simp: others_stay_def)

lemma own_cred_others:
  assumes "\<And>u d. others_stay (Some u) d (fst (f u d))"
  shows "others_stay (f0 r) d (fst (own_cred (Some f0) r pathID f d))"
  using assms by (auto simp: own_cred_def requireSameAdminUser_def others.kept_refl split: option.split)

text \<open>C37. Administrators change only their own credentials. Whatever the request and the failures of the
  database, changing a password or an email and taking access away leave every row of the table as
  it is except that of the user whose signed session came with the request; without a session nothing changes.\<close>

theorem only_own_credentials_change:
  "others_stay (AuthenticateSession mac cookie h now r) d
     (fst (handleUpdatePassword generate decode (Some (AuthenticateSession mac cookie h now)) now r pathID d)) \<and>
   others_stay (AuthenticateSession mac cookie h now r) d
     (fst (handleUpdateEmail decode (Some (AuthenticateSession mac cookie h now)) now r pathID d)) \<and>
   others_stay (AuthenticateSession mac cookie h now r) d
     (fst (handleDeleteCred (Some (AuthenticateSession mac cookie h now)) r pathID d)) \<and>
   others_stay (AuthenticateSession mac cookie h now r) d
     (fst (handleChangePassword mac compare generate cookie decode2 h now r d))"
proof (intro conjI)
  show "others_stay (AuthenticateSession mac cookie h now r) d
     (fst (handleUpdatePassword generate decode (Some (AuthenticateSession mac cookie h now)) now r pathID d))"
    unfolding handleUpdatePassword_def
    by (rule own_cred_others) (simp add: UpdatePassword_others others.kept_refl split: sum.split)
  show "others_stay (AuthenticateSession mac cookie h now r) d
     (fst (handleDeleteCred (Some (AuthenticateSession mac cookie h now)) r pathID d))"
    unfolding handleDeleteCred_def by (rule own_cred_others) (simp add: Cred_Delete_others)
  have email: "fst (case p of (d1, Some ErrAdminEmailAlreadyUsed) \<Rightarrow> (d1, a) | (d1, Some ErrAdminCredentialsAlreadyExist) \<Rightarrow> (d1, b)
      | (d1, Some (OtherCredError err)) \<Rightarrow> (d1, c err) | (d1, None) \<Rightarrow> (d1, e)) = fst p" for p :: "cred_db \<times> cred_error option" and a b c e
    by (simp split: prod.split option.split cred_error.split)
  show "others_stay (AuthenticateSession mac cookie h now r) d
     (fst (handleUpdateEmail decode (Some (AuthenticateSession mac cookie h now)) now r pathID d))"
    unfolding handleUpdateEmail_def
    by (rule own_cred_others) (simp add: email UpdateEmail_others others.kept_refl split: sum.split)
  show "others_stay (AuthenticateSession mac cookie h now r) d (fst (handleChangePassword mac compare generate cookie decode2 h now r d))"
  proof (cases "AuthenticateSession mac cookie h now r")
    case (Some u)
    have verify: "others_stay (Some u) d (fst (VerifyPassword compare u p d))" for p d
    proof -
      obtain d' q where c: "kd_call (\<lambda>d. Inr (d, find (\<lambda>r. cr_UserID r = u) (kd_creds d))) d = (d', q)" by fastforce
      then have "others_stay (Some u) d d'" using kd_query [OF c] by (auto simp: others_stay_def)
      then show ?thesis by (auto simp: VerifyPassword_def c split: sum.split option.split)
    qed
    show ?thesis
    proof (cases "case q_Body r of Inl err \<Rightarrow> Inl err | Inr body \<Rightarrow> decode2 body")
      case (Inr body)
      obtain current new where body: "body = (current, new)" by fastforce
      obtain d1 e where v: "VerifyPassword compare u current d = (d1, e)" by fastforce
      have "others_stay (Some u) d d1" using verify by (metis fst_conv v)
      moreover from this have "others_stay (Some u) d (fst (UpdatePassword generate now u new d1))"
        using UpdatePassword_others others.kept_trans by blast
      ultimately show ?thesis
        unfolding handleChangePassword_def Some Inr body
        by (cases e) (simp_all add: v others.kept_refl)
    qed (simp add: handleChangePassword_def Some others.kept_refl)
  qed (simp add: handleChangePassword_def others.kept_refl)
qed

subsection \<open>What signing in gives\<close>

lemma Cred_Authenticate_row:
  assumes "Cred_Authenticate compare email password d = (d', Inr u)"
  shows "\<exists>row\<in>set (kd_creds d). cr_UserID row = u \<and> cr_Email row = email \<and> compare (cr_Hash row) password = None"
proof -
  obtain d1 r where c: "kd_call (\<lambda>d. Inr (d, find (\<lambda>r. cr_Email r = email) (kd_creds d))) d = (d1, Inr (Some r))"
    and r: "compare (cr_Hash r) password = None" "cr_UserID r = u"
    using assms by (auto simp: Cred_Authenticate_def split: prod.splits sum.splits option.splits)
  obtain os where "d1 = d\<lparr>kd_outcomes := os\<rparr>" "Some r = find (\<lambda>r. cr_Email r = email) (kd_creds d1)"
    using kd_query [OF c] by auto
  then show ?thesis using r by (auto dest!: find_mem [OF sym])
qed

text \<open>A session of an administrator is only made for the email and the password of a row.\<close>

lemma handleLogin_cookies:
  assumes "handleLogin mac compare decode h now r d = (d', ans)" "an_Cookies ans \<noteq> []"
  shows "\<exists>body email password row. q_Body r = Inr body \<and> decode body = Inr (email, password) \<and> row \<in> set (kd_creds d) \<and>
    cr_Email row = email \<and> compare (cr_Hash row) password = None \<and> an_Cookies ans = setAuthenticatedSessions mac h now (cr_UserID row)"
proof -
  obtain body email password where b: "q_Body r = Inr body" "decode body = Inr (email, password)" "email \<noteq> ''''" "password \<noteq> ''''"
    using assms by (auto simp: handleLogin_def writeError_def split: sum.splits if_splits)
  obtain d1 q where c: "Cred_Authenticate compare email password d = (d1, q)" by fastforce
  then obtain u where u: "q = Inr u" "an_Cookies ans = setAuthenticatedSessions mac h now u"
    using assms b by (cases q) (auto simp: handleLogin_def writeError_def)
  then show ?thesis using Cred_Authenticate_row [OF c [unfolded u(1)]] b by blast
qed

text \<open>
  A session lives on after the credentials are gone: the middleware looks only at the signature.
\<close>

lemma session_outlives_credentials:
  assumes "AuthenticateSession mac cookie h now r = Some u" "Cred_Delete u d = (d', None)"
  shows "list_all (\<lambda>row. cr_UserID row \<noteq> u) (kd_creds d') \<and> snd (Admin_Wrap mac cookie h now r d') = None"
proof -
  obtain d1 q where c: "kd_call (\<lambda>d. Inr (d\<lparr>kd_creds := filter (\<lambda>r. cr_UserID r \<noteq> u) (kd_creds d)\<rparr>, list_ex (\<lambda>r. cr_UserID r = u) (kd_creds d))) d =
      (d1, q)" by fastforce
  then have "q = Inr True" "d' = d1" using assms(2) by (auto simp: Cred_Delete_def split: sum.splits if_splits)
  then have "list_all (\<lambda>row. cr_UserID row \<noteq> u) (kd_creds d')" using kd_call_cases [OF c] by (auto simp: list_all_iff)
  then show ?thesis using assms(1) by (simp add: Admin_Wrap_def split: prod.split)
qed

text \<open>When the only administrator gives the access up, the administration is open to everyone again.\<close>

lemma last_admin_opens_all:
  assumes "kd_creds d = [row]" "kd_outcomes d = []" "auth r = Some (cr_UserID row)" "ParseInt pathID = Some (cr_UserID row)"
  shows "an_Status (snd (handleDeleteCred (Some auth) r pathID d)) = 200 \<and>
    snd (Admin_Wrap mac cookie h now r' (fst (handleDeleteCred (Some auth) r pathID d))) = None"
  using assms
  by (simp add: handleDeleteCred_def own_cred_def requireSameAdminUser_def Cred_Delete_def Admin_Wrap_def HasAny_def writeJSON_def)

end
