(* ===== verification/Web_Login.thy ===== *)
theory Web_Login
  imports Admin_Auth
begin

text \<open>
  Signing in and linking with an account of the university (\<^verbatim>\<open>internal/auth/tsu\<close>): the states that stand
  for a started flow (\<^verbatim>\<open>state.go\<close>), the client of the university's service (\<^verbatim>\<open>client.go\<close>), and the
  handlers of the flow (\<^verbatim>\<open>handler.go\<close>), over the models of users, linking and sessions. A redirect is
  the URL that is handed to \<^verbatim>\<open>http.Redirect\<close>, which cleans the path of local ones; the two HTML pages are
  constructors without their text.
\<close>

subsection \<open>States of flows (state.go)\<close>

definition stateTTL :: duration where "stateTTL = 10 * Minute"
definition stateLength :: nat where "stateLength = 32"

definition flowKindLink :: string where "flowKindLink = ''link''"
definition flowKindLogin :: string where "flowKindLogin = ''login''"

record flow_state =
  fs_Kind :: string
  fs_UserID :: user_id
  fs_ReturnTo :: string

type_synonym state_store = "string \<rightharpoonup> flow_state \<times> instant"

definition generateStateToken :: "random_bytes \<Rightarrow> go_error + string" where
  "generateStateToken draws = randomHex stateLength draws"

definition generateURL ::
    "string \<Rightarrow> random_bytes \<Rightarrow> instant \<Rightarrow> flow_state \<Rightarrow> state_store \<Rightarrow> state_store \<times> (go_error + string)" where
  "generateURL loginURL draws now flow st =
     (case generateStateToken draws of
        Inl err \<Rightarrow> (st, Inl (Wrap ''generate state token: '' err ''''))
      | Inr token \<Rightarrow> (st(token \<mapsto> (flow, now + stateTTL)), Inr (loginURL @ ''?state='' @ token)))"

definition GenerateAuthURL ::
    "string \<Rightarrow> random_bytes \<Rightarrow> instant \<Rightarrow> user_id \<Rightarrow> state_store \<Rightarrow> state_store \<times> (go_error + string)" where
  "GenerateAuthURL loginURL draws now u =
     generateURL loginURL draws now \<lparr>fs_Kind = flowKindLink, fs_UserID = u, fs_ReturnTo = ''''\<rparr>"

definition GenerateLoginURL ::
    "string \<Rightarrow> random_bytes \<Rightarrow> instant \<Rightarrow> string \<Rightarrow> state_store \<Rightarrow> state_store \<times> (go_error + string)" where
  "GenerateLoginURL loginURL draws now returnTo =
     generateURL loginURL draws now \<lparr>fs_Kind = flowKindLogin, fs_UserID = 0, fs_ReturnTo = returnTo\<rparr>"

definition Verify :: "instant \<Rightarrow> string \<Rightarrow> state_store \<Rightarrow> bool" where
  "Verify now state st = (case st state of None \<Rightarrow> False | Some (_, expires) \<Rightarrow> \<not> now > expires)"

definition Consume :: "instant \<Rightarrow> string \<Rightarrow> state_store \<Rightarrow> state_store \<times> flow_state option" where
  "Consume now state st =
     (case st state of
        None \<Rightarrow> (st, None)
      | Some (flow, expires) \<Rightarrow> (st(state := None), if now > expires then None else Some flow))"

text \<open>One tick of \<^verbatim>\<open>cleanupLoop\<close>.\<close>

definition cleanup :: "instant \<Rightarrow> state_store \<Rightarrow> state_store" where
  "cleanup now st = (\<lambda>s. case st s of Some (flow, expires) \<Rightarrow> if now > expires then None else Some (flow, expires) | None \<Rightarrow> None)"

subsection \<open>The client (client.go)\<close>

record exchange_result =
  xr_AccessToken :: string
  xr_AccountID :: string

record tsu_client =
  tc_applicationID :: string
  tc_secretKey :: string
  tc_baseURL :: string

definition NewClient :: "string \<Rightarrow> string \<Rightarrow> string \<Rightarrow> tsu_client" where
  "NewClient applicationID secretKey baseURL =
     \<lparr>tc_applicationID = applicationID, tc_secretKey = secretKey,
      tc_baseURL = rev (dropWhile (\<lambda>c. c = CHR ''/'') (rev baseURL))\<rparr>"

text \<open>
  The network: whether a request can be made for a URL, what posting a form gives (a status and the
  body, each with its error), the decoder of the answer, and \<^verbatim>\<open>url.QueryEscape\<close>.
\<close>

record tsu_network =
  tn_newRequest :: "string \<Rightarrow> go_error option"
  tn_do :: "string \<Rightarrow> (string \<times> string) list \<Rightarrow> go_error + int \<times> (go_error + string)"
  tn_decode :: "string \<Rightarrow> go_error + exchange_result"
  tn_escape :: "string \<Rightarrow> string"

definition ExchangeToken :: "tsu_network \<Rightarrow> tsu_client \<Rightarrow> string \<Rightarrow> go_error + exchange_result" where
  "ExchangeToken N c tempToken =
     (let url = tc_baseURL c @ ''/api/Account/'';
          form = [(''token'', tempToken), (''applicationId'', tc_applicationID c), (''secretKey'', tc_secretKey c)]
      in case tn_newRequest N url of
           Some err \<Rightarrow> Inl (Wrap ''create request: '' err '''')
         | None \<Rightarrow>
             (case tn_do N url form of
                Inl err \<Rightarrow> Inl (Wrap ''exchange token: '' err '''')
              | Inr (status, Inl err) \<Rightarrow> Inl (Wrap ''read response body: '' err '''')
              | Inr (status, Inr body) \<Rightarrow>
                  if status \<noteq> 200
                  then Inl (Plain (''exchange token: status '' @ FormatInt status @ '', body: '' @ body))
                  else (case tn_decode N body of
                          Inl err \<Rightarrow> Inl (Wrap ''decode response: '' err '''')
                        | Inr res \<Rightarrow>
                            if xr_AccountID res = '''' then Inl (Plain ''exchange token: empty account ID in response'')
                            else Inr res)))"

definition LoginURL :: "tsu_network \<Rightarrow> tsu_client \<Rightarrow> string" where
  "LoginURL N c = tc_baseURL c @ ''/Account/Login2/?applicationId='' @ tn_escape N (tc_applicationID c)"

subsection \<open>Where a login returns to (handler.go)\<close>

text \<open>A parsed URL with its escaped path and fragment.\<close>

record web_url = parsed_url +
  wu_EscapedPath :: string
  wu_EscapedFragment :: string

type_synonym web_parser = "string \<Rightarrow> go_error + web_url"

definition plain_parser :: "web_parser \<Rightarrow> url_parser" where
  "plain_parser parse s = (case parse s of Inl err \<Rightarrow> Inl err | Inr u \<Rightarrow> Inr (parsed_url.truncate u))"

type_synonym return_validator = "string \<Rightarrow> go_error + bool"

definition defaultReturnTo :: string where "defaultReturnTo = ''/''"
definition adminAuthError :: string where "adminAuthError = ''admin_required''"
definition stateCookieName :: string where "stateCookieName = ''tsu_auth_state''"

definition sanitize_local :: "string \<Rightarrow> string" where
  "sanitize_local v =
     (if v = '''' then defaultReturnTo
      else if HasPrefix v ''/'' \<and> \<not> HasPrefix v ''//'' then v
      else defaultReturnTo)"

definition sanitizeReturnTo :: "web_parser \<Rightarrow> return_validator option \<Rightarrow> string \<Rightarrow> string" where
  "sanitizeReturnTo parse validator value0 =
     (if sanitize_local value0 \<noteq> defaultReturnTo then sanitize_local value0
      else let v = TrimSpace value0
           in case validator of
                None \<Rightarrow> defaultReturnTo
              | Some allowed \<Rightarrow>
                  if v = '''' then defaultReturnTo
                  else case FromURL (plain_parser parse) v of
                         Inl _ \<Rightarrow> defaultReturnTo
                       | Inr origin \<Rightarrow>
                           (case allowed origin of
                              Inl _ \<Rightarrow> defaultReturnTo
                            | Inr b \<Rightarrow> if \<not> b then defaultReturnTo else v))"

definition sameOriginReturnTo :: "web_parser \<Rightarrow> http_req \<Rightarrow> string \<Rightarrow> string" where
  "sameOriginReturnTo parse r value0 =
     (let v = TrimSpace value0
      in if v = '''' then defaultReturnTo
         else case parse v of
                Inl _ \<Rightarrow> defaultReturnTo
              | Inr u \<Rightarrow>
                  if u_Scheme u = '''' \<or> u_Host u \<noteq> q_Host r then defaultReturnTo
                  else sanitize_local
                         ((if wu_EscapedPath u = '''' then defaultReturnTo else wu_EscapedPath u) @
                          (if u_RawQuery u \<noteq> '''' then ''?'' @ u_RawQuery u else '''') @
                          (if u_Fragment u \<noteq> '''' then ''#'' @ wu_EscapedFragment u else '''')))"

definition sanitizeReturnToForRequest :: "web_parser \<Rightarrow> return_validator option \<Rightarrow> http_req \<Rightarrow> string \<Rightarrow> string" where
  "sanitizeReturnToForRequest parse validator r v =
     (if sameOriginReturnTo parse r v \<noteq> defaultReturnTo then sameOriginReturnTo parse r v
      else sanitizeReturnTo parse validator v)"

text \<open>The codec of queries: \<^verbatim>\<open>url.ParseQuery\<close> and \<^verbatim>\<open>Values.Encode\<close>.\<close>

record query_codec =
  qc_parse :: "string \<Rightarrow> go_error + (string \<times> string list) list"
  qc_encode :: "(string \<times> string list) list \<Rightarrow> string"

definition withAuthError :: "query_codec \<Rightarrow> string \<Rightarrow> string \<Rightarrow> string" where
  "withAuthError Q path code =
     (case SplitN 2 (CHR ''?'') path of
        [p] \<Rightarrow> p @ ''?'' @ qc_encode Q [(''auth_error'', [code])]
      | p # q # _ \<Rightarrow>
          (case qc_parse Q q of
             Inl _ \<Rightarrow> path
           | Inr values \<Rightarrow> p @ ''?'' @ qc_encode Q (AList.update ''auth_error'' [code] values))
      | [] \<Rightarrow> path)"

subsection \<open>The handlers (handler.go)\<close>

text \<open>
  The parts of the handler: sessions, the repository of users, the linker of persons and the
  administration may be absent.
\<close>

record tsu_handler =
  th_client :: tsu_client
  th_loginURL :: string
  th_sessions :: "session_manager option"
  th_userRepo :: bool
  th_personLinker :: bool
  th_adminAuth :: "auth_handler option"
  th_secureCookie :: bool
  th_validator :: "return_validator option"

definition NewHandler ::
    "tsu_client \<Rightarrow> string \<Rightarrow> session_manager option \<Rightarrow> bool \<Rightarrow> bool \<Rightarrow> auth_handler option \<Rightarrow> string \<Rightarrow> tsu_handler" where
  "NewHandler client loginURL sessions userRepo personLinker adminAuth callbackURL =
     \<lparr>th_client = client, th_loginURL = loginURL, th_sessions = sessions, th_userRepo = userRepo, th_personLinker = personLinker,
      th_adminAuth = adminAuth, th_secureCookie = HasPrefix callbackURL ''https://'', th_validator = None\<rparr>"

text \<open>The libraries that the handlers call.\<close>

record web_library =
  wl_mac :: mac
  wl_cookie :: cookie_reader
  wl_parse :: web_parser
  wl_query :: query_codec
  wl_net :: tsu_network
  wl_linked :: "string \<Rightarrow> string"

text \<open>The state: started flows, users, administrators, and the messages of the notifier in the world.\<close>

record 'w tsu_state =
  ts_states :: state_store
  ts_users :: user_db
  ts_creds :: cred_db
  ts_world :: 'w

datatype web_body = ErrorPage string | RedirectPage string | SuccessPage | ExpiredPage

record web_answer =
  wa_Cookies :: "set_cookie list"
  wa_Status :: int
  wa_Body :: web_body

definition error_page :: "string \<Rightarrow> int \<Rightarrow> web_answer" where
  "error_page t code = \<lparr>wa_Cookies = [], wa_Status = code, wa_Body = ErrorPage t\<rparr>"

definition redirect :: "set_cookie list \<Rightarrow> string \<Rightarrow> web_answer" where
  "redirect cookies url = \<lparr>wa_Cookies = cookies, wa_Status = 302, wa_Body = RedirectPage url\<rparr>"

definition query_Get :: "http_req \<Rightarrow> string \<Rightarrow> string" where
  "query_Get r k = (case map_of (q_Query r) k of Some (v # _) \<Rightarrow> v | _ \<Rightarrow> '''')"

definition state_cookie :: "tsu_handler \<Rightarrow> string \<Rightarrow> int \<Rightarrow> set_cookie" where
  "state_cookie h v maxAge =
     \<lparr>sc_Name = stateCookieName, sc_Value = v, sc_Path = ''/oauth/'', sc_MaxAge = maxAge, sc_HttpOnly = True,
      sc_Secure = th_secureCookie h, sc_SameSite = SameSiteLax\<rparr>"

definition handleStartLogin ::
    "web_library \<Rightarrow> tsu_handler \<Rightarrow> random_bytes \<Rightarrow> instant \<Rightarrow> http_req \<Rightarrow> 'w tsu_state \<Rightarrow> 'w tsu_state \<times> web_answer" where
  "handleStartLogin L h draws now r s =
     (if th_sessions h = None \<or> \<not> th_userRepo h then (s, error_page ''authentication is unavailable'' 503)
      else case GenerateLoginURL (th_loginURL h) draws now
                  (sanitizeReturnToForRequest (wl_parse L) (th_validator h) r (query_Get r ''return_to'')) (ts_states s) of
             (st, Inl _) \<Rightarrow> (s\<lparr>ts_states := st\<rparr>, error_page ''failed to start authentication'' 500)
           | (st, Inr url) \<Rightarrow> (s\<lparr>ts_states := st\<rparr>, redirect [] url))"

definition handleTsuLogin :: "web_library \<Rightarrow> tsu_handler \<Rightarrow> instant \<Rightarrow> http_req \<Rightarrow> 'w tsu_state \<Rightarrow> web_answer" where
  "handleTsuLogin L h now r s =
     (let state = query_Get r ''state''
      in if state = '''' then error_page ''missing state parameter'' 400
         else if \<not> Verify now state (ts_states s) then error_page ''invalid or expired state'' 400
         else redirect [state_cookie h state (stateTTL div Second)] (LoginURL (wl_net L) (th_client h)))"

definition handleLinkCallback ::
    "web_library \<Rightarrow> 'w tsu_notifier option \<Rightarrow> user_id \<Rightarrow> string \<Rightarrow> 'w tsu_state \<Rightarrow> 'w tsu_state \<times> web_answer" where
  "handleLinkCallback L notifier u accountID s =
     (case Tsu_Link (wl_linked L) notifier u accountID (ts_users s, ts_world s) of
        ((d, w), err) \<Rightarrow>
          (s\<lparr>ts_users := d, ts_world := w\<rparr>,
           case err of
             Some _ \<Rightarrow> error_page ''account linking failed, please try again'' 500
           | None \<Rightarrow> \<lparr>wa_Cookies = [], wa_Status = 200, wa_Body = SuccessPage\<rparr>))"

definition handleWebLoginCallback ::
    "web_library \<Rightarrow> tsu_handler \<Rightarrow> instant \<Rightarrow> http_req \<Rightarrow> string \<Rightarrow> string \<Rightarrow> 'w tsu_state \<Rightarrow> 'w tsu_state \<times> web_answer" where
  "handleWebLoginCallback L h now r returnTo accountID s =
     (case th_sessions h of
        None \<Rightarrow> (s, error_page ''authentication is unavailable'' 503)
      | Some m \<Rightarrow>
          if \<not> th_userRepo h then (s, error_page ''authentication is unavailable'' 503)
          else case ensureWebUser (th_personLinker h) accountID (ts_users s) of
                 (d, Inl _) \<Rightarrow> (s\<lparr>ts_users := d\<rparr>, error_page ''authentication failed, please try again'' 500)
               | (d, Inr u) \<Rightarrow>
                   (let s1 = s\<lparr>ts_users := d\<rparr>;
                        safe = sanitizeReturnToForRequest (wl_parse L) (th_validator h) r returnTo;
                        session = SetSession (wl_mac L) m now u
                    in case (if HasPrefix safe ''/admin'' then th_adminAuth h else None) of
                         None \<Rightarrow> (s1, redirect [session] safe)
                       | Some admin \<Rightarrow>
                           (case HasUser u (ts_creds s1) of
                              (c, Inl _) \<Rightarrow> (s1\<lparr>ts_creds := c\<rparr>, error_page ''authentication failed, please try again'' 500)
                            | (c, Inr hasAccess) \<Rightarrow>
                                (s1\<lparr>ts_creds := c\<rparr>,
                                 if hasAccess
                                 then redirect [session, Admin_SetSession (wl_mac L) admin now u] safe
                                 else redirect [Admin_ClearSession, session] (withAuthError (wl_query L) safe adminAuthError)))))"

definition handleCallback ::
    "web_library \<Rightarrow> 'w tsu_notifier option \<Rightarrow> tsu_handler \<Rightarrow> instant \<Rightarrow> http_req \<Rightarrow> 'w tsu_state \<Rightarrow> 'w tsu_state \<times> web_answer" where
  "handleCallback L notifier h now r s =
     (let tempToken = query_Get r ''token'';
          expired = \<lparr>wa_Cookies = [], wa_Status = 200, wa_Body = ExpiredPage\<rparr>
      in if tempToken = '''' then (s, error_page ''missing token parameter'' 400)
         else case wl_cookie L r stateCookieName of
                None \<Rightarrow> (s, expired)
              | Some state \<Rightarrow>
                  (case Consume now state (ts_states s) of
                     (st, consumed) \<Rightarrow>
                       (let s1 = s\<lparr>ts_states := st\<rparr>;
                            cleared = (\<lambda>ans. ans\<lparr>wa_Cookies := state_cookie h '''' (-1) # wa_Cookies ans\<rparr>)
                        in case consumed of
                             None \<Rightarrow> (s1, cleared expired)
                           | Some flow \<Rightarrow>
                               (case ExchangeToken (wl_net L) (th_client h) tempToken of
                                  Inl _ \<Rightarrow> (s1, cleared (error_page ''authentication failed, please try again'' 500))
                                | Inr res \<Rightarrow>
                                    (case (if fs_Kind flow = flowKindLink
                                           then handleLinkCallback L notifier (fs_UserID flow) (xr_AccountID res) s1
                                           else if fs_Kind flow = flowKindLogin
                                           then handleWebLoginCallback L h now r (fs_ReturnTo flow) (xr_AccountID res) s1
                                           else (s1, error_page ''invalid authentication flow'' 400)) of
                                       (s2, ans) \<Rightarrow> (s2, cleared ans))))))"

subsection \<open>Where redirects go\<close>

definition local_path :: "string \<Rightarrow> bool" where
  "local_path v \<longleftrightarrow> HasPrefix v ''/'' \<and> \<not> HasPrefix v ''//''"

definition allowed_return :: "web_parser \<Rightarrow> return_validator option \<Rightarrow> string \<Rightarrow> bool" where
  "allowed_return parse validator v \<longleftrightarrow>
     (\<exists>allowed origin. validator = Some allowed \<and> FromURL (plain_parser parse) v = Inr origin \<and> allowed origin = Inr True)"

lemma sanitize_local_path: "local_path (sanitize_local v)"
  by (simp add: sanitize_local_def local_path_def defaultReturnTo_def)

lemma default_local: "local_path defaultReturnTo"
  by (simp add: local_path_def defaultReturnTo_def)

lemma sanitizeReturnTo_safe:
  "local_path (sanitizeReturnTo parse validator v) \<or> allowed_return parse validator (sanitizeReturnTo parse validator v)"
proof (cases "sanitize_local v \<noteq> defaultReturnTo")
  case False
  then show ?thesis using default_local
    by (auto simp: sanitizeReturnTo_def allowed_return_def Let_def split: option.split sum.split)
qed (simp add: sanitizeReturnTo_def sanitize_local_path)

lemma sameOrigin_local: "local_path (sameOriginReturnTo parse r v)"
  by (simp add: sameOriginReturnTo_def Let_def default_local sanitize_local_path split: sum.split)

lemma sanitize_request_safe:
  "local_path (sanitizeReturnToForRequest parse validator r v) \<or>
   allowed_return parse validator (sanitizeReturnToForRequest parse validator r v)"
  by (simp add: sanitizeReturnToForRequest_def sameOrigin_local sanitizeReturnTo_safe)

lemma SplitN_first_prefix: "SplitN 2 c s = p # rest \<Longrightarrow> HasPrefix s q \<Longrightarrow> c \<notin> set q \<Longrightarrow> HasPrefix p q"
proof (induction q arbitrary: s p rest)
  case (Cons x q)
  then obtain s' where s: "s = x # s'" "prefix q s'" by (auto simp: prefix_def)
  obtain p' rest' where r: "SplitN 2 c s' = p' # rest'" by (cases "SplitN 2 c s'"; cases s') (auto split: if_splits list.splits)
  have "p = x # p'" using Cons.prems s r by auto
  then show ?case using Cons.IH [OF r s(2)] Cons.prems by simp
qed simp

lemma withAuthError_admin: "HasPrefix v ''/admin'' \<Longrightarrow> HasPrefix (withAuthError Q v code) ''/admin''"
proof -
  assume v: "HasPrefix v ''/admin''"
  obtain p rest where s: "SplitN 2 (CHR ''?'') v = p # rest" by (cases "SplitN 2 (CHR ''?'') v"; cases v) (auto split: if_splits list.splits)
  have "HasPrefix p ''/admin''" using SplitN_first_prefix [OF s v] by simp
  then show ?thesis using v by (cases rest) (auto simp: withAuthError_def s split: sum.split)
qed

lemma admin_local: "HasPrefix v ''/admin'' \<Longrightarrow> local_path v"
  by (auto simp: local_path_def prefix_def)

text \<open>C40. A callback redirects only where the check of the address to return to allows. Whatever the flow, the
  answer of the university and the failures, the target, an error of the administration put into its query included,
  is a path that starts with one slash and not with two, or a URL whose origin the validator of
  the frontends allows.\<close>

theorem login_returns_home:
  "case wa_Body (snd (handleCallback L notifier h now r s)) of
     RedirectPage url \<Rightarrow> local_path url \<or> allowed_return (wl_parse L) (th_validator h) url
   | _ \<Rightarrow> True"
proof -
  have web: "case wa_Body (snd (handleWebLoginCallback L h now r ret acc q)) of
      RedirectPage url \<Rightarrow> local_path url \<or> allowed_return (wl_parse L) (th_validator h) url | _ \<Rightarrow> True" for ret acc and q :: "'a tsu_state"
  proof (cases "wa_Body (snd (handleWebLoginCallback L h now r ret acc q))")
    case (RedirectPage url)
    let ?safe = "sanitizeReturnToForRequest (wl_parse L) (th_validator h) r ret"
    have "url = ?safe \<or> HasPrefix ?safe ''/admin'' \<and> url = withAuthError (wl_query L) ?safe adminAuthError"
      using RedirectPage by (auto simp: handleWebLoginCallback_def error_page_def redirect_def Let_def
          split: option.splits prod.splits sum.splits if_splits)
    then show ?thesis using RedirectPage sanitize_request_safe admin_local withAuthError_admin by auto
  qed simp_all
  have link: "wa_Body ans \<noteq> RedirectPage url" if l: "handleLinkCallback L notifier u acc q = (q', ans)" for u acc q q' ans url
    using l by (auto simp: handleLinkCallback_def error_page_def split: prod.splits option.splits)
  show ?thesis
  proof (cases "wa_Body (snd (handleCallback L notifier h now r s))")
    case (RedirectPage url)
    then have "\<exists>ret acc (q :: 'a tsu_state) q' ans. handleWebLoginCallback L h now r ret acc q = (q', ans) \<and> wa_Body ans = RedirectPage url"
      using link by (auto simp: handleCallback_def error_page_def Let_def split: option.splits prod.splits sum.splits if_splits) (intro exI conjI, assumption+)
    then obtain ret acc and q :: "'a tsu_state" and q' ans
      where w: "handleWebLoginCallback L h now r ret acc q = (q', ans)" "wa_Body ans = RedirectPage url" by blast
    then show ?thesis using web [of ret acc q] RedirectPage w by simp
  qed simp_all
qed

text \<open>Browsers take a backslash in such a path for a slash; the check does not know that.\<close>

lemma backslash_is_local: "sanitize_local (CHR ''/'' # CHR 0x5C # host) = CHR ''/'' # CHR 0x5C # host"
  by (simp add: sanitize_local_def)

subsection \<open>Who gets an administrator's session\<close>

text \<open>The cookies of an administrator's session among those that are set, the emptied ones aside.\<close>

definition admin_cookies :: "set_cookie list \<Rightarrow> set_cookie list" where
  "admin_cookies cs = filter (\<lambda>c. sc_Name c = adminCookieName \<and> sc_Value c \<noteq> '''') cs"

definition cookie_of_admin :: "mac \<Rightarrow> string \<Rightarrow> instant \<Rightarrow> cred_db \<Rightarrow> set_cookie \<Rightarrow> bool" where
  "cookie_of_admin mac key now d c \<longleftrightarrow>
     (\<exists>row\<in>set (kd_creds d). sc_Value c = CreateToken mac key now (cr_UserID row) adminTTL)"

lemma other_cookies [simp]:
  "admin_cookies (SetSession mac m now u # cs) = admin_cookies cs" "admin_cookies (ClearSession m # cs) = admin_cookies cs"
  "admin_cookies (state_cookie h v n # cs) = admin_cookies cs" "admin_cookies (Admin_ClearSession # cs) = admin_cookies cs"
  "admin_cookies [] = []"
  by (simp_all add: admin_cookies_def SetSession_def ClearSession_def state_cookie_def Admin_ClearSession_def setSessionCookie_def
      adminCookieName_def SessionCookieName_def stateCookieName_def)

lemma admin_cookie_set:
  "set (admin_cookies (Admin_SetSession mac h now u # cs)) \<subseteq> insert (Admin_SetSession mac h now u) (set (admin_cookies cs))"
  by (auto simp: admin_cookies_def)

lemma HasUser_row: "HasUser u d = (d', Inr True) \<Longrightarrow> \<exists>row\<in>set (kd_creds d). cr_UserID row = u"
  unfolding HasUser_def by (drule kd_query) (auto simp: list_ex_iff)

definition admin_cookies_ok :: "mac \<Rightarrow> auth_handler option \<Rightarrow> instant \<Rightarrow> cred_db \<Rightarrow> set_cookie list \<Rightarrow> bool" where
  "admin_cookies_ok mac admin now d cs \<longleftrightarrow>
     (case admin of None \<Rightarrow> admin_cookies cs = [] | Some h \<Rightarrow> list_all (cookie_of_admin mac (ah_key h) now d) (admin_cookies cs))"

lemma no_admin_cookies: "admin_cookies cs = [] \<Longrightarrow> admin_cookies_ok mac admin now d cs"
  by (simp add: admin_cookies_ok_def split: option.split)

lemma admin_cookie_ok:
  assumes "\<exists>row\<in>set (kd_creds d). cr_UserID row = u" "admin_cookies cs = []"
  shows "admin_cookies_ok mac (Some h) now d (Admin_SetSession mac h now u # cs)"
proof -
  have "sc_Value (Admin_SetSession mac h now u) = CreateToken mac (ah_key h) now u adminTTL"
    by (simp add: Admin_SetSession_def setSessionCookie_def)
  then have "cookie_of_admin mac (ah_key h) now d (Admin_SetSession mac h now u)"
    using assms(1) by (auto simp: cookie_of_admin_def)
  then show ?thesis using admin_cookie_set [of mac h now u cs] assms(2)
    by (auto simp: admin_cookies_ok_def list_all_iff)
qed

lemma admin_cookies_ok_other [simp]:
  "admin_cookies_ok mac admin now d (SetSession mac' m now' u # cs) = admin_cookies_ok mac admin now d cs"
  "admin_cookies_ok mac admin now d (state_cookie h v n # cs) = admin_cookies_ok mac admin now d cs"
  "admin_cookies_ok mac admin now d (Admin_ClearSession # cs) = admin_cookies_ok mac admin now d cs"
  by (cases admin; simp add: admin_cookies_ok_def)+

lemma web_login_admin:
  "admin_cookies_ok (wl_mac L) (th_adminAuth h) now (ts_creds s) (wa_Cookies (snd (handleWebLoginCallback L h now r ret acc s)))"
proof (cases "th_sessions h")
  case (Some m)
  obtain d q where e: "ensureWebUser (th_personLinker h) acc (ts_users s) = (d, q)" by fastforce
  show ?thesis
  proof (cases "th_userRepo h \<and> \<not> isl q")
    case True
    then obtain u where u: "q = Inr u" by (cases q) auto
    let ?safe = "sanitizeReturnToForRequest (wl_parse L) (th_validator h) r ret"
    show ?thesis
    proof (cases "if HasPrefix ?safe ''/admin'' then th_adminAuth h else None")
      case None
      then show ?thesis using True Some
        by (simp add: handleWebLoginCallback_def e u Let_def redirect_def no_admin_cookies)
    next
      case (Some admin)
      then have a: "th_adminAuth h = Some admin" by (simp split: if_splits)
      obtain c b where hu: "HasUser u (ts_creds s) = (c, b)" by fastforce
      have "b = Inr True \<Longrightarrow> \<exists>row\<in>set (kd_creds (ts_creds s)). cr_UserID row = u" using HasUser_row hu by simp
      then show ?thesis using True \<open>th_sessions h = Some m\<close> Some a
        by (cases b) (auto simp: handleWebLoginCallback_def e u Let_def redirect_def error_page_def hu no_admin_cookies admin_cookie_ok)
    qed
  qed (auto simp: handleWebLoginCallback_def Some e error_page_def no_admin_cookies isl_def split: sum.split)
qed (simp add: handleWebLoginCallback_def error_page_def no_admin_cookies)

lemma callback_admin:
  "admin_cookies_ok (wl_mac L) (th_adminAuth h) now (ts_creds s) (wa_Cookies (snd (handleCallback L notifier h now r s)))"
proof -
  have link: "wa_Cookies ans = []" if lc: "handleLinkCallback L notifier u acc q = (q', ans)" for u acc q q' ans
    using lc by (auto simp: handleLinkCallback_def error_page_def split: prod.splits option.splits if_splits sum.splits)
  show ?thesis
  proof (cases "query_Get r ''token'' = '''' \<or> wl_cookie L r stateCookieName = None")
    case False
    then obtain state where st: "wl_cookie L r stateCookieName = Some state" "query_Get r ''token'' \<noteq> ''''" by auto
    obtain sts consumed where c: "Consume now state (ts_states s) = (sts, consumed)" by fastforce
    show ?thesis
    proof (cases consumed)
      case None
      then show ?thesis using st c by (simp add: handleCallback_def Let_def no_admin_cookies)
    next
      case (Some flow)
      show ?thesis
      proof (cases "ExchangeToken (wl_net L) (th_client h) (query_Get r ''token'')")
        case (Inl err)
        then show ?thesis using st c Some by (simp add: handleCallback_def Let_def error_page_def no_admin_cookies)
      next
        case (Inr res)
        then show ?thesis
          using st c Some link web_login_admin [of L h now "s\<lparr>ts_states := sts\<rparr>" r "fs_ReturnTo flow" "xr_AccountID res"]
          by (auto simp: handleCallback_def Let_def error_page_def no_admin_cookies split: prod.split)
      qed
    qed
  qed (auto simp: handleCallback_def Let_def error_page_def no_admin_cookies)
qed



subsection \<open>A state serves one callback\<close>

text \<open>What happens between two callbacks: requests that start a login, users that ask for a link, callbacks, and
  ticks of the cleanup.\<close>

datatype tsu_event =
  LoginStarted random_bytes instant http_req
| LinkStarted random_bytes instant user_id
| CalledBack instant http_req
| CleanedUp instant

primrec tsu_step :: "web_library \<Rightarrow> 'w tsu_notifier option \<Rightarrow> tsu_handler \<Rightarrow> tsu_event \<Rightarrow> 'w tsu_state \<Rightarrow> 'w tsu_state" where
  "tsu_step L notifier h (LoginStarted draws now r) s = fst (handleStartLogin L h draws now r s)"
| "tsu_step L notifier h (LinkStarted draws now u) s =
     s\<lparr>ts_states := fst (GenerateAuthURL (th_loginURL h) draws now u (ts_states s))\<rparr>"
| "tsu_step L notifier h (CalledBack now r) s = fst (handleCallback L notifier h now r s)"
| "tsu_step L notifier h (CleanedUp now) s = s\<lparr>ts_states := cleanup now (ts_states s)\<rparr>"

primrec draws_state :: "string \<Rightarrow> tsu_event \<Rightarrow> bool" where
  "draws_state state (LoginStarted draws now r) \<longleftrightarrow> generateStateToken draws = Inr state"
| "draws_state state (LinkStarted draws now u) \<longleftrightarrow> generateStateToken draws = Inr state"
| "draws_state state (CalledBack now r) \<longleftrightarrow> False"
| "draws_state state (CleanedUp now) \<longleftrightarrow> False"

lemma generateURL_other:
  "st state = None \<Longrightarrow> generateStateToken draws \<noteq> Inr state \<Longrightarrow> fst (generateURL loginURL draws now flow st) state = None"
  by (auto simp: generateURL_def split: sum.split)

lemma Consume_gone: "fst (Consume now state st) state = None"
  by (simp add: Consume_def split: option.split)

lemma Consume_other: "st state = None \<Longrightarrow> fst (Consume now other st) state = None"
  by (simp add: Consume_def split: option.split)

lemma link_states: "ts_states (fst (handleLinkCallback L notifier u acc s)) = ts_states s"
  by (simp add: handleLinkCallback_def split: prod.split)

lemma web_login_states: "ts_states (fst (handleWebLoginCallback L h now r ret acc s)) = ts_states s"
  by (simp add: handleWebLoginCallback_def Let_def split: prod.split option.split sum.split)

lemma callback_states:
  "ts_states (fst (handleCallback L notifier h now r s)) =
     (case wl_cookie L r stateCookieName of
        Some state \<Rightarrow> if query_Get r ''token'' = '''' then ts_states s else fst (Consume now state (ts_states s))
      | None \<Rightarrow> ts_states s)"
proof (cases "query_Get r ''token'' = '''' \<or> wl_cookie L r stateCookieName = None")
  case False
  then obtain state where st: "wl_cookie L r stateCookieName = Some state" "query_Get r ''token'' \<noteq> ''''" by auto
  obtain sts consumed where c: "Consume now state (ts_states s) = (sts, consumed)" by fastforce
  have p: "ts_states (fst (case p of (s2, ans) \<Rightarrow> (s2, f ans))) = ts_states (fst p)" for p :: "'a tsu_state \<times> web_answer" and f :: "web_answer \<Rightarrow> web_answer"
    by (cases p) simp
  show ?thesis
    by (cases consumed; cases "ExchangeToken (wl_net L) (th_client h) (query_Get r ''token'')")
      (simp_all add: handleCallback_def Let_def st c p link_states web_login_states)
qed (auto simp: handleCallback_def Let_def split: option.split)

lemma start_states:
  "ts_states s state = None \<Longrightarrow> generateStateToken draws \<noteq> Inr state \<Longrightarrow>
   ts_states (fst (handleStartLogin L h draws now r s)) state = None"
  by (simp add: handleStartLogin_def GenerateLoginURL_def generateURL_def split: sum.split)

lemma step_keeps_used:
  "ts_states s state = None \<Longrightarrow> \<not> draws_state state e \<Longrightarrow> ts_states (tsu_step L notifier h e s) state = None"
  by (cases e) (simp_all add: start_states GenerateAuthURL_def generateURL_other callback_states Consume_other cleanup_def split: option.split)

lemma run_keeps_used:
  "ts_states s state = None \<Longrightarrow> list_all (\<lambda>e. \<not> draws_state state e) es \<Longrightarrow> ts_states (fold (tsu_step L notifier h) es s) state = None"
  by (induction es arbitrary: s) (simp_all add: step_keeps_used)

text \<open>C39. A started flow can be finished once. After a callback that came with a state, whatever it
  answered, and any further requests in any order of which none draws the same random token again, a
  second callback with this state, for instance a replayed one, is told that the flow has expired: nothing is
  exchanged with the university, and no user, link or session is touched.\<close>

theorem callback_runs_once:
  assumes "wl_cookie L r stateCookieName = Some state" "query_Get r ''token'' \<noteq> ''''"
    and "list_all (\<lambda>e. \<not> draws_state state e) es"
    and "wl_cookie L r' stateCookieName = Some state" "query_Get r' ''token'' \<noteq> ''''"
  shows "(let s' = fold (tsu_step L notifier h) es (fst (handleCallback L notifier h now r s))
     in handleCallback L notifier h now' r' s' =
          (s', \<lparr>wa_Cookies = [state_cookie h '''' (-1)], wa_Status = 200, wa_Body = ExpiredPage\<rparr>))"
proof -
  let ?s = "fold (tsu_step L notifier h) es (fst (handleCallback L notifier h now r s))"
  have "ts_states (fst (handleCallback L notifier h now r s)) state = None"
    using assms(1,2) by (simp add: callback_states Consume_gone)
  then have "ts_states ?s state = None" using run_keeps_used assms(3) by blast
  then have "Consume now' state (ts_states ?s) = (ts_states ?s, None)" by (simp add: Consume_def)
  then show ?thesis using assms(4,5) by (simp add: handleCallback_def Let_def)
qed


text \<open>A link of user 1, finished by a callback, and replayed after a cleanup and another login.\<close>

definition demo_library :: web_library where
  "demo_library =
     \<lparr>wl_mac = \<lambda>_ _. ''mac'', wl_cookie = \<lambda>_ _. Some ''s'', wl_parse = \<lambda>_. Inl (Plain ''not a URL''),
      wl_query = \<lparr>qc_parse = \<lambda>_. Inr [], qc_encode = \<lambda>_. ''''\<rparr>,
      wl_net = \<lparr>tn_newRequest = \<lambda>_. None, tn_do = \<lambda>_ _. Inr (200, Inr ''{}''),
                tn_decode = \<lambda>_. Inr \<lparr>xr_AccessToken = ''a'', xr_AccountID = ''t2''\<rparr>, tn_escape = \<lambda>s. s\<rparr>,
      wl_linked = \<lambda>_. ''linked''\<rparr>"

definition demo_handler :: tsu_handler where
  "demo_handler = NewHandler (NewClient ''app'' ''key'' ''https://tsu/'') ''https://bot/login'' None True True None ''https://bot''"

definition demo_callback :: http_req where
  "demo_callback =
     \<lparr>q_Method = ''GET'', q_Path = ''/oauth/authorize'', q_Query = [(''token'', [''temp''])], q_Host = ''bot'', q_URLHost = '''',
      q_TLS = True, q_Header = [], q_Body = Inr '''', q_RemoteAddr = '''', q_RequestURI = ''/oauth/authorize''\<rparr>"

definition demo_tsu :: "unit tsu_state" where
  "demo_tsu =
     \<lparr>ts_states = [''s'' \<mapsto> (\<lparr>fs_Kind = flowKindLink, fs_UserID = 1, fs_ReturnTo = ''''\<rparr>, stateTTL)], ts_users = demo_users,
      ts_creds = \<lparr>kd_users = [1], kd_creds = [], kd_next = 1, kd_outcomes = []\<rparr>, ts_world = ()\<rparr>"

definition demo_between :: "tsu_event list" where
  "demo_between = [CleanedUp 5, LoginStarted (Inr [1, 2, 3]) 6 demo_callback, CalledBack 7 demo_callback]"

theorem callback_runs_once_witness:
  "snd (Consume 1 ''s'' (ts_states demo_tsu)) \<noteq> None \<and>
   wa_Body (snd (handleCallback demo_library None demo_handler 8 demo_callback
     (fold (tsu_step demo_library None demo_handler) demo_between
        (fst (handleCallback demo_library None demo_handler 1 demo_callback demo_tsu))))) = ExpiredPage"
proof -
  have d: "list_all (\<lambda>e. \<not> draws_state ''s'' e) demo_between"
    by (simp add: demo_between_def generateStateToken_def randomHex_def stateLength_def hexString_def)
  have c: "wl_cookie demo_library demo_callback stateCookieName = Some ''s''" by (simp add: demo_library_def)
  have t: "query_Get demo_callback ''token'' \<noteq> ''''" by (simp add: query_Get_def demo_callback_def)
  have o: "snd (Consume 1 ''s'' (ts_states demo_tsu)) \<noteq> None"
    by (simp add: demo_tsu_def Consume_def stateTTL_def duration_defs)
  show ?thesis using o callback_runs_once [OF c t d c t, of None demo_handler 1 demo_tsu 8] by (simp add: Let_def)
qed

end
