(* ===== verification/Spec2Isabelle.thy ===== *)
theory Spec2Isabelle
  imports Channel_Manager Notification Authz Plugin_Host Event_Queue Module_Pool Plugin_Lifecycle Users Web_Login
begin

text \<open>
  Verification of SuperBotCore, a bot platform: messenger adapters (Telegram, Discord, VK,
  Mattermost) deliver updates to a core that resolves users, runs the dialogs of commands and
  passes completed commands to plugins, which are WebAssembly modules or built in; plugins answer
  through the same adapters or by notifications.

  The way of an update. An adapter wraps a messenger's event as an update and hands it to the
  channel manager (\<^verbatim>\<open>internal/channel/manager.go\<close>), which looks up the user, drops users on the
  blacklist, and decides whether the input is a command or the answer in a running dialog. A
  command is resolved among the plugins (\<^verbatim>\<open>internal/plugin\<close>), checked against the authorizer, and
  starts a dialog in the dialog manager (\<^verbatim>\<open>internal/state\<close>), which persists one dialog state per
  user in Redis. When all steps of the dialog are answered, the command's request is dispatched to
  its plugin (\<^verbatim>\<open>internal/trigger/router.go\<close>). Everything sent goes through the adapter registry
  (\<^verbatim>\<open>internal/channel/registry.go\<close>) with retries.

  \<^bold>\<open>Theories.\<close>
  \<^item> \<open>Go_Prelude\<close>: byte strings, the parts of packages strings, strconv and time the code uses,
    collections of rewrite rules, lemmas on lists, options and maps.
  \<^item> \<open>Bot_Model\<close>: \<^verbatim>\<open>internal/model\<close> (messages, inputs, commands, dialog states, users,
    notification preferences), \<^verbatim>\<open>internal/locale\<close>, \<^verbatim>\<open>internal/i18n\<close>, and error values with their
    wrapping chains (\<^verbatim>\<open>internal/errs\<close>).
  \<^item> \<open>Dialog_DSL\<close>: command trees, their flattening to the active steps under the answers given so
    far, and the builders (\<^verbatim>\<open>dsl.go\<close>, \<^verbatim>\<open>dsl_builder.go\<close>, \<^verbatim>\<open>context.go\<close> of \<^verbatim>\<open>internal/state\<close>).
  \<^item> \<open>Dialog_Handler\<close>: one dialog as a state machine: input, validation, pages of options, back
    navigation and its one-time tokens (\<^verbatim>\<open>dsl_handler.go\<close>, \<^verbatim>\<open>navigation.go\<close>, \<^verbatim>\<open>handler.go\<close>). The
    step relation \<open>dialog_step\<close> and its invariant are there.
  \<^item> \<open>Dialog_Storage\<close>: the storage interface as the locale \<open>dialog_storage\<close>, JSON documents, and
    \<^verbatim>\<open>RedisStorage\<close> over a Redis client, which is third-party code: the locale \<open>redis_client\<close> has
    its laws, \<open>sublocale\<close> shows that \<^verbatim>\<open>RedisStorage\<close> keeps the storage contract, \<open>mem\<close> is a client.
  \<^item> \<open>Dialog_Manager\<close>: registration, start, input, cancellation, relocation
    (\<^verbatim>\<open>internal/state/manager.go\<close>); lemmas proved in \<open>dialog_storage\<close> hold for every storage.
  \<^item> \<open>Plugin_Registry\<close>: plugins, command resolution, focus (\<^verbatim>\<open>internal/plugin\<close>).
  \<^item> \<open>Channel_Send\<close>: adapters, registry, retries, middleware and the duplicate filter, rendering
    of blocks (\<^verbatim>\<open>internal/channel\<close>).
  \<^item> \<open>Channel_Manager\<close>: the whole of \<^verbatim>\<open>internal/channel/manager.go\<close> and the router.
  \<^item> \<open>Notification\<close>: delivery by priority and work hours, the store of delayed messages as the
    locales \<open>scheduled_store\<close> and \<open>reliable_scheduled_store\<close> with the memory store as their
    instance \<open>memq\<close>, the worker, the message codec (\<^verbatim>\<open>internal/notification\<close>).
  \<^item> \<open>Wasm_Registry\<close>: versions of plugins, constraints, dependencies
    (\<^verbatim>\<open>internal/wasm/registry\<close>); \<^verbatim>\<open>sort.Slice\<close> is the locale \<open>slice_sort\<close>, with insertion sort as
    its instance \<open>ins\<close>.
  \<^item> \<open>Authz\<close>: the decision about a command: required roles asked from SpiceDB, policy expressions,
    the caches with their lifetimes, the schema of rules (\<^verbatim>\<open>internal/authz\<close>).
  \<^item> \<open>Plugin_Host\<close>: what plugins may ask of the host: permissions, call limits, the key-value store,
    HTTP policies and requests, calls between plugins (\<^verbatim>\<open>internal/wasm/hostapi\<close>).
  \<^item> \<open>Event_Bus\<close>, \<open>Event_Queue\<close>: events between plugins, in memory with dead letters, and in a
    PostgreSQL table whose statements are functions on its rows (\<^verbatim>\<open>internal/wasm/eventbus\<close>).
  \<^item> \<open>Module_Pool\<close>: the slots of concurrent executions of a module, as a step relation over all
    interleavings of \<^verbatim>\<open>Execute\<close> and \<^verbatim>\<open>Close\<close> (\<^verbatim>\<open>internal/wasm/runtime/pool.go\<close>).
  \<^item> \<open>Triggers\<close>: HTTP triggers with origins and access, schedules and event subscriptions
    (\<^verbatim>\<open>internal/trigger\<close>, \<^verbatim>\<open>internal/weborigin\<close>).
  \<^item> \<open>Sql_Store\<close>: SQL for plugins: handles of connections, transactions and cursors with their limits
    and their cleanup (\<^verbatim>\<open>sqlstore.go\<close>, \<^verbatim>\<open>host_sql.go\<close> of \<^verbatim>\<open>internal/wasm/hostapi\<close>).
  \<^item> \<open>Wasm_Module\<close>, \<open>Wasm_Loader\<close>, \<open>Wasm_Adapter\<close>: the actions of a compiled module
    (\<^verbatim>\<open>internal/wasm/runtime\<close>), loading, reloading and unloading of plugins with their checks and
    rights, and the commands and events of a loaded plugin (\<^verbatim>\<open>internal/wasm/adapter\<close>).
  \<^item> \<open>Plugin_Bundle\<close>, \<open>Plugin_Store\<close>, \<open>Plugin_Lifecycle\<close>: uploaded archives, the tables and blobs in
    which plugins are kept, and installing, enabling, disabling, updating, rolling back, configuring
    and deleting them (\<^verbatim>\<open>internal/admin/api\<close>).
  \<^item> \<open>Users\<close>: users, their accounts on the platforms, and linking (\<^verbatim>\<open>internal/user\<close>,
    \<^verbatim>\<open>internal/auth/tsu/linker.go\<close>). Tables are lists of rows; the failures of the database are a
    list of outcomes that calls consume one by one, so that a theorem holds for all of them.
  \<^item> \<open>Sessions\<close>: signed session tokens, tokens of users and keys of services, and their use by the
    HTTP triggers (\<^verbatim>\<open>internal/auth/session\<close>, \<^verbatim>\<open>internal/auth/userhttp\<close>).
  \<^item> \<open>Admin_Auth\<close>: credentials of administrators, signing in and the middleware of the
    administration (\<^verbatim>\<open>auth.go\<close>, \<^verbatim>\<open>auth_middleware.go\<close>, \<^verbatim>\<open>admin_cred_*.go\<close> of
    \<^verbatim>\<open>internal/admin/api\<close>).
  \<^item> \<open>Web_Login\<close>: signing in and linking with an account of the university
    (\<^verbatim>\<open>internal/auth/tsu\<close>).
  \<^item> This theory: properties of components together, the authorizer as the service of the channel
    manager and the event subscriber as the handler of the queue.

  \<^bold>\<open>State and effects.\<close> A struct is a record, an interface is a record of functions, a Go map is a
  partial function; where the code ranges over a map, it is an association list in the order of
  the iteration. An operation takes the state and returns it changed together with its result. The
  world outside the process (messengers, databases, the clock's waiting) is a type variable \<open>'w\<close>
  threaded through all calls, so that a theorem can say that nothing was sent. Errors are values
  of the datatype \<open>go_error\<close>, which keeps the wrapping chain that \<^verbatim>\<open>errors.Is\<close> and \<^verbatim>\<open>errors.As\<close>
  read. A function that reads the clock takes the instant as an argument.

  \<^bold>\<open>Loops.\<close> Loops over slices are structural recursion or folds. The dialog manager's input loop,
  which moves through steps that need no answer, may call arbitrary option providers and is a
  \<open>partial_function\<close>; a theorem shows that it returns. The retry loop has as fuel the number of
  attempts left, which the code's constant fixes.

  \<^bold>\<open>Properties.\<close> Each property stands in the theory of its component, after a text with its
  number. Of the dialogs and messages they show that back navigation restores the answered step, works
  once and ends in cancellation, that histories stay chains, that input and updates are always
  processed to an end, that users do not interfere, and that delayed messages are neither lost nor
  claimed twice under one lease. Of plugins: that the unmet dependencies are the right ones, that
  loading refines a map with checks, and grants rights only while a plugin is loaded, that commands
  are built as declared and well formed, that accepted archives are confined, that the lifecycle
  leaves other plugins alone, records what it installs, restores what it rolls back to and removes what it
  deletes, that calls between plugins, HTTP requests and SQL connections are bounded and accounted for,
  that events leave the queue only when accepted, and that a pool never runs more executions than
  its size and can always be closed. Of rights: that allowed commands have their roles, that the
  cache refines the history of its writes, that HTTP triggers run only for whom their settings
  admit and with a proven principal, that tokens are read back as what they were made for and work
  until removed, that accounts are not lost and a user stays the same, that the administration is
  guarded and its credentials are changed by their owners only, and that a login serves one callback,
  makes sessions of the administration for administrators only and redirects where its check allows.
  Lemmas that other lemmas rest on carry no number, nor do the lemmas that show a fault of the code.

  \<^bold>\<open>Fuel.\<close> The consumer's loop \<open>RunConsumer\<close>, which only ends with its context, takes the number of
  iterations as fuel; the properties are about one iteration from every reachable state. A delivery's
  attempts are bounded by the configured retries.

  \<^bold>\<open>Not modelled.\<close> Wiring and configuration (\<^verbatim>\<open>cmd\<close>, \<^verbatim>\<open>internal/config\<close>), the plugins under
  \<^verbatim>\<open>plugins\<close>, the messengers' own protocols, the handlers and tables of the university's structure
  (positions, deans, groups, imports), of chats and of users in the administration, the storage of
  files, the synchronisation of roles with SpiceDB, the PostgreSQL stores of notifications, the
  file, user and notification functions of the host, metrics, tracing and logging. The WebAssembly engine,
  SQL drivers, cryptography, JSON, regular expressions, URL parsing and the expression language are
  parameters with the results the code distinguishes. Operations of a component run one after another, as
  the locks in the code make them; where code runs concurrently without a lock (the pool,
  schedules, consumers of the queue) there is a step relation. The bounds of Go's \<^verbatim>\<open>int\<close> are kept where the
  result of a conversion depends on them.
\<close>

subsection \<open>Components together\<close>

text \<open>
  The authorizer as the service of the channel manager: its state is the first part of the world. A
  panic of the check, which needs a missing client, is an error of the service.
\<close>

definition authz_service ::
    "('p, 'w, 'x) authorizer \<Rightarrow> instant \<Rightarrow> user_id \<Rightarrow> string \<Rightarrow> string \<Rightarrow> role_requirements option \<Rightarrow>
     ('p, 'w, 'x) authz_state \<times> 'v \<Rightarrow> (('p, 'w, 'x) authz_state \<times> 'v) \<times> (go_error + bool)" where
  "authz_service A now u p c req st =
     (case CheckCommand A now u p c req (fst st) of
        Some (s', r) \<Rightarrow> ((s', snd st), r)
      | None \<Rightarrow> (st, Inl (Plain ''panic'')))"

lemma authz_service_True:
  assumes "authz_service A now u p c (Some req) st = (st', Inr True)" "role \<in> set (required_roles req)"
  shows "\<exists>cl. az_client A = Some cl \<and> granted cl u role"
proof -
  obtain s' where "CheckCommand A now u p c (Some req) (fst st) = Some (s', Inr True)"
    using assms(1) by (auto simp: authz_service_def split: option.splits)
  then obtain w where ok: "checkRolesSpice A u (Some req) (at_world (fst st)) = Some (w, Inr True)"
    by (rule CheckCommand_True)
  obtain cl where "az_client A = Some cl"
    using roles_panic_iff [of A u req "at_world (fst st)"] ok assms(2) by (cases "az_client A") auto
  with roles_granted [OF ok] assms(2) show ?thesis by blast
qed


text \<open>
  The event subscriber as the handler of the queue's consumer: plugins run in the world of the queue's
  state and do not publish.
\<close>

definition subscriber_handler :: "trigger_registry \<Rightarrow> 'w router \<Rightarrow> 'w pg_handler" where
  "subscriber_handler reg plugins src topic payload s =
     (case subscriber_Handle reg plugins (pg_now s) src topic payload (pg_world s) of
        (w, err) \<Rightarrow> (s\<lparr>pg_world := w\<rparr>, err))"

text \<open>
  C2. An event whose delivery to some subscribed plugin fails, with an error or an error answer,
  stays in the event queue, whatever the other subscribers and the database calls do.
\<close>

theorem event_stays_until_subscribers_accept:
  fixes s :: "'w pg_bus"
  assumes "reachable_pg s" and "r \<in> set (pg_rows s)"
    and "sub \<in> set (LookupEventSubscribers reg (qr_topic r))"
    and "\<forall>t w. subscriber_fails plugins t (qr_topic r) (qr_payload r) (qr_source r) sub w"
  shows "\<exists>r'. r' \<in> set (pg_rows (fst (consumeOnce (subscriber_handler reg plugins) s))) \<and> row_key r' = row_key r"
proof (rule refused_event_kept [OF assms(1) _ assms(2)])
  show "handler_appends (subscriber_handler reg plugins)"
    by (auto simp: handler_appends_def subscriber_handler_def split: prod.split)
  have "snd (subscriber_handler reg plugins (qr_source r) (qr_topic r) (qr_payload r) q) =
      snd (deliver_event plugins (pg_now q) (qr_topic r) (qr_payload r) (qr_source r)
        (LookupEventSubscribers reg (qr_topic r)) None (pg_world q))" for q :: "'w pg_bus"
    by (simp add: subscriber_handler_def subscriber_Handle_def case_prod_unfold)
  moreover have "snd (deliver_event plugins (pg_now q) (qr_topic r) (qr_payload r) (qr_source r)
      (LookupEventSubscribers reg (qr_topic r)) None (pg_world q)) \<noteq> None" for q :: "'w pg_bus"
    by (rule deliver_event_fails [OF assms(3)]) (use assms(4) in blast)
  ultimately show "handler_refuses (subscriber_handler reg plugins) (qr_source r) (qr_topic r) (qr_payload r)"
    unfolding handler_refuses_def by simp
qed

text \<open>A queue with one event, for which a plugin without a handler is subscribed.\<close>

definition demo_event_registry :: trigger_registry where
  "demo_event_registry = RegisterTriggers (\<lambda>_. None) ''gone''
     [\<lparr>td_Name = ''on_t'', td_Type = ''event'', td_Path = '''', td_Methods = [], td_Schedule = '''', td_Topic = ''t''\<rparr>] NewRegistry"

definition demo_events :: "unit pg_bus" where
  "demo_events = fst (pg_Publish (\<lambda>_. True) (\<lambda>p. p) ''p'' ''t'' ''{}'' (NewPostgresBus ''i'' None False [] 1 [] 0 ()))"

theorem event_stays_until_subscribers_accept_witness:
  "\<exists>r. r \<in> set (pg_rows (fst (consumeOnce (subscriber_handler demo_event_registry Map.empty) demo_events))) \<and> qr_id r = 1"
proof -
  let ?r = "hd (pg_rows demo_events)"
  have r: "?r \<in> set (pg_rows demo_events)" "qr_id ?r = 1" "qr_topic ?r = ''t''"
    by (simp_all add: demo_events_def pg_Publish_def NewPostgresBus_def exec_def Let_def pg_incMetric_def pg_incAppMetric_def)
  have "reachable_pg demo_events" unfolding demo_events_def by (intro reachable_pg.intros)
  moreover have "\<lparr>er_PluginID = ''gone'', er_TriggerName = ''on_t''\<rparr> \<in> set (LookupEventSubscribers demo_event_registry (qr_topic ?r))"
    by (simp add: r demo_event_registry_def RegisterTriggers_def register_trigger_def NewRegistry_def LookupEventSubscribers_def)
  moreover have "\<forall>t w. subscriber_fails Map.empty t (qr_topic ?r) (qr_payload ?r) (qr_source ?r) \<lparr>er_PluginID = ''gone'', er_TriggerName = ''on_t''\<rparr> (w :: unit)"
    by (simp add: subscriber_fails_def route_event_def)
  ultimately obtain r' where "r' \<in> set (pg_rows (fst (consumeOnce (subscriber_handler demo_event_registry Map.empty) demo_events)))" "row_key r' = row_key ?r"
    using event_stays_until_subscribers_accept [OF _ r(1)] by blast
  with r(2) show ?thesis by (auto simp: row_key_def)
qed

text \<open>A command that needs a role which user 2 does not have.\<close>

definition demo_role_command :: command_definition where
  "demo_role_command = (demo_command ''x'')\<lparr>cd_Requirements := Some demo_requirements\<rparr>"

definition demo_role_services :: "(mem_redis redis_storage, (string, unit, unit) authz_state \<times> unit) services" where
  "demo_role_services = \<lparr>sv_FindOrCreateUser = (\<lambda>ch pid name w. (w, Inr (Channel_Manager.demo_user pid))),
     sv_IsBlocked = None, sv_FindChatGroupID = None, sv_CheckCommand = authz_service demo_authorizer 0,
     sv_plugins = [(''a'', (demo_plugin ''a'')\<lparr>pl_Commands := [demo_role_command]\<rparr>)],
     sv_handlers = Map.empty, sv_adapters = NewAdapterRegistry, sv_storage = redis_storage_ops mem_ops,
     sv_context = demo_ctx, sv_env = demo_env\<rparr>"

definition demo_role_channels :: "(mem_redis redis_storage, (string, unit, unit) authz_state \<times> unit) channel_manager" where
  "demo_role_channels = \<lparr>cm_state = demo_manager, cm_focus = None, cm_lastBotMsgID = Map.empty, cm_world = (demo_authz_state, ()),
     cm_sends = None, cm_metrics = None, cm_updates = None\<rparr>"


end
